(* ===== verification/Prelude.thy ===== *)
theory Prelude
  imports Main "HOL-Library.Char_ord" "HOL-Library.List_Lexorder" "HOL-Library.Product_Lexorder"
    "HOL-Library.Sublist"
begin

text \<open>
  Shared vocabulary of the development: the parts of Go's standard library the program relies on
  (strings as byte lists, the error values of \<open>errors\<close> and \<open>fmt\<close>), and the computation type in
  which every database operation of the program is written.

  A computation takes a state and returns a result (\<open>Inl\<close> an error, \<open>Inr\<close> a value) together with
  the next state. Everything the program does not control (the clock, the identifiers and random
  bytes it draws, the moments at which the database driver fails) is read from an oracle indexed by
  a step counter, so that every error branch of the source is reachable in the model and two calls
  of the clock may differ. The locale \<open>frame\<close> states what it takes for a relation between states to
  be respected by every composed computation; its lemmas carry the invariant proofs of all
  components.
\<close>

section \<open>Collections of rules\<close>

named_theorems go_simps \<open>evaluation of computations\<close>
named_theorems moves_intro \<open>structural rules for state relations\<close>
named_theorems raises_intro \<open>structural rules for the errors a computation may return\<close>

section \<open>Go strings\<close>

text \<open>
  A Go string is a sequence of bytes; \<open>string\<close> is a list of 8-bit characters. The encodings below
  are those of the code points for which \<open>unicode.IsSpace\<close> holds, so \<open>trim_space\<close> is
  \<open>strings.TrimSpace\<close> on every byte sequence. Case mapping is exact on ASCII and on the two code
  points outside ASCII that map into it (KELVIN SIGN, LATIN CAPITAL I WITH DOT ABOVE for lower case;
  DOTLESS I, LONG S for upper case); other letters beyond ASCII are left as they are.
\<close>

definition space_encodings :: "string list" where
  "space_encodings =
     [[CHR 0x09], [CHR 0x0A], [CHR 0x0B], [CHR 0x0C], [CHR 0x0D], [CHR 0x20],
      [CHR 0xC2, CHR 0x85], [CHR 0xC2, CHR 0xA0], [CHR 0xE1, CHR 0x9A, CHR 0x80],
      [CHR 0xE2, CHR 0x80, CHR 0x80], [CHR 0xE2, CHR 0x80, CHR 0x81],
      [CHR 0xE2, CHR 0x80, CHR 0x82], [CHR 0xE2, CHR 0x80, CHR 0x83],
      [CHR 0xE2, CHR 0x80, CHR 0x84], [CHR 0xE2, CHR 0x80, CHR 0x85],
      [CHR 0xE2, CHR 0x80, CHR 0x86], [CHR 0xE2, CHR 0x80, CHR 0x87],
      [CHR 0xE2, CHR 0x80, CHR 0x88], [CHR 0xE2, CHR 0x80, CHR 0x89],
      [CHR 0xE2, CHR 0x80, CHR 0x8A], [CHR 0xE2, CHR 0x80, CHR 0xA8],
      [CHR 0xE2, CHR 0x80, CHR 0xA9], [CHR 0xE2, CHR 0x80, CHR 0xAF],
      [CHR 0xE2, CHR 0x81, CHR 0x9F], [CHR 0xE3, CHR 0x80, CHR 0x80]]"

function strip_left :: "string list \<Rightarrow> string \<Rightarrow> string" where
  "strip_left ps s =
     (case find (\<lambda>p. p \<noteq> [] \<and> prefix p s) ps of
        None \<Rightarrow> s
      | Some p \<Rightarrow> strip_left ps (drop (length p) s))"
  by pat_completeness auto
termination
  by (relation "measure (\<lambda>(ps, s). length s)") (auto simp: find_Some_iff prefix_def)

declare strip_left.simps [simp del]

definition strip_right :: "string list \<Rightarrow> string \<Rightarrow> string" where
  "strip_right ps s = rev (strip_left (map rev ps) (rev s))"

definition trim_space :: "string \<Rightarrow> string" where
  "trim_space s = strip_right space_encodings (strip_left space_encodings s)"

text \<open>\<open>strings.Trim (s, cutset)\<close> for an ASCII cutset.\<close>

definition trim_cutset :: "string \<Rightarrow> string \<Rightarrow> string" where
  "trim_cutset cs s =
     rev (dropWhile (\<lambda>c. c \<in> set cs) (rev (dropWhile (\<lambda>c. c \<in> set cs) s)))"

definition is_lower :: "char \<Rightarrow> bool" where
  "is_lower c \<longleftrightarrow> CHR ''a'' \<le> c \<and> c \<le> CHR ''z''"

definition is_upper :: "char \<Rightarrow> bool" where
  "is_upper c \<longleftrightarrow> CHR ''A'' \<le> c \<and> c \<le> CHR ''Z''"

definition is_digit :: "char \<Rightarrow> bool" where
  "is_digit c \<longleftrightarrow> CHR ''0'' \<le> c \<and> c \<le> CHR ''9''"

definition is_letter :: "char \<Rightarrow> bool" where
  "is_letter c \<longleftrightarrow> is_lower c \<or> is_upper c"

definition is_alnum :: "char \<Rightarrow> bool" where
  "is_alnum c \<longleftrightarrow> is_letter c \<or> is_digit c"

definition ascii_lower :: "char \<Rightarrow> char" where
  "ascii_lower c = (if is_upper c then char_of (of_char c + 32 :: nat) else c)"

definition ascii_upper :: "char \<Rightarrow> char" where
  "ascii_upper c = (if is_lower c then char_of (of_char c - 32 :: nat) else c)"

fun to_lower :: "string \<Rightarrow> string" where
  "to_lower [] = []"
| "to_lower (c # s) =
     (if prefix [CHR 0xE2, CHR 0x84, CHR 0xAA] (c # s) then CHR ''k'' # to_lower (drop 2 s)
      else if prefix [CHR 0xC4, CHR 0xB0] (c # s) then CHR ''i'' # to_lower (drop 1 s)
      else ascii_lower c # to_lower s)"

fun to_upper :: "string \<Rightarrow> string" where
  "to_upper [] = []"
| "to_upper (c # s) =
     (if prefix [CHR 0xC4, CHR 0xB1] (c # s) then CHR ''I'' # to_upper (drop 1 s)
      else if prefix [CHR 0xC5, CHR 0xBF] (c # s) then CHR ''S'' # to_upper (drop 1 s)
      else ascii_upper c # to_upper s)"

text \<open>\<open>strings.TrimPrefix\<close>.\<close>

definition trim_prefix :: "string \<Rightarrow> string \<Rightarrow> string" where
  "trim_prefix p s = (if prefix p s then drop (length p) s else s)"

text \<open>\<open>strings.ReplaceAll (s, [c], "")\<close> for a single byte.\<close>

definition remove_byte :: "char \<Rightarrow> string \<Rightarrow> string" where
  "remove_byte c s = filter (\<lambda>d. d \<noteq> c) s"

text \<open>\<open>strings.Index\<close> for a single byte, \<open>strings.Split\<close> on a single byte, \<open>strings.Cut\<close> on a single
  byte; \<open>strings.Cut\<close> returns the text before and after the separator and whether it was found.\<close>

definition split_on :: "char \<Rightarrow> string \<Rightarrow> string list" where
  "split_on c s =
     foldr (\<lambda>d acc. if d = c then [] # acc else (d # hd acc) # tl acc) s [[]]"

definition cut_at :: "char \<Rightarrow> string \<Rightarrow> string \<times> string \<times> bool" where
  "cut_at c s =
     (if c \<in> set s then (takeWhile (\<lambda>d. d \<noteq> c) s, tl (dropWhile (\<lambda>d. d \<noteq> c) s), True)
      else (s, [], False))"

text \<open>Decimal rendering of a natural number (\<open>strconv.Itoa\<close>, \<open>%d\<close>).\<close>

fun nat_digits :: "nat \<Rightarrow> string" where
  "nat_digits n =
     (if n < 10 then [char_of (48 + n)] else nat_digits (n div 10) @ [char_of (48 + n mod 10)])"

declare nat_digits.simps [simp del]

text \<open>Lower-case hexadecimal rendering of bytes (\<open>hex.EncodeToString\<close>).\<close>

definition hex_digit :: "nat \<Rightarrow> char" where
  "hex_digit n = (if n < 10 then char_of (48 + n) else char_of (87 + n))"

definition hex_encode :: "nat list \<Rightarrow> string" where
  "hex_encode bs = concat (map (\<lambda>b. [hex_digit (b div 16), hex_digit (b mod 16)]) bs)"

section \<open>Errors\<close>

text \<open>
  Error values as Go builds them: a sentinel made by \<open>errors.New\<close> is identified by its message, and
  \<open>fmt.Errorf\<close> with \<open>%w\<close> wraps another error; \<open>errors.Is\<close> looks through the chain. The driver
  reports a query without a row, a constraint that a statement would break, or any other failure.
\<close>

datatype sql_err =
  NoRows | UniqueViolation | ForeignKeyViolation | CheckViolation | DriverFailure

datatype err = ErrNew string | ErrWrap string err | ErrSql sql_err

fun errors_is :: "err \<Rightarrow> err \<Rightarrow> bool" where
  "errors_is (ErrWrap m e) t \<longleftrightarrow> ErrWrap m e = t \<or> errors_is e t"
| "errors_is e t \<longleftrightarrow> e = t"

section \<open>Computations\<close>

record environ =
  o_now :: "nat \<Rightarrow> int"
  o_fault :: "nat \<Rightarrow> bool"
  o_uuid :: "nat \<Rightarrow> string"
  o_rand :: "nat \<Rightarrow> nat list option"

record base =
  orc :: environ
  stp :: nat

type_synonym ('x, 'a) go = "'x base_scheme \<Rightarrow> (err + 'a) \<times> 'x base_scheme"

definition tick :: "'x base_scheme \<Rightarrow> 'x base_scheme" where
  "tick w = w\<lparr>stp := Suc (stp w)\<rparr>"

definition ret :: "'a \<Rightarrow> ('x, 'a) go" where
  "ret x w = (Inr x, w)"

definition fail :: "err \<Rightarrow> ('x, 'a) go" where
  "fail e w = (Inl e, w)"

definition bnd :: "('x, 'a) go \<Rightarrow> ('a \<Rightarrow> ('x, 'b) go) \<Rightarrow> ('x, 'b) go" where
  "bnd m f w = (case m w of (Inl e, w') \<Rightarrow> (Inl e, w') | (Inr x, w') \<Rightarrow> f x w')"

text \<open>A pure result as a computation.\<close>

definition lift_res :: "err + 'a \<Rightarrow> ('x, 'a) go" where
  "lift_res r w = (r, w)"

text \<open>\<open>attempt m\<close> runs \<open>m\<close> and hands its result, error included, to the continuation, as
  \<open>x, err := m()\<close> does.\<close>

definition attempt :: "('x, 'a) go \<Rightarrow> ('x, err + 'a) go" where
  "attempt m w = (case m w of (r, w') \<Rightarrow> (Inr r, w'))"

fun for_each :: "('a \<Rightarrow> ('x, unit) go) \<Rightarrow> 'a list \<Rightarrow> ('x, unit) go" where
  "for_each f [] = ret ()"
| "for_each f (x # xs) = bnd (f x) (\<lambda>_. for_each f xs)"

fun map_each :: "('a \<Rightarrow> ('x, 'b) go) \<Rightarrow> 'a list \<Rightarrow> ('x, 'b list) go" where
  "map_each f [] = ret []"
| "map_each f (x # xs) = bnd (f x) (\<lambda>y. bnd (map_each f xs) (\<lambda>ys. ret (y # ys)))"

definition time_now :: "('x, int) go" where
  "time_now w = (Inr (o_now (orc w) (stp w)), tick w)"

definition new_uuid :: "('x, string) go" where
  "new_uuid w = (Inr (o_uuid (orc w) (stp w)), tick w)"

definition rand_read :: "nat \<Rightarrow> ('x, nat list) go" where
  "rand_read n w =
     (case o_rand (orc w) (stp w) of
        None \<Rightarrow> (Inl (ErrNew ''rand''), tick w)
      | Some bs \<Rightarrow> (Inr (map (\<lambda>b. b mod 256) (take n (bs @ replicate n 0))), tick w))"

text \<open>A read of the database: it may fail in the driver, and changes nothing.\<close>

definition db_query :: "('x base_scheme \<Rightarrow> 'a) \<Rightarrow> ('x, 'a) go" where
  "db_query f w =
     (if o_fault (orc w) (stp w) then (Inl (ErrSql DriverFailure), tick w) else (Inr (f w), tick w))"

text \<open>\<open>QueryRow(...).Scan\<close>: a query for one row, \<open>sql.ErrNoRows\<close> when there is none.\<close>

definition db_query_row :: "('x base_scheme \<Rightarrow> 'a option) \<Rightarrow> ('x, 'a) go" where
  "db_query_row f =
     bnd (db_query f) (\<lambda>r. case r of None \<Rightarrow> fail (ErrSql NoRows) | Some x \<Rightarrow> ret x)"

text \<open>
  A write statement: it fails in the driver, is refused by a constraint, or yields the number of
  rows affected and the new tables.
\<close>

definition db_exec :: "('x base_scheme \<Rightarrow> sql_err + nat \<times> 'x base_scheme) \<Rightarrow> ('x, nat) go" where
  "db_exec f w =
     (if o_fault (orc w) (stp w) then (Inl (ErrSql DriverFailure), tick w)
      else case f w of
          Inl e \<Rightarrow> (Inl (ErrSql e), tick w)
        | Inr (n, w') \<Rightarrow> (Inr n, tick w'))"

text \<open>\<open>fmt.Errorf("msg: %w", err)\<close> around whatever error a step returns.\<close>

definition wrapping :: "string \<Rightarrow> ('x, 'a) go \<Rightarrow> ('x, 'a) go" where
  "wrapping msg m w = (case m w of (Inl e, w') \<Rightarrow> (Inl (ErrWrap msg e), w') | (Inr x, w') \<Rightarrow> (Inr x, w'))"

text \<open>
  A transaction: begin and commit may fail (\<open>fb\<close> and \<open>fc\<close> say how the code reports it); on any error
  the tables are those of before the transaction (the steps taken are not undone). The pool holds one
  connection (\<open>internal/db/db.go\<close>), so transactions and statements run one after the other.
\<close>

definition transaction_as ::
  "(err \<Rightarrow> err) \<Rightarrow> (err \<Rightarrow> err) \<Rightarrow> ('x, 'a) go \<Rightarrow> ('x, 'a) go" where
  "transaction_as fb fc m w =
     (if o_fault (orc w) (stp w) then (Inl (fb (ErrSql DriverFailure)), tick w)
      else case m (tick w) of
          (Inl e, w') \<Rightarrow> (Inl e, w\<lparr>stp := Suc (stp w')\<rparr>)
        | (Inr x, w') \<Rightarrow>
            (if o_fault (orc w') (stp w')
             then (Inl (fc (ErrSql DriverFailure)), w\<lparr>stp := Suc (stp w')\<rparr>)
             else (Inr x, tick w')))"

abbreviation transaction :: "('x, 'a) go \<Rightarrow> ('x, 'a) go" where
  "transaction \<equiv> transaction_as (\<lambda>e. e) (\<lambda>e. e)"

text \<open>Durations and instants are in nanoseconds, as in \<open>time\<close>; \<open>unix\<close> is \<open>Time.Unix\<close>.\<close>

definition second :: int where
  "second = 1000000000"

definition unix :: "int \<Rightarrow> int" where
  "unix t = t div second"

text \<open>Go's integer division rounds towards zero.\<close>

definition go_quot :: "int \<Rightarrow> int \<Rightarrow> int" where
  "go_quot a b = sgn a * sgn b * (\<bar>a\<bar> div \<bar>b\<bar>)"

text \<open>\<open>base64\<close>: the three-byte groups of the input as four digits of an alphabet of 64 characters.\<close>

definition base64_std :: string where
  "base64_std = ''ABCDEFGHIJKLMNOPQRSTUVWXYZabcdefghijklmnopqrstuvwxyz0123456789+/''"

definition base64_url :: string where
  "base64_url = ''ABCDEFGHIJKLMNOPQRSTUVWXYZabcdefghijklmnopqrstuvwxyz0123456789-_''"

fun base64_encode :: "string \<Rightarrow> string \<Rightarrow> nat list \<Rightarrow> string" where
  "base64_encode al pad (a # b # c # bs) =
     [al ! (a div 4), al ! (a mod 4 * 16 + b div 16), al ! (b mod 16 * 4 + c div 64), al ! (c mod 64)]
       @ base64_encode al pad bs"
| "base64_encode al pad [a, b] =
     [al ! (a div 4), al ! (a mod 4 * 16 + b div 16), al ! (b mod 16 * 4)] @ pad"
| "base64_encode al pad [a] = [al ! (a div 4), al ! (a mod 4 * 16)] @ pad @ pad"
| "base64_encode al pad [] = []"

text \<open>
  Decoding with padding (\<open>base64.StdEncoding.DecodeString\<close>): line breaks are skipped, any other byte
  that is no digit, and any missing or misplaced padding, is an error; unused bits are ignored.
\<close>

definition base64_value :: "char \<Rightarrow> nat option" where
  "base64_value c =
     map_option fst (find (\<lambda>p. snd p = c) (zip [0..<64] base64_std))"

fun base64_quads :: "string \<Rightarrow> nat list option" where
  "base64_quads [] = Some []"
| "base64_quads (a # b # c # d # rest) =
     (case (base64_value a, base64_value b) of
        (Some x, Some y) \<Rightarrow>
          (if c = CHR ''='' then (if d = CHR ''='' \<and> rest = [] then Some [x * 4 + y div 16] else None)
           else case base64_value c of
               None \<Rightarrow> None
             | Some z \<Rightarrow>
                 (if d = CHR ''=''
                  then (if rest = [] then Some [x * 4 + y div 16, y mod 16 * 16 + z div 4] else None)
                  else case base64_value d of
                      None \<Rightarrow> None
                    | Some u \<Rightarrow>
                        map_option (\<lambda>bs. [x * 4 + y div 16, y mod 16 * 16 + z div 4, z mod 4 * 64 + u] @ bs)
                          (base64_quads rest)))
      | _ \<Rightarrow> None)"
| "base64_quads _ = None"

definition base64_decode :: "string \<Rightarrow> nat list option" where
  "base64_decode s = base64_quads (filter (\<lambda>c. c \<noteq> CHR 0x0A \<and> c \<noteq> CHR 0x0D) s)"

text \<open>A call of a library that draws on randomness of its own: the step determines the outcome.\<close>

definition draw :: "(nat \<Rightarrow> err + 'a) \<Rightarrow> ('x, 'a) go" where
  "draw f w = (f (stp w), tick w)"

text \<open>State outside the database, behind a mutex: read and replaced in one step.\<close>

definition access :: "('x base_scheme \<Rightarrow> 'a \<times> 'x base_scheme) \<Rightarrow> ('x, 'a) go" where
  "access f w = (case f w of (x, w') \<Rightarrow> (Inr x, w'))"

text \<open>Go ranges over the keys of a map in an order of its own each time.\<close>

definition range_keys :: "(nat \<Rightarrow> string list \<Rightarrow> string list) \<Rightarrow> string list \<Rightarrow> ('x, string list) go" where
  "range_keys order xs = access (\<lambda>w. (order (stp w) xs, w))"

section \<open>Evaluating computations\<close>

lemma ret_run [go_simps]: "ret x w = (Inr x, w)"
  by (simp add: ret_def)

lemma fail_run [go_simps]: "fail e w = (Inl e, w)"
  by (simp add: fail_def)

lemma lift_res_run [go_simps]: "lift_res r w = (r, w)"
  by (simp add: lift_res_def)

lemma attempt_run: "attempt m w = (Inr (fst (m w)), snd (m w))"
  by (simp add: attempt_def case_prod_beta)

lemma bnd_ret [simp]: "bnd (ret x) f = f x"
  by (rule ext) (simp add: bnd_def ret_def)

lemma bnd_fail [simp]: "bnd (fail e) f = fail e"
  by (rule ext) (simp add: bnd_def fail_def)

text \<open>Pushing the continuation inwards keeps what a branch knows.\<close>

lemma bnd_assoc: "bnd (bnd m f) g = bnd m (\<lambda>x. bnd (f x) g)"
  by (rule ext) (auto simp: bnd_def split: prod.split sum.split)

lemma bnd_if: "bnd (if b then m else n) f = (if b then bnd m f else bnd n f)"
  by simp

lemma bnd_lift_res: "bnd (lift_res r) f = (case r of Inl e \<Rightarrow> fail e | Inr x \<Rightarrow> f x)"
  by (rule ext) (auto simp: bnd_def lift_res_def fail_def split: sum.split)

lemma bnd_case_sum:
  "bnd (case r of Inl e \<Rightarrow> m e | Inr x \<Rightarrow> n x) f = (case r of Inl e \<Rightarrow> bnd (m e) f | Inr x \<Rightarrow> bnd (n x) f)"
  by (auto split: sum.split)

lemma bnd_case_option:
  "bnd (case r of None \<Rightarrow> m | Some x \<Rightarrow> n x) f = (case r of None \<Rightarrow> bnd m f | Some x \<Rightarrow> bnd (n x) f)"
  by (auto split: option.split)

lemmas bnd_inward = bnd_assoc bnd_if bnd_lift_res bnd_case_sum bnd_case_option

lemma bnd_Inr [go_simps]: "m w = (Inr x, w') \<Longrightarrow> bnd m f w = f x w'"
  by (simp add: bnd_def)

lemma bnd_Inl [go_simps]: "m w = (Inl e, w') \<Longrightarrow> bnd m f w = (Inl e, w')"
  by (simp add: bnd_def)

lemma bnd_eq_Inr_iff:
  "bnd m f w = (Inr y, w') \<longleftrightarrow> (\<exists>x v. m w = (Inr x, v) \<and> f x v = (Inr y, w'))"
  by (auto simp: bnd_def split: prod.splits sum.splits)

lemma bnd_eq_Inl_iff:
  "bnd m f w = (Inl e, w') \<longleftrightarrow>
     m w = (Inl e, w') \<or> (\<exists>x v. m w = (Inr x, v) \<and> f x v = (Inl e, w'))"
  by (auto simp: bnd_def split: prod.splits sum.splits)

lemma bnd_total: "fst (m w) = Inr x \<Longrightarrow> bnd m f w = f x (snd (m w))"
  by (cases "m w") (simp add: bnd_def)

lemma bnd_attempt: "bnd (attempt m) f w = f (fst (m w)) (snd (m w))"
  by (simp add: bnd_def attempt_run)

lemma db_query_row_cases:
  "db_query_row f w =
     (if o_fault (orc w) (stp w) then (Inl (ErrSql DriverFailure), tick w)
      else case f w of None \<Rightarrow> (Inl (ErrSql NoRows), tick w) | Some x \<Rightarrow> (Inr x, tick w))"
  by (auto simp: db_query_row_def bnd_def db_query_def go_simps split: option.split)

lemma map_each_Inr:
  assumes "map_each f xs w = (Inr ys, w')" and "\<And>x y v v'. f x v = (Inr y, v') \<Longrightarrow> P y"
  shows "length ys = length xs \<and> list_all P ys"
  using assms(1)
  by (induction xs arbitrary: w ys) (auto simp: bnd_eq_Inr_iff go_simps dest: assms(2))

lemma for_each_Cons_Inr:
  "for_each f (x # xs) w = (Inr (), w') \<longleftrightarrow>
     (\<exists>v. f x w = (Inr (), v) \<and> for_each f xs v = (Inr (), w'))"
  by (simp add: bnd_eq_Inr_iff)

lemma attempt_else_fail_Inr:
  "bnd (attempt m) (\<lambda>r. case r of Inl e \<Rightarrow> fail (g e) | Inr x \<Rightarrow> k x) w = (Inr y, w') \<longleftrightarrow>
     (\<exists>x v. m w = (Inr x, v) \<and> k x v = (Inr y, w'))"
  by (cases "m w") (auto simp: bnd_def attempt_def fail_def split: sum.splits)

lemma new_uuid_eq_Inr_iff: "new_uuid w = (Inr i, w') \<longleftrightarrow> i = o_uuid (orc w) (stp w) \<and> w' = tick w"
  by (auto simp: new_uuid_def)

lemma db_query_eq_Inr_iff:
  "db_query f w = (Inr x, w') \<longleftrightarrow> \<not> o_fault (orc w) (stp w) \<and> x = f w \<and> w' = tick w"
  by (auto simp: db_query_def)

lemma db_query_row_eq_Inr_iff:
  "db_query_row f w = (Inr x, w') \<longleftrightarrow>
     \<not> o_fault (orc w) (stp w) \<and> f w = Some x \<and> w' = tick w"
  by (auto simp: db_query_row_def bnd_eq_Inr_iff db_query_eq_Inr_iff ret_def fail_def
      split: option.splits)

lemma db_exec_eq_Inr_iff:
  "db_exec f w = (Inr n, w') \<longleftrightarrow>
     \<not> o_fault (orc w) (stp w) \<and> (\<exists>v. f w = Inr (n, v) \<and> w' = tick v)"
  by (auto simp: db_exec_def split: sum.splits prod.splits)

lemma wrapping_eq_Inr_iff: "wrapping msg m w = (Inr x, w') \<longleftrightarrow> m w = (Inr x, w')"
  by (auto simp: wrapping_def split: prod.splits sum.splits)

lemma wrapping_eq_Inl_iff:
  "wrapping msg m w = (Inl e, w') \<longleftrightarrow> (\<exists>e'. e = ErrWrap msg e' \<and> m w = (Inl e', w'))"
  by (auto simp: wrapping_def split: prod.splits sum.splits)

lemma time_now_eq_Inr_iff: "time_now w = (Inr t, w') \<longleftrightarrow> t = o_now (orc w) (stp w) \<and> w' = tick w"
  by (auto simp: time_now_def)

lemma access_eq_Inr_iff: "access f w = (Inr x, w') \<longleftrightarrow> f w = (x, w')"
  by (auto simp: access_def split: prod.splits)

lemma draw_eq_Inr_iff: "draw f w = (Inr x, w') \<longleftrightarrow> f (stp w) = Inr x \<and> w' = tick w"
  by (auto simp: draw_def)

lemma rand_read_eq_Inr_iff:
  "rand_read n w = (Inr bs, w') \<longleftrightarrow>
     (\<exists>xs. o_rand (orc w) (stp w) = Some xs \<and> bs = map (\<lambda>b. b mod 256) (take n (xs @ replicate n 0)) \<and> w' = tick w)"
  by (auto simp: rand_read_def split: option.splits)

lemmas run_iffs =
  wrapping_eq_Inr_iff access_eq_Inr_iff draw_eq_Inr_iff time_now_eq_Inr_iff rand_read_eq_Inr_iff bnd_eq_Inr_iff db_query_eq_Inr_iff db_query_row_eq_Inr_iff db_exec_eq_Inr_iff new_uuid_eq_Inr_iff

lemma tick_simps [simp]: "stp (tick w) = Suc (stp w)" "orc (tick w) = orc w"
  by (simp_all add: tick_def)

text \<open>A transaction that returns an error leaves every table as it was.\<close>

lemma transaction_atomic:
  "transaction_as fb fc m w = (Inl e, w') \<Longrightarrow> w' = w\<lparr>stp := stp w'\<rparr>"
  by (auto simp: transaction_as_def tick_def split: if_splits prod.splits sum.splits)

lemma transaction_eq_Inr_iff:
  "transaction_as fb fc m w = (Inr x, w') \<longleftrightarrow>
     \<not> o_fault (orc w) (stp w) \<and>
     (\<exists>v. m (tick w) = (Inr x, v) \<and> \<not> o_fault (orc v) (stp v) \<and> w' = tick v)"
  by (auto simp: transaction_as_def split: if_splits prod.splits sum.splits)

text \<open>A state whose database driver never fails.\<close>

definition quiet :: "'x base_scheme \<Rightarrow> bool" where
  "quiet w \<longleftrightarrow> (\<forall>n. \<not> o_fault (orc w) n)"

section \<open>Relations between the state before and after\<close>

definition moves ::
  "('x base_scheme \<Rightarrow> 'x base_scheme \<Rightarrow> bool) \<Rightarrow> ('x, 'a) go \<Rightarrow> bool" where
  "moves R m \<longleftrightarrow> (\<forall>w. R w (snd (m w)))"

lemma movesD: "moves R m \<Longrightarrow> m w = (r, w') \<Longrightarrow> R w w'"
  by (metis moves_def snd_conv)

lemma moves_snd: "moves R m \<Longrightarrow> R w (snd (m w))"
  by (simp add: moves_def)

lemma moves_if [moves_intro]:
  "(b \<Longrightarrow> moves R m) \<Longrightarrow> (\<not> b \<Longrightarrow> moves R n) \<Longrightarrow> moves R (if b then m else n)"
  by simp

lemma moves_case_option [moves_intro]:
  "(x = None \<Longrightarrow> moves R m) \<Longrightarrow> (\<And>y. x = Some y \<Longrightarrow> moves R (n y)) \<Longrightarrow>
     moves R (case x of None \<Rightarrow> m | Some y \<Rightarrow> n y)"
  by (cases x) auto

lemma moves_case_sum [moves_intro]:
  "(\<And>e. x = Inl e \<Longrightarrow> moves R (m e)) \<Longrightarrow> (\<And>y. x = Inr y \<Longrightarrow> moves R (n y)) \<Longrightarrow>
     moves R (case x of Inl e \<Rightarrow> m e | Inr y \<Rightarrow> n y)"
  by (cases x) auto

lemma moves_case_prod [moves_intro]:
  "(\<And>a b. x = (a, b) \<Longrightarrow> moves R (m a b)) \<Longrightarrow> moves R (case x of (a, b) \<Rightarrow> m a b)"
  by (cases x) auto

lemma moves_case_bool [moves_intro]:
  "(x \<Longrightarrow> moves R m) \<Longrightarrow> (\<not> x \<Longrightarrow> moves R n) \<Longrightarrow> moves R (case x of True \<Rightarrow> m | False \<Rightarrow> n)"
  by (cases x) auto

lemma moves_let [moves_intro]: "(\<And>y. y = x \<Longrightarrow> moves R (m y)) \<Longrightarrow> moves R (let y = x in m y)"
  by (simp add: Let_def)

text \<open>
  A reflexive and transitive relation that ignores the step counter is respected by a composed
  computation as soon as each write statement in it respects the relation.
\<close>

locale frame =
  fixes R :: "'x base_scheme \<Rightarrow> 'x base_scheme \<Rightarrow> bool"
  assumes R_refl: "R w w"
    and R_trans: "R u v \<Longrightarrow> R v w \<Longrightarrow> R u w"
    and R_step: "R w (w\<lparr>stp := n\<rparr>)"
begin

lemma R_tick: "R v w \<Longrightarrow> R v (tick w)"
  by (metis R_trans R_step tick_def)

lemma frame_ret: "moves R (ret x)"
  by (simp add: moves_def R_refl go_simps)

lemma frame_fail: "moves R (fail e)"
  by (simp add: moves_def R_refl go_simps)

lemma frame_lift_res: "moves R (lift_res r)"
  by (simp add: moves_def R_refl go_simps)

lemma frame_bnd: "moves R m \<Longrightarrow> (\<And>x. moves R (f x)) \<Longrightarrow> moves R (bnd m f)"
  unfolding moves_def bnd_def by (auto split: prod.split sum.split) (metis R_trans snd_conv)+

text \<open>The same rule with what the first computation returned.\<close>

lemma frame_bnd_run:
  assumes "moves R m" and "\<And>w x w'. m w = (Inr x, w') \<Longrightarrow> moves R (f x)"
  shows "moves R (bnd m f)"
proof -
  have "R w (snd (bnd m f w))" for w
  proof (cases "m w")
    case (Pair r v)
    with assms(1) have "R w v" by (metis moves_def snd_conv)
    with Pair assms(2) [of w _ v] show ?thesis
      by (cases r) (auto simp: bnd_def moves_def intro: R_trans)
  qed
  then show ?thesis by (simp add: moves_def)
qed

lemma frame_attempt: "moves R m \<Longrightarrow> moves R (attempt m)"
  by (simp add: moves_def attempt_run)

lemma frame_wrapping: "moves R m \<Longrightarrow> moves R (wrapping msg m)"
  by (auto simp: moves_def wrapping_def split: prod.split sum.split) (metis snd_conv)+

lemma frame_query: "moves R (db_query f)"
  by (simp add: moves_def db_query_def R_tick R_refl)

lemma frame_query_row: "moves R (db_query_row f)"
  unfolding db_query_row_def
  by (auto intro!: frame_bnd frame_query frame_ret frame_fail split: option.split)

lemma frame_time: "moves R time_now"
  by (simp add: moves_def time_now_def R_tick R_refl)

lemma frame_uuid: "moves R new_uuid"
  by (simp add: moves_def new_uuid_def R_tick R_refl)

lemma frame_rand: "moves R (rand_read n)"
  by (auto simp: moves_def rand_read_def R_tick R_refl split: option.split)

lemma frame_exec: "(\<And>w n w'. f w = Inr (n, w') \<Longrightarrow> R w w') \<Longrightarrow> moves R (db_exec f)"
  by (auto simp: moves_def db_exec_def R_refl intro!: R_tick split: sum.split)

lemma frame_draw: "moves R (draw f)"
  by (simp add: moves_def draw_def R_tick R_refl)

lemma frame_access: "(\<And>w. R w (snd (f w))) \<Longrightarrow> moves R (access f)"
  by (simp add: moves_def access_def case_prod_beta)

lemma frame_for_each: "(\<And>x. moves R (f x)) \<Longrightarrow> moves R (for_each f xs)"
  by (induction xs) (auto intro!: frame_ret frame_bnd)

lemma frame_map_each: "(\<And>x. moves R (f x)) \<Longrightarrow> moves R (map_each f xs)"
  by (induction xs) (auto intro!: frame_ret frame_bnd)

lemma frame_transaction:
  assumes "moves R m"
  shows "moves R (transaction_as fb fc m)"
proof -
  have "R w (snd (transaction_as fb fc m w))" for w
  proof -
    have "R w (tick w)" by (rule R_tick, rule R_refl)
    moreover have "R (tick w) (snd (m (tick w)))" using assms by (simp add: moves_def)
    ultimately have "R w (snd (m (tick w)))" by (rule R_trans)
    then show ?thesis
      by (auto simp: transaction_as_def R_refl R_step intro!: R_tick split: prod.split sum.split)
  qed
  then show ?thesis by (simp add: moves_def)
qed

lemmas frame_rules =
  frame_ret frame_fail frame_lift_res frame_bnd frame_attempt frame_wrapping frame_query frame_query_row frame_time frame_uuid
  frame_rand frame_draw frame_for_each frame_map_each frame_transaction

end

text \<open>Preservation of a state predicate is such a relation, when the predicate ignores the counter.\<close>

definition keeps :: "('x base_scheme \<Rightarrow> bool) \<Rightarrow> 'x base_scheme \<Rightarrow> 'x base_scheme \<Rightarrow> bool" where
  "keeps I w w' \<longleftrightarrow> (I w \<longrightarrow> I w')"

lemma frame_keeps: "(\<And>w n. I (w\<lparr>stp := n\<rparr>) = I w) \<Longrightarrow> frame (keeps I)"
  by unfold_locales (auto simp: keeps_def)

lemma keepsD: "moves (keeps I) m \<Longrightarrow> I w \<Longrightarrow> m w = (r, w') \<Longrightarrow> I w'"
  by (drule movesD) (auto simp: keeps_def)

lemma keeps_snd: "moves (keeps I) m \<Longrightarrow> I w \<Longrightarrow> I (snd (m w))"
  by (simp add: moves_def keeps_def)

text \<open>The environment never changes: the first relation every computation respects.\<close>

definition same_env :: "'x base_scheme \<Rightarrow> 'x base_scheme \<Rightarrow> bool" where
  "same_env w w' \<longleftrightarrow> orc w' = orc w"

interpretation env: frame same_env
  by unfold_locales (auto simp: same_env_def)

text \<open>A computation that only reads moves nothing but the step counter.\<close>

definition only_step :: "'x base_scheme \<Rightarrow> 'x base_scheme \<Rightarrow> bool" where
  "only_step w w' \<longleftrightarrow> (\<exists>n. w' = w\<lparr>stp := n\<rparr>)"

lemma only_step_refl: "only_step w w"
  unfolding only_step_def by (rule exI [of _ "stp w"]) simp

interpretation rd: frame only_step
  by unfold_locales (auto simp: only_step_refl, auto simp: only_step_def)

lemma only_stepE:
  assumes "moves only_step m" and "m w = (r, w')"
  obtains n where "w' = w\<lparr>stp := n\<rparr>"
  using movesD [OF assms] by (auto simp: only_step_def)

text \<open>A reading computation respects every frame relation.\<close>

context frame
begin

lemma frame_read: "moves only_step m \<Longrightarrow> moves R m"
  unfolding moves_def only_step_def by (metis R_step)

end

section \<open>What an error leaves behind\<close>

text \<open>A computation whose errors respect the relation, whatever its successes do.\<close>

definition aborts :: "('x base_scheme \<Rightarrow> 'x base_scheme \<Rightarrow> bool) \<Rightarrow> ('x, 'a) go \<Rightarrow> bool" where
  "aborts R m \<longleftrightarrow> (\<forall>w e w'. m w = (Inl e, w') \<longrightarrow> R w w')"

named_theorems aborts_intro \<open>structural rules for what an error leaves behind\<close>

lemma abortsD: "aborts R m \<Longrightarrow> m w = (Inl e, w') \<Longrightarrow> R w w'"
  by (simp add: aborts_def)

lemma aborts_bnd_ret [aborts_intro]: "aborts R m \<Longrightarrow> aborts R (bnd m (\<lambda>x. ret (g x)))"
  by (auto simp: aborts_def bnd_eq_Inl_iff go_simps)

lemma aborts_wrapping [aborts_intro]: "aborts R m \<Longrightarrow> aborts R (wrapping msg m)"
  by (auto simp: aborts_def wrapping_eq_Inl_iff)

lemma aborts_if [aborts_intro]:
  "(b \<Longrightarrow> aborts R m) \<Longrightarrow> (\<not> b \<Longrightarrow> aborts R n) \<Longrightarrow> aborts R (if b then m else n)"
  by simp

lemma aborts_case_option [aborts_intro]:
  "aborts R m \<Longrightarrow> (\<And>y. aborts R (n y)) \<Longrightarrow> aborts R (case x of None \<Rightarrow> m | Some y \<Rightarrow> n y)"
  by (cases x) auto

lemma aborts_case_sum [aborts_intro]:
  "(\<And>e. aborts R (m e)) \<Longrightarrow> (\<And>y. aborts R (n y)) \<Longrightarrow>
     aborts R (case x of Inl e \<Rightarrow> m e | Inr y \<Rightarrow> n y)"
  by (cases x) auto

context frame
begin

lemma aborts_moves: "moves R m \<Longrightarrow> aborts R m"
  by (auto simp: aborts_def dest: movesD)

lemma aborts_fail: "aborts R (fail e)"
  by (rule aborts_moves) (rule frame_fail)

lemma aborts_bnd: "moves R m \<Longrightarrow> (\<And>x. aborts R (f x)) \<Longrightarrow> aborts R (bnd m f)"
  unfolding aborts_def bnd_eq_Inl_iff by (blast dest: movesD intro: R_trans)

lemma aborts_exec: "aborts R (db_exec f)"
  by (auto simp: aborts_def db_exec_def R_refl intro!: R_tick split: if_splits sum.splits)

lemmas aborts_rules = aborts_intro aborts_fail aborts_exec aborts_bnd

end

lemma only_step_D: "only_step w w' \<Longrightarrow> \<exists>n. w' = w\<lparr>stp := n\<rparr>"
  by (simp add: only_step_def)

section \<open>The errors a computation may return\<close>

definition raises :: "(err \<Rightarrow> bool) \<Rightarrow> ('x, 'a) go \<Rightarrow> bool" where
  "raises P m \<longleftrightarrow> (\<forall>w e. fst (m w) = Inl e \<longrightarrow> P e)"

lemma raisesD: "raises P m \<Longrightarrow> m w = (Inl e, w') \<Longrightarrow> P e"
  by (metis raises_def fst_conv)

lemma raises_ret [raises_intro]: "raises P (ret x)"
  by (simp add: raises_def go_simps)

lemma raises_fail [raises_intro]: "P e \<Longrightarrow> raises P (fail e)"
  by (simp add: raises_def go_simps)

lemma raises_bnd [raises_intro]:
  "raises P m \<Longrightarrow> (\<And>x. raises P (f x)) \<Longrightarrow> raises P (bnd m f)"
  unfolding raises_def bnd_def by (auto split: prod.splits sum.splits) (metis fst_conv)+

lemma raises_attempt [raises_intro]: "raises P (attempt m)"
  by (simp add: raises_def attempt_run)

lemma raises_attempt_bnd:
  assumes "raises Q m" and "\<And>e. Q e \<Longrightarrow> raises P (f (Inl e))" and "\<And>x. raises P (f (Inr x))"
  shows "raises P (bnd (attempt m) f)"
  unfolding raises_def
proof (intro allI impI)
  fix w e assume "fst (bnd (attempt m) f w) = Inl e"
  then have "fst (f (fst (m w)) (snd (m w))) = Inl e" by (simp add: bnd_def attempt_run)
  with assms show "P e" unfolding raises_def by (cases "fst (m w)") metis+
qed

lemma raises_lift_res [raises_intro]: "(\<And>e. r = Inl e \<Longrightarrow> P e) \<Longrightarrow> raises P (lift_res r)"
  by (simp add: raises_def go_simps)

lemma raises_wrapping [raises_intro]: "(\<And>e. P (ErrWrap msg e)) \<Longrightarrow> raises P (wrapping msg m)"
  by (auto simp: raises_def wrapping_def split: prod.split sum.split)

lemma raises_time [raises_intro]: "raises P time_now"
  by (simp add: raises_def time_now_def)

lemma raises_access [raises_intro]: "raises P (access f)"
  by (simp add: raises_def access_def case_prod_beta)

lemma raises_uuid [raises_intro]: "raises P new_uuid"
  by (simp add: raises_def new_uuid_def)

lemma raises_exec [raises_intro]: "(\<And>e. P (ErrSql e)) \<Longrightarrow> raises P (db_exec f)"
  by (auto simp: raises_def db_exec_def split: sum.split)

lemma raises_query [raises_intro]: "(\<And>e. P (ErrSql e)) \<Longrightarrow> raises P (db_query f)"
  by (auto simp: raises_def db_query_def)

lemma raises_query_row [raises_intro]: "(\<And>e. P (ErrSql e)) \<Longrightarrow> raises P (db_query_row f)"
  unfolding db_query_row_def
  by (auto intro!: raises_bnd raises_query raises_fail raises_ret split: option.split)

lemma raises_transaction [raises_intro]:
  "(\<And>e. P (fb (ErrSql e))) \<Longrightarrow> (\<And>e. P (fc (ErrSql e))) \<Longrightarrow> raises P m \<Longrightarrow>
     raises P (transaction_as fb fc m)"
  by (auto simp: raises_def transaction_as_def split: prod.split sum.split) (metis fst_conv)

lemma raises_if [raises_intro]:
  "(b \<Longrightarrow> raises P m) \<Longrightarrow> (\<not> b \<Longrightarrow> raises P n) \<Longrightarrow> raises P (if b then m else n)"
  by simp

lemma raises_case_option [raises_intro]:
  "(x = None \<Longrightarrow> raises P m) \<Longrightarrow> (\<And>y. x = Some y \<Longrightarrow> raises P (n y)) \<Longrightarrow>
     raises P (case x of None \<Rightarrow> m | Some y \<Rightarrow> n y)"
  by (cases x) auto

lemma raises_case_sum [raises_intro]:
  "(\<And>e. x = Inl e \<Longrightarrow> raises P (m e)) \<Longrightarrow> (\<And>y. x = Inr y \<Longrightarrow> raises P (n y)) \<Longrightarrow>
     raises P (case x of Inl e \<Rightarrow> m e | Inr y \<Rightarrow> n y)"
  by (cases x) auto

lemma raises_let [raises_intro]: "(\<And>y. raises P (m y)) \<Longrightarrow> raises P (let y = x in m y)"
  by (simp add: Let_def)

lemma raises_case_prod [raises_intro]: "(\<And>a b. x = (a, b) \<Longrightarrow> raises P (m a b)) \<Longrightarrow> raises P (case x of (a, b) \<Rightarrow> m a b)"
  by (cases x) simp

lemma raises_for_each [raises_intro]: "(\<And>x. raises P (f x)) \<Longrightarrow> raises P (for_each f xs)"
  by (induction xs) (auto intro!: raises_ret raises_bnd)

section \<open>From one predicate to another\<close>

lemma keeps_bnd_run:
  assumes "moves (keeps I) m" and "\<And>w x w'. I w \<Longrightarrow> m w = (Inr x, w') \<Longrightarrow> moves (keeps I) (f x)"
  shows "moves (keeps I) (bnd m f)"
proof -
  have "I (snd (bnd m f w))" if "I w" for w
  proof (cases "m w")
    case (Pair r v)
    with assms(1) that have "I v" by (metis keeps_snd snd_conv)
    with Pair assms(2) [OF that] show ?thesis by (cases r) (auto simp: bnd_def keeps_snd)
  qed
  then show ?thesis by (simp add: moves_def keeps_def)
qed

text \<open>\<open>yields I P m\<close>: what \<open>m\<close> returns from a state with \<open>I\<close> satisfies \<open>P\<close> in the state it leaves.\<close>

definition yields :: "('x base_scheme \<Rightarrow> bool) \<Rightarrow> ('a \<Rightarrow> 'x base_scheme \<Rightarrow> bool) \<Rightarrow> ('x, 'a) go \<Rightarrow> bool" where
  "yields I P m \<longleftrightarrow> (\<forall>w x w'. I w \<longrightarrow> m w = (Inr x, w') \<longrightarrow> P x w')"

lemma yieldsD: "yields I P m \<Longrightarrow> I w \<Longrightarrow> m w = (Inr x, w') \<Longrightarrow> P x w'"
  by (simp add: yields_def)

lemma yields_bnd:
  assumes "moves (keeps I) m" and "\<And>w x w'. I w \<Longrightarrow> m w = (Inr x, w') \<Longrightarrow> yields I P (f x)"
  shows "yields I P (bnd m f)"
  using assms unfolding yields_def bnd_eq_Inr_iff by (blast dest: keepsD)

lemma yields_if: "(b \<Longrightarrow> yields I P m) \<Longrightarrow> (\<not> b \<Longrightarrow> yields I P n) \<Longrightarrow> yields I P (if b then m else n)"
  by simp

lemma yields_case:
  "(\<And>e. x = Inl e \<Longrightarrow> yields I P (m e)) \<Longrightarrow> (\<And>y. x = Inr y \<Longrightarrow> yields I P (n y)) \<Longrightarrow> yields I P (case x of Inl e \<Rightarrow> m e | Inr y \<Rightarrow> n y)"
  "(z = None \<Longrightarrow> yields I P k) \<Longrightarrow> (\<And>y. z = Some y \<Longrightarrow> yields I P (l y)) \<Longrightarrow> yields I P (case z of None \<Rightarrow> k | Some y \<Rightarrow> l y)"
  "(\<And>a b. q = (a, b) \<Longrightarrow> yields I P (h a b)) \<Longrightarrow> yields I P (case q of (a, b) \<Rightarrow> h a b)"
  by (simp_all split: sum.split option.split prod.split)

lemmas yields_rules = yields_if yields_case

lemma attempt_Inr: "attempt m w = (Inr (Inr x), w') \<longleftrightarrow> m w = (Inr x, w')"
  by (auto simp: attempt_run) (metis prod.collapse)

lemma keeps_True [simp]: "moves (keeps (\<lambda>_. True)) m"
  by (simp add: moves_def keeps_def)

text \<open>\<open>brings I J m\<close>: from \<open>I\<close>, every outcome of \<open>m\<close> is in \<open>J\<close>.\<close>

definition brings :: "('x base_scheme \<Rightarrow> bool) \<Rightarrow> ('x base_scheme \<Rightarrow> bool) \<Rightarrow> ('x, 'a) go \<Rightarrow> bool" where
  "brings I J m \<longleftrightarrow> (\<forall>w. I w \<longrightarrow> J (snd (m w)))"

lemma brings_before: "moves (keeps I) m \<Longrightarrow> (\<And>w. I w \<Longrightarrow> J w) \<Longrightarrow> (\<And>x. brings I J (f x)) \<Longrightarrow> brings I J (bnd m f)"
  unfolding brings_def bnd_def using keeps_snd by (fastforce split: prod.split sum.split)

lemma brings_after: "brings I J m \<Longrightarrow> (\<And>x. moves (keeps J) (f x)) \<Longrightarrow> brings I J (bnd m f)"
  unfolding brings_def bnd_def using keeps_snd by (fastforce split: prod.split sum.split)

lemma brings_fail: "(\<And>w. I w \<Longrightarrow> J w) \<Longrightarrow> brings I J (fail e)"
  by (simp add: brings_def fail_def)

lemma brings_case:
  "(z = None \<Longrightarrow> brings I J k) \<Longrightarrow> (\<And>y. z = Some y \<Longrightarrow> brings I J (l y)) \<Longrightarrow> brings I J (case z of None \<Rightarrow> k | Some y \<Rightarrow> l y)"
  "(\<And>a b. q = (a, b) \<Longrightarrow> brings I J (h a b)) \<Longrightarrow> brings I J (case q of (a, b) \<Rightarrow> h a b)"
  by (simp_all split: option.split prod.split)

section \<open>Facts about strings\<close>

lemma strip_left_stop:
  "(\<And>p. p \<in> set ps \<Longrightarrow> p \<noteq> [] \<Longrightarrow> \<not> prefix p s) \<Longrightarrow> strip_left ps s = s"
  by (subst strip_left.simps) (auto split: option.split simp: find_Some_iff)

lemma strip_left_suffix: "suffix (strip_left ps s) s"
proof (induction ps s rule: strip_left.induct)
  case (1 ps s)
  show ?case
  proof (cases "find (\<lambda>p. p \<noteq> [] \<and> prefix p s) ps")
    case None
    then show ?thesis by (simp add: strip_left.simps [of ps s])
  next
    case (Some p)
    with "1" have "suffix (strip_left ps (drop (length p) s)) (drop (length p) s)" by simp
    also have "suffix (drop (length p) s) s" by (rule suffix_drop)
    finally show ?thesis using Some by (simp add: strip_left.simps [of ps s])
  qed
qed

lemma strip_left_clean:
  "p \<in> set ps \<Longrightarrow> p \<noteq> [] \<Longrightarrow> \<not> prefix p (strip_left ps s)"
proof (induction ps s rule: strip_left.induct)
  case (1 ps s)
  then show ?case
    by (subst strip_left.simps) (auto split: option.split simp: find_None_iff)
qed

lemma strip_left_idem [simp]: "strip_left ps (strip_left ps s) = strip_left ps s"
  by (rule strip_left_stop) (rule strip_left_clean)

lemma strip_right_prefix: "prefix (strip_right ps s) s"
  by (metis strip_left_suffix strip_right_def suffix_to_prefix rev_rev_ident)

lemma strip_right_clean:
  "p \<in> set ps \<Longrightarrow> p \<noteq> [] \<Longrightarrow> \<not> suffix p (strip_right ps s)"
  using strip_left_clean [of "rev p" "map rev ps" "rev s"]
  by (auto simp: strip_right_def suffix_to_prefix)

lemma strip_right_stop:
  "(\<And>p. p \<in> set ps \<Longrightarrow> p \<noteq> [] \<Longrightarrow> \<not> suffix p s) \<Longrightarrow> strip_right ps s = s"
  unfolding strip_right_def
  by (subst strip_left_stop) (auto simp: suffix_to_prefix)

lemma trim_space_stop:
  "(\<And>p. p \<in> set space_encodings \<Longrightarrow> \<not> prefix p s) \<Longrightarrow>
   (\<And>p. p \<in> set space_encodings \<Longrightarrow> \<not> suffix p s) \<Longrightarrow> trim_space s = s"
  unfolding trim_space_def by (subst strip_left_stop, simp, rule strip_right_stop)

lemma trim_space_Nil [simp]: "trim_space [] = []"
proof -
  have "p \<in> set space_encodings \<Longrightarrow> p \<noteq> []" for p by (auto simp: space_encodings_def)
  then show ?thesis by (intro trim_space_stop) auto
qed

text \<open>Trimming is idempotent: a trimmed string has no space at either end.\<close>

lemma trim_space_idem [simp]: "trim_space (trim_space s) = trim_space s"
proof (rule trim_space_stop)
  fix p assume p: "p \<in> set space_encodings"
  then have ne: "p \<noteq> []" by (auto simp: space_encodings_def)
  show "\<not> suffix p (trim_space s)"
    unfolding trim_space_def by (rule strip_right_clean [OF p ne])
  have "prefix (trim_space s) (strip_left space_encodings s)"
    unfolding trim_space_def by (rule strip_right_prefix)
  moreover have "\<not> prefix p (strip_left space_encodings s)" by (rule strip_left_clean [OF p ne])
  ultimately show "\<not> prefix p (trim_space s)" using prefix_order.trans by blast
qed

section \<open>Decoding undoes encoding\<close>

lemma base64_value_nth: "k < 64 \<Longrightarrow> base64_value (base64_std ! k) = Some k"
proof -
  have "list_all (\<lambda>k. base64_value (base64_std ! k) = Some k) [0..<64]" by code_simp
  then show "k < 64 \<Longrightarrow> ?thesis" by (simp add: list_all_iff)
qed

lemma base64_std_plain: "k < 64 \<Longrightarrow> base64_std ! k \<notin> {CHR ''='', CHR 0x0A, CHR 0x0D}"
proof -
  have "list_all (\<lambda>k. base64_std ! k \<notin> {CHR ''='', CHR 0x0A, CHR 0x0D}) [0..<64]" by code_simp
  then show "k < 64 \<Longrightarrow> ?thesis" by (simp add: list_all_iff)
qed

lemma base64_no_breaks:
  "list_all (\<lambda>b. b < 256) bs \<Longrightarrow>
     filter (\<lambda>c. c \<noteq> CHR 0x0A \<and> c \<noteq> CHR 0x0D) (base64_encode base64_std ''='' bs)
       = base64_encode base64_std ''='' bs"
proof (induction base64_std "''=''" bs rule: base64_encode.induct)
  case (1 a b c bs)
  then have "a div 4 < 64" "a mod 4 * 16 + b div 16 < 64" "b mod 16 * 4 + c div 64 < 64" "c mod 64 < 64"
    by (auto simp: list_all_iff)
  with 1 show ?case using base64_std_plain by simp
next
  case (2 a b)
  then have "a div 4 < 64" "a mod 4 * 16 + b div 16 < 64" "b mod 16 * 4 < 64" by (auto simp: list_all_iff)
  then show ?case using base64_std_plain by simp
next
  case (3 a)
  then have "a div 4 < 64" "a mod 4 * 16 < 64" by (auto simp: list_all_iff)
  then show ?case using base64_std_plain by simp
qed simp

lemma base64_quads_encode:
  "list_all (\<lambda>b. b < 256) bs \<Longrightarrow> base64_quads (base64_encode base64_std ''='' bs) = Some bs"
proof (induction base64_std "''=''" bs rule: base64_encode.induct)
  case (1 a b c bs)
  then have lt: "a div 4 < 64" "a mod 4 * 16 + b div 16 < 64" "b mod 16 * 4 + c div 64 < 64" "c mod 64 < 64"
    by (auto simp: list_all_iff)
  moreover have "a div 4 * 4 + (a mod 4 * 16 + b div 16) div 16 = a"
    "(a mod 4 * 16 + b div 16) mod 16 * 16 + (b mod 16 * 4 + c div 64) div 4 = b"
    "(b mod 16 * 4 + c div 64) mod 4 * 64 + c mod 64 = c"
    using 1(2) by (auto simp: list_all_iff)
  ultimately show ?case using 1 base64_std_plain by (simp add: base64_value_nth)
next
  case (2 a b)
  then have "a div 4 < 64" "a mod 4 * 16 + b div 16 < 64" "b mod 16 * 4 < 64" by (auto simp: list_all_iff)
  moreover have "a div 4 * 4 + (a mod 4 * 16 + b div 16) div 16 = a"
    "(a mod 4 * 16 + b div 16) mod 16 * 16 + b mod 16 * 4 div 4 = b"
    using 2 by (auto simp: list_all_iff)
  ultimately show ?case using base64_std_plain by (simp add: base64_value_nth)
next
  case (3 a)
  then have "a div 4 < 64" "a mod 4 * 16 < 64" by (auto simp: list_all_iff)
  then show ?case using base64_std_plain by (simp add: base64_value_nth)
qed simp

lemma base64_decode_encode:
  "list_all (\<lambda>b. b < 256) bs \<Longrightarrow> base64_decode (base64_encode base64_std ''='' bs) = Some bs"
  by (simp add: base64_decode_def base64_no_breaks base64_quads_encode)

section \<open>Decimal rendering is injective\<close>

lemma digit_inj: "a < 10 \<Longrightarrow> b < 10 \<Longrightarrow> char_of (48 + a) = (char_of (48 + b) :: char) \<Longrightarrow> a = (b :: nat)"
  by (drule arg_cong [of _ _ "of_char :: char \<Rightarrow> nat"]) simp

lemma nat_digits_ne: "nat_digits n \<noteq> []"
  by (subst nat_digits.simps) simp

lemma nat_digits_inj: "nat_digits n = nat_digits m \<Longrightarrow> n = m"
proof (induction n arbitrary: m rule: nat_digits.induct)
  case (1 n)
  show ?case
  proof (cases "n < 10")
    case True
    then show ?thesis using "1.prems" by (auto simp: nat_digits.simps [of n] nat_digits.simps [of m] nat_digits_ne nat_digits_ne [symmetric] dest: digit_inj split: if_splits)
  next
    case False
    with "1.prems" have "\<not> m < 10" "nat_digits (n div 10) = nat_digits (m div 10)" "n mod 10 = m mod 10"
      by (auto simp: nat_digits.simps [of n] nat_digits.simps [of m] nat_digits_ne nat_digits_ne [symmetric] dest: digit_inj split: if_splits)
    with "1.IH" [OF False] show ?thesis by (metis div_mult_mod_eq)
  qed
qed

section \<open>Lower case\<close>

lemma length_to_lower: "length (to_lower s) \<le> length s"
  by (induction s rule: to_lower.induct) auto

text \<open>A string in lower case has no part in another case.\<close>

lemma to_lower_tl: "to_lower (c # s) = c # s \<Longrightarrow> to_lower s = s"
  using length_to_lower [of "drop 2 s"] length_to_lower [of "drop 1 s"]
  by (auto split: if_splits dest: arg_cong [of _ _ length])

lemma to_lower_suffix: "to_lower t = t \<Longrightarrow> suffix a t \<Longrightarrow> to_lower a = a"
  unfolding suffix_def
proof (elim exE)
  fix p assume "to_lower t = t" and "t = p @ a"
  then show "to_lower a = a"
    by (induction p arbitrary: t) (auto simp del: to_lower.simps dest: to_lower_tl)
qed

lemma to_lower_hd: "to_lower (c # s) = c # s \<Longrightarrow> ascii_lower c = c \<and> \<not> prefix [CHR 0xE2, CHR 0x84, CHR 0xAA] (c # s) \<and>
    \<not> prefix [CHR 0xC4, CHR 0xB0] (c # s)"
  using length_to_lower [of "drop 2 s"] length_to_lower [of "drop 1 s"]
  by (auto split: if_splits dest: arg_cong [of _ _ length])

lemma to_lower_prefix: "to_lower (p @ q) = p @ q \<Longrightarrow> to_lower p = p"
proof (induction p)
  case (Cons c p)
  from Cons.prems have "to_lower p = p" using to_lower_tl [of c "p @ q"] Cons.IH by simp
  moreover have "ascii_lower c = c" "\<not> prefix [CHR 0xE2, CHR 0x84, CHR 0xAA] (c # p)" "\<not> prefix [CHR 0xC4, CHR 0xB0] (c # p)"
    using to_lower_hd [of c "p @ q"] Cons.prems by (auto simp del: to_lower.simps intro: prefix_order.trans)
  ultimately show ?case by auto
qed simp

lemma ascii_lower_range: "ascii_lower c = c \<or> (of_char (ascii_lower c) :: nat) \<in> {97..122}"
  by (auto simp: ascii_lower_def is_upper_def less_eq_char_def)

lemma ascii_lower_idem: "ascii_lower (ascii_lower c) = ascii_lower c"
  using ascii_lower_range [of c] by (auto simp: ascii_lower_def is_upper_def less_eq_char_def split: if_splits)

lemma to_lower_high:
  assumes "to_lower s = d # r" and "(of_char d :: nat) > 122"
  shows "\<exists>s'. s = d # s' \<and> r = to_lower s'"
proof (cases s)
  case (Cons c s')
  with assms ascii_lower_range [of c] show ?thesis by (auto split: if_splits)
qed (use assms in simp)

lemma to_lower_idem: "to_lower (to_lower s) = to_lower s"
proof (induction s rule: to_lower.induct)
  case (2 c s)
  show ?case
  proof (cases "prefix [CHR 0xE2, CHR 0x84, CHR 0xAA] (c # s) \<or> prefix [CHR 0xC4, CHR 0xB0] (c # s)")
    case True
    with "2.IH" show ?thesis by (auto simp: ascii_lower_def is_upper_def less_eq_char_def)
  next
    case False
    have "\<not> prefix [CHR 0xE2, CHR 0x84, CHR 0xAA] (c # to_lower s)"
    proof
      assume "prefix [CHR 0xE2, CHR 0x84, CHR 0xAA] (c # to_lower s)"
      then obtain r where "c = CHR 0xE2" and "to_lower s = CHR 0x84 # CHR 0xAA # r" by (auto simp: prefix_def)
      moreover from this obtain s' where "s = CHR 0x84 # s'" and "to_lower s' = CHR 0xAA # r"
        using to_lower_high [of s "CHR 0x84"] by auto
      ultimately show False using to_lower_high [of s' "CHR 0xAA" r] False by auto
    qed
    moreover have "\<not> prefix [CHR 0xC4, CHR 0xB0] (c # to_lower s)"
    proof
      assume "prefix [CHR 0xC4, CHR 0xB0] (c # to_lower s)"
      then obtain r where "c = CHR 0xC4" and "to_lower s = CHR 0xB0 # r" by (auto simp: prefix_def)
      then show False using to_lower_high [of s "CHR 0xB0" r] False by auto
    qed
    moreover have "ascii_lower c = c \<or> (of_char (ascii_lower c) :: nat) < 128" using ascii_lower_range [of c] by auto
    ultimately have "\<not> prefix [CHR 0xE2, CHR 0x84, CHR 0xAA] (ascii_lower c # to_lower s)"
      "\<not> prefix [CHR 0xC4, CHR 0xB0] (ascii_lower c # to_lower s)" by (auto simp: prefix_def)
    with "2.IH" False show ?thesis by (auto simp: ascii_lower_idem)
  qed
qed simp

lemma to_lower_trim: "to_lower (trim_space (to_lower s)) = trim_space (to_lower s)"
proof -
  let ?t = "strip_left space_encodings (to_lower s)"
  have t: "to_lower ?t = ?t" using to_lower_suffix [OF to_lower_idem strip_left_suffix] .
  obtain q where "?t = trim_space (to_lower s) @ q"
    using strip_right_prefix [of space_encodings ?t] unfolding trim_space_def prefix_def by blast
  with t show ?thesis using to_lower_prefix by metis
qed

end
