(* ===== verification/Database.thy ===== *)
theory Database
  imports Prelude
begin

text \<open>
  The SQLite schema of \<open>src/migrations\<close> as far as the modelled components use it: one record per
  table row, one list of rows per table (in insertion order), and the statements the program issues.
  Foreign keys are on (\<open>internal/db/db.go\<close>). A statement that would break a UNIQUE, CHECK or FOREIGN
  KEY constraint is refused and changes nothing; deleting a row cascades as the schema says.
  Nullable columns are \<open>option\<close> values, integer flags are \<open>bool\<close>. A column that holds a JSON array of
  strings is \<open>Some xs\<close> when its text decodes to \<open>xs\<close> and \<open>None\<close> when it does not decode.
\<close>

section \<open>Rows\<close>

type_synonym json_strings = "string list option"

record user =
  u_id :: string
  u_email :: string
  u_password_hash :: string
  u_role :: string
  u_name :: "string option"
  u_avatar_path :: "string option"
  u_status :: string
  u_role_id :: "string option"
  u_created_at :: int
  u_2fa_enabled :: bool
  u_2fa_secret :: "string option"
  u_2fa_pending :: "string option"
  u_2fa_confirmed_at :: "int option"
  u_recovery :: "json_strings option"

record role_row =
  r_id :: string
  r_slug :: string
  r_name :: string
  r_description :: string
  r_scope :: string
  r_is_admin :: bool
  r_is_system :: bool
  r_permissions :: json_strings
  r_created_at :: int
  r_updated_at :: int

record team_row =
  t_id :: string
  t_name :: string
  t_slug :: string
  t_description :: "string option"
  t_color :: string
  t_avatar_path :: "string option"
  t_created_at :: int
  t_updated_at :: int

record team_member =
  tm_team_id :: string
  tm_user_id :: string
  tm_role_id :: "string option"

record server_row =
  sv_id :: string
  sv_name :: string
  sv_type :: string
  sv_host :: "string option"
  sv_port :: int
  sv_user :: "string option"
  sv_private_key :: "nat list option"
  sv_host_key_fingerprint :: "string option"
  sv_status :: string
  sv_docker_version :: "string option"
  sv_last_checked_at :: "int option"
  sv_created_at :: int
  sv_updated_at :: int

text \<open>A JSON object of strings, as an association list; \<open>None\<close> when the text does not decode.\<close>

type_synonym json_map = "(string \<times> string) list option"

record app_row =
  a_id :: string
  a_name :: string
  a_description :: "string option"
  a_team_id :: "string option"
  a_server_id :: "string option"
  a_git_source_id :: "string option"
  a_repo_url :: "string option"
  a_branch :: string
  a_git_commit_sha :: "string option"
  a_build_type :: string
  a_dockerfile_path :: string
  a_build_context :: string
  a_dockerfile_inline :: "string option"
  a_compose_file :: "string option"
  a_compose_inline :: "string option"
  a_image_name :: "string option"
  a_image_tag :: string
  a_install_command :: "string option"
  a_build_command :: "string option"
  a_start_command :: "string option"
  a_pre_deploy_command :: "string option"
  a_post_deploy_command :: "string option"
  a_port :: "int option"
  a_host_port :: "int option"
  a_container_name :: "string option"
  a_health_check_enabled :: bool
  a_health_check_path :: string
  a_health_check_method :: string
  a_health_check_port :: "int option"
  a_health_check_return_code :: int
  a_health_check_interval :: int
  a_health_check_timeout :: int
  a_health_check_retries :: int
  a_health_check_start_period :: int
  a_limits_memory :: "string option"
  a_limits_cpus :: "string option"
  a_limits_memory_swap :: "string option"
  a_limits_memory_swappiness :: "int option"
  a_limits_memory_reservation :: "string option"
  a_limits_cpuset :: "string option"
  a_limits_cpu_shares :: "int option"
  a_restart_policy :: string
  a_auto_deploy_branch :: "string option"
  a_build_args_inject :: bool
  a_build_args_source_commit :: bool
  a_docker_labels :: json_map
  a_env_vars :: json_map
  a_status :: string
  a_created_at :: int
  a_updated_at :: int

record domain_row =
  d_id :: string
  d_name :: string
  d_app_id :: "string option"
  d_is_primary :: bool
  d_ssl_status :: string
  d_ssl_expires_at :: "int option"
  d_zone_id :: "string option"
  d_covered_by_wildcard :: bool
  d_dns_verified :: bool
  d_dns_verified_at :: "int option"
  d_dns_last_check :: "int option"
  d_dns_check_count :: int
  d_service :: "string option"
  d_port :: "int option"
  d_force_https :: bool
  d_created_at :: int
  d_updated_at :: int

record secret_row =
  sc_id :: string
  sc_app_id :: string
  sc_key :: string
  sc_value :: "nat list"
  sc_is_build_time :: bool
  sc_is_multiline :: bool
  sc_created_at :: int
  sc_updated_at :: int

record volume_row =
  v_id :: string
  v_app_id :: string
  v_service :: "string option"
  v_mount_path :: string
  v_host_path :: "string option"
  v_is_named :: bool
  v_read_only :: bool
  v_created_at :: int
  v_updated_at :: int

record deployment_row =
  dp_id :: string
  dp_app_id :: string
  dp_commit_sha :: "string option"
  dp_commit_msg :: "string option"
  dp_branch :: "string option"
  dp_image_tag :: "string option"
  dp_rollback_of :: "string option"
  dp_status :: string
  dp_log_path :: "string option"
  dp_error_message :: "string option"
  dp_started_at :: "int option"
  dp_finished_at :: "int option"
  dp_created_at :: int

record zone_row =
  z_id :: string
  z_apex :: string
  z_target_ip :: "string option"
  z_apex_verified :: bool
  z_apex_verified_at :: "int option"
  z_apex_last_check :: "int option"
  z_wildcard_verified :: bool
  z_wildcard_verified_at :: "int option"
  z_wildcard_last_check :: "int option"
  z_notes :: "string option"
  z_created_at :: int
  z_updated_at :: int

record source_row =
  gs_id :: string
  gs_type :: string
  gs_name :: string
  gs_installation_id :: "string option"
  gs_private_key :: "nat list option"
  gs_public_key :: "string option"
  gs_token :: "nat list option"
  gs_created_at :: int
  gs_app_id :: "string option"
  gs_app_slug :: "string option"
  gs_app_private_key :: "nat list option"
  gs_account_login :: "string option"
  gs_account_type :: "string option"
  gs_webhook_secret :: "string option"

record tag_row =
  tg_id :: string
  tg_name :: string
  tg_color :: "string option"
  tg_created_at :: int

record app_tag =
  xt_app_id :: string
  xt_tag_id :: string

record refresh_token =
  rt_id :: string
  rt_user_id :: string
  rt_family_id :: string
  rt_token_hash :: string
  rt_revoked_at :: "int option"
  rt_expires_at :: int

record totp_row =
  tu_user_id :: string
  tu_code :: string
  tu_window_ts :: int

record api_token =
  at_id :: string
  at_user_id :: string
  at_name :: string
  at_token_hash :: string
  at_last_four :: string
  at_expires_at :: "int option"
  at_last_used_at :: "int option"
  at_revoked_at :: "int option"
  at_created_at :: int
  at_updated_at :: int

record setting_row =
  st_key :: string
  st_value :: string
  st_updated_at :: int

record db = base +
  users :: "user list"
  roles :: "role_row list"
  teams :: "team_row list"
  team_members :: "team_member list"
  apps :: "app_row list"
  refresh_tokens :: "refresh_token list"
  totp_used :: "totp_row list"
  api_tokens :: "api_token list"
  settings :: "setting_row list"
  servers :: "server_row list"
  domains :: "domain_row list"
  secrets :: "secret_row list"
  app_volumes :: "volume_row list"
  deployments :: "deployment_row list"
  dns_zones :: "zone_row list"
  git_sources :: "source_row list"
  tags :: "tag_row list"
  app_tags :: "app_tag list"

type_synonym ('x, 'a) dbm = "('x db_ext, 'a) go"

section \<open>Constraints\<close>

definition user_ids :: "'x db_scheme \<Rightarrow> string set" where
  "user_ids w = set (map u_id (users w))"

definition role_ids :: "'x db_scheme \<Rightarrow> string set" where
  "role_ids w = set (map r_id (roles w))"

definition team_ids :: "'x db_scheme \<Rightarrow> string set" where
  "team_ids w = set (map t_id (teams w))"

definition app_ids :: "'x db_scheme \<Rightarrow> string set" where
  "app_ids w = set (map a_id (apps w))"

definition some_key :: "('r \<Rightarrow> 'k option) \<Rightarrow> 'r list \<Rightarrow> 'k list" where
  "some_key k rs = map (\<lambda>r. the (k r)) (filter (\<lambda>r. k r \<noteq> None) rs)"

text \<open>
  A UNIQUE constraint over a column that is NULL does not apply to the row: \<open>some_key\<close> lists the keys
  that are all there.
\<close>

definition route_key :: "domain_row \<Rightarrow> (string \<times> string \<times> int) option" where
  "route_key d =
     (case (d_app_id d, d_service d, d_port d) of
        (Some a, Some s, Some p) \<Rightarrow> Some (a, s, p) | _ \<Rightarrow> None)"

definition volume_key :: "volume_row \<Rightarrow> (string \<times> string \<times> string) option" where
  "volume_key v = map_option (\<lambda>s. (v_app_id v, s, v_mount_path v)) (v_service v)"

text \<open>The constraints on what is deployed, apart from those on people and teams below.\<close>

definition deploy_unique_ok :: "'x db_scheme \<Rightarrow> bool" where
  "deploy_unique_ok w \<longleftrightarrow>
     distinct (map at_id (api_tokens w)) \<and> distinct (map at_token_hash (api_tokens w)) \<and>
     distinct (map st_key (settings w)) \<and>
     distinct (map sv_id (servers w)) \<and> distinct (map sv_name (servers w)) \<and>
     distinct (map d_id (domains w)) \<and> distinct (map d_name (domains w)) \<and>
     distinct (some_key route_key (domains w)) \<and>
     distinct (map sc_id (secrets w)) \<and> distinct (map (\<lambda>s. (sc_app_id s, sc_key s)) (secrets w)) \<and>
     distinct (map v_id (app_volumes w)) \<and> distinct (some_key volume_key (app_volumes w)) \<and>
     distinct (map dp_id (deployments w)) \<and>
     distinct (map z_id (dns_zones w)) \<and> distinct (map z_apex (dns_zones w)) \<and>
     distinct (map gs_id (git_sources w)) \<and> distinct (some_key gs_installation_id (git_sources w)) \<and>
     distinct (map tg_id (tags w)) \<and> distinct (map tg_name (tags w)) \<and>
     distinct (map (\<lambda>x. (xt_app_id x, xt_tag_id x)) (app_tags w))"

definition deploy_check_ok :: "'x db_scheme \<Rightarrow> bool" where
  "deploy_check_ok w \<longleftrightarrow>
     (\<forall>v \<in> set (servers w). sv_type v \<in> {''local'', ''remote''}) \<and>
     (\<forall>a \<in> set (apps w). a_restart_policy a \<in> {''no'', ''always'', ''on-failure'', ''unless-stopped''}) \<and>
     (\<forall>s \<in> set (git_sources w). gs_type s \<in> {''github_app'', ''ssh_key'', ''token''})"

definition deploy_fk_ok :: "'x db_scheme \<Rightarrow> bool" where
  "deploy_fk_ok w \<longleftrightarrow>
     (\<forall>a \<in> set (apps w). case a_server_id a of None \<Rightarrow> True | Some v \<Rightarrow> v \<in> set (map sv_id (servers w))) \<and>
     (\<forall>d \<in> set (domains w). case d_app_id d of None \<Rightarrow> True | Some a \<Rightarrow> a \<in> app_ids w) \<and>
     (\<forall>s \<in> set (secrets w). sc_app_id s \<in> app_ids w) \<and>
     (\<forall>v \<in> set (app_volumes w). v_app_id v \<in> app_ids w) \<and>
     (\<forall>d \<in> set (deployments w). dp_app_id d \<in> app_ids w \<and>
        (case dp_rollback_of d of None \<Rightarrow> True | Some r \<Rightarrow> r \<in> set (map dp_id (deployments w)))) \<and>
     (\<forall>a \<in> set (apps w). case a_git_source_id a of None \<Rightarrow> True | Some g \<Rightarrow> g \<in> set (map gs_id (git_sources w))) \<and>
     (\<forall>d \<in> set (domains w). case d_zone_id d of None \<Rightarrow> True | Some z \<Rightarrow> z \<in> set (map z_id (dns_zones w))) \<and>
     (\<forall>x \<in> set (app_tags w). xt_app_id x \<in> app_ids w \<and> xt_tag_id x \<in> set (map tg_id (tags w)))"

definition unique_ok :: "'x db_scheme \<Rightarrow> bool" where
  "unique_ok w \<longleftrightarrow>
     distinct (map u_id (users w)) \<and> distinct (map u_email (users w)) \<and>
     distinct (map r_id (roles w)) \<and> distinct (map r_slug (roles w)) \<and>
     distinct (map t_id (teams w)) \<and> distinct (map t_name (teams w)) \<and>
     distinct (map t_slug (teams w)) \<and>
     distinct (map (\<lambda>m. (tm_team_id m, tm_user_id m)) (team_members w)) \<and>
     distinct (map a_id (apps w)) \<and> distinct (map a_name (apps w)) \<and>
     distinct (map rt_id (refresh_tokens w)) \<and> distinct (map rt_token_hash (refresh_tokens w)) \<and>
     distinct (map (\<lambda>t. (tu_user_id t, tu_code t, tu_window_ts t)) (totp_used w)) \<and>
     deploy_unique_ok w"

definition check_ok :: "'x db_scheme \<Rightarrow> bool" where
  "check_ok w \<longleftrightarrow>
     (\<forall>u \<in> set (users w). u_status u \<in> {''active'', ''inactive'', ''blocked''}) \<and>
     (\<forall>r \<in> set (roles w). r_scope r \<in> {''global'', ''team'', ''both''}) \<and>
     (\<forall>a \<in> set (apps w). a_build_type a \<in> {''dockerfile'', ''docker_image'', ''docker_compose''}) \<and>
     deploy_check_ok w"

definition fk_ok :: "'x db_scheme \<Rightarrow> bool" where
  "fk_ok w \<longleftrightarrow>
     (\<forall>u \<in> set (users w). case u_role_id u of None \<Rightarrow> True | Some r \<Rightarrow> r \<in> role_ids w) \<and>
     (\<forall>m \<in> set (team_members w). tm_team_id m \<in> team_ids w \<and> tm_user_id m \<in> user_ids w \<and>
        (case tm_role_id m of None \<Rightarrow> True | Some r \<Rightarrow> r \<in> role_ids w)) \<and>
     (\<forall>a \<in> set (apps w). case a_team_id a of None \<Rightarrow> True | Some t \<Rightarrow> t \<in> team_ids w) \<and>
     (\<forall>t \<in> set (refresh_tokens w). rt_user_id t \<in> user_ids w) \<and>
     (\<forall>t \<in> set (totp_used w). tu_user_id t \<in> user_ids w) \<and>
     (\<forall>t \<in> set (api_tokens w). at_user_id t \<in> user_ids w) \<and>
     deploy_fk_ok w"

definition schema_ok :: "'x db_scheme \<Rightarrow> bool" where
  "schema_ok w \<longleftrightarrow> unique_ok w \<and> check_ok w \<and> fk_ok w"

section \<open>Statements\<close>

text \<open>\<open>unixepoch()\<close> inside a statement reads the clock at the step the statement runs.\<close>

definition unixepoch :: "'x base_scheme \<Rightarrow> int" where
  "unixepoch w = unix (o_now (orc w) (stp w))"

definition checked :: "nat \<Rightarrow> 'x db_scheme \<Rightarrow> sql_err + nat \<times> 'x db_scheme" where
  "checked n w =
     (if \<not> unique_ok w then Inl UniqueViolation
      else if \<not> check_ok w then Inl CheckViolation
      else if \<not> fk_ok w then Inl ForeignKeyViolation
      else Inr (n, w))"

definition update_where :: "('r \<Rightarrow> bool) \<Rightarrow> ('r \<Rightarrow> 'r) \<Rightarrow> 'r list \<Rightarrow> 'r list" where
  "update_where p f rs = map (\<lambda>r. if p r then f r else r) rs"

definition affected :: "('r \<Rightarrow> bool) \<Rightarrow> 'r list \<Rightarrow> nat" where
  "affected p rs = length (filter p rs)"

definition insert_user :: "user \<Rightarrow> 'x db_scheme \<Rightarrow> sql_err + nat \<times> 'x db_scheme" where
  "insert_user u w = checked 1 (w\<lparr>users := users w @ [u]\<rparr>)"

definition update_users ::
  "(user \<Rightarrow> bool) \<Rightarrow> (user \<Rightarrow> user) \<Rightarrow> 'x db_scheme \<Rightarrow> sql_err + nat \<times> 'x db_scheme" where
  "update_users p f w =
     checked (affected p (users w)) (w\<lparr>users := update_where p f (users w)\<rparr>)"

definition delete_users :: "(user \<Rightarrow> bool) \<Rightarrow> 'x db_scheme \<Rightarrow> sql_err + nat \<times> 'x db_scheme" where
  "delete_users p w =
     (let gone = set (map u_id (filter p (users w)))
      in checked (affected p (users w))
           (w\<lparr>users := filter (\<lambda>u. \<not> p u) (users w),
              team_members := filter (\<lambda>m. tm_user_id m \<notin> gone) (team_members w),
              refresh_tokens := filter (\<lambda>t. rt_user_id t \<notin> gone) (refresh_tokens w),
              totp_used := filter (\<lambda>t. tu_user_id t \<notin> gone) (totp_used w),
              api_tokens := filter (\<lambda>t. at_user_id t \<notin> gone) (api_tokens w)\<rparr>))"

definition insert_role :: "role_row \<Rightarrow> 'x db_scheme \<Rightarrow> sql_err + nat \<times> 'x db_scheme" where
  "insert_role r w = checked 1 (w\<lparr>roles := roles w @ [r]\<rparr>)"

definition update_roles ::
  "(role_row \<Rightarrow> bool) \<Rightarrow> (role_row \<Rightarrow> role_row) \<Rightarrow> 'x db_scheme \<Rightarrow> sql_err + nat \<times> 'x db_scheme" where
  "update_roles p f w =
     checked (affected p (roles w))
       (w\<lparr>roles := update_where p (\<lambda>r. (f r)\<lparr>r_updated_at := unixepoch w\<rparr>) (roles w)\<rparr>)"

definition delete_roles :: "(role_row \<Rightarrow> bool) \<Rightarrow> 'x db_scheme \<Rightarrow> sql_err + nat \<times> 'x db_scheme" where
  "delete_roles p w =
     checked (affected p (roles w)) (w\<lparr>roles := filter (\<lambda>r. \<not> p r) (roles w)\<rparr>)"

definition insert_team :: "team_row \<Rightarrow> 'x db_scheme \<Rightarrow> sql_err + nat \<times> 'x db_scheme" where
  "insert_team t w = checked 1 (w\<lparr>teams := teams w @ [t]\<rparr>)"

definition update_teams ::
  "(team_row \<Rightarrow> bool) \<Rightarrow> (team_row \<Rightarrow> team_row) \<Rightarrow> 'x db_scheme \<Rightarrow> sql_err + nat \<times> 'x db_scheme" where
  "update_teams p f w =
     checked (affected p (teams w))
       (w\<lparr>teams := update_where p (\<lambda>t. (f t)\<lparr>t_updated_at := unixepoch w\<rparr>) (teams w)\<rparr>)"

definition delete_teams :: "(team_row \<Rightarrow> bool) \<Rightarrow> 'x db_scheme \<Rightarrow> sql_err + nat \<times> 'x db_scheme" where
  "delete_teams p w =
     (let gone = set (map t_id (filter p (teams w)))
      in checked (affected p (teams w))
           (w\<lparr>teams := filter (\<lambda>t. \<not> p t) (teams w),
              team_members := filter (\<lambda>m. tm_team_id m \<notin> gone) (team_members w),
              apps := map (\<lambda>a. case a_team_id a of
                  None \<Rightarrow> a
                | Some t \<Rightarrow> if t \<in> gone then a\<lparr>a_team_id := None\<rparr> else a) (apps w)\<rparr>))"

definition insert_team_member ::
  "team_member \<Rightarrow> 'x db_scheme \<Rightarrow> sql_err + nat \<times> 'x db_scheme" where
  "insert_team_member m w = checked 1 (w\<lparr>team_members := team_members w @ [m]\<rparr>)"

definition delete_team_members ::
  "(team_member \<Rightarrow> bool) \<Rightarrow> 'x db_scheme \<Rightarrow> sql_err + nat \<times> 'x db_scheme" where
  "delete_team_members p w =
     checked (affected p (team_members w))
       (w\<lparr>team_members := filter (\<lambda>m. \<not> p m) (team_members w)\<rparr>)"

definition insert_refresh_token ::
  "refresh_token \<Rightarrow> 'x db_scheme \<Rightarrow> sql_err + nat \<times> 'x db_scheme" where
  "insert_refresh_token t w = checked 1 (w\<lparr>refresh_tokens := refresh_tokens w @ [t]\<rparr>)"

definition update_refresh_tokens ::
  "(refresh_token \<Rightarrow> bool) \<Rightarrow> (refresh_token \<Rightarrow> refresh_token) \<Rightarrow>
     'x db_scheme \<Rightarrow> sql_err + nat \<times> 'x db_scheme" where
  "update_refresh_tokens p f w =
     checked (affected p (refresh_tokens w))
       (w\<lparr>refresh_tokens := update_where p f (refresh_tokens w)\<rparr>)"

definition insert_totp_used :: "totp_row \<Rightarrow> 'x db_scheme \<Rightarrow> sql_err + nat \<times> 'x db_scheme" where
  "insert_totp_used t w = checked 1 (w\<lparr>totp_used := totp_used w @ [t]\<rparr>)"

definition delete_totp_used ::
  "(totp_row \<Rightarrow> bool) \<Rightarrow> 'x db_scheme \<Rightarrow> sql_err + nat \<times> 'x db_scheme" where
  "delete_totp_used p w =
     checked (affected p (totp_used w)) (w\<lparr>totp_used := filter (\<lambda>t. \<not> p t) (totp_used w)\<rparr>)"

definition insert_api_token :: "api_token \<Rightarrow> 'x db_scheme \<Rightarrow> sql_err + nat \<times> 'x db_scheme" where
  "insert_api_token t w = checked 1 (w\<lparr>api_tokens := api_tokens w @ [t]\<rparr>)"

definition update_api_tokens ::
  "(api_token \<Rightarrow> bool) \<Rightarrow> (api_token \<Rightarrow> api_token) \<Rightarrow> 'x db_scheme \<Rightarrow> sql_err + nat \<times> 'x db_scheme" where
  "update_api_tokens p f w =
     checked (affected p (api_tokens w))
       (w\<lparr>api_tokens := update_where p (\<lambda>t. (f t)\<lparr>at_updated_at := unixepoch w\<rparr>) (api_tokens w)\<rparr>)"

text \<open>\<open>INSERT ... ON CONFLICT(key) DO UPDATE SET value = excluded.value\<close>; \<open>touch\<close> says whether the update
  sets \<open>updated_at\<close> too.\<close>

definition upsert_setting ::
  "bool \<Rightarrow> string \<Rightarrow> string \<Rightarrow> 'x db_scheme \<Rightarrow> sql_err + nat \<times> 'x db_scheme" where
  "upsert_setting touch k v w =
     checked 1
       (if k \<in> set (map st_key (settings w))
        then w\<lparr>settings := update_where (\<lambda>s. st_key s = k)
                (\<lambda>s. s\<lparr>st_value := v, st_updated_at := (if touch then unixepoch w else st_updated_at s)\<rparr>)
                (settings w)\<rparr>
        else w\<lparr>settings := settings w @ [\<lparr>st_key = k, st_value = v, st_updated_at = unixepoch w\<rparr>]\<rparr>)"

definition update_settings ::
  "(setting_row \<Rightarrow> bool) \<Rightarrow> (setting_row \<Rightarrow> setting_row) \<Rightarrow> 'x db_scheme \<Rightarrow> sql_err + nat \<times> 'x db_scheme" where
  "update_settings p f w =
     checked (affected p (settings w)) (w\<lparr>settings := update_where p f (settings w)\<rparr>)"

definition insert_setting :: "setting_row \<Rightarrow> 'x db_scheme \<Rightarrow> sql_err + nat \<times> 'x db_scheme" where
  "insert_setting s w = checked 1 (w\<lparr>settings := settings w @ [s]\<rparr>)"

definition update_apps ::
  "(app_row \<Rightarrow> bool) \<Rightarrow> (app_row \<Rightarrow> app_row) \<Rightarrow> 'x db_scheme \<Rightarrow> sql_err + nat \<times> 'x db_scheme" where
  "update_apps p f w =
     checked (affected p (apps w))
       (w\<lparr>apps := update_where p (\<lambda>a. (f a)\<lparr>a_updated_at := unixepoch w\<rparr>) (apps w)\<rparr>)"

definition insert_deployment :: "deployment_row \<Rightarrow> 'x db_scheme \<Rightarrow> sql_err + nat \<times> 'x db_scheme" where
  "insert_deployment d w = checked 1 (w\<lparr>deployments := deployments w @ [d]\<rparr>)"

definition update_deployments ::
  "(deployment_row \<Rightarrow> bool) \<Rightarrow> (deployment_row \<Rightarrow> deployment_row) \<Rightarrow>
     'x db_scheme \<Rightarrow> sql_err + nat \<times> 'x db_scheme" where
  "update_deployments p f w =
     checked (affected p (deployments w)) (w\<lparr>deployments := update_where p f (deployments w)\<rparr>)"

text \<open>\<open>INSERT ... ON CONFLICT(app_id, key) DO UPDATE\<close>.\<close>

definition upsert_secret :: "secret_row \<Rightarrow> 'x db_scheme \<Rightarrow> sql_err + nat \<times> 'x db_scheme" where
  "upsert_secret s w =
     checked 1
       (if (sc_app_id s, sc_key s) \<in> set (map (\<lambda>r. (sc_app_id r, sc_key r)) (secrets w))
        then w\<lparr>secrets := update_where (\<lambda>r. sc_app_id r = sc_app_id s \<and> sc_key r = sc_key s)
                (\<lambda>r. r\<lparr>sc_value := sc_value s, sc_is_build_time := sc_is_build_time s,
                       sc_is_multiline := sc_is_multiline s, sc_updated_at := unixepoch w\<rparr>) (secrets w)\<rparr>
        else w\<lparr>secrets := secrets w @ [s]\<rparr>)"

definition delete_secrets ::
  "(secret_row \<Rightarrow> bool) \<Rightarrow> 'x db_scheme \<Rightarrow> sql_err + nat \<times> 'x db_scheme" where
  "delete_secrets p w =
     checked (affected p (secrets w)) (w\<lparr>secrets := filter (\<lambda>s. \<not> p s) (secrets w)\<rparr>)"

definition insert_app :: "app_row \<Rightarrow> 'x db_scheme \<Rightarrow> sql_err + nat \<times> 'x db_scheme" where
  "insert_app a w = checked 1 (w\<lparr>apps := apps w @ [a]\<rparr>)"

text \<open>
  \<open>DELETE FROM apps\<close>: the rows of the app in \<open>domains\<close>, \<open>deployments\<close>, \<open>secrets\<close>, \<open>app_volumes\<close> and
  \<open>app_tags\<close> go with it (\<open>ON DELETE CASCADE\<close>).
\<close>

definition delete_apps :: "(app_row \<Rightarrow> bool) \<Rightarrow> 'x db_scheme \<Rightarrow> sql_err + nat \<times> 'x db_scheme" where
  "delete_apps p w =
     (let gone = set (map a_id (filter p (apps w)))
      in checked (affected p (apps w))
           (w\<lparr>apps := filter (\<lambda>a. \<not> p a) (apps w),
              domains := filter (\<lambda>d. case d_app_id d of None \<Rightarrow> True | Some a \<Rightarrow> a \<notin> gone) (domains w),
              deployments := filter (\<lambda>d. dp_app_id d \<notin> gone) (deployments w),
              secrets := filter (\<lambda>s. sc_app_id s \<notin> gone) (secrets w),
              app_volumes := filter (\<lambda>v. v_app_id v \<notin> gone) (app_volumes w),
              app_tags := filter (\<lambda>x. xt_app_id x \<notin> gone) (app_tags w)\<rparr>))"

definition insert_domain :: "domain_row \<Rightarrow> 'x db_scheme \<Rightarrow> sql_err + nat \<times> 'x db_scheme" where
  "insert_domain d w = checked 1 (w\<lparr>domains := domains w @ [d]\<rparr>)"

definition update_domains ::
  "(domain_row \<Rightarrow> bool) \<Rightarrow> (domain_row \<Rightarrow> domain_row) \<Rightarrow> 'x db_scheme \<Rightarrow> sql_err + nat \<times> 'x db_scheme" where
  "update_domains p f w =
     checked (affected p (domains w))
       (w\<lparr>domains := update_where p (\<lambda>d. (f d)\<lparr>d_updated_at := unixepoch w\<rparr>) (domains w)\<rparr>)"

definition delete_domains :: "(domain_row \<Rightarrow> bool) \<Rightarrow> 'x db_scheme \<Rightarrow> sql_err + nat \<times> 'x db_scheme" where
  "delete_domains p w =
     checked (affected p (domains w)) (w\<lparr>domains := filter (\<lambda>d. \<not> p d) (domains w)\<rparr>)"

definition insert_zone :: "zone_row \<Rightarrow> 'x db_scheme \<Rightarrow> sql_err + nat \<times> 'x db_scheme" where
  "insert_zone z w = checked 1 (w\<lparr>dns_zones := dns_zones w @ [z]\<rparr>)"

text \<open>The trigger \<open>trg_dns_zones_updated_at\<close> sets \<open>updated_at\<close>.\<close>

definition update_zones ::
  "(zone_row \<Rightarrow> bool) \<Rightarrow> (zone_row \<Rightarrow> zone_row) \<Rightarrow> 'x db_scheme \<Rightarrow> sql_err + nat \<times> 'x db_scheme" where
  "update_zones p f w =
     checked (affected p (dns_zones w))
       (w\<lparr>dns_zones := update_where p (\<lambda>z. (f z)\<lparr>z_updated_at := unixepoch w\<rparr>) (dns_zones w)\<rparr>)"

text \<open>\<open>domains.zone_id\<close> of a deleted zone becomes NULL (\<open>ON DELETE SET NULL\<close>).\<close>

definition delete_zones :: "(zone_row \<Rightarrow> bool) \<Rightarrow> 'x db_scheme \<Rightarrow> sql_err + nat \<times> 'x db_scheme" where
  "delete_zones p w =
     (let gone = set (map z_id (filter p (dns_zones w)))
      in checked (affected p (dns_zones w))
           (w\<lparr>dns_zones := filter (\<lambda>z. \<not> p z) (dns_zones w),
              domains := map (\<lambda>d. case d_zone_id d of
                  None \<Rightarrow> d
                | Some z \<Rightarrow> if z \<in> gone then d\<lparr>d_zone_id := None\<rparr> else d) (domains w)\<rparr>))"

definition insert_source :: "source_row \<Rightarrow> 'x db_scheme \<Rightarrow> sql_err + nat \<times> 'x db_scheme" where
  "insert_source r w = checked 1 (w\<lparr>git_sources := git_sources w @ [r]\<rparr>)"

definition update_sources ::
  "(source_row \<Rightarrow> bool) \<Rightarrow> (source_row \<Rightarrow> source_row) \<Rightarrow> 'x db_scheme \<Rightarrow> sql_err + nat \<times> 'x db_scheme" where
  "update_sources p f w =
     checked (affected p (git_sources w)) (w\<lparr>git_sources := update_where p f (git_sources w)\<rparr>)"

definition delete_sources :: "(source_row \<Rightarrow> bool) \<Rightarrow> 'x db_scheme \<Rightarrow> sql_err + nat \<times> 'x db_scheme" where
  "delete_sources p w = checked (affected p (git_sources w)) (w\<lparr>git_sources := filter (\<lambda>r. \<not> p r) (git_sources w)\<rparr>)"

definition delete_settings :: "(setting_row \<Rightarrow> bool) \<Rightarrow> 'x db_scheme \<Rightarrow> sql_err + nat \<times> 'x db_scheme" where
  "delete_settings p w = checked (affected p (settings w)) (w\<lparr>settings := filter (\<lambda>r. \<not> p r) (settings w)\<rparr>)"

definition insert_server :: "server_row \<Rightarrow> 'x db_scheme \<Rightarrow> sql_err + nat \<times> 'x db_scheme" where
  "insert_server r w = checked 1 (w\<lparr>servers := servers w @ [r]\<rparr>)"

definition update_servers ::
  "(server_row \<Rightarrow> bool) \<Rightarrow> (server_row \<Rightarrow> server_row) \<Rightarrow> 'x db_scheme \<Rightarrow> sql_err + nat \<times> 'x db_scheme" where
  "update_servers p f w =
     checked (affected p (servers w)) (w\<lparr>servers := update_where p (\<lambda>r. (f r)\<lparr>sv_updated_at := unixepoch w\<rparr>) (servers w)\<rparr>)"

definition delete_servers :: "(server_row \<Rightarrow> bool) \<Rightarrow> 'x db_scheme \<Rightarrow> sql_err + nat \<times> 'x db_scheme" where
  "delete_servers p w = checked (affected p (servers w)) (w\<lparr>servers := filter (\<lambda>r. \<not> p r) (servers w)\<rparr>)"

definition insert_volume :: "volume_row \<Rightarrow> 'x db_scheme \<Rightarrow> sql_err + nat \<times> 'x db_scheme" where
  "insert_volume r w = checked 1 (w\<lparr>app_volumes := app_volumes w @ [r]\<rparr>)"

text \<open>The trigger \<open>trg_app_volumes_updated_at\<close> sets \<open>updated_at\<close>.\<close>

definition update_volumes ::
  "(volume_row \<Rightarrow> bool) \<Rightarrow> (volume_row \<Rightarrow> volume_row) \<Rightarrow> 'x db_scheme \<Rightarrow> sql_err + nat \<times> 'x db_scheme" where
  "update_volumes p f w =
     checked (affected p (app_volumes w)) (w\<lparr>app_volumes := update_where p (\<lambda>r. (f r)\<lparr>v_updated_at := unixepoch w\<rparr>) (app_volumes w)\<rparr>)"

definition delete_volumes :: "(volume_row \<Rightarrow> bool) \<Rightarrow> 'x db_scheme \<Rightarrow> sql_err + nat \<times> 'x db_scheme" where
  "delete_volumes p w = checked (affected p (app_volumes w)) (w\<lparr>app_volumes := filter (\<lambda>r. \<not> p r) (app_volumes w)\<rparr>)"

definition insert_tag :: "tag_row \<Rightarrow> 'x db_scheme \<Rightarrow> sql_err + nat \<times> 'x db_scheme" where
  "insert_tag r w = checked 1 (w\<lparr>tags := tags w @ [r]\<rparr>)"

text \<open>The links of a deleted tag go with it (\<open>ON DELETE CASCADE\<close>).\<close>

definition delete_tags :: "(tag_row \<Rightarrow> bool) \<Rightarrow> 'x db_scheme \<Rightarrow> sql_err + nat \<times> 'x db_scheme" where
  "delete_tags p w =
     (let gone = set (map tg_id (filter p (tags w)))
      in checked (affected p (tags w))
           (w\<lparr>tags := filter (\<lambda>t. \<not> p t) (tags w), app_tags := filter (\<lambda>x. xt_tag_id x \<notin> gone) (app_tags w)\<rparr>))"

text \<open>\<open>INSERT INTO app_tags ... ON CONFLICT DO NOTHING\<close>.\<close>

definition insert_app_tag :: "app_tag \<Rightarrow> 'x db_scheme \<Rightarrow> sql_err + nat \<times> 'x db_scheme" where
  "insert_app_tag x w =
     (if x \<in> set (app_tags w) then Inr (0, w) else checked 1 (w\<lparr>app_tags := app_tags w @ [x]\<rparr>))"

definition delete_app_tags :: "(app_tag \<Rightarrow> bool) \<Rightarrow> 'x db_scheme \<Rightarrow> sql_err + nat \<times> 'x db_scheme" where
  "delete_app_tags p w = checked (affected p (app_tags w)) (w\<lparr>app_tags := filter (\<lambda>r. \<not> p r) (app_tags w)\<rparr>)"

lemmas statement_defs =
  insert_source_def update_sources_def delete_sources_def delete_settings_def insert_server_def update_servers_def
  delete_servers_def insert_volume_def update_volumes_def delete_volumes_def insert_tag_def delete_tags_def delete_app_tags_def
  insert_app_def delete_apps_def insert_domain_def update_domains_def delete_domains_def insert_zone_def
  update_zones_def delete_zones_def
  insert_user_def update_users_def delete_users_def insert_role_def update_roles_def
  delete_roles_def insert_team_def update_teams_def delete_teams_def insert_team_member_def
  delete_team_members_def insert_refresh_token_def update_refresh_tokens_def insert_totp_used_def
  delete_totp_used_def insert_api_token_def update_api_tokens_def upsert_setting_def update_settings_def
  insert_setting_def update_apps_def insert_deployment_def update_deployments_def upsert_secret_def
  delete_secrets_def

section \<open>Facts about statements\<close>

text \<open>The constraints on what is deployed do not look at people and teams.\<close>

lemma deploy_ok_frame [simp]:
  "deploy_unique_ok (w\<lparr>stp := n\<rparr>) = deploy_unique_ok w" "deploy_check_ok (w\<lparr>stp := n\<rparr>) = deploy_check_ok w"
  "deploy_fk_ok (w\<lparr>stp := n\<rparr>) = deploy_fk_ok w"
  "deploy_unique_ok (w\<lparr>users := us\<rparr>) = deploy_unique_ok w" "deploy_check_ok (w\<lparr>users := us\<rparr>) = deploy_check_ok w"
  "deploy_fk_ok (w\<lparr>users := us\<rparr>) = deploy_fk_ok w"
  "deploy_unique_ok (w\<lparr>roles := rs\<rparr>) = deploy_unique_ok w" "deploy_check_ok (w\<lparr>roles := rs\<rparr>) = deploy_check_ok w"
  "deploy_fk_ok (w\<lparr>roles := rs\<rparr>) = deploy_fk_ok w"
  "deploy_unique_ok (w\<lparr>teams := ts\<rparr>) = deploy_unique_ok w" "deploy_check_ok (w\<lparr>teams := ts\<rparr>) = deploy_check_ok w"
  "deploy_fk_ok (w\<lparr>teams := ts\<rparr>) = deploy_fk_ok w"
  "deploy_unique_ok (w\<lparr>team_members := ms\<rparr>) = deploy_unique_ok w"
  "deploy_check_ok (w\<lparr>team_members := ms\<rparr>) = deploy_check_ok w"
  "deploy_fk_ok (w\<lparr>team_members := ms\<rparr>) = deploy_fk_ok w"
  "deploy_unique_ok (w\<lparr>refresh_tokens := ks\<rparr>) = deploy_unique_ok w"
  "deploy_check_ok (w\<lparr>refresh_tokens := ks\<rparr>) = deploy_check_ok w"
  "deploy_fk_ok (w\<lparr>refresh_tokens := ks\<rparr>) = deploy_fk_ok w"
  "deploy_unique_ok (w\<lparr>totp_used := cs\<rparr>) = deploy_unique_ok w"
  "deploy_check_ok (w\<lparr>totp_used := cs\<rparr>) = deploy_check_ok w"
  "deploy_fk_ok (w\<lparr>totp_used := cs\<rparr>) = deploy_fk_ok w"
  "deploy_check_ok (w\<lparr>api_tokens := ps\<rparr>) = deploy_check_ok w"
  "deploy_fk_ok (w\<lparr>api_tokens := ps\<rparr>) = deploy_fk_ok w"
  by (simp_all add: deploy_unique_ok_def deploy_check_ok_def deploy_fk_ok_def app_ids_def
      cong: option.case_cong)

lemma checked_Inr_iff: "checked n w = Inr (k, w') \<longleftrightarrow> schema_ok w \<and> k = n \<and> w' = w"
  by (auto simp: checked_def schema_ok_def)

lemma checked_ok: "schema_ok w \<Longrightarrow> checked n w = Inr (n, w)"
  by (simp add: checked_Inr_iff)

lemma schema_ok_stp [simp]: "schema_ok (w\<lparr>stp := n\<rparr>) = schema_ok w"
  by (simp add: schema_ok_def unique_ok_def check_ok_def fk_ok_def user_ids_def role_ids_def
      team_ids_def cong: option.case_cong)

lemma schema_ok_tick [simp]: "schema_ok (tick w) = schema_ok w"
  by (simp add: tick_def)

lemma tables_tick [simp]:
  "users (tick w) = users w" "roles (tick w) = roles w" "teams (tick w) = teams w"
  "team_members (tick w) = team_members w" "apps (tick w) = apps w"
  "refresh_tokens (tick w) = refresh_tokens w" "totp_used (tick w) = totp_used w"
  "api_tokens (tick w) = api_tokens w" "settings (tick w) = settings w" "servers (tick w) = servers w"
  "domains (tick w) = domains w" "secrets (tick w) = secrets w" "app_volumes (tick w) = app_volumes w"
  "deployments (tick w) = deployments w" "dns_zones (tick w) = dns_zones w" "git_sources (tick w) = git_sources w"
  "tags (tick w) = tags w" "app_tags (tick w) = app_tags w"
  by (simp_all add: tick_def)

text \<open>Every statement that goes through leaves a database that meets all constraints.\<close>

lemma statement_schema_ok:
  "insert_user u w = Inr (n, w') \<Longrightarrow> schema_ok w'"
  "update_users p f w = Inr (n, w') \<Longrightarrow> schema_ok w'"
  "delete_users p w = Inr (n, w') \<Longrightarrow> schema_ok w'"
  "insert_role r w = Inr (n, w') \<Longrightarrow> schema_ok w'"
  "update_roles q g w = Inr (n, w') \<Longrightarrow> schema_ok w'"
  "delete_roles q w = Inr (n, w') \<Longrightarrow> schema_ok w'"
  "insert_team t w = Inr (n, w') \<Longrightarrow> schema_ok w'"
  "update_teams pt ft w = Inr (n, w') \<Longrightarrow> schema_ok w'"
  "delete_teams pt w = Inr (n, w') \<Longrightarrow> schema_ok w'"
  "insert_team_member m w = Inr (n, w') \<Longrightarrow> schema_ok w'"
  "delete_team_members pm w = Inr (n, w') \<Longrightarrow> schema_ok w'"
  "insert_refresh_token k w = Inr (n, w') \<Longrightarrow> schema_ok w'"
  "update_refresh_tokens pk fk w = Inr (n, w') \<Longrightarrow> schema_ok w'"
  "insert_totp_used c w = Inr (n, w') \<Longrightarrow> schema_ok w'"
  "delete_totp_used pc w = Inr (n, w') \<Longrightarrow> schema_ok w'"
  "insert_api_token tk w = Inr (n, w') \<Longrightarrow> schema_ok w'"
  "update_api_tokens ptk ftk w = Inr (n, w') \<Longrightarrow> schema_ok w'"
  "upsert_setting b key v w = Inr (n, w') \<Longrightarrow> schema_ok w'"
  "update_settings ps fs w = Inr (n, w') \<Longrightarrow> schema_ok w'"
  "insert_setting s w = Inr (n, w') \<Longrightarrow> schema_ok w'"
  "update_apps pa fa w = Inr (n, w') \<Longrightarrow> schema_ok w'"
  "insert_deployment d w = Inr (n, w') \<Longrightarrow> schema_ok w'"
  "update_deployments pd fd w = Inr (n, w') \<Longrightarrow> schema_ok w'"
  "upsert_secret sc w = Inr (n, w') \<Longrightarrow> schema_ok w'"
  "delete_secrets psc w = Inr (n, w') \<Longrightarrow> schema_ok w'"
  "insert_app a w = Inr (n, w') \<Longrightarrow> schema_ok w'"
  "delete_apps pa w = Inr (n, w') \<Longrightarrow> schema_ok w'"
  "insert_domain dm w = Inr (n, w') \<Longrightarrow> schema_ok w'"
  "update_domains pdm fdm w = Inr (n, w') \<Longrightarrow> schema_ok w'"
  "delete_domains pdm w = Inr (n, w') \<Longrightarrow> schema_ok w'"
  "insert_zone z w = Inr (n, w') \<Longrightarrow> schema_ok w'"
  "update_zones pz fz w = Inr (n, w') \<Longrightarrow> schema_ok w'"
  "delete_zones pz w = Inr (n, w') \<Longrightarrow> schema_ok w'"
  "insert_source gs w = Inr (n, w') \<Longrightarrow> schema_ok w'"
  "update_sources pgs fgs w = Inr (n, w') \<Longrightarrow> schema_ok w'"
  "delete_sources pgs w = Inr (n, w') \<Longrightarrow> schema_ok w'"
  "delete_settings ps w = Inr (n, w') \<Longrightarrow> schema_ok w'"
  "insert_server sv w = Inr (n, w') \<Longrightarrow> schema_ok w'"
  "update_servers psv fsv w = Inr (n, w') \<Longrightarrow> schema_ok w'"
  "delete_servers psv w = Inr (n, w') \<Longrightarrow> schema_ok w'"
  "insert_volume vl w = Inr (n, w') \<Longrightarrow> schema_ok w'"
  "update_volumes pvl fvl w = Inr (n, w') \<Longrightarrow> schema_ok w'"
  "delete_volumes pvl w = Inr (n, w') \<Longrightarrow> schema_ok w'"
  "insert_tag tg w = Inr (n, w') \<Longrightarrow> schema_ok w'"
  "delete_tags ptg w = Inr (n, w') \<Longrightarrow> schema_ok w'"
  "delete_app_tags pxt w = Inr (n, w') \<Longrightarrow> schema_ok w'"
  by (auto simp: statement_defs checked_Inr_iff Let_def)

lemma set_update_where: "set (update_where p f rs) = (\<lambda>r. if p r then f r else r) ` set rs"
  by (simp add: update_where_def)

lemma map_update_where:
  "(\<And>r. g (f r) = g r) \<Longrightarrow> map g (update_where p f rs) = map g rs"
  by (simp add: update_where_def)

lemma filter_update_where:
  "(\<And>r. p (f r) = p r) \<Longrightarrow> filter p (update_where p f rs) = map f (filter p rs)"
  by (induction rs) (auto simp: update_where_def)

lemma find_update_where:
  "(\<And>r. p (f r) = p r) \<Longrightarrow> find p (update_where p f rs) = map_option f (find p rs)"
  by (induction rs) (auto simp: update_where_def)

lemma find_update_mixed:
  "(\<And>r. q (f r) = q r) \<Longrightarrow>
     find q (update_where p f rs) = map_option (\<lambda>r. if p r then f r else r) (find q rs)"
  by (induction rs) (auto simp: update_where_def)

lemma filter_update_where_none:
  "(\<And>r. \<not> p (f r)) \<Longrightarrow> filter p (update_where p f rs) = []"
  by (induction rs) (auto simp: update_where_def)

lemma filter_update_where_other:
  "(\<And>r. p r \<Longrightarrow> \<not> q r \<and> \<not> q (f r)) \<Longrightarrow> filter q (update_where p f rs) = filter q rs"
  by (induction rs) (auto simp: update_where_def)

lemma length_update_where [simp]: "length (update_where p f rs) = length rs"
  by (simp add: update_where_def)

lemma find_append: "find p (xs @ ys) = (case find p xs of None \<Rightarrow> find p ys | Some x \<Rightarrow> Some x)"
  by (induction xs) auto

lemma find_SomeD: "find p rs = Some r \<Longrightarrow> r \<in> set rs \<and> p r"
  by (auto simp: find_Some_iff)

lemma some_key_append: "some_key k (xs @ ys) = some_key k xs @ some_key k ys"
  by (simp add: some_key_def)

lemma some_key_mem: "x \<in> set (some_key k xs) \<longleftrightarrow> (\<exists>r \<in> set xs. k r = Some x)"
  by (force simp: some_key_def)

lemma some_key_single: "k r = Some x \<Longrightarrow> some_key k [r] = [x]"
  by (simp add: some_key_def)

text \<open>A lookup by a unique key finds exactly the row with that key.\<close>

lemma find_key:
  assumes "distinct (map k rs)" and "r \<in> set rs" and "k r = v"
  shows "find (\<lambda>x. k x = v) rs = Some r"
  using assms by (induction rs) (auto simp: image_iff)

lemma find_key_iff:
  "distinct (map k rs) \<Longrightarrow> find (\<lambda>x. k x = v) rs = Some r \<longleftrightarrow> r \<in> set rs \<and> k r = v"
  using find_SomeD [of "\<lambda>x. k x = v" rs r] find_key [of k rs r v] by auto

lemma find_key_None: "find (\<lambda>x. k x = v) rs = None \<longleftrightarrow> v \<notin> k ` set rs"
  by (auto simp: find_None_iff)

definition schema_kept :: "'x db_scheme \<Rightarrow> 'x db_scheme \<Rightarrow> bool" where
  "schema_kept = keeps schema_ok"

interpretation schema: frame schema_kept
  unfolding schema_kept_def by (rule frame_keeps) simp

end
