(* ===== verification/Rbac_Core.thy ===== *)
theory Rbac_Core
  imports Database
begin

text \<open>
  The static part of the access-control component (\<open>internal/rbac\<close>): the permission catalogue and
  the default roles (\<open>catalog.go\<close>), the string helpers (\<open>helpers.go\<close>), the data types of the service
  (\<open>service.go\<close>) and the pure normalisers of \<open>roles.go\<close> and \<open>teams.go\<close>. Texts with letters beyond
  ASCII are given by their UTF-8 bytes.
\<close>

section \<open>The catalogue\<close>

definition PermAppsView :: string where
  "PermAppsView = ''apps.view''"

definition PermAppsCreate :: string where
  "PermAppsCreate = ''apps.create''"

definition PermAppsUpdate :: string where
  "PermAppsUpdate = ''apps.update''"

definition PermAppsDelete :: string where
  "PermAppsDelete = ''apps.delete''"

definition PermAppsDeploy :: string where
  "PermAppsDeploy = ''apps.deploy''"

definition PermAppsRollback :: string where
  "PermAppsRollback = ''apps.rollback''"

definition PermAppsLogs :: string where
  "PermAppsLogs = ''apps.logs''"

definition PermAppsSecretsView :: string where
  "PermAppsSecretsView = ''apps.secrets.view''"

definition PermAppsSecretsManage :: string where
  "PermAppsSecretsManage = ''apps.secrets.manage''"

definition PermDomainsView :: string where
  "PermDomainsView = ''domains.view''"

definition PermDomainsManage :: string where
  "PermDomainsManage = ''domains.manage''"

definition PermServersView :: string where
  "PermServersView = ''servers.view''"

definition PermServersManage :: string where
  "PermServersManage = ''servers.manage''"

definition PermGitView :: string where
  "PermGitView = ''git.view''"

definition PermGitManage :: string where
  "PermGitManage = ''git.manage''"

definition PermTeamsView :: string where
  "PermTeamsView = ''teams.view''"

definition PermTeamsManage :: string where
  "PermTeamsManage = ''teams.manage''"

definition PermTeamsMembersManage :: string where
  "PermTeamsMembersManage = ''teams.members.manage''"

definition PermMembersView :: string where
  "PermMembersView = ''members.view''"

definition PermMembersInvite :: string where
  "PermMembersInvite = ''members.invite''"

definition PermMembersManage :: string where
  "PermMembersManage = ''members.manage''"

definition PermRolesView :: string where
  "PermRolesView = ''roles.view''"

definition PermRolesManage :: string where
  "PermRolesManage = ''roles.manage''"

definition PermSettingsInstanceManage :: string where
  "PermSettingsInstanceManage = ''settings.instance.manage''"

lemmas perm_defs =
  PermAppsView_def PermAppsCreate_def PermAppsUpdate_def PermAppsDelete_def PermAppsDeploy_def
  PermAppsRollback_def PermAppsLogs_def PermAppsSecretsView_def PermAppsSecretsManage_def
  PermDomainsView_def PermDomainsManage_def PermServersView_def PermServersManage_def
  PermGitView_def PermGitManage_def PermTeamsView_def PermTeamsManage_def
  PermTeamsMembersManage_def PermMembersView_def PermMembersInvite_def PermMembersManage_def
  PermRolesView_def PermRolesManage_def PermSettingsInstanceManage_def

definition RoleScopeGlobal :: string where
  "RoleScopeGlobal = ''global''"

definition RoleScopeTeam :: string where
  "RoleScopeTeam = ''team''"

definition RoleScopeBoth :: string where
  "RoleScopeBoth = ''both''"

lemmas scope_defs = RoleScopeGlobal_def RoleScopeTeam_def RoleScopeBoth_def

record PermissionDefinition =
  pd_Slug :: string
  pd_Group :: string
  pd_Name :: string
  pd_Description :: string

definition PermissionDefinitions :: "PermissionDefinition list" where
  "PermissionDefinitions =
     [\<lparr>pd_Slug = PermAppsView, pd_Group = ''apps'',
        pd_Name = ''Ver apps'',
        pd_Description = ''Listar e abrir apps dentro do escopo permitido.''\<rparr>,
      \<lparr>pd_Slug = PermAppsCreate, pd_Group = ''apps'',
        pd_Name = ''Criar apps'',
        pd_Description = ''Criar novos apps globais ou em times permitidos.''\<rparr>,
      \<lparr>pd_Slug = PermAppsUpdate, pd_Group = ''apps'',
        pd_Name = ''Editar apps'',
        pd_Description = ''Alterar configura'' @ [CHR 0xC3, CHR 0xA7, CHR 0xC3, CHR 0xB5] @
          ''es de build, runtime e health-check.''\<rparr>,
      \<lparr>pd_Slug = PermAppsDelete, pd_Group = ''apps'',
        pd_Name = ''Excluir apps'',
        pd_Description = ''Remover apps e recursos associados.''\<rparr>,
      \<lparr>pd_Slug = PermAppsDeploy, pd_Group = ''apps'',
        pd_Name = ''Deploy'',
        pd_Description = ''Iniciar deploys e restart de apps.''\<rparr>,
      \<lparr>pd_Slug = PermAppsRollback, pd_Group = ''apps'',
        pd_Name = ''Rollback'',
        pd_Description = ''Promover vers'' @ [CHR 0xC3, CHR 0xB5] @ ''es anteriores.''\<rparr>,
      \<lparr>pd_Slug = PermAppsLogs, pd_Group = ''apps'',
        pd_Name = ''Logs'',
        pd_Description = ''Ler logs de deploy e runtime.''\<rparr>,
      \<lparr>pd_Slug = PermAppsSecretsView, pd_Group = ''apps'',
        pd_Name = ''Ver secrets'',
        pd_Description = ''Listar metadados de secrets sem ver valores.''\<rparr>,
      \<lparr>pd_Slug = PermAppsSecretsManage, pd_Group = ''apps'',
        pd_Name = ''Gerenciar secrets'',
        pd_Description = ''Criar, atualizar e remover secrets.''\<rparr>,
      \<lparr>pd_Slug = PermDomainsView, pd_Group = ''domains'',
        pd_Name = ''Ver dom'' @ [CHR 0xC3, CHR 0xAD] @ ''nios'',
        pd_Description = ''Listar dom'' @ [CHR 0xC3, CHR 0xAD] @ ''nios e status DNS/TLS.''\<rparr>,
      \<lparr>pd_Slug = PermDomainsManage, pd_Group = ''domains'',
        pd_Name = ''Gerenciar dom'' @ [CHR 0xC3, CHR 0xAD] @ ''nios'',
        pd_Description = ''Criar, verificar e remover dom'' @ [CHR 0xC3, CHR 0xAD] @ ''nios.''\<rparr>,
      \<lparr>pd_Slug = PermServersView, pd_Group = ''servers'',
        pd_Name = ''Ver servidores'',
        pd_Description = ''Listar servidores Docker.''\<rparr>,
      \<lparr>pd_Slug = PermServersManage, pd_Group = ''servers'',
        pd_Name = ''Gerenciar servidores'',
        pd_Description = ''Criar, testar, editar e remover servidores.''\<rparr>,
      \<lparr>pd_Slug = PermGitView, pd_Group = ''git'',
        pd_Name = ''Ver integra'' @ [CHR 0xC3, CHR 0xA7, CHR 0xC3, CHR 0xB5] @ ''es Git'',
        pd_Description = ''Listar integra'' @ [CHR 0xC3, CHR 0xA7, CHR 0xC3, CHR 0xB5] @
          ''es e reposit'' @ [CHR 0xC3, CHR 0xB3] @ ''rios Git.''\<rparr>,
      \<lparr>pd_Slug = PermGitManage, pd_Group = ''git'',
        pd_Name = ''Gerenciar Git'',
        pd_Description = ''Criar e remover GitHub Apps, tokens e chaves SSH.''\<rparr>,
      \<lparr>pd_Slug = PermTeamsView, pd_Group = ''teams'',
        pd_Name = ''Ver times'',
        pd_Description = ''Listar times e composi'' @ [CHR 0xC3, CHR 0xA7, CHR 0xC3, CHR 0xA3] @ ''o.''\<rparr>,
      \<lparr>pd_Slug = PermTeamsManage, pd_Group = ''teams'',
        pd_Name = ''Gerenciar times'',
        pd_Description = ''Criar, editar e remover times.''\<rparr>,
      \<lparr>pd_Slug = PermTeamsMembersManage, pd_Group = ''teams'',
        pd_Name = ''Gerenciar membros de times'',
        pd_Description = ''Adicionar e remover pessoas dos times.''\<rparr>,
      \<lparr>pd_Slug = PermMembersView, pd_Group = ''members'',
        pd_Name = ''Ver membros'',
        pd_Description = ''Listar membros da inst'' @ [CHR 0xC3, CHR 0xA2] @ ''ncia.''\<rparr>,
      \<lparr>pd_Slug = PermMembersInvite, pd_Group = ''members'',
        pd_Name = ''Convidar membros'',
        pd_Description = ''Criar novos acessos para a inst'' @ [CHR 0xC3, CHR 0xA2] @ ''ncia.''\<rparr>,
      \<lparr>pd_Slug = PermMembersManage, pd_Group = ''members'',
        pd_Name = ''Gerenciar membros'',
        pd_Description = ''Alterar papel, status e times de membros.''\<rparr>,
      \<lparr>pd_Slug = PermRolesView, pd_Group = ''roles'',
        pd_Name = ''Ver permiss'' @ [CHR 0xC3, CHR 0xB5] @ ''es'',
        pd_Description = ''Listar pap'' @ [CHR 0xC3, CHR 0xA9] @
          ''is e cat'' @ [CHR 0xC3, CHR 0xA1] @ ''logo de permiss'' @ [CHR 0xC3, CHR 0xB5] @ ''es.''\<rparr>,
      \<lparr>pd_Slug = PermRolesManage, pd_Group = ''roles'',
        pd_Name = ''Gerenciar permiss'' @ [CHR 0xC3, CHR 0xB5] @ ''es'',
        pd_Description = ''Criar e editar pap'' @ [CHR 0xC3, CHR 0xA9] @ ''is.''\<rparr>,
      \<lparr>pd_Slug = PermSettingsInstanceManage, pd_Group = ''settings'',
        pd_Name = ''Gerenciar inst'' @ [CHR 0xC3, CHR 0xA2] @ ''ncia'',
        pd_Description = ''Alterar configura'' @ [CHR 0xC3, CHR 0xA7, CHR 0xC3, CHR 0xB5] @
          ''es globais da instala'' @ [CHR 0xC3, CHR 0xA7, CHR 0xC3, CHR 0xA3] @ ''o.''\<rparr>]"

definition AllPermissions :: "string list" where
  "AllPermissions = map pd_Slug PermissionDefinitions"

definition permissionSet :: "string set" where
  "permissionSet = set AllPermissions"

record defaultRole =
  dr_Slug :: string
  dr_Name :: string
  dr_Description :: string
  dr_Scope :: string
  dr_IsAdmin :: bool
  dr_Permissions :: "string list"

definition defaultRoles :: "defaultRole list" where
  "defaultRoles =
     (let devPerms =
        [PermAppsView, PermAppsCreate, PermAppsUpdate, PermAppsDeploy, PermAppsRollback,
         PermAppsLogs, PermAppsSecretsView, PermDomainsView, PermGitView]
      in
     [\<lparr>dr_Slug = ''admin'', dr_Name = ''Admin'',
        dr_Description = ''Acesso total '' @ [CHR 0xC3, CHR 0xA0] @ '' inst'' @ [CHR 0xC3, CHR 0xA2] @ ''ncia.'',
        dr_Scope = RoleScopeGlobal, dr_IsAdmin = True, dr_Permissions = []\<rparr>,
      \<lparr>dr_Slug = ''platform'', dr_Name = ''Platform'',
        dr_Description = ''Administra integra'' @ [CHR 0xC3, CHR 0xA7, CHR 0xC3, CHR 0xB5] @
          ''es, servidores, dom'' @ [CHR 0xC3, CHR 0xAD] @ ''nios e pol'' @ [CHR 0xC3, CHR 0xAD] @
          ''ticas globais sem acesso autom'' @ [CHR 0xC3, CHR 0xA1] @ ''tico a times.'',
        dr_Scope = RoleScopeGlobal, dr_IsAdmin = False,
        dr_Permissions =
          [PermAppsView, PermDomainsView, PermDomainsManage, PermServersView, PermServersManage,
           PermGitView, PermGitManage, PermTeamsView, PermTeamsManage, PermTeamsMembersManage,
           PermMembersView, PermMembersInvite, PermMembersManage, PermRolesView, PermRolesManage,
           PermSettingsInstanceManage]\<rparr>,
      \<lparr>dr_Slug = ''tech-lead'', dr_Name = ''Tech Lead'',
        dr_Description =
          ''Gerencia apps, deploys, secrets e membros dentro dos times em que lidera.'',
        dr_Scope = RoleScopeTeam, dr_IsAdmin = False,
        dr_Permissions =
          [PermAppsView, PermAppsCreate, PermAppsUpdate, PermAppsDelete, PermAppsDeploy,
           PermAppsRollback, PermAppsLogs, PermAppsSecretsView, PermAppsSecretsManage,
           PermDomainsView, PermDomainsManage, PermTeamsView, PermTeamsManage,
           PermTeamsMembersManage, PermGitView]\<rparr>,
      \<lparr>dr_Slug = ''developer'', dr_Name = ''Developer'',
        dr_Description = ''Gerencia apps e deploys dentro dos times em que participa.'',
        dr_Scope = RoleScopeTeam, dr_IsAdmin = False, dr_Permissions = devPerms\<rparr>,
      \<lparr>dr_Slug = ''qa'', dr_Name = ''QA'',
        dr_Description =
          ''Acompanha deploys, logs e estado dos apps do time sem alterar infraestrutura.'',
        dr_Scope = RoleScopeTeam, dr_IsAdmin = False,
        dr_Permissions =
          [PermAppsView, PermAppsDeploy, PermAppsRollback, PermAppsLogs, PermDomainsView,
           PermTeamsView]\<rparr>,
      \<lparr>dr_Slug = ''viewer'', dr_Name = ''Viewer'',
        dr_Description = ''Acesso somente leitura aos recursos permitidos.'',
        dr_Scope = RoleScopeBoth, dr_IsAdmin = False,
        dr_Permissions =
          [PermAppsView, PermAppsLogs, PermDomainsView, PermServersView, PermGitView,
           PermTeamsView, PermMembersView, PermRolesView]\<rparr>])"

section \<open>Errors and data types of the service\<close>

definition ErrNotFound :: err where "ErrNotFound = ErrNew ''rbac: not found''"

definition ErrForbidden :: err where "ErrForbidden = ErrNew ''rbac: forbidden''"

definition ErrInvalidInput :: err where "ErrInvalidInput = ErrNew ''rbac: invalid input''"

definition ErrSystemRole :: err where "ErrSystemRole = ErrNew ''rbac: system role''"

definition ErrRoleInUse :: err where "ErrRoleInUse = ErrNew ''rbac: role in use''"

definition ErrTeamHasApps :: err where "ErrTeamHasApps = ErrNew ''rbac: team has apps''"

definition ErrSelfDelete :: err where "ErrSelfDelete = ErrNew ''rbac: cannot delete current user''"

lemmas rbac_err_defs =
  ErrNotFound_def ErrForbidden_def ErrInvalidInput_def ErrSystemRole_def ErrRoleInUse_def
  ErrTeamHasApps_def ErrSelfDelete_def

text \<open>\<open>slugRegex\<close> is \<open>^[a-z0-9](?:[a-z0-9-]*[a-z0-9])?$\<close>, \<open>colorRegex\<close> is \<open>^#[0-9a-fA-F]{6}$\<close>.\<close>

definition slug_char :: "char \<Rightarrow> bool" where
  "slug_char c \<longleftrightarrow> is_lower c \<or> is_digit c"

definition slugRegex :: "string \<Rightarrow> bool" where
  "slugRegex s \<longleftrightarrow>
     s \<noteq> [] \<and> slug_char (hd s) \<and> slug_char (last s) \<and>
     list_all (\<lambda>c. slug_char c \<or> c = CHR ''-'') s"

definition colorRegex :: "string \<Rightarrow> bool" where
  "colorRegex s \<longleftrightarrow>
     length s = 7 \<and> hd s = CHR 0x23 \<and>
     list_all (\<lambda>c. is_digit c \<or> (CHR ''a'' \<le> c \<and> c \<le> CHR ''f'')
                 \<or> (CHR ''A'' \<le> c \<and> c \<le> CHR ''F'')) (tl s)"

definition statusAllowed :: "string set" where
  "statusAllowed = {''active'', ''inactive'', ''blocked''}"

record Role =
  role_ID :: string
  role_Slug :: string
  role_Name :: string
  role_Description :: string
  role_Scope :: string
  role_IsAdmin :: bool
  role_IsSystem :: bool
  role_Permissions :: "string list"
  role_CreatedAt :: int
  role_UpdatedAt :: int

record Team =
  team_ID :: string
  team_Name :: string
  team_Slug :: string
  team_Description :: string
  team_Color :: string
  team_AvatarPath :: string
  team_AvatarURL :: string
  team_MemberCount :: nat
  team_AppCount :: nat
  team_CreatedAt :: int
  team_UpdatedAt :: int

record Member =
  mem_ID :: string
  mem_Email :: string
  mem_Name :: string
  mem_AvatarURL :: string
  mem_Status :: string
  mem_Role :: "Role option"
  mem_TeamRole :: "Role option"
  mem_Teams :: "Team list"
  mem_CreatedAt :: int

record UserContext =
  uc_ID :: string
  uc_Email :: string
  uc_Name :: string
  uc_AvatarURL :: string
  uc_Status :: string
  uc_Role :: "Role option"
  uc_RoleSlug :: string
  uc_Permissions :: "string list"
  uc_IsAdmin :: bool

record TeamMemberInput =
  tmi_TeamID :: string
  tmi_UserID :: string
  tmi_RoleID :: string

record CreateRoleInput =
  cri_Name :: string
  cri_Description :: string
  cri_Scope :: string
  cri_Permissions :: "string list"
  cri_IsAdmin :: bool

record UpdateRoleInput =
  uri_Name :: "string option"
  uri_Description :: "string option"
  uri_Scope :: "string option"
  uri_Permissions :: "string list"
  uri_PermissionsSet :: bool

record CreateMemberInput =
  cmi_Email :: string
  cmi_Name :: string
  cmi_Password :: string
  cmi_RoleID :: string
  cmi_TeamIDs :: "string list"
  cmi_Teams :: "TeamMemberInput list"

record UpdateMemberInput =
  umi_Name :: "string option"
  umi_RoleID :: "string option"
  umi_Status :: "string option"
  umi_TeamIDs :: "string list"
  umi_Teams :: "TeamMemberInput list"
  umi_TeamsSet :: bool

record CreateTeamInput =
  cti_Name :: string
  cti_Slug :: string
  cti_Description :: string
  cti_Color :: string
  cti_MemberIDs :: "string list"
  cti_Members :: "TeamMemberInput list"

record UpdateTeamInput =
  uti_Name :: "string option"
  uti_Slug :: "string option"
  uti_Description :: "string option"
  uti_Color :: "string option"

section \<open>Helpers\<close>

text \<open>The loop of \<open>uniqueStrings\<close>: the set \<open>seen\<close> holds the values already emitted.\<close>

fun uniqueStrings_loop :: "string set \<Rightarrow> string list \<Rightarrow> string list" where
  "uniqueStrings_loop seen [] = []"
| "uniqueStrings_loop seen (x # xs) =
     (let v = trim_space x
      in if v = [] then uniqueStrings_loop seen xs
         else if v \<in> seen then uniqueStrings_loop seen xs
         else v # uniqueStrings_loop (insert v seen) xs)"

definition uniqueStrings :: "string list \<Rightarrow> string list" where
  "uniqueStrings xs = uniqueStrings_loop {} xs"

fun slugify_loop :: "bool \<Rightarrow> string \<Rightarrow> string" where
  "slugify_loop lastDash [] = []"
| "slugify_loop lastDash (r # rs) =
     (if slug_char r then r # slugify_loop False rs
      else if \<not> lastDash then CHR ''-'' # slugify_loop True rs
      else slugify_loop lastDash rs)"

definition slugify :: "string \<Rightarrow> string" where
  "slugify s =
     (let out = trim_cutset ''-'' (slugify_loop False (to_lower (trim_space s)))
      in if out = [] then ''role'' else out)"

text \<open>
  The candidate loop of \<open>uniqueSlug\<close>, from counter \<open>i\<close>. The error of the count query is discarded by
  the code, which then sees the count 0.
\<close>

definition slug_candidate :: "string \<Rightarrow> nat \<Rightarrow> string" where
  "slug_candidate base i = (if i > 0 then base @ ''-'' @ nat_digits (i + 1) else base)"

function uniqueSlug_from ::
  "('x db_scheme \<Rightarrow> string list) \<Rightarrow> string \<Rightarrow> nat \<Rightarrow> ('x, string) dbm" where
  "uniqueSlug_from table base i =
     (if i < 1000
      then bnd (attempt (db_query (\<lambda>w. count_list (table w) (slug_candidate base i))))
             (\<lambda>r. if (case r of Inl _ \<Rightarrow> 0 | Inr n \<Rightarrow> n) = 0 then ret (slug_candidate base i)
                   else uniqueSlug_from table base (Suc i))
      else bnd new_uuid (\<lambda>u. ret (base @ ''-'' @ take 8 u)))"
  by pat_completeness auto
termination
  by (relation "measure (\<lambda>(t, b, i). 1000 - i)") auto

declare uniqueSlug_from.simps [simp del]

definition uniqueSlug :: "('x db_scheme \<Rightarrow> string list) \<Rightarrow> string \<Rightarrow> ('x, string) dbm" where
  "uniqueSlug table base =
     (let b = (if \<not> slugRegex base then ''role'' else base) in uniqueSlug_from table b 0)"

definition avatarURL :: "string \<Rightarrow> string" where
  "avatarURL path =
     (if trim_space path = [] then [] else ''/api/v1/avatars/'' @ trim_space path)"

definition hasPermission :: "string list \<Rightarrow> string \<Rightarrow> bool" where
  "hasPermission perms permission = list_ex (\<lambda>p. p = permission) perms"

section \<open>Normalisers\<close>

text \<open>The first loop of \<open>normalisePermissions\<close> collects a set; the result is that set, sorted.\<close>

fun normalisePermissions_loop :: "string list \<Rightarrow> string list \<Rightarrow> err + string list" where
  "normalisePermissions_loop acc [] = Inr acc"
| "normalisePermissions_loop acc (x # xs) =
     (let p = trim_space x
      in if p = [] then normalisePermissions_loop acc xs
         else if p \<notin> permissionSet then Inl (ErrWrap (''unknown permission '' @ p) ErrInvalidInput)
         else normalisePermissions_loop (List.insert p acc) xs)"

definition normalisePermissions :: "string list \<Rightarrow> err + string list" where
  "normalisePermissions xs =
     (case normalisePermissions_loop [] xs of Inl e \<Rightarrow> Inl e | Inr s \<Rightarrow> Inr (sort s))"

definition normaliseScope :: "string \<Rightarrow> string" where
  "normaliseScope scope =
     (if trim_space scope \<in> {RoleScopeGlobal, RoleScopeTeam, RoleScopeBoth} then trim_space scope
      else RoleScopeBoth)"

definition roleAllowsScope :: "Role option \<Rightarrow> string \<Rightarrow> bool" where
  "roleAllowsScope role scope \<longleftrightarrow>
     (case role of None \<Rightarrow> False
      | Some r \<Rightarrow> role_Scope r = RoleScopeBoth \<or> role_Scope r = scope)"

definition member_key :: "TeamMemberInput \<Rightarrow> string" where
  "member_key m = tmi_TeamID m @ [CHR 0x00] @ tmi_UserID m"

definition trim_input :: "TeamMemberInput \<Rightarrow> TeamMemberInput" where
  "trim_input m =
     m\<lparr>tmi_TeamID := trim_space (tmi_TeamID m), tmi_UserID := trim_space (tmi_UserID m),
       tmi_RoleID := trim_space (tmi_RoleID m)\<rparr>"

fun normaliseTeamMembers_loop ::
  "string set \<Rightarrow> TeamMemberInput list \<Rightarrow> TeamMemberInput list" where
  "normaliseTeamMembers_loop seen [] = []"
| "normaliseTeamMembers_loop seen (x # xs) =
     (let m = trim_input x; key = member_key m
      in if tmi_RoleID m = [] \<or> key = [CHR 0x00] then normaliseTeamMembers_loop seen xs
         else if key \<in> seen then normaliseTeamMembers_loop seen xs
         else m # normaliseTeamMembers_loop (insert key seen) xs)"

definition normaliseTeamMembers :: "TeamMemberInput list \<Rightarrow> TeamMemberInput list" where
  "normaliseTeamMembers xs = normaliseTeamMembers_loop {} xs"

section \<open>Facts about the catalogue and the helpers\<close>

lemma AllPermissions_eq:
  "AllPermissions =
     [PermAppsView, PermAppsCreate, PermAppsUpdate, PermAppsDelete, PermAppsDeploy,
      PermAppsRollback, PermAppsLogs, PermAppsSecretsView, PermAppsSecretsManage, PermDomainsView,
      PermDomainsManage, PermServersView, PermServersManage, PermGitView, PermGitManage,
      PermTeamsView, PermTeamsManage, PermTeamsMembersManage, PermMembersView, PermMembersInvite,
      PermMembersManage, PermRolesView, PermRolesManage, PermSettingsInstanceManage]"
  by (simp add: AllPermissions_def PermissionDefinitions_def)

lemma AllPermissions_distinct: "distinct AllPermissions"
  by (simp add: AllPermissions_eq perm_defs)

lemma defaultRoles_perms: "d \<in> set defaultRoles \<Longrightarrow> set (dr_Permissions d) \<subseteq> permissionSet"
  by (auto simp: defaultRoles_def permissionSet_def AllPermissions_eq)

lemma defaultRoles_scope:
  "d \<in> set defaultRoles \<Longrightarrow> dr_Scope d \<in> {RoleScopeGlobal, RoleScopeTeam, RoleScopeBoth}"
  by (auto simp: defaultRoles_def)

lemma slug_char_not_dash [simp]: "\<not> slug_char (CHR ''-'')"
  by code_simp

lemma slugify_loop_chars: "c \<in> set (slugify_loop b s) \<Longrightarrow> slug_char c \<or> c = CHR ''-''"
  by (induction b s rule: slugify_loop.induct) (auto split: if_splits)

lemma trim_cutset_set: "set (trim_cutset cs s) \<subseteq> set s"
  unfolding trim_cutset_def by (auto dest!: set_dropWhileD)

lemma trim_cutset_ends:
  assumes "trim_cutset cs s \<noteq> []"
  shows "hd (trim_cutset cs s) \<notin> set cs" and "last (trim_cutset cs s) \<notin> set cs"
proof -
  let ?P = "\<lambda>c. c \<in> set cs"
  let ?t = "dropWhile ?P s"
  have ne: "dropWhile ?P (rev ?t) \<noteq> []" using assms by (auto simp: trim_cutset_def)
  then show "last (trim_cutset cs s) \<notin> set cs"
    using hd_dropWhile [OF ne] by (simp add: trim_cutset_def last_rev)
  obtain us where us: "rev ?t = us @ dropWhile ?P (rev ?t)"
    by (metis takeWhile_dropWhile_id)
  then have "?t = rev (dropWhile ?P (rev ?t)) @ rev us" by (metis rev_append rev_rev_ident)
  then have "hd (trim_cutset cs s) = hd ?t" and "?t \<noteq> []"
    using ne by (metis hd_append2 rev_is_Nil_conv trim_cutset_def, metis append_is_Nil_conv rev_is_Nil_conv)
  then show "hd (trim_cutset cs s) \<notin> set cs" using hd_dropWhile [of ?P s] by simp
qed

text \<open>Whatever name an operator types, the slug derived from it satisfies the slug pattern.\<close>

lemma slugify_slug: "slugRegex (slugify s)"
proof (cases "trim_cutset ''-'' (slugify_loop False (to_lower (trim_space s))) = []")
  case True
  have "slugRegex ''role''" by code_simp
  with True show ?thesis by (simp add: slugify_def)
next
  case False
  let ?out = "trim_cutset ''-'' (slugify_loop False (to_lower (trim_space s)))"
  have chars: "slug_char c \<or> c = CHR ''-''" if "c \<in> set ?out" for c
    using that trim_cutset_set slugify_loop_chars by blast
  have "hd ?out \<in> set ?out" and "last ?out \<in> set ?out" using False by simp_all
  with chars trim_cutset_ends [OF False] have "slug_char (hd ?out)" and "slug_char (last ?out)"
    by auto
  with False chars show ?thesis by (auto simp: slugify_def slugRegex_def list_all_iff Let_def)
qed

lemma uniqueStrings_loop_spec:
  "distinct (uniqueStrings_loop seen xs) \<and> seen \<inter> set (uniqueStrings_loop seen xs) = {} \<and>
   set (uniqueStrings_loop seen xs) = (trim_space ` set xs) - {[]} - seen"
  by (induction seen xs rule: uniqueStrings_loop.induct) (auto simp: Let_def)

lemma uniqueStrings_distinct: "distinct (uniqueStrings xs)"
  using uniqueStrings_loop_spec [of "{}" xs] by (simp add: uniqueStrings_def)

lemma set_uniqueStrings: "set (uniqueStrings xs) = (trim_space ` set xs) - {[]}"
  using uniqueStrings_loop_spec [of "{}" xs] by (simp add: uniqueStrings_def)

lemma normalisePermissions_loop_ok:
  "(trim_space ` set xs) - {[]} \<subseteq> permissionSet \<Longrightarrow> normalisePermissions_loop acc xs =
     Inr (fold (\<lambda>x a. if trim_space x = [] then a else List.insert (trim_space x) a) xs acc)"
  by (induction xs arbitrary: acc) (auto simp: Let_def)

lemma normalisePermissions_loop_bad:
  "\<not> (trim_space ` set xs) - {[]} \<subseteq> permissionSet \<Longrightarrow>
     \<exists>p. normalisePermissions_loop acc xs = Inl (ErrWrap (''unknown permission '' @ p) ErrInvalidInput)"
  by (induction xs arbitrary: acc) (auto simp: Let_def)

lemma fold_insert_trim:
  "distinct acc \<Longrightarrow>
     distinct (fold (\<lambda>x a. if trim_space x = [] then a else List.insert (trim_space x) a) xs acc) \<and>
     set (fold (\<lambda>x a. if trim_space x = [] then a else List.insert (trim_space x) a) xs acc)
       = set acc \<union> ((trim_space ` set xs) - {[]})"
  by (induction xs arbitrary: acc) auto

text \<open>
  The permission list of a role is accepted exactly when every entry (after trimming, blanks
  ignored) is in the catalogue, and what is stored is then the sorted list of the distinct entries.
\<close>

theorem normalisePermissions_spec:
  "(normalisePermissions xs = Inr ps \<longleftrightarrow>
      (trim_space ` set xs) - {[]} \<subseteq> permissionSet \<and>
      sorted ps \<and> distinct ps \<and> set ps = (trim_space ` set xs) - {[]})"
proof -
  let ?s = "fold (\<lambda>x a. if trim_space x = [] then a else List.insert (trim_space x) a) xs []"
  have s: "distinct ?s" "set ?s = (trim_space ` set xs) - {[]}"
    using fold_insert_trim [of "[]" xs] by simp_all
  have "normalisePermissions xs = Inr ps \<longleftrightarrow>
          (trim_space ` set xs) - {[]} \<subseteq> permissionSet \<and> ps = sort ?s"
    using normalisePermissions_loop_ok [of xs "[]"] normalisePermissions_loop_bad [of xs "[]"]
    by (cases "(trim_space ` set xs) - {[]} \<subseteq> permissionSet") (auto simp: normalisePermissions_def)
  moreover have "ps = sort ?s \<longleftrightarrow> sorted ps \<and> distinct ps \<and> set ps = (trim_space ` set xs) - {[]}"
    using s sorted_distinct_set_unique [of ps "sort ?s"] by auto
  ultimately show ?thesis by blast
qed

lemma trim_input_idem [simp]: "trim_input (trim_input m) = trim_input m"
  by (simp add: trim_input_def)

lemma normaliseTeamMembers_loop_trimmed:
  "m \<in> set (normaliseTeamMembers_loop seen xs) \<Longrightarrow>
     trim_input m = m \<and> tmi_RoleID m \<noteq> [] \<and> m \<in> trim_input ` set xs \<and> member_key m \<notin> seen"
  by (induction seen xs rule: normaliseTeamMembers_loop.induct)
    (auto simp: Let_def simp del: insert_iff split: if_splits)

lemma normaliseTeamMembers_loop_distinct:
  "distinct (map member_key (normaliseTeamMembers_loop seen xs))"
proof (induction seen xs rule: normaliseTeamMembers_loop.induct)
  case (2 seen x xs)
  let ?m = "trim_input x"
  have "member_key ?m \<notin> member_key ` set (normaliseTeamMembers_loop (insert (member_key ?m) seen) xs)"
    using normaliseTeamMembers_loop_trimmed [of _ "insert (member_key ?m) seen" xs] by fastforce
  with 2 show ?case by (simp add: Let_def)
qed simp

lemma normaliseTeamMembers_loop_complete:
  "x \<in> set xs \<Longrightarrow> tmi_RoleID (trim_input x) \<noteq> [] \<Longrightarrow> member_key (trim_input x) \<noteq> [CHR 0x00] \<Longrightarrow>
     member_key (trim_input x) \<in> seen \<union> member_key ` set (normaliseTeamMembers_loop seen xs)"
proof (induction seen xs rule: normaliseTeamMembers_loop.induct)
  case (2 seen y ys)
  then show ?case by (cases "x = y") (auto simp: Let_def)
qed simp

lemmas normaliseTeamMembers_trimmed =
  normaliseTeamMembers_loop_trimmed [of _ "{}", folded normaliseTeamMembers_def]

lemmas normaliseTeamMembers_distinct =
  normaliseTeamMembers_loop_distinct [of "{}", folded normaliseTeamMembers_def]

lemmas normaliseTeamMembers_complete =
  normaliseTeamMembers_loop_complete [of _ _ "{}", folded normaliseTeamMembers_def, simplified]

lemma uniqueSlug_from_step:
  assumes "\<not> o_fault (orc w) (stp w)" and "i < 1000"
  shows "uniqueSlug_from table base i w =
     (if slug_candidate base i \<in> set (table w) then uniqueSlug_from table base (Suc i) (tick w)
      else (Inr (slug_candidate base i), tick w))"
  using assms
  by (simp add: uniqueSlug_from.simps [of table base i] bnd_def attempt_run db_query_def ret_def
      count_list_0_iff)

lemma uniqueSlug_from_spec:
  assumes "uniqueSlug_from table base i w = (Inr s, w')" and "i \<le> 1000"
    and "\<And>n. \<not> o_fault (orc w) n" and "\<And>v n. table (v\<lparr>stp := n\<rparr>) = table v"
  shows "s \<notin> set (table w) \<and> (\<exists>j<1000. s = slug_candidate base j) \<or>
         (\<forall>j. i \<le> j \<and> j < 1000 \<longrightarrow> slug_candidate base j \<in> set (table w))"
  using assms
proof (induction "1000 - i" arbitrary: i w)
  case 0
  then show ?case by auto
next
  case (Suc k)
  then have i: "i < 1000" by simp
  show ?case
  proof (cases "slug_candidate base i \<in> set (table w)")
    case False
    with Suc.prems(1,3) i show ?thesis by (auto simp: uniqueSlug_from_step)
  next
    case True
    with Suc.prems(1,3) i have rec: "uniqueSlug_from table base (Suc i) (tick w) = (Inr s, w')"
      by (simp add: uniqueSlug_from_step)
    have "table (tick w) = table w" using Suc.prems(4) by (simp add: tick_def)
    with Suc.hyps(1) [OF _ rec] Suc.hyps(2) Suc.prems(3,4) i
    have "s \<notin> set (table w) \<and> (\<exists>j<1000. s = slug_candidate base j) \<or>
         (\<forall>j. Suc i \<le> j \<and> j < 1000 \<longrightarrow> slug_candidate base j \<in> set (table w))"
      by auto
    with True show ?thesis by (metis Suc_leI le_neq_implies_less)
  qed
qed

lemma slugRegex_base: "slugRegex (if \<not> slugRegex b then ''role'' else b)"
  by (simp, code_simp)

end
