(* ===== verification/Password.thy ===== *)
theory Password
  imports Prelude
begin

text \<open>
  Passwords: the strength policy (\<open>internal/auth/password_validation.go\<close>) and the bcrypt wrappers
  (\<open>internal/auth/bcrypt.go\<close>). The policy ranges over the runes of the string, so UTF-8 decoding is
  modelled as Go does it; the Unicode class of a code point beyond ASCII is the parameter \<open>uc\<close>.
  bcrypt is third-party code: \<open>gen plain cost n\<close> stands for \<open>bcrypt.GenerateFromPassword\<close> (the step
  \<open>n\<close> determines the salt) and \<open>cmp\<close> for \<open>bcrypt.CompareHashAndPassword\<close> returning no error.
\<close>

section \<open>Runes\<close>

definition byte :: "char \<Rightarrow> nat" where
  "byte c = of_char c"

definition between :: "nat \<Rightarrow> nat \<Rightarrow> char \<Rightarrow> bool" where
  "between lo hi c \<longleftrightarrow> lo \<le> byte c \<and> byte c \<le> hi"

text \<open>The first rune of a byte string and its width; an invalid encoding is U+FFFD of width 1.\<close>

fun decode_rune :: "string \<Rightarrow> nat \<times> nat" where
  "decode_rune [] = (0xFFFD, 0)"
| "decode_rune (c # s) =
     (if byte c < 0x80 then (byte c, 1)
      else case s of
          [] \<Rightarrow> (0xFFFD, 1)
        | c1 # s1 \<Rightarrow>
            (if between 0xC2 0xDF c
             then (if between 0x80 0xBF c1
                   then ((byte c - 0xC0) * 64 + (byte c1 - 0x80), 2) else (0xFFFD, 1))
             else case s1 of
                [] \<Rightarrow> (0xFFFD, 1)
              | c2 # s2 \<Rightarrow>
                  (if between 0xE0 0xEF c
                   then (if between (if byte c = 0xE0 then 0xA0 else 0x80)
                              (if byte c = 0xED then 0x9F else 0xBF) c1 \<and> between 0x80 0xBF c2
                         then ((byte c - 0xE0) * 4096 + (byte c1 - 0x80) * 64 + (byte c2 - 0x80), 3)
                         else (0xFFFD, 1))
                   else case s2 of
                      [] \<Rightarrow> (0xFFFD, 1)
                    | c3 # s3 \<Rightarrow>
                        (if between 0xF0 0xF4 c
                            \<and> between (if byte c = 0xF0 then 0x90 else 0x80)
                                 (if byte c = 0xF4 then 0x8F else 0xBF) c1
                            \<and> between 0x80 0xBF c2 \<and> between 0x80 0xBF c3
                         then ((byte c - 0xF0) * 262144 + (byte c1 - 0x80) * 4096
                                 + (byte c2 - 0x80) * 64 + (byte c3 - 0x80), 4)
                         else (0xFFFD, 1)))))"

lemma decode_rune_pos: "s \<noteq> [] \<Longrightarrow> 0 < snd (decode_rune s)"
  by (cases s) (auto split: list.split)

function runes :: "string \<Rightarrow> nat list" where
  "runes s = (if s = [] then [] else fst (decode_rune s) # runes (drop (snd (decode_rune s)) s))"
  by pat_completeness auto
termination
  by (relation "measure length") (auto simp: decode_rune_pos)

declare runes.simps [simp del]

section \<open>The strength policy\<close>

datatype rune_class = UpperLetter | OtherLetter | DigitRune | OtherRune

definition rune_class :: "(nat \<Rightarrow> rune_class) \<Rightarrow> nat \<Rightarrow> rune_class" where
  "rune_class uc r =
     (if 128 \<le> r then uc r
      else if 65 \<le> r \<and> r \<le> 90 then UpperLetter
      else if 97 \<le> r \<and> r \<le> 122 then OtherLetter
      else if 48 \<le> r \<and> r \<le> 57 then DigitRune
      else OtherRune)"

definition ErrWeakPassword :: err where
  "ErrWeakPassword = ErrNew ''password does not meet strength requirements''"

text \<open>The loop body: one \<open>switch\<close> on the rune, three flags.\<close>

fun strength_step :: "rune_class \<Rightarrow> bool \<times> bool \<times> bool \<Rightarrow> bool \<times> bool \<times> bool" where
  "strength_step UpperLetter (u, d, y) = (True, d, y)"
| "strength_step DigitRune (u, d, y) = (u, True, y)"
| "strength_step OtherRune (u, d, y) = (u, d, True)"
| "strength_step OtherLetter (u, d, y) = (u, d, y)"

definition ValidateStrong :: "(nat \<Rightarrow> rune_class) \<Rightarrow> string \<Rightarrow> err option" where
  "ValidateStrong uc pw =
     (if length pw < 12 then Some ErrWeakPassword
      else case fold (\<lambda>r. strength_step (rune_class uc r)) (runes pw) (False, False, False) of
          (hasUpper, hasDigit, hasSymbol) \<Rightarrow>
            if \<not> hasUpper \<or> \<not> hasDigit \<or> \<not> hasSymbol then Some ErrWeakPassword else None)"

section \<open>Hashing\<close>

type_synonym bcrypt_gen = "string \<Rightarrow> nat \<Rightarrow> nat \<Rightarrow> err + string"
type_synonym bcrypt_cmp = "string \<Rightarrow> string \<Rightarrow> bool"

definition BcryptCost :: nat where
  "BcryptCost = 12"

definition HashPassword :: "bcrypt_gen \<Rightarrow> string \<Rightarrow> ('x, string) go" where
  "HashPassword gen plain =
     (if plain = [] then fail (ErrNew ''auth: empty password'')
      else draw (gen plain BcryptCost))"

definition VerifyPassword :: "bcrypt_cmp \<Rightarrow> string \<Rightarrow> string \<Rightarrow> bool" where
  "VerifyPassword cmp hash plain = (if hash = [] \<or> plain = [] then False else cmp hash plain)"

section \<open>Properties\<close>

lemma strength_fold:
  "fold (\<lambda>r. strength_step (rune_class uc r)) rs (u, d, y) =
     (u \<or> (\<exists>r \<in> set rs. rune_class uc r = UpperLetter),
      d \<or> (\<exists>r \<in> set rs. rune_class uc r = DigitRune),
      y \<or> (\<exists>r \<in> set rs. rune_class uc r = OtherRune))"
proof (induction rs arbitrary: u d y)
  case (Cons r rs)
  then show ?case by (cases "rune_class uc r") auto
qed simp

context frame
begin

lemma frame_HashPassword: "moves R (HashPassword gen plain)"
  unfolding HashPassword_def by (intro frame_rules moves_intro)

end

text \<open>
  The strength policy accepts a password exactly when it has at least twelve bytes, an
  upper-case letter, a digit, and a rune that is neither letter nor digit.
\<close>

theorem ValidateStrong_iff:
  "ValidateStrong uc pw = None \<longleftrightarrow>
     12 \<le> length pw \<and>
     (\<exists>r \<in> set (runes pw). rune_class uc r = UpperLetter) \<and>
     (\<exists>r \<in> set (runes pw). rune_class uc r = DigitRune) \<and>
     (\<exists>r \<in> set (runes pw). rune_class uc r = OtherRune)"
  by (auto simp: ValidateStrong_def strength_fold)

end
