(* ===== verification/Rbac_Service.thy ===== *)
theory Rbac_Service
  imports Rbac_Core Password
begin

text \<open>
  The access-control service (\<open>internal/rbac\<close>): roles (\<open>roles.go\<close>), teams (\<open>teams.go\<close>), members
  (\<open>members.go\<close>), avatars (\<open>avatars.go\<close>) and the authorisation decisions (\<open>authorize.go\<close>), each method
  as a computation over the database. Every early return of the source is a branch here; a row count
  of 0 after a write is the code's \<open>ErrNotFound\<close>.
\<close>

section \<open>Roles\<close>

definition scanRole :: "role_row \<Rightarrow> err + Role" where
  "scanRole r =
     (case r_permissions r of
        None \<Rightarrow> Inl (ErrNew ''json'')
      | Some perms \<Rightarrow>
          Inr \<lparr>role_ID = r_id r, role_Slug = r_slug r, role_Name = r_name r,
               role_Description = r_description r, role_Scope = normaliseScope (r_scope r),
               role_IsAdmin = r_is_admin r, role_IsSystem = r_is_system r,
               role_Permissions = perms, role_CreatedAt = r_created_at r,
               role_UpdatedAt = r_updated_at r\<rparr>)"

text \<open>\<open>if errors.Is(err, sql.ErrNoRows) { return nil, ErrNotFound }\<close>, other errors unchanged.\<close>

definition rows_to_not_found :: "('x, 'a) go \<Rightarrow> ('x, 'a) go" where
  "rows_to_not_found m =
     bnd (attempt m) (\<lambda>r. case r of
         Inl e \<Rightarrow> (if errors_is e (ErrSql NoRows) then fail ErrNotFound else fail e)
       | Inr x \<Rightarrow> ret x)"

definition GetRole :: "string \<Rightarrow> ('x, Role) dbm" where
  "GetRole i =
     rows_to_not_found
       (bnd (db_query_row (\<lambda>w. find (\<lambda>r. r_id r = i) (roles w))) (\<lambda>row. lift_res (scanRole row)))"

definition ListRoles :: "('x, Role list) dbm" where
  "ListRoles =
     bnd (db_query (\<lambda>w. sort_key (\<lambda>r. (if r_is_system r then 0 else 1 :: nat, r_scope r, r_name r)) (roles w)))
       (map_each (\<lambda>row. lift_res (scanRole row)))"

text \<open>\<open>INSERT INTO roles ... ON CONFLICT(slug) DO UPDATE\<close>: the row with that slug keeps its id.\<close>

definition overwrite_role :: "role_row \<Rightarrow> int \<Rightarrow> role_row \<Rightarrow> role_row" where
  "overwrite_role row t r =
     r\<lparr>r_name := r_name row, r_description := r_description row, r_scope := r_scope row,
       r_is_admin := r_is_admin row, r_is_system := True, r_permissions := r_permissions row,
       r_updated_at := t\<rparr>"

definition upsert_role :: "role_row \<Rightarrow> 'x db_scheme \<Rightarrow> sql_err + nat \<times> 'x db_scheme" where
  "upsert_role row w =
     (if r_slug row \<in> set (map r_slug (roles w))
      then checked 1
        (w\<lparr>roles := update_where (\<lambda>r. r_slug r = r_slug row) (overwrite_role row (unixepoch w))
            (roles w)\<rparr>)
      else insert_role row w)"

definition default_row :: "string \<Rightarrow> defaultRole \<Rightarrow> int \<Rightarrow> role_row" where
  "default_row i d t =
     \<lparr>r_id = i, r_slug = dr_Slug d, r_name = dr_Name d, r_description = dr_Description d,
      r_scope = normaliseScope (dr_Scope d), r_is_admin = dr_IsAdmin d, r_is_system = True,
      r_permissions = Some (dr_Permissions d), r_created_at = t, r_updated_at = t\<rparr>"

definition seed_role :: "defaultRole \<Rightarrow> ('x, unit) dbm" where
  "seed_role d =
     bnd new_uuid (\<lambda>i.
     bnd (attempt (db_exec (\<lambda>w. upsert_role (default_row i d (unixepoch w)) w)))
       (\<lambda>r. case r of
            Inl e \<Rightarrow> fail (ErrWrap (''seed role '' @ dr_Slug d) e)
          | Inr _ \<Rightarrow> ret ()))"

definition EnsureDefaults :: "('x, unit) dbm" where
  "EnsureDefaults =
     bnd (for_each seed_role defaultRoles) (\<lambda>_.
     bnd (db_exec (\<lambda>w. update_users (\<lambda>u. u_role_id u = None \<and> u_role u = ''admin'')
            (\<lambda>u. u\<lparr>u_role_id := map_option r_id (find (\<lambda>r. r_slug r = ''admin'') (roles w))\<rparr>) w))
       (\<lambda>_. ret ()))"

definition invalid :: "string \<Rightarrow> ('x, 'a) go" where
  "invalid m = fail (ErrWrap m ErrInvalidInput)"

definition CreateRole :: "CreateRoleInput \<Rightarrow> ('x, Role) dbm" where
  "CreateRole inp =
     (let name = trim_space (cri_Name inp)
      in if length name < 2 \<or> 80 < length name then invalid ''invalid role name''
         else
           bnd (lift_res (normalisePermissions (cri_Permissions inp))) (\<lambda>perms.
           bnd (uniqueSlug (\<lambda>w. map r_slug (roles w)) (slugify name)) (\<lambda>slug.
           bnd new_uuid (\<lambda>i.
           bnd (db_exec (\<lambda>w. insert_role
                  \<lparr>r_id = i, r_slug = slug, r_name = name,
                   r_description = trim_space (cri_Description inp),
                   r_scope = normaliseScope (cri_Scope inp), r_is_admin = cri_IsAdmin inp,
                   r_is_system = False, r_permissions = Some perms,
                   r_created_at = unixepoch w, r_updated_at = unixepoch w\<rparr> w)) (\<lambda>_.
           GetRole i)))))"

text \<open>The \<open>SET\<close> clause of \<open>UpdateRole\<close>: \<open>None\<close> when no field is given.\<close>

definition role_sets ::
  "string option \<Rightarrow> UpdateRoleInput \<Rightarrow> string list option \<Rightarrow> role_row \<Rightarrow> role_row" where
  "role_sets name inp perms r =
     (let r1 = (case name of None \<Rightarrow> r | Some n \<Rightarrow> r\<lparr>r_name := n\<rparr>);
          r2 = (case uri_Description inp of None \<Rightarrow> r1
                | Some d \<Rightarrow> r1\<lparr>r_description := trim_space d\<rparr>);
          r3 = (case uri_Scope inp of None \<Rightarrow> r2 | Some s \<Rightarrow> r2\<lparr>r_scope := normaliseScope s\<rparr>)
      in case perms of None \<Rightarrow> r3 | Some ps \<Rightarrow> r3\<lparr>r_permissions := Some ps\<rparr>)"

definition checked_name :: "string \<Rightarrow> string option \<Rightarrow> ('x, string option) go" where
  "checked_name msg n =
     (case n of
        None \<Rightarrow> ret None
      | Some raw \<Rightarrow>
          (let name = trim_space raw
           in if length name < 2 \<or> 80 < length name then invalid msg else ret (Some name)))"

definition UpdateRole :: "string \<Rightarrow> UpdateRoleInput \<Rightarrow> ('x, Role) dbm" where
  "UpdateRole i inp =
     bnd (GetRole i) (\<lambda>role.
     if role_IsSystem role then fail ErrSystemRole
     else
     bnd (checked_name ''invalid role name'' (uri_Name inp)) (\<lambda>name.
     bnd (if uri_PermissionsSet inp
          then bnd (lift_res (normalisePermissions (uri_Permissions inp))) (\<lambda>ps. ret (Some ps))
          else ret None) (\<lambda>perms.
     if name = None \<and> uri_Description inp = None \<and> uri_Scope inp = None \<and> perms = None
     then ret role
     else
     bnd (db_exec (update_roles (\<lambda>r. r_id r = i) (role_sets name inp perms))) (\<lambda>_.
     GetRole i))))"

definition DeleteRole :: "string \<Rightarrow> ('x, unit) dbm" where
  "DeleteRole i =
     bnd (GetRole i) (\<lambda>role.
     if role_IsSystem role then fail ErrSystemRole
     else
     bnd (db_query (\<lambda>w. affected (\<lambda>u. u_role_id u = Some i) (users w))) (\<lambda>n.
     if n > 0 then fail ErrRoleInUse
     else
     bnd (db_query (\<lambda>w. affected (\<lambda>m. tm_role_id m = Some i) (team_members w))) (\<lambda>n.
     if n > 0 then fail ErrRoleInUse
     else
     bnd (db_exec (delete_roles (\<lambda>r. r_id r = i))) (\<lambda>n.
     if n = 0 then fail ErrNotFound else ret ()))))"

section \<open>Teams\<close>

definition scanTeam :: "team_row \<Rightarrow> nat \<Rightarrow> nat \<Rightarrow> Team" where
  "scanTeam t members appcount =
     (let avatar = (case t_avatar_path t of None \<Rightarrow> [] | Some p \<Rightarrow> p)
      in \<lparr>team_ID = t_id t, team_Name = t_name t, team_Slug = t_slug t,
          team_Description = (case t_description t of None \<Rightarrow> [] | Some d \<Rightarrow> d),
          team_Color = t_color t, team_AvatarPath = avatar, team_AvatarURL = avatarURL avatar,
          team_MemberCount = members, team_AppCount = appcount,
          team_CreatedAt = t_created_at t, team_UpdatedAt = t_updated_at t\<rparr>)"

text \<open>The projection shared by the team queries: the row with its two sub-select counts.\<close>

definition team_view :: "'x db_scheme \<Rightarrow> team_row \<Rightarrow> Team" where
  "team_view w t =
     scanTeam t (affected (\<lambda>m. tm_team_id m = t_id t) (team_members w))
       (affected (\<lambda>a. a_team_id a = Some (t_id t)) (apps w))"

definition IsTeamMember :: "string \<Rightarrow> string \<Rightarrow> ('x, bool) dbm" where
  "IsTeamMember teamID userID =
     bnd (db_query (\<lambda>w. affected (\<lambda>m. tm_team_id m = teamID \<and> tm_user_id m = userID) (team_members w)))
       (\<lambda>n. ret (n > 0))"

definition ListTeams :: "('x, Team list) dbm" where
  "ListTeams = db_query (\<lambda>w. map (team_view w) (sort_key t_name (teams w)))"

definition GetTeam :: "string \<Rightarrow> ('x, Team) dbm" where
  "GetTeam i =
     rows_to_not_found
       (db_query_row (\<lambda>w. map_option (team_view w) (find (\<lambda>t. t_id t = i) (teams w))))"

definition teamsForMember :: "string \<Rightarrow> ('x, Team list) dbm" where
  "teamsForMember userID =
     db_query (\<lambda>w. map (team_view w) (sort_key t_name
       (concat (map (\<lambda>t. map (\<lambda>_. t)
           (filter (\<lambda>m. tm_team_id m = t_id t \<and> tm_user_id m = userID) (team_members w)))
         (teams w)))))"

definition teamRoleForMember :: "string \<Rightarrow> string \<Rightarrow> ('x, Role) dbm" where
  "teamRoleForMember teamID userID =
     rows_to_not_found
       (bnd (db_query_row (\<lambda>w.
          case find (\<lambda>m. tm_team_id m = teamID \<and> tm_user_id m = userID) (team_members w) of
            None \<Rightarrow> None
          | Some m \<Rightarrow> (case tm_role_id m of
                None \<Rightarrow> None
              | Some ri \<Rightarrow> find (\<lambda>r. r_id r = ri) (roles w))))
        (\<lambda>row. lift_res (scanRole row)))"

definition validateTeams :: "string list \<Rightarrow> ('x, unit) dbm" where
  "validateTeams ids =
     for_each (\<lambda>i. bnd (db_query (\<lambda>w. affected (\<lambda>t. t_id t = i) (teams w)))
         (\<lambda>n. if n = 0 then fail ErrNotFound else ret ()))
       (uniqueStrings ids)"

definition validateMembers :: "string list \<Rightarrow> ('x, unit) dbm" where
  "validateMembers ids =
     for_each (\<lambda>i. bnd (db_query (\<lambda>w. affected (\<lambda>u. u_id u = i) (users w)))
         (\<lambda>n. if n = 0 then fail ErrNotFound else ret ()))
       (uniqueStrings ids)"

definition validateTeamMemberInputs :: "TeamMemberInput list \<Rightarrow> ('x, unit) dbm" where
  "validateTeamMemberInputs members =
     for_each (\<lambda>m.
       bnd (if trim_space (tmi_TeamID m) \<noteq> [] then validateTeams [tmi_TeamID m] else ret ()) (\<lambda>_.
       if trim_space (tmi_UserID m) = [] then fail ErrNotFound
       else
       bnd (validateMembers [tmi_UserID m]) (\<lambda>_.
       bnd (GetRole (tmi_RoleID m)) (\<lambda>role.
       if \<not> roleAllowsScope (Some role) RoleScopeTeam
       then invalid ''role cannot be used in a team'' else ret ()))))
     (normaliseTeamMembers members)"

definition replaceTeamMembers :: "string \<Rightarrow> TeamMemberInput list \<Rightarrow> ('x, unit) dbm" where
  "replaceTeamMembers teamID members =
     transaction
       (bnd (db_exec (delete_team_members (\<lambda>m. tm_team_id m = teamID))) (\<lambda>_.
        for_each (\<lambda>m. bnd (db_exec (insert_team_member
              \<lparr>tm_team_id = teamID, tm_user_id = tmi_UserID m, tm_role_id = Some (tmi_RoleID m)\<rparr>))
            (\<lambda>_. ret ()))
          (normaliseTeamMembers members)))"

text \<open>\<open>defaultTeamRoleID\<close> tries the two slugs in order; a query error or an empty id moves on.\<close>

fun default_role_from :: "string list \<Rightarrow> ('x, string) dbm" where
  "default_role_from [] = ret []"
| "default_role_from (slug # slugs) =
     bnd (attempt (db_query_row (\<lambda>w. map_option r_id (find (\<lambda>r. r_slug r = slug) (roles w)))))
       (\<lambda>r. case r of
            Inl _ \<Rightarrow> default_role_from slugs
          | Inr i \<Rightarrow> (if i \<noteq> [] then ret i else default_role_from slugs))"

definition defaultTeamRoleID :: "('x, string) dbm" where
  "defaultTeamRoleID = default_role_from [''developer'', ''viewer'']"

definition defaultTeamMemberInputs :: "string list \<Rightarrow> ('x, TeamMemberInput list) dbm" where
  "defaultTeamMemberInputs memberIDs =
     bnd defaultTeamRoleID (\<lambda>roleID.
     ret (map (\<lambda>i. \<lparr>tmi_TeamID = [], tmi_UserID = i, tmi_RoleID = roleID\<rparr>)
            (uniqueStrings memberIDs)))"

definition withDefaultTeamRole :: "TeamMemberInput list \<Rightarrow> ('x, TeamMemberInput list) dbm" where
  "withDefaultTeamRole inp =
     bnd defaultTeamRoleID (\<lambda>roleID.
     ret (map (\<lambda>m. if trim_space (tmi_RoleID m) = [] then m\<lparr>tmi_RoleID := roleID\<rparr> else m) inp))"

definition CreateTeam :: "CreateTeamInput \<Rightarrow> ('x, Team) dbm" where
  "CreateTeam inp =
     (let name = trim_space (cti_Name inp);
          slug0 = trim_space (cti_Slug inp);
          slug = (if slug0 = [] then slugify name else slug0);
          color0 = trim_space (cti_Color inp);
          color = (if color0 = [] then CHR 0x23 # ''10b981'' else color0)
      in if length name < 2 \<or> 80 < length name then invalid ''invalid team name''
         else if \<not> slugRegex slug then invalid ''invalid team slug''
         else if \<not> colorRegex color then invalid ''invalid color''
         else
           bnd (if cti_Members inp = [] \<and> cti_MemberIDs inp \<noteq> []
                then defaultTeamMemberInputs (cti_MemberIDs inp) else ret (cti_Members inp)) (\<lambda>ms0.
           bnd (withDefaultTeamRole ms0) (\<lambda>ms.
           bnd (validateTeamMemberInputs ms) (\<lambda>_.
           bnd new_uuid (\<lambda>i.
           bnd (db_exec (\<lambda>w. insert_team
                  \<lparr>t_id = i, t_name = name, t_slug = slug,
                   t_description = Some (trim_space (cti_Description inp)), t_color = color,
                   t_avatar_path = None, t_created_at = unixepoch w, t_updated_at = unixepoch w\<rparr> w))
             (\<lambda>_.
           bnd (replaceTeamMembers i ms) (\<lambda>_.
           GetTeam i)))))))"

definition team_sets ::
  "string option \<Rightarrow> UpdateTeamInput \<Rightarrow> team_row \<Rightarrow> team_row" where
  "team_sets name inp t =
     (let t1 = (case name of None \<Rightarrow> t | Some n \<Rightarrow> t\<lparr>t_name := n\<rparr>);
          t2 = (case uti_Slug inp of None \<Rightarrow> t1 | Some s \<Rightarrow> t1\<lparr>t_slug := trim_space s\<rparr>);
          t3 = (case uti_Description inp of None \<Rightarrow> t2
                | Some d \<Rightarrow> t2\<lparr>t_description := Some (trim_space d)\<rparr>)
      in case uti_Color inp of None \<Rightarrow> t3 | Some c \<Rightarrow> t3\<lparr>t_color := trim_space c\<rparr>)"

definition UpdateTeam :: "string \<Rightarrow> UpdateTeamInput \<Rightarrow> ('x, Team) dbm" where
  "UpdateTeam i inp =
     bnd (GetTeam i) (\<lambda>_.
     bnd (checked_name ''invalid team name'' (uti_Name inp)) (\<lambda>name.
     if (case uti_Slug inp of None \<Rightarrow> False | Some s \<Rightarrow> \<not> slugRegex (trim_space s))
     then invalid ''invalid team slug''
     else if (case uti_Color inp of None \<Rightarrow> False | Some c \<Rightarrow> \<not> colorRegex (trim_space c))
     then invalid ''invalid color''
     else if name = None \<and> uti_Slug inp = None \<and> uti_Description inp = None \<and> uti_Color inp = None
     then GetTeam i
     else
     bnd (db_exec (update_teams (\<lambda>t. t_id t = i) (team_sets name inp))) (\<lambda>_.
     GetTeam i)))"

definition DeleteTeam :: "string \<Rightarrow> ('x, unit) dbm" where
  "DeleteTeam i =
     bnd (db_query (\<lambda>w. affected (\<lambda>a. a_team_id a = Some i) (apps w))) (\<lambda>appCount.
     if appCount > 0 then fail ErrTeamHasApps
     else
     bnd (db_exec (delete_teams (\<lambda>t. t_id t = i))) (\<lambda>n.
     if n = 0 then fail ErrNotFound else ret ()))"

definition SetTeamMembers :: "string \<Rightarrow> TeamMemberInput list \<Rightarrow> ('x, Team) dbm" where
  "SetTeamMembers teamID members =
     bnd (GetTeam teamID) (\<lambda>_.
     bnd (withDefaultTeamRole members) (\<lambda>ms.
     bnd (validateTeamMemberInputs ms) (\<lambda>_.
     bnd (replaceTeamMembers teamID ms) (\<lambda>_.
     GetTeam teamID))))"

section \<open>Members\<close>

text \<open>
  The row of \<open>users LEFT JOIN roles\<close>; an undecodable permission column leaves the empty list, its
  error is discarded.
\<close>

definition scanMemberRow :: "user \<Rightarrow> role_row option \<Rightarrow> Member" where
  "scanMemberRow u ro =
     \<lparr>mem_ID = u_id u, mem_Email = u_email u,
      mem_Name = (case u_name u of None \<Rightarrow> [] | Some n \<Rightarrow> n),
      mem_AvatarURL = avatarURL (case u_avatar_path u of None \<Rightarrow> [] | Some p \<Rightarrow> p),
      mem_Status = u_status u,
      mem_Role = map_option (\<lambda>r.
        \<lparr>role_ID = r_id r, role_Slug = r_slug r, role_Name = r_name r,
         role_Description = r_description r, role_Scope = normaliseScope (r_scope r),
         role_IsAdmin = r_is_admin r, role_IsSystem = r_is_system r,
         role_Permissions = (case r_permissions r of None \<Rightarrow> [] | Some ps \<Rightarrow> ps),
         role_CreatedAt = r_created_at r, role_UpdatedAt = r_updated_at r\<rparr>) ro,
      mem_TeamRole = None, mem_Teams = [], mem_CreatedAt = u_created_at u\<rparr>"

definition role_of :: "'x db_scheme \<Rightarrow> user \<Rightarrow> role_row option" where
  "role_of w u =
     (case u_role_id u of None \<Rightarrow> None | Some ri \<Rightarrow> find (\<lambda>r. r_id r = ri) (roles w))"

definition with_teams :: "Member \<Rightarrow> ('x, Member) dbm" where
  "with_teams m = bnd (teamsForMember (mem_ID m)) (\<lambda>ts. ret (m\<lparr>mem_Teams := ts\<rparr>))"

definition ListMembers :: "('x, Member list) dbm" where
  "ListMembers =
     bnd (db_query (\<lambda>w. map (\<lambda>u. scanMemberRow u (role_of w u)) (sort_key u_created_at (users w))))
       (map_each with_teams)"

definition GetMember :: "string \<Rightarrow> ('x, Member) dbm" where
  "GetMember i =
     bnd (rows_to_not_found (db_query_row (\<lambda>w.
            map_option (\<lambda>u. scanMemberRow u (role_of w u)) (find (\<lambda>u. u_id u = i) (users w)))))
       with_teams"

definition MembersForTeam :: "string \<Rightarrow> ('x, Member list) dbm" where
  "MembersForTeam teamID =
     bnd (db_query (\<lambda>w. map (\<lambda>u. scanMemberRow u (role_of w u)) (sort_key u_email
            (concat (map (\<lambda>u. map (\<lambda>_. u)
                (filter (\<lambda>m. tm_user_id m = u_id u \<and> tm_team_id m = teamID) (team_members w)))
              (users w))))))
       (map_each (\<lambda>m.
          bnd (attempt (teamRoleForMember teamID (mem_ID m))) (\<lambda>r.
          case r of
            Inl e \<Rightarrow> (if \<not> errors_is e ErrNotFound then fail e
                       else with_teams (m\<lparr>mem_TeamRole := None\<rparr>))
          | Inr role \<Rightarrow> with_teams (m\<lparr>mem_TeamRole := Some role\<rparr>))))"

definition validateMemberTeamInputs :: "TeamMemberInput list \<Rightarrow> ('x, unit) dbm" where
  "validateMemberTeamInputs ts =
     for_each (\<lambda>m.
       if trim_space (tmi_TeamID m) = [] then fail ErrNotFound
       else
       bnd (validateTeams [tmi_TeamID m]) (\<lambda>_.
       bnd (GetRole (tmi_RoleID m)) (\<lambda>role.
       if \<not> roleAllowsScope (Some role) RoleScopeTeam
       then invalid ''role cannot be used in a team'' else ret ())))
     (normaliseTeamMembers ts)"

definition replaceMemberTeams :: "string \<Rightarrow> TeamMemberInput list \<Rightarrow> ('x, unit) dbm" where
  "replaceMemberTeams userID ts =
     transaction
       (bnd (db_exec (delete_team_members (\<lambda>m. tm_user_id m = userID))) (\<lambda>_.
        for_each (\<lambda>m. bnd (db_exec (insert_team_member
              \<lparr>tm_team_id = tmi_TeamID m, tm_user_id = userID, tm_role_id = Some (tmi_RoleID m)\<rparr>))
            (\<lambda>_. ret ()))
          (normaliseTeamMembers ts)))"

definition defaultMemberTeamInputs :: "string list \<Rightarrow> ('x, TeamMemberInput list) dbm" where
  "defaultMemberTeamInputs teamIDs =
     bnd defaultTeamRoleID (\<lambda>roleID.
     ret (map (\<lambda>i. \<lparr>tmi_TeamID = i, tmi_UserID = [], tmi_RoleID = roleID\<rparr>)
            (uniqueStrings teamIDs)))"

definition member_team_inputs ::
  "TeamMemberInput list \<Rightarrow> string list \<Rightarrow> ('x, TeamMemberInput list) dbm" where
  "member_team_inputs ts ids =
     (if ts = [] \<and> ids \<noteq> [] then defaultMemberTeamInputs ids else ret ts)"

text \<open>A role that may be assigned globally, by id.\<close>

definition global_role :: "string \<Rightarrow> ('x, Role) dbm" where
  "global_role i =
     bnd (GetRole i) (\<lambda>role.
     if \<not> roleAllowsScope (Some role) RoleScopeGlobal
     then invalid ''role cannot be used globally'' else ret role)"

definition CreateMember ::
  "(nat \<Rightarrow> rune_class) \<Rightarrow> bcrypt_gen \<Rightarrow> CreateMemberInput \<Rightarrow> ('x, Member) dbm" where
  "CreateMember uc gen inp =
     (let email = to_lower (trim_space (cmi_Email inp))
      in if CHR 0x40 \<notin> set email then invalid ''invalid email''
         else if ValidateStrong uc (cmi_Password inp) \<noteq> None then invalid ''weak password''
         else
           bnd (if trim_space (cmi_RoleID inp) \<noteq> []
                then bnd (global_role (cmi_RoleID inp)) (\<lambda>role. ret (Some (role_ID role)))
                else ret None) (\<lambda>globalRole.
           bnd (member_team_inputs (cmi_Teams inp) (cmi_TeamIDs inp)) (\<lambda>ts.
           bnd (validateMemberTeamInputs ts) (\<lambda>_.
           bnd (HashPassword gen (cmi_Password inp)) (\<lambda>hash.
           bnd new_uuid (\<lambda>i.
           bnd (db_exec (\<lambda>w. insert_user
                  \<lparr>u_id = i, u_email = email, u_password_hash = hash, u_role = ''member'',
                   u_name = Some (trim_space (cmi_Name inp)), u_avatar_path = None,
                   u_status = ''active'', u_role_id = globalRole, u_created_at = unixepoch w,
                   u_2fa_enabled = False, u_2fa_secret = None, u_2fa_pending = None,
                   u_2fa_confirmed_at = None, u_recovery = None\<rparr> w)) (\<lambda>_.
           bnd (replaceMemberTeams i ts) (\<lambda>_.
           GetMember i))))))))"

text \<open>The \<open>SET\<close> clause of \<open>UpdateMember\<close>; the outer option of the role is "no change".\<close>

definition user_sets ::
  "string option \<Rightarrow> string option option \<Rightarrow> string option \<Rightarrow> user \<Rightarrow> user" where
  "user_sets name rid status u =
     (let u1 = (case name of None \<Rightarrow> u | Some n \<Rightarrow> u\<lparr>u_name := Some (trim_space n)\<rparr>);
          u2 = (case rid of None \<Rightarrow> u1 | Some r \<Rightarrow> u1\<lparr>u_role_id := r\<rparr>)
      in case status of None \<Rightarrow> u2 | Some s \<Rightarrow> u2\<lparr>u_status := trim_space s\<rparr>)"

definition UpdateMember :: "string \<Rightarrow> UpdateMemberInput \<Rightarrow> ('x, Member) dbm" where
  "UpdateMember i inp =
     bnd (GetMember i) (\<lambda>_.
     bnd (case umi_RoleID inp of
            None \<Rightarrow> ret None
          | Some raw \<Rightarrow>
              (if trim_space raw = [] then ret (Some None)
               else bnd (global_role (trim_space raw)) (\<lambda>_. ret (Some (Some (trim_space raw)))))) (\<lambda>rid.
     if (case umi_Status inp of None \<Rightarrow> False | Some s \<Rightarrow> trim_space s \<notin> statusAllowed)
     then invalid ''invalid status''
     else
     bnd (if umi_Name inp = None \<and> rid = None \<and> umi_Status inp = None then ret 0
          else db_exec (update_users (\<lambda>u. u_id u = i)
                 (user_sets (umi_Name inp) rid (umi_Status inp)))) (\<lambda>_.
     bnd (if umi_TeamsSet inp
          then bnd (member_team_inputs (umi_Teams inp) (umi_TeamIDs inp)) (\<lambda>ts.
               bnd (validateMemberTeamInputs ts) (\<lambda>_.
               replaceMemberTeams i ts))
          else ret ()) (\<lambda>_.
     GetMember i))))"

definition DeleteMember :: "string \<Rightarrow> string \<Rightarrow> ('x, unit) dbm" where
  "DeleteMember i currentUserID =
     (if i = currentUserID then fail ErrSelfDelete
      else
        bnd (db_exec (delete_users (\<lambda>u. u_id u = i))) (\<lambda>n.
        if n = 0 then fail ErrNotFound else ret ()))"

definition SetUserAvatar :: "string \<Rightarrow> string \<Rightarrow> ('x, unit) dbm" where
  "SetUserAvatar userID path =
     bnd (db_exec (update_users (\<lambda>u. u_id u = userID) (\<lambda>u. u\<lparr>u_avatar_path := Some path\<rparr>))) (\<lambda>n.
     if n = 0 then fail ErrNotFound else ret ())"

definition AvatarPath :: "string \<Rightarrow> ('x, string) dbm" where
  "AvatarPath userID =
     rows_to_not_found (db_query_row (\<lambda>w.
       map_option (\<lambda>u. case u_avatar_path u of None \<Rightarrow> [] | Some p \<Rightarrow> p)
         (find (\<lambda>u. u_id u = userID) (users w))))"

section \<open>Authorisation\<close>

text \<open>
  The method \<open>UserContext\<close> (the record of that name is its result): it reads the user, resolves the
  role, and builds the context from the two.
\<close>

definition context_role :: "user \<Rightarrow> ('x, Role option) dbm" where
  "context_role u =
     (case u_role_id u of
        None \<Rightarrow> ret None
      | Some ri \<Rightarrow>
          (if ri = [] then ret None
           else bnd (attempt (GetRole ri)) (\<lambda>r. case r of
               Inl e \<Rightarrow> (if \<not> errors_is e ErrNotFound then fail e else ret None)
             | Inr role \<Rightarrow> ret (Some role))))"

definition build_context :: "user \<Rightarrow> Role option \<Rightarrow> UserContext" where
  "build_context u role =
     (let ctx0 = \<lparr>uc_ID = u_id u, uc_Email = u_email u,
                 uc_Name = (case u_name u of None \<Rightarrow> [] | Some n \<Rightarrow> n),
                 uc_AvatarURL = avatarURL (case u_avatar_path u of None \<Rightarrow> [] | Some p \<Rightarrow> p),
                 uc_Status = u_status u, uc_Role = role, uc_RoleSlug = u_role u,
                 uc_Permissions = [], uc_IsAdmin = False\<rparr>;
         ctx = (case role of
                  Some r \<Rightarrow> ctx0\<lparr>uc_RoleSlug := role_Slug r, uc_IsAdmin := role_IsAdmin r,
                       uc_Permissions := (if role_IsAdmin r then AllPermissions else role_Permissions r)\<rparr>
                | None \<Rightarrow>
                    (if u_role u = ''admin''
                     then ctx0\<lparr>uc_IsAdmin := True, uc_Permissions := AllPermissions\<rparr> else ctx0))
     in ctx\<lparr>uc_Permissions := sort (uc_Permissions ctx)\<rparr>)"

definition get_UserContext :: "string \<Rightarrow> ('x, UserContext) dbm" where
  "get_UserContext userID =
     bnd (rows_to_not_found (db_query_row (\<lambda>w. find (\<lambda>u. u_id u = userID) (users w)))) (\<lambda>u.
     bnd (context_role u) (\<lambda>role. ret (build_context u role)))"

definition HasPermission :: "string \<Rightarrow> string \<Rightarrow> ('x, bool) dbm" where
  "HasPermission userID permission =
     bnd (get_UserContext userID) (\<lambda>u.
     if uc_Status u \<noteq> ''active'' then ret False
     else if uc_IsAdmin u then ret True
     else ret (hasPermission (uc_Permissions u) permission))"

definition RequirePermission :: "string \<Rightarrow> string \<Rightarrow> ('x, unit) dbm" where
  "RequirePermission userID permission =
     bnd (HasPermission userID permission) (\<lambda>ok. if \<not> ok then fail ErrForbidden else ret ())"

definition HasTeamPermission :: "string \<Rightarrow> string \<Rightarrow> string \<Rightarrow> ('x, bool) dbm" where
  "HasTeamPermission userID teamID permission =
     bnd (get_UserContext userID) (\<lambda>u.
     if uc_Status u \<noteq> ''active'' then ret False
     else if uc_IsAdmin u then ret True
     else
     bnd (attempt (teamRoleForMember teamID userID)) (\<lambda>r.
     case r of
       Inl e \<Rightarrow> (if errors_is e ErrNotFound then ret False else fail e)
     | Inr role \<Rightarrow>
         (if role_IsAdmin role then ret True
          else ret (hasPermission (role_Permissions role) permission))))"

definition CanAccessTeam :: "string \<Rightarrow> string option \<Rightarrow> string \<Rightarrow> ('x, bool) dbm" where
  "CanAccessTeam userID teamID permission =
     bnd (get_UserContext userID) (\<lambda>u.
     if uc_Status u \<noteq> ''active'' then ret False
     else if uc_IsAdmin u \<or> hasPermission (uc_Permissions u) permission then ret True
     else case teamID of
         None \<Rightarrow> ret False
       | Some t \<Rightarrow>
           (if trim_space t = [] then ret False
            else HasTeamPermission userID (trim_space t) permission))"

definition RequireTeam :: "string \<Rightarrow> string \<Rightarrow> string \<Rightarrow> ('x, unit) dbm" where
  "RequireTeam userID teamID permission =
     bnd (HasTeamPermission userID teamID permission)
       (\<lambda>ok. if \<not> ok then fail ErrForbidden else ret ())"

end
