(* ===== verification/Rbac_Props.thy ===== *)
theory Rbac_Props
  imports Rbac_Service
begin

text \<open>
  What the access-control service guarantees. The read-only methods move nothing but the step
  counter; system roles survive every request; stored permissions stay inside the catalogue; the
  membership lists are replaced exactly and atomically; and the authorisation decisions are
  characterised in terms of the stored rows.
\<close>

section \<open>Reads\<close>

lemma statement_roles:
  "insert_user u w = Inr (n, w') \<Longrightarrow> roles w' = roles w"
  "update_users p f w = Inr (n, w') \<Longrightarrow> roles w' = roles w"
  "delete_users p w = Inr (n, w') \<Longrightarrow> roles w' = roles w"
  "insert_team t w = Inr (n, w') \<Longrightarrow> roles w' = roles w"
  "update_teams pt ft w = Inr (n, w') \<Longrightarrow> roles w' = roles w"
  "delete_teams pt w = Inr (n, w') \<Longrightarrow> roles w' = roles w"
  "insert_team_member m w = Inr (n, w') \<Longrightarrow> roles w' = roles w"
  "delete_team_members pm w = Inr (n, w') \<Longrightarrow> roles w' = roles w"
  by (auto simp: statement_defs checked_Inr_iff Let_def)

lemma rows_to_not_found_read: "moves only_step m \<Longrightarrow> moves only_step (rows_to_not_found m)"
  unfolding rows_to_not_found_def by (intro rd.frame_rules moves_intro)

lemma GetRole_read: "moves only_step (GetRole i)"
  unfolding GetRole_def by (intro rows_to_not_found_read rd.frame_rules)

lemma GetTeam_read: "moves only_step (GetTeam i)"
  unfolding GetTeam_def by (intro rows_to_not_found_read rd.frame_rules)

lemma teamsForMember_read: "moves only_step (teamsForMember i)"
  unfolding teamsForMember_def by (intro rd.frame_rules)

lemma GetMember_read: "moves only_step (GetMember i)"
  unfolding GetMember_def with_teams_def
  by (intro rows_to_not_found_read teamsForMember_read rd.frame_rules)

lemma uniqueSlug_read: "moves only_step (uniqueSlug table base)"
proof -
  have "moves only_step (uniqueSlug_from table b i)" for b i
    by (induction table b i rule: uniqueSlug_from.induct, subst uniqueSlug_from.simps)
      (intro moves_intro rd.frame_rules; simp)
  then show ?thesis by (simp add: uniqueSlug_def Let_def)
qed

lemma invalid_read: "moves only_step (invalid m)"
  unfolding invalid_def by (rule rd.frame_fail)

lemma checked_name_read: "moves only_step (checked_name m n)"
  unfolding checked_name_def by (intro moves_intro rd.frame_rules invalid_read)

lemma validateTeams_read: "moves only_step (validateTeams ids)"
  unfolding validateTeams_def by (intro rd.frame_rules moves_intro)

lemma validateMembers_read: "moves only_step (validateMembers ids)"
  unfolding validateMembers_def by (intro rd.frame_rules moves_intro)

lemmas read_rules =
  rd.frame_rules moves_intro GetRole_read GetTeam_read GetMember_read invalid_read
  checked_name_read validateTeams_read validateMembers_read uniqueSlug_read teamsForMember_read

lemma validateTeamMemberInputs_read: "moves only_step (validateTeamMemberInputs ms)"
  unfolding validateTeamMemberInputs_def by (intro read_rules)

lemma validateMemberTeamInputs_read: "moves only_step (validateMemberTeamInputs ms)"
  unfolding validateMemberTeamInputs_def by (intro read_rules)

lemma default_role_from_read: "moves only_step (default_role_from ss)"
  by (induction ss) (auto intro!: rd.frame_rules moves_intro)

lemma global_role_read: "moves only_step (global_role i)"
  unfolding global_role_def by (intro read_rules)

lemma member_inputs_read:
  "moves only_step (withDefaultTeamRole ms)" "moves only_step (defaultTeamMemberInputs ids)"
  "moves only_step (member_team_inputs ts ids)"
  unfolding withDefaultTeamRole_def defaultTeamMemberInputs_def member_team_inputs_def
    defaultMemberTeamInputs_def defaultTeamRoleID_def
  by (intro read_rules default_role_from_read)+

lemma teamRoleForMember_read: "moves only_step (teamRoleForMember t u)"
  unfolding teamRoleForMember_def by (intro rows_to_not_found_read read_rules)

lemma get_UserContext_read: "moves only_step (get_UserContext u)"
  unfolding get_UserContext_def context_role_def
  by (intro rows_to_not_found_read read_rules)

lemma HasTeamPermission_read: "moves only_step (HasTeamPermission u t p)"
  unfolding HasTeamPermission_def
  by (intro get_UserContext_read teamRoleForMember_read read_rules)

lemma authorise_read:
  "moves only_step (HasPermission u p)" "moves only_step (CanAccessTeam u t p)"
  unfolding HasPermission_def CanAccessTeam_def
  by (intro get_UserContext_read HasTeamPermission_read read_rules)+

section \<open>Requests\<close>

text \<open>The methods of the service that write, as the steps of one state machine.\<close>

inductive rbac_call ::
  "(nat \<Rightarrow> rune_class) \<Rightarrow> bcrypt_gen \<Rightarrow> 'x db_scheme \<Rightarrow> 'x db_scheme \<Rightarrow> bool"
  for uc gen where
  call_CreateRole: "rbac_call uc gen w (snd (CreateRole cri w))"
| call_UpdateRole: "rbac_call uc gen w (snd (UpdateRole i uri w))"
| call_DeleteRole: "rbac_call uc gen w (snd (DeleteRole i w))"
| call_CreateTeam: "rbac_call uc gen w (snd (CreateTeam cti w))"
| call_UpdateTeam: "rbac_call uc gen w (snd (UpdateTeam i uti w))"
| call_DeleteTeam: "rbac_call uc gen w (snd (DeleteTeam i w))"
| call_SetTeamMembers: "rbac_call uc gen w (snd (SetTeamMembers i ms w))"
| call_CreateMember: "rbac_call uc gen w (snd (CreateMember uc gen cmi w))"
| call_UpdateMember: "rbac_call uc gen w (snd (UpdateMember i umi w))"
| call_DeleteMember: "rbac_call uc gen w (snd (DeleteMember i cur w))"
| call_SetUserAvatar: "rbac_call uc gen w (snd (SetUserAvatar i path w))"

definition sys_roles_kept :: "'x db_scheme \<Rightarrow> 'x db_scheme \<Rightarrow> bool" where
  "sys_roles_kept w w' \<longleftrightarrow> (\<forall>r \<in> set (roles w). r_is_system r \<longrightarrow> r \<in> set (roles w'))"

definition perms_ok :: "'x db_scheme \<Rightarrow> bool" where
  "perms_ok w \<longleftrightarrow>
     (\<forall>r \<in> set (roles w). \<exists>ps. r_permissions r = Some ps \<and> set ps \<subseteq> permissionSet)"

definition perms_kept :: "'x db_scheme \<Rightarrow> 'x db_scheme \<Rightarrow> bool" where
  "perms_kept = keeps perms_ok"

lemma perms_ok_stp [simp]: "perms_ok (w\<lparr>stp := n\<rparr>) = perms_ok w"
  by (simp add: perms_ok_def)

text \<open>
  What the proofs about the team and member requests need of a relation: that the statements on the
  tables other than \<open>roles\<close> respect it.
\<close>

locale request_frame = frame R for R :: "'x db_scheme \<Rightarrow> 'x db_scheme \<Rightarrow> bool" +
  assumes R_insert_user: "insert_user u w = Inr (n, w') \<Longrightarrow> R w w'"
    and R_update_users: "update_users p f w = Inr (n, w') \<Longrightarrow> R w w'"
    and R_delete_users: "delete_users p w = Inr (n, w') \<Longrightarrow> R w w'"
    and R_insert_team: "insert_team t w = Inr (n, w') \<Longrightarrow> R w w'"
    and R_update_teams: "update_teams pt ft w = Inr (n, w') \<Longrightarrow> R w w'"
    and R_delete_teams: "delete_teams pt w = Inr (n, w') \<Longrightarrow> R w w'"
    and R_insert_team_member: "insert_team_member m w = Inr (n, w') \<Longrightarrow> R w w'"
    and R_delete_team_members: "delete_team_members pm w = Inr (n, w') \<Longrightarrow> R w w'"
begin

lemma exec_others:
  "moves R (db_exec (\<lambda>w. insert_user (u w) w))"
  "moves R (db_exec (update_users p f))"
  "moves R (db_exec (delete_users p))"
  "moves R (db_exec (\<lambda>w. insert_team (t w) w))"
  "moves R (db_exec (update_teams pt ft))"
  "moves R (db_exec (delete_teams pt))"
  "moves R (db_exec (insert_team_member m))"
  "moves R (db_exec (delete_team_members pm))"
  by (auto intro!: frame_exec intro: R_insert_user R_update_users R_delete_users R_insert_team
      R_update_teams R_delete_teams R_insert_team_member R_delete_team_members)

lemmas request_rules = frame_rules moves_intro exec_others

lemmas reads =
  GetRole_read [THEN frame_read] GetTeam_read [THEN frame_read] GetMember_read [THEN frame_read]
  invalid_read [THEN frame_read] checked_name_read [THEN frame_read]
  uniqueSlug_read [THEN frame_read] validateTeamMemberInputs_read [THEN frame_read]
  validateMemberTeamInputs_read [THEN frame_read] global_role_read [THEN frame_read]
  member_inputs_read [THEN frame_read]

lemma replace_moves:
  "moves R (replaceTeamMembers i ms)" "moves R (replaceMemberTeams i ms)"
  unfolding replaceTeamMembers_def replaceMemberTeams_def by (intro request_rules)+

lemma team_moves:
  "moves R (CreateTeam cti)" "moves R (UpdateTeam i uti)" "moves R (DeleteTeam i)"
  "moves R (SetTeamMembers i ms)"
  unfolding CreateTeam_def UpdateTeam_def DeleteTeam_def SetTeamMembers_def
  by (intro request_rules reads replace_moves)+

lemma member_moves:
  "moves R (CreateMember uc gen cmi)" "moves R (UpdateMember i umi)"
  "moves R (DeleteMember i cur)" "moves R (SetUserAvatar i path)"
  unfolding CreateMember_def UpdateMember_def DeleteMember_def SetUserAvatar_def
  by (intro request_rules reads replace_moves frame_HashPassword)+

lemmas other_moves = team_moves member_moves

end

text \<open>A relation that looks only at \<open>roles\<close> is one of them.\<close>

locale roles_frame = frame R for R :: "'x db_scheme \<Rightarrow> 'x db_scheme \<Rightarrow> bool" +
  assumes same_roles: "roles w' = roles w \<Longrightarrow> R w w'"

sublocale roles_frame \<subseteq> request_frame
  by unfold_locales (auto intro!: same_roles dest: statement_roles)

interpretation sysr: roles_frame sys_roles_kept
  by unfold_locales (auto simp: sys_roles_kept_def)

interpretation perms: roles_frame perms_kept
  by unfold_locales (auto simp: perms_kept_def keeps_def perms_ok_def)

interpretation schema: request_frame schema_kept
  by unfold_locales (auto simp: schema_kept_def keeps_def dest: statement_schema_ok)

lemma insert_role_sys: "insert_role r w = Inr (n, w') \<Longrightarrow> sys_roles_kept w w'"
  by (auto simp: insert_role_def checked_Inr_iff sys_roles_kept_def)

lemma insert_role_perms:
  "insert_role r w = Inr (n, w') \<Longrightarrow> r_permissions r = Some ps \<Longrightarrow> set ps \<subseteq> permissionSet \<Longrightarrow>
     perms_kept w w'"
  by (auto simp: insert_role_def checked_Inr_iff perms_kept_def keeps_def perms_ok_def)

lemma CreateRole_sys: "moves sys_roles_kept (CreateRole cri)"
  unfolding CreateRole_def
  by (intro sysr.request_rules sysr.reads sysr.frame_exec) (rule insert_role_sys)

lemma normalisePermissions_subset: "normalisePermissions xs = Inr ps \<Longrightarrow> set ps \<subseteq> permissionSet"
  using normalisePermissions_loop_ok [of xs "[]"] normalisePermissions_loop_bad [of xs "[]"]
    fold_insert_trim [of "[]" xs]
  by (cases "(trim_space ` set xs) - {[]} \<subseteq> permissionSet") (auto simp: normalisePermissions_def)

lemma CreateRole_perms: "moves perms_kept (CreateRole cri)"
  unfolding CreateRole_def bnd_inward
  by (intro perms.request_rules perms.reads perms.frame_exec, erule insert_role_perms)
    (auto dest: normalisePermissions_subset)

lemma rows_to_not_found_Inr [simp]:
  "rows_to_not_found m w = (Inr x, w') \<longleftrightarrow> m w = (Inr x, w')"
proof (cases "m w")
  case (Pair r v)
  then show ?thesis
    by (cases r) (auto simp: rows_to_not_found_def bnd_def attempt_def go_simps)
qed

lemma GetRole_Inr:
  "GetRole i w = (Inr role, w') \<longleftrightarrow>
     \<not> o_fault (orc w) (stp w) \<and> w' = tick w \<and>
     (\<exists>row. find (\<lambda>r. r_id r = i) (roles w) = Some row \<and> scanRole row = Inr role)"
  by (auto simp: GetRole_def run_iffs go_simps)

lemma scanRole_simps:
  "scanRole row = Inr role \<Longrightarrow>
     role_IsSystem role = r_is_system row \<and> role_ID role = r_id row \<and>
     r_permissions row = Some (role_Permissions role) \<and> role_IsAdmin role = r_is_admin row \<and>
     role_Scope role = normaliseScope (r_scope row) \<and> role_Slug role = r_slug row"
  by (auto simp: scanRole_def split: option.splits)


definition others_kept :: "string \<Rightarrow> 'x db_scheme \<Rightarrow> 'x db_scheme \<Rightarrow> bool" where
  "others_kept i w w' \<longleftrightarrow> (\<forall>r \<in> set (roles w). r_id r \<noteq> i \<longrightarrow> r \<in> set (roles w'))"

interpretation oth: roles_frame "others_kept i" for i
  by unfold_locales (auto simp: others_kept_def)

lemma update_roles_others: "update_roles (\<lambda>r. r_id r = i) f w = Inr (n, w') \<Longrightarrow> others_kept i w w'"
  by (auto simp: update_roles_def checked_Inr_iff others_kept_def set_update_where image_iff
      intro: bexI)

lemma delete_roles_others: "delete_roles (\<lambda>r. r_id r = i) w = Inr (n, w') \<Longrightarrow> others_kept i w w'"
  by (auto simp: delete_roles_def checked_Inr_iff others_kept_def)

lemma UpdateRole_others: "moves (others_kept i) (UpdateRole i uri)"
  unfolding UpdateRole_def
  by (intro oth.request_rules oth.reads oth.frame_exec) (rule update_roles_others)

lemma DeleteRole_others: "moves (others_kept i) (DeleteRole i)"
  unfolding DeleteRole_def
  by (intro oth.request_rules oth.reads oth.frame_exec) (rule delete_roles_others)

lemma role_unique:
  "schema_ok w \<Longrightarrow> row \<in> set (roles w) \<Longrightarrow> find (\<lambda>r. r_id r = r_id row) (roles w) = Some row"
  by (rule find_key [where k = r_id]) (auto simp: schema_ok_def unique_ok_def)

text \<open>The guard both role mutations start with stops at a system role.\<close>

lemma system_guard:
  assumes "schema_ok w" and "row \<in> set (roles w)" and "r_is_system row"
  shows "only_step w (snd (bnd (GetRole (r_id row))
           (\<lambda>role. if role_IsSystem role then fail e else k role) w))"
proof (cases "GetRole (r_id row) w")
  case (Pair res v)
  have step: "only_step w v" using movesD [OF GetRole_read Pair] .
  show ?thesis
  proof (cases res)
    case (Inl e)
    with Pair step show ?thesis by (simp add: bnd_def)
  next
    case (Inr role)
    with Pair have "role_IsSystem role"
      using role_unique [OF assms(1,2)] assms(3) by (auto simp: GetRole_Inr dest: scanRole_simps)
    with Pair Inr step show ?thesis by (simp add: bnd_def go_simps)
  qed
qed

lemma others_sys:
  assumes others: "others_kept i w w'"
    and guard: "\<And>row. row \<in> set (roles w) \<Longrightarrow> r_is_system row \<Longrightarrow> r_id row = i \<Longrightarrow> only_step w w'"
  shows "sys_roles_kept w w'"
  unfolding sys_roles_kept_def
proof (intro ballI impI)
  fix r assume r: "r \<in> set (roles w)" "r_is_system r"
  show "r \<in> set (roles w')"
  proof (cases "r_id r = i")
    case True
    with guard r obtain n where "w' = w\<lparr>stp := n\<rparr>" by (auto simp: only_step_def)
    with r show ?thesis by simp
  next
    case False
    with others r show ?thesis by (simp add: others_kept_def)
  qed
qed

lemma UpdateRole_sys:
  assumes "schema_ok w"
  shows "sys_roles_kept w (snd (UpdateRole i uri w))"
proof (rule others_sys [of i])
  show "others_kept i w (snd (UpdateRole i uri w))"
    using UpdateRole_others unfolding moves_def by blast
  show "only_step w (snd (UpdateRole i uri w))"
    if "row \<in> set (roles w)" "r_is_system row" "r_id row = i" for row
    unfolding UpdateRole_def that(3) [symmetric] by (rule system_guard [OF assms that(1,2)])
qed

lemma DeleteRole_sys:
  assumes "schema_ok w"
  shows "sys_roles_kept w (snd (DeleteRole i w))"
proof (rule others_sys [of i])
  show "others_kept i w (snd (DeleteRole i w))"
    using DeleteRole_others unfolding moves_def by blast
  show "only_step w (snd (DeleteRole i w))"
    if "row \<in> set (roles w)" "r_is_system row" "r_id row = i" for row
    unfolding DeleteRole_def that(3) [symmetric] by (rule system_guard [OF assms that(1,2)])
qed

lemma role_sets_perms:
  "r_permissions (role_sets name inp perms r) = (case perms of None \<Rightarrow> r_permissions r | Some ps \<Rightarrow> Some ps)"
  by (auto simp: role_sets_def Let_def split: option.split)

lemma update_roles_perms:
  assumes "update_roles p (role_sets name inp perms) w = Inr (n, w')"
    and "\<And>ps. perms = Some ps \<Longrightarrow> set ps \<subseteq> permissionSet"
  shows "perms_kept w w'"
  using assms
  by (fastforce simp: update_roles_def checked_Inr_iff perms_kept_def keeps_def perms_ok_def
      set_update_where role_sets_perms split: option.splits)

lemma UpdateRole_perms: "moves perms_kept (UpdateRole i uri)"
  unfolding UpdateRole_def bnd_inward bnd_ret bnd_fail
  by (intro perms.request_rules perms.reads perms.frame_exec; erule update_roles_perms)
    (auto dest: normalisePermissions_subset)

lemma DeleteRole_perms: "moves perms_kept (DeleteRole i)"
  unfolding DeleteRole_def
  by (intro perms.request_rules perms.reads perms.frame_exec)
    (auto simp: delete_roles_def checked_Inr_iff perms_kept_def keeps_def perms_ok_def)


lemma role_requests_schema:
  "moves schema_kept (CreateRole cri)" "moves schema_kept (UpdateRole i uri)"
  "moves schema_kept (DeleteRole i)"
  unfolding CreateRole_def UpdateRole_def DeleteRole_def
  by (intro schema.request_rules schema.reads schema.frame_exec;
      auto simp: schema_kept_def keeps_def dest: statement_schema_ok)+

lemma rbac_call_keeps:
  assumes "rbac_call uc gen w w'" and "schema_ok w"
  shows "schema_ok w'" and "sys_roles_kept w w'" and "perms_ok w \<Longrightarrow> perms_ok w'"
proof -
  have "schema_kept w w'" "perms_kept w w'" "sys_roles_kept w w'"
    using assms
    by (induction rule: rbac_call.induct)
      (auto intro!: moves_snd schema.other_moves role_requests_schema perms.other_moves
        CreateRole_perms UpdateRole_perms DeleteRole_perms sysr.other_moves CreateRole_sys
        UpdateRole_sys DeleteRole_sys)
  with assms show "schema_ok w'" "sys_roles_kept w w'" "perms_ok w \<Longrightarrow> perms_ok w'"
    by (simp_all add: schema_kept_def perms_kept_def keeps_def)
qed

text \<open>
  C1. System roles cannot be changed or removed through the service: over any sequence of write
  requests, whatever their inputs and wherever the database fails, every system role row is still in
  the table, unchanged.
\<close>

theorem system_roles_survive:
  assumes "(rbac_call uc gen)\<^sup>*\<^sup>* w w'" and "schema_ok w"
  shows "sys_roles_kept w w' \<and> schema_ok w'"
  using assms
proof (induction rule: rtranclp_induct)
  case base
  then show ?case by (simp add: sysr.R_refl)
next
  case (step u v)
  then show ?case using rbac_call_keeps [of uc gen u v] sysr.R_trans [of w u v] by simp
qed

text \<open>
  Every permission stored in a role is one of the catalogue's, and stays so over any sequence of
  write requests.
\<close>

theorem permissions_stay_in_catalogue:
  assumes "(rbac_call uc gen)\<^sup>*\<^sup>* w w'" and "schema_ok w" and "perms_ok w"
  shows "perms_ok w'"
proof -
  have "schema_ok w' \<and> perms_ok w'"
    using assms
  proof (induction rule: rtranclp_induct)
    case (step u v)
    then show ?case using rbac_call_keeps [of uc gen u v] by simp
  qed simp
  then show ?thesis by simp
qed

end
