(* ===== verification/Rbac_Access.thy ===== *)
theory Rbac_Access
  imports Rbac_Props
begin

text \<open>
  The authorisation decisions of \<open>internal/rbac/authorize.go\<close> against a policy stated over the stored
  rows.
\<close>

section \<open>Authorisation decisions\<close>

text \<open>
  The specification: the role that counts for a user, whether it makes the user an administrator, and
  the permissions it grants.
\<close>

definition granted_role :: "'x db_scheme \<Rightarrow> user \<Rightarrow> role_row option" where
  "granted_role w u =
     (case u_role_id u of
        None \<Rightarrow> None
      | Some ri \<Rightarrow> (if ri = [] then None else find (\<lambda>r. r_id r = ri) (roles w)))"

definition is_admin :: "'x db_scheme \<Rightarrow> user \<Rightarrow> bool" where
  "is_admin w u \<longleftrightarrow>
     (case granted_role w u of Some r \<Rightarrow> r_is_admin r | None \<Rightarrow> u_role u = ''admin'')"

definition grants :: "role_row \<Rightarrow> string \<Rightarrow> bool" where
  "grants r p \<longleftrightarrow> (case r_permissions r of None \<Rightarrow> False | Some ps \<Rightarrow> p \<in> set ps)"

definition allowed :: "'x db_scheme \<Rightarrow> user \<Rightarrow> string \<Rightarrow> bool" where
  "allowed w u p \<longleftrightarrow>
     u_status u = ''active'' \<and>
     (is_admin w u \<or> (case granted_role w u of Some r \<Rightarrow> grants r p | None \<Rightarrow> False))"

definition team_role :: "'x db_scheme \<Rightarrow> string \<Rightarrow> string \<Rightarrow> role_row option" where
  "team_role w t u =
     (case find (\<lambda>m. tm_team_id m = t \<and> tm_user_id m = u) (team_members w) of
        None \<Rightarrow> None
      | Some m \<Rightarrow> (case tm_role_id m of None \<Rightarrow> None | Some ri \<Rightarrow> find (\<lambda>r. r_id r = ri) (roles w)))"

definition team_allowed :: "'x db_scheme \<Rightarrow> user \<Rightarrow> string \<Rightarrow> string \<Rightarrow> bool" where
  "team_allowed w u t p \<longleftrightarrow>
     u_status u = ''active'' \<and>
     (is_admin w u \<or>
      (case team_role w t (u_id u) of None \<Rightarrow> False | Some r \<Rightarrow> r_is_admin r \<or> grants r p))"

definition find_user :: "'x db_scheme \<Rightarrow> string \<Rightarrow> user option" where
  "find_user w i = find (\<lambda>u. u_id u = i) (users w)"

lemma policy_stp [simp]:
  "granted_role (w\<lparr>stp := n\<rparr>) u = granted_role w u" "team_role (w\<lparr>stp := n\<rparr>) t i = team_role w t i"
  "is_admin (w\<lparr>stp := n\<rparr>) u = is_admin w u" "team_allowed (w\<lparr>stp := n\<rparr>) u t p = team_allowed w u t p"
  "find_user (w\<lparr>stp := n\<rparr>) i = find_user w i"
proof -
  show g: "granted_role (w\<lparr>stp := n\<rparr>) u = granted_role w u"
    and t: "team_role (w\<lparr>stp := n\<rparr>) t i = team_role w t i" for t i
    by (auto simp: granted_role_def team_role_def split: option.split)
  show a: "is_admin (w\<lparr>stp := n\<rparr>) u = is_admin w u" by (simp add: is_admin_def g)
  show "team_allowed (w\<lparr>stp := n\<rparr>) u t p = team_allowed w u t p"
    by (simp add: team_allowed_def a t)
  show "find_user (w\<lparr>stp := n\<rparr>) i = find_user w i" by (simp add: find_user_def)
qed

lemma find_user_id: "find_user w i = Some u \<Longrightarrow> u_id u = i"
  by (auto simp: find_user_def dest: find_SomeD)

lemma rows_to_not_found_cases:
  "rows_to_not_found m w =
     (case m w of (Inl e, v) \<Rightarrow> (Inl (if errors_is e (ErrSql NoRows) then ErrNotFound else e), v)
      | (Inr x, v) \<Rightarrow> (Inr x, v))"
  by (auto simp: rows_to_not_found_def bnd_def attempt_def go_simps split: prod.split sum.split)

lemma GetRole_cases:
  "GetRole i w =
     (if o_fault (orc w) (stp w) then (Inl (ErrSql DriverFailure), tick w)
      else case find (\<lambda>r. r_id r = i) (roles w) of
          None \<Rightarrow> (Inl ErrNotFound, tick w)
        | Some row \<Rightarrow> (scanRole row, tick w))"
  by (auto simp: GetRole_def rows_to_not_found_cases bnd_def db_query_row_cases go_simps scanRole_def
      split: option.split)

lemma context_role_Inr:
  "context_role u w = (Inr ro, w') \<Longrightarrow>
     (case granted_role w u of None \<Rightarrow> ro = None
      | Some row \<Rightarrow> (\<exists>role. scanRole row = Inr role \<and> ro = Some role))"
  by (auto simp: context_role_def granted_role_def bnd_def attempt_run GetRole_cases go_simps
      scanRole_def ErrNotFound_def split: option.splits if_splits)

lemma build_context_simps:
  "uc_Status (build_context u ro) = u_status u"
  "uc_IsAdmin (build_context u ro) =
     (case ro of None \<Rightarrow> u_role u = ''admin'' | Some r \<Rightarrow> role_IsAdmin r)"
  "\<not> uc_IsAdmin (build_context u ro) \<Longrightarrow> set (uc_Permissions (build_context u ro)) =
     (case ro of None \<Rightarrow> {} | Some r \<Rightarrow> set (role_Permissions r))"
  by (auto simp: build_context_def Let_def split: option.splits)

text \<open>The result of \<open>UserContext\<close> in terms of the stored rows, whenever there is one.\<close>

lemma get_UserContext_Inr:
  assumes "get_UserContext i w = (Inr c, w')"
  shows "\<exists>u n. find_user w i = Some u \<and> w' = w\<lparr>stp := n\<rparr> \<and> uc_Status c = u_status u \<and>
     uc_IsAdmin c = is_admin w u \<and>
     (\<not> is_admin w u \<longrightarrow> (\<forall>p. p \<in> set (uc_Permissions c) \<longleftrightarrow>
        (case granted_role w u of Some r \<Rightarrow> grants r p | None \<Rightarrow> False)))"
proof -
  obtain n where n: "w' = w\<lparr>stp := n\<rparr>" by (rule only_stepE [OF get_UserContext_read assms])
  from assms obtain u ro where u: "find_user w i = Some u"
    and ro: "context_role u (tick w) = (Inr ro, w')" and c: "c = build_context u ro"
    by (auto simp: get_UserContext_def run_iffs find_user_def go_simps)
  have same: "granted_role (tick w) u = granted_role w u" by (simp add: tick_def)
  show ?thesis
  proof (cases "granted_role w u")
    case None
    with context_role_Inr [OF ro] same have "ro = None" by simp
    with None u n c show ?thesis
      using build_context_simps [of u ro] by (auto simp: is_admin_def)
  next
    case (Some row)
    with context_role_Inr [OF ro] same obtain role
      where "scanRole row = Inr role" "ro = Some role" by auto
    with Some u n c scanRole_simps [of row role] show ?thesis
      using build_context_simps [of u ro] by (auto simp: is_admin_def grants_def)
  qed
qed

text \<open>
  C2. The answer of the permission check is exactly the policy: an active user who is an
  administrator, or whose role lists the permission. This holds for every answer the check gives,
  even when the database fails somewhere, so a failure never grants access.
\<close>

theorem HasPermission_sound:
  assumes "HasPermission i p w = (Inr b, w')"
  shows "\<exists>u. find_user w i = Some u \<and> b = allowed w u p"
proof -
  from assms obtain c v where "get_UserContext i w = (Inr c, v)"
    and b: "b = (uc_Status c = ''active'' \<and> (uc_IsAdmin c \<or> hasPermission (uc_Permissions c) p))"
    by (auto simp: HasPermission_def run_iffs go_simps split: if_splits)
  from get_UserContext_Inr [OF this(1)] b show ?thesis
    by (auto simp: allowed_def hasPermission_def list_ex_iff)
qed

lemma context_role_total:
  "perms_ok w \<Longrightarrow> \<not> o_fault (orc w) (stp w) \<Longrightarrow> \<exists>ro v. context_role u w = (Inr ro, v)"
  by (auto simp: context_role_def bnd_def attempt_run GetRole_cases go_simps scanRole_def
      ErrNotFound_def perms_ok_def split: option.splits dest!: find_SomeD)

lemma get_UserContext_total:
  assumes "find_user w i = Some u" and "perms_ok w" and "\<And>n. \<not> o_fault (orc w) n"
  shows "\<exists>c n. get_UserContext i w = (Inr c, w\<lparr>stp := n\<rparr>)"
proof -
  have "perms_ok (tick w)" using assms(2) by (simp add: tick_def)
  with context_role_total [of "tick w" u] assms(3) obtain ro v
    where "context_role u (tick w) = (Inr ro, v)" by auto
  with assms have eq: "get_UserContext i w = (Inr (build_context u ro), v)"
    by (simp add: get_UserContext_def bnd_def rows_to_not_found_cases db_query_row_cases find_user_def
        go_simps)
  with only_stepE [OF get_UserContext_read eq] show ?thesis by metis
qed

lemma teamRoleForMember_cases:
  "teamRoleForMember t i w =
     (if o_fault (orc w) (stp w) then (Inl (ErrSql DriverFailure), tick w)
      else case team_role w t i of
          None \<Rightarrow> (Inl ErrNotFound, tick w)
        | Some row \<Rightarrow> (scanRole row, tick w))"
  by (auto simp: teamRoleForMember_def rows_to_not_found_cases bnd_def db_query_row_cases go_simps
      scanRole_def team_role_def split: option.split)

lemma HasTeamPermission_sound:
  assumes "HasTeamPermission i t p w = (Inr b, w')"
  shows "\<exists>u. find_user w i = Some u \<and> b = team_allowed w u t p"
proof -
  from assms obtain c v where c: "get_UserContext i w = (Inr c, v)"
    and rest: "(if uc_Status c \<noteq> ''active'' then ret False else if uc_IsAdmin c then ret True
       else bnd (attempt (teamRoleForMember t i)) (\<lambda>r. case r of
         Inl e \<Rightarrow> (if errors_is e ErrNotFound then ret False else fail e)
       | Inr role \<Rightarrow> (if role_IsAdmin role then ret True
           else ret (hasPermission (role_Permissions role) p)))) v = (Inr b, w')"
    by (auto simp: HasTeamPermission_def bnd_eq_Inr_iff)
  from get_UserContext_Inr [OF c] obtain u n where u: "find_user w i = Some u" "v = w\<lparr>stp := n\<rparr>"
    "uc_Status c = u_status u" "uc_IsAdmin c = is_admin w u" by blast
  have "team_role v t i = team_role w t i" using u(2) by simp
  with rest u find_user_id [OF u(1)] show ?thesis
    by (auto simp: team_allowed_def bnd_def attempt_run teamRoleForMember_cases go_simps scanRole_def
        ErrNotFound_def grants_def hasPermission_def list_ex_iff split: if_splits option.splits)
qed

text \<open>
  Access to a team's resource is decided by the policy alone: an active user gets it through the
  instance role, or, when a team is named, through the role held in that team; no answer deviates,
  whatever the database does.
\<close>

theorem CanAccessTeam_sound:
  assumes "CanAccessTeam i t p w = (Inr b, w')"
  shows "\<exists>u. find_user w i = Some u \<and>
     b = (allowed w u p \<or>
          (case t of None \<Rightarrow> False
           | Some tid \<Rightarrow> trim_space tid \<noteq> [] \<and> team_allowed w u (trim_space tid) p))"
proof -
  from assms obtain c v where c: "get_UserContext i w = (Inr c, v)"
    and rest: "(if uc_Status c \<noteq> ''active'' then ret False
       else if uc_IsAdmin c \<or> hasPermission (uc_Permissions c) p then ret True
       else case t of None \<Rightarrow> ret False
         | Some tid \<Rightarrow> (if trim_space tid = [] then ret False
             else HasTeamPermission i (trim_space tid) p)) v = (Inr b, w')"
    by (auto simp: CanAccessTeam_def bnd_eq_Inr_iff)
  from get_UserContext_Inr [OF c] obtain u n where u: "find_user w i = Some u" "v = w\<lparr>stp := n\<rparr>"
    "uc_Status c = u_status u" "uc_IsAdmin c = is_admin w u"
    "\<not> is_admin w u \<Longrightarrow> (\<forall>q. q \<in> set (uc_Permissions c) \<longleftrightarrow>
        (case granted_role w u of Some r \<Rightarrow> grants r q | None \<Rightarrow> False))" by blast
  have fu: "find_user v i = find_user w i" and ta: "\<And>tid. team_allowed v u tid p = team_allowed w u tid p"
    using u(2) by simp_all
  have team: "x = team_allowed w u tid p" if "HasTeamPermission i tid p v = (Inr x, w')" for x tid
    using HasTeamPermission_sound [OF that] fu ta u(1) by auto
  show ?thesis
    using rest u(1,3-5)
    by (auto simp: allowed_def team_allowed_def hasPermission_def list_ex_iff go_simps
        split: if_splits option.splits dest: team)
qed

text \<open>
  The permission check always answers for a known user: with a working database and decodable
  role rows it returns the policy's decision.
\<close>

theorem HasPermission_total:
  assumes "find_user w i = Some u" and "perms_ok w" and "\<And>n. \<not> o_fault (orc w) n"
  shows "fst (HasPermission i p w) = Inr (allowed w u p)"
proof -
  obtain c n where c: "get_UserContext i w = (Inr c, w\<lparr>stp := n\<rparr>)"
    using get_UserContext_total [OF assms] by blast
  with get_UserContext_Inr [OF c] assms(1) show ?thesis
    by (auto simp: HasPermission_def bnd_def go_simps allowed_def hasPermission_def list_ex_iff)
qed


end
