(* ===== verification/Fixtures.thy ===== *)
theory Fixtures
  imports Database
begin

text \<open>
  Concrete states used by the witnesses: a quiet environment (no driver failure, a clock that counts
  the steps, identifiers and random bytes made from the step number) and a small populated database.
\<close>

definition quiet_env :: environ where
  "quiet_env =
     \<lparr>o_now = (\<lambda>n. (1000 + int n) * second), o_fault = (\<lambda>_. False), o_uuid = (\<lambda>n. ''id-'' @ nat_digits n),
      o_rand = (\<lambda>n. Some (map (\<lambda>i. (n + i) mod 256) [0..<32]))\<rparr>"

definition fx_role :: "string \<Rightarrow> string \<Rightarrow> string \<Rightarrow> bool \<Rightarrow> bool \<Rightarrow> string list \<Rightarrow> role_row" where
  "fx_role i slug scope adm sys perms =
     \<lparr>r_id = i, r_slug = slug, r_name = slug, r_description = [], r_scope = scope, r_is_admin = adm,
      r_is_system = sys, r_permissions = Some perms, r_created_at = 0, r_updated_at = 0\<rparr>"

definition fx_user :: "string \<Rightarrow> string \<Rightarrow> string \<Rightarrow> string option \<Rightarrow> user" where
  "fx_user i email status rid =
     \<lparr>u_id = i, u_email = email, u_password_hash = ''hash'', u_role = ''member'', u_name = None,
      u_avatar_path = None, u_status = status, u_role_id = rid, u_created_at = 0,
      u_2fa_enabled = False, u_2fa_secret = None, u_2fa_pending = None, u_2fa_confirmed_at = None,
      u_recovery = None\<rparr>"

definition fx_team :: "string \<Rightarrow> string \<Rightarrow> team_row" where
  "fx_team i name =
     \<lparr>t_id = i, t_name = name, t_slug = name, t_description = None, t_color = CHR 0x23 # ''10b981'',
      t_avatar_path = None, t_created_at = 0, t_updated_at = 0\<rparr>"

definition fx_db :: db where
  "fx_db =
     \<lparr>orc = quiet_env, stp = 0,
      users = [fx_user ''u1'' ''a@x.io'' ''active'' (Some ''r1''), fx_user ''u2'' ''b@x.io'' ''active'' None],
      roles = [fx_role ''r1'' ''admin'' ''global'' True True [],
               fx_role ''r2'' ''developer'' ''team'' False True [''apps.view'', ''apps.deploy''],
               fx_role ''r3'' ''ops'' ''both'' False False [''servers.view'']],
      teams = [fx_team ''t1'' ''core''],
      team_members = [\<lparr>tm_team_id = ''t1'', tm_user_id = ''u2'', tm_role_id = Some ''r2''\<rparr>],
      apps = [], refresh_tokens = [], totp_used = [], api_tokens = [], settings = [], servers = [],
      domains = [], secrets = [], app_volumes = [], deployments = [], dns_zones = [], git_sources = [], tags = [], app_tags = []\<rparr>"

definition fx_app :: "string \<Rightarrow> string \<Rightarrow> app_row" where
  "fx_app i name =
     \<lparr>a_id = i, a_name = name, a_description = None, a_team_id = None, a_server_id = Some ''s1'',
      a_git_source_id = None, a_repo_url = None, a_branch = ''main'', a_git_commit_sha = None,
      a_build_type = ''docker_image'', a_dockerfile_path = ''Dockerfile'', a_build_context = ''.'',
      a_dockerfile_inline = None, a_compose_file = None, a_compose_inline = None, a_image_name = Some ''nginx'',
      a_image_tag = ''latest'', a_install_command = None, a_build_command = None, a_start_command = None,
      a_pre_deploy_command = None, a_post_deploy_command = None, a_port = Some 8080, a_host_port = None,
      a_container_name = None, a_health_check_enabled = False, a_health_check_path = ''/'',
      a_health_check_method = ''GET'', a_health_check_port = None, a_health_check_return_code = 200,
      a_health_check_interval = 30, a_health_check_timeout = 60, a_health_check_retries = 3,
      a_health_check_start_period = 10, a_limits_memory = None, a_limits_cpus = None, a_limits_memory_swap = None,
      a_limits_memory_swappiness = None, a_limits_memory_reservation = None, a_limits_cpuset = None,
      a_limits_cpu_shares = None, a_restart_policy = ''unless-stopped'', a_auto_deploy_branch = None,
      a_build_args_inject = True, a_build_args_source_commit = False, a_docker_labels = Some [],
      a_env_vars = Some [], a_status = ''idle'', a_created_at = 0, a_updated_at = 0\<rparr>"

definition fx_server :: server_row where
  "fx_server =
     \<lparr>sv_id = ''s1'', sv_name = ''local'', sv_type = ''local'', sv_host = None, sv_port = 22, sv_user = None,
      sv_private_key = None, sv_host_key_fingerprint = None, sv_status = ''connected'',
      sv_docker_version = None, sv_last_checked_at = None, sv_created_at = 0, sv_updated_at = 0\<rparr>"

definition fx_apps :: db where
  "fx_apps = fx_db\<lparr>servers := [fx_server], apps := [fx_app ''a1'' ''web'', fx_app ''a2'' ''api'']\<rparr>"

lemmas fx_defs = quiet_env_def fx_role_def fx_user_def fx_team_def fx_db_def

lemma fx_quiet [simp]: "\<not> o_fault quiet_env n"
  by (simp add: quiet_env_def)

lemma fx_db_simps [simp]: "orc fx_db = quiet_env" "stp fx_db = 0"
  by (simp_all add: fx_db_def)

lemma fx_schema: "schema_ok fx_db"
  by code_simp

lemma fx_apps_schema: "schema_ok fx_apps"
  by code_simp

text \<open>From the evaluated result of a call to the equation the theorems take.\<close>

lemma fst_result: "fst x = r \<Longrightarrow> x = (r, snd x)"
  by (cases x) simp

end
