(* ===== verification/Rbac_Effects.thy ===== *)
theory Rbac_Effects
  imports Rbac_Access Fixtures
begin

text \<open>
  The functional behaviour of the requests of \<open>internal/rbac\<close> that write: what a successful deletion,
  membership replacement or seeding leaves in the tables, and what a failed one leaves.
\<close>

lemma affected_0: "affected p xs = 0 \<longleftrightarrow> (\<forall>x \<in> set xs. \<not> p x)"
  by (auto simp: affected_def filter_empty_conv)

text \<open>
  A role is deleted only when nothing refers to it: a successful deletion removes exactly that
  role, it was no system role, and no user and no team membership had it.
\<close>

theorem DeleteRole_only_unused:
  assumes "DeleteRole i w = (Inr (), w')" and "schema_ok w"
  shows "roles w' = filter (\<lambda>r. r_id r \<noteq> i) (roles w) \<and>
     (\<exists>r \<in> set (roles w). r_id r = i \<and> \<not> r_is_system r) \<and>
     (\<forall>u \<in> set (users w). u_role_id u \<noteq> Some i) \<and>
     (\<forall>m \<in> set (team_members w). tm_role_id m \<noteq> Some i) \<and>
     users w' = users w \<and> team_members w' = team_members w"
proof -
  from assms(1) obtain role where "GetRole i w = (Inr role, tick w)"
    and rest: "\<not> role_IsSystem role"
      "affected (\<lambda>u. u_role_id u = Some i) (users w) = 0"
      "affected (\<lambda>m. tm_role_id m = Some i) (team_members w) = 0"
      "\<exists>n v. delete_roles (\<lambda>r. r_id r = i) (tick (tick (tick w))) = Inr (n, v) \<and> w' = tick v"
    by (auto simp: DeleteRole_def run_iffs GetRole_Inr go_simps split: if_splits)
  then obtain row where row: "find (\<lambda>r. r_id r = i) (roles w) = Some row" "scanRole row = Inr role"
    by (auto simp: GetRole_Inr)
  with rest(1) have "row \<in> set (roles w)" "r_id row = i" "\<not> r_is_system row"
    using find_SomeD [OF row(1)] scanRole_simps [OF row(2)] by auto
  then have ex: "\<exists>r \<in> set (roles w). r_id r = i \<and> \<not> r_is_system r" by blast
  with rest show ?thesis
    by (auto simp: delete_roles_def checked_Inr_iff affected_0)
qed

text \<open>Inserting memberships one by one appends them all, or fails.\<close>

lemma insert_members_each:
  assumes "for_each (\<lambda>m. bnd (db_exec (insert_team_member (g m))) (\<lambda>_. ret ())) ms w = (Inr (), w')"
  shows "\<exists>n. w' = w\<lparr>team_members := team_members w @ map g ms, stp := n\<rparr>"
  using assms
proof (induction ms arbitrary: w)
  case Nil
  then have "w' = w\<lparr>team_members := team_members w @ map g [], stp := stp w\<rparr>" by (simp add: go_simps)
  then show ?case by blast
next
  case (Cons m ms)
  from Cons.prems obtain v
    where one: "bnd (db_exec (insert_team_member (g m))) (\<lambda>_. ret ()) w = (Inr (), v)"
      and rest: "for_each (\<lambda>m. bnd (db_exec (insert_team_member (g m))) (\<lambda>_. ret ())) ms v
        = (Inr (), w')"
    unfolding for_each_Cons_Inr by blast
  from one have "v = tick (w\<lparr>team_members := team_members w @ [g m]\<rparr>)"
    by (auto simp: run_iffs go_simps insert_team_member_def checked_Inr_iff)
  with Cons.IH [OF rest] show ?case by (auto simp: tick_def)
qed

lemma replaceTeamMembers_Inr:
  assumes "replaceTeamMembers t ms w = (Inr (), w')"
  shows "\<exists>n. w' = w\<lparr>team_members := filter (\<lambda>m. tm_team_id m \<noteq> t) (team_members w) @
     map (\<lambda>m. \<lparr>tm_team_id = t, tm_user_id = tmi_UserID m, tm_role_id = Some (tmi_RoleID m)\<rparr>)
       (normaliseTeamMembers ms), stp := n\<rparr>"
  using assms
  by (auto simp: replaceTeamMembers_def transaction_eq_Inr_iff run_iffs delete_team_members_def
      checked_Inr_iff tick_def dest!: insert_members_each)

text \<open>
  Replacing a team's members is all or nothing: if the call returns, the team's memberships are
  exactly the normalised input and every other table and team is untouched; if it fails, nothing
  changed at all.
\<close>

theorem replaceTeamMembers_exact:
  "case replaceTeamMembers t ms w of
     (Inr _, w') \<Rightarrow> (\<exists>n. w' = w\<lparr>team_members := filter (\<lambda>m. tm_team_id m \<noteq> t) (team_members w) @
         map (\<lambda>m. \<lparr>tm_team_id = t, tm_user_id = tmi_UserID m, tm_role_id = Some (tmi_RoleID m)\<rparr>)
           (normaliseTeamMembers ms), stp := n\<rparr>)
   | (Inl e, w') \<Rightarrow> (\<exists>n. w' = w\<lparr>stp := n\<rparr>)"
proof (cases "replaceTeamMembers t ms w")
  case (Pair r w')
  show ?thesis
  proof (cases r)
    case (Inl e)
    with Pair have "w' = w\<lparr>stp := stp w'\<rparr>"
      unfolding replaceTeamMembers_def by (auto dest: transaction_atomic)
    with Pair Inl show ?thesis by auto
  next
    case (Inr u)
    with Pair replaceTeamMembers_Inr [of t ms w w'] show ?thesis by simp
  qed
qed

lemma validate_role_scope:
  assumes "for_each (\<lambda>m. bnd (f m) (\<lambda>_. bnd (GetRole (tmi_RoleID m)) (\<lambda>role.
        if \<not> roleAllowsScope (Some role) RoleScopeTeam then invalid e else ret ()))) ms w = (Inr (), w')"
    and "\<And>m. moves only_step (f m)" and "m \<in> set ms"
  shows "\<exists>r \<in> set (roles w). r_id r = tmi_RoleID m \<and>
     (normaliseScope (r_scope r) = RoleScopeBoth \<or> normaliseScope (r_scope r) = RoleScopeTeam)"
  using assms
proof (induction ms arbitrary: w)
  case (Cons x xs)
  let ?body = "\<lambda>m. bnd (f m) (\<lambda>_. bnd (GetRole (tmi_RoleID m)) (\<lambda>role.
        if \<not> roleAllowsScope (Some role) RoleScopeTeam then invalid e else ret ()))"
  from Cons.prems(1) obtain v where v: "?body x w = (Inr (), v)" "for_each ?body xs v = (Inr (), w')"
    unfolding for_each_Cons_Inr by blast
  have "moves only_step (?body x)" using Cons.prems(2) by (intro read_rules)
  then obtain n where n: "v = w\<lparr>stp := n\<rparr>" using only_stepE v(1) by blast
  show ?case
  proof (cases "m = x")
    case True
    from v(1) obtain y w1 role w2 where "f x w = (Inr y, w1)" and role: "GetRole (tmi_RoleID x) w1 = (Inr role, w2)"
      and ok: "roleAllowsScope (Some role) RoleScopeTeam"
      by (auto simp: bnd_eq_Inr_iff invalid_def go_simps split: if_splits)
    then obtain k where "w1 = w\<lparr>stp := k\<rparr>" using only_stepE [OF Cons.prems(2)] by blast
    with role ok True show ?thesis
      by (auto simp: GetRole_Inr roleAllowsScope_def dest!: find_SomeD scanRole_simps)
  next
    case False
    with Cons.IH [OF v(2) Cons.prems(2)] Cons.prems(3) n show ?thesis by simp
  qed
qed simp

lemma validateTeamMemberInputs_alt:
  "validateTeamMemberInputs ms =
     for_each (\<lambda>m. bnd
         (bnd (if trim_space (tmi_TeamID m) \<noteq> [] then validateTeams [tmi_TeamID m] else ret ()) (\<lambda>_.
          if trim_space (tmi_UserID m) = [] then fail ErrNotFound else validateMembers [tmi_UserID m]))
         (\<lambda>_. bnd (GetRole (tmi_RoleID m)) (\<lambda>role.
            if \<not> roleAllowsScope (Some role) RoleScopeTeam
            then invalid ''role cannot be used in a team'' else ret ())))
       (normaliseTeamMembers ms)"
  by (simp add: validateTeamMemberInputs_def bnd_assoc bnd_if cong: if_cong)

text \<open>
  After the members of a team are set, every membership of that team names an existing role that
  may be used in a team.
\<close>

theorem SetTeamMembers_roles:
  assumes "SetTeamMembers t ms w = (Inr tm, w')"
  shows "\<forall>m \<in> set (team_members w'). tm_team_id m = t \<longrightarrow>
     (\<exists>r \<in> set (roles w'). tm_role_id m = Some (r_id r) \<and>
        normaliseScope (r_scope r) \<in> {RoleScopeBoth, RoleScopeTeam})"
proof -
  from assms obtain x w1 ms' w2 w3 w4 where "GetTeam t w = (Inr x, w1)"
    and "withDefaultTeamRole ms w1 = (Inr ms', w2)"
    and val: "validateTeamMemberInputs ms' w2 = (Inr (), w3)"
    and rep: "replaceTeamMembers t ms' w3 = (Inr (), w4)" and "GetTeam t w4 = (Inr tm, w')"
    by (auto simp: SetTeamMembers_def bnd_eq_Inr_iff)
  then obtain n3 n5 where w3: "w3 = w2\<lparr>stp := n3\<rparr>" and w': "w' = w4\<lparr>stp := n5\<rparr>"
    using only_stepE [OF validateTeamMemberInputs_read val] only_stepE [OF GetTeam_read]
    by (metis (no_types))
  have scope: "\<exists>r \<in> set (roles w2). r_id r = tmi_RoleID m \<and>
      (normaliseScope (r_scope r) = RoleScopeBoth \<or> normaliseScope (r_scope r) = RoleScopeTeam)"
    if "m \<in> set (normaliseTeamMembers ms')" for m
    by (rule validate_role_scope [OF val [unfolded validateTeamMemberInputs_alt] _ that])
      (intro read_rules)
  from replaceTeamMembers_Inr [OF rep] obtain n4 where
    w4: "w4 = w3\<lparr>team_members := filter (\<lambda>m. tm_team_id m \<noteq> t) (team_members w3) @
     map (\<lambda>m. \<lparr>tm_team_id = t, tm_user_id = tmi_UserID m, tm_role_id = Some (tmi_RoleID m)\<rparr>)
       (normaliseTeamMembers ms'), stp := n4\<rparr>" by blast
  show ?thesis
  proof (intro ballI impI)
    fix m assume "m \<in> set (team_members w')" "tm_team_id m = t"
    then obtain x where "x \<in> set (normaliseTeamMembers ms')" "tm_role_id m = Some (tmi_RoleID x)"
      by (auto simp: w' w4) (metis team_member.select_convs(3))
    moreover from this scope [of x] obtain r where "r \<in> set (roles w2)" "r_id r = tmi_RoleID x"
      "normaliseScope (r_scope r) \<in> {RoleScopeBoth, RoleScopeTeam}" by auto
    ultimately show "\<exists>r \<in> set (roles w'). tm_role_id m = Some (r_id r) \<and>
        normaliseScope (r_scope r) \<in> {RoleScopeBoth, RoleScopeTeam}"
      by (intro bexI [of _ r]) (auto simp: w' w4 w3)
  qed
qed

lemma uniqueSlug_base: "slugRegex b \<Longrightarrow> uniqueSlug table b = uniqueSlug_from table b 0"
  by (simp add: uniqueSlug_def)

text \<open>
  The slug chosen for a new role is not in use, unless all thousand candidates are taken; it is
  the base itself or the base with a numeric suffix.
\<close>

theorem uniqueSlug_fresh:
  assumes "uniqueSlug (\<lambda>w. map r_slug (roles w)) (slugify name) w = (Inr s, w')"
    and "\<And>n. \<not> o_fault (orc w) n"
  shows "s \<notin> set (map r_slug (roles w)) \<and> (\<exists>j<1000. s = slug_candidate (slugify name) j) \<or>
         (\<forall>j<1000. slug_candidate (slugify name) j \<in> set (map r_slug (roles w)))"
proof -
  have "slugRegex (slugify name)" by (rule slugify_slug)
  from uniqueSlug_from_spec [OF assms(1) [unfolded uniqueSlug_base [OF this]] _ assms(2)]
  show ?thesis by simp
qed

section \<open>Seeding the default roles\<close>

definition is_seed :: "defaultRole \<Rightarrow> role_row \<Rightarrow> bool" where
  "is_seed d r \<longleftrightarrow> r_slug r = dr_Slug d \<and> r_name r = dr_Name d \<and>
     r_scope r = normaliseScope (dr_Scope d) \<and> r_is_admin r = dr_IsAdmin d \<and> r_is_system r \<and>
     r_permissions r = Some (dr_Permissions d)"

definition seeded :: "'x db_scheme \<Rightarrow> defaultRole \<Rightarrow> bool" where
  "seeded w d \<longleftrightarrow> (\<exists>r \<in> set (roles w). is_seed d r)"

lemma is_seed_new: "is_seed d (default_row i d t)"
  by (simp add: is_seed_def default_row_def)

lemma is_seed_overwrite:
  "r_slug r = dr_Slug d \<Longrightarrow> is_seed d (overwrite_role (default_row i d t) t' r)"
  by (simp add: is_seed_def default_row_def overwrite_role_def)

lemma upsert_seeds:
  assumes "upsert_role (default_row i d t) w = Inr (n, v)"
  shows "seeded v d" and "dr_Slug d' \<noteq> dr_Slug d \<Longrightarrow> seeded w d' \<Longrightarrow> seeded v d'"
    and "users v = users w"
proof -
  let ?row = "default_row i d t"
  have slug [simp]: "r_slug ?row = dr_Slug d" by (simp add: default_row_def)
  consider (upd) x where "x \<in> set (roles w)" "r_slug x = dr_Slug d"
      "roles v = update_where (\<lambda>r. r_slug r = dr_Slug d) (overwrite_role ?row (unixepoch w)) (roles w)"
    | (ins) "roles v = roles w @ [?row]"
    using assms by (auto simp: upsert_role_def insert_role_def checked_Inr_iff split: if_splits)
  note cases = this
  show "seeded v d"
  proof (cases rule: cases)
    case (upd x)
    then have "overwrite_role ?row (unixepoch w) x \<in> set (roles v)"
      by (auto simp: set_update_where intro!: rev_image_eqI [of x])
    with upd is_seed_overwrite [of x d i t] show ?thesis unfolding seeded_def by blast
  next
    case ins
    then show ?thesis by (auto simp: seeded_def is_seed_new)
  qed
  show "seeded v d'" if d': "dr_Slug d' \<noteq> dr_Slug d" "seeded w d'"
  proof -
    from d'(2) obtain r where r: "r \<in> set (roles w)" "is_seed d' r" by (auto simp: seeded_def)
    with d'(1) have "r \<in> set (roles v)"
      by (cases rule: cases) (auto simp: set_update_where is_seed_def intro!: rev_image_eqI [of r])
    with r show ?thesis by (auto simp: seeded_def)
  qed
  show "users v = users w"
    using assms by (auto simp: upsert_role_def insert_role_def checked_Inr_iff split: if_splits)
qed

lemma seed_role_seeds:
  assumes "seed_role d w = (Inr (), w')"
  shows "seeded w' d" and "dr_Slug d' \<noteq> dr_Slug d \<Longrightarrow> seeded w d' \<Longrightarrow> seeded w' d'"
    and "users w' = users w"
proof -
  from assms obtain i n v where
    "upsert_role (default_row i d (unixepoch (tick w))) (tick w) = Inr (n, v)" and w': "w' = tick v"
    unfolding seed_role_def bnd_eq_Inr_iff [of new_uuid] attempt_else_fail_Inr db_exec_eq_Inr_iff
    by (auto simp: new_uuid_eq_Inr_iff go_simps)
  note up = upsert_seeds [OF this(1)]
  show "seeded w' d" and "dr_Slug d' \<noteq> dr_Slug d \<Longrightarrow> seeded w d' \<Longrightarrow> seeded w' d'"
    and "users w' = users w"
    using up(1) up(2) [of d'] up(3) w' by (simp_all add: seeded_def)
qed

lemma seed_all:
  assumes "for_each seed_role ds w = (Inr (), w')" and "distinct (map dr_Slug ds)"
  shows "(\<forall>d \<in> set ds. seeded w' d) \<and> users w' = users w \<and>
     (\<forall>d'. dr_Slug d' \<notin> dr_Slug ` set ds \<longrightarrow> seeded w d' \<longrightarrow> seeded w' d')"
  using assms
proof (induction ds arbitrary: w)
  case (Cons d ds)
  from Cons.prems(1) obtain v where v: "seed_role d w = (Inr (), v)" "for_each seed_role ds v = (Inr (), w')"
    unfolding for_each_Cons_Inr by blast
  with Cons.IH [OF v(2)] Cons.prems(2) seed_role_seeds [OF v(1)] show ?case by auto
qed (simp add: go_simps)

lemma defaultRoles_slugs: "distinct (map dr_Slug defaultRoles)"
  by (simp add: defaultRoles_def Let_def)

text \<open>
  Seeding installs every default role of the catalogue, with its scope, flags and permissions, as
  a system role, and links each legacy administrator without a role to the admin role.
\<close>

theorem EnsureDefaults_seeds:
  assumes "EnsureDefaults w = (Inr (), w')"
  shows "(\<forall>d \<in> set defaultRoles. seeded w' d) \<and>
     (\<forall>u \<in> set (users w'). u_role u = ''admin'' \<longrightarrow> u_role_id u \<noteq> None)"
proof -
  from assms obtain v where v: "for_each seed_role defaultRoles w = (Inr (), v)"
    and w': "roles w' = roles v"
      "users w' = update_where (\<lambda>u. u_role_id u = None \<and> u_role u = ''admin'')
         (\<lambda>u. u\<lparr>u_role_id := map_option r_id (find (\<lambda>r. r_slug r = ''admin'') (roles v))\<rparr>) (users v)"
    by (auto simp: EnsureDefaults_def run_iffs go_simps update_users_def checked_Inr_iff)
  have all: "\<forall>d \<in> set defaultRoles. seeded v d"
    using seed_all [OF v defaultRoles_slugs] by blast
  have "dr_Slug d = ''admin'' \<Longrightarrow> seeded v d \<Longrightarrow> find (\<lambda>r. r_slug r = ''admin'') (roles v) \<noteq> None" for d
    by (auto simp: seeded_def is_seed_def find_None_iff)
  moreover have "\<exists>d \<in> set defaultRoles. dr_Slug d = ''admin''" by (simp add: defaultRoles_def Let_def)
  ultimately have "find (\<lambda>r. r_slug r = ''admin'') (roles v) \<noteq> None" using all by blast
  then have "\<forall>u \<in> set (users w'). u_role u = ''admin'' \<longrightarrow> u_role_id u \<noteq> None"
    by (auto simp: w'(2) set_update_where)
  moreover have "\<forall>d \<in> set defaultRoles. seeded w' d" using all by (simp add: seeded_def w'(1))
  ultimately show ?thesis by blast
qed

section \<open>A request that is applied in part\<close>

text \<open>
  Updating a member is not atomic: the team inputs are checked only after the user row has been
  written, so a request that is refused because of an unknown team has already changed the member's
  status.
\<close>

theorem UpdateMember_not_atomic:
  "\<exists>inp. case UpdateMember ''u2'' inp fx_db of (r, w') \<Rightarrow>
     r = Inl ErrNotFound \<and> map u_status (users w') = [''active'', ''blocked''] \<and>
     map u_status (users fx_db) = [''active'', ''active'']"
proof
  show "case UpdateMember ''u2''
       \<lparr>umi_Name = None, umi_RoleID = None, umi_Status = Some ''blocked'', umi_TeamIDs = [],
        umi_Teams = [\<lparr>tmi_TeamID = ''t9'', tmi_UserID = [], tmi_RoleID = ''r2''\<rparr>], umi_TeamsSet = True\<rparr>
       fx_db of (r, w') \<Rightarrow>
     r = Inl ErrNotFound \<and> map u_status (users w') = [''active'', ''blocked''] \<and>
     map u_status (users fx_db) = [''active'', ''active'']"
    by code_simp
qed

section \<open>Witnesses\<close>

lemma fx_perms: "perms_ok fx_db"
  by (simp add: perms_ok_def fx_defs permissionSet_def AllPermissions_eq perm_defs)

theorem system_roles_survive_witness:
  "schema_ok fx_db \<and> sys_roles_kept fx_db (snd (DeleteRole ''r3'' fx_db))"
proof -
  have "(rbac_call (\<lambda>_. OtherRune) (\<lambda>p c n. Inr p))\<^sup>*\<^sup>* fx_db (snd (DeleteRole ''r3'' fx_db))"
    by (rule r_into_rtranclp) (rule call_DeleteRole)
  from system_roles_survive [OF this fx_schema] fx_schema show ?thesis by blast
qed

theorem permissions_stay_in_catalogue_witness:
  "schema_ok fx_db \<and> perms_ok fx_db \<and> perms_ok (snd (DeleteRole ''r3'' fx_db))"
proof -
  have "(rbac_call (\<lambda>_. OtherRune) (\<lambda>p c n. Inr p))\<^sup>*\<^sup>* fx_db (snd (DeleteRole ''r3'' fx_db))"
    by (rule r_into_rtranclp) (rule call_DeleteRole)
  from permissions_stay_in_catalogue [OF this fx_schema fx_perms] fx_schema fx_perms
  show ?thesis by blast
qed

theorem HasPermission_sound_witness:
  "fst (HasPermission ''u1'' ''apps.view'' fx_db) = Inr True \<and>
   (\<exists>u. find_user fx_db ''u1'' = Some u \<and> True = allowed fx_db u ''apps.view'')"
proof -
  have h: "fst (HasPermission ''u1'' ''apps.view'' fx_db) = Inr True" by code_simp
  from HasPermission_sound [OF fst_result [OF h]] h show ?thesis by blast
qed

theorem CanAccessTeam_sound_witness:
  "fst (CanAccessTeam ''u2'' (Some ''t1'') ''apps.deploy'' fx_db) = Inr True \<and>
   (\<exists>u. find_user fx_db ''u2'' = Some u \<and>
      True = (allowed fx_db u ''apps.deploy'' \<or>
        (case Some ''t1'' of None \<Rightarrow> False
         | Some tid \<Rightarrow> trim_space tid \<noteq> [] \<and> team_allowed fx_db u (trim_space tid) ''apps.deploy'')))"
proof -
  have h: "fst (CanAccessTeam ''u2'' (Some ''t1'') ''apps.deploy'' fx_db) = Inr True" by code_simp
  from CanAccessTeam_sound [OF fst_result [OF h]] h show ?thesis by blast
qed

theorem HasPermission_total_witness:
  "perms_ok fx_db \<and> (\<exists>u. find_user fx_db ''u2'' = Some u \<and>
     fst (HasPermission ''u2'' ''apps.view'' fx_db) = Inr (allowed fx_db u ''apps.view''))"
proof -
  have u: "find_user fx_db ''u2'' = Some (fx_user ''u2'' ''b@x.io'' ''active'' None)" by code_simp
  from HasPermission_total [OF u fx_perms, of "''apps.view''"] u fx_perms show ?thesis by simp
qed

theorem DeleteRole_only_unused_witness:
  "fst (DeleteRole ''r3'' fx_db) = Inr () \<and>
   roles (snd (DeleteRole ''r3'' fx_db)) = filter (\<lambda>r. r_id r \<noteq> ''r3'') (roles fx_db)"
proof -
  have h: "fst (DeleteRole ''r3'' fx_db) = Inr ()" by code_simp
  from DeleteRole_only_unused [OF fst_result [OF h] fx_schema] h show ?thesis by blast
qed

theorem SetTeamMembers_roles_witness:
  "\<exists>tm w'. SetTeamMembers ''t1'' [\<lparr>tmi_TeamID = [], tmi_UserID = ''u1'', tmi_RoleID = []\<rparr>] fx_db
       = (Inr tm, w') \<and>
     list_all (\<lambda>m. \<exists>r \<in> set (roles w'). tm_role_id m = Some (r_id r) \<and>
          normaliseScope (r_scope r) \<in> {RoleScopeBoth, RoleScopeTeam})
       (filter (\<lambda>m. tm_team_id m = ''t1'') (team_members w'))"
proof -
  have "\<not> isl (fst (SetTeamMembers ''t1''
      [\<lparr>tmi_TeamID = [], tmi_UserID = ''u1'', tmi_RoleID = []\<rparr>] fx_db))"
    by code_simp
  then obtain tm w' where
    "SetTeamMembers ''t1'' [\<lparr>tmi_TeamID = [], tmi_UserID = ''u1'', tmi_RoleID = []\<rparr>] fx_db = (Inr tm, w')"
    by (metis prod.collapse sum.collapse(2))
  moreover from SetTeamMembers_roles [OF this] have "list_all (\<lambda>m. \<exists>r \<in> set (roles w').
       tm_role_id m = Some (r_id r) \<and> normaliseScope (r_scope r) \<in> {RoleScopeBoth, RoleScopeTeam})
       (filter (\<lambda>m. tm_team_id m = ''t1'') (team_members w'))"
    unfolding list_all_iff set_filter by blast
  ultimately show ?thesis by blast
qed

theorem uniqueSlug_fresh_witness:
  "\<exists>s w'. uniqueSlug (\<lambda>w. map r_slug (roles w)) (slugify ''ops'') fx_db = (Inr s, w') \<and>
     (s \<notin> set (map r_slug (roles fx_db)) \<and> (\<exists>j<1000. s = slug_candidate (slugify ''ops'') j) \<or>
      list_all (\<lambda>j. slug_candidate (slugify ''ops'') j \<in> set (map r_slug (roles fx_db))) [0..<1000])"
proof -
  have h: "fst (uniqueSlug (\<lambda>w. map r_slug (roles w)) (slugify ''ops'') fx_db) = Inr ''ops-2''"
    by code_simp
  have "list_all P [0..<1000] \<longleftrightarrow> (\<forall>j<1000. P j)" for P by (auto simp: list_all_iff)
  moreover have "\<not> o_fault (orc fx_db) n" for n by (simp add: fx_defs)
  note uniqueSlug_fresh [OF fst_result [OF h] this]
  ultimately show ?thesis using fst_result [OF h] by blast
qed

theorem EnsureDefaults_seeds_witness:
  "fst (EnsureDefaults fx_db) = Inr () \<and>
   list_all (seeded (snd (EnsureDefaults fx_db))) defaultRoles"
proof -
  have h: "fst (EnsureDefaults fx_db) = Inr ()" by code_simp
  from EnsureDefaults_seeds [OF fst_result [OF h]] h show ?thesis by (simp add: list_all_iff)
qed

end
