(* ===== verification/Tokens.thy ===== *)
theory Tokens
  imports Password Database
begin

text \<open>
  Sessions (\<open>internal/auth\<close>): access tokens (\<open>jwt.go\<close>), refresh tokens and their rotation in families
  (\<open>refresh.go\<close>), and the password change (\<open>password_change.go\<close>). SHA-256 is the parameter \<open>sha\<close>; the
  JWT library is the pair \<open>sign\<close> (the compact serialisation of claims under an HMAC key, for HS256)
  and \<open>parse\<close> (verification with a key function, at the time of the call).
\<close>

section \<open>Access tokens\<close>

datatype claim_value = ClaimString string | ClaimNumber int | ClaimOther

type_synonym claims = "(string \<times> claim_value) list"

record jwt_token =
  tok_Valid :: bool
  tok_Claims :: "claims option"

type_synonym jwt_sign = "string \<Rightarrow> claims \<Rightarrow> err + string"
type_synonym jwt_parse = "string \<Rightarrow> (string \<Rightarrow> err + string) \<Rightarrow> int \<Rightarrow> err + jwt_token"

definition AccessTokenTTL :: int where
  "AccessTokenTTL = 15 * 60 * second"

definition JWTIssuer :: string where
  "JWTIssuer = ''prexel''"

definition ErrWrongIssuer :: err where
  "ErrWrongIssuer = ErrNew ''auth: wrong jwt issuer''"

definition access_claims :: "string \<Rightarrow> int \<Rightarrow> claims" where
  "access_claims userID now =
     [(''sub'', ClaimString userID), (''iss'', ClaimString JWTIssuer), (''iat'', ClaimNumber (unix now)),
      (''exp'', ClaimNumber (unix (now + AccessTokenTTL)))]"

definition IssueAccessToken :: "jwt_sign \<Rightarrow> string \<Rightarrow> string \<Rightarrow> ('x, string \<times> int) go" where
  "IssueAccessToken sign secret userID =
     (if length secret < 32 then fail (ErrNew ''auth: jwt secret too short'')
      else
        bnd time_now (\<lambda>now.
        bnd (wrapping ''sign'' (lift_res (sign secret (access_claims userID now)))) (\<lambda>signed.
        ret (signed, now + AccessTokenTTL))))"

text \<open>\<open>claims[key].(string)\<close>: the empty string when the claim is missing or not a string.\<close>

definition string_claim :: "claims \<Rightarrow> string \<Rightarrow> string" where
  "string_claim cs k = (case map_of cs k of Some (ClaimString s) \<Rightarrow> s | _ \<Rightarrow> [])"

definition hs256_key :: "string \<Rightarrow> string \<Rightarrow> err + string" where
  "hs256_key secret alg =
     (if alg \<noteq> ''HS256'' then Inl (ErrNew ''signature is invalid'') else Inr secret)"

definition ParseAccessToken :: "jwt_parse \<Rightarrow> string \<Rightarrow> string \<Rightarrow> ('x, string) go" where
  "ParseAccessToken parse secret raw =
     bnd time_now (\<lambda>now.
     case parse raw (hs256_key secret) now of
       Inl e \<Rightarrow> fail (ErrNew ''auth: invalid token'')
     | Inr tok \<Rightarrow>
         (if \<not> tok_Valid tok then fail (ErrNew ''auth: invalid token'')
          else case tok_Claims tok of
              None \<Rightarrow> fail (ErrNew ''auth: invalid claims'')
            | Some claims \<Rightarrow>
                (if string_claim claims ''iss'' \<noteq> JWTIssuer then fail ErrWrongIssuer
                 else if string_claim claims ''sub'' = [] then fail (ErrNew ''auth: missing sub claim'')
                 else ret (string_claim claims ''sub''))))"

section \<open>Refresh tokens\<close>

definition RefreshTokenTTL :: int where
  "RefreshTokenTTL = 7 * 24 * 60 * 60 * second"

definition ErrTokenReuse :: err where
  "ErrTokenReuse = ErrNew ''auth: refresh token reuse detected''"

definition ErrInvalidRefreshToken :: err where
  "ErrInvalidRefreshToken = ErrNew ''auth: invalid refresh token''"

type_synonym sha256 = "string \<Rightarrow> nat list"

definition generateRawToken :: "('x, string) go" where
  "generateRawToken =
     bnd (wrapping ''rand'' (rand_read 32)) (\<lambda>buf. ret (base64_encode base64_url [] buf))"

definition HashToken :: "sha256 \<Rightarrow> string \<Rightarrow> string" where
  "HashToken sha raw = hex_encode (sha raw)"

definition new_token :: "string \<Rightarrow> string \<Rightarrow> string \<Rightarrow> string \<Rightarrow> int \<Rightarrow> refresh_token" where
  "new_token i userID family hash exp =
     \<lparr>rt_id = i, rt_user_id = userID, rt_family_id = family, rt_token_hash = hash,
      rt_revoked_at = None, rt_expires_at = unix exp\<rparr>"

definition IssueRefreshTokenInFamily :: "sha256 \<Rightarrow> string \<Rightarrow> ('x, string \<times> string \<times> int) dbm" where
  "IssueRefreshTokenInFamily sha userID =
     bnd generateRawToken (\<lambda>raw.
     bnd new_uuid (\<lambda>family.
     bnd new_uuid (\<lambda>i.
     bnd time_now (\<lambda>now.
     let exp = now + RefreshTokenTTL in
     bnd (wrapping ''insert refresh''
            (db_exec (insert_refresh_token (new_token i userID family (HashToken sha raw) exp)))) (\<lambda>_.
     ret (raw, family, exp))))))"

definition issueInFamily :: "sha256 \<Rightarrow> string \<Rightarrow> string \<Rightarrow> ('x, string \<times> int) dbm" where
  "issueInFamily sha userID familyID =
     bnd generateRawToken (\<lambda>raw.
     bnd new_uuid (\<lambda>i.
     bnd time_now (\<lambda>now.
     let exp = now + RefreshTokenTTL in
     bnd (wrapping ''insert refresh''
            (db_exec (insert_refresh_token (new_token i userID familyID (HashToken sha raw) exp)))) (\<lambda>_.
     ret (raw, exp)))))"

definition revoke_at :: "int \<Rightarrow> refresh_token \<Rightarrow> refresh_token" where
  "revoke_at now t = t\<lparr>rt_revoked_at := Some now\<rparr>"

text \<open>
  The body of the transaction of \<open>RotateRefreshToken\<close>: \<open>None\<close> is the branch that commits the
  revocation of the family and then reports the reuse.
\<close>

definition load_refresh :: "string \<Rightarrow> ('x, refresh_token) dbm" where
  "load_refresh hash =
     bnd (attempt (db_query_row (\<lambda>w. find (\<lambda>t. rt_token_hash t = hash) (refresh_tokens w)))) (\<lambda>r.
     case r of
       Inl e \<Rightarrow> (if errors_is e (ErrSql NoRows) then fail ErrInvalidRefreshToken
                  else fail (ErrWrap ''select refresh'' e))
     | Inr t \<Rightarrow> ret t)"

definition revoke_family :: "string \<Rightarrow> int \<Rightarrow> ('x, nat) dbm" where
  "revoke_family familyID now =
     wrapping ''revoke family''
       (db_exec (update_refresh_tokens (\<lambda>x. rt_family_id x = familyID \<and> rt_revoked_at x = None)
                   (revoke_at now)))"

definition replace_token ::
  "sha256 \<Rightarrow> jwt_sign \<Rightarrow> string \<Rightarrow> refresh_token \<Rightarrow> int \<Rightarrow> ('x, string \<times> string \<times> int) dbm" where
  "replace_token sha sign jwtSecret t now =
     bnd (wrapping ''revoke current''
            (db_exec (update_refresh_tokens (\<lambda>x. rt_id x = rt_id t) (revoke_at now)))) (\<lambda>_.
     bnd generateRawToken (\<lambda>newRaw.
     bnd new_uuid (\<lambda>newID.
     bnd time_now (\<lambda>now2.
     let exp = now2 + RefreshTokenTTL in
     bnd (wrapping ''insert new refresh''
            (db_exec (insert_refresh_token
               (new_token newID (rt_user_id t) (rt_family_id t) (HashToken sha newRaw) exp)))) (\<lambda>_.
     bnd (IssueAccessToken sign jwtSecret (rt_user_id t)) (\<lambda>access.
     ret (newRaw, fst access, exp)))))))"

definition rotate_body ::
  "sha256 \<Rightarrow> jwt_sign \<Rightarrow> string \<Rightarrow> string \<Rightarrow> ('x, (string \<times> string \<times> int) option) dbm" where
  "rotate_body sha sign jwtSecret hash =
     bnd (load_refresh hash) (\<lambda>t.
     bnd time_now (\<lambda>now.
     if rt_expires_at t < unix now then fail ErrInvalidRefreshToken
     else if rt_revoked_at t \<noteq> None
     then bnd (revoke_family (rt_family_id t) (unix now)) (\<lambda>_. ret None)
     else bnd (replace_token sha sign jwtSecret t (unix now)) (\<lambda>x. ret (Some x))))"

definition RotateRefreshToken ::
  "sha256 \<Rightarrow> jwt_sign \<Rightarrow> string \<Rightarrow> string \<Rightarrow> ('x, string \<times> string \<times> int) dbm" where
  "RotateRefreshToken sha sign jwtSecret raw =
     (if raw = [] then fail ErrInvalidRefreshToken
      else
        bnd (transaction_as (ErrWrap ''begin'') (ErrWrap ''commit'')
               (rotate_body sha sign jwtSecret (HashToken sha raw))) (\<lambda>r.
        case r of None \<Rightarrow> fail ErrTokenReuse | Some x \<Rightarrow> ret x))"

definition RevokeRefreshToken :: "sha256 \<Rightarrow> string \<Rightarrow> ('x, unit) dbm" where
  "RevokeRefreshToken sha raw =
     (if raw = [] then ret ()
      else
        bnd time_now (\<lambda>now.
        bnd (db_exec (update_refresh_tokens
               (\<lambda>t. rt_token_hash t = HashToken sha raw \<and> rt_revoked_at t = None)
               (revoke_at (unix now)))) (\<lambda>_.
        ret ())))"

section \<open>Changing a password\<close>

definition ErrUserNotFound :: err where
  "ErrUserNotFound = ErrNew ''auth: user not found''"

definition change_body :: "string \<Rightarrow> string \<Rightarrow> ('x, unit) dbm" where
  "change_body userID hash =
     bnd (wrapping ''update user''
            (db_exec (update_users (\<lambda>u. u_id u = userID) (\<lambda>u. u\<lparr>u_password_hash := hash\<rparr>)))) (\<lambda>n.
     if n = 0 then fail ErrUserNotFound
     else
       bnd time_now (\<lambda>now.
       bnd (wrapping ''revoke refresh tokens''
              (db_exec (update_refresh_tokens (\<lambda>t. rt_user_id t = userID \<and> rt_revoked_at t = None)
                          (revoke_at (unix now))))) (\<lambda>_.
       ret ())))"

definition ChangePassword :: "bcrypt_gen \<Rightarrow> string \<Rightarrow> string \<Rightarrow> ('x, unit) dbm" where
  "ChangePassword gen userID newPlain =
     bnd (HashPassword gen newPlain) (\<lambda>hash.
     transaction_as (ErrWrap ''begin'') (ErrWrap ''commit'') (change_body userID hash))"

end
