(* ===== verification/Tokens_Props.thy ===== *)
theory Tokens_Props
  imports Tokens Rbac_Props Fixtures
begin

text \<open>
  What sessions guarantee: the refresh-token calls refine a small abstract machine on token families
  (\<open>token_step\<close>), whose invariants give the properties of rotation, reuse detection, logout and
  password change.
\<close>

section \<open>The calls one by one\<close>

lemma generateRawToken_read: "moves only_step generateRawToken"
  unfolding generateRawToken_def by (intro rd.frame_rules)

lemma IssueAccessToken_read: "moves only_step (IssueAccessToken sign secret u)"
  unfolding IssueAccessToken_def by (intro rd.frame_rules moves_intro)

lemma load_refresh_read: "moves only_step (load_refresh h)"
  unfolding load_refresh_def by (intro rd.frame_rules moves_intro)

lemma load_refresh_Inr:
  "load_refresh h w = (Inr t, w') \<longleftrightarrow>
     \<not> o_fault (orc w) (stp w) \<and> find (\<lambda>t. rt_token_hash t = h) (refresh_tokens w) = Some t \<and> w' = tick w"
  by (auto simp: load_refresh_def bnd_def attempt_run db_query_row_def db_query_def go_simps
      split: option.splits if_splits)

lemma no_reuse_error:
  "raises (\<lambda>e. e \<noteq> ErrTokenReuse) (rotate_body sha sign secret h)"
  unfolding rotate_body_def load_refresh_def revoke_family_def replace_token_def generateRawToken_def
    IssueAccessToken_def
  by (intro raises_intro) (simp_all add: ErrTokenReuse_def ErrInvalidRefreshToken_def)

text \<open>What the rows become when a rotation goes through.\<close>

definition rotated :: "refresh_token \<Rightarrow> int \<Rightarrow> refresh_token \<Rightarrow> refresh_token list \<Rightarrow> refresh_token list" where
  "rotated t now new ts = update_where (\<lambda>x. rt_id x = rt_id t) (revoke_at now) ts @ [new]"

lemma replace_token_Inr:
  assumes "replace_token sha sign secret t now w = (Inr (raw, acc, exp), w')"
  shows "\<exists>i n. w' = w\<lparr>refresh_tokens := rotated t now
     (new_token i (rt_user_id t) (rt_family_id t) (HashToken sha raw) exp) (refresh_tokens w), stp := n\<rparr>"
proof -
  from assms obtain k w1 r w2 w3 a where
    up: "update_refresh_tokens (\<lambda>x. rt_id x = rt_id t) (revoke_at now) w = Inr (k, w1)"
    and gen: "generateRawToken (tick w1) = (Inr raw, w2)"
    and ins: "insert_refresh_token (new_token (o_uuid (orc w2) (stp w2)) (rt_user_id t) (rt_family_id t)
        (HashToken sha raw) exp) (tick (tick w2)) = Inr (r, w3)"
    and acc: "IssueAccessToken sign secret (rt_user_id t) (tick w3) = (Inr a, w')"
    by (auto simp: replace_token_def run_iffs Let_def go_simps)
  obtain n2 where "w2 = (tick w1)\<lparr>stp := n2\<rparr>" by (rule only_stepE [OF generateRawToken_read gen])
  moreover obtain n3 where "w' = (tick w3)\<lparr>stp := n3\<rparr>"
    by (rule only_stepE [OF IssueAccessToken_read acc])
  ultimately show ?thesis
    using up ins
    by (auto simp: update_refresh_tokens_def insert_refresh_token_def checked_Inr_iff tick_def rotated_def)
qed

lemma RotateRefreshToken_Inr:
  assumes "RotateRefreshToken sha sign secret raw w = (Inr (newRaw, acc, exp), w')"
  shows "\<exists>t now i n. find (\<lambda>t. rt_token_hash t = HashToken sha raw) (refresh_tokens w) = Some t \<and>
     rt_revoked_at t = None \<and> now \<le> rt_expires_at t \<and>
     w' = w\<lparr>refresh_tokens := rotated t now
       (new_token i (rt_user_id t) (rt_family_id t) (HashToken sha newRaw) exp) (refresh_tokens w),
       stp := n\<rparr>"
proof -
  from assms obtain v where
    body: "rotate_body sha sign secret (HashToken sha raw) (tick w) = (Inr (Some (newRaw, acc, exp)), v)"
    and w': "w' = tick v"
    by (auto simp: RotateRefreshToken_def bnd_eq_Inr_iff transaction_eq_Inr_iff go_simps
        split: if_splits option.splits)
  from body obtain t where t: "find (\<lambda>t. rt_token_hash t = HashToken sha raw) (refresh_tokens w) = Some t"
    "rt_revoked_at t = None" "\<not> rt_expires_at t < unix (o_now (orc w) (Suc (Suc (stp w))))"
    and rep: "replace_token sha sign secret t (unix (o_now (orc w) (Suc (Suc (stp w)))))
       (tick (tick (tick w))) = (Inr (newRaw, acc, exp), v)"
    by (auto simp: rotate_body_def bnd_eq_Inr_iff load_refresh_Inr time_now_eq_Inr_iff go_simps
        split: if_splits)
  from replace_token_Inr [OF rep] obtain i n where
    "v = (tick (tick (tick w)))\<lparr>refresh_tokens := rotated t (unix (o_now (orc w) (Suc (Suc (stp w)))))
       (new_token i (rt_user_id t) (rt_family_id t) (HashToken sha newRaw) exp) (refresh_tokens w), stp := n\<rparr>"
    by auto
  with t w' show ?thesis
    by (intro exI [of _ t] exI [of _ "unix (o_now (orc w) (Suc (Suc (stp w))))"] exI [of _ i]
        exI [of _ "Suc n"]) (simp add: tick_def)
qed

lemma RotateRefreshToken_reuse:
  assumes "RotateRefreshToken sha sign secret raw w = (Inl ErrTokenReuse, w')"
  shows "\<exists>t now n. find (\<lambda>t. rt_token_hash t = HashToken sha raw) (refresh_tokens w) = Some t \<and>
     rt_revoked_at t \<noteq> None \<and>
     w' = w\<lparr>refresh_tokens := update_where (\<lambda>x. rt_family_id x = rt_family_id t \<and> rt_revoked_at x = None)
       (revoke_at now) (refresh_tokens w), stp := n\<rparr>"
proof -
  let ?tx = "transaction_as (ErrWrap ''begin'') (ErrWrap ''commit'')
               (rotate_body sha sign secret (HashToken sha raw))"
  have "raises (\<lambda>e. e \<noteq> ErrTokenReuse) ?tx"
    by (intro raises_transaction no_reuse_error) (simp_all add: ErrTokenReuse_def)
  then have "?tx w \<noteq> (Inl ErrTokenReuse, w')" by (auto dest: raisesD)
  with assms obtain v where
    body: "rotate_body sha sign secret (HashToken sha raw) (tick w) = (Inr None, v)" and w': "w' = tick v"
    by (auto simp: RotateRefreshToken_def bnd_eq_Inl_iff transaction_eq_Inr_iff go_simps
        ErrTokenReuse_def ErrInvalidRefreshToken_def split: if_splits option.splits)
      (metis option.exhaust prod_cases3)
  then show ?thesis
    by (auto simp: rotate_body_def revoke_family_def run_iffs load_refresh_Inr go_simps
        update_refresh_tokens_def checked_Inr_iff tick_def split: if_splits intro!: exI)
qed

lemma RotateRefreshToken_error:
  assumes "RotateRefreshToken sha sign secret raw w = (Inl e, w')" and "e \<noteq> ErrTokenReuse"
  shows "\<exists>n. w' = w\<lparr>stp := n\<rparr>"
  using assms
  by (auto simp: RotateRefreshToken_def bnd_eq_Inl_iff go_simps dest: transaction_atomic
      split: if_splits option.splits intro!: exI [of _ "stp w'"])

section \<open>The rows as an abstract machine\<close>

text \<open>
  What the calls of the program can do to the refresh tokens: drop rows (a user is deleted), revoke
  rows, replace a live row by a new one of the same family, or open a family that was never used.
  The first component of the state is the set of family identifiers drawn so far; an identifier may be
  drawn and not used.
\<close>

inductive token_step ::
  "string set \<times> refresh_token list \<Rightarrow> string set \<times> refresh_token list \<Rightarrow> bool" where
  step_shrink: "U \<subseteq> V \<Longrightarrow> token_step (U, ts) (V, filter P ts)"
| step_revoke: "token_step (U, ts) (U, update_where p (revoke_at n) ts)"
| step_rotate: "t \<in> set ts \<Longrightarrow> rt_revoked_at t = None \<Longrightarrow>
    token_step (U, ts) (U, rotated t n (new_token i u (rt_family_id t) h x) ts)"
| step_issue: "f \<notin> U \<Longrightarrow> token_step (U, ts) (insert f U, ts @ [new_token i u f h x])"

inductive_cases token_stepE: "token_step s s'"

definition live :: "string \<Rightarrow> refresh_token list \<Rightarrow> refresh_token list" where
  "live f ts = filter (\<lambda>t. rt_family_id t = f \<and> rt_revoked_at t = None) ts"

definition one_live :: "string set \<times> refresh_token list \<Rightarrow> bool" where
  "one_live s \<longleftrightarrow>
     rt_family_id ` set (snd s) \<subseteq> fst s \<and> (\<forall>f. length (live f (snd s)) \<le> 1)"

definition family_dead :: "string \<Rightarrow> string set \<times> refresh_token list \<Rightarrow> bool" where
  "family_dead f s \<longleftrightarrow> f \<in> fst s \<and> live f (snd s) = []"

lemma new_token_simps [simp]:
  "rt_family_id (new_token i u f h x) = f" "rt_revoked_at (new_token i u f h x) = None"
  "rt_user_id (new_token i u f h x) = u" "rt_token_hash (new_token i u f h x) = h"
  by (simp_all add: new_token_def)

lemma live_filter: "length (live f (filter P ts)) \<le> length (live f ts)"
  unfolding live_def by (induction ts) auto

lemma live_append: "live f (ts @ us) = live f ts @ live f us"
  by (simp add: live_def)

lemma live_revoke: "live f (update_where p (revoke_at n) ts) = filter (\<lambda>t. \<not> p t) (live f ts)"
  by (induction ts) (auto simp: live_def update_where_def revoke_at_def)

lemma live_Nil_revoke: "live f ts = [] \<Longrightarrow> live f (update_where p (revoke_at n) ts) = []"
  by (simp add: live_revoke)

lemma live_new: "live f [new_token i u g h x] = (if g = f then [new_token i u g h x] else [])"
  by (auto simp: live_def new_token_def)

lemma live_rotated:
  "live f (rotated t n (new_token i u g h x) ts) =
     filter (\<lambda>y. rt_id y \<noteq> rt_id t) (live f ts) @ (if g = f then [new_token i u g h x] else [])"
  by (simp add: rotated_def live_append live_revoke live_new)

lemma families_revoke: "rt_family_id ` set (update_where p (revoke_at n) ts) = rt_family_id ` set ts"
proof -
  have "map rt_family_id (update_where p (revoke_at n) ts) = map rt_family_id ts"
    by (rule map_update_where) (simp add: revoke_at_def)
  then show ?thesis by (metis list.set_map)
qed

lemma families_rotated:
  "t \<in> set ts \<Longrightarrow> rt_family_id ` set (rotated t n (new_token i u (rt_family_id t) h x) ts)
     = rt_family_id ` set ts"
  by (auto simp: rotated_def image_Un families_revoke new_token_def)

lemma token_step_one_live: "token_step s s' \<Longrightarrow> one_live s \<Longrightarrow> one_live s'"
proof (induction rule: token_step.induct)
  case (step_shrink U V ts P)
  then show ?case
    using live_filter [of _ P ts] by (auto simp: one_live_def) (meson order_trans le_SucI)
next
  case (step_revoke U ts p n)
  then show ?case
    by (auto simp: one_live_def live_revoke families_revoke) (meson length_filter_le order_trans)
next
  case (step_rotate t ts U n i u h x)
  let ?f = "rt_family_id t"
  have "t \<in> set (live ?f ts)" using step_rotate.hyps by (simp add: live_def)
  moreover have "length (live ?f ts) \<le> 1" using step_rotate.prems by (simp add: one_live_def)
  ultimately have "live ?f ts = [t]" by (cases "live ?f ts") auto
  moreover have "length (filter P (live g ts)) \<le> 1" for g P
    using step_rotate.prems length_filter_le [of P "live g ts"] order_trans
    unfolding one_live_def snd_conv by blast
  ultimately show ?case
    using step_rotate by (auto simp: one_live_def families_rotated live_rotated)
next
  case (step_issue f U ts i u h x)
  then have "live f ts = []"
    by (auto simp: one_live_def live_def filter_empty_conv)
  with step_issue show ?case
    by (auto simp: one_live_def live_append live_new)
qed

lemma token_step_dead: "token_step s s' \<Longrightarrow> family_dead f s \<Longrightarrow> family_dead f s'"
proof (induction rule: token_step.induct)
  case (step_rotate t ts U n i u h x)
  then have "rt_family_id t \<noteq> f" by (auto simp: family_dead_def live_def filter_empty_conv)
  with step_rotate show ?case by (auto simp: family_dead_def live_rotated)
next
  case (step_shrink U V ts P)
  then show ?case by (auto simp: family_dead_def live_def filter_empty_conv)
qed (auto simp: family_dead_def live_append live_new live_revoke)

section \<open>The program refines it\<close>

text \<open>Requests to the access-control service drop refresh tokens at most.\<close>

definition tokens_shrink :: "'x db_scheme \<Rightarrow> 'x db_scheme \<Rightarrow> bool" where
  "tokens_shrink w w' \<longleftrightarrow> (\<exists>P. refresh_tokens w' = filter P (refresh_tokens w))"

lemma tokens_shrinkI: "refresh_tokens w' = refresh_tokens w \<Longrightarrow> tokens_shrink w w'"
  unfolding tokens_shrink_def by (rule exI [of _ "\<lambda>_. True"]) simp

interpretation toks: request_frame tokens_shrink
proof unfold_locales
  show "tokens_shrink u w" if "tokens_shrink u v" "tokens_shrink v w" for u v w :: "'x db_scheme"
    using that by (auto simp: tokens_shrink_def filter_filter)
  show "tokens_shrink w w'" if "delete_users p w = Inr (n, w')" for p n and w w' :: "'x db_scheme"
    using that by (auto simp: delete_users_def checked_Inr_iff tokens_shrink_def Let_def)
qed (auto simp: statement_defs checked_Inr_iff Let_def intro!: tokens_shrinkI)

lemma role_requests_tokens:
  "moves tokens_shrink (CreateRole cri)" "moves tokens_shrink (UpdateRole i uri)"
  "moves tokens_shrink (DeleteRole i)"
  unfolding CreateRole_def UpdateRole_def DeleteRole_def
  by (intro toks.request_rules toks.reads toks.frame_exec;
      auto simp: statement_defs checked_Inr_iff intro!: tokens_shrinkI)+

lemma rbac_call_tokens: "rbac_call uc gen w w' \<Longrightarrow> tokens_shrink w w'"
  by (induction rule: rbac_call.induct) (auto intro!: moves_snd toks.other_moves role_requests_tokens)

text \<open>
  The calls that reach the table, in any order; a new session opens a family with a fresh identifier
  (the second draw of \<open>IssueRefreshTokenInFamily\<close>).
\<close>

inductive session_call ::
  "sha256 \<Rightarrow> jwt_sign \<Rightarrow> string \<Rightarrow> (nat \<Rightarrow> rune_class) \<Rightarrow> bcrypt_gen \<Rightarrow>
     string set \<times> 'x db_scheme \<Rightarrow> string set \<times> 'x db_scheme \<Rightarrow> bool"
  for sha sign secret uc gen where
  call_Issue: "f = o_uuid (orc w) (Suc (stp w)) \<Longrightarrow> f \<notin> U \<Longrightarrow>
     session_call sha sign secret uc gen (U, w) (insert f U, snd (IssueRefreshTokenInFamily sha u w))"
| call_Rotate:
    "session_call sha sign secret uc gen (U, w) (U, snd (RotateRefreshToken sha sign secret raw w))"
| call_Revoke: "session_call sha sign secret uc gen (U, w) (U, snd (RevokeRefreshToken sha raw w))"
| call_Change: "session_call sha sign secret uc gen (U, w) (U, snd (ChangePassword gen u pw w))"
| call_Rbac: "rbac_call uc gen w w' \<Longrightarrow> session_call sha sign secret uc gen (U, w) (U, w')"

lemma IssueRefreshTokenInFamily_rows:
  "refresh_tokens (snd (IssueRefreshTokenInFamily sha u w)) = refresh_tokens w \<or>
   (\<exists>i h x. refresh_tokens (snd (IssueRefreshTokenInFamily sha u w)) =
      refresh_tokens w @ [new_token i u (o_uuid (orc w) (Suc (stp w))) h x])"
  by (auto simp: IssueRefreshTokenInFamily_def generateRawToken_def bnd_def wrapping_def rand_read_def
      new_uuid_def time_now_def db_exec_def insert_refresh_token_def Let_def go_simps tick_def
      checked_def split: option.splits sum.splits prod.splits if_splits)

lemma step_stay: "U \<subseteq> V \<Longrightarrow> token_step (U, ts) (V, ts)"
  using step_shrink [of U V ts "\<lambda>_. True"] by simp

lemma RotateRefreshToken_step:
  "token_step (U, refresh_tokens w)
     (U, refresh_tokens (snd (RotateRefreshToken sha sign secret raw w)))"
proof (cases "RotateRefreshToken sha sign secret raw w")
  case (Pair r w')
  show ?thesis
  proof (cases r)
    case (Inr y)
    obtain nr acc x where "y = (nr, acc, x)" by (cases y)
    with Pair Inr RotateRefreshToken_Inr [of sha sign secret raw w nr acc x w'] show ?thesis
      by (auto dest!: find_SomeD intro!: step_rotate)
  next
    case (Inl e)
    show ?thesis
    proof (cases "e = ErrTokenReuse")
      case True
      with Pair Inl RotateRefreshToken_reuse [of sha sign secret raw w w'] show ?thesis
        by (auto intro!: step_revoke)
    next
      case False
      with Pair Inl RotateRefreshToken_error [of sha sign secret raw w e w'] show ?thesis
        by (auto intro!: step_stay)
    qed
  qed
qed

lemma RevokeRefreshToken_rows:
  "refresh_tokens (snd (RevokeRefreshToken sha raw w)) = refresh_tokens w \<or>
   (\<exists>n. refresh_tokens (snd (RevokeRefreshToken sha raw w)) = update_where
      (\<lambda>t. rt_token_hash t = HashToken sha raw \<and> rt_revoked_at t = None) (revoke_at n) (refresh_tokens w))"
  by (auto simp: RevokeRefreshToken_def bnd_def time_now_def db_exec_def update_refresh_tokens_def
      go_simps tick_def checked_def split: sum.splits prod.splits if_splits)

lemma change_body_Inr:
  "change_body u hash w = (Inr (), w') \<Longrightarrow>
     \<exists>now n. (\<exists>x \<in> set (users w). u_id x = u) \<and>
     w' = w\<lparr>users := update_where (\<lambda>x. u_id x = u) (\<lambda>x. x\<lparr>u_password_hash := hash\<rparr>) (users w),
       refresh_tokens := update_where (\<lambda>t. rt_user_id t = u \<and> rt_revoked_at t = None) (revoke_at now)
         (refresh_tokens w), stp := n\<rparr>"
  by (auto simp: change_body_def run_iffs go_simps update_users_def update_refresh_tokens_def
      checked_Inr_iff tick_def affected_def filter_empty_conv split: if_splits intro!: exI)

lemma ChangePassword_cases:
  obtains (changed) hash now n where "gen pw BcryptCost (stp w) = Inr hash" "pw \<noteq> []"
      "fst (ChangePassword gen u pw w) = Inr ()" "\<exists>x \<in> set (users w). u_id x = u"
      "snd (ChangePassword gen u pw w) = w\<lparr>users := update_where (\<lambda>x. u_id x = u)
         (\<lambda>x. x\<lparr>u_password_hash := hash\<rparr>) (users w), refresh_tokens := update_where
         (\<lambda>t. rt_user_id t = u \<and> rt_revoked_at t = None) (revoke_at now) (refresh_tokens w), stp := n\<rparr>"
  | (refused) e n where "ChangePassword gen u pw w = (Inl e, w\<lparr>stp := n\<rparr>)"
proof (cases "ChangePassword gen u pw w")
  case (Pair r w')
  show thesis
  proof (cases r)
    case (Inl e)
    from Pair [unfolded Inl] have "\<exists>n. w' = w\<lparr>stp := n\<rparr>"
      by (auto simp: ChangePassword_def HashPassword_def draw_def bnd_eq_Inl_iff go_simps tick_def
          dest: transaction_atomic split: if_splits intro!: exI [of _ "stp w'"])
    with Pair Inl refused show thesis by blast
  next
    case (Inr x)
    with Pair obtain hash v where h: "gen pw BcryptCost (stp w) = Inr hash" "pw \<noteq> []"
      and body: "change_body u hash (tick (tick w)) = (Inr (), v)" and w': "w' = tick v"
      by (auto simp: ChangePassword_def HashPassword_def draw_def bnd_eq_Inr_iff transaction_eq_Inr_iff go_simps
          split: if_splits)
    from change_body_Inr [OF body] h w' Pair Inr changed show thesis by (auto simp: tick_def)
  qed
qed

text \<open>Every call of the program is a step of the abstract machine.\<close>

lemma session_refines:
  "session_call sha sign secret uc gen s s' \<Longrightarrow>
     token_step (fst s, refresh_tokens (snd s)) (fst s', refresh_tokens (snd s'))"
proof (induction rule: session_call.induct)
  case (call_Issue f w U u)
  with IssueRefreshTokenInFamily_rows [of sha u w] show ?case
    by (auto intro!: step_issue) (metis step_stay subset_insertI)
next
  case (call_Revoke U w raw)
  with RevokeRefreshToken_rows [of sha raw w] show ?case by (auto intro!: step_revoke step_stay)
next
  case (call_Change U w u pw)
  then show ?case
    by (cases rule: ChangePassword_cases [of gen pw w u]) (auto intro!: step_revoke step_stay)
next
  case (call_Rbac w w' U)
  then show ?case by (auto simp: tokens_shrink_def dest!: rbac_call_tokens intro!: step_shrink)
qed (simp add: RotateRefreshToken_step)

definition token_state :: "string set \<times> 'x db_scheme \<Rightarrow> string set \<times> refresh_token list" where
  "token_state s = (fst s, refresh_tokens (snd s))"

lemma session_run_refines:
  "(session_call sha sign secret uc gen)\<^sup>*\<^sup>* s s' \<Longrightarrow> token_step\<^sup>*\<^sup>* (token_state s) (token_state s')"
  by (induction rule: rtranclp_induct)
    (auto simp: token_state_def dest!: session_refines intro: rtranclp.rtrancl_into_rtrancl)

lemma token_run_one_live: "token_step\<^sup>*\<^sup>* s s' \<Longrightarrow> one_live s \<Longrightarrow> one_live s'"
  by (induction rule: rtranclp_induct) (auto intro: token_step_one_live)

lemma token_run_dead: "token_step\<^sup>*\<^sup>* s s' \<Longrightarrow> family_dead f s \<Longrightarrow> family_dead f s'"
  by (induction rule: rtranclp_induct) (auto intro: token_step_dead)

lemma dead_no_rotation:
  assumes "family_dead (rt_family_id t) (U, refresh_tokens w)"
    and "find (\<lambda>t. rt_token_hash t = HashToken sha raw) (refresh_tokens w) = Some t"
  shows "\<nexists>x w'. RotateRefreshToken sha sign secret raw w = (Inr x, w')"
proof -
  from assms have "rt_revoked_at t \<noteq> None"
    by (auto simp: family_dead_def live_def filter_empty_conv dest: find_SomeD)
  then show ?thesis
    using assms(2) by (fastforce dest: RotateRefreshToken_Inr)
qed

text \<open>
  C30. Refresh tokens are used one at a time: over any sequence of logins, rotations, logouts, password
  changes and access-control requests, whatever fails, no token family ever has two tokens that are
  not revoked. (Family identifiers are drawn without repetition.)
\<close>

theorem one_live_token_per_family:
  assumes "(session_call sha sign secret uc gen)\<^sup>*\<^sup>* (U, w) (U', w')"
    and "rt_family_id ` set (refresh_tokens w) \<subseteq> U"
    and "\<And>f. length (live f (refresh_tokens w)) \<le> 1"
  shows "length (live f (refresh_tokens w')) \<le> 1"
proof -
  have "one_live (token_state (U, w))" using assms(2,3) by (simp add: one_live_def token_state_def)
  from token_run_one_live [OF session_run_refines [OF assms(1)] this]
  show ?thesis by (simp add: one_live_def token_state_def)
qed

text \<open>
  C31. Presenting a token that was already rotated ends the session it belongs to for good: once a
  rotation reports reuse, no token of that family can be rotated any more, after any further calls.
\<close>

theorem reuse_ends_the_family:
  assumes "RotateRefreshToken sha sign secret raw w = (Inl ErrTokenReuse, w1)"
    and "find (\<lambda>t. rt_token_hash t = HashToken sha raw) (refresh_tokens w) = Some t"
    and "rt_family_id ` set (refresh_tokens w) \<subseteq> U"
    and "(session_call sha sign secret uc gen)\<^sup>*\<^sup>* (U, w1) (U2, w2)"
    and "find (\<lambda>t. rt_token_hash t = HashToken sha raw2) (refresh_tokens w2) = Some t2"
    and "rt_family_id t2 = rt_family_id t"
  shows "\<nexists>x w3. RotateRefreshToken sha sign secret raw2 w2 = (Inr x, w3)"
proof -
  have "family_dead (rt_family_id t) (token_state (U, w1))"
    using RotateRefreshToken_reuse [OF assms(1)] assms(2,3)
    by (auto simp: family_dead_def token_state_def live_revoke filter_empty_conv)
      (auto simp: live_def dest: find_SomeD)
  from token_run_dead [OF session_run_refines [OF assms(4)] this] assms(5,6)
  show ?thesis by (intro dead_no_rotation [of t2 U2]) (simp_all add: token_state_def)
qed

text \<open>
  C32. A rotation that goes through accepts only a known, unexpired and unrevoked token; it revokes
  that token and adds exactly one row, for the token it returns, with the same user and family; all
  other rows and tables stay. Any error other than reuse leaves every table as it was.
\<close>

theorem RotateRefreshToken_exact:
  "case RotateRefreshToken sha sign secret raw w of
     (Inr (newRaw, acc, exp), w') \<Rightarrow>
       (\<exists>t now i n. find (\<lambda>t. rt_token_hash t = HashToken sha raw) (refresh_tokens w) = Some t \<and>
         rt_revoked_at t = None \<and> now \<le> rt_expires_at t \<and>
         w' = w\<lparr>refresh_tokens := update_where (\<lambda>x. rt_id x = rt_id t) (revoke_at now) (refresh_tokens w) @
           [\<lparr>rt_id = i, rt_user_id = rt_user_id t, rt_family_id = rt_family_id t,
             rt_token_hash = HashToken sha newRaw, rt_revoked_at = None, rt_expires_at = unix exp\<rparr>],
           stp := n\<rparr>)
   | (Inl e, w') \<Rightarrow> e = ErrTokenReuse \<or> (\<exists>n. w' = w\<lparr>stp := n\<rparr>)"
  using RotateRefreshToken_Inr [of sha sign secret raw w] RotateRefreshToken_error [of sha sign secret raw w]
  by (auto simp: rotated_def new_token_def split: prod.split sum.split) blast

text \<open>
  A password change is all or nothing and ends every session of the user: when it returns, the
  stored hash is the one of the new password and no refresh token of that user is live; when it fails,
  nothing changed.
\<close>

theorem ChangePassword_ends_sessions:
  "case ChangePassword gen u pw w of
     (Inr _, w') \<Rightarrow>
       (\<exists>hash. gen pw BcryptCost (stp w) = Inr hash \<and>
          filter (\<lambda>x. u_id x = u) (users w') \<noteq> [] \<and>
          list_all (\<lambda>x. u_password_hash x = hash) (filter (\<lambda>x. u_id x = u) (users w'))) \<and>
       filter (\<lambda>t. rt_user_id t = u \<and> rt_revoked_at t = None) (refresh_tokens w') = []
   | (Inl e, w') \<Rightarrow> (\<exists>n. w' = w\<lparr>stp := n\<rparr>)"
proof (cases rule: ChangePassword_cases [of gen pw w u])
  case (changed hash now n)
  let ?users = "update_where (\<lambda>x. u_id x = u) (\<lambda>x. x\<lparr>u_password_hash := hash\<rparr>) (users w)"
  have "filter (\<lambda>x. u_id x = u) ?users =
      map (\<lambda>x. x\<lparr>u_password_hash := hash\<rparr>) (filter (\<lambda>x. u_id x = u) (users w))"
    by (rule filter_update_where) simp
  moreover have "filter (\<lambda>x. u_id x = u) (users w) \<noteq> []"
    using changed(4) by (auto simp: filter_empty_conv)
  ultimately have "filter (\<lambda>x. u_id x = u) ?users \<noteq> []"
    and "list_all (\<lambda>x. u_password_hash x = hash) (filter (\<lambda>x. u_id x = u) ?users)"
    by (simp_all add: list_all_iff)
  moreover have "filter (\<lambda>t. rt_user_id t = u \<and> rt_revoked_at t = None) (update_where
      (\<lambda>t. rt_user_id t = u \<and> rt_revoked_at t = None) (revoke_at now) (refresh_tokens w)) = []"
    by (rule filter_update_where_none) (simp add: revoke_at_def)
  ultimately show ?thesis using changed by (cases "ChangePassword gen u pw w") simp
qed auto

text \<open>
  A logout is final: after a refresh token was revoked, that token cannot be rotated.
\<close>

theorem revoked_token_is_dead:
  assumes "RevokeRefreshToken sha raw w = (Inr (), w')"
  shows "\<nexists>x w''. RotateRefreshToken sha sign secret raw w' = (Inr x, w'')"
proof
  assume "\<exists>x w''. RotateRefreshToken sha sign secret raw w' = (Inr x, w'')"
  then obtain nr acc exp w'' where r: "RotateRefreshToken sha sign secret raw w' = (Inr (nr, acc, exp), w'')"
    by (auto)
  then have "raw \<noteq> []" by (auto simp: RotateRefreshToken_def go_simps)
  with assms obtain now where
    "refresh_tokens w' = update_where (\<lambda>t. rt_token_hash t = HashToken sha raw \<and> rt_revoked_at t = None)
       (revoke_at now) (refresh_tokens w)"
    by (auto simp: RevokeRefreshToken_def run_iffs go_simps update_refresh_tokens_def checked_Inr_iff)
  moreover from RotateRefreshToken_Inr [OF r] obtain t where
    "t \<in> set (refresh_tokens w')" "rt_token_hash t = HashToken sha raw" "rt_revoked_at t = None"
    by (auto dest!: find_SomeD)
  ultimately show False by (auto simp: set_update_where revoke_at_def split: if_splits)
qed

section \<open>Access tokens\<close>

text \<open>
  An access token is accepted for user \<open>u\<close> exactly when the library verifies it under the HS256
  key, its issuer is this program, and its non-empty subject is \<open>u\<close>.
\<close>

theorem ParseAccessToken_iff:
  "fst (ParseAccessToken parse secret raw w) = Inr u \<longleftrightarrow>
     (\<exists>cs. parse raw (hs256_key secret) (o_now (orc w) (stp w)) =
         Inr \<lparr>tok_Valid = True, tok_Claims = Some cs\<rparr> \<and>
       string_claim cs ''iss'' = JWTIssuer \<and> string_claim cs ''sub'' = u \<and> u \<noteq> [])"
proof -
  have tok: "tok = \<lparr>tok_Valid = True, tok_Claims = Some cs\<rparr> \<longleftrightarrow>
      tok_Valid tok \<and> tok_Claims tok = Some cs" for tok :: jwt_token and cs
    by (cases tok) simp
  show ?thesis
    by (auto simp: ParseAccessToken_def bnd_def time_now_def go_simps tok
        split: sum.splits option.splits)
qed

section \<open>Witnesses\<close>

definition fx_sha :: sha256 where
  "fx_sha s = (if s = ''r0'' then [0] else if s = ''r1'' then [1] else [2])"

definition fx_sign :: jwt_sign where
  "fx_sign k cs = Inr ''jwt''"

definition fx_secret :: string where
  "fx_secret = replicate 32 (CHR ''k'')"

definition fx_sessions :: db where
  "fx_sessions = fx_db\<lparr>orc := quiet_env\<lparr>o_rand := \<lambda>_. Some []\<rparr>, refresh_tokens :=
     [\<lparr>rt_id = ''k0'', rt_user_id = ''u1'', rt_family_id = ''f1'', rt_token_hash = HashToken fx_sha ''r0'',
       rt_revoked_at = Some 900, rt_expires_at = 5000\<rparr>,
      \<lparr>rt_id = ''k1'', rt_user_id = ''u1'', rt_family_id = ''f1'', rt_token_hash = HashToken fx_sha ''r1'',
       rt_revoked_at = None, rt_expires_at = 5000\<rparr>]\<rparr>"

theorem one_live_token_per_family_witness:
  "length (live ''f1'' (refresh_tokens
     (snd (RotateRefreshToken fx_sha fx_sign fx_secret ''r1'' fx_sessions)))) \<le> 1"
proof -
  have run: "(session_call fx_sha fx_sign fx_secret (\<lambda>_. OtherRune) (\<lambda>p c n. Inr p))\<^sup>*\<^sup>* ({''f1''}, fx_sessions)
     ({''f1''}, snd (RotateRefreshToken fx_sha fx_sign fx_secret ''r1'' fx_sessions))"
    by (rule r_into_rtranclp) (rule call_Rotate)
  show ?thesis
    by (rule one_live_token_per_family [OF run]) (auto simp: fx_sessions_def live_def)
qed

theorem reuse_ends_the_family_witness:
  "fst (RotateRefreshToken fx_sha fx_sign fx_secret ''r0'' fx_sessions) = Inl ErrTokenReuse \<and>
   (\<nexists>x w3. RotateRefreshToken fx_sha fx_sign fx_secret ''r1''
     (snd (RotateRefreshToken fx_sha fx_sign fx_secret ''r0'' fx_sessions)) = (Inr x, w3))"
proof -
  let ?w1 = "snd (RotateRefreshToken fx_sha fx_sign fx_secret ''r0'' fx_sessions)"
  have h: "fst (RotateRefreshToken fx_sha fx_sign fx_secret ''r0'' fx_sessions) = Inl ErrTokenReuse"
    by code_simp
  have t: "map_option rt_family_id
      (find (\<lambda>t. rt_token_hash t = HashToken fx_sha ''r0'') (refresh_tokens fx_sessions)) = Some ''f1''"
    by code_simp
  have t2: "map_option rt_family_id
      (find (\<lambda>t. rt_token_hash t = HashToken fx_sha ''r1'') (refresh_tokens ?w1)) = Some ''f1''"
    by code_simp
  from t t2 obtain a b where
    a: "find (\<lambda>t. rt_token_hash t = HashToken fx_sha ''r0'') (refresh_tokens fx_sessions) = Some a" and
    b: "find (\<lambda>t. rt_token_hash t = HashToken fx_sha ''r1'') (refresh_tokens ?w1) = Some b" and
    ab: "rt_family_id b = rt_family_id a" by auto
  have U: "rt_family_id ` set (refresh_tokens fx_sessions) \<subseteq> {''f1''}"
    by (auto simp: fx_sessions_def)
  have run: "(session_call fx_sha fx_sign fx_secret (\<lambda>_. OtherRune) (\<lambda>p c n. Inr p))\<^sup>*\<^sup>*
      ({''f1''}, ?w1) ({''f1''}, ?w1)" by (rule rtranclp.rtrancl_refl)
  from h reuse_ends_the_family [OF fst_result [OF h] a U run b ab] show ?thesis by (rule conjI)
qed

theorem revoked_token_is_dead_witness:
  "fst (RevokeRefreshToken fx_sha ''r1'' fx_sessions) = Inr () \<and>
   (\<nexists>x w''. RotateRefreshToken fx_sha fx_sign fx_secret ''r1''
      (snd (RevokeRefreshToken fx_sha ''r1'' fx_sessions)) = (Inr x, w''))"
proof -
  have h: "fst (RevokeRefreshToken fx_sha ''r1'' fx_sessions) = Inr ()" by code_simp
  from revoked_token_is_dead [OF fst_result [OF h]] h show ?thesis by blast
qed


text \<open>A rotation of the live token does go through.\<close>

lemma rotation_runs:
  "\<not> isl (fst (RotateRefreshToken fx_sha fx_sign fx_secret ''r1'' fx_sessions))"
  by code_simp

end
