(* ===== verification/Crypto.thy ===== *)
theory Crypto
  imports Prelude
begin

text \<open>
  Encryption at rest (\<open>internal/crypto/aes.go\<close>). The AES-256-GCM primitive is an \<open>aead\<close> value: what
  \<open>cipher.AEAD\<close> offers of sealing, opening and its overhead; the key derivation and the cipher
  constructors are parameters of \<open>New\<close>. Byte slices are lists of naturals.
\<close>

record aead =
  aead_Seal :: "nat list \<Rightarrow> nat list \<Rightarrow> nat list"
  aead_Open :: "nat list \<Rightarrow> nat list \<Rightarrow> nat list option"
  aead_Overhead :: nat

text \<open>The conversions \<open>[]byte(s)\<close> and \<open>string(b)\<close>.\<close>

definition bytes_of :: "string \<Rightarrow> nat list" where
  "bytes_of s = map of_char s"

definition string_of :: "nat list \<Rightarrow> string" where
  "string_of bs = map char_of bs"

definition keyLen :: nat where "keyLen = 32"

definition nonceLen :: nat where "nonceLen = 12"

definition hkdfInfo :: string where "hkdfInfo = ''prexel-encryption-v1''"

definition New ::
  "(string \<Rightarrow> string \<Rightarrow> nat \<Rightarrow> err + nat list) \<Rightarrow> (nat list \<Rightarrow> err + 'block) \<Rightarrow> ('block \<Rightarrow> err + aead) \<Rightarrow>
     string \<Rightarrow> err + aead" where
  "New hkdf newCipher newGCM secret =
     (if length secret < 32 then Inl (ErrNew ''crypto: secret must be at least 32 bytes'')
      else case hkdf secret hkdfInfo keyLen of
          Inl e \<Rightarrow> Inl (ErrWrap ''hkdf'' e)
        | Inr key \<Rightarrow> (case newCipher key of
              Inl e \<Rightarrow> Inl (ErrWrap ''aes'' e)
            | Inr block \<Rightarrow> (case newGCM block of
                  Inl e \<Rightarrow> Inl (ErrWrap ''gcm'' e)
                | Inr a \<Rightarrow> Inr a)))"

definition Encrypt :: "aead \<Rightarrow> nat list \<Rightarrow> ('x, nat list) go" where
  "Encrypt c plaintext =
     bnd (wrapping ''nonce'' (rand_read nonceLen)) (\<lambda>nonce.
     ret (nonce @ aead_Seal c nonce plaintext))"

definition Decrypt :: "aead \<Rightarrow> nat list \<Rightarrow> err + nat list" where
  "Decrypt c data =
     (if length data < nonceLen + aead_Overhead c then Inl (ErrNew ''crypto: ciphertext too short'')
      else case aead_Open c (take nonceLen data) (drop nonceLen data) of
          None \<Rightarrow> Inl (ErrWrap ''open'' (ErrNew ''cipher: message authentication failed''))
        | Some pt \<Rightarrow> Inr pt)"

text \<open>What the documentation of \<open>cipher.AEAD\<close> promises of sealing and opening.\<close>

definition aead_law :: "aead \<Rightarrow> bool" where
  "aead_law c \<longleftrightarrow>
     (\<forall>n p. aead_Open c n (aead_Seal c n p) = Some p \<and>
            length (aead_Seal c n p) = length p + aead_Overhead c)"

definition bytes_law :: "aead \<Rightarrow> bool" where
  "bytes_law c \<longleftrightarrow>
     (\<forall>n p. list_all (\<lambda>b. b < 256) n \<and> list_all (\<lambda>b. b < 256) p \<longrightarrow> list_all (\<lambda>b. b < 256) (aead_Seal c n p))"

lemma string_of_bytes [simp]: "string_of (bytes_of s) = s"
  by (simp add: string_of_def bytes_of_def comp_def map_idI)

lemma bytes_of_bound: "list_all (\<lambda>b. b < 256) (bytes_of s)"
  by (simp add: bytes_of_def list_all_iff)

lemma rand_read_length: "rand_read n w = (Inr bs, w') \<Longrightarrow> length bs = n \<and> list_all (\<lambda>b. b < 256) bs"
  by (auto simp: rand_read_eq_Inr_iff list_all_iff)

lemma Decrypt_Encrypt:
  assumes "aead_law c" and "Encrypt c p w = (Inr d, w')"
  shows "Decrypt c d = Inr p"
proof -
  from assms(2) obtain n where "length n = nonceLen" "d = n @ aead_Seal c n p"
    by (auto simp: Encrypt_def bnd_eq_Inr_iff wrapping_eq_Inr_iff go_simps dest!: rand_read_length)
  with assms(1) show ?thesis by (simp add: Decrypt_def aead_law_def)
qed

lemma Encrypt_bytes:
  assumes "bytes_law c" and "Encrypt c p w = (Inr d, w')" and "list_all (\<lambda>b. b < 256) p"
  shows "list_all (\<lambda>b. b < 256) d"
proof -
  from assms(2) obtain n where "list_all (\<lambda>b. b < 256) n" "d = n @ aead_Seal c n p"
    by (auto simp: Encrypt_def bnd_eq_Inr_iff wrapping_eq_Inr_iff go_simps dest!: rand_read_length)
  with assms(1,3) show ?thesis by (simp add: bytes_law_def)
qed

end
