(* ===== verification/TwoFactor.thy ===== *)
theory TwoFactor
  imports Password Crypto Database
begin

text \<open>
  Two-factor authentication (\<open>internal/auth\<close>): the in-memory challenge store (\<open>challenge.go\<close>), the
  recovery codes (\<open>recovery.go\<close>), the one-time codes with their replay guard (\<open>totp.go\<close>) and the
  service on top (\<open>twofactor_service.go\<close>). The third-party libraries (bcrypt, the TOTP generator and
  validator, the QR encoder) are the fields of \<open>tf_lib\<close>; \<open>totp_Validate code secret t\<close> is the answer
  of \<open>totp.Validate\<close> at time \<open>t\<close>. The JSON column of recovery hashes counts as the empty list when its
  text is empty, as the code treats it.
\<close>

section \<open>State and libraries\<close>

record Challenge =
  ch_ID :: string
  ch_UserID :: string
  ch_ExpiresAt :: int
  ch_Attempts :: nat

record authdb = db +
  items :: "string \<Rightarrow> Challenge option"

type_synonym ('x, 'a) authm = "('x authdb_ext db_ext, 'a) go"

record tf_lib =
  bcrypt_Generate :: bcrypt_gen
  bcrypt_Compare :: bcrypt_cmp
  totp_Generate :: "string \<Rightarrow> string \<Rightarrow> nat \<Rightarrow> err + string \<times> string"
  totp_Validate :: "string \<Rightarrow> string \<Rightarrow> int \<Rightarrow> bool"
  qrcode_Encode :: "string \<Rightarrow> err + nat list"

record TwoFactorService =
  tfs_cipher :: aead
  tfs_issuer :: string

definition NewTwoFactorService :: "aead \<Rightarrow> string \<Rightarrow> TwoFactorService" where
  "NewTwoFactorService c issuer =
     \<lparr>tfs_cipher = c, tfs_issuer = (if issuer = [] then ''Prexel'' else issuer)\<rparr>"

section \<open>The challenge store\<close>

definition ChallengeTTL :: int where
  "ChallengeTTL = 5 * 60 * second"

definition MaxChallengeAttempts :: nat where
  "MaxChallengeAttempts = 5"

definition ErrChallengeNotFound :: err where
  "ErrChallengeNotFound = ErrNew ''auth: challenge not found''"

definition ErrChallengeExpired :: err where
  "ErrChallengeExpired = ErrNew ''auth: challenge expired''"

definition ErrChallengeExhausted :: err where
  "ErrChallengeExhausted = ErrNew ''auth: challenge attempts exhausted''"

definition challenge_Create :: "string \<Rightarrow> ('x, Challenge) authm" where
  "challenge_Create userID =
     bnd new_uuid (\<lambda>i.
     bnd time_now (\<lambda>now.
     let c = \<lparr>ch_ID = i, ch_UserID = userID, ch_ExpiresAt = now + ChallengeTTL, ch_Attempts = 0\<rparr> in
     access (\<lambda>w. (c, w\<lparr>items := (items w)(i \<mapsto> c)\<rparr>))))"

text \<open>\<open>c, ok := s.items[id]\<close>, the clock being read only when the entry exists.\<close>

definition challenge_lookup :: "string \<Rightarrow> ('x, Challenge) authm" where
  "challenge_lookup i =
     bnd (access (\<lambda>w. (items w i, w))) (\<lambda>r.
     case r of None \<Rightarrow> fail ErrChallengeNotFound | Some c \<Rightarrow> ret c)"

definition challenge_delete :: "string \<Rightarrow> ('x, unit) authm" where
  "challenge_delete i = access (\<lambda>w. ((), w\<lparr>items := (items w)(i := None)\<rparr>))"

definition challenge_Get :: "string \<Rightarrow> ('x, Challenge) authm" where
  "challenge_Get i =
     bnd (challenge_lookup i) (\<lambda>c.
     bnd time_now (\<lambda>now.
     if now > ch_ExpiresAt c then bnd (challenge_delete i) (\<lambda>_. fail ErrChallengeExpired)
     else ret c))"

definition challenge_IncrementAttempts :: "string \<Rightarrow> ('x, Challenge) authm" where
  "challenge_IncrementAttempts i =
     bnd (challenge_lookup i) (\<lambda>c.
     bnd time_now (\<lambda>now.
     if now > ch_ExpiresAt c then bnd (challenge_delete i) (\<lambda>_. fail ErrChallengeExpired)
     else
       let c' = c\<lparr>ch_Attempts := Suc (ch_Attempts c)\<rparr> in
       if ch_Attempts c' \<ge> MaxChallengeAttempts
       then bnd (challenge_delete i) (\<lambda>_. fail ErrChallengeExhausted)
       else access (\<lambda>w. (c', w\<lparr>items := (items w)(i \<mapsto> c')\<rparr>))))"

definition challenge_Consume :: "string \<Rightarrow> ('x, Challenge) authm" where
  "challenge_Consume i =
     bnd (challenge_lookup i) (\<lambda>c.
     bnd (challenge_delete i) (\<lambda>_.
     bnd time_now (\<lambda>now.
     if now > ch_ExpiresAt c then fail ErrChallengeExpired else ret c)))"

definition challenge_cleanup :: "('x, unit) authm" where
  "challenge_cleanup =
     bnd time_now (\<lambda>now.
     access (\<lambda>w. ((), w\<lparr>items := (\<lambda>i. case items w i of
          None \<Rightarrow> None
        | Some c \<Rightarrow> if now > ch_ExpiresAt c then None else Some c)\<rparr>)))"

section \<open>Recovery codes\<close>

definition recoveryAlphabet :: string where
  "recoveryAlphabet = ''ABCDEFGHJKLMNPQRSTUVWXYZ23456789''"

definition RecoveryCodeCount :: nat where
  "RecoveryCodeCount = 8"

definition recoveryBcryptCost :: nat where
  "recoveryBcryptCost = 10"

definition randomRecoveryCode :: "('x, string) go" where
  "randomRecoveryCode =
     bnd (wrapping ''rand'' (rand_read 10)) (\<lambda>buf.
     let out = map (\<lambda>b. recoveryAlphabet ! (b mod length recoveryAlphabet)) buf in
     ret (take 4 out @ ''-'' @ take 4 (drop 4 out) @ ''-'' @ take 2 (drop 8 out)))"

definition normalizeRecoveryCode :: "string \<Rightarrow> string" where
  "normalizeRecoveryCode code =
     remove_byte (CHR '' '') (remove_byte (CHR ''-'') (to_upper (trim_space code)))"

definition hashRecoveryCode :: "tf_lib \<Rightarrow> string \<Rightarrow> ('x, string) go" where
  "hashRecoveryCode lib code =
     wrapping ''bcrypt'' (draw (bcrypt_Generate lib (normalizeRecoveryCode code) recoveryBcryptCost))"

definition GenerateRecoveryCodes :: "tf_lib \<Rightarrow> ('x, (string \<times> string) list) go" where
  "GenerateRecoveryCodes lib =
     map_each (\<lambda>i.
       bnd randomRecoveryCode (\<lambda>code.
       bnd (hashRecoveryCode lib code) (\<lambda>h.
       ret (code, h)))) [0..<RecoveryCodeCount]"

text \<open>The loop over the hashes: every hash is compared, the first match counts.\<close>

fun match_loop :: "(string \<Rightarrow> bool) \<Rightarrow> nat \<Rightarrow> nat option \<Rightarrow> string list \<Rightarrow> nat option" where
  "match_loop p i matchIdx [] = matchIdx"
| "match_loop p i matchIdx (h # hs) =
     match_loop p (Suc i) (if p h \<and> matchIdx = None then Some i else matchIdx) hs"

definition VerifyAndConsumeRecoveryCode ::
  "tf_lib \<Rightarrow> string list \<Rightarrow> string \<Rightarrow> string list \<times> bool" where
  "VerifyAndConsumeRecoveryCode lib hashes code =
     (if hashes = [] \<or> code = [] then (hashes, False)
      else case match_loop (\<lambda>h. bcrypt_Compare lib h (normalizeRecoveryCode code)) 0 None hashes of
          None \<Rightarrow> (hashes, False)
        | Some i \<Rightarrow> (take i hashes @ drop (Suc i) hashes, True))"

section \<open>One-time codes\<close>

definition ErrCodeReused :: err where
  "ErrCodeReused = ErrNew ''auth: totp code already used''"

definition totpWindowSec :: int where
  "totpWindowSec = 30"

definition totpReplayCleanupSec :: int where
  "totpReplayCleanupSec = 90"

definition GenerateTOTPSecret :: "tf_lib \<Rightarrow> string \<Rightarrow> string \<Rightarrow> ('x, string \<times> string) go" where
  "GenerateTOTPSecret lib accountName issuer =
     wrapping ''totp generate'' (draw (totp_Generate lib accountName issuer))"

definition ValidateTOTP :: "tf_lib \<Rightarrow> string \<Rightarrow> string \<Rightarrow> ('x, bool) go" where
  "ValidateTOTP lib secret code =
     (if secret = [] \<or> code = [] then ret False
      else bnd time_now (\<lambda>now. ret (totp_Validate lib code secret now)))"

text \<open>The messages the code looks for are those the driver gives a violated primary or unique key.\<close>

definition isUniqueConstraintErr :: "err \<Rightarrow> bool" where
  "isUniqueConstraintErr e \<longleftrightarrow> e = ErrSql UniqueViolation"

definition totp_window :: "int \<Rightarrow> int" where
  "totp_window now = go_quot now totpWindowSec * totpWindowSec"

definition claim_code :: "string \<Rightarrow> string \<Rightarrow> int \<Rightarrow> ('x, bool) dbm" where
  "claim_code userID code now =
     bnd (attempt (db_exec (delete_totp_used (\<lambda>t. tu_window_ts t < now - totpReplayCleanupSec)))) (\<lambda>_.
     bnd (attempt (db_exec (insert_totp_used
            \<lparr>tu_user_id = userID, tu_code = code, tu_window_ts = totp_window now\<rparr>))) (\<lambda>r.
     case r of
       Inl e \<Rightarrow> (if isUniqueConstraintErr e then fail ErrCodeReused
                  else fail (ErrWrap ''totp replay guard'' e))
     | Inr _ \<Rightarrow> ret True))"

definition ValidateAndConsumeTOTP ::
  "tf_lib \<Rightarrow> string \<Rightarrow> string \<Rightarrow> string \<Rightarrow> ('x, bool) dbm" where
  "ValidateAndConsumeTOTP lib userID secret code =
     bnd (ValidateTOTP lib secret code) (\<lambda>ok.
     if \<not> ok then ret False
     else if trim_space userID = [] then ret True
     else bnd time_now (\<lambda>now. claim_code userID code (unix now)))"

definition TOTPQRCodePNG :: "tf_lib \<Rightarrow> string \<Rightarrow> err + nat list" where
  "TOTPQRCodePNG lib url =
     (if url = [] then Inl (ErrNew ''totp: empty otpauth url'')
      else case qrcode_Encode lib url of
          Inl e \<Rightarrow> Inl (ErrWrap ''qrcode encode'' e)
        | Inr png \<Rightarrow> Inr png)"

section \<open>The service\<close>

definition ErrTwoFactorNotPending :: err where
  "ErrTwoFactorNotPending = ErrNew ''auth: no pending 2FA setup''"

definition ErrTwoFactorNotEnabled :: err where
  "ErrTwoFactorNotEnabled = ErrNew ''auth: 2FA not enabled''"

definition ErrInvalidCode :: err where
  "ErrInvalidCode = ErrNew ''auth: invalid 2FA code''"

definition ErrInvalidPassword :: err where
  "ErrInvalidPassword = ErrNew ''auth: invalid password''"

definition ErrChallengeUnknownMethod :: err where
  "ErrChallengeUnknownMethod = ErrNew ''auth: unknown 2FA method''"

definition ErrChallengeInvalidUserState :: err where
  "ErrChallengeInvalidUserState = ErrNew ''auth: 2FA not configured for user''"

lemmas tf_err_defs =
  ErrChallengeNotFound_def ErrChallengeExpired_def ErrChallengeExhausted_def ErrCodeReused_def
  ErrTwoFactorNotPending_def ErrTwoFactorNotEnabled_def ErrInvalidCode_def ErrInvalidPassword_def
  ErrChallengeUnknownMethod_def ErrChallengeInvalidUserState_def

definition decryptStored :: "TwoFactorService \<Rightarrow> string \<Rightarrow> err + string" where
  "decryptStored s b64 =
     (case base64_decode b64 of
        None \<Rightarrow> Inl (ErrWrap ''base64 decode'' (ErrNew ''illegal base64 data''))
      | Some raw \<Rightarrow> (case Decrypt (tfs_cipher s) raw of
            Inl e \<Rightarrow> Inl (ErrWrap ''decrypt'' e)
          | Inr pt \<Rightarrow> Inr (string_of pt)))"

definition InitiateSetup ::
  "tf_lib \<Rightarrow> TwoFactorService \<Rightarrow> string \<Rightarrow> string \<Rightarrow> ('x, string \<times> string \<times> nat list) dbm" where
  "InitiateSetup lib s userID email =
     bnd (GenerateTOTPSecret lib email (tfs_issuer s)) (\<lambda>(secret, url).
     bnd (lift_res (TOTPQRCodePNG lib url)) (\<lambda>qr.
     bnd (wrapping ''encrypt secret'' (Encrypt (tfs_cipher s) (bytes_of secret))) (\<lambda>enc.
     bnd (wrapping ''save pending secret'' (db_exec (update_users (\<lambda>u. u_id u = userID)
            (\<lambda>u. u\<lparr>u_2fa_pending := Some (base64_encode base64_std ''='' enc)\<rparr>)))) (\<lambda>_.
     ret (secret, url, qr)))))"

text \<open>The single statement that promotes the pending secret.\<close>

definition promote :: "int \<Rightarrow> string list \<Rightarrow> user \<Rightarrow> user" where
  "promote now hashes u =
     u\<lparr>u_2fa_secret := u_2fa_pending u, u_2fa_pending := None, u_2fa_enabled := True,
       u_2fa_confirmed_at := Some now, u_recovery := Some (Some hashes)\<rparr>"

definition ConfirmSetup ::
  "tf_lib \<Rightarrow> TwoFactorService \<Rightarrow> string \<Rightarrow> string \<Rightarrow> ('x, string list) dbm" where
  "ConfirmSetup lib s userID code =
     bnd (attempt (db_query_row (\<lambda>w. map_option u_2fa_pending (find (\<lambda>u. u_id u = userID) (users w)))))
       (\<lambda>r. case r of
          Inl e \<Rightarrow> (if errors_is e (ErrSql NoRows) then fail ErrTwoFactorNotPending
                     else fail (ErrWrap ''load pending'' e))
        | Inr None \<Rightarrow> fail ErrTwoFactorNotPending
        | Inr (Some pending) \<Rightarrow>
            (if pending = [] then fail ErrTwoFactorNotPending
             else
               bnd (lift_res (decryptStored s pending)) (\<lambda>secret.
               bnd (ValidateTOTP lib secret code) (\<lambda>ok.
               if \<not> ok then fail ErrInvalidCode
               else
                 bnd (GenerateRecoveryCodes lib) (\<lambda>codes.
                 bnd time_now (\<lambda>now.
                 bnd (wrapping ''activate 2fa'' (db_exec (update_users (\<lambda>u. u_id u = userID)
                        (promote (unix now) (map snd codes))))) (\<lambda>_.
                 ret (map fst codes))))))))"

definition RequiresChallenge :: "string \<Rightarrow> ('x, bool) dbm" where
  "RequiresChallenge userID =
     bnd (attempt (db_query_row (\<lambda>w. map_option u_2fa_enabled (find (\<lambda>u. u_id u = userID) (users w)))))
       (\<lambda>r. case r of
          Inl e \<Rightarrow> (if errors_is e (ErrSql NoRows) then ret False else fail e)
        | Inr enabled \<Rightarrow> ret enabled)"

definition CreateChallenge :: "string \<Rightarrow> ('x, string \<times> string list) authm" where
  "CreateChallenge userID =
     bnd (challenge_Create userID) (\<lambda>c. ret (ch_ID c, [''app'', ''recovery'']))"

definition check_recovery :: "tf_lib \<Rightarrow> user \<Rightarrow> string \<Rightarrow> ('x, bool) dbm" where
  "check_recovery lib u code =
     bnd (case u_recovery u of
            None \<Rightarrow> ret []
          | Some None \<Rightarrow> fail (ErrWrap ''decode recovery'' (ErrNew ''json''))
          | Some (Some hashes) \<Rightarrow> ret hashes) (\<lambda>hashes.
     case VerifyAndConsumeRecoveryCode lib hashes code of
       (remaining, valid) \<Rightarrow>
         (if valid
          then bnd (wrapping ''update recovery'' (db_exec (update_users (\<lambda>x. u_id x = u_id u)
                      (\<lambda>x. x\<lparr>u_recovery := Some (Some remaining)\<rparr>)))) (\<lambda>_. ret True)
          else ret False))"

definition check_totp :: "tf_lib \<Rightarrow> TwoFactorService \<Rightarrow> string \<Rightarrow> string \<Rightarrow> string \<Rightarrow> ('x, bool) dbm" where
  "check_totp lib s userID stored code =
     bnd (lift_res (decryptStored s stored)) (\<lambda>secret.
     bnd (attempt (ValidateAndConsumeTOTP lib userID secret code)) (\<lambda>r.
     case r of
       Inl e \<Rightarrow> (if errors_is e ErrCodeReused then fail ErrInvalidCode else fail e)
     | Inr accepted \<Rightarrow> ret accepted))"

definition VerifyUserCode ::
  "tf_lib \<Rightarrow> TwoFactorService \<Rightarrow> string \<Rightarrow> string \<Rightarrow> string \<Rightarrow> ('x, unit) dbm" where
  "VerifyUserCode lib s userID code meth =
     bnd (wrapping ''load user 2fa''
            (db_query_row (\<lambda>w. find (\<lambda>u. u_id u = userID) (users w)))) (\<lambda>u.
     case u_2fa_secret u of
       None \<Rightarrow> fail ErrChallengeInvalidUserState
     | Some stored \<Rightarrow>
         (if \<not> u_2fa_enabled u then fail ErrChallengeInvalidUserState
          else
            bnd (if meth = ''app'' \<or> meth = [] then check_totp lib s userID stored code
                 else if meth = ''recovery'' then check_recovery lib u code
                 else fail ErrChallengeUnknownMethod) (\<lambda>ok.
            if \<not> ok then fail ErrInvalidCode else ret ())))"

definition VerifyChallenge ::
  "tf_lib \<Rightarrow> TwoFactorService \<Rightarrow> string \<Rightarrow> string \<Rightarrow> string \<Rightarrow> ('x, string) authm" where
  "VerifyChallenge lib s challengeID code meth =
     bnd (challenge_Get challengeID) (\<lambda>c.
     bnd (attempt (VerifyUserCode lib s (ch_UserID c) code meth)) (\<lambda>r.
     case r of
       Inl e \<Rightarrow>
         (if errors_is e ErrInvalidCode
          then bnd (challenge_IncrementAttempts challengeID) (\<lambda>_. fail e)
          else fail e)
     | Inr _ \<Rightarrow> bnd (challenge_Consume challengeID) (\<lambda>_. ret (ch_UserID c))))"

definition clear_2fa :: "user \<Rightarrow> user" where
  "clear_2fa u =
     u\<lparr>u_2fa_enabled := False, u_2fa_secret := None, u_2fa_pending := None,
       u_2fa_confirmed_at := None, u_recovery := None\<rparr>"

definition Disable ::
  "tf_lib \<Rightarrow> TwoFactorService \<Rightarrow> string \<Rightarrow> string \<Rightarrow> string \<Rightarrow> ('x, unit) dbm" where
  "Disable lib s userID password code =
     bnd (wrapping ''load user''
            (db_query_row (\<lambda>w. find (\<lambda>u. u_id u = userID) (users w)))) (\<lambda>u.
     if \<not> VerifyPassword (bcrypt_Compare lib) (u_password_hash u) password then fail ErrInvalidPassword
     else case u_2fa_secret u of
         None \<Rightarrow> fail ErrTwoFactorNotEnabled
       | Some stored \<Rightarrow>
           (if \<not> u_2fa_enabled u then fail ErrTwoFactorNotEnabled
            else
              bnd (check_totp lib s userID stored code) (\<lambda>accepted.
              if \<not> accepted then fail ErrInvalidCode
              else
                bnd (wrapping ''disable''
                       (db_exec (update_users (\<lambda>x. u_id x = userID) clear_2fa))) (\<lambda>_.
                ret ()))))"

definition RegenerateRecoveryCodes :: "tf_lib \<Rightarrow> string \<Rightarrow> string \<Rightarrow> ('x, string list) dbm" where
  "RegenerateRecoveryCodes lib userID password =
     bnd (wrapping ''load user''
            (db_query_row (\<lambda>w. find (\<lambda>u. u_id u = userID) (users w)))) (\<lambda>u.
     if \<not> VerifyPassword (bcrypt_Compare lib) (u_password_hash u) password then fail ErrInvalidPassword
     else if \<not> u_2fa_enabled u then fail ErrTwoFactorNotEnabled
     else
       bnd (GenerateRecoveryCodes lib) (\<lambda>codes.
       bnd (wrapping ''save hashes'' (db_exec (update_users (\<lambda>x. u_id x = userID)
              (\<lambda>x. x\<lparr>u_recovery := Some (Some (map snd codes))\<rparr>)))) (\<lambda>_.
       ret (map fst codes))))"

definition Status_2fa :: "string \<Rightarrow> ('x, bool \<times> int option \<times> nat) dbm" where
  "Status_2fa userID =
     bnd (db_query_row (\<lambda>w. find (\<lambda>u. u_id u = userID) (users w))) (\<lambda>u.
     case u_recovery u of
       None \<Rightarrow> ret (u_2fa_enabled u, u_2fa_confirmed_at u, 0)
     | Some None \<Rightarrow> fail (ErrNew ''json'')
     | Some (Some hashes) \<Rightarrow> ret (u_2fa_enabled u, u_2fa_confirmed_at u, length hashes))"

end
