(* ===== verification/TwoFactor_Props.thy ===== *)
theory TwoFactor_Props
  imports TwoFactor Fixtures
begin

text \<open>
  What two-factor authentication guarantees: recovery codes are consumed, challenges allow five guesses
  and one login, a one-time code is accepted once per window, enrolment stores the secret it hands out
  and goes live in one statement, and switching it off takes both factors.
\<close>

section \<open>Recovery codes\<close>

lemma match_loop_Some: "match_loop p i (Some k) hs = Some k"
  by (induction hs arbitrary: i) auto

lemma match_loop_first:
  "match_loop p i None hs =
     (if list_ex p hs then Some (i + length (takeWhile (\<lambda>h. \<not> p h) hs)) else None)"
  by (induction hs arbitrary: i) (auto simp: match_loop_Some)

text \<open>
  A recovery code is accepted exactly when it matches a stored hash, and then precisely the first
  matching hash is taken out of the list; a code that does not match leaves the list as it is.
\<close>

theorem VerifyAndConsumeRecoveryCode_spec:
  "VerifyAndConsumeRecoveryCode lib hashes code =
     (let p = (\<lambda>h. code \<noteq> [] \<and> bcrypt_Compare lib h (normalizeRecoveryCode code))
      in if list_ex p hashes
         then (takeWhile (\<lambda>h. \<not> p h) hashes @ tl (dropWhile (\<lambda>h. \<not> p h) hashes), True)
         else (hashes, False))"
proof (cases "code = []")
  case False
  let ?q = "\<lambda>h. \<not> bcrypt_Compare lib h (normalizeRecoveryCode code)"
  have "take (length (takeWhile ?q hashes)) hashes = takeWhile ?q hashes"
    by (simp flip: takeWhile_eq_take)
  moreover have "drop (Suc (length (takeWhile ?q hashes))) hashes = tl (dropWhile ?q hashes)"
    by (simp add: dropWhile_eq_drop drop_Suc tl_drop)
  ultimately show ?thesis
    using False
    by (cases hashes) (auto simp: VerifyAndConsumeRecoveryCode_def match_loop_first match_loop_Some Let_def)
qed (simp add: VerifyAndConsumeRecoveryCode_def list_ex_iff)

section \<open>Challenges\<close>

lemma challenge_defs_run:
  "challenge_lookup i w = (case items w i of None \<Rightarrow> (Inl ErrChallengeNotFound, w) | Some c \<Rightarrow> (Inr c, w))"
  "challenge_delete i w = (Inr (), w\<lparr>items := (items w)(i := None)\<rparr>)"
  by (auto simp: challenge_lookup_def challenge_delete_def access_def bnd_def go_simps split: option.split)

lemma challenge_Get_run:
  "challenge_Get i w =
     (case items w i of
        None \<Rightarrow> (Inl ErrChallengeNotFound, w)
      | Some c \<Rightarrow> (if ch_ExpiresAt c < o_now (orc w) (stp w)
                    then (Inl ErrChallengeExpired, (tick w)\<lparr>items := (items w)(i := None)\<rparr>)
                    else (Inr c, tick w)))"
  by (auto simp: challenge_Get_def bnd_def challenge_defs_run time_now_def go_simps tick_def
      split: option.split)

lemma challenge_IncrementAttempts_run:
  "challenge_IncrementAttempts i w =
     (case items w i of
        None \<Rightarrow> (Inl ErrChallengeNotFound, w)
      | Some c \<Rightarrow> (if ch_ExpiresAt c < o_now (orc w) (stp w)
                    then (Inl ErrChallengeExpired, (tick w)\<lparr>items := (items w)(i := None)\<rparr>)
                    else if 4 \<le> ch_Attempts c
                    then (Inl ErrChallengeExhausted, (tick w)\<lparr>items := (items w)(i := None)\<rparr>)
                    else (Inr (c\<lparr>ch_Attempts := Suc (ch_Attempts c)\<rparr>), (tick w)\<lparr>items :=
                           (items w)(i \<mapsto> c\<lparr>ch_Attempts := Suc (ch_Attempts c)\<rparr>)\<rparr>)))"
  by (auto simp: challenge_IncrementAttempts_def bnd_def challenge_defs_run time_now_def go_simps
      tick_def access_def MaxChallengeAttempts_def Let_def split: option.split)

lemma challenge_Consume_run:
  "challenge_Consume i w =
     (case items w i of
        None \<Rightarrow> (Inl ErrChallengeNotFound, w)
      | Some c \<Rightarrow> (if ch_ExpiresAt c < o_now (orc w) (stp w) then Inl ErrChallengeExpired else Inr c,
                    (tick w)\<lparr>items := (items w)(i := None)\<rparr>))"
  by (auto simp: challenge_Consume_def bnd_def challenge_defs_run time_now_def go_simps tick_def
      split: option.split)

text \<open>Checking a code does not touch the store.\<close>

definition same_items :: "'x authdb_scheme \<Rightarrow> 'x authdb_scheme \<Rightarrow> bool" where
  "same_items w w' \<longleftrightarrow> items w' = items w"

interpretation itm: frame same_items
  by unfold_locales (auto simp: same_items_def)

lemma statement_items:
  "update_users p f w = Inr (n, w') \<Longrightarrow> same_items w w'"
  "delete_totp_used q w = Inr (n, w') \<Longrightarrow> same_items w w'"
  "insert_totp_used t w = Inr (n, w') \<Longrightarrow> same_items w w'"
  by (auto simp: statement_defs checked_Inr_iff same_items_def)

lemma ValidateTOTP_read: "moves only_step (ValidateTOTP lib secret code)"
  unfolding ValidateTOTP_def by (intro rd.frame_rules moves_intro)

lemma VerifyUserCode_items: "moves same_items (VerifyUserCode lib s u code m)"
  unfolding VerifyUserCode_def check_totp_def check_recovery_def ValidateAndConsumeTOTP_def claim_code_def
  by (intro itm.frame_rules moves_intro itm.frame_exec itm.frame_read [OF ValidateTOTP_read])
    (auto dest: statement_items)

text \<open>
  The guesses a challenge still allows; a call that evaluates a guess and refuses it, or finds the
  challenge expired, uses one up.
\<close>

definition budget :: "string \<Rightarrow> 'x authdb_scheme \<Rightarrow> nat" where
  "budget i w =
     (case items w i of None \<Rightarrow> 0 | Some c \<Rightarrow> max 1 (MaxChallengeAttempts - ch_Attempts c))"

definition wrong_guess :: "err + 'a \<Rightarrow> bool" where
  "wrong_guess r \<longleftrightarrow>
     (case r of
        Inl e \<Rightarrow> errors_is e ErrInvalidCode \<or> e = ErrChallengeExhausted \<or> e = ErrChallengeExpired
      | Inr _ \<Rightarrow> False)"

fun verify_all ::
  "tf_lib \<Rightarrow> TwoFactorService \<Rightarrow> (string \<times> string \<times> string) list \<Rightarrow> 'x authdb_scheme \<Rightarrow>
     (string \<times> (err + string)) list" where
  "verify_all lib s [] w = []"
| "verify_all lib s ((i, code, m) # gs) w =
     (case VerifyChallenge lib s i code m w of (r, w') \<Rightarrow> (i, r) # verify_all lib s gs w')"

lemma VerifyUserCode_store: "items (snd (VerifyUserCode lib s u code m v)) = items v"
  using VerifyUserCode_items [of lib s u code m] unfolding moves_def same_items_def by blast

lemmas challenge_runs =
  bnd_def attempt_run challenge_Get_run challenge_Consume_run challenge_IncrementAttempts_run
  VerifyUserCode_store

definition store_error :: "err \<Rightarrow> bool" where
  "store_error e \<longleftrightarrow> e = ErrChallengeExhausted \<or> e = ErrChallengeExpired"

lemma store_error_simps [simp]:
  "\<not> store_error (ErrWrap m e)" "\<not> store_error (ErrSql x)" "\<not> store_error ErrInvalidCode"
  "\<not> store_error ErrCodeReused" "\<not> store_error ErrChallengeInvalidUserState"
  "\<not> store_error ErrChallengeUnknownMethod"
  by (simp_all add: store_error_def tf_err_defs)

lemma ValidateAndConsumeTOTP_errors: "raises (\<lambda>e. \<not> store_error e) (ValidateAndConsumeTOTP lib u secret code)"
  unfolding ValidateAndConsumeTOTP_def ValidateTOTP_def claim_code_def
  by (intro raises_intro) simp_all

lemma decryptStored_errors: "decryptStored s b = Inl e \<Longrightarrow> \<not> store_error e"
  by (auto simp: decryptStored_def split: option.splits sum.splits)

lemma VerifyUserCode_errors: "raises (\<lambda>e. \<not> store_error e) (VerifyUserCode lib s u code m)"
  unfolding VerifyUserCode_def check_totp_def check_recovery_def
  by (intro raises_attempt_bnd [OF ValidateAndConsumeTOTP_errors] raises_intro;
      auto intro!: raises_intro simp: decryptStored_errors split: option.splits prod.splits)

lemma not_found_error: "\<not> wrong_guess (Inl ErrChallengeNotFound)"
  by (simp add: wrong_guess_def tf_err_defs)

lemma VerifyChallenge_other:
  assumes "VerifyChallenge lib s j code m w = (r, w')" and "i \<noteq> j"
  shows "items w' i = items w i"
  using assms
  by (auto simp: VerifyChallenge_def challenge_runs go_simps tick_def
      split: option.splits sum.splits if_splits)

lemma VerifyChallenge_budget:
  assumes "VerifyChallenge lib s i code m w = (r, w')"
  shows "budget i w' + (if wrong_guess r then 1 else 0) \<le> budget i w"
proof -
  have e: "e \<noteq> ErrChallengeExhausted \<and> e \<noteq> ErrChallengeExpired"
    if "fst (VerifyUserCode lib s u code m v) = Inl e" for e u and v :: "'b authdb_scheme"
    using that VerifyUserCode_errors [of lib s u code m] unfolding raises_def store_error_def by blast
  show ?thesis
    using assms not_found_error
    by (auto simp: VerifyChallenge_def challenge_runs go_simps tick_def budget_def wrong_guess_def
        MaxChallengeAttempts_def split: option.splits sum.splits if_splits dest: e)
qed

lemma budget_le: "budget i w \<le> MaxChallengeAttempts"
  by (auto simp: budget_def MaxChallengeAttempts_def split: option.split)

lemma verify_all_budget:
  "length (filter (\<lambda>(j, r). j = i \<and> wrong_guess r) (verify_all lib s gs w)) \<le> budget i w"
proof (induction gs arbitrary: w)
  case (Cons g gs)
  obtain j code m where g: "g = (j, code, m)" by (cases g)
  obtain r w' where v: "VerifyChallenge lib s j code m w = (r, w')" by fastforce
  show ?case
  proof (cases "j = i")
    case True
    with Cons.IH [of w'] VerifyChallenge_budget [of lib s i code m w r w'] v g show ?thesis
      by (auto split: if_splits)
  next
    case False
    with VerifyChallenge_other [OF v, of i] have "budget i w' = budget i w" by (simp add: budget_def)
    with Cons.IH [of w'] v g False show ?thesis by auto
  qed
qed simp

text \<open>
  C33. A second factor cannot be guessed at will: whatever sequence of codes is presented, to this and
  to other challenges, at most five of them are evaluated and refused for one challenge.
\<close>

theorem at_most_five_guesses:
  "length (filter (\<lambda>(j, r). j = i \<and> wrong_guess r) (verify_all lib s gs w)) \<le> 5"
  using verify_all_budget [of i lib s gs w] budget_le [of i w] by (simp add: MaxChallengeAttempts_def)

text \<open>
  C34. A challenge is good for one login: when it is solved, the answer is the user it was created for,
  the challenge had not expired, and presenting it again finds no challenge.
\<close>

theorem VerifyChallenge_single_use:
  assumes "VerifyChallenge lib s i code m w = (Inr u, w')"
  shows "(\<exists>c. items w i = Some c \<and> u = ch_UserID c \<and> o_now (orc w) (stp w) \<le> ch_ExpiresAt c) \<and>
     fst (VerifyChallenge lib s i code2 m2 w') = Inl ErrChallengeNotFound"
proof -
  from assms have "\<exists>c. items w i = Some c \<and> u = ch_UserID c \<and> o_now (orc w) (stp w) \<le> ch_ExpiresAt c"
    and "items w' i = None"
    by (auto simp: VerifyChallenge_def challenge_runs go_simps tick_def
        split: option.splits sum.splits if_splits)
  then show ?thesis by (simp add: VerifyChallenge_def bnd_def challenge_Get_run)
qed

section \<open>The replay guard\<close>

lemma window_recent: "now - totpReplayCleanupSec \<le> totp_window now"
proof (cases "0 \<le> now")
  case True
  then have "go_quot now totpWindowSec = now div 30"
    by (cases "now = 0") (auto simp: go_quot_def totpWindowSec_def)
  then show ?thesis by (simp add: totp_window_def totpWindowSec_def totpReplayCleanupSec_def)
next
  case False
  then have "go_quot now totpWindowSec = - ((- now) div 30)"
    by (simp add: go_quot_def totpWindowSec_def)
  then show ?thesis using False by (simp add: totp_window_def totpWindowSec_def totpReplayCleanupSec_def)
qed

definition code_row :: "string \<Rightarrow> string \<Rightarrow> int \<Rightarrow> totp_row" where
  "code_row u code now = \<lparr>tu_user_id = u, tu_code = code, tu_window_ts = totp_window now\<rparr>"

lemma claim_code_rows:
  assumes "claim_code u code now w = (r, w')"
  shows "\<exists>ts. (\<forall>t \<in> set (totp_used w). now - totpReplayCleanupSec \<le> tu_window_ts t \<longrightarrow> t \<in> set ts) \<and>
     (totp_used w' = ts \<or> totp_used w' = ts @ [code_row u code now]) \<and>
     (\<forall>b. r = Inr b \<longrightarrow> code_row u code now \<notin> set ts \<and> code_row u code now \<in> set (totp_used w'))"
proof -
  let ?keep = "\<lambda>t. \<not> tu_window_ts t < now - totpReplayCleanupSec"
  obtain v d where del: "attempt (db_exec (delete_totp_used (\<lambda>t. tu_window_ts t < now - totpReplayCleanupSec))) w
      = (Inr d, v)" and ts: "totp_used v = totp_used w \<or> totp_used v = filter ?keep (totp_used w)"
    by (auto simp: attempt_run db_exec_def delete_totp_used_def checked_def split: prod.splits)
  have rest: "bnd (attempt (db_exec (insert_totp_used (code_row u code now)))) (\<lambda>r. case r of
        Inl e \<Rightarrow> (if isUniqueConstraintErr e then fail ErrCodeReused else fail (ErrWrap ''totp replay guard'' e))
      | Inr _ \<Rightarrow> ret True) v = (r, w')"
    using assms del by (simp add: claim_code_def bnd_def code_row_def)
  have "totp_used w' = totp_used v \<or> totp_used w' = totp_used v @ [code_row u code now]"
    using rest
    by (auto simp: bnd_def attempt_run db_exec_def insert_totp_used_def checked_def go_simps
        split: if_splits sum.splits)
  moreover have "code_row u code now \<notin> set (totp_used v) \<and> code_row u code now \<in> set (totp_used w')"
    if "r = Inr b" for b
    using rest that
    by (auto simp: bnd_def attempt_run db_exec_def insert_totp_used_def checked_def go_simps
        unique_ok_def split: if_splits sum.splits)
  ultimately show ?thesis using ts by (intro exI [of _ "totp_used v"]) auto
qed

text \<open>
  A claimed code stays claimed as long as no clock reading is more than the cleanup period after its
  window; this relation is respected by every call of the service.
\<close>

definition guarded :: "totp_row \<Rightarrow> 'x db_scheme \<Rightarrow> 'x db_scheme \<Rightarrow> bool" where
  "guarded t w w' \<longleftrightarrow>
     orc w' = orc w \<and>
     ((\<forall>n. unix (o_now (orc w) n) - totpReplayCleanupSec \<le> tu_window_ts t) \<longrightarrow>
        t \<in> set (totp_used w) \<longrightarrow> t \<in> set (totp_used w'))"

interpretation grd: frame "guarded t" for t
  by unfold_locales (auto simp: guarded_def)

lemma update_users_guarded: "update_users p f w = Inr (n, w') \<Longrightarrow> guarded t w w'"
  by (auto simp: update_users_def checked_Inr_iff guarded_def)

lemma claim_code_env: "moves same_env (claim_code u code now)"
  unfolding claim_code_def
  by (intro env.frame_rules env.frame_exec moves_intro)
    (auto simp: same_env_def statement_defs checked_Inr_iff)

lemma claim_code_guards: "guarded t w (snd (claim_code u code (unix (o_now (orc w) (stp w))) (tick w)))"
  using claim_code_rows [of u code "unix (o_now (orc w) (stp w))" "tick w"]
    movesD [OF claim_code_env, of u code "unix (o_now (orc w) (stp w))" "tick w"]
  by (cases "claim_code u code (unix (o_now (orc w) (stp w))) (tick w)")
    (fastforce simp: guarded_def same_env_def)

lemma claim_code_guarded: "moves (guarded t) (bnd time_now (\<lambda>now. claim_code u code (unix now)))"
  by (simp add: moves_def bnd_def time_now_def claim_code_guards)

lemma ValidateAndConsumeTOTP_guarded: "moves (guarded t) (ValidateAndConsumeTOTP lib u secret code)"
  unfolding ValidateAndConsumeTOTP_def
  by (intro grd.frame_bnd grd.frame_read [OF ValidateTOTP_read] moves_intro grd.frame_ret claim_code_guarded)

lemma GenerateRecoveryCodes_read: "moves only_step (GenerateRecoveryCodes lib)"
  unfolding GenerateRecoveryCodes_def randomRecoveryCode_def hashRecoveryCode_def Let_def
  by (intro rd.frame_rules)

lemma Encrypt_read: "moves only_step (Encrypt c p)"
  unfolding Encrypt_def by (intro rd.frame_rules)

lemma challenge_guarded:
  "moves (guarded t) (challenge_Create u)" "moves (guarded t) (challenge_Get i)"
  "moves (guarded t) (challenge_IncrementAttempts i)" "moves (guarded t) (challenge_Consume i)"
  "moves (guarded t) challenge_cleanup"
  unfolding challenge_Create_def challenge_Get_def challenge_IncrementAttempts_def challenge_Consume_def
    challenge_cleanup_def challenge_lookup_def challenge_delete_def
  by (intro grd.frame_rules moves_intro grd.frame_access; simp add: guarded_def)+

lemmas guarded_rules =
  grd.frame_rules moves_intro grd.frame_exec grd.frame_read [OF ValidateTOTP_read]
  grd.frame_read [OF GenerateRecoveryCodes_read] grd.frame_read [OF Encrypt_read]
  ValidateAndConsumeTOTP_guarded challenge_guarded

lemma VerifyUserCode_guarded: "moves (guarded t) (VerifyUserCode lib s u code m)"
  unfolding VerifyUserCode_def check_totp_def check_recovery_def
  by (intro guarded_rules) (auto intro: update_users_guarded)

lemma service_guarded:
  "moves (guarded t) (InitiateSetup lib s u email)" "moves (guarded t) (ConfirmSetup lib s u code)"
  "moves (guarded t) (Disable lib s u pw code)" "moves (guarded t) (RegenerateRecoveryCodes lib u pw)"
  unfolding InitiateSetup_def ConfirmSetup_def Disable_def RegenerateRecoveryCodes_def check_totp_def
    GenerateTOTPSecret_def
  by (intro guarded_rules; auto intro: update_users_guarded)+

lemma challenge_calls_guarded:
  "moves (guarded t) (VerifyChallenge lib s i code m)" "moves (guarded t) (CreateChallenge u)"
  unfolding VerifyChallenge_def CreateChallenge_def
  by (intro guarded_rules VerifyUserCode_guarded)+

text \<open>The calls of the service, in any order.\<close>

inductive tf_call :: "tf_lib \<Rightarrow> TwoFactorService \<Rightarrow> 'x authdb_scheme \<Rightarrow> 'x authdb_scheme \<Rightarrow> bool"
  for lib s where
  tf_InitiateSetup: "tf_call lib s w (snd (InitiateSetup lib s u email w))"
| tf_ConfirmSetup: "tf_call lib s w (snd (ConfirmSetup lib s u code w))"
| tf_CreateChallenge: "tf_call lib s w (snd (CreateChallenge u w))"
| tf_VerifyChallenge: "tf_call lib s w (snd (VerifyChallenge lib s i code m w))"
| tf_VerifyUserCode: "tf_call lib s w (snd (VerifyUserCode lib s u code m w))"
| tf_Disable: "tf_call lib s w (snd (Disable lib s u pw code w))"
| tf_Regenerate: "tf_call lib s w (snd (RegenerateRecoveryCodes lib u pw w))"
| tf_cleanup: "tf_call lib s w (snd (challenge_cleanup w))"

lemma tf_call_guarded: "tf_call lib s w w' \<Longrightarrow> guarded t w w'"
  by (induction rule: tf_call.induct)
    (intro moves_snd service_guarded challenge_calls_guarded VerifyUserCode_guarded challenge_guarded)+

lemma tf_run_guarded: "(tf_call lib s)\<^sup>*\<^sup>* w w' \<Longrightarrow> guarded t w w'"
  by (induction rule: rtranclp_induct) (auto intro: grd.R_refl grd.R_trans tf_call_guarded)

lemma ValidateAndConsumeTOTP_accepts:
  assumes "ValidateAndConsumeTOTP lib u secret code w = (Inr True, w')" and "trim_space u \<noteq> []"
  shows "claim_code u code (unix (o_now (orc w) (Suc (stp w)))) (tick (tick w)) = (Inr True, w')"
  using assms
  by (auto simp: ValidateAndConsumeTOTP_def ValidateTOTP_def run_iffs go_simps split: if_splits)

text \<open>
  A one-time code is accepted at most once per 30-second window: if a user's code was accepted, and
  after any further calls of the service the same code of that user is accepted again, the two
  acceptances lie in different windows. (No clock reading is more than 90 seconds after the first
  window; the library accepts a code for far less.)
\<close>

theorem totp_once_per_window:
  assumes "ValidateAndConsumeTOTP lib u secret code w = (Inr True, w1)" and "trim_space u \<noteq> []"
    and "(tf_call lib s)\<^sup>*\<^sup>* w1 w2"
    and "ValidateAndConsumeTOTP lib u secret2 code w2 = (Inr True, w3)"
    and "\<And>n. unix (o_now (orc w1) n) \<le>
            totp_window (unix (o_now (orc w) (Suc (stp w)))) + totpReplayCleanupSec"
  shows "totp_window (unix (o_now (orc w2) (Suc (stp w2))))
       \<noteq> totp_window (unix (o_now (orc w) (Suc (stp w))))"
proof
  let ?now = "unix (o_now (orc w) (Suc (stp w)))" and ?now2 = "unix (o_now (orc w2) (Suc (stp w2)))"
  let ?t = "code_row u code ?now"
  assume same: "totp_window ?now2 = totp_window ?now"
  have "?t \<in> set (totp_used w1)"
    using claim_code_rows [OF ValidateAndConsumeTOTP_accepts [OF assms(1,2)]] by blast
  moreover have "guarded ?t w1 w2" by (rule tf_run_guarded [OF assms(3)])
  ultimately have in2: "?t \<in> set (totp_used w2)"
    using assms(5) by (simp add: guarded_def code_row_def algebra_simps)
  have "?t = code_row u code ?now2" by (simp add: code_row_def same)
  moreover have "?now2 - totpReplayCleanupSec \<le> tu_window_ts ?t"
    using window_recent [of ?now2] same by (simp add: code_row_def)
  ultimately show False
    using claim_code_rows [OF ValidateAndConsumeTOTP_accepts [OF assms(4,2)]] in2 by auto
qed

section \<open>Enrolment\<close>

text \<open>
  What enrolment stores is what the user got: after the setup was started, decrypting the pending
  column yields exactly the secret that was handed out. (\<open>aead_law\<close> and \<open>bytes_law\<close> are what the
  documentation of the cipher promises.)
\<close>

theorem InitiateSetup_roundtrip:
  assumes "InitiateSetup lib s u email w = (Inr (secret, url, qr), w')"
    and "find (\<lambda>x. u_id x = u) (users w) = Some x"
    and "aead_law (tfs_cipher s)" and "bytes_law (tfs_cipher s)"
  shows "\<exists>b64. find (\<lambda>x. u_id x = u) (users w') = Some (x\<lparr>u_2fa_pending := Some b64\<rparr>) \<and>
     decryptStored s b64 = Inr secret"
proof -
  from assms(1) obtain enc v2 where enc: "Encrypt (tfs_cipher s) (bytes_of secret) (tick w) = (Inr enc, v2)"
    and up: "users w' = update_where (\<lambda>x. u_id x = u)
        (\<lambda>x. x\<lparr>u_2fa_pending := Some (base64_encode base64_std ''='' enc)\<rparr>) (users v2)"
    by (auto simp: InitiateSetup_def GenerateTOTPSecret_def run_iffs go_simps update_users_def
        checked_Inr_iff)
  obtain n where "v2 = (tick w)\<lparr>stp := n\<rparr>" by (rule only_stepE [OF Encrypt_read enc])
  with up have "find (\<lambda>x. u_id x = u) (users w') =
      Some (x\<lparr>u_2fa_pending := Some (base64_encode base64_std ''='' enc)\<rparr>)"
    using assms(2) by (simp add: find_update_where)
  moreover have "decryptStored s (base64_encode base64_std ''='' enc) = Inr secret"
    using Decrypt_Encrypt [OF assms(3) enc] Encrypt_bytes [OF assms(4) enc bytes_of_bound]
    by (simp add: decryptStored_def base64_decode_encode)
  ultimately show ?thesis by blast
qed

lemma GenerateRecoveryCodes_Inr:
  assumes "GenerateRecoveryCodes lib w = (Inr codes, w')"
  shows "length codes = 8 \<and>
    list_all (\<lambda>p. \<exists>n. bcrypt_Generate lib (normalizeRecoveryCode (fst p)) recoveryBcryptCost n = Inr (snd p)) codes"
proof -
  let ?P = "\<lambda>p. \<exists>n. bcrypt_Generate lib (normalizeRecoveryCode (fst p)) recoveryBcryptCost n = Inr (snd p)"
  have "length codes = length [0..<RecoveryCodeCount] \<and> list_all ?P codes"
    by (rule map_each_Inr [OF assms [unfolded GenerateRecoveryCodes_def]])
      (auto simp: hashRecoveryCode_def run_iffs go_simps)
  then show ?thesis by (simp add: RecoveryCodeCount_def)
qed

lemma ConfirmSetup_aborts: "aborts only_step (ConfirmSetup lib s u code)"
  unfolding ConfirmSetup_def
  by (intro rd.aborts_rules ValidateTOTP_read GenerateRecoveryCodes_read rd.frame_rules)

lemma ValidateTOTP_Inr_True:
  "ValidateTOTP lib secret code w = (Inr True, w') \<Longrightarrow>
     totp_Validate lib code secret (o_now (orc w) (stp w)) \<and> w' = tick w"
  by (auto simp: ValidateTOTP_def run_iffs go_simps split: if_splits)

lemma ConfirmSetup_Inr:
  assumes "ConfirmSetup lib s u code w = (Inr codes, w')"
  shows "\<exists>x pending secret hashes now.
     find (\<lambda>x. u_id x = u) (users w) = Some x \<and> u_2fa_pending x = Some pending \<and>
     decryptStored s pending = Inr secret \<and>
     totp_Validate lib code secret (o_now (orc w) (Suc (stp w))) \<and>
     users w' = update_where (\<lambda>x. u_id x = u) (promote now hashes) (users w) \<and>
     length codes = 8 \<and> length hashes = 8 \<and>
     list_all (\<lambda>p. \<exists>n. bcrypt_Generate lib (normalizeRecoveryCode (fst p)) recoveryBcryptCost n
       = Inr (snd p)) (zip codes hashes)"
proof -
  from assms obtain x pending secret v1 ps v2 where
    x: "find (\<lambda>x. u_id x = u) (users w) = Some x" "u_2fa_pending x = Some pending"
    and secret: "decryptStored s pending = Inr secret"
    and ok: "ValidateTOTP lib secret code (tick w) = (Inr True, v1)"
    and gen: "GenerateRecoveryCodes lib v1 = (Inr ps, v2)" and codes: "codes = map fst ps"
    and up: "users w' = update_where (\<lambda>x. u_id x = u)
        (promote (unix (o_now (orc v2) (stp v2))) (map snd ps)) (users v2)"
    by (auto simp: ConfirmSetup_def bnd_attempt db_query_row_cases bnd_eq_Inr_iff wrapping_eq_Inr_iff
        time_now_eq_Inr_iff db_exec_eq_Inr_iff go_simps update_users_def checked_Inr_iff
        split: option.splits if_splits)
  obtain n where v2: "v2 = v1\<lparr>stp := n\<rparr>" by (rule only_stepE [OF GenerateRecoveryCodes_read gen])
  note t = ValidateTOTP_Inr_True [OF ok]
  have "zip (map fst ps) (map snd ps) = ps" by (simp add: zip_map_fst_snd)
  with GenerateRecoveryCodes_Inr [OF gen] x secret t up v2 codes show ?thesis
    by (intro exI [of _ x] exI [of _ pending] exI [of _ secret] exI [of _ "map snd ps"]) auto
qed

text \<open>
  The second factor is switched on only for a user who proved possession of the pending secret, in
  one statement: the secret goes live, the pending one is cleared, and exactly eight recovery hashes
  are stored, those of the eight codes returned. A refused confirmation changes nothing.
\<close>

theorem ConfirmSetup_exact:
  "case ConfirmSetup lib s u code w of
     (Inr codes, w') \<Rightarrow>
       (\<exists>x pending secret hashes now.
          find (\<lambda>x. u_id x = u) (users w) = Some x \<and> u_2fa_pending x = Some pending \<and>
          decryptStored s pending = Inr secret \<and>
          totp_Validate lib code secret (o_now (orc w) (Suc (stp w))) \<and>
          users w' = update_where (\<lambda>x. u_id x = u) (promote now hashes) (users w) \<and>
          length codes = 8 \<and> length hashes = 8 \<and>
          list_all (\<lambda>p. \<exists>n. bcrypt_Generate lib (normalizeRecoveryCode (fst p)) recoveryBcryptCost n
              = Inr (snd p)) (zip codes hashes))
   | (Inl e, w') \<Rightarrow> (\<exists>n. w' = w\<lparr>stp := n\<rparr>)"
proof (cases "ConfirmSetup lib s u code w")
  case (Pair r w')
  show ?thesis
  proof (cases r)
    case (Inl e)
    with Pair only_step_D [OF abortsD [OF ConfirmSetup_aborts]] show ?thesis by simp
  next
    case (Inr codes)
    with Pair ConfirmSetup_Inr [of lib s u code w codes w'] show ?thesis by simp
  qed
qed

section \<open>Switching the second factor off, and recovery codes\<close>

definition same_users :: "'x db_scheme \<Rightarrow> 'x db_scheme \<Rightarrow> bool" where
  "same_users w w' \<longleftrightarrow> users w' = users w"

interpretation usr: frame same_users
  by unfold_locales (auto simp: same_users_def)

lemma totp_statements_users:
  "delete_totp_used q w = Inr (n, w') \<Longrightarrow> same_users w w'"
  "insert_totp_used t w = Inr (n, w') \<Longrightarrow> same_users w w'"
  by (auto simp: statement_defs checked_Inr_iff same_users_def)

lemma check_totp_users: "moves same_users (check_totp lib s u stored code)"
  unfolding check_totp_def ValidateAndConsumeTOTP_def claim_code_def
  by (intro usr.frame_rules moves_intro usr.frame_exec usr.frame_read [OF ValidateTOTP_read])
    (auto dest: totp_statements_users)

lemma check_totp_True:
  assumes "check_totp lib s u stored code w = (Inr True, w')"
  shows "\<exists>secret. decryptStored s stored = Inr secret \<and> totp_Validate lib code secret (o_now (orc w) (stp w))"
proof -
  from assms obtain secret where d: "decryptStored s stored = Inr secret"
    and v: "ValidateAndConsumeTOTP lib u secret code w = (Inr True, w')"
  proof (cases "decryptStored s stored")
    case (Inr secret)
    with assms that show thesis
      by (cases "ValidateAndConsumeTOTP lib u secret code w")
        (auto simp: check_totp_def bnd_lift_res bnd_attempt go_simps split: sum.splits if_splits)
  qed (auto simp: check_totp_def bnd_lift_res go_simps)
  from v have "totp_Validate lib code secret (o_now (orc w) (stp w))"
    by (auto simp: ValidateAndConsumeTOTP_def bnd_eq_Inr_iff go_simps split: if_splits
        dest: ValidateTOTP_Inr_True)
  with d show ?thesis by blast
qed

lemma Disable_aborts: "aborts same_users (Disable lib s u pw code)"
  unfolding Disable_def by (intro usr.aborts_rules usr.frame_rules check_totp_users)

lemma Disable_Inr:
  assumes "Disable lib s u pw code w = (Inr (), w')"
  shows "\<exists>x stored secret. find (\<lambda>x. u_id x = u) (users w) = Some x \<and>
     VerifyPassword (bcrypt_Compare lib) (u_password_hash x) pw \<and>
     u_2fa_enabled x \<and> u_2fa_secret x = Some stored \<and> decryptStored s stored = Inr secret \<and>
     totp_Validate lib code secret (o_now (orc w) (Suc (stp w))) \<and>
     users w' = update_where (\<lambda>x. u_id x = u) clear_2fa (users w)"
proof -
  from assms obtain x stored v where x: "find (\<lambda>x. u_id x = u) (users w) = Some x"
      "VerifyPassword (bcrypt_Compare lib) (u_password_hash x) pw" "u_2fa_enabled x"
      "u_2fa_secret x = Some stored"
    and c: "check_totp lib s u stored code (tick w) = (Inr True, v)"
    and w': "users w' = update_where (\<lambda>x. u_id x = u) clear_2fa (users v)"
    by (auto simp: Disable_def run_iffs go_simps update_users_def checked_Inr_iff
        split: if_splits option.splits)
  moreover have "users v = users w" using movesD [OF check_totp_users c] by (simp add: same_users_def)
  ultimately show ?thesis using check_totp_True [OF c] by auto
qed

text \<open>
  The second factor is switched off only with the password and a valid code, and then every
  two-factor column of the user is cleared; a refused request leaves the user rows as they were.
\<close>

theorem Disable_needs_both:
  "case Disable lib s u pw code w of
     (Inr _, w') \<Rightarrow>
       (\<exists>x stored secret. find (\<lambda>x. u_id x = u) (users w) = Some x \<and>
          VerifyPassword (bcrypt_Compare lib) (u_password_hash x) pw \<and>
          u_2fa_enabled x \<and> u_2fa_secret x = Some stored \<and> decryptStored s stored = Inr secret \<and>
          totp_Validate lib code secret (o_now (orc w) (Suc (stp w))) \<and>
          users w' = update_where (\<lambda>x. u_id x = u) clear_2fa (users w))
   | (Inl e, w') \<Rightarrow> users w' = users w"
proof -
  show ?thesis
  proof (cases "Disable lib s u pw code w")
    case (Pair r w')
    show ?thesis
    proof (cases r)
      case (Inl e)
      with Pair abortsD [OF Disable_aborts] show ?thesis by (simp add: same_users_def)
    next
      case (Inr x)
      with Pair Disable_Inr [of lib s u pw code w w'] show ?thesis by simp
    qed
  qed
qed

lemma check_recovery_Inr:
  assumes "check_recovery lib x code w = (Inr True, w')"
  shows "\<exists>hashes rest. u_recovery x = Some (Some hashes) \<and>
     VerifyAndConsumeRecoveryCode lib hashes code = (rest, True) \<and>
     users w' = update_where (\<lambda>y. u_id y = u_id x) (\<lambda>y. y\<lparr>u_recovery := Some (Some rest)\<rparr>) (users w)"
  using assms
  by (auto simp: check_recovery_def VerifyAndConsumeRecoveryCode_def [of lib "[]"] run_iffs go_simps
      update_users_def checked_Inr_iff split: option.splits prod.splits if_splits)

lemma check_recovery_False: "check_recovery lib x code w = (Inr False, w') \<Longrightarrow> w' = w"
  by (auto simp: check_recovery_def run_iffs go_simps split: option.splits prod.splits if_splits)

lemma check_recovery_aborts: "aborts same_users (check_recovery lib x code)"
  unfolding check_recovery_def
  by (intro usr.aborts_bnd usr.frame_rules moves_intro)
    (auto intro!: usr.aborts_rules usr.aborts_moves [OF usr.frame_ret] split: prod.split)

lemma VerifyUserCode_recovery_Inr:
  assumes "VerifyUserCode lib s u code ''recovery'' w = (Inr (), w')"
  shows "\<exists>x hashes rest. find (\<lambda>x. u_id x = u) (users w) = Some x \<and> u_2fa_enabled x \<and>
     u_recovery x = Some (Some hashes) \<and> VerifyAndConsumeRecoveryCode lib hashes code = (rest, True) \<and>
     users w' = update_where (\<lambda>y. u_id y = u) (\<lambda>y. y\<lparr>u_recovery := Some (Some rest)\<rparr>) (users w)"
proof -
  from assms obtain x where x: "find (\<lambda>x. u_id x = u) (users w) = Some x" "u_2fa_enabled x"
    and c: "check_recovery lib x code (tick w) = (Inr True, w')"
    by (auto simp: VerifyUserCode_def run_iffs go_simps split: if_splits option.splits)
  with check_recovery_Inr [OF c] find_SomeD [OF x(1)] show ?thesis by auto
qed

lemma recovery_checked_aborts:
  "aborts same_users (bnd (check_recovery lib x code) (\<lambda>ok. if \<not> ok then fail ErrInvalidCode else ret ()))"
  using abortsD [OF check_recovery_aborts, of lib x code]
  by (auto simp: aborts_def bnd_eq_Inl_iff go_simps same_users_def split: if_splits
      dest: check_recovery_False)

lemma VerifyUserCode_recovery_eq:
  "VerifyUserCode lib s u code ''recovery'' =
     bnd (wrapping ''load user 2fa'' (db_query_row (\<lambda>w. find (\<lambda>x. u_id x = u) (users w)))) (\<lambda>x.
       case u_2fa_secret x of
         None \<Rightarrow> fail ErrChallengeInvalidUserState
       | Some stored \<Rightarrow> if \<not> u_2fa_enabled x then fail ErrChallengeInvalidUserState
           else bnd (check_recovery lib x code) (\<lambda>ok. if \<not> ok then fail ErrInvalidCode else ret ()))"
  unfolding VerifyUserCode_def by (rule arg_cong2 [of _ _ _ _ bnd]) (auto split: option.split)

lemma VerifyUserCode_recovery_aborts: "aborts same_users (VerifyUserCode lib s u code ''recovery'')"
  unfolding VerifyUserCode_recovery_eq
  by (rule usr.aborts_bnd, intro usr.frame_rules)
    (intro aborts_intro usr.aborts_fail recovery_checked_aborts)

lemma takeWhile_shorter: "list_ex p hs \<Longrightarrow> length (takeWhile (\<lambda>h. \<not> p h) hs) < length hs"
  by (induction hs) auto

lemma consumed_length:
  assumes "VerifyAndConsumeRecoveryCode lib hashes code = (rest, True)"
  shows "Suc (length rest) = length hashes"
  using assms takeWhile_shorter [of "\<lambda>h. bcrypt_Compare lib h (normalizeRecoveryCode code)" hashes]
  by (auto simp: VerifyAndConsumeRecoveryCode_def match_loop_first split: if_splits)

text \<open>
  A recovery code works once: when it is accepted, the user had the second factor enabled, the
  code matched one of the stored hashes, and the list stored afterwards is the old one without that
  hash, hence shorter by one; when it is refused the user rows are unchanged.
\<close>

theorem recovery_code_consumed:
  "case VerifyUserCode lib s u code ''recovery'' w of
     (Inr _, w') \<Rightarrow>
       (\<exists>x hashes rest. find (\<lambda>x. u_id x = u) (users w) = Some x \<and> u_2fa_enabled x \<and>
          u_recovery x = Some (Some hashes) \<and>
          VerifyAndConsumeRecoveryCode lib hashes code = (rest, True) \<and>
          Suc (length rest) = length hashes \<and>
          users w' = update_where (\<lambda>y. u_id y = u) (\<lambda>y. y\<lparr>u_recovery := Some (Some rest)\<rparr>) (users w))
   | (Inl e, w') \<Rightarrow> users w' = users w"
proof (cases "VerifyUserCode lib s u code ''recovery'' w")
  case (Pair r w')
  show ?thesis
  proof (cases r)
    case (Inl e)
    with Pair abortsD [OF VerifyUserCode_recovery_aborts] show ?thesis by (simp add: same_users_def)
  next
    case (Inr x)
    with Pair VerifyUserCode_recovery_Inr [of lib s u code w w'] consumed_length show ?thesis by fastforce
  qed
qed

section \<open>Witnesses\<close>

text \<open>
  A library in which bcrypt is the identity, the cipher appends sixteen zero bytes, and one code is
  valid in the time steps 33 to 35 (step 34 and one step of skew on either side, as the TOTP library
  documents); a clock that reads 1000 seconds for four steps, then 1025.
\<close>

definition fx_aead :: aead where
  "fx_aead = \<lparr>aead_Seal = (\<lambda>n p. p @ replicate 16 0),
     aead_Open = (\<lambda>n c. Some (take (length c - 16) c)), aead_Overhead = 16\<rparr>"

definition fx_lib :: tf_lib where
  "fx_lib = \<lparr>bcrypt_Generate = (\<lambda>p c n. Inr p), bcrypt_Compare = (\<lambda>h p. h = p),
     totp_Generate = (\<lambda>a i n. Inr (''SECRET'', ''otpauth'')),
     totp_Validate = (\<lambda>code secret t. code = ''123456'' \<and> 33 \<le> unix t div 30 \<and> unix t div 30 \<le> 35),
     qrcode_Encode = (\<lambda>u. Inr [])\<rparr>"

definition fx_tfs :: TwoFactorService where
  "fx_tfs = NewTwoFactorService fx_aead []"

definition fx_sealed :: string where
  "fx_sealed = base64_encode base64_std ''='' (replicate 12 0 @ bytes_of ''S'' @ replicate 16 0)"

definition fx_auth :: authdb where
  "fx_auth =
     \<lparr>orc = quiet_env\<lparr>o_now := (\<lambda>n. (if n < 4 then 1000 else 1025) * second), o_rand := (\<lambda>_. Some [])\<rparr>,
      stp = 0, users = [(fx_user ''u1'' ''a@x.io'' ''active'' None)\<lparr>u_2fa_enabled := True,
        u_2fa_secret := Some fx_sealed, u_recovery := Some (Some [''AAAA'', ''BBBB''])\<rparr>], roles = [],
      teams = [], team_members = [], apps = [], refresh_tokens = [], totp_used = [], api_tokens = [], settings = [], servers = [],
      domains = [], secrets = [], app_volumes = [], deployments = [], dns_zones = [], git_sources = [],
      tags = [], app_tags = [],
      items = [''c1'' \<mapsto> \<lparr>ch_ID = ''c1'', ch_UserID = ''u1'', ch_ExpiresAt = 2000 * second, ch_Attempts = 3\<rparr>]\<rparr>"

theorem VerifyChallenge_single_use_witness:
  "fst (VerifyChallenge fx_lib fx_tfs ''c1'' ''aaaa'' ''recovery'' fx_auth) = Inr ''u1'' \<and>
   fst (VerifyChallenge fx_lib fx_tfs ''c1'' ''bbbb'' ''recovery''
     (snd (VerifyChallenge fx_lib fx_tfs ''c1'' ''aaaa'' ''recovery'' fx_auth))) = Inl ErrChallengeNotFound"
proof -
  have h: "fst (VerifyChallenge fx_lib fx_tfs ''c1'' ''aaaa'' ''recovery'' fx_auth) = Inr ''u1''"
    by code_simp
  from VerifyChallenge_single_use [OF fst_result [OF h]] h show ?thesis by blast
qed

text \<open>
  The first acceptance falls into the window of second 990, the second one, 25 seconds later, into
  the window of second 1020: the same code is accepted twice.
\<close>

theorem totp_once_per_window_witness:
  "fst (ValidateAndConsumeTOTP fx_lib ''u1'' ''S'' ''123456'' fx_auth) = Inr True \<and>
   fst (ValidateAndConsumeTOTP fx_lib ''u1'' ''S'' ''123456''
     (snd (ValidateAndConsumeTOTP fx_lib ''u1'' ''S'' ''123456'' fx_auth))) = Inr True \<and>
   totp_window (unix (o_now (orc (snd (ValidateAndConsumeTOTP fx_lib ''u1'' ''S'' ''123456'' fx_auth)))
       (Suc (stp (snd (ValidateAndConsumeTOTP fx_lib ''u1'' ''S'' ''123456'' fx_auth))))))
     \<noteq> totp_window (unix (o_now (orc fx_auth) (Suc (stp fx_auth))))"
proof -
  let ?w1 = "snd (ValidateAndConsumeTOTP fx_lib ''u1'' ''S'' ''123456'' fx_auth)"
  have h1: "fst (ValidateAndConsumeTOTP fx_lib ''u1'' ''S'' ''123456'' fx_auth) = Inr True" by code_simp
  have h2: "fst (ValidateAndConsumeTOTP fx_lib ''u1'' ''S'' ''123456'' ?w1) = Inr True" by code_simp
  have u: "trim_space ''u1'' \<noteq> []" by code_simp
  have run: "(tf_call fx_lib fx_tfs)\<^sup>*\<^sup>* ?w1 ?w1" by (rule rtranclp.rtrancl_refl)
  have env: "orc ?w1 = orc fx_auth"
    using movesD [OF ValidateAndConsumeTOTP_guarded fst_result [OF h1]] by (simp add: guarded_def)
  have win: "totp_window (unix (o_now (orc fx_auth) (Suc (stp fx_auth)))) = 990" by code_simp
  have "unix (o_now (orc ?w1) n) \<le>
      totp_window (unix (o_now (orc fx_auth) (Suc (stp fx_auth)))) + totpReplayCleanupSec" for n
    unfolding env win by (simp add: fx_auth_def unix_def second_def totpReplayCleanupSec_def)
  from h1 h2 totp_once_per_window [OF fst_result [OF h1] u run fst_result [OF h2] this]
  show ?thesis by blast
qed

theorem InitiateSetup_roundtrip_witness:
  "\<exists>b64. map_option u_2fa_pending (find (\<lambda>x. u_id x = ''u1'')
       (users (snd (InitiateSetup fx_lib fx_tfs ''u1'' ''a@x.io'' fx_auth)))) = Some (Some b64) \<and>
     decryptStored fx_tfs b64 = Inr ''SECRET''"
proof -
  have h: "fst (InitiateSetup fx_lib fx_tfs ''u1'' ''a@x.io'' fx_auth) = Inr (''SECRET'', ''otpauth'', [])"
    by code_simp
  obtain x where x: "find (\<lambda>x. u_id x = ''u1'') (users fx_auth) = Some x"
    by (auto simp: fx_auth_def fx_user_def)
  have "aead_law (tfs_cipher fx_tfs)" "bytes_law (tfs_cipher fx_tfs)"
    by (auto simp: aead_law_def bytes_law_def fx_tfs_def NewTwoFactorService_def fx_aead_def list_all_iff)
  from InitiateSetup_roundtrip [OF fst_result [OF h] x this] show ?thesis by auto
qed

end
