(* ===== verification/RateLimit.thy ===== *)
theory RateLimit
  imports Complex_Main Prelude
begin

text \<open>
  The per-client rate limiters (\<open>internal/api/apimiddleware/ratelimit.go\<close>). The login limiter and the
  refresh limiter of the source are the same token bucket with different constants; both are
  instances of the parameterised operations below. Each operation takes the reading of the clock it
  makes (in nanoseconds) as its first argument and the map of buckets as explicit state; the mutex of
  the source makes each of them one step. Token counts, \<open>float64\<close> in the source, are exact rationals
  here: rounding is not modelled. IP parsing and CIDR membership (package \<open>net\<close>) are parameters.
\<close>

section \<open>Buckets\<close>

record loginBucket =
  tokens :: rat
  lastSeen :: int

type_synonym buckets = "string \<Rightarrow> loginBucket option"

definition loginBurst :: nat where "loginBurst = 5"

definition loginWindow :: int where "loginWindow = 15 * 60 * second"

definition loginCleanupTTL :: int where "loginCleanupTTL = 30 * 60 * second"

definition refreshBurst :: nat where "refreshBurst = 30"

definition refreshWindow :: int where "refreshWindow = 60 * second"

definition refreshCleanupTTL :: int where "refreshCleanupTTL = 5 * 60 * second"

definition refilled :: "nat \<Rightarrow> int \<Rightarrow> int \<Rightarrow> loginBucket option \<Rightarrow> loginBucket" where
  "refilled burst window now entry =
     (case entry of
        None \<Rightarrow> \<lparr>tokens = of_nat burst, lastSeen = now\<rparr>
      | Some b \<Rightarrow>
          (let elapsed = now - lastSeen b;
               t = (if elapsed > 0
                    then (let s = tokens b + of_nat burst * (of_int elapsed / of_int window)
                          in if s > of_nat burst then of_nat burst else s)
                    else tokens b)
           in \<lparr>tokens = t, lastSeen = now\<rparr>))"

definition refill :: "nat \<Rightarrow> int \<Rightarrow> int \<Rightarrow> string \<Rightarrow> buckets \<Rightarrow> loginBucket \<times> buckets" where
  "refill burst window now ip l =
     (let b = refilled burst window now (l ip) in (b, l(ip \<mapsto> b)))"

definition sweep :: "int \<Rightarrow> int \<Rightarrow> buckets \<Rightarrow> buckets" where
  "sweep ttl now l =
     (\<lambda>ip. case l ip of
        None \<Rightarrow> None
      | Some b \<Rightarrow> if lastSeen b < now - ttl then None else Some b)"

subsection \<open>The login limiter\<close>

definition login_refill :: "int \<Rightarrow> string \<Rightarrow> buckets \<Rightarrow> loginBucket \<times> buckets" where
  "login_refill = refill loginBurst loginWindow"

definition login_allow :: "int \<Rightarrow> string \<Rightarrow> buckets \<Rightarrow> bool \<times> buckets" where
  "login_allow now ip l = (case login_refill now ip l of (b, l') \<Rightarrow> (tokens b \<ge> 1, l'))"

definition countFailure :: "int \<Rightarrow> string \<Rightarrow> buckets \<Rightarrow> buckets" where
  "countFailure now ip l =
     (case login_refill now ip l of (b, l') \<Rightarrow>
        let t = tokens b - 1 in l'(ip \<mapsto> b\<lparr>tokens := (if t < 0 then 0 else t)\<rparr>))"

definition login_cleanup :: "int \<Rightarrow> buckets \<Rightarrow> buckets" where
  "login_cleanup = sweep loginCleanupTTL"

subsection \<open>The refresh limiter\<close>

definition refresh_refill :: "int \<Rightarrow> string \<Rightarrow> buckets \<Rightarrow> loginBucket \<times> buckets" where
  "refresh_refill = refill refreshBurst refreshWindow"

definition refresh_allow :: "int \<Rightarrow> string \<Rightarrow> buckets \<Rightarrow> bool \<times> buckets" where
  "refresh_allow now ip l =
     (case refresh_refill now ip l of (b, l') \<Rightarrow>
        if tokens b < 1 then (False, l') else (True, l'(ip \<mapsto> b\<lparr>tokens := tokens b - 1\<rparr>)))"

definition refresh_cleanup :: "int \<Rightarrow> buckets \<Rightarrow> buckets" where
  "refresh_cleanup = sweep refreshCleanupTTL"

section \<open>The client address\<close>

record ('ip, 'net) net_lib =
  net_ParseIP :: "string \<Rightarrow> 'ip option"
  net_To4 :: "'ip \<Rightarrow> bool"
  net_ParseCIDR :: "string \<Rightarrow> 'net option"
  net_Contains :: "'net \<Rightarrow> 'ip \<Rightarrow> bool"
  net_SplitHostPort :: "string \<Rightarrow> string option"

record request =
  RemoteAddr :: string
  xForwardedFor :: string
  xRealIP :: string

definition itoa :: "nat \<Rightarrow> string" where
  "itoa n = (if n = 32 then ''32'' else if n = 128 then ''128'' else [])"

definition trusted_entry :: "('ip, 'net) net_lib \<Rightarrow> string \<Rightarrow> string" where
  "trusted_entry lib s =
     (if CHR ''/'' \<notin> set s
      then (case net_ParseIP lib s of
              None \<Rightarrow> s
            | Some ip \<Rightarrow> s @ ''/'' @ itoa (if net_To4 lib ip then 32 else 128))
      else s)"

fun parseTrusted :: "('ip, 'net) net_lib \<Rightarrow> string list \<Rightarrow> 'net list" where
  "parseTrusted lib [] = []"
| "parseTrusted lib (x # xs) =
     (let s = trim_space x
      in if s = [] then parseTrusted lib xs
         else case net_ParseCIDR lib (trusted_entry lib s) of
             None \<Rightarrow> parseTrusted lib xs
           | Some n \<Rightarrow> n # parseTrusted lib xs)"

definition remoteHost :: "('ip, 'net) net_lib \<Rightarrow> string \<Rightarrow> string" where
  "remoteHost lib addr = (case net_SplitHostPort lib addr of None \<Rightarrow> addr | Some host \<Rightarrow> host)"

definition inTrusted :: "('ip, 'net) net_lib \<Rightarrow> 'ip \<Rightarrow> 'net list \<Rightarrow> bool" where
  "inTrusted lib ip trusted = list_ex (\<lambda>n. net_Contains lib n ip) trusted"

definition clientIP :: "('ip, 'net) net_lib \<Rightarrow> request \<Rightarrow> 'net list \<Rightarrow> string" where
  "clientIP lib r trusted =
     (let remote = remoteHost lib (RemoteAddr r)
      in if trusted = [] then remote
         else case net_ParseIP lib remote of
             None \<Rightarrow> remote
           | Some ip \<Rightarrow>
               (if \<not> inTrusted lib ip trusted then remote
                else
                  let first = trim_space (fst (cut_at (CHR '','') (xForwardedFor r)))
                  in if xForwardedFor r \<noteq> [] \<and> first \<noteq> [] then first
                     else if trim_space (xRealIP r) \<noteq> [] then trim_space (xRealIP r)
                     else remote))"

section \<open>The middlewares\<close>

text \<open>What a request to the guarded route becomes: refused with status 429, or passed on, the login
  route with the handle that \<open>CountLoginFailure\<close> uses later.\<close>

datatype limited = TooManyRequests | Pass "string option"

definition LoginRateLimit ::
  "('ip, 'net) net_lib \<Rightarrow> string list \<Rightarrow> int \<Rightarrow> request \<Rightarrow> buckets \<Rightarrow> limited \<times> buckets" where
  "LoginRateLimit lib proxies now r l =
     (let ip = clientIP lib r (parseTrusted lib proxies)
      in case login_allow now ip l of
          (ok, l') \<Rightarrow> if \<not> ok then (TooManyRequests, l') else (Pass (Some ip), l'))"

definition CountLoginFailure :: "string option \<Rightarrow> int \<Rightarrow> buckets \<Rightarrow> buckets" where
  "CountLoginFailure h now l = (case h of None \<Rightarrow> l | Some ip \<Rightarrow> countFailure now ip l)"

definition RefreshRateLimit ::
  "('ip, 'net) net_lib \<Rightarrow> string list \<Rightarrow> int \<Rightarrow> request \<Rightarrow> buckets \<Rightarrow> limited \<times> buckets" where
  "RefreshRateLimit lib proxies now r l =
     (let ip = clientIP lib r (parseTrusted lib proxies)
      in case refresh_allow now ip l of
          (ok, l') \<Rightarrow> if \<not> ok then (TooManyRequests, l') else (Pass None, l'))"

end
