(* ===== verification/RateLimit_Props.thy ===== *)
theory RateLimit_Props
  imports RateLimit
begin

text \<open>
  What the rate limiters guarantee: the locale \<open>token_bucket\<close> states what a limiter needs of its
  constants and proves how the tokens of a client evolve; the login and the refresh limiter are its two
  interpretations, and the bounds on what they let through follow.
\<close>

section \<open>The token bucket\<close>

text \<open>
  What both limiters need of their constants, and what follows: the tokens a client has at a given
  time, never more than the burst, grow at most at the refill rate, and forgetting an idle client
  cannot be observed.
\<close>

definition level :: "nat \<Rightarrow> int \<Rightarrow> int \<Rightarrow> string \<Rightarrow> buckets \<Rightarrow> rat" where
  "level burst window now ip l = tokens (refilled burst window now (l ip))"

definition buckets_ok :: "nat \<Rightarrow> int \<Rightarrow> buckets \<Rightarrow> bool" where
  "buckets_ok burst now l \<longleftrightarrow>
     (\<forall>ip b. l ip = Some b \<longrightarrow> 0 \<le> tokens b \<and> tokens b \<le> of_nat burst \<and> lastSeen b \<le> now)"

locale token_bucket =
  fixes burst :: nat and window ttl :: int
  assumes window_pos: "0 < window" and ttl_window: "window \<le> ttl"
begin

abbreviation rate :: rat where
  "rate \<equiv> of_nat burst / of_int window"

lemma level_Some:
  assumes "l ip = Some b" and "lastSeen b \<le> now" and "tokens b \<le> of_nat burst"
  shows "level burst window now ip l = min (of_nat burst) (tokens b + rate * of_int (now - lastSeen b))"
  using assms by (auto simp: level_def refilled_def Let_def min_def)

lemma level_None: "l ip = None \<Longrightarrow> level burst window now ip l = of_nat burst"
  by (simp add: level_def refilled_def)

lemma level_bounds:
  assumes "buckets_ok burst now l"
  shows "0 \<le> level burst window now ip l" and "level burst window now ip l \<le> of_nat burst"
proof -
  show "level burst window now ip l \<le> of_nat burst"
    using assms by (cases "l ip") (auto simp: level_None level_Some buckets_ok_def)
  show "0 \<le> level burst window now ip l"
    using assms window_pos by (cases "l ip") (auto simp: level_None level_Some buckets_ok_def)
qed

lemma level_grows:
  assumes "buckets_ok burst now l" and "now \<le> later"
  shows "level burst window now ip l \<le> level burst window later ip l"
    and "level burst window later ip l \<le> level burst window now ip l + rate * of_int (later - now)"
proof -
  have "0 \<le> rate" using window_pos by simp
  then have nn: "0 \<le> rate * of_int (later - now)" using assms(2) by (intro mult_nonneg_nonneg) auto
  have "level burst window now ip l \<le> level burst window later ip l \<and>
     level burst window later ip l \<le> level burst window now ip l + rate * of_int (later - now)"
  proof (cases "l ip")
    case None
    then have "level burst window t ip l = of_nat burst" for t by (rule level_None)
    with nn show ?thesis by simp
  next
    case (Some b)
    then have b: "lastSeen b \<le> now" "tokens b \<le> of_nat burst" using assms(1) by (auto simp: buckets_ok_def)
    have eq: "rate * of_int (later - lastSeen b) = rate * of_int (now - lastSeen b) + rate * of_int (later - now)"
      unfolding distrib_left [symmetric] by simp
    from nn Some b assms(2) eq show ?thesis
      by (simp add: level_Some min_def)
  qed
  then show "level burst window now ip l \<le> level burst window later ip l"
    and "level burst window later ip l \<le> level burst window now ip l + rate * of_int (later - now)"
    by simp_all
qed

lemma level_refill: "level burst window now ip (l(ip \<mapsto> refilled burst window now (l ip))) = level burst window now ip l"
  by (simp add: level_def refilled_def Let_def split: option.split)

lemma level_sweep:
  assumes "buckets_ok burst now l" and "now \<le> later"
  shows "level burst window later ip (sweep ttl now l) = level burst window later ip l"
proof (cases "l ip")
  case None
  then show ?thesis by (simp add: level_def sweep_def)
next
  case (Some b)
  show ?thesis
  proof (cases "lastSeen b < now - ttl")
    case False
    with Some show ?thesis by (simp add: level_def sweep_def)
  next
    case True
    have b: "lastSeen b \<le> later" "tokens b \<le> of_nat burst" "0 \<le> tokens b"
      using assms Some by (force simp: buckets_ok_def)+
    have "of_int window \<le> (of_int (later - lastSeen b) :: rat)"
      using True assms(2) ttl_window by linarith
    then have "rate * of_int window \<le> rate * of_int (later - lastSeen b)"
      using window_pos by (intro mult_left_mono) auto
    moreover have "rate * of_int window = of_nat burst" using window_pos by simp
    ultimately have "of_nat burst \<le> rate * of_int (later - lastSeen b)" by simp
    with b Some have "level burst window later ip l = of_nat burst" by (simp add: level_Some min_def)
    moreover have "sweep ttl now l ip = None" using Some True by (simp add: sweep_def)
    ultimately show ?thesis by (simp add: level_None)
  qed
qed

lemma buckets_ok_later: "buckets_ok burst now l \<Longrightarrow> now \<le> later \<Longrightarrow> buckets_ok burst later l"
  by (fastforce simp: buckets_ok_def)

lemma buckets_ok_sweep: "buckets_ok burst now l \<Longrightarrow> buckets_ok burst now (sweep ttl t l)"
  by (auto simp: buckets_ok_def sweep_def split: option.splits if_splits)

lemma buckets_ok_put:
  "buckets_ok burst now l \<Longrightarrow> 0 \<le> t \<Longrightarrow> t \<le> of_nat burst \<Longrightarrow>
     buckets_ok burst now (l(ip \<mapsto> \<lparr>tokens = t, lastSeen = now\<rparr>))"
  by (simp add: buckets_ok_def)

lemma level_empty: "level burst window now ip Map.empty = of_nat burst"
  by (simp add: level_None)

text \<open>A bound at time \<open>t\<close> is one at an earlier time.\<close>

lemma advance:
  assumes "x \<le> level burst window t ip l + rate * of_int (stop - t)"
    and "buckets_ok burst now l" and "now \<le> t"
  shows "x \<le> level burst window now ip l + rate * of_int (stop - now)"
proof -
  have "rate * of_int (stop - now) = rate * of_int (stop - t) + rate * of_int (t - now)"
    unfolding distrib_left [symmetric] by simp
  with assms(1) level_grows(2) [OF assms(2,3), of ip] show ?thesis by linarith
qed

lemma refilled_level: "refilled burst window now (l ip) = \<lparr>tokens = level burst window now ip l, lastSeen = now\<rparr>"
  by (simp add: level_def refilled_def Let_def split: option.split)

lemma level_put: "level burst window now ip (l(ip \<mapsto> \<lparr>tokens = t, lastSeen = now\<rparr>)) = t"
  by (simp add: level_def refilled_def)

lemma level_other: "j \<noteq> ip \<Longrightarrow> level burst window now ip (l(j \<mapsto> b)) = level burst window now ip l"
  by (simp add: level_def)

end

interpretation login: token_bucket loginBurst loginWindow loginCleanupTTL
  by unfold_locales (simp_all add: loginWindow_def loginCleanupTTL_def second_def)

interpretation refresh: token_bucket refreshBurst refreshWindow refreshCleanupTTL
  by unfold_locales (simp_all add: refreshWindow_def refreshCleanupTTL_def second_def)

section \<open>Bounds over a run\<close>

text \<open>The refresh route sees requests and sweeps, each at its time.\<close>

datatype refresh_event = Request string | Sweep

fun refresh_run :: "(int \<times> refresh_event) list \<Rightarrow> buckets \<Rightarrow> (string \<times> bool) list" where
  "refresh_run [] l = []"
| "refresh_run ((now, Request ip) # evs) l =
     (case refresh_allow now ip l of (ok, l') \<Rightarrow> (ip, ok) # refresh_run evs l')"
| "refresh_run ((now, Sweep) # evs) l = refresh_run evs (refresh_cleanup now l)"

definition granted :: "string \<Rightarrow> (string \<times> bool) list \<Rightarrow> nat" where
  "granted ip ds = length (filter (\<lambda>d. d = (ip, True)) ds)"

abbreviation refresh_level :: "int \<Rightarrow> string \<Rightarrow> buckets \<Rightarrow> rat" where
  "refresh_level \<equiv> level refreshBurst refreshWindow"

lemma refresh_allow_eq:
  "refresh_allow now ip l =
     (if refresh_level now ip l < 1
      then (False, l(ip \<mapsto> \<lparr>tokens = refresh_level now ip l, lastSeen = now\<rparr>))
      else (True, l(ip \<mapsto> \<lparr>tokens = refresh_level now ip l - 1, lastSeen = now\<rparr>)))"
  by (simp add: refresh_allow_def refresh_refill_def refill_def refresh.refilled_level Let_def)

lemma refresh_allow_step:
  assumes "buckets_ok refreshBurst now l" and "refresh_allow now j l = (ok, l')"
  shows "buckets_ok refreshBurst now l'"
    and "refresh_level now ip l' = refresh_level now ip l - (if ok \<and> j = ip then 1 else 0)"
proof -
  note b = refresh.level_bounds [OF assms(1), of j]
  show "buckets_ok refreshBurst now l'"
    using assms b by (auto simp: refresh_allow_eq split: if_splits intro!: refresh.buckets_ok_put)
  show "refresh_level now ip l' = refresh_level now ip l - (if ok \<and> j = ip then 1 else 0)"
    using assms(2)
    by (cases "j = ip") (auto simp: refresh_allow_eq refresh.level_put refresh.level_other split: if_splits)
qed

lemma refresh_run_bound:
  assumes "buckets_ok refreshBurst now l" and "sorted (now # map fst evs)"
    and "list_all (\<lambda>e. fst e \<le> stop) evs" and "now \<le> stop"
  shows "of_nat (granted ip (refresh_run evs l)) \<le>
     refresh_level now ip l + of_nat refreshBurst / of_int refreshWindow * of_int (stop - now)"
  using assms
proof (induction evs arbitrary: l now)
  case Nil
  then show ?case
    using refresh.level_bounds [OF Nil.prems(1), of ip] refresh.window_pos by (simp add: granted_def)
next
  case (Cons e evs)
  obtain t ev where e: "e = (t, ev)" by (cases e)
  with Cons.prems have t: "now \<le> t" "t \<le> stop" "sorted (t # map fst evs)" "list_all (\<lambda>e. fst e \<le> stop) evs"
    by auto
  have ok: "buckets_ok refreshBurst t l" by (rule refresh.buckets_ok_later [OF Cons.prems(1) t(1)])
  have "of_nat (granted ip (refresh_run (e # evs) l)) \<le>
      refresh_level t ip l + of_nat refreshBurst / of_int refreshWindow * of_int (stop - t)"
  proof (cases ev)
    case (Request j)
    obtain ok' l' where al: "refresh_allow t j l = (ok', l')" by fastforce
    note st = refresh_allow_step [OF ok al]
    have "granted ip (refresh_run (e # evs) l) =
        granted ip (refresh_run evs l') + (if ok' \<and> j = ip then 1 else 0)"
      using e Request al by (simp add: granted_def)
    with Cons.IH [OF st(1) t(3,4,2)] st(2) [of ip] show ?thesis by (cases "ok' \<and> j = ip") auto
  next
    case Sweep
    have sw: "buckets_ok refreshBurst t (refresh_cleanup t l)"
      unfolding refresh_cleanup_def by (rule refresh.buckets_ok_sweep [OF ok])
    have "refresh_level t ip (refresh_cleanup t l) = refresh_level t ip l"
      unfolding refresh_cleanup_def by (rule refresh.level_sweep [OF ok order_refl])
    with Cons.IH [OF sw t(3,4,2)] e Sweep show ?thesis by simp
  qed
  then show ?case by (rule refresh.advance [OF _ Cons.prems(1) t(1)])
qed

text \<open>
  C35. The refresh limiter caps every client: among any requests and cleanups at non-decreasing times,
  the number of requests let through for one address is at most the burst of thirty plus thirty for
  every minute that passed. The cleanup of idle buckets does not loosen the bound.
\<close>

theorem refresh_requests_bounded:
  assumes "sorted (start # map fst evs)" and "list_all (\<lambda>e. fst e \<le> stop) evs" and "start \<le> stop"
  shows "of_nat (granted ip (refresh_run evs Map.empty)) \<le>
     (30 :: rat) + 30 * of_int (stop - start) / of_int (60 * second)"
proof -
  have A: "of_nat (granted ip (refresh_run evs Map.empty)) \<le> refresh_level start ip Map.empty +
      of_nat refreshBurst / of_int refreshWindow * of_int (stop - start)"
    by (rule refresh_run_bound [OF _ assms]) (simp add: buckets_ok_def)
  have B: "refresh_level start ip Map.empty = 30"
    unfolding refresh.level_empty by (simp add: refreshBurst_def)
  have C: "of_nat refreshBurst / of_int refreshWindow * x = 30 * x / of_int (60 * second)" for x :: rat
    by (simp add: refreshBurst_def refreshWindow_def)
  from A show ?thesis unfolding B C .
qed

text \<open>
  The login route: an attempt is checked on arrival and, if let through, its failure is counted when
  the password has been compared.
\<close>

datatype login_event = Attempt int int string | Clean int

fun login_times :: "login_event \<Rightarrow> int list" where
  "login_times (Attempt t t' ip) = [t, t']"
| "login_times (Clean t) = [t]"

fun login_run :: "login_event list \<Rightarrow> buckets \<Rightarrow> (string \<times> bool) list" where
  "login_run [] l = []"
| "login_run (Attempt t t' ip # evs) l =
     (case login_allow t ip l of (ok, l') \<Rightarrow>
        (ip, ok) # login_run evs (if ok then countFailure t' ip l' else l'))"
| "login_run (Clean t # evs) l = login_run evs (login_cleanup t l)"

abbreviation login_level :: "int \<Rightarrow> string \<Rightarrow> buckets \<Rightarrow> rat" where
  "login_level \<equiv> level loginBurst loginWindow"

lemma login_allow_eq:
  "login_allow now ip l =
     (login_level now ip l \<ge> 1, l(ip \<mapsto> \<lparr>tokens = login_level now ip l, lastSeen = now\<rparr>))"
  by (simp add: login_allow_def login_refill_def refill_def login.refilled_level Let_def)

lemma countFailure_eq:
  "countFailure now ip l =
     l(ip \<mapsto> \<lparr>tokens = max 0 (login_level now ip l - 1), lastSeen = now\<rparr>)"
  by (auto simp: countFailure_def login_refill_def refill_def login.refilled_level Let_def max_def)

lemma login_allow_step:
  assumes "buckets_ok loginBurst now l" and "login_allow now j l = (ok, l')"
  shows "buckets_ok loginBurst now l'" and "login_level now ip l' = login_level now ip l"
    and "ok \<longleftrightarrow> 1 \<le> login_level now j l"
proof -
  note b = login.level_bounds [OF assms(1), of j]
  show "buckets_ok loginBurst now l'"
    using assms b by (auto simp: login_allow_eq intro!: login.buckets_ok_put)
  show "login_level now ip l' = login_level now ip l"
    using assms(2) by (cases "j = ip") (auto simp: login_allow_eq login.level_put login.level_other)
  show "ok \<longleftrightarrow> 1 \<le> login_level now j l" using assms(2) by (simp add: login_allow_eq)
qed

lemma countFailure_step:
  assumes "buckets_ok loginBurst now l" and "1 \<le> login_level now j l"
  shows "buckets_ok loginBurst now (countFailure now j l)"
    and "login_level now ip (countFailure now j l) = login_level now ip l - (if j = ip then 1 else 0)"
proof -
  note b = login.level_bounds [OF assms(1), of j]
  show "buckets_ok loginBurst now (countFailure now j l)"
    using assms b by (auto simp: countFailure_eq intro!: login.buckets_ok_put)
  show "login_level now ip (countFailure now j l) = login_level now ip l - (if j = ip then 1 else 0)"
    using assms(2) by (cases "j = ip") (auto simp: countFailure_eq login.level_put login.level_other)
qed

lemma login_run_bound:
  assumes "buckets_ok loginBurst now l" and "sorted (now # concat (map login_times evs))"
    and "list_all (\<lambda>t. t \<le> stop) (concat (map login_times evs))" and "now \<le> stop"
  shows "of_nat (granted ip (login_run evs l)) \<le>
     login_level now ip l + of_nat loginBurst / of_int loginWindow * of_int (stop - now)"
  using assms
proof (induction evs arbitrary: l now)
  case Nil
  then show ?case
    using login.level_bounds [OF Nil.prems(1), of ip] login.window_pos by (simp add: granted_def)
next
  case (Cons ev evs)
  let ?r = "of_nat loginBurst / of_int loginWindow :: rat"
  show ?case
  proof (cases ev)
    case (Clean t)
    with Cons.prems have t: "now \<le> t" "sorted (t # concat (map login_times evs))"
      "list_all (\<lambda>t. t \<le> stop) (concat (map login_times evs))" "t \<le> stop" by auto
    have ok: "buckets_ok loginBurst t l" by (rule login.buckets_ok_later [OF Cons.prems(1) t(1)])
    have sw: "buckets_ok loginBurst t (login_cleanup t l)"
      unfolding login_cleanup_def by (rule login.buckets_ok_sweep [OF ok])
    have "login_level t ip (login_cleanup t l) = login_level t ip l"
      unfolding login_cleanup_def by (rule login.level_sweep [OF ok order_refl])
    with Cons.IH [OF sw t(2,3,4)] Clean
    have "of_nat (granted ip (login_run (ev # evs) l)) \<le> login_level t ip l + ?r * of_int (stop - t)" by simp
    then show ?thesis by (rule login.advance [OF _ Cons.prems(1) t(1)])
  next
    case (Attempt t t' j)
    with Cons.prems have t: "now \<le> t" "t \<le> t'" "sorted (t' # concat (map login_times evs))"
      "list_all (\<lambda>t. t \<le> stop) (concat (map login_times evs))" "t' \<le> stop" by auto
    have ok: "buckets_ok loginBurst t l" by (rule login.buckets_ok_later [OF Cons.prems(1) t(1)])
    obtain ok' l' where al: "login_allow t j l = (ok', l')" by fastforce
    note st = login_allow_step [OF ok al]
    have ok2: "buckets_ok loginBurst t' l'" by (rule login.buckets_ok_later [OF st(1) t(2)])
    define l2 where "l2 = (if ok' then countFailure t' j l' else l')"
    have lv: "1 \<le> login_level t' j l'" if "ok'"
      using that st(3) st(2) [of j] login.level_grows(1) [OF st(1) t(2), of j] by simp
    have l2: "buckets_ok loginBurst t' l2"
      "login_level t' ip l2 = login_level t' ip l' - (if ok' \<and> j = ip then 1 else 0)"
      using ok2 countFailure_step(1) [OF ok2, of j] countFailure_step(2) [OF ok2, of j ip] lv
      by (auto simp: l2_def)
    have "granted ip (login_run (ev # evs) l) =
        granted ip (login_run evs l2) + (if ok' \<and> j = ip then 1 else 0)"
      using Attempt al by (simp add: granted_def l2_def)
    with Cons.IH [OF l2(1) t(3,4,5)] l2(2)
    have "of_nat (granted ip (login_run (ev # evs) l)) \<le> login_level t' ip l' + ?r * of_int (stop - t')"
      by (cases "ok' \<and> j = ip") auto
    from login.advance [OF this st(1) t(2)] st(2)
    have "of_nat (granted ip (login_run (ev # evs) l)) \<le> login_level t ip l + ?r * of_int (stop - t)" by simp
    then show ?thesis by (rule login.advance [OF _ Cons.prems(1) t(1)])
  qed
qed

text \<open>
  C36. Failed logins are capped when attempts come one after the other: whatever the times of the
  attempts and cleanups, the number of failing attempts let through for one address is at most five
  plus five for every fifteen minutes that passed.
\<close>

theorem login_failures_bounded:
  assumes "sorted (start # concat (map login_times evs))"
    and "list_all (\<lambda>t. t \<le> stop) (concat (map login_times evs))" and "start \<le> stop"
  shows "of_nat (granted ip (login_run evs Map.empty)) \<le>
     (5 :: rat) + 5 * of_int (stop - start) / of_int (15 * 60 * second)"
proof -
  have A: "of_nat (granted ip (login_run evs Map.empty)) \<le> login_level start ip Map.empty +
      of_nat loginBurst / of_int loginWindow * of_int (stop - start)"
    by (rule login_run_bound [OF _ assms]) (simp add: buckets_ok_def)
  have B: "login_level start ip Map.empty = 5"
    unfolding login.level_empty by (simp add: loginBurst_def)
  have C: "of_nat loginBurst / of_int loginWindow * x = 5 * x / of_int (15 * 60 * second)" for x :: rat
    by (simp add: loginBurst_def loginWindow_def)
  from A show ?thesis unfolding B C .
qed

text \<open>
  The cap does not hold for attempts in flight at the same time: the check spends nothing, so any
  number of checks made before the first failure is counted are all let through.
\<close>

theorem login_checks_unbounded:
  "fst (login_allow now ip (((\<lambda>l. snd (login_allow now ip l)) ^^ n) Map.empty))"
proof -
  let ?l = "((\<lambda>l. snd (login_allow now ip l)) ^^ n) Map.empty"
  have "buckets_ok loginBurst now ?l \<and> login_level now ip ?l = of_nat loginBurst"
  proof (induction n)
    case 0
    then show ?case using login.level_empty [of now ip] by (simp add: buckets_ok_def)
  next
    case (Suc n)
    obtain ok l' where al: "login_allow now ip (((\<lambda>l. snd (login_allow now ip l)) ^^ n) Map.empty) = (ok, l')"
      by fastforce
    with login_allow_step [OF conjunct1 [OF Suc] al] Suc show ?case by auto
  qed
  then show ?thesis by (simp add: login_allow_eq loginBurst_def)
qed

section \<open>Whom the limit is charged to\<close>

text \<open>
  Headers cannot shift the limit to another address: unless the peer of the connection is one of
  the trusted proxies, the address charged is that of the peer, whatever the forwarding headers say.
\<close>

theorem clientIP_untrusted:
  assumes "case net_ParseIP lib (remoteHost lib (RemoteAddr r)) of
      None \<Rightarrow> True | Some ip \<Rightarrow> \<not> inTrusted lib ip (parseTrusted lib proxies)"
  shows "clientIP lib r (parseTrusted lib proxies) = remoteHost lib (RemoteAddr r)"
  using assms by (auto simp: clientIP_def Let_def split: option.splits)

section \<open>Witnesses\<close>

theorem refresh_requests_bounded_witness:
  "of_nat (granted ''a'' (refresh_run [(0, Request ''a''), (5, Sweep), (9, Request ''a'')] Map.empty)) \<le>
     (30 :: rat) + 30 * of_int (9 - 0) / of_int (60 * second)"
  by (rule refresh_requests_bounded) simp_all

theorem login_failures_bounded_witness:
  "of_nat (granted ''a'' (login_run [Attempt 0 1 ''a'', Clean 2, Attempt 3 4 ''a''] Map.empty)) \<le>
     (5 :: rat) + 5 * of_int (9 - 0) / of_int (15 * 60 * second)"
  by (rule login_failures_bounded) simp_all

definition fx_net :: "(string, string) net_lib" where
  "fx_net = \<lparr>net_ParseIP = Some, net_To4 = (\<lambda>_. True), net_ParseCIDR = Some,
     net_Contains = (\<lambda>n ip. n = ip @ ''/32''), net_SplitHostPort = (\<lambda>a. Some (fst (cut_at (CHR '':'') a)))\<rparr>"

theorem clientIP_untrusted_witness:
  "clientIP fx_net \<lparr>RemoteAddr = ''6.6.6.6:1'', xForwardedFor = ''1.2.3.4'', xRealIP = []\<rparr>
     (parseTrusted fx_net [''10.0.0.1'']) = ''6.6.6.6''"
proof -
  have "remoteHost fx_net ''6.6.6.6:1'' = ''6.6.6.6''" by code_simp
  moreover have "parseTrusted fx_net [''10.0.0.1''] = [''10.0.0.1/32'']" by code_simp
  moreover have "\<not> inTrusted fx_net ''6.6.6.6'' [''10.0.0.1/32'']" by code_simp
  ultimately show ?thesis
    using clientIP_untrusted [where lib = fx_net and proxies = "[''10.0.0.1'']"
        and r = "\<lparr>RemoteAddr = ''6.6.6.6:1'', xForwardedFor = ''1.2.3.4'', xRealIP = []\<rparr>"]
    by (simp add: fx_net_def)
qed

end
