(* ===== verification/EventBus.thy ===== *)
theory EventBus
  imports Prelude
begin

text \<open>
  The in-memory event bus (\<open>internal/eventbus/bus.go\<close>). Every operation is split where the source
  releases its locks: publishing builds the event, appends it to the replay buffer, takes its targets
  and sends to them one by one; subscribing takes
  the replay, later registers, and a goroutine pushes the replay one event at a time. The composed
  operations \<open>Publish\<close> and \<open>Subscribe\<close> run their parts without interruption; \<open>bus_step\<close> interleaves
  the parts of any number of callers. A channel is the list of events it holds. Clock readings are
  arguments, in nanoseconds.
\<close>

section \<open>State\<close>

record 'p Event =
  ev_ID :: string
  ev_Topic :: string
  ev_Type :: string
  ev_Payload :: 'p
  ev_Timestamp :: int

record 'p subscription =
  sub_ch :: "'p Event list"
  sub_topic :: string
  sub_pending :: "'p Event list"
  sub_live :: bool

record 'p Bus =
  bus_subs :: "'p subscription list"
  bus_buf :: "'p Event list"
  bus_bufCap :: nat
  bus_retention :: int
  bus_seq :: nat

definition chan_cap :: nat where
  "chan_cap = 64"

definition bus_New :: "int \<Rightarrow> int \<Rightarrow> 'p Bus" where
  "bus_New bufferCap retention =
     \<lparr>bus_subs = [], bus_buf = [],
      bus_bufCap = (if bufferCap \<le> 0 then 1000 else nat bufferCap),
      bus_retention = (if retention \<le> 0 then 30 * second else retention), bus_seq = 0\<rparr>"

section \<open>The replay buffer\<close>

definition unix_milli :: "int \<Rightarrow> nat" where
  "unix_milli t = nat (t div 1000000)"

definition nextID :: "int \<Rightarrow> nat \<Rightarrow> string \<times> nat" where
  "nextID now seq =
     (let n = Suc seq in (nat_digits (unix_milli now) @ ''-'' @ nat_digits n, n))"

text \<open>Entries at the head that are not after the cutoff are dropped, then the excess.\<close>

definition bufferAppend :: "int \<Rightarrow> nat \<Rightarrow> int \<Rightarrow> 'p Event \<Rightarrow> 'p Event list \<Rightarrow> 'p Event list" where
  "bufferAppend now bufCap retention ev buf =
     (let kept = dropWhile (\<lambda>e. \<not> ev_Timestamp e > now - retention) buf @ [ev]
      in if length kept > bufCap then drop (length kept - bufCap) kept else kept)"

definition topicMatches :: "string \<Rightarrow> string \<Rightarrow> bool" where
  "topicMatches flt topic \<longleftrightarrow>
     (if flt = [] \<or> flt = ''*'' then True
      else if suffix ''.*'' flt then prefix (butlast flt) topic
      else flt = topic)"

definition replay :: "string \<Rightarrow> string \<Rightarrow> 'p Event list \<Rightarrow> 'p Event list" where
  "replay topic lastEventID buf =
     filter (\<lambda>ev. \<not> (lastEventID \<noteq> [] \<and> ev_ID ev \<le> lastEventID) \<and> topicMatches topic (ev_Topic ev)) buf"

section \<open>Publishing\<close>

text \<open>The event is built (identifier, then timestamp), then put into the buffer.\<close>

definition publish_event ::
  "int \<Rightarrow> int \<Rightarrow> string \<Rightarrow> string \<Rightarrow> 'p \<Rightarrow> 'p Bus \<Rightarrow> 'p Event \<times> 'p Bus" where
  "publish_event t1 t2 topic eventType payload b =
     (case nextID t1 (bus_seq b) of (i, n) \<Rightarrow>
        (\<lparr>ev_ID = i, ev_Topic = topic, ev_Type = eventType, ev_Payload = payload, ev_Timestamp = t2\<rparr>,
         b\<lparr>bus_seq := n\<rparr>))"

definition publish_append :: "int \<Rightarrow> 'p Event \<Rightarrow> 'p Bus \<Rightarrow> 'p Bus" where
  "publish_append now ev b =
     b\<lparr>bus_buf := bufferAppend now (bus_bufCap b) (bus_retention b) ev (bus_buf b)\<rparr>"

text \<open>A send on a channel that is full is dropped.\<close>

definition send :: "'p Event \<Rightarrow> 'p subscription \<Rightarrow> 'p subscription" where
  "send ev s = (if length (sub_ch s) < chan_cap then s\<lparr>sub_ch := sub_ch s @ [ev]\<rparr> else s)"

text \<open>
  The targets are the subscriptions registered under the very topic, and the catch-all ones; the list
  is taken under the lock, the sends follow one by one without it.
\<close>

definition is_target :: "string \<Rightarrow> 'p subscription \<Rightarrow> bool" where
  "is_target topic s \<longleftrightarrow> sub_live s \<and> (sub_topic s = topic \<or> sub_topic s = ''*'')"

definition publish_targets :: "'p Event \<Rightarrow> 'p Bus \<Rightarrow> nat list" where
  "publish_targets ev b =
     filter (\<lambda>i. is_target (ev_Topic ev) (bus_subs b ! i)) [0..<length (bus_subs b)]"

definition on_sub :: "nat \<Rightarrow> ('p subscription \<Rightarrow> 'p subscription) \<Rightarrow> 'p Bus \<Rightarrow> 'p Bus" where
  "on_sub i f b =
     (if i < length (bus_subs b) then b\<lparr>bus_subs := (bus_subs b)[i := f (bus_subs b ! i)]\<rparr> else b)"

definition publish_send :: "'p Event \<Rightarrow> nat \<Rightarrow> 'p Bus \<Rightarrow> 'p Bus" where
  "publish_send ev i = on_sub i (send ev)"

definition Publish ::
  "int \<Rightarrow> int \<Rightarrow> int \<Rightarrow> string \<Rightarrow> string \<Rightarrow> 'p \<Rightarrow> 'p Bus \<Rightarrow> 'p Event \<times> 'p Bus" where
  "Publish t1 t2 t3 topic eventType payload b =
     (case publish_event t1 t2 topic eventType payload b of (ev, b1) \<Rightarrow>
        let b2 = publish_append t3 ev b1
        in (ev, fold (publish_send ev) (publish_targets ev b2) b2))"

section \<open>Subscribing\<close>

text \<open>A subscription is named by its position; its replay is taken first, then it is registered.\<close>

definition subscribe_snapshot :: "string \<Rightarrow> string \<Rightarrow> 'p Bus \<Rightarrow> nat \<times> 'p Bus" where
  "subscribe_snapshot topic0 lastEventID b =
     (let topic = (if topic0 = [] then ''*'' else topic0)
      in (length (bus_subs b),
          b\<lparr>bus_subs := bus_subs b @
             [\<lparr>sub_ch = [], sub_topic = topic, sub_pending = replay topic lastEventID (bus_buf b),
               sub_live = False\<rparr>]\<rparr>))"

definition subscribe_register :: "nat \<Rightarrow> 'p Bus \<Rightarrow> 'p Bus" where
  "subscribe_register i = on_sub i (\<lambda>s. s\<lparr>sub_live := True\<rparr>)"

text \<open>One iteration of the goroutine that pushes the replay.\<close>

definition push_replay :: "nat \<Rightarrow> 'p Bus \<Rightarrow> 'p Bus" where
  "push_replay i =
     on_sub i (\<lambda>s. case sub_pending s of
        [] \<Rightarrow> s
      | ev # evs \<Rightarrow> (send ev s)\<lparr>sub_pending := evs\<rparr>)"

definition Subscribe :: "string \<Rightarrow> string \<Rightarrow> 'p Bus \<Rightarrow> nat \<times> 'p Bus" where
  "Subscribe topic lastEventID b =
     (case subscribe_snapshot topic lastEventID b of (i, b') \<Rightarrow> (i, subscribe_register i b'))"

definition unsubscribe :: "nat \<Rightarrow> 'p Bus \<Rightarrow> 'p Bus" where
  "unsubscribe i = on_sub i (\<lambda>s. s\<lparr>sub_live := False\<rparr>)"

text \<open>The reader of the channel takes the oldest event.\<close>

definition receive :: "nat \<Rightarrow> 'p Bus \<Rightarrow> 'p Bus" where
  "receive i = on_sub i (\<lambda>s. s\<lparr>sub_ch := tl (sub_ch s)\<rparr>)"

section \<open>Interleavings\<close>

text \<open>
  The state of a run: the bus, the events that are built and not yet in the buffer, those in the
  buffer whose targets are not yet taken, and the sends still to do. A subscription is known by its
  position, so a send may follow the end of the subscription, as in the source.
\<close>

record 'p run =
  run_bus :: "'p Bus"
  run_built :: "'p Event list"
  run_buffered :: "'p Event list"
  run_sends :: "('p Event \<times> nat) list"

inductive bus_step :: "'p run \<Rightarrow> 'p run \<Rightarrow> bool" where
  do_event: "publish_event t1 t2 topic ty p (run_bus r) = (ev, b) \<Longrightarrow>
     bus_step r (r\<lparr>run_bus := b, run_built := run_built r @ [ev]\<rparr>)"
| do_append: "run_built r = es1 @ ev # es2 \<Longrightarrow>
     bus_step r (r\<lparr>run_bus := publish_append now ev (run_bus r), run_built := es1 @ es2,
                    run_buffered := run_buffered r @ [ev]\<rparr>)"
| do_targets: "run_buffered r = es1 @ ev # es2 \<Longrightarrow>
     bus_step r (r\<lparr>run_buffered := es1 @ es2,
                    run_sends := run_sends r @ map (Pair ev) (publish_targets ev (run_bus r))\<rparr>)"
| do_send: "run_sends r = ps1 @ (ev, i) # ps2 \<Longrightarrow>
     bus_step r (r\<lparr>run_bus := publish_send ev i (run_bus r), run_sends := ps1 @ ps2\<rparr>)"
| do_snapshot: "bus_step r (r\<lparr>run_bus := snd (subscribe_snapshot topic lastID (run_bus r))\<rparr>)"
| do_register: "bus_step r (r\<lparr>run_bus := subscribe_register i (run_bus r)\<rparr>)"
| do_push: "bus_step r (r\<lparr>run_bus := push_replay i (run_bus r)\<rparr>)"
| do_receive: "bus_step r (r\<lparr>run_bus := receive i (run_bus r)\<rparr>)"
| do_unsubscribe: "bus_step r (r\<lparr>run_bus := unsubscribe i (run_bus r)\<rparr>)"

definition bus_start :: "int \<Rightarrow> int \<Rightarrow> 'p run" where
  "bus_start cap retention =
     \<lparr>run_bus = bus_New cap retention, run_built = [], run_buffered = [], run_sends = []\<rparr>"

inductive_cases bus_stepE: "bus_step s s'"

section \<open>Invariants\<close>

text \<open>
  The buffer stays within its capacity, every channel within its own, and everything a subscription
  holds or will be pushed passes its filter, or, if it came live, has its exact topic.
\<close>

definition held_ok :: "string \<Rightarrow> 'p Event \<Rightarrow> bool" where
  "held_ok flt ev \<longleftrightarrow> topicMatches flt (ev_Topic ev)"

definition sub_ok :: "'p subscription \<Rightarrow> bool" where
  "sub_ok s \<longleftrightarrow>
     length (sub_ch s) \<le> chan_cap \<and>
     list_all (held_ok (sub_topic s)) (sub_ch s) \<and> list_all (held_ok (sub_topic s)) (sub_pending s)"

definition bus_ok :: "'p Bus \<Rightarrow> bool" where
  "bus_ok b \<longleftrightarrow> length (bus_buf b) \<le> bus_bufCap b \<and> list_all sub_ok (bus_subs b)"

text \<open>A send still to do goes to a subscription whose filter the event passes.\<close>

definition send_due_ok :: "'p Bus \<Rightarrow> 'p Event \<times> nat \<Rightarrow> bool" where
  "send_due_ok b = (\<lambda>(ev, i). i < length (bus_subs b) \<and> held_ok (sub_topic (bus_subs b ! i)) ev)"

definition run_ok :: "'p run \<Rightarrow> bool" where
  "run_ok r \<longleftrightarrow> bus_ok (run_bus r) \<and> list_all (send_due_ok (run_bus r)) (run_sends r)"

lemma last_n_length: "length (if length xs > c then drop (length xs - c) xs else xs) \<le> c"
  by simp

lemma bufferAppend_length: "length (bufferAppend now cap rt ev buf) \<le> cap"
  unfolding bufferAppend_def Let_def by (rule last_n_length)

lemma set_tl: "x \<in> set (tl xs) \<Longrightarrow> x \<in> set xs"
  by (cases xs) auto

lemma on_sub_ok: "bus_ok b \<Longrightarrow> (\<And>s. sub_ok s \<Longrightarrow> sub_ok (f s)) \<Longrightarrow> bus_ok (on_sub i f b)"
  by (auto simp: bus_ok_def on_sub_def list_all_length nth_list_update)

lemma send_ok: "sub_ok s \<Longrightarrow> held_ok (sub_topic s) ev \<Longrightarrow> sub_ok (send ev s)"
  by (simp add: sub_ok_def send_def)

lemma send_fields [simp]: "sub_topic (send ev s) = sub_topic s" "sub_pending (send ev s) = sub_pending s"
  by (simp_all add: send_def)

lemma topicMatches_self: "topicMatches t t" "topicMatches ''*'' t"
proof -
  have "prefix (butlast t) t" by (metis append_butlast_last_id butlast.simps(1) prefixI prefix_order.refl)
  then show "topicMatches t t" "topicMatches ''*'' t" by (simp_all add: topicMatches_def)
qed

lemma snapshot_ok: "bus_ok b \<Longrightarrow> bus_ok (snd (subscribe_snapshot topic lastID b))"
  by (auto simp: bus_ok_def subscribe_snapshot_def Let_def sub_ok_def replay_def held_ok_def list_all_iff)

lemma push_ok: "sub_ok s \<Longrightarrow> sub_pending s = ev # evs \<Longrightarrow> sub_ok ((send ev s)\<lparr>sub_pending := evs\<rparr>)"
  using send_ok [of s ev] by (simp add: sub_ok_def)

lemma send_due_on_sub:
  "(\<And>s. sub_topic (f s) = sub_topic s) \<Longrightarrow> send_due_ok b p \<Longrightarrow> send_due_ok (on_sub i f b) p"
  by (auto simp: send_due_ok_def on_sub_def nth_list_update)

lemma run_ok_on_sub:
  assumes "run_ok r" and "\<And>s. sub_ok s \<Longrightarrow> sub_ok (f s)" and "\<And>s. sub_topic (f s) = sub_topic s"
  shows "run_ok (r\<lparr>run_bus := on_sub i f (run_bus r)\<rparr>)"
  using assms by (auto simp: run_ok_def on_sub_ok list_all_iff send_due_on_sub)

lemma targets_due: "ps \<in> set (publish_targets ev b) \<Longrightarrow> send_due_ok b (ev, ps)"
  by (auto simp: publish_targets_def send_due_ok_def is_target_def held_ok_def topicMatches_self)

lemma publish_send_ok:
  "bus_ok b \<Longrightarrow> send_due_ok b (ev, i) \<Longrightarrow> bus_ok (publish_send ev i b)"
  by (auto simp: publish_send_def on_sub_def bus_ok_def send_due_ok_def list_all_length
      nth_list_update send_ok)

lemma bus_step_ok: "bus_step r r' \<Longrightarrow> run_ok r \<Longrightarrow> run_ok r'"
proof (induction rule: bus_step.induct)
  case (do_event t1 t2 topic ty p r ev b)
  then show ?case
    by (auto simp: publish_event_def nextID_def Let_def run_ok_def bus_ok_def send_due_ok_def)
next
  case (do_append r es1 ev es2 now)
  then show ?case
    by (auto simp: publish_append_def run_ok_def bus_ok_def bufferAppend_length send_due_ok_def)
next
  case (do_targets r es1 ev es2)
  then show ?case by (auto simp: run_ok_def list_all_iff targets_due)
next
  case (do_send r ps1 ev i ps2)
  then have "list_all (send_due_ok (publish_send ev i (run_bus r))) (ps1 @ ps2)"
    by (auto simp: run_ok_def publish_send_def list_all_iff intro!: send_due_on_sub)
  with do_send show ?case by (simp add: run_ok_def publish_send_ok)
next
  case (do_snapshot r topic lastID)
  then show ?case
    using snapshot_ok [of "run_bus r" topic lastID]
    by (auto simp: run_ok_def list_all_iff send_due_ok_def subscribe_snapshot_def Let_def nth_append
        split: if_splits)
next
  case (do_push r i)
  then show ?case
    unfolding push_replay_def by (intro run_ok_on_sub) (auto simp: push_ok split: list.split)
next
  case (do_receive r i)
  then show ?case
    unfolding receive_def by (intro run_ok_on_sub) (auto simp: sub_ok_def list_all_iff dest: set_tl)
qed (auto simp: subscribe_register_def unsubscribe_def sub_ok_def intro!: run_ok_on_sub)

lemma bus_run_ok: "bus_step\<^sup>*\<^sup>* r r' \<Longrightarrow> run_ok r \<Longrightarrow> run_ok r'"
  by (induction rule: rtranclp_induct) (auto intro: bus_step_ok)

text \<open>
  C37. Whatever publishers, subscribers and readers do concurrently, the replay buffer and every channel
  stay within their capacity, and no subscriber ever holds, or is about to be pushed, an event outside
  its filter.
\<close>

theorem bus_stays_ok:
  assumes "bus_step\<^sup>*\<^sup>* (bus_start cap retention) r"
  shows "length (bus_buf (run_bus r)) \<le> bus_bufCap (run_bus r) \<and>
     list_all (\<lambda>s. length (sub_ch s) \<le> 64 \<and>
       list_all (\<lambda>ev. topicMatches (sub_topic s) (ev_Topic ev)) (sub_ch s @ sub_pending s))
       (bus_subs (run_bus r))"
proof -
  have "run_ok r"
    using bus_run_ok [OF assms] by (simp add: run_ok_def bus_ok_def bus_start_def bus_New_def)
  then show ?thesis
    by (auto simp: run_ok_def bus_ok_def sub_ok_def chan_cap_def held_ok_def list_all_iff)
qed

section \<open>Delivery and replay\<close>

lemma fold_sends_length [simp]: "length (bus_subs (fold (publish_send ev) is b)) = length (bus_subs b)"
  by (induction "is" arbitrary: b) (auto simp: publish_send_def on_sub_def)

lemma fold_sends_nth:
  "distinct is \<Longrightarrow> j < length (bus_subs b) \<Longrightarrow>
     bus_subs (fold (publish_send ev) is b) ! j =
       (if j \<in> set is then send ev (bus_subs b ! j) else bus_subs b ! j)"
proof (induction "is" arbitrary: b)
  case (Cons i "is")
  then show ?case by (auto simp: publish_send_def on_sub_def nth_list_update)
qed simp

lemma fold_sends_buf [simp]: "bus_buf (fold (publish_send ev) is b) = bus_buf b"
  by (induction "is" arbitrary: b) (auto simp: publish_send_def on_sub_def)

text \<open>
  An event reaches exactly the subscriptions registered under its topic or under the catch-all, at
  the end of their channels, unless a channel is full; every other subscription is untouched.
\<close>

theorem Publish_delivers:
  "let (ev, b') = Publish t1 t2 t3 topic ty p b in
     ev_Topic ev = topic \<and> ev_Payload ev = p \<and>
     bus_subs b' = map (\<lambda>s.
       if sub_live s \<and> (sub_topic s = topic \<or> sub_topic s = ''*'') \<and> length (sub_ch s) < 64
       then s\<lparr>sub_ch := sub_ch s @ [ev]\<rparr> else s) (bus_subs b)"
proof -
  obtain ev b1 where e: "publish_event t1 t2 topic ty p b = (ev, b1)" by fastforce
  then have f: "ev_Topic ev = topic" "ev_Payload ev = p" "bus_subs (publish_append t3 ev b1) = bus_subs b"
    by (auto simp: publish_event_def nextID_def Let_def publish_append_def)
  show ?thesis
    unfolding Publish_def Let_def e prod.case
    by (intro conjI nth_equalityI)
      (auto simp: f fold_sends_nth publish_targets_def is_target_def send_def chan_cap_def)
qed

lemma sorted_dropWhile_filter:
  "sorted (map f xs) \<Longrightarrow> dropWhile (\<lambda>x. \<not> f x > (c :: int)) xs = filter (\<lambda>x. f x > c) xs"
proof (induction xs)
  case (Cons x xs)
  then have "c < f x \<Longrightarrow> filter (\<lambda>x. f x > c) xs = xs" by (intro filter_True) auto
  with Cons show ?case by auto
qed simp

text \<open>
  With timestamps in order, what the buffer holds after a publication are the events not older than
  the retention, the new one included, and of those the most recent ones up to the capacity.
\<close>

theorem bufferAppend_retains:
  assumes "sorted (map ev_Timestamp buf)"
  shows "bufferAppend now cap retention ev buf =
     rev (take cap (rev (filter (\<lambda>e. ev_Timestamp e > now - retention) buf @ [ev])))"
proof -
  let ?xs = "filter (\<lambda>e. ev_Timestamp e > now - retention) buf @ [ev]"
  have "dropWhile (\<lambda>e. \<not> ev_Timestamp e > now - retention) buf = filter (\<lambda>e. ev_Timestamp e > now - retention) buf"
    by (rule sorted_dropWhile_filter [OF assms])
  moreover have "rev (take cap (rev ?xs)) = drop (length ?xs - cap) ?xs"
    by (metis rev_drop rev_rev_ident length_rev drop_rev rev_take)
  ultimately show ?thesis by (simp add: bufferAppend_def Let_def)
qed

section \<open>Where replay goes wrong\<close>

text \<open>
  Identifiers are compared as strings, which does not follow the order of publication: of two events
  of one millisecond with the sequence numbers 9 and 10, a client that saw the first and reconnects is
  not given the second, although it is in the buffer.
\<close>

theorem replay_skips_newer:
  "let b = (bus_New 10 0)\<lparr>bus_seq := 8\<rparr>;
       (e9, b1) = Publish 5000000 1 1 ''app.1'' ''status'' () b;
       (e10, b2) = Publish 5000000 2 2 ''app.1'' ''status'' () b1
   in bus_buf b2 = [e9, e10] \<and> replay ''app.1'' (ev_ID e9) (bus_buf b2) = []"
  by code_simp

text \<open>
  Replayed events need not come first: the goroutine that pushes them runs after the subscription is
  registered, so an event published in between arrives before the older one.
\<close>

theorem replay_after_live:
  "\<exists>(r :: unit run) old new. bus_step\<^sup>*\<^sup>* (bus_start 10 0) r \<and>
     bus_buf (run_bus r) = [old, new] \<and> ev_Timestamp old < ev_Timestamp new \<and>
     map sub_ch (bus_subs (run_bus r)) = [[new, old]]"
proof -
  define r0 :: "unit run" where "r0 = bus_start 10 0"
  obtain old b1 where o: "publish_event 1 1 ''t'' ''x'' () (run_bus r0) = (old, b1)" by fastforce
  define r1 where "r1 = r0\<lparr>run_bus := b1, run_built := run_built r0 @ [old]\<rparr>"
  define r2 where "r2 = r1\<lparr>run_bus := publish_append 1 old (run_bus r1), run_built := [] @ [],
    run_buffered := run_buffered r1 @ [old]\<rparr>"
  define r3 where "r3 = r2\<lparr>run_buffered := [] @ [],
    run_sends := run_sends r2 @ map (Pair old) (publish_targets old (run_bus r2))\<rparr>"
  define r4 where "r4 = r3\<lparr>run_bus := snd (subscribe_snapshot ''t'' [] (run_bus r3))\<rparr>"
  define r5 where "r5 = r4\<lparr>run_bus := subscribe_register 0 (run_bus r4)\<rparr>"
  obtain new b6 where n: "publish_event 2 2 ''t'' ''x'' () (run_bus r5) = (new, b6)" by fastforce
  define r6 where "r6 = r5\<lparr>run_bus := b6, run_built := run_built r5 @ [new]\<rparr>"
  define r7 where "r7 = r6\<lparr>run_bus := publish_append 2 new (run_bus r6), run_built := [] @ [],
    run_buffered := run_buffered r6 @ [new]\<rparr>"
  define r8 where "r8 = r7\<lparr>run_buffered := [] @ [],
    run_sends := run_sends r7 @ map (Pair new) (publish_targets new (run_bus r7))\<rparr>"
  define r9 where "r9 = r8\<lparr>run_bus := publish_send new 0 (run_bus r8), run_sends := [] @ []\<rparr>"
  define r10 where "r10 = r9\<lparr>run_bus := push_replay 0 (run_bus r9)\<rparr>"
  have q: "run_built r1 = [] @ old # []" "run_buffered r2 = [] @ old # []"
    by (simp_all add: r2_def r1_def r0_def bus_start_def)
  have old: "ev_Topic old = ''t''" "ev_Timestamp old = 1" "bus_subs b1 = []" "bus_buf b1 = []" "bus_bufCap b1 = 10"
      "bus_retention b1 = 30 * second"
    using o by (auto simp: publish_event_def nextID_def Let_def r0_def bus_start_def bus_New_def)
  have b3: "bus_subs (run_bus r3) = []" "bus_buf (run_bus r3) = [old]" "bus_bufCap (run_bus r3) = 10"
      "bus_retention (run_bus r3) = 30 * second" "run_built r3 = []" "run_buffered r3 = []" "run_sends r3 = []"
    by (simp_all add: r3_def r2_def r1_def r0_def bus_start_def old publish_append_def bufferAppend_def
        publish_targets_def)
  have b5: "bus_subs (run_bus r5) = [\<lparr>sub_ch = [], sub_topic = ''t'', sub_pending = [old], sub_live = True\<rparr>]"
      "bus_buf (run_bus r5) = [old]" "bus_bufCap (run_bus r5) = 10" "bus_retention (run_bus r5) = 30 * second"
      "run_built r5 = []" "run_buffered r5 = []" "run_sends r5 = []"
    by (simp_all add: r5_def r4_def b3 old subscribe_snapshot_def subscribe_register_def on_sub_def
        replay_def topicMatches_def Let_def)
  have new: "ev_Topic new = ''t''" "ev_Timestamp new = 2" "bus_subs b6 = bus_subs (run_bus r5)"
      "bus_buf b6 = [old]" "bus_bufCap b6 = 10" "bus_retention b6 = 30 * second"
    using n by (auto simp: publish_event_def nextID_def Let_def b5)
  have q': "run_built r6 = [] @ new # []" "run_buffered r7 = [] @ new # []"
    by (simp_all add: r7_def r6_def b5)
  have q'': "run_sends r8 = [] @ (new, 0) # []"
    by (simp add: r8_def r7_def r6_def b5 new publish_append_def publish_targets_def is_target_def)
  have s1: "bus_step r0 r1" unfolding r1_def by (rule do_event [OF o])
  have s2: "bus_step r1 r2" unfolding r2_def by (rule do_append [OF q(1)])
  have s3: "bus_step r2 r3" unfolding r3_def by (rule do_targets [OF q(2)])
  have s4: "bus_step r3 r4" unfolding r4_def by (rule do_snapshot)
  have s5: "bus_step r4 r5" unfolding r5_def by (rule do_register)
  have s6: "bus_step r5 r6" unfolding r6_def by (rule do_event [OF n])
  have s7: "bus_step r6 r7" unfolding r7_def by (rule do_append [OF q'(1)])
  have s8: "bus_step r7 r8" unfolding r8_def by (rule do_targets [OF q'(2)])
  have s9: "bus_step r8 r9" unfolding r9_def by (rule do_send [OF q''])
  have s10: "bus_step r9 r10" unfolding r10_def by (rule do_push)
  note chain = converse_rtranclp_into_rtranclp [of bus_step]
  have "bus_step\<^sup>*\<^sup>* r0 r10"
    by (rule chain [OF s1] chain [OF s2] chain [OF s3] chain [OF s4] chain [OF s5] chain [OF s6]
        chain [OF s7] chain [OF s8] chain [OF s9] chain [OF s10] rtranclp.rtrancl_refl)+
  moreover have "bus_buf (run_bus r10) = [old, new] \<and> ev_Timestamp old < ev_Timestamp new \<and>
      map sub_ch (bus_subs (run_bus r10)) = [[new, old]]"
    by (simp add: r10_def r9_def r8_def r7_def r6_def b5 old new publish_append_def bufferAppend_def
        publish_send_def push_replay_def on_sub_def send_def chan_cap_def second_def)
  ultimately show ?thesis
    unfolding r0_def by (intro exI [of _ r10] exI [of _ old] exI [of _ new] conjI) auto
qed

section \<open>Witnesses\<close>

theorem bus_stays_ok_witness:
  "length (bus_buf (snd (subscribe_snapshot ''a.*'' [] (bus_New 3 7 :: unit Bus)))) \<le> 3"
proof -
  let ?r = "(bus_start 3 7 :: unit run)"
  have "bus_step\<^sup>*\<^sup>* ?r (?r\<lparr>run_bus := snd (subscribe_snapshot ''a.*'' [] (run_bus ?r))\<rparr>)"
    by (rule r_into_rtranclp) (rule do_snapshot)
  from bus_stays_ok [OF this] show ?thesis
    by (simp add: bus_start_def subscribe_snapshot_def Let_def bus_New_def)
qed

theorem bufferAppend_retains_witness:
  "bufferAppend 100 2 30 \<lparr>ev_ID = ''c'', ev_Topic = [], ev_Type = [], ev_Payload = (), ev_Timestamp = 100\<rparr>
     [\<lparr>ev_ID = ''a'', ev_Topic = [], ev_Type = [], ev_Payload = (), ev_Timestamp = 60\<rparr>,
      \<lparr>ev_ID = ''b'', ev_Topic = [], ev_Type = [], ev_Payload = (), ev_Timestamp = 90\<rparr>] =
     [\<lparr>ev_ID = ''b'', ev_Topic = [], ev_Type = [], ev_Payload = (), ev_Timestamp = 90\<rparr>,
      \<lparr>ev_ID = ''c'', ev_Topic = [], ev_Type = [], ev_Payload = (), ev_Timestamp = 100\<rparr>]"
  by (subst bufferAppend_retains) simp_all

end
