(* ===== verification/Setup.thy ===== *)
theory Setup
  imports Fixtures
begin

text \<open>
  The first-run wizard (\<open>internal/setup/setup.go\<close>) and the two middlewares that open or close the API
  (\<open>internal/api/apimiddleware/setup_gate.go\<close>, \<open>maintenance.go\<close>). The service keeps a copy of the
  completion flag in memory, next to the row of the settings table.
\<close>

section \<open>The setup service\<close>

record setupdb = db +
  completed :: bool

type_synonym ('x, 'a) setupm = "('x setupdb_ext db_ext, 'a) go"

definition ErrAlreadyCompleted :: err where
  "ErrAlreadyCompleted = ErrNew ''setup: already completed''"

definition setting :: "string \<Rightarrow> 'x db_scheme \<Rightarrow> string option" where
  "setting k w = map_option st_value (find (\<lambda>s. st_key s = k) (settings w))"

definition readSetupCompleted :: "('x, bool) dbm" where
  "readSetupCompleted =
     bnd (attempt (db_query_row (setting ''setup_completed''))) (\<lambda>r.
     case r of
       Inl e \<Rightarrow> (if errors_is e (ErrSql NoRows) then ret False else fail (ErrWrap ''setup: read flag'' e))
     | Inr v \<Rightarrow> ret (v = ''true''))"

definition store_completed :: "bool \<Rightarrow> ('x, unit) setupm" where
  "store_completed b = access (\<lambda>w. ((), w\<lparr>completed := b\<rparr>))"

definition setup_NewService :: "('x, unit) setupm" where
  "setup_NewService = bnd readSetupCompleted store_completed"

definition setup_Refresh :: "('x, unit) setupm" where
  "setup_Refresh = bnd readSetupCompleted store_completed"

definition setup_Completed :: "'x setupdb_scheme \<Rightarrow> bool" where
  "setup_Completed w = completed w"

definition mark_body :: "('x, unit) dbm" where
  "mark_body =
     bnd (attempt (db_exec (\<lambda>w. Inr (0, w)))) (\<lambda>_.
     bnd (attempt (db_query_row (setting ''setup_completed''))) (\<lambda>r.
     case r of
       Inr value \<Rightarrow>
         (if value = ''true'' then fail ErrAlreadyCompleted
          else bnd (wrapping ''setup: update''
                 (db_exec (\<lambda>w. update_settings (\<lambda>s. st_key s = ''setup_completed'')
                    (\<lambda>s. s\<lparr>st_value := ''true'', st_updated_at := unixepoch w\<rparr>) w)))
                 (\<lambda>_. ret ()))
     | Inl e \<Rightarrow>
         (if errors_is e (ErrSql NoRows)
          then bnd (wrapping ''setup: insert''
                 (db_exec (\<lambda>w. insert_setting
                    \<lparr>st_key = ''setup_completed'', st_value = ''true'', st_updated_at = unixepoch w\<rparr> w)))
                 (\<lambda>_. ret ())
          else fail (ErrWrap ''setup: scan'' e))))"

definition MarkComplete :: "('x, unit) setupm" where
  "MarkComplete =
     bnd (transaction_as (ErrWrap ''setup: begin'') (ErrWrap ''setup: commit'') mark_body) (\<lambda>_.
     store_completed True)"

definition HasAnyUser :: "('x, bool) dbm" where
  "HasAnyUser = bnd (db_query (\<lambda>w. length (users w))) (\<lambda>n. ret (n > 0))"

definition EnsureInstanceID :: "('x, string) dbm" where
  "EnsureInstanceID =
     bnd (attempt (db_query_row (setting ''instance_id''))) (\<lambda>r.
     let generate =
           bnd (wrapping ''setup: rand'' (rand_read 4)) (\<lambda>buf.
           let i = ''prx_'' @ hex_encode buf in
           bnd (wrapping ''setup: insert instance_id''
                  (db_exec (upsert_setting False ''instance_id'' i))) (\<lambda>_.
           ret i))
     in case r of
          Inr current \<Rightarrow> (if current \<noteq> [] then ret current else generate)
        | Inl e \<Rightarrow>
            (if \<not> errors_is e (ErrSql NoRows) then fail (ErrWrap ''setup: select instance_id'' e)
             else generate))"

definition SaveInstance :: "string \<Rightarrow> string \<Rightarrow> ('x, unit) dbm" where
  "SaveInstance instanceURL tlsMode =
     bnd (wrapping ''setup: save instance_url''
            (db_exec (upsert_setting True ''instance_url'' instanceURL))) (\<lambda>_.
     bnd (wrapping ''setup: save tls_mode''
            (db_exec (upsert_setting True ''tls_mode'' tlsMode))) (\<lambda>_.
     ret ()))"

section \<open>The gates\<close>

text \<open>What a middleware does with a request: hand it on, answer with a status and an error code, or
  send the browser elsewhere.\<close>

datatype gate = Next | Reply nat string | RedirectTo string

definition SetupGate :: "bool \<Rightarrow> string \<Rightarrow> gate" where
  "SetupGate done path =
     (let isSetupPath = prefix ''/api/v1/setup/'' path;
          isHealthz = (path = ''/api/v1/healthz'' \<or> path = ''/healthz'');
          isSetupStatus = (path = ''/api/v1/setup/status'');
          isAPI = prefix ''/api/v1/'' path
      in if \<not> done then
           (if isSetupPath \<or> isHealthz then Next
            else if isAPI then Reply 403 ''setup_not_completed''
            else if path = ''/setup'' \<or> prefix ''/setup/'' path \<or> prefix ''/assets/'' path then Next
            else RedirectTo ''/setup'')
         else if isSetupPath \<and> \<not> isSetupStatus then Reply 404 ''not_found''
         else Next)"

definition maintenancePass :: "string list" where
  "maintenancePass =
     [''/api/v1/healthz'', ''/api/v1/auth/login'', ''/api/v1/auth/refresh'', ''/api/v1/auth/logout'',
      ''/api/v1/auth/me'', ''/api/v1/auth/2fa/'', ''/api/v1/setup/'', ''/api/v1/instance/settings'']"

definition maintenanceAllowed :: "string \<Rightarrow> bool" where
  "maintenanceAllowed path = list_ex (\<lambda>p. prefix p path) maintenancePass"

definition Maintenance :: "bool \<Rightarrow> string \<Rightarrow> gate" where
  "Maintenance on path =
     (if \<not> on then Next
      else if maintenanceAllowed path then Next
      else Reply 503 ''maintenance'')"

section \<open>Completion is final\<close>

lemma setting_stp [simp]: "setting k (w\<lparr>stp := n\<rparr>) = setting k w"
  by (simp add: setting_def)

lemma setting_tick [simp]: "setting k (tick w) = setting k w"
  by (simp add: setting_def)

lemma setting_completed [simp]: "setting k (w\<lparr>completed := b\<rparr>) = setting k w"
  by (simp add: setting_def)

lemma completed_tick [simp]: "completed (tick w) = completed w"
  by (simp add: tick_def)

text \<open>Every request that reaches the service, in whatever order, and whatever it returns.\<close>

inductive setup_call :: "'x setupdb_scheme \<Rightarrow> 'x setupdb_scheme \<Rightarrow> bool" where
  "setup_call w (snd (MarkComplete w))"
| "setup_call w (snd (setup_Refresh w))"
| "setup_call w (snd (HasAnyUser w))"
| "setup_call w (snd (EnsureInstanceID w))"
| "setup_call w (snd (SaveInstance url tls w))"

definition sealed :: "'x setupdb_scheme \<Rightarrow> bool" where
  "sealed w \<longleftrightarrow> setting ''setup_completed'' w = Some ''true'' \<and> setup_Completed w"

interpretation seal: frame "keeps sealed"
  by (rule frame_keeps) (simp add: sealed_def setup_Completed_def)

lemma find_update_other:
  assumes "\<And>r. q r \<Longrightarrow> \<not> p r" and "\<And>r. p r \<Longrightarrow> \<not> q (f r)"
  shows "find q (update_where p f rs) = find q rs"
proof -
  have *: "find q (map g xs) = find q xs" if "\<And>x. q (g x) = q x" "\<And>x. q x \<Longrightarrow> g x = x" for g xs
    using that by (induction xs) auto
  show ?thesis unfolding update_where_def by (rule *) (use assms in auto)
qed

lemma find_append_None: "\<not> q x \<Longrightarrow> find q (xs @ [x]) = find q xs"
  by (induction xs) auto

lemma upsert_setting_other:
  assumes "upsert_setting b k v w = Inr (n, w')" and "k \<noteq> k'"
  shows "setting k' w' = setting k' w"
  using assms
  by (auto simp: upsert_setting_def checked_Inr_iff setting_def find_append_None split: if_splits
      intro!: arg_cong [where f = "map_option st_value"] find_update_other)

lemma upsert_setting_completed: "upsert_setting b k v w = Inr (n, w') \<Longrightarrow> completed w' = completed w"
  by (auto simp: upsert_setting_def checked_Inr_iff split: if_splits)

lemma upsert_keeps_sealed:
  "k \<noteq> ''setup_completed'' \<Longrightarrow> moves (keeps sealed) (db_exec (upsert_setting b k v))"
  by (rule seal.frame_exec)
    (simp add: keeps_def sealed_def setup_Completed_def upsert_setting_other upsert_setting_completed)

lemma EnsureInstanceID_sealed: "moves (keeps sealed) EnsureInstanceID"
  unfolding EnsureInstanceID_def Let_def
  by (intro seal.frame_rules moves_intro upsert_keeps_sealed) simp_all

lemma SaveInstance_sealed: "moves (keeps sealed) (SaveInstance url tls)"
  unfolding SaveInstance_def by (intro seal.frame_rules upsert_keeps_sealed) simp_all

lemma HasAnyUser_sealed: "moves (keeps sealed) HasAnyUser"
  unfolding HasAnyUser_def by (intro seal.frame_rules)

lemma readSetupCompleted_cases:
  "readSetupCompleted w =
     ((if o_fault (orc w) (stp w) then Inl (ErrWrap ''setup: read flag'' (ErrSql DriverFailure))
       else Inr (setting ''setup_completed'' w = Some ''true'')), tick w)"
  by (auto simp: readSetupCompleted_def bnd_attempt db_query_row_cases ret_def fail_def
      split: option.split)

lemma Refresh_sealed: "moves (keeps sealed) setup_Refresh"
  by (auto simp: moves_def keeps_def setup_Refresh_def bnd_def readSetupCompleted_cases sealed_def
      store_completed_def access_def setup_Completed_def)

text \<open>The flag is set by the transaction of exactly one caller.\<close>

lemma mark_body_settings:
  assumes "mark_body w = (Inr x, w')"
  shows "setting ''setup_completed'' w \<noteq> Some ''true'' \<and> setting ''setup_completed'' w' = Some ''true''"
proof -
  let ?k = "''setup_completed''"
  define w1 where "w1 = snd (db_exec (\<lambda>w. Inr (0, w)) w)"
  have w1: "settings w1 = settings w" by (auto simp: w1_def db_exec_def)
  have upd: "setting ?k v' = Some ''true''"
    if "update_settings (\<lambda>s. st_key s = ?k) (\<lambda>s. s\<lparr>st_value := ''true'', st_updated_at := t\<rparr>) v = Inr (n, v')"
      and "setting ?k v = Some z" for v v' :: "'x db_scheme" and t n z
    using that by (auto simp: update_settings_def checked_Inr_iff setting_def find_update_where)
  have ins: "setting ?k v' = Some ''true''"
    if "insert_setting \<lparr>st_key = ?k, st_value = ''true'', st_updated_at = t\<rparr> v = Inr (n, v')"
      and "setting ?k v = None" for v v' :: "'x db_scheme" and t n
  proof -
    have "find q xs = None \<Longrightarrow> q x \<Longrightarrow> find q (xs @ [x]) = Some x" for q xs and x :: setting_row
      by (induction xs) (auto split: if_splits)
    with that show ?thesis by (auto simp: insert_setting_def checked_Inr_iff setting_def)
  qed
  have "setting ?k w1 = setting ?k w" by (simp add: setting_def w1)
  with assms show ?thesis
    unfolding mark_body_def bnd_attempt w1_def [symmetric]
    by (auto simp: db_query_row_cases run_iffs ret_def fail_def dest: upd ins
        split: if_splits option.splits)
qed

lemma MarkComplete_Inr:
  assumes "MarkComplete w = (Inr u, w')"
  shows "setting ''setup_completed'' w \<noteq> Some ''true'' \<and> sealed w'"
proof -
  obtain v where v: "mark_body (tick w) = (Inr (), v)" "w' = (tick v)\<lparr>completed := True\<rparr>"
    using assms
    by (auto simp: MarkComplete_def run_iffs transaction_eq_Inr_iff store_completed_def access_def)
  from mark_body_settings [OF v(1)] v(2) show ?thesis
    by (simp add: sealed_def setup_Completed_def)
qed

lemma MarkComplete_Inl: "MarkComplete w = (Inl e, w') \<Longrightarrow> w' = w\<lparr>stp := stp w'\<rparr>"
  by (auto simp: MarkComplete_def bnd_eq_Inl_iff store_completed_def access_def dest: transaction_atomic)

lemma MarkComplete_sealed: "moves (keeps sealed) MarkComplete"
proof -
  have "sealed (snd (MarkComplete w))" if s: "sealed w" for w :: "'a setupdb_scheme"
  proof (cases "MarkComplete w")
    case (Pair r w')
    show ?thesis
    proof (cases r)
      case (Inl e)
      with Pair MarkComplete_Inl [of w e w'] have "w' = w\<lparr>stp := stp w'\<rparr>" by simp
      moreover have "sealed (w\<lparr>stp := n\<rparr>)" for n using s by (simp add: sealed_def setup_Completed_def)
      ultimately have "sealed w'" by metis
      with Pair show ?thesis by simp
    next
      case (Inr u)
      with Pair MarkComplete_Inr [of w u w'] show ?thesis by simp
    qed
  qed
  then show ?thesis by (simp add: moves_def keeps_def)
qed

lemma setup_call_sealed: "setup_call w w' \<Longrightarrow> sealed w \<Longrightarrow> sealed w'"
  by (induction rule: setup_call.induct)
    (blast intro: keeps_snd MarkComplete_sealed Refresh_sealed HasAnyUser_sealed EnsureInstanceID_sealed
      SaveInstance_sealed)+

lemma setup_run_sealed: "setup_call\<^sup>*\<^sup>* w w' \<Longrightarrow> sealed w \<Longrightarrow> sealed w'"
  by (induction rule: rtranclp_induct) (auto intro: setup_call_sealed)

text \<open>
  The wizard completes once: after a call of \<open>MarkComplete\<close> succeeded, no later call succeeds, the
  cached flag stays set through every further request to the service, and the gate answers every
  wizard path with 404 (the status probe apart) and passes all else.
\<close>

theorem setup_completes_once:
  assumes "MarkComplete w = (Inr (), w1)" and "setup_call\<^sup>*\<^sup>* w1 w2"
  shows "setup_Completed w2 \<and> (\<nexists>w3. MarkComplete w2 = (Inr (), w3)) \<and>
     SetupGate (setup_Completed w2) path =
       (if prefix ''/api/v1/setup/'' path \<and> path \<noteq> ''/api/v1/setup/status'' then Reply 404 ''not_found''
        else Next)"
proof -
  have "sealed w2" using MarkComplete_Inr [OF assms(1)] setup_run_sealed [OF assms(2)] by blast
  then show ?thesis
    using MarkComplete_Inr [of w2 "()"] by (auto simp: sealed_def SetupGate_def Let_def)
qed

lemma prefix_api: "prefix ''/api/v1/setup/'' path \<Longrightarrow> prefix ''/api/v1/'' path"
  by (auto simp: prefix_def)

text \<open>
  With the two gates in a row (setup first, as the router mounts them) an API request is handed on
  only to the wizard or the health probe before completion, never to the wizard (its status probe
  apart) after it, and during maintenance only to the listed prefixes.
\<close>

theorem gates_closed:
  "prefix ''/api/v1/'' path \<and> SetupGate done path = Next \<and> Maintenance on path = Next \<longleftrightarrow>
     prefix ''/api/v1/'' path \<and>
     (if done then (if prefix ''/api/v1/setup/'' path then path = ''/api/v1/setup/status'' else True)
      else prefix ''/api/v1/setup/'' path \<or> path = ''/api/v1/healthz'') \<and>
     (if on then \<exists>p \<in> {''/api/v1/healthz'', ''/api/v1/auth/login'', ''/api/v1/auth/refresh'',
        ''/api/v1/auth/logout'', ''/api/v1/auth/me'', ''/api/v1/auth/2fa/'', ''/api/v1/setup/'',
        ''/api/v1/instance/settings''}. prefix p path else True)"
proof -
  have "Maintenance on path = Next \<longleftrightarrow> \<not> on \<or> (\<exists>p \<in> set maintenancePass. prefix p path)"
    by (simp add: Maintenance_def maintenanceAllowed_def list_ex_iff)
  moreover have "prefix ''/api/v1/'' path \<Longrightarrow> SetupGate done path = Next \<longleftrightarrow>
      (if done then \<not> prefix ''/api/v1/setup/'' path \<or> path = ''/api/v1/setup/status''
       else prefix ''/api/v1/setup/'' path \<or> path = ''/api/v1/healthz'')"
    by (auto simp: SetupGate_def Let_def prefix_api)
  moreover define Q where "Q \<longleftrightarrow> (\<exists>p \<in> {''/api/v1/healthz'', ''/api/v1/auth/login'', ''/api/v1/auth/refresh'',
        ''/api/v1/auth/logout'', ''/api/v1/auth/me'', ''/api/v1/auth/2fa/'', ''/api/v1/setup/'',
        ''/api/v1/instance/settings''}. prefix p path)"
  moreover have "(\<exists>p \<in> set maintenancePass. prefix p path) = Q"
    unfolding Q_def by (rule bex_cong) (simp_all add: maintenancePass_def)
  ultimately show ?thesis unfolding Q_def [symmetric] by (auto split: if_splits)
qed

section \<open>Witness\<close>

definition fx_setup :: setupdb where
  "fx_setup =
     \<lparr>orc = quiet_env, stp = 0, users = [], roles = [], teams = [], team_members = [], apps = [],
      refresh_tokens = [], totp_used = [], api_tokens = [],
      settings = [\<lparr>st_key = ''instance_id'', st_value = ''prx_1'', st_updated_at = 0\<rparr>],
      servers = [], domains = [], secrets = [], app_volumes = [], deployments = [], dns_zones = [], git_sources = [],
      tags = [], app_tags = [], completed = False\<rparr>"

theorem setup_completes_once_witness:
  "fst (MarkComplete fx_setup) = Inr () \<and>
   SetupGate (setup_Completed (snd (MarkComplete fx_setup))) ''/api/v1/setup/admin'' = Reply 404 ''not_found''"
proof -
  have h: "fst (MarkComplete fx_setup) = Inr ()" by code_simp
  have p: "prefix ''/api/v1/setup/'' ''/api/v1/setup/admin'' \<and> ''/api/v1/setup/admin'' \<noteq> ''/api/v1/setup/status''"
    by simp
  from setup_completes_once [OF fst_result [OF h] rtranclp.rtrancl_refl, of "''/api/v1/setup/admin''"] h
  show ?thesis unfolding if_P [OF p] by blast
qed

end
