(* ===== verification/ApiToken.thy ===== *)
theory ApiToken
  imports Tokens Fixtures
begin

text \<open>
  Personal API tokens (\<open>internal/apitoken/service.go\<close>) and the middleware that authenticates a request
  by one of them or by an access token (\<open>internal/api/apimiddleware/auth.go\<close>). SHA-256 and the JWT
  library are the parameters \<open>sha\<close> and \<open>parse\<close> of the theory on sessions.
\<close>

section \<open>Tokens\<close>

definition TokenPrefix :: string where
  "TokenPrefix = ''prx_pat_''"

record Token =
  Token_ID :: string
  Token_UserID :: string
  Token_Name :: string
  Token_LastFour :: string
  Token_ExpiresAt :: "int option"
  Token_LastUsedAt :: "int option"
  Token_RevokedAt :: "int option"
  Token_CreatedAt :: int
  Token_UpdatedAt :: int

record CreateResult =
  cr_Token :: Token
  cr_Raw :: string

definition pat_ErrNotFound :: err where
  "pat_ErrNotFound = ErrNew ''apitoken: not found''"

definition ErrRevoked :: err where
  "ErrRevoked = ErrNew ''apitoken: revoked''"

definition ErrExpired :: err where
  "ErrExpired = ErrNew ''apitoken: expired''"

definition ErrBadName :: err where
  "ErrBadName = ErrNew ''apitoken: name required (1-100 chars)''"

definition ErrBadExpiry :: err where
  "ErrBadExpiry = ErrNew ''apitoken: expiry must be in the future''"

definition ErrBadFormat :: err where
  "ErrBadFormat = ErrNew ''apitoken: malformed token''"

definition generateRaw :: "('x, string) go" where
  "generateRaw = bnd (rand_read 32) (\<lambda>buf. ret (TokenPrefix @ base64_encode base64_url [] buf))"

definition hashRaw :: "sha256 \<Rightarrow> string \<Rightarrow> string" where
  "hashRaw sha raw = hex_encode (sha raw)"

definition check_expiry :: "int option \<Rightarrow> ('x, unit) go" where
  "check_expiry expiresAt =
     (case expiresAt of
        None \<Rightarrow> ret ()
      | Some t \<Rightarrow> bnd time_now (\<lambda>now. if \<not> t > now then fail ErrBadExpiry else ret ()))"

definition pat_Create :: "sha256 \<Rightarrow> string \<Rightarrow> string \<Rightarrow> int option \<Rightarrow> ('x, CreateResult) dbm" where
  "pat_Create sha userID name0 expiresAt =
     (let name = trim_space name0 in
      if name = [] \<or> length name > 100 then fail ErrBadName
      else
        bnd (check_expiry expiresAt) (\<lambda>_.
        bnd (wrapping ''apitoken: generate'' generateRaw) (\<lambda>raw.
        let hash = hashRaw sha raw; lastFour = drop (length raw - 4) raw in
        bnd (wrapping ''apitoken: id'' (rand_read 6)) (\<lambda>idBytes.
        let i = ''tok_'' @ hex_encode idBytes in
        bnd time_now (\<lambda>now.
        bnd (wrapping ''apitoken: insert'' (db_exec (insert_api_token
              \<lparr>at_id = i, at_user_id = userID, at_name = name, at_token_hash = hash, at_last_four = lastFour,
               at_expires_at = map_option unix expiresAt, at_last_used_at = None, at_revoked_at = None,
               at_created_at = unix now, at_updated_at = unix now\<rparr>))) (\<lambda>_.
        ret \<lparr>cr_Token = \<lparr>Token_ID = i, Token_UserID = userID, Token_Name = name, Token_LastFour = lastFour,
               Token_ExpiresAt = expiresAt, Token_LastUsedAt = None, Token_RevokedAt = None,
               Token_CreatedAt = now, Token_UpdatedAt = now\<rparr>, cr_Raw = raw\<rparr>))))))"

text \<open>\<open>time.Unix(s, 0)\<close> as nanoseconds.\<close>

definition scanToken :: "api_token \<Rightarrow> Token" where
  "scanToken t =
     \<lparr>Token_ID = at_id t, Token_UserID = at_user_id t, Token_Name = at_name t, Token_LastFour = at_last_four t,
      Token_ExpiresAt = map_option (\<lambda>s. s * second) (at_expires_at t),
      Token_LastUsedAt = map_option (\<lambda>s. s * second) (at_last_used_at t),
      Token_RevokedAt = map_option (\<lambda>s. s * second) (at_revoked_at t),
      Token_CreatedAt = at_created_at t * second, Token_UpdatedAt = at_updated_at t * second\<rparr>"

definition pat_List :: "string \<Rightarrow> ('x, Token list) dbm" where
  "pat_List userID =
     wrapping ''apitoken: list'' (db_query (\<lambda>w.
       map scanToken
         (sort_key (\<lambda>t. - at_created_at t)
            (filter (\<lambda>t. at_user_id t = userID \<and> at_revoked_at t = None) (api_tokens w)))))"

definition pat_Revoke :: "string \<Rightarrow> string \<Rightarrow> ('x, unit) dbm" where
  "pat_Revoke userID tokenID =
     bnd (wrapping ''apitoken: revoke'' (db_exec (\<lambda>w.
            update_api_tokens
              (\<lambda>t. at_id t = tokenID \<and> at_user_id t = userID \<and> at_revoked_at t = None)
              (\<lambda>t. t\<lparr>at_revoked_at := Some (unixepoch w)\<rparr>) w))) (\<lambda>n.
     if n = 0 then fail pat_ErrNotFound else ret ())"

definition Authenticate :: "sha256 \<Rightarrow> string \<Rightarrow> ('x, string) dbm" where
  "Authenticate sha raw =
     (if \<not> prefix TokenPrefix raw \<or> length raw < length TokenPrefix + 16 then fail ErrBadFormat
      else
        bnd (attempt (db_query_row (\<lambda>w.
               find (\<lambda>t. at_token_hash t = hashRaw sha raw) (api_tokens w)))) (\<lambda>r.
        case r of
          Inl e \<Rightarrow> (if errors_is e (ErrSql NoRows) then fail pat_ErrNotFound
                    else fail (ErrWrap ''apitoken: authenticate'' e))
        | Inr t \<Rightarrow>
            (case at_revoked_at t of
               Some _ \<Rightarrow> fail ErrRevoked
             | None \<Rightarrow>
                 (case at_expires_at t of
                    None \<Rightarrow> ret (at_user_id t)
                  | Some s \<Rightarrow>
                      bnd time_now (\<lambda>now.
                      if s * second < now then fail ErrExpired else ret (at_user_id t))))))"

definition TouchLastUsed :: "sha256 \<Rightarrow> string \<Rightarrow> ('x, unit) dbm" where
  "TouchLastUsed sha raw =
     bnd (attempt (db_exec (\<lambda>w.
            update_api_tokens (\<lambda>t. at_token_hash t = hashRaw sha raw)
              (\<lambda>t. t\<lparr>at_last_used_at := Some (unixepoch w)\<rparr>) w))) (\<lambda>_.
     ret ())"

section \<open>The middleware\<close>

text \<open>
  \<open>next\<close> is the handler behind the middleware: it gets the user the context is stamped with; \<open>None\<close> is
  the answer 401. \<open>tokens\<close> says whether a token service is wired in. The touch is deferred, so it runs
  after the handler whatever the handler returns.
\<close>

definition Auth ::
  "jwt_parse \<Rightarrow> sha256 \<Rightarrow> string \<Rightarrow> bool \<Rightarrow> (string \<Rightarrow> ('x, 'a) dbm) \<Rightarrow> string \<Rightarrow> ('x, 'a option) dbm" where
  "Auth parse sha secret tokens next authz =
     (if \<not> prefix ''Bearer '' authz then ret None
      else
        let raw = drop (length ''Bearer '') authz in
        if tokens \<and> prefix TokenPrefix raw then
          bnd (attempt (Authenticate sha raw)) (\<lambda>r.
          case r of
            Inl _ \<Rightarrow> ret None
          | Inr userID \<Rightarrow>
              bnd (attempt (next userID)) (\<lambda>out.
              bnd (TouchLastUsed sha raw) (\<lambda>_.
              bnd (lift_res out) (\<lambda>x. ret (Some x)))))
        else
          bnd time_now (\<lambda>now.
          case parse raw (hs256_key secret) now of
            Inl _ \<Rightarrow> ret None
          | Inr tok \<Rightarrow>
              (if \<not> tok_Valid tok then ret None
               else case tok_Claims tok of
                   None \<Rightarrow> ret None
                 | Some claims \<Rightarrow>
                     (if string_claim claims ''sub'' = [] then ret None
                      else bnd (next (string_claim claims ''sub'')) (\<lambda>x. ret (Some x))))))"

section \<open>Who is let in\<close>

lemma not_not_True: "b \<Longrightarrow> \<not> \<not> b"
  by simp

lemma TouchLastUsed_run: "bnd (TouchLastUsed sha raw) f w = f () (snd (TouchLastUsed sha raw w))"
  by (simp add: TouchLastUsed_def bnd_assoc bnd_attempt) (simp add: bnd_attempt ret_def)

lemma Authenticate_cases:
  "Authenticate sha raw w =
     (if \<not> prefix TokenPrefix raw \<or> length raw < 24 then (Inl ErrBadFormat, w)
      else if o_fault (orc w) (stp w)
      then (Inl (ErrWrap ''apitoken: authenticate'' (ErrSql DriverFailure)), tick w)
      else case find (\<lambda>t. at_token_hash t = hashRaw sha raw) (api_tokens w) of
          None \<Rightarrow> (Inl pat_ErrNotFound, tick w)
        | Some t \<Rightarrow>
            (if at_revoked_at t \<noteq> None then (Inl ErrRevoked, tick w)
             else case at_expires_at t of
                 None \<Rightarrow> (Inr (at_user_id t), tick w)
               | Some s \<Rightarrow>
                   ((if s * second < o_now (orc w) (Suc (stp w)) then Inl ErrExpired else Inr (at_user_id t)),
                    tick (tick w))))"
  by (auto simp: Authenticate_def TokenPrefix_def bnd_attempt db_query_row_cases ret_def fail_def
      bnd_Inr [OF time_now_def] split: option.split)

text \<open>
  A personal token authenticates as user \<open>u\<close> exactly when it is well formed, its hash is on file, it
  is not revoked, its expiry, if any, is not past, and \<open>u\<close> owns it (and the database answers).
\<close>

theorem Authenticate_iff:
  "fst (Authenticate sha raw w) = Inr u \<longleftrightarrow>
     prefix ''prx_pat_'' raw \<and> length raw \<ge> 24 \<and> \<not> o_fault (orc w) (stp w) \<and>
     (\<exists>t. find (\<lambda>t. at_token_hash t = hashRaw sha raw) (api_tokens w) = Some t \<and> at_user_id t = u \<and>
        at_revoked_at t = None \<and>
        (case at_expires_at t of None \<Rightarrow> True | Some s \<Rightarrow> o_now (orc w) (Suc (stp w)) \<le> s * second))"
  by (auto simp: Authenticate_cases TokenPrefix_def split: option.splits)

text \<open>
  The middleware runs the handler, and runs it for user \<open>u\<close>, exactly on a bearer header whose
  credential is good: a personal token of \<open>u\<close> when it has the prefix and the service is wired in (it is
  never tried as an access token then), and else an access token the library verifies under the HS256
  key whose non-empty subject is \<open>u\<close>. In every other case the answer is 401.
\<close>

theorem Auth_identity:
  "fst (Auth parse sha secret tokens (\<lambda>u. ret u) authz w) =
     Inr (if \<not> prefix ''Bearer '' authz then None
          else if tokens \<and> prefix ''prx_pat_'' (drop 7 authz)
          then (case fst (Authenticate sha (drop 7 authz) w) of Inl _ \<Rightarrow> None | Inr u \<Rightarrow> Some u)
          else (case parse (drop 7 authz) (hs256_key secret) (o_now (orc w) (stp w)) of
                  Inl _ \<Rightarrow> None
                | Inr tok \<Rightarrow>
                    (case tok_Claims tok of
                       None \<Rightarrow> None
                     | Some cs \<Rightarrow>
                         if tok_Valid tok \<and> string_claim cs ''sub'' \<noteq> []
                         then Some (string_claim cs ''sub'') else None)))"
proof (cases "prefix ''Bearer '' authz")
  case True
  define raw where "raw = drop 7 authz"
  have "length ''Bearer '' = 7" by simp
  then have raw: "drop (length ''Bearer '') authz = raw" unfolding raw_def by (rule arg_cong)
  show ?thesis
  proof (cases "tokens \<and> prefix TokenPrefix raw")
    case pat: True
    have "fst (Auth parse sha secret tokens (\<lambda>u. ret u) authz w) =
        Inr (case fst (Authenticate sha raw w) of Inl _ \<Rightarrow> None | Inr u \<Rightarrow> Some u)"
      unfolding Auth_def Let_def raw if_P [OF pat] if_not_P [OF not_not_True [OF True]] bnd_attempt
      by (simp add: bnd_attempt TouchLastUsed_run ret_run lift_res_run bnd_Inr [OF lift_res_run] split: sum.split)
    with True pat show ?thesis by (simp add: raw_def TokenPrefix_def)
  next
    case jwt: False
    show ?thesis
      unfolding Auth_def Let_def raw if_not_P [OF jwt] if_not_P [OF not_not_True [OF True]]
        bnd_Inr [OF time_now_def]
      using True jwt by (auto simp: raw_def TokenPrefix_def ret_run split: sum.split option.split)
  qed
qed (simp add: Auth_def ret_run)

text \<open>
  The issuer is not looked at: a token signed with the same key for another audience is let in here,
  though \<open>ParseAccessToken\<close> refuses it.
\<close>

theorem Auth_ignores_issuer:
  assumes "parse raw (hs256_key secret) (o_now (orc w) (stp w)) =
      Inr \<lparr>tok_Valid = True, tok_Claims = Some [(''sub'', ClaimString ''u1''), (''iss'', ClaimString ''other'')]\<rparr>"
    and "\<not> prefix ''prx_pat_'' raw"
  shows "fst (Auth parse sha secret True (\<lambda>u. ret u) (''Bearer '' @ raw) w) = Inr (Some ''u1'') \<and>
     fst (ParseAccessToken parse secret raw w) = Inl ErrWrongIssuer"
  using assms
  by (auto simp: Auth_identity ParseAccessToken_def bnd_def time_now_def string_claim_def JWTIssuer_def fail_def)

section \<open>The life of a token\<close>

lemma base64_length: "length (base64_encode al [] bs) = (4 * length bs + 2) div 3"
  by (induction al "[] :: string" bs rule: base64_encode.induct) auto

lemma generateRaw_Inr: "generateRaw w = (Inr raw, w') \<Longrightarrow> prefix ''prx_pat_'' raw \<and> length raw = 51"
  by (auto simp: generateRaw_def run_iffs ret_def TokenPrefix_def base64_length)

lemma pat_Create_Inr:
  assumes "pat_Create sha u name ex w = (Inr r, w1)"
  obtains t where "prefix ''prx_pat_'' (cr_Raw r)" "length (cr_Raw r) = 51" "schema_ok w1"
    "api_tokens w1 = api_tokens w @ [t]" "at_token_hash t = hashRaw sha (cr_Raw r)" "at_user_id t = u"
    "at_revoked_at t = None" "at_expires_at t = map_option unix ex" "orc w1 = orc w"
proof -
  have reads: "moves only_step (check_expiry ex)" "moves only_step generateRaw"
    unfolding check_expiry_def generateRaw_def by (intro rd.frame_rules moves_intro)+
  from assms obtain v1 v2 raw bs v n where
    c: "check_expiry ex w = (Inr (), v1)" and g: "generateRaw v1 = (Inr raw, v2)" and raw: "cr_Raw r = raw"
    and ins: "insert_api_token \<lparr>at_id = ''tok_'' @ hex_encode bs, at_user_id = u, at_name = trim_space name,
        at_token_hash = hashRaw sha raw, at_last_four = drop (length raw - 4) raw,
        at_expires_at = map_option unix ex, at_last_used_at = None, at_revoked_at = None,
        at_created_at = unix (o_now (orc v2) (Suc (stp v2))), at_updated_at = unix (o_now (orc v2) (Suc (stp v2)))\<rparr>
        (tick (tick v2)) = Inr (n, v)" and w1: "w1 = tick v"
    by (auto simp: pat_Create_def Let_def run_iffs ret_def fail_def split: if_splits)
  obtain k where "v1 = w\<lparr>stp := k\<rparr>" by (rule only_stepE [OF reads(1) c])
  moreover obtain l where "v2 = v1\<lparr>stp := l\<rparr>" by (rule only_stepE [OF reads(2) g])
  ultimately have v2: "api_tokens v2 = api_tokens w" "orc v2 = orc w" by simp_all
  from ins w1 v2 generateRaw_Inr [OF g] raw that show ?thesis
    by (auto simp: insert_api_token_def checked_Inr_iff)
qed

lemma find_appended:
  assumes "distinct (map k (rs @ [r]))"
  shows "find (\<lambda>x. k x = k r) (rs @ [r]) = Some r"
  by (rule find_key [OF assms]) simp_all

text \<open>
  C39. The raw token handed out by \<open>Create\<close> authenticates as the user it was made for, whatever other
  tokens exist, as long as its expiry (in whole seconds) is not past.
\<close>

theorem created_token_authenticates:
  assumes "pat_Create sha u name ex w = (Inr r, w1)" and "\<not> o_fault (orc w) (stp w1)"
    and "case ex of None \<Rightarrow> True | Some t \<Rightarrow> o_now (orc w) (Suc (stp w1)) \<le> unix t * second"
  shows "fst (Authenticate sha (cr_Raw r) w1) = Inr u"
proof (rule pat_Create_Inr [OF assms(1)])
  fix t assume t: "prefix ''prx_pat_'' (cr_Raw r)" "length (cr_Raw r) = 51" "schema_ok w1"
    "api_tokens w1 = api_tokens w @ [t]" "at_token_hash t = hashRaw sha (cr_Raw r)" "at_user_id t = u"
    "at_revoked_at t = None" "at_expires_at t = map_option unix ex" "orc w1 = orc w"
  then have "distinct (map at_token_hash (api_tokens w @ [t]))"
    by (simp add: schema_ok_def unique_ok_def deploy_unique_ok_def)
  from find_appended [OF this]
  have "find (\<lambda>t. at_token_hash t = hashRaw sha (cr_Raw r)) (api_tokens w1) = Some t" by (simp add: t)
  with t assms(2,3) show ?thesis
    by (auto simp: Authenticate_cases TokenPrefix_def split: option.splits)
qed

text \<open>The calls that reach the token service, in any order.\<close>

inductive pat_call :: "sha256 \<Rightarrow> 'x db_scheme \<Rightarrow> 'x db_scheme \<Rightarrow> bool" for sha where
  pc_create: "pat_call sha w (snd (pat_Create sha u name ex w))"
| pc_list: "pat_call sha w (snd (pat_List u w))"
| pc_revoke: "pat_call sha w (snd (pat_Revoke u i w))"
| pc_authenticate: "pat_call sha w (snd (Authenticate sha raw w))"
| pc_touch: "pat_call sha w (snd (TouchLastUsed sha raw w))"

definition pat_dead :: "string \<Rightarrow> 'x db_scheme \<Rightarrow> bool" where
  "pat_dead h w \<longleftrightarrow>
     (\<exists>t. find (\<lambda>t. at_token_hash t = h) (api_tokens w) = Some t \<and> at_revoked_at t \<noteq> None)"

interpretation pdead: frame "keeps (pat_dead h)" for h
  by (rule frame_keeps) (simp add: pat_dead_def)

lemma update_keeps_dead:
  assumes "update_api_tokens p f w = Inr (n, w')" and "pat_dead h w"
    and "\<And>t. at_token_hash (f t) = at_token_hash t"
    and "\<And>t. at_revoked_at t \<noteq> None \<Longrightarrow> at_revoked_at (f t) \<noteq> None"
  shows "pat_dead h w'"
proof -
  from assms(2) obtain t where
    t: "find (\<lambda>t. at_token_hash t = h) (api_tokens w) = Some t" "at_revoked_at t \<noteq> None"
    by (auto simp: pat_dead_def)
  let ?g = "\<lambda>t. (f t)\<lparr>at_updated_at := unixepoch w\<rparr>"
  have "find (\<lambda>t. at_token_hash t = h) (update_where p ?g (api_tokens w)) = Some (if p t then ?g t else t)"
    by (subst find_update_mixed) (simp_all add: assms(3) t)
  moreover have "api_tokens w' = update_where p ?g (api_tokens w)"
    using assms(1) by (auto simp: update_api_tokens_def checked_Inr_iff)
  ultimately show ?thesis using assms(4) [OF t(2)] t(2) by (auto simp: pat_dead_def)
qed

lemma insert_keeps_dead:
  "insert_api_token t w = Inr (n, w') \<Longrightarrow> pat_dead h w \<Longrightarrow> pat_dead h w'"
proof -
  have "find q xs = Some y \<Longrightarrow> find q (xs @ ys) = Some y" for q :: "api_token \<Rightarrow> bool" and xs ys y
    by (induction xs) (auto split: if_splits)
  then show "insert_api_token t w = Inr (n, w') \<Longrightarrow> pat_dead h w \<Longrightarrow> pat_dead h w'"
    by (auto simp: insert_api_token_def checked_Inr_iff pat_dead_def)
qed

lemma pat_calls_keep_dead:
  "moves (keeps (pat_dead h)) (pat_Create sha u name ex)"
  "moves (keeps (pat_dead h)) (pat_List u)"
  "moves (keeps (pat_dead h)) (pat_Revoke u i)"
  "moves (keeps (pat_dead h)) (Authenticate sha raw)"
  "moves (keeps (pat_dead h)) (TouchLastUsed sha raw)"
  unfolding pat_Create_def Let_def check_expiry_def generateRaw_def pat_List_def pat_Revoke_def
    Authenticate_def TouchLastUsed_def
  by (intro pdead.frame_rules pdead.frame_exec moves_intro;
      auto simp: keeps_def intro: insert_keeps_dead elim!: update_keeps_dead)+

lemma pat_run_dead: "(pat_call sha)\<^sup>*\<^sup>* w w' \<Longrightarrow> pat_dead h w \<Longrightarrow> pat_dead h w'"
proof (induction rule: rtranclp_induct)
  case (step y z)
  from step(2) have "pat_dead h y \<Longrightarrow> pat_dead h z"
    by cases (blast intro: keeps_snd pat_calls_keep_dead)+
  with step show ?case by blast
qed

text \<open>
  C38. A revoked token never authenticates again: once its owner's \<open>Revoke\<close> went through, no later use
  of the token service (further tokens, revocations, authentications, in any number and order) makes
  the raw token acceptable.
\<close>

theorem revoked_pat_stays_dead:
  assumes "schema_ok w" and "find (\<lambda>t. at_token_hash t = hashRaw sha raw) (api_tokens w) = Some t"
    and "pat_Revoke u (at_id t) w = (Inr (), w1)" and "(pat_call sha)\<^sup>*\<^sup>* w1 w2"
  shows "\<not> (\<exists>x. fst (Authenticate sha raw w2) = Inr x)"
proof -
  let ?p = "\<lambda>s. at_id s = at_id t \<and> at_user_id s = u \<and> at_revoked_at s = None"
  from assms(3) obtain v n where
    v: "update_api_tokens ?p (\<lambda>s. s\<lparr>at_revoked_at := Some (unixepoch w)\<rparr>) w = Inr (n, v)" "n \<noteq> 0" "w1 = tick v"
    by (auto simp: pat_Revoke_def run_iffs ret_def fail_def split: if_splits)
  then obtain s where s: "s \<in> set (api_tokens w)" "?p s"
    by (auto simp: update_api_tokens_def checked_Inr_iff affected_def filter_empty_conv)
  have "t \<in> set (api_tokens w)" using assms(2) by (auto dest: find_SomeD)
  moreover have "distinct (map at_id (api_tokens w))"
    using assms(1) by (simp add: schema_ok_def unique_ok_def deploy_unique_ok_def)
  ultimately have "s = t" using s by (metis find_key option.inject)
  with s have pt: "?p t" by simp
  have "pat_dead (hashRaw sha raw) w1"
    using v pt assms(2) by (auto simp: pat_dead_def update_api_tokens_def checked_Inr_iff find_update_mixed)
  from pat_run_dead [OF assms(4) this] show ?thesis
    by (auto simp: Authenticate_cases pat_dead_def)
qed

section \<open>Witnesses\<close>

definition fx_pat_sha :: sha256 where
  "fx_pat_sha s = (if length s = 51 then [1] else [2])"

definition fx_pat :: "CreateResult \<times> db" where
  "fx_pat = (case pat_Create fx_pat_sha ''u1'' ''ci'' None fx_db of (Inr r, w) \<Rightarrow> (r, w))"

lemma fx_pat_Inr: "pat_Create fx_pat_sha ''u1'' ''ci'' None fx_db = (Inr (fst fx_pat), snd fx_pat)"
proof -
  have "\<not> isl (fst (pat_Create fx_pat_sha ''u1'' ''ci'' None fx_db))" by code_simp
  then show ?thesis by (auto simp: fx_pat_def split: prod.split sum.split)
qed

theorem created_token_authenticates_witness:
  "fst (Authenticate fx_pat_sha (cr_Raw (fst fx_pat)) (snd fx_pat)) = Inr ''u1''"
  by (rule created_token_authenticates [OF fx_pat_Inr]) simp_all

theorem revoked_pat_stays_dead_witness:
  "fst (pat_Revoke ''u1'' (at_id (hd (api_tokens (snd fx_pat)))) (snd fx_pat)) = Inr () \<and>
   \<not> (\<exists>x. fst (Authenticate fx_pat_sha (cr_Raw (fst fx_pat))
        (snd (pat_Revoke ''u1'' (at_id (hd (api_tokens (snd fx_pat)))) (snd fx_pat)))) = Inr x)"
proof -
  have h: "fst (pat_Revoke ''u1'' (at_id (hd (api_tokens (snd fx_pat)))) (snd fx_pat)) = Inr ()" by code_simp
  have s: "schema_ok (snd fx_pat)" by (rule pat_Create_Inr [OF fx_pat_Inr])
  have "map_option at_id (find (\<lambda>t. at_token_hash t = hashRaw fx_pat_sha (cr_Raw (fst fx_pat))) (api_tokens (snd fx_pat)))
      = Some (at_id (hd (api_tokens (snd fx_pat))))" by code_simp
  then obtain t where
    t: "find (\<lambda>t. at_token_hash t = hashRaw fx_pat_sha (cr_Raw (fst fx_pat))) (api_tokens (snd fx_pat)) = Some t"
    and i: "at_id t = at_id (hd (api_tokens (snd fx_pat)))" by auto
  from revoked_pat_stays_dead [OF s t fst_result [OF h [folded i]] rtranclp.rtrancl_refl] h
  show ?thesis unfolding i by blast
qed

end
