(* ===== verification/Strconv.thy ===== *)
theory Strconv
  imports Prelude
begin

text \<open>
  Two functions of Go's standard library on byte strings that several packages of the program read operator
  input with: \<open>strings.Fields\<close> and \<open>strconv.Atoi\<close>, with what they do to numerals the program prints.
\<close>

section \<open>Fields\<close>

definition flush :: "string \<Rightarrow> string list" where
  "flush word = (if word = [] then [] else [word])"

text \<open>
  White space is what \<open>unicode.IsSpace\<close> accepts; its encodings start at a byte no encoding of another code
  point contains, so looking for them at every byte splits where the runes do.
\<close>

function fields_from :: "string \<Rightarrow> string \<Rightarrow> string list" where
  "fields_from word s =
     (case s of
        [] \<Rightarrow> flush word
      | c # cs \<Rightarrow>
          (case find (\<lambda>p. p \<noteq> [] \<and> prefix p s) space_encodings of
             None \<Rightarrow> fields_from (word @ [c]) cs
           | Some p \<Rightarrow> flush word @ fields_from [] (drop (length p) s)))"
  by pat_completeness auto
termination
  by (relation "measure (\<lambda>(word, s). length s)") (auto simp: find_Some_iff)

declare fields_from.simps [simp del]

definition Fields :: "string \<Rightarrow> string list" where
  "Fields s = fields_from [] s"

definition is_graph :: "char \<Rightarrow> bool" where
  "is_graph c \<longleftrightarrow> CHR 0x21 \<le> c \<and> c \<le> CHR 0x7E"

lemma graph_no_space: "is_graph c \<Longrightarrow> find (\<lambda>p. p \<noteq> [] \<and> prefix p (c # cs)) space_encodings = None"
proof -
  assume "is_graph c"
  moreover have "list_all (\<lambda>p. \<not> is_graph (hd p)) space_encodings" by (simp add: space_encodings_def is_graph_def)
  ultimately show ?thesis by (auto simp: find_None_iff list_all_iff prefix_Cons)
qed

lemma fields_from_Nil [simp]: "fields_from word [] = flush word"
  by (simp add: fields_from.simps)

lemma fields_from_graph: "is_graph c \<Longrightarrow> fields_from word (c # s) = fields_from (word @ [c]) s"
  by (simp add: fields_from.simps [of word "c # s"] graph_no_space)

lemma fields_from_blank: "fields_from word (CHR '' '' # s) = flush word @ fields_from [] s"
  by (simp add: fields_from.simps [of word "CHR '' '' # s"] space_encodings_def)

lemma fields_from_word: "list_all is_graph v \<Longrightarrow> fields_from word (v @ s) = fields_from (word @ v) s"
  by (induction v arbitrary: word) (simp_all add: fields_from_graph)

text \<open>Words without white space, joined by single blanks, come back.\<close>

definition unwords :: "string list \<Rightarrow> string" where
  "unwords vs = concat (map (\<lambda>v. v @ '' '') vs)"

lemma Fields_unwords: "list_all (\<lambda>v. v \<noteq> [] \<and> list_all is_graph v) vs \<Longrightarrow> Fields (unwords vs) = vs"
  by (induction vs) (simp_all add: Fields_def unwords_def fields_from_word fields_from_blank flush_def)

section \<open>Numbers\<close>

definition digit_value :: "char \<Rightarrow> nat" where
  "digit_value c = of_char c - 48"

definition digits_value :: "string \<Rightarrow> nat" where
  "digits_value s = foldl (\<lambda>n c. 10 * n + digit_value c) 0 s"

definition sign_split :: "string \<Rightarrow> bool \<times> string" where
  "sign_split s =
     (case s of
        [] \<Rightarrow> (False, [])
      | c # cs \<Rightarrow> (if c = CHR ''-'' then (True, cs) else if c = CHR ''+'' then (False, cs) else (False, s)))"

definition Atoi :: "string \<Rightarrow> int option" where
  "Atoi s =
     (case sign_split s of (neg, ds) \<Rightarrow>
        let n = (if neg then - int (digits_value ds) else int (digits_value ds))
        in if ds = [] \<or> \<not> list_all is_digit ds \<or> n < - (2 ^ 63) \<or> n \<ge> 2 ^ 63 then None else Some n)"

lemma digits_value_snoc: "digits_value (s @ [c]) = 10 * digits_value s + digit_value c"
  by (simp add: digits_value_def)

lemma digit_of_value: "n < 10 \<Longrightarrow> digit_value (char_of (48 + n)) = n"
  by (simp add: digit_value_def)

lemma nat_digits_value: "digits_value (nat_digits n) = n"
proof (induction n rule: nat_digits.induct)
  case (1 n)
  show ?case
  proof (cases "n < 10")
    case True
    then show ?thesis by (simp add: nat_digits.simps [of n] digits_value_def digit_of_value)
  next
    case False
    then show ?thesis
      using 1 by (simp add: nat_digits.simps [of n] digits_value_snoc digit_of_value)
  qed
qed

lemma digit_is_digit: "(n :: nat) < 10 \<Longrightarrow> is_digit (char_of (48 + n))"
  by (simp add: is_digit_def less_eq_char_def)

lemma nat_digits_digits: "list_all is_digit (nat_digits n)"
proof (induction n rule: nat_digits.induct)
  case (1 n)
  then show ?case by (subst nat_digits.simps) (simp add: digit_is_digit)
qed

lemma digit_is_graph: "is_digit c \<Longrightarrow> is_graph c"
  by (simp add: is_digit_def is_graph_def less_eq_char_def)

lemma nat_digits_graph: "list_all is_graph (nat_digits n)"
  using nat_digits_digits [of n] by (auto simp: list_all_iff intro: digit_is_graph)

lemma sign_split_digits: "list_all is_digit s \<Longrightarrow> sign_split s = (False, s)"
  by (auto simp: sign_split_def is_digit_def split: list.split)

text \<open>Reading a printed number gives the number.\<close>

lemma Atoi_nat_digits: "n < 2 ^ 63 \<Longrightarrow> Atoi (nat_digits n) = Some (int n)"
  using nat_digits_digits [of n]
  by (simp add: Atoi_def sign_split_digits nat_digits_value nat_digits_ne Let_def)

lemma Atoi_bounds: "Atoi s = Some n \<Longrightarrow> - (2 ^ 63) \<le> n \<and> n < 2 ^ 63"
  by (auto simp: Atoi_def Let_def split: prod.splits if_splits)

end
