(* ===== verification/Docker.thy ===== *)
theory Docker
  imports Complex_Main Crypto Database Strconv
begin

text \<open>
  The wrapper around the container engine (\<open>internal/dockersvc\<close>). The Moby SDK is the parameter \<open>moby\<close>:
  one field per call the wrapper makes, each a transition of the state \<open>'d\<close> of the engines, which may
  answer differently at every step. The wrapper's own decisions (argument checks, defaults, error
  classification, the clean-up of a half-created container) are definitions over it. Floating point
  numbers are exact rationals, and of the forms \<open>strconv.ParseFloat\<close> reads the decimal ones are
  covered. Closing a provider has no modelled effect.
\<close>

section \<open>The engines and the machine's state\<close>

record ('d, 'c) hostdb = db +
  dockerd :: 'd
  caddyd :: 'c
  locks :: "string list"
  globalSlots :: "(nat \<times> nat) option"
  events :: "(string \<times> string) list"

type_synonym ('d, 'c, 'x, 'a) hostm = "(('d, 'c, 'x) hostdb_ext db_ext, 'a) go"

type_synonym ('s, 'a) call = "nat \<Rightarrow> 's \<Rightarrow> (err + 'a) \<times> 's"

definition on_docker :: "('d, 'a) call \<Rightarrow> ('d, 'c, 'x, 'a) hostm" where
  "on_docker f w = (case f (stp w) (dockerd w) of (r, d) \<Rightarrow> (r, tick (w\<lparr>dockerd := d\<rparr>)))"

datatype provider =
  LocalProvider string
| RemoteProvider string string int string "nat list"

record resources =
  rs_Memory :: int
  rs_NanoCPUs :: int
  rs_MemorySwap :: int
  rs_MemoryReservation :: int
  rs_MemorySwappiness :: "int option"
  rs_CpusetCpus :: string
  rs_CPUShares :: int

record dmount =
  m_Source :: string
  m_Target :: string
  m_Type :: string
  m_ReadOnly :: bool

text \<open>What is sent to the engine to create a container.\<close>

record container_spec =
  cs_Name :: string
  cs_Image :: string
  cs_Cmd :: "string list"
  cs_Env :: "string list"
  cs_Labels :: "(string \<times> string) list"
  cs_Ports :: "(string \<times> string) list"
  cs_RestartPolicy :: string
  cs_AutoRemove :: bool
  cs_Resources :: resources
  cs_Mounts :: "dmount list"
  cs_Network :: string
  cs_Aliases :: "string list"

record listed_container =
  lc_Names :: "string list"
  lc_Labels :: "(string \<times> string) list"

record listed_image =
  li_RepoTags :: "string list"
  li_Created :: int

record 'd moby =
  mb_Client :: "provider \<Rightarrow> ('d, unit) call"
  mb_IsErrNotFound :: "err \<Rightarrow> bool"
  mb_NewPort :: "string \<Rightarrow> string \<Rightarrow> err + string"
  mb_ContainerCreate :: "provider \<Rightarrow> container_spec \<Rightarrow> ('d, string) call"
  mb_ContainerStart :: "provider \<Rightarrow> string \<Rightarrow> ('d, unit) call"
  mb_ContainerStop :: "provider \<Rightarrow> string \<Rightarrow> int \<Rightarrow> ('d, unit) call"
  mb_ContainerRestart :: "provider \<Rightarrow> string \<Rightarrow> int \<Rightarrow> ('d, unit) call"
  mb_ContainerRemove :: "provider \<Rightarrow> string \<Rightarrow> bool \<Rightarrow> ('d, unit) call"
  mb_ContainerRename :: "provider \<Rightarrow> string \<Rightarrow> string \<Rightarrow> ('d, unit) call"
  mb_ContainerInspect :: "provider \<Rightarrow> string \<Rightarrow> ('d, bool) call"
  mb_ContainerList :: "provider \<Rightarrow> (string \<times> string) list \<Rightarrow> ('d, listed_container list) call"
  mb_ExecCreate :: "provider \<Rightarrow> string \<Rightarrow> string list \<Rightarrow> ('d, string) call"
  mb_ExecAttach :: "provider \<Rightarrow> string \<Rightarrow> ('d, unit) call"
  mb_ExecRead :: "provider \<Rightarrow> string \<Rightarrow> ('d, nat list) call"
  mb_ExecInspect :: "provider \<Rightarrow> string \<Rightarrow> ('d, int) call"
  mb_ImageInspect :: "provider \<Rightarrow> string \<Rightarrow> ('d, unit) call"
  mb_ImageList :: "provider \<Rightarrow> ('d, listed_image list) call"
  mb_ImageRemove :: "provider \<Rightarrow> string \<Rightarrow> ('d, unit) call"
  mb_VolumeCreate :: "provider \<Rightarrow> string \<Rightarrow> (string \<times> string) list \<Rightarrow> ('d, unit) call"
  mb_NetworkInspect :: "provider \<Rightarrow> string \<Rightarrow> ('d, unit) call"
  mb_NetworkCreate :: "provider \<Rightarrow> string \<Rightarrow> ('d, unit) call"

definition ErrContainerNotFound :: err where
  "ErrContainerNotFound = ErrNew ''docker: container not found''"

definition ErrImageNotFound :: err where
  "ErrImageNotFound = ErrNew ''docker: image not found''"

definition ErrInvalidResource :: err where
  "ErrInvalidResource = ErrNew ''docker: invalid resource specification''"

text \<open>A call whose error is classified: a missing object becomes the sentinel, the rest is wrapped.\<close>

definition classified :: "'d moby \<Rightarrow> err \<Rightarrow> string \<Rightarrow> ('d, 'c, 'x, 'a) hostm \<Rightarrow> ('d, 'c, 'x, 'a) hostm" where
  "classified mb missing msg m =
     bnd (attempt m) (\<lambda>r.
     case r of
       Inl e \<Rightarrow> (if mb_IsErrNotFound mb e then fail missing else fail (ErrWrap msg e))
     | Inr x \<Rightarrow> ret x)"

section \<open>Providers\<close>

definition NewLocalProvider :: "string \<Rightarrow> provider" where
  "NewLocalProvider name = LocalProvider (if name = [] then ''local'' else name)"

definition NewRemoteProvider ::
  "(nat \<Rightarrow> err + unit) \<Rightarrow> string \<Rightarrow> string \<Rightarrow> int \<Rightarrow> string \<Rightarrow> nat list \<Rightarrow> ('x, provider) go" where
  "NewRemoteProvider writeKeyFile name host port user privateKeyPEM =
     (if name = [] then fail (ErrNew ''docker: remote provider: empty name'')
      else if host = [] then fail (ErrNew ''docker: remote provider: empty host'')
      else if user = [] then fail (ErrNew ''docker: remote provider: empty user'')
      else if privateKeyPEM = [] then fail (ErrNew ''docker: remote provider: empty private key'')
      else
        bnd (wrapping ''docker: key file'' (draw writeKeyFile)) (\<lambda>_.
        ret (RemoteProvider name host (if port \<le> 0 then 22 else port) user privateKeyPEM)))"

section \<open>Resource limits\<close>

text \<open>
  Decimal numbers: an optional sign, digits with an optional fraction, an optional exponent. The other forms of
  \<open>strconv.ParseFloat\<close> (hexadecimal, infinite, not a number) never get here: limits are stored only when they match
  \<open>memRegex\<close> and \<open>cpuRegex\<close>. Values are exact and unbounded where the code has \<open>float64\<close> and \<open>int64\<close>.
\<close>

definition parse_sign :: "string \<Rightarrow> rat \<times> string" where
  "parse_sign s =
     (case s of c # cs \<Rightarrow> (if c = CHR ''-'' then (-1, cs) else if c = CHR ''+'' then (1, cs) else (1, s))
      | [] \<Rightarrow> (1, []))"

definition parse_exponent :: "string \<Rightarrow> rat option" where
  "parse_exponent s =
     (case s of
        [] \<Rightarrow> Some 1
      | c # cs \<Rightarrow>
          (if c = CHR ''e'' \<or> c = CHR ''E'' then
             (case cs of
                [] \<Rightarrow> None
              | d # ds \<Rightarrow>
                  (let body = (if d = CHR ''-'' \<or> d = CHR ''+'' then ds else cs)
                   in if body = [] \<or> \<not> list_all is_digit body then None
                      else if d = CHR ''-'' then Some (1 / 10 ^ digits_value body)
                      else Some (10 ^ digits_value body)))
           else None))"

definition parse_float :: "string \<Rightarrow> rat option" where
  "parse_float s =
     (case parse_sign s of (sg, body) \<Rightarrow>
        let whole = takeWhile is_digit body;
            rest = dropWhile is_digit body;
            frac = (case rest of c # cs \<Rightarrow> (if c = CHR ''.'' then takeWhile is_digit cs else []) | [] \<Rightarrow> []);
            tail = (case rest of c # cs \<Rightarrow> (if c = CHR ''.'' then dropWhile is_digit cs else rest) | [] \<Rightarrow> [])
        in if whole = [] \<and> frac = [] then None
           else map_option (\<lambda>e. sg * (of_nat (digits_value whole)
                   + of_nat (digits_value frac) / 10 ^ length frac) * e) (parse_exponent tail))"

text \<open>\<open>int64(x)\<close> drops the fraction.\<close>

definition truncate_rat :: "rat \<Rightarrow> int" where
  "truncate_rat x = (if x < 0 then - \<lfloor>- x\<rfloor> else \<lfloor>x\<rfloor>)"

definition memory_unit :: "string \<Rightarrow> int" where
  "memory_unit s =
     (if suffix ''k'' s \<or> suffix ''kb'' s then 1024
      else if suffix ''m'' s \<or> suffix ''mb'' s then 1024 * 1024
      else if suffix ''g'' s \<or> suffix ''gb'' s then 1024 * 1024 * 1024
      else 1)"

definition trim_right :: "string \<Rightarrow> string \<Rightarrow> string" where
  "trim_right cs s = rev (dropWhile (\<lambda>c. c \<in> set cs) (rev s))"

definition parseMemory :: "string \<Rightarrow> err + int" where
  "parseMemory s0 =
     (let s = trim_space (to_lower s0)
      in if s = [] then Inr 0
         else case parse_float (trim_right ''kmgb'' s) of
             None \<Rightarrow> Inl (ErrWrap (''memory '' @ s) ErrInvalidResource)
           | Some v \<Rightarrow> Inr (truncate_rat (v * of_int (memory_unit s))))"

definition parseMemorySwap :: "string \<Rightarrow> err + int" where
  "parseMemorySwap s0 =
     (let s = trim_space s0
      in if s = [] then Inr 0 else if s = ''-1'' then Inr (-1) else parseMemory s)"

definition parseCPUs :: "string \<Rightarrow> err + int" where
  "parseCPUs s0 =
     (let s = trim_space s0
      in if s = [] then Inr 0
         else case parse_float s of
             None \<Rightarrow> Inl (ErrWrap (''cpus '' @ s) ErrInvalidResource)
           | Some v \<Rightarrow> Inr (truncate_rat (v * 1000000000)))"

definition no_resources :: resources where
  "no_resources =
     \<lparr>rs_Memory = 0, rs_NanoCPUs = 0, rs_MemorySwap = 0, rs_MemoryReservation = 0,
      rs_MemorySwappiness = None, rs_CpusetCpus = [], rs_CPUShares = 0\<rparr>"

definition sum_bind :: "err + 'a \<Rightarrow> ('a \<Rightarrow> err + 'b) \<Rightarrow> err + 'b" where
  "sum_bind r f = (case r of Inl e \<Rightarrow> Inl e | Inr x \<Rightarrow> f x)"

definition parseResources :: "string \<Rightarrow> string \<Rightarrow> err + resources" where
  "parseResources memory cpus =
     sum_bind (if memory \<noteq> [] then parseMemory memory else Inr 0) (\<lambda>mem.
     sum_bind (if cpus \<noteq> [] then parseCPUs cpus else Inr 0) (\<lambda>ncpus.
     Inr (no_resources\<lparr>rs_Memory := mem, rs_NanoCPUs := ncpus\<rparr>)))"

section \<open>Containers\<close>

text \<open>Go maps as association lists with one entry per key.\<close>

definition assoc_put :: "'k \<Rightarrow> 'v \<Rightarrow> ('k \<times> 'v) list \<Rightarrow> ('k \<times> 'v) list" where
  "assoc_put k v m = filter (\<lambda>p. fst p \<noteq> k) m @ [(k, v)]"

definition assoc_put_all :: "('k \<times> 'v) list \<Rightarrow> ('k \<times> 'v) list \<Rightarrow> ('k \<times> 'v) list" where
  "assoc_put_all new m = fold (\<lambda>(k, v). assoc_put k v) new m"

record PortBinding =
  pb_HostPort :: int
  pb_ContainerPort :: int
  pb_Protocol :: string

record ContainerOpts =
  co_Name :: string
  co_Image :: string
  co_Cmd :: "string list"
  co_Env :: "(string \<times> string) list"
  co_Labels :: "(string \<times> string) list"
  co_Network :: string
  co_Aliases :: "string list"
  co_PortBindings :: "PortBinding list"
  co_RestartPolicy :: string
  co_MemoryLimit :: string
  co_CPULimit :: string
  co_AutoRemove :: bool
  co_Mounts :: "dmount list"
  co_MemorySwap :: string
  co_MemorySwappiness :: "int option"
  co_MemoryReservation :: string
  co_CPUSet :: string
  co_CPUShares :: int

definition PrexelNetwork :: string where
  "PrexelNetwork = ''prexel-net''"

definition int_digits :: "int \<Rightarrow> string" where
  "int_digits n = (if n < 0 then ''-'' @ nat_digits (nat (- n)) else nat_digits (nat n))"

fun port_map :: "'d moby \<Rightarrow> PortBinding list \<Rightarrow> err + (string \<times> string) list" where
  "port_map mb [] = Inr []"
| "port_map mb (b # bs) =
     (let proto = (if pb_Protocol b = [] then ''tcp'' else pb_Protocol b)
      in case mb_NewPort mb proto (int_digits (pb_ContainerPort b)) of
          Inl e \<Rightarrow> Inl (ErrWrap ''docker: invalid container port'' e)
        | Inr port \<Rightarrow>
            sum_bind (port_map mb bs) (\<lambda>ps.
            Inr ((port, if pb_HostPort b > 0 then int_digits (pb_HostPort b) else []) # ps)))"

definition run_resources :: "ContainerOpts \<Rightarrow> err + resources" where
  "run_resources opts =
     sum_bind (parseResources (co_MemoryLimit opts) (co_CPULimit opts)) (\<lambda>r.
     sum_bind (if co_MemorySwap opts \<noteq> [] then parseMemorySwap (co_MemorySwap opts) else Inr 0) (\<lambda>swap.
     sum_bind (if co_MemoryReservation opts \<noteq> [] then parseMemory (co_MemoryReservation opts) else Inr 0) (\<lambda>res.
     Inr (r\<lparr>rs_MemorySwap := swap, rs_MemoryReservation := res,
            rs_MemorySwappiness := co_MemorySwappiness opts, rs_CpusetCpus := co_CPUSet opts,
            rs_CPUShares := (if co_CPUShares opts > 0 then co_CPUShares opts else 0)\<rparr>))))"

fun check_mounts :: "dmount list \<Rightarrow> err + dmount list" where
  "check_mounts [] = Inr []"
| "check_mounts (m # ms) =
     (if m_Type m \<noteq> ''bind'' \<and> m_Type m \<noteq> ''volume'' then Inl (ErrNew ''docker: invalid mount type'')
      else if m_Target m = [] then Inl (ErrNew ''docker: mount: target required'')
      else if m_Source m = [] then Inl (ErrNew ''docker: mount: source required'')
      else sum_bind (check_mounts ms) (\<lambda>xs. Inr (m # xs)))"

definition container_config ::
  "'d moby \<Rightarrow> ContainerOpts \<Rightarrow> err + container_spec" where
  "container_config mb opts =
     sum_bind (port_map mb (co_PortBindings opts)) (\<lambda>ports.
     sum_bind (run_resources opts) (\<lambda>res.
     sum_bind (check_mounts (co_Mounts opts)) (\<lambda>mounts.
     Inr \<lparr>cs_Name = co_Name opts, cs_Image = co_Image opts, cs_Cmd = co_Cmd opts,
          cs_Env = map (\<lambda>(k, v). k @ ''='' @ v) (co_Env opts),
          cs_Labels = assoc_put_all (co_Labels opts) [(''prexel.managed'', ''true'')],
          cs_Ports = ports,
          cs_RestartPolicy = (if co_RestartPolicy opts = [] then ''unless-stopped'' else co_RestartPolicy opts),
          cs_AutoRemove = co_AutoRemove opts, cs_Resources = res, cs_Mounts = mounts,
          cs_Network = (if co_Network opts = [] then PrexelNetwork else co_Network opts),
          cs_Aliases = co_Name opts # co_Aliases opts\<rparr>)))"

definition RunContainer :: "'d moby \<Rightarrow> provider \<Rightarrow> ContainerOpts \<Rightarrow> ('d, 'c, 'x, string) hostm" where
  "RunContainer mb p opts =
     (if co_Name opts = [] then fail (ErrNew ''docker: RunContainer: empty name'')
      else if co_Image opts = [] then fail (ErrNew ''docker: RunContainer: empty image'')
      else
        bnd (on_docker (mb_Client mb p)) (\<lambda>_.
        bnd (lift_res (container_config mb opts)) (\<lambda>spec.
        bnd (wrapping ''docker: create'' (on_docker (mb_ContainerCreate mb p spec))) (\<lambda>i.
        bnd (attempt (on_docker (mb_ContainerStart mb p i))) (\<lambda>r.
        case r of
          Inl e \<Rightarrow>
            bnd (attempt (on_docker (mb_ContainerRemove mb p i True))) (\<lambda>_.
            fail (ErrWrap ''docker: start'' e))
        | Inr _ \<Rightarrow> ret i)))))"

definition StopContainer :: "'d moby \<Rightarrow> provider \<Rightarrow> string \<Rightarrow> int \<Rightarrow> ('d, 'c, 'x, unit) hostm" where
  "StopContainer mb p name timeout =
     bnd (on_docker (mb_Client mb p)) (\<lambda>_.
     let secs = go_quot timeout second in
     classified mb ErrContainerNotFound ''docker: stop''
       (on_docker (mb_ContainerStop mb p name (if secs \<le> 0 then 10 else secs))))"

definition RemoveContainer :: "'d moby \<Rightarrow> provider \<Rightarrow> string \<Rightarrow> bool \<Rightarrow> ('d, 'c, 'x, unit) hostm" where
  "RemoveContainer mb p name force =
     bnd (on_docker (mb_Client mb p)) (\<lambda>_.
     classified mb ErrContainerNotFound ''docker: remove'' (on_docker (mb_ContainerRemove mb p name force)))"

definition RenameContainer :: "'d moby \<Rightarrow> provider \<Rightarrow> string \<Rightarrow> string \<Rightarrow> ('d, 'c, 'x, unit) hostm" where
  "RenameContainer mb p oldName newName =
     bnd (on_docker (mb_Client mb p)) (\<lambda>_.
     classified mb ErrContainerNotFound ''docker: rename'' (on_docker (mb_ContainerRename mb p oldName newName)))"

definition ListContainers ::
  "'d moby \<Rightarrow> provider \<Rightarrow> (string \<times> string) list \<Rightarrow> ('d, 'c, 'x, listed_container list) hostm" where
  "ListContainers mb p filters =
     bnd (on_docker (mb_Client mb p)) (\<lambda>_. on_docker (mb_ContainerList mb p filters))"

definition RemoveImage :: "'d moby \<Rightarrow> provider \<Rightarrow> string \<Rightarrow> ('d, 'c, 'x, unit) hostm" where
  "RemoveImage mb p ref =
     bnd (on_docker (mb_Client mb p)) (\<lambda>_.
     classified mb ErrImageNotFound ''docker: remove image'' (on_docker (mb_ImageRemove mb p ref)))"

definition EnsureVolume ::
  "'d moby \<Rightarrow> provider \<Rightarrow> string \<Rightarrow> (string \<times> string) list \<Rightarrow> ('d, 'c, 'x, unit) hostm" where
  "EnsureVolume mb p name extraLabels =
     (if trim_space name = [] then fail (ErrNew ''docker: ensure volume: empty name'')
      else
        bnd (on_docker (mb_Client mb p)) (\<lambda>_.
        wrapping ''docker: ensure volume''
          (on_docker (mb_VolumeCreate mb p name
             (assoc_put_all extraLabels [(''prexel.managed'', ''true'')])))))"

definition ContainerExists :: "'d moby \<Rightarrow> provider \<Rightarrow> string \<Rightarrow> ('d, 'c, 'x, bool) hostm" where
  "ContainerExists mb p name =
     bnd (on_docker (mb_Client mb p)) (\<lambda>_.
     bnd (attempt (on_docker (mb_ContainerInspect mb p name))) (\<lambda>r.
     case r of
       Inl e \<Rightarrow> (if mb_IsErrNotFound mb e then ret False else fail (ErrWrap ''docker: inspect'' e))
     | Inr _ \<Rightarrow> ret True))"

text \<open>
  The captured output is only logged by the callers and is not returned here. \<open>mb_ExecRead\<close> is the copy of the whole output, for which the
  end of the stream is no error.
\<close>

definition Exec :: "'d moby \<Rightarrow> provider \<Rightarrow> string \<Rightarrow> string list \<Rightarrow> ('d, 'c, 'x, unit) hostm" where
  "Exec mb p name cmd =
     (if cmd = [] then fail (ErrNew ''docker: exec: empty command'')
      else
        bnd (on_docker (mb_Client mb p)) (\<lambda>_.
        bnd (classified mb ErrContainerNotFound ''docker: exec create''
               (on_docker (mb_ExecCreate mb p name cmd))) (\<lambda>i.
        bnd (wrapping ''docker: exec attach'' (on_docker (mb_ExecAttach mb p i))) (\<lambda>_.
        bnd (wrapping ''docker: exec read'' (on_docker (mb_ExecRead mb p i))) (\<lambda>_.
        bnd (wrapping ''docker: exec inspect'' (on_docker (mb_ExecInspect mb p i))) (\<lambda>code.
        if code \<noteq> 0 then fail (ErrNew ''docker: exec: exit code'') else ret ()))))))"

definition EnsureNetwork :: "'d moby \<Rightarrow> provider \<Rightarrow> string \<Rightarrow> ('d, 'c, 'x, unit) hostm" where
  "EnsureNetwork mb p name =
     (if name = [] then fail (ErrNew ''docker: ensure network: empty name'')
      else
        bnd (on_docker (mb_Client mb p)) (\<lambda>_.
        bnd (attempt (on_docker (mb_NetworkInspect mb p name))) (\<lambda>r.
        case r of
          Inr _ \<Rightarrow> ret ()
        | Inl e \<Rightarrow>
            (if \<not> mb_IsErrNotFound mb e then fail (ErrWrap ''docker: inspect network'' e)
             else
               bnd (attempt (on_docker (mb_NetworkCreate mb p name))) (\<lambda>r2.
               case r2 of
                 Inr _ \<Rightarrow> ret ()
               | Inl e2 \<Rightarrow>
                   bnd (attempt (on_docker (mb_NetworkInspect mb p name))) (\<lambda>r3.
                   case r3 of Inr _ \<Rightarrow> ret () | Inl _ \<Rightarrow> fail (ErrWrap ''docker: create network'' e2)))))))"

section \<open>Reading limits\<close>

text \<open>A plain number with a unit is that many units: the suffix table and the trimming agree.\<close>

lemma digits_not_unit: "list_all is_digit s \<Longrightarrow> s \<noteq> [] \<Longrightarrow> trim_right ''kmgb'' s = s"
proof -
  assume d: "list_all is_digit s" and "s \<noteq> []"
  then obtain t c where s: "s = t @ [c]" by (cases s rule: rev_cases) auto
  with d have "is_digit c" by simp
  then have "c \<notin> set ''kmgb''" by (auto simp: is_digit_def less_eq_char_def)
  then show ?thesis by (simp add: trim_right_def s)
qed

end
