(* ===== verification/Secrets.thy ===== *)
theory Secrets
  imports Crypto Fixtures
begin

text \<open>
  Per-app secrets (\<open>internal/secret\<close>): the repository over the \<open>secrets\<close> table and the service that
  seals values before they are stored and opens them for the deploy engine. A batch is a Go map, whose
  iteration order is arbitrary: it is the order of the association list here.
\<close>

definition secret_ErrNotFound :: err where
  "secret_ErrNotFound = ErrNew ''secret: not found''"

record Secret =
  Secret_ID :: string
  Secret_AppID :: string
  Secret_Key :: string
  Secret_IsBuildTime :: bool
  Secret_IsMultiline :: bool
  Secret_CreatedAt :: int
  Secret_UpdatedAt :: int

record UpsertItem =
  ui_Value :: string
  ui_IsBuildTime :: bool
  ui_IsMultiline :: bool

section \<open>The repository\<close>

definition secret_upsert ::
  "string \<Rightarrow> string \<Rightarrow> string \<Rightarrow> nat list \<Rightarrow> bool \<Rightarrow> bool \<Rightarrow> ('x, unit) dbm" where
  "secret_upsert i appID key encrypted isBuildTime isMultiline =
     bnd (wrapping ''upsert secret'' (db_exec (\<lambda>w. upsert_secret
           \<lparr>sc_id = i, sc_app_id = appID, sc_key = key, sc_value = encrypted,
            sc_is_build_time = isBuildTime, sc_is_multiline = isMultiline,
            sc_created_at = unixepoch w, sc_updated_at = unixepoch w\<rparr> w))) (\<lambda>_.
     ret ())"

definition scan_secret :: "secret_row \<Rightarrow> Secret" where
  "scan_secret r =
     \<lparr>Secret_ID = sc_id r, Secret_AppID = sc_app_id r, Secret_Key = sc_key r,
      Secret_IsBuildTime = sc_is_build_time r, Secret_IsMultiline = sc_is_multiline r,
      Secret_CreatedAt = sc_created_at r * second, Secret_UpdatedAt = sc_updated_at r * second\<rparr>"

definition secret_list :: "string \<Rightarrow> ('x, Secret list) dbm" where
  "secret_list appID =
     db_query (\<lambda>w. map scan_secret (sort_key sc_key (filter (\<lambda>r. sc_app_id r = appID) (secrets w))))"

definition listWithValues :: "string \<Rightarrow> bool option \<Rightarrow> ('x, secret_row list) dbm" where
  "listWithValues appID buildTimeFilter =
     db_query (\<lambda>w. sort_key sc_key
       (filter (\<lambda>r. sc_app_id r = appID \<and>
          (case buildTimeFilter of None \<Rightarrow> True | Some b \<Rightarrow> sc_is_build_time r = b)) (secrets w)))"

definition secret_delete :: "string \<Rightarrow> string \<Rightarrow> ('x, unit) dbm" where
  "secret_delete appID key =
     bnd (db_exec (delete_secrets (\<lambda>r. sc_app_id r = appID \<and> sc_key r = key))) (\<lambda>n.
     if n = 0 then fail secret_ErrNotFound else ret ())"

section \<open>The service\<close>

text \<open>The key pattern \<open>^[A-Z][A-Z0-9_]*$\<close>.\<close>

definition keyRegex :: "string \<Rightarrow> bool" where
  "keyRegex k =
     (case k of [] \<Rightarrow> False
      | c # cs \<Rightarrow> is_upper c \<and> list_all (\<lambda>d. is_upper d \<or> is_digit d \<or> d = CHR ''_'') cs)"

definition Secret_List :: "string \<Rightarrow> ('x, Secret list) dbm" where
  "Secret_List appID = secret_list appID"

fun check_items :: "(string \<times> UpsertItem) list \<Rightarrow> err + unit" where
  "check_items [] = Inr ()"
| "check_items ((k, v) # items) =
     (if \<not> keyRegex k then Inl (ErrNew (''invalid_key: '' @ k))
      else if ui_Value v = [] then Inl (ErrNew (''empty_value: '' @ k))
      else check_items items)"

definition upsert_item :: "aead \<Rightarrow> string \<Rightarrow> string \<times> UpsertItem \<Rightarrow> ('x, unit) dbm" where
  "upsert_item cipher appID = (\<lambda>(k, v).
     bnd (wrapping (''encrypt '' @ k) (Encrypt cipher (bytes_of (ui_Value v)))) (\<lambda>enc.
     bnd new_uuid (\<lambda>i.
     secret_upsert i appID k enc (ui_IsBuildTime v) (ui_IsMultiline v))))"

definition Secret_Upsert :: "aead \<Rightarrow> string \<Rightarrow> (string \<times> UpsertItem) list \<Rightarrow> ('x, unit) dbm" where
  "Secret_Upsert cipher appID items =
     (if items = [] then ret ()
      else
        bnd (lift_res (check_items items)) (\<lambda>_.
        for_each (upsert_item cipher appID) items))"

definition Secret_Delete :: "string \<Rightarrow> string \<Rightarrow> ('x, unit) dbm" where
  "Secret_Delete appID key0 =
     (let key = trim_space key0
      in if key = [] then fail (ErrNew ''missing_key'') else secret_delete appID key)"

fun open_all :: "aead \<Rightarrow> secret_row list \<Rightarrow> err + (Secret \<times> string) list" where
  "open_all cipher [] = Inr []"
| "open_all cipher (r # rs) =
     (case Decrypt cipher (sc_value r) of
        Inl e \<Rightarrow> Inl (ErrWrap (''decrypt '' @ sc_key r) e)
      | Inr pt \<Rightarrow>
          (case open_all cipher rs of
             Inl e \<Rightarrow> Inl e
           | Inr xs \<Rightarrow> Inr ((scan_secret r, string_of pt) # xs)))"

definition secret_resolve :: "aead \<Rightarrow> string \<Rightarrow> bool option \<Rightarrow> ('x, (Secret \<times> string) list) dbm" where
  "secret_resolve cipher appID buildTimeFilter =
     bnd (listWithValues appID buildTimeFilter) (\<lambda>rows. lift_res (open_all cipher rows))"

definition Resolve :: "aead \<Rightarrow> string \<Rightarrow> ('x, (Secret \<times> string) list) dbm" where
  "Resolve cipher appID = secret_resolve cipher appID None"

text \<open>The map of a list of rows: a later row with the same key wins.\<close>

definition key_map :: "(Secret \<times> string) list \<Rightarrow> (string \<times> string) list" where
  "key_map rows = map (\<lambda>(s, v). (Secret_Key s, v)) rows"

definition ResolveBuildTime :: "aead \<Rightarrow> string \<Rightarrow> ('x, (string \<times> string) list) dbm" where
  "ResolveBuildTime cipher appID =
     bnd (secret_resolve cipher appID (Some True)) (\<lambda>rows. ret (key_map rows))"

definition ResolveRuntime :: "aead \<Rightarrow> string \<Rightarrow> ('x, (string \<times> string) list) dbm" where
  "ResolveRuntime cipher appID =
     bnd (secret_resolve cipher appID (Some False)) (\<lambda>rows. ret (key_map rows))"

section \<open>What is stored comes back\<close>

text \<open>The plain value a row holds, and the contents of an app as a map.\<close>

definition opened :: "aead \<Rightarrow> secret_row \<Rightarrow> string option" where
  "opened cipher r = (case Decrypt cipher (sc_value r) of Inl _ \<Rightarrow> None | Inr pt \<Rightarrow> Some (string_of pt))"

definition stored :: "aead \<Rightarrow> 'x db_scheme \<Rightarrow> string \<Rightarrow> string \<Rightarrow> (string \<times> bool) option" where
  "stored cipher w appID k =
     (case find (\<lambda>r. sc_app_id r = appID \<and> sc_key r = k) (secrets w) of
        None \<Rightarrow> None
      | Some r \<Rightarrow> map_option (\<lambda>v. (v, sc_is_build_time r)) (opened cipher r))"

lemma stored_stp [simp]: "stored cipher (w\<lparr>stp := n\<rparr>) = stored cipher w"
  by (simp add: stored_def fun_eq_iff)

lemma stored_tick [simp]: "stored cipher (tick w) = stored cipher w"
  by (simp add: tick_def)

lemma find_append_new: "find q (xs @ [x]) = (case find q xs of None \<Rightarrow> if q x then Some x else None | Some y \<Rightarrow> Some y)"
  by (induction xs) auto

lemma upsert_secret_find:
  assumes "upsert_secret s w = Inr (n, w')"
  shows "find (\<lambda>r. sc_app_id r = a \<and> sc_key r = k) (secrets w') =
    (if a = sc_app_id s \<and> k = sc_key s
     then Some (case find (\<lambda>r. sc_app_id r = a \<and> sc_key r = k) (secrets w) of
         None \<Rightarrow> s
       | Some r \<Rightarrow> r\<lparr>sc_value := sc_value s, sc_is_build_time := sc_is_build_time s,
                     sc_is_multiline := sc_is_multiline s, sc_updated_at := unixepoch w\<rparr>)
     else find (\<lambda>r. sc_app_id r = a \<and> sc_key r = k) (secrets w))"
proof (cases "(sc_app_id s, sc_key s) \<in> set (map (\<lambda>r. (sc_app_id r, sc_key r)) (secrets w))")
  case True
  let ?p = "\<lambda>r. sc_app_id r = sc_app_id s \<and> sc_key r = sc_key s"
  let ?f = "\<lambda>r. r\<lparr>sc_value := sc_value s, sc_is_build_time := sc_is_build_time s,
                  sc_is_multiline := sc_is_multiline s, sc_updated_at := unixepoch w\<rparr>"
  have w': "secrets w' = update_where ?p ?f (secrets w)"
    using assms True by (auto simp: upsert_secret_def checked_Inr_iff)
  obtain r where r: "find ?p (secrets w) = Some r"
    using True by (cases "find ?p (secrets w)") (auto simp: find_None_iff)
  have "find (\<lambda>r. sc_app_id r = a \<and> sc_key r = k) (update_where ?p ?f (secrets w)) =
      map_option (\<lambda>r. if ?p r then ?f r else r) (find (\<lambda>r. sc_app_id r = a \<and> sc_key r = k) (secrets w))"
    by (rule find_update_mixed) simp
  note f = this
  show ?thesis
  proof (cases "a = sc_app_id s \<and> k = sc_key s")
    case True
    with r f show ?thesis by (auto simp: w' dest!: find_SomeD simp del: find_Some_iff)
  next
    case False
    then have "map_option (\<lambda>r. if ?p r then ?f r else r) (find (\<lambda>r. sc_app_id r = a \<and> sc_key r = k) (secrets w)) =
        find (\<lambda>r. sc_app_id r = a \<and> sc_key r = k) (secrets w)"
      by (cases "find (\<lambda>r. sc_app_id r = a \<and> sc_key r = k) (secrets w)") (auto dest!: find_SomeD)
    with f show ?thesis unfolding w' if_not_P [OF False] by (rule trans)
  qed
next
  case False
  have "\<not> (sc_app_id x = sc_app_id s \<and> sc_key x = sc_key s)" if "x \<in> set (secrets w)" for x
    using False imageI [OF that, of "\<lambda>r. (sc_app_id r, sc_key r)"] by auto
  then have "find (\<lambda>r. sc_app_id r = sc_app_id s \<and> sc_key r = sc_key s) (secrets w) = None"
    by (auto simp: find_None_iff)
  moreover have "secrets w' = secrets w @ [s]"
    using assms False by (auto simp: upsert_secret_def checked_Inr_iff)
  ultimately show ?thesis by (auto simp: find_append_new split: option.split)
qed

lemma Encrypt_keeps: "moves only_step (Encrypt c p)"
  unfolding Encrypt_def by (intro rd.frame_rules)

lemma upsert_item_stored:
  assumes "aead_law cipher" and "upsert_item cipher appID (k, v) w = (Inr (), w')"
  shows "stored cipher w' a = (if a = appID then (stored cipher w appID)(k \<mapsto> (ui_Value v, ui_IsBuildTime v))
    else stored cipher w a)"
proof -
  from assms(2) obtain enc v1 s n v2 where e: "Encrypt cipher (bytes_of (ui_Value v)) w = (Inr enc, v1)"
    and u: "upsert_secret s (tick v1) = Inr (n, v2)" and w': "w' = tick v2"
    and s: "sc_app_id s = appID" "sc_key s = k" "sc_value s = enc" "sc_is_build_time s = ui_IsBuildTime v"
    by (auto simp: upsert_item_def secret_upsert_def run_iffs ret_def)
  obtain m where v1: "v1 = w\<lparr>stp := m\<rparr>" by (rule only_stepE [OF Encrypt_keeps e])
  have d: "Decrypt cipher enc = Inr (bytes_of (ui_Value v))" by (rule Decrypt_Encrypt [OF assms(1) e])
  show ?thesis
    by (auto simp: fun_eq_iff stored_def w' upsert_secret_find [OF u] s opened_def d v1 split: option.split)
qed

definition with_items ::
  "(string \<times> UpsertItem) list \<Rightarrow> (string \<Rightarrow> (string \<times> bool) option) \<Rightarrow> string \<Rightarrow> (string \<times> bool) option" where
  "with_items items m k =
     (case map_of items k of None \<Rightarrow> m k | Some v \<Rightarrow> Some (ui_Value v, ui_IsBuildTime v))"

lemma upsert_items_stored:
  assumes "aead_law cipher" and "distinct (map fst items)"
    and "for_each (upsert_item cipher appID) items w = (Inr (), w')"
  shows "stored cipher w' a =
    (if a = appID then with_items items (stored cipher w appID) else stored cipher w a)"
  using assms(2,3)
proof (induction items arbitrary: w)
  case Nil
  then show ?case by (simp add: ret_def with_items_def fun_eq_iff)
next
  case (Cons it items)
  obtain k v where it: "it = (k, v)" by (cases it)
  from Cons.prems obtain u where u: "upsert_item cipher appID (k, v) w = (Inr (), u)"
    and r: "for_each (upsert_item cipher appID) items u = (Inr (), w')"
    by (auto simp: it bnd_eq_Inr_iff)
  have "map_of items k = None" using Cons.prems(1) by (simp add: it map_of_eq_None_iff)
  with Cons.IH [OF _ r] Cons.prems(1) upsert_item_stored [OF assms(1) u] show ?case
    by (auto simp: it with_items_def fun_eq_iff split: option.split)
qed

lemma upsert_items_schema:
  "for_each (upsert_item cipher appID) items w = (Inr (), w') \<Longrightarrow> items \<noteq> [] \<Longrightarrow> schema_ok w'"
proof (induction items arbitrary: w)
  case (Cons it items)
  obtain k v where it: "it = (k, v)" by (cases it)
  from Cons.prems obtain u where u: "upsert_item cipher appID (k, v) w = (Inr (), u)"
    and r: "for_each (upsert_item cipher appID) items u = (Inr (), w')"
    by (auto simp: it bnd_eq_Inr_iff)
  have "schema_ok u"
    using u by (auto simp: upsert_item_def secret_upsert_def run_iffs ret_def dest: statement_schema_ok)
  with r Cons.IH [OF r] show ?case by (cases items) (auto simp: ret_def)
qed simp

lemma Secret_Upsert_stored:
  assumes "aead_law cipher" and "distinct (map fst items)" and "Secret_Upsert cipher appID items w = (Inr (), w')"
  shows "stored cipher w' a =
    (if a = appID then with_items items (stored cipher w appID) else stored cipher w a)"
proof (cases "items = []")
  case True
  with assms(3) show ?thesis by (simp add: Secret_Upsert_def ret_def with_items_def fun_eq_iff)
next
  case False
  with assms(3) show ?thesis
    by (intro upsert_items_stored [OF assms(1,2)])
      (auto simp: Secret_Upsert_def bnd_lift_res fail_def split: sum.splits)
qed

lemma Secret_Upsert_schema:
  "Secret_Upsert cipher appID items w = (Inr (), w') \<Longrightarrow> schema_ok w \<Longrightarrow> schema_ok w'"
  by (cases "items = []")
    (auto simp: Secret_Upsert_def ret_def bnd_lift_res fail_def split: sum.splits dest: upsert_items_schema)

lemma open_all_Inr:
  "open_all cipher rs = Inr xs \<Longrightarrow>
     map (\<lambda>(s, v). (Secret_Key s, v)) xs = map (\<lambda>r. (sc_key r, the (opened cipher r))) rs \<and>
     list_all (\<lambda>r. opened cipher r \<noteq> None) rs"
proof (induction rs arbitrary: xs)
  case (Cons r rs)
  from Cons.prems obtain pt ys where "Decrypt cipher (sc_value r) = Inr pt" "open_all cipher rs = Inr ys"
    "xs = (scan_secret r, string_of pt) # ys" by (auto split: sum.splits)
  with Cons.IH [of ys] show ?case by (simp add: opened_def scan_secret_def)
qed simp

lemma map_of_rows:
  assumes "distinct (map sc_key rs)"
  shows "map_of (map (\<lambda>r. (sc_key r, g r)) rs) k = map_option g (find (\<lambda>r. sc_key r = k) rs)"
  using assms by (induction rs) auto

lemma resolve_stored:
  assumes "schema_ok w" and "secret_resolve cipher appID (Some b) w = (Inr xs, w')"
  shows "map_of (key_map xs) k =
    (case stored cipher w appID k of None \<Rightarrow> None | Some (v, c) \<Rightarrow> if c = b then Some v else None)"
proof -
  let ?rows = "filter (\<lambda>r. sc_app_id r = appID \<and> sc_is_build_time r = b) (secrets w)"
  have xs: "open_all cipher (sort_key sc_key ?rows) = Inr xs"
    using assms(2) by (auto simp: secret_resolve_def listWithValues_def run_iffs lift_res_def ret_def)
  note o = open_all_Inr [OF xs]
  have d: "distinct (map (\<lambda>s. (sc_app_id s, sc_key s)) (secrets w))"
    using assms(1) by (simp add: schema_ok_def unique_ok_def deploy_unique_ok_def)
  then have "distinct (map sc_key ?rows)"
    by (auto simp: distinct_map inj_on_def)
  then have dk: "distinct (map sc_key (sort_key sc_key ?rows))"
    by (simp add: distinct_map)
  have opn: "opened cipher r \<noteq> None" if "r \<in> set (secrets w)" "sc_app_id r = appID" "sc_is_build_time r = b" for r
    using o that by (auto simp: list_all_iff)
  have uniq: "r = s" if "r \<in> set (secrets w)" "s \<in> set (secrets w)" "sc_app_id r = sc_app_id s" "sc_key r = sc_key s"
    for r s using d that by (auto simp: distinct_map dest: inj_onD)
  have env_k: "map_of (key_map xs) k = map_option (\<lambda>r. the (opened cipher r)) (find (\<lambda>r. sc_key r = k) (sort_key sc_key ?rows))"
    unfolding key_map_def conjunct1 [OF o] by (rule map_of_rows [OF dk])
  show ?thesis
  proof (cases "find (\<lambda>r. sc_app_id r = appID \<and> sc_key r = k) (secrets w)")
    case None
    then have "find (\<lambda>r. sc_key r = k) (sort_key sc_key ?rows) = None" by (auto simp: find_None_iff)
    with None show ?thesis by (simp add: env_k stored_def)
  next
    case (Some r)
    then have r: "r \<in> set (secrets w)" "sc_app_id r = appID" "sc_key r = k" by (auto dest: find_SomeD)
    show ?thesis
    proof (cases "sc_is_build_time r = b")
      case False
      have "sc_key x \<noteq> k" if "x \<in> set ?rows" for x
      proof
        assume "sc_key x = k"
        then have "x = r" using that r by (intro uniq) auto
        with that False show False by simp
      qed
      then have "find (\<lambda>r. sc_key r = k) (sort_key sc_key ?rows) = None" by (auto simp: find_None_iff)
      with False show ?thesis by (simp add: env_k stored_def Some split: option.split)
    next
      case True
      then have "find (\<lambda>r. sc_key r = k) (sort_key sc_key ?rows) = Some r"
        using r by (intro find_key [OF dk]) auto
      moreover obtain v where "opened cipher r = Some v" using opn [OF r(1,2)] True by auto
      ultimately show ?thesis using True by (simp add: env_k stored_def Some)
    qed
  qed
qed

lemma ResolveRuntime_stored:
  assumes "schema_ok w" and "ResolveRuntime cipher appID w = (Inr env, w')"
  shows "map_of env k = (case stored cipher w appID k of Some (v, False) \<Rightarrow> Some v | _ \<Rightarrow> None)"
  using assms resolve_stored [of w cipher appID False]
  by (force simp: ResolveRuntime_def run_iffs ret_def split: option.split prod.split bool.split)

lemma ResolveBuildTime_stored:
  assumes "schema_ok w" and "ResolveBuildTime cipher appID w = (Inr args, w')"
  shows "map_of args k = (case stored cipher w appID k of Some (v, True) \<Rightarrow> Some v | _ \<Rightarrow> None)"
  using assms resolve_stored [of w cipher appID True]
  by (force simp: ResolveBuildTime_def run_iffs ret_def split: option.split prod.split bool.split)

text \<open>
  C40. Secrets round trip through the encrypted store: after a batch was upserted for an app, what is resolved for
  its runtime is, for every key of the batch marked for the runtime, the plain value, and what is resolved for its
  build is, for every key of the batch marked for build time, the plain value; neither sees the keys of the other;
  for every other key both return what was stored before; and no other app's secrets change. (The cipher opens what
  it sealed, as its documentation promises; the keys of the batch are distinct, as those of a Go map are.)
\<close>

theorem secrets_roundtrip:
  assumes "aead_law cipher" and "schema_ok w" and "distinct (map fst items)"
    and "Secret_Upsert cipher appID items w = (Inr (), w1)"
    and "ResolveRuntime cipher appID w1 = (Inr env, w2)"
    and "ResolveBuildTime cipher appID w1 = (Inr args, w3)"
  shows "map_of env k =
      (case map_of items k of
         Some v \<Rightarrow> if ui_IsBuildTime v then None else Some (ui_Value v)
       | None \<Rightarrow> (case stored cipher w appID k of Some (v, False) \<Rightarrow> Some v | _ \<Rightarrow> None)) \<and>
     map_of args k =
      (case map_of items k of
         Some v \<Rightarrow> if ui_IsBuildTime v then Some (ui_Value v) else None
       | None \<Rightarrow> (case stored cipher w appID k of Some (v, True) \<Rightarrow> Some v | _ \<Rightarrow> None)) \<and>
     (if other = appID then True else stored cipher w1 other = stored cipher w other)"
  unfolding ResolveRuntime_stored [OF Secret_Upsert_schema [OF assms(4,2)] assms(5)]
    ResolveBuildTime_stored [OF Secret_Upsert_schema [OF assms(4,2)] assms(6)]
    Secret_Upsert_stored [OF assms(1,3,4)]
  by (auto simp: with_items_def split: option.split)

lemma check_items_iff:
  "check_items items = Inr () \<longleftrightarrow> list_all (\<lambda>(k, v). keyRegex k \<and> ui_Value v \<noteq> []) items"
  by (induction items rule: check_items.induct) auto

text \<open>
  A batch with a bad key or an empty value is refused as a whole, before anything is written.
\<close>

theorem bad_batch_refused:
  "(if list_all (\<lambda>(k, v). keyRegex k \<and> ui_Value v \<noteq> []) items then True
    else \<exists>e. Secret_Upsert cipher appID items w = (Inl e, w))"
proof (cases "check_items items")
  case (Inl e)
  then have "items \<noteq> []" by auto
  with Inl show ?thesis by (auto simp: Secret_Upsert_def bnd_lift_res fail_def)
qed (simp flip: check_items_iff)

section \<open>Witness\<close>

definition fx_cipher :: aead where
  "fx_cipher = \<lparr>aead_Seal = (\<lambda>n p. p @ [0]), aead_Open = (\<lambda>n c. if c = [] then None else Some (butlast c)),
     aead_Overhead = 1\<rparr>"

definition fx_items :: "(string \<times> UpsertItem) list" where
  "fx_items = [(''A'', \<lparr>ui_Value = ''!'', ui_IsBuildTime = False, ui_IsMultiline = False\<rparr>),
     (''B'', \<lparr>ui_Value = ''?'', ui_IsBuildTime = True, ui_IsMultiline = False\<rparr>)]"

definition fx_s :: db where
  "fx_s = fx_apps\<lparr>orc := quiet_env\<lparr>o_rand := (\<lambda>_. Some [])\<rparr>, users := [], roles := [], teams := [],
     team_members := [], apps := [fx_app ''a1'' ''web'']\<rparr>"

lemma fx_s_schema: "schema_ok fx_s"
  by code_simp

theorem secrets_roundtrip_witness:
  "\<exists>env args. fst (ResolveRuntime fx_cipher ''a1'' (snd (Secret_Upsert fx_cipher ''a1'' fx_items fx_s))) = Inr env \<and>
     fst (ResolveBuildTime fx_cipher ''a1'' (snd (Secret_Upsert fx_cipher ''a1'' fx_items fx_s))) = Inr args \<and>
     map_of env ''A'' = Some ''!'' \<and> map_of args ''A'' = None"
proof -
  let ?w1 = "snd (Secret_Upsert fx_cipher ''a1'' fx_items fx_s)"
  have l: "aead_law fx_cipher" by (simp add: aead_law_def fx_cipher_def)
  have d: "distinct (map fst fx_items)" by (simp add: fx_items_def)
  have u: "fst (Secret_Upsert fx_cipher ''a1'' fx_items fx_s) = Inr ()" by code_simp
  have "\<not> isl (fst (ResolveRuntime fx_cipher ''a1'' ?w1))" "\<not> isl (fst (ResolveBuildTime fx_cipher ''a1'' ?w1))" by code_simp+
  then obtain env args where r: "fst (ResolveRuntime fx_cipher ''a1'' ?w1) = Inr env"
    and b: "fst (ResolveBuildTime fx_cipher ''a1'' ?w1) = Inr args"
    by (cases "fst (ResolveRuntime fx_cipher ''a1'' ?w1)"; cases "fst (ResolveBuildTime fx_cipher ''a1'' ?w1)") auto
  from secrets_roundtrip [OF l fx_s_schema d fst_result [OF u] fst_result [OF r] fst_result [OF b], of "''A''" "''a1''"] r b
  show ?thesis by (simp add: fx_items_def)
qed

end
