(* ===== verification/Services.thy ===== *)
theory Services
  imports Docker Secrets
begin

text \<open>
  The parts of the domain services the deploy engine calls: apps (\<open>internal/app\<close>), servers
  (\<open>internal/server\<close>), domains and host ports (\<open>internal/domains\<close>), volumes (\<open>internal/appvolume\<close>).
  An app as the services hand it out is its row with the two JSON columns decoded; its tags, which the
  engine does not read, are left out.
\<close>

section \<open>Apps\<close>

definition app_ErrNotFound :: err where
  "app_ErrNotFound = ErrNew ''app: not found''"

definition StatusUnreachable :: string where
  "StatusUnreachable = ''unreachable''"

record App =
  app_row :: app_row
  app_EnvVars :: "(string \<times> string) list"
  app_DockerLabels :: "(string \<times> string) list"

definition scanApp :: "app_row \<Rightarrow> err + App" where
  "scanApp r =
     (case a_env_vars r of
        None \<Rightarrow> Inl (ErrWrap ''parse env_vars'' (ErrNew ''json''))
      | Some env \<Rightarrow>
          (case a_docker_labels r of
             None \<Rightarrow> Inl (ErrWrap ''parse docker_labels'' (ErrNew ''json''))
           | Some labels \<Rightarrow> Inr \<lparr>app_row = r, app_EnvVars = env, app_DockerLabels = labels\<rparr>))"

definition app_query :: "(app_row \<Rightarrow> bool) \<Rightarrow> ('x, App) dbm" where
  "app_query p =
     bnd (attempt (db_query_row (\<lambda>w. find p (apps w)))) (\<lambda>r.
     case r of
       Inl e \<Rightarrow> (if errors_is e (ErrSql NoRows) then fail app_ErrNotFound else fail e)
     | Inr row \<Rightarrow> lift_res (scanApp row))"

definition app_get :: "string \<Rightarrow> ('x, App) dbm" where
  "app_get i = app_query (\<lambda>a. a_id a = i)"

definition app_getByName :: "string \<Rightarrow> ('x, App) dbm" where
  "app_getByName name = app_query (\<lambda>a. a_name a = name)"

definition is_hex :: "char \<Rightarrow> bool" where
  "is_hex c \<longleftrightarrow> is_digit c \<or> (CHR ''a'' \<le> c \<and> c \<le> CHR ''f'') \<or> (CHR ''A'' \<le> c \<and> c \<le> CHR ''F'')"

text \<open>The pattern of a UUID: groups of 8, 4, 4, 4 and 12 hexadecimal digits.\<close>

definition uuidRegex :: "string \<Rightarrow> bool" where
  "uuidRegex s \<longleftrightarrow> map length (split_on (CHR ''-'') s) = [8, 4, 4, 4, 12] \<and>
     list_all (list_all is_hex) (split_on (CHR ''-'') s)"

definition app_Get :: "string \<Rightarrow> ('x, App) dbm" where
  "app_Get idOrName =
     (let v = trim_space idOrName
      in if v = [] then fail app_ErrNotFound
         else if uuidRegex v then app_get v else app_getByName v)"

fun scan_all :: "app_row list \<Rightarrow> err + App list" where
  "scan_all [] = Inr []"
| "scan_all (r # rs) = sum_bind (scanApp r) (\<lambda>a. sum_bind (scan_all rs) (\<lambda>xs. Inr (a # xs)))"

definition app_list :: "string \<Rightarrow> ('x, App list) dbm" where
  "app_list serverID =
     bnd (db_query (\<lambda>w. sort_key a_created_at
            (filter (\<lambda>a. serverID = [] \<or> a_server_id a = Some serverID) (apps w)))) (\<lambda>rows.
     lift_res (scan_all rows))"

definition ListAll :: "('x, App list) dbm" where
  "ListAll = app_list []"

definition updateStatus :: "string \<Rightarrow> string \<Rightarrow> ('x, unit) dbm" where
  "updateStatus i status =
     bnd (db_exec (update_apps (\<lambda>a. a_id a = i) (\<lambda>a. a\<lparr>a_status := status\<rparr>))) (\<lambda>_. ret ())"

definition SetStatus :: "string \<Rightarrow> string \<Rightarrow> ('x, unit) dbm" where
  "SetStatus i status =
     bnd (app_get i) (\<lambda>cur.
     if a_status (app_row cur) = StatusUnreachable \<and> status \<noteq> ''running'' then ret ()
     else updateStatus i status)"

section \<open>Servers\<close>

definition server_ErrNotFound :: err where
  "server_ErrNotFound = ErrNew ''server: not found''"

definition server_get :: "string \<Rightarrow> ('x, server_row) dbm" where
  "server_get i =
     bnd (attempt (db_query_row (\<lambda>w. find (\<lambda>v. sv_id v = i) (servers w)))) (\<lambda>r.
     case r of
       Inl e \<Rightarrow> (if errors_is e (ErrSql NoRows) then fail server_ErrNotFound else fail e)
     | Inr v \<Rightarrow> ret v)"

definition getPrivateKey :: "string \<Rightarrow> ('x, nat list) dbm" where
  "getPrivateKey i =
     bnd (attempt (db_query_row (\<lambda>w. map_option (\<lambda>v. case sv_private_key v of None \<Rightarrow> [] | Some k \<Rightarrow> k)
            (find (\<lambda>v. sv_id v = i) (servers w))))) (\<lambda>r.
     case r of
       Inl e \<Rightarrow> (if errors_is e (ErrSql NoRows) then fail server_ErrNotFound else fail e)
     | Inr b \<Rightarrow> ret b)"

definition Provider :: "(nat \<Rightarrow> err + unit) \<Rightarrow> aead \<Rightarrow> string \<Rightarrow> ('x, provider) dbm" where
  "Provider writeKeyFile cipher i =
     bnd (server_get i) (\<lambda>srv.
     if sv_type srv = ''local'' then ret (NewLocalProvider (sv_name srv))
     else if sv_type srv = ''remote'' then
       (case (sv_host srv, sv_user srv) of
          (Some host, Some user) \<Rightarrow>
            bnd (wrapping ''server: load key'' (getPrivateKey (sv_id srv))) (\<lambda>encrypted.
            if encrypted = [] then fail (ErrNew ''server: no private key stored'')
            else
              bnd (wrapping ''server: decrypt key'' (lift_res (Decrypt cipher encrypted))) (\<lambda>privatePEM.
              NewRemoteProvider writeKeyFile (sv_name srv) host (sv_port srv) user privatePEM))
        | _ \<Rightarrow> fail (ErrNew ''server: missing host/user''))
     else fail (ErrNew ''server: unknown type''))"

section \<open>Domains and host ports\<close>

definition ErrAppNotFound :: err where
  "ErrAppNotFound = ErrNew ''domain: app not found''"

definition domain_list :: "string option \<Rightarrow> ('x, domain_row list) dbm" where
  "domain_list appID =
     db_query (\<lambda>w. sort_key d_created_at
       (filter (\<lambda>d. case appID of None \<Rightarrow> True | Some a \<Rightarrow> d_app_id d = Some a) (domains w)))"

definition PortRangeStart :: nat where "PortRangeStart = 40000"

definition PortRangeEnd :: nat where "PortRangeEnd = 50000"

text \<open>\<open>listen n p\<close> says whether a bind of port \<open>p\<close> succeeds at step \<open>n\<close>.\<close>

function scan_ports :: "(nat \<Rightarrow> nat \<Rightarrow> bool) \<Rightarrow> nat \<Rightarrow> nat \<Rightarrow> nat \<Rightarrow> ('x, nat) go" where
  "scan_ports listen fin port tried =
     (if port < fin \<and> tried < 50 then
        bnd (draw (\<lambda>n. Inr (listen n port))) (\<lambda>ok.
        if ok then ret port else scan_ports listen fin (Suc port) (Suc tried))
      else fail (ErrNew ''port: no available port in range''))"
  by pat_completeness auto
termination
  by (relation "measure (\<lambda>(l, e, p, t). e - p)") auto

declare scan_ports.simps [simp del]

definition FindAvailablePort :: "(nat \<Rightarrow> nat \<Rightarrow> bool) \<Rightarrow> nat \<Rightarrow> nat \<Rightarrow> ('x, nat) go" where
  "FindAvailablePort listen start fin =
     (if start = 0 \<or> fin \<le> start then fail (ErrNew ''port: invalid range'')
      else scan_ports listen fin start 0)"

definition AssignHostPort :: "(nat \<Rightarrow> nat \<Rightarrow> bool) \<Rightarrow> string \<Rightarrow> ('x, nat) dbm" where
  "AssignHostPort listen appID =
     bnd (FindAvailablePort listen PortRangeStart PortRangeEnd) (\<lambda>port.
     bnd (wrapping ''port: assign'' (db_exec (update_apps (\<lambda>a. a_id a = appID)
            (\<lambda>a. a\<lparr>a_host_port := Some (int port)\<rparr>)))) (\<lambda>n.
     if n = 0 then fail ErrAppNotFound else ret port))"

section \<open>Volumes\<close>

definition volume_listByApp :: "string \<Rightarrow> ('x, volume_row list) dbm" where
  "volume_listByApp appID =
     db_query (\<lambda>w. sort_key v_mount_path (filter (\<lambda>v. v_app_id v = appID) (app_volumes w)))"

definition volume_List :: "string \<Rightarrow> ('x, volume_row list) dbm" where
  "volume_List appID = volume_listByApp (trim_space appID)"

section \<open>What they return\<close>

lemma scanApp_row: "scanApp r = Inr a \<Longrightarrow> app_row a = r"
  by (auto simp: scanApp_def split: option.splits)

lemma app_query_Inr:
  "app_query p w = (Inr a, w') \<longleftrightarrow>
     \<not> o_fault (orc w) (stp w) \<and> w' = tick w \<and> (\<exists>r. find p (apps w) = Some r \<and> scanApp r = Inr a)"
  by (auto simp: app_query_def bnd_attempt db_query_row_cases fail_def lift_res_def split: option.splits)

lemma service_reads:
  "moves only_step (app_query p)" "moves only_step (app_get i)" "moves only_step (app_Get v)"
  "moves only_step ListAll" "moves only_step (server_get i)" "moves only_step (getPrivateKey i)"
  "moves only_step (domain_list x)" "moves only_step (volume_List i)"
  unfolding app_get_def app_Get_def app_getByName_def Let_def app_query_def ListAll_def app_list_def
    server_get_def getPrivateKey_def domain_list_def volume_List_def volume_listByApp_def
  by (intro rd.frame_rules moves_intro)+

lemma ResolveRuntime_read: "moves only_step (ResolveRuntime cipher i)"
  unfolding ResolveRuntime_def secret_resolve_def listWithValues_def by (intro rd.frame_rules)

lemma NewRemoteProvider_read: "moves only_step (NewRemoteProvider f n h p u k)"
  unfolding NewRemoteProvider_def by (intro rd.frame_rules moves_intro)

lemma Provider_read: "moves only_step (Provider f c i)"
  unfolding Provider_def
  by (intro rd.frame_rules moves_intro service_reads NewRemoteProvider_read)

lemma scan_ports_Inr:
  "scan_ports listen fin port tried w = (Inr p, w') \<Longrightarrow> port \<le> p \<and> p < fin \<and> p < port + (50 - tried)"
proof (induction listen fin port tried arbitrary: w rule: scan_ports.induct)
  case (1 listen fin port tried)
  from "1.prems" have b: "port < fin \<and> tried < 50"
    by (subst (asm) scan_ports.simps) (auto simp: fail_def split: if_splits)
  show ?case
  proof (cases "listen (stp w) port")
    case True
    with "1.prems" b show ?thesis
      by (subst (asm) scan_ports.simps) (auto simp: run_iffs ret_def)
  next
    case False
    with "1.prems" b have "scan_ports listen fin (Suc port) (Suc tried) (tick w) = (Inr p, w')"
      by (subst (asm) scan_ports.simps) (auto simp: run_iffs)
    from "1.IH" [OF b _ this, of False] b show ?thesis by auto
  qed
qed

text \<open>The port chosen for an app without a domain lies in the reserved range, near its start.\<close>

lemma AssignHostPort_range:
  "AssignHostPort listen i w = (Inr p, w') \<Longrightarrow> 40000 \<le> p \<and> p < 40050"
  by (auto simp: AssignHostPort_def FindAvailablePort_def PortRangeStart_def PortRangeEnd_def run_iffs ret_def
      fail_def split: if_splits dest!: scan_ports_Inr)

end
