(* ===== verification/Caddy.thy ===== *)
theory Caddy
  imports Docker
begin

text \<open>
  The client of the reverse proxy's admin API (\<open>internal/caddy\<close>). HTTP is the parameter \<open>http\<close>: a
  request (method, path, JSON body) is a transition of the proxy's state \<open>'c\<close> that ends in a transport
  error or in a response. Bodies are JSON values; a response body is its text and what decoding it
  gives.
\<close>

section \<open>JSON and HTTP\<close>

datatype json =
  JNull | JBool bool | JNum int | JStr string | JArr "json list" | JObj "(string \<times> json) list"

datatype decoded = Decoded json | EmptyBody | BadBody

record response =
  rp_StatusCode :: int
  rp_Text :: string
  rp_Body :: decoded

type_synonym 'c http = "string \<Rightarrow> string \<Rightarrow> json option \<Rightarrow> ('c, response) call"

definition on_caddy :: "('c, 'a) call \<Rightarrow> ('d, 'c, 'x, 'a) hostm" where
  "on_caddy f w = (case f (stp w) (caddyd w) of (r, c) \<Rightarrow> (r, tick (w\<lparr>caddyd := c\<rparr>)))"

definition ErrRouteNotFound :: err where
  "ErrRouteNotFound = ErrNew ''caddy: route not found''"

definition ErrAdminUnreachable :: err where
  "ErrAdminUnreachable = ErrNew ''caddy: admin API unreachable''"

definition ErrBadResponse :: err where
  "ErrBadResponse = ErrNew ''caddy: bad response from admin API''"

text \<open>The message of an error, \<open>err.Error()\<close>.\<close>

fun error_text :: "err \<Rightarrow> string" where
  "error_text (ErrNew m) = m"
| "error_text (ErrWrap m e) = m @ '': '' @ error_text e"
| "error_text (ErrSql e) = ''sql''"

definition errFromBody :: "string \<Rightarrow> string \<Rightarrow> response \<Rightarrow> err" where
  "errFromBody meth path resp =
     ErrNew (''caddy: admin API '' @ meth @ '' '' @ path @ '' -> '' @ int_digits (rp_StatusCode resp) @ '': ''
       @ trim_space (take 4096 (rp_Text resp)))"

definition caddy_do :: "'c http \<Rightarrow> string \<Rightarrow> string \<Rightarrow> json option \<Rightarrow> ('d, 'c, 'x, response) hostm" where
  "caddy_do http meth path body =
     bnd (attempt (on_caddy (http meth path body))) (\<lambda>r.
     case r of
       Inl e \<Rightarrow> fail (ErrWrap (error_text e) ErrAdminUnreachable)
     | Inr resp \<Rightarrow>
         (if rp_StatusCode resp = 404 then fail ErrRouteNotFound
          else if go_quot (rp_StatusCode resp) 100 \<noteq> 2 then fail (errFromBody meth path resp)
          else ret resp))"

section \<open>Routes\<close>

text \<open>\<open>strings.ReplaceAll\<close> of a single byte.\<close>

definition replace_byte :: "char \<Rightarrow> string \<Rightarrow> string \<Rightarrow> string" where
  "replace_byte c new s = concat (map (\<lambda>d. if d = c then new else [d]) s)"

text \<open>SHA-1 is the parameter \<open>sha\<close>.\<close>

definition routeSlug :: "(string \<Rightarrow> nat list) \<Rightarrow> string \<Rightarrow> string" where
  "routeSlug sha host =
     (let slug = replace_byte (CHR ''*'') ''wildcard''
            (replace_byte (CHR '':'') ''_'' (replace_byte (CHR ''.'') ''_'' host))
      in if length slug > 60 then take 60 slug @ ''_'' @ hex_encode (take 4 (sha host)) else slug)"

definition routeID :: "(string \<Rightarrow> nat list) \<Rightarrow> string \<Rightarrow> string" where
  "routeID sha host = ''prexel_route_'' @ routeSlug sha host"

definition httpPassthroughRouteID :: "(string \<Rightarrow> nat list) \<Rightarrow> string \<Rightarrow> string" where
  "httpPassthroughRouteID sha host = ''prexel_http_'' @ drop (length ''prexel_route_'') (routeID sha host)"

definition joinHostPort :: "string \<Rightarrow> int \<Rightarrow> string" where
  "joinHostPort host port = host @ '':'' @ int_digits port"

definition proxy_to :: "string \<Rightarrow> int \<Rightarrow> json" where
  "proxy_to upstream port =
     JArr [JObj [(''handler'', JStr ''reverse_proxy''),
                 (''upstreams'', JArr [JObj [(''dial'', JStr (joinHostPort upstream port))]])]]"

definition makeRoute :: "(string \<Rightarrow> nat list) \<Rightarrow> string \<Rightarrow> string \<Rightarrow> int \<Rightarrow> json" where
  "makeRoute sha host upstream port =
     JObj [(''@id'', JStr (routeID sha host)),
           (''match'', JArr [JObj [(''host'', JArr [JStr host])]]),
           (''handle'', proxy_to upstream port),
           (''terminal'', JBool True)]"

definition makeHTTPPassthroughRoute :: "(string \<Rightarrow> nat list) \<Rightarrow> string \<Rightarrow> string \<Rightarrow> int \<Rightarrow> json" where
  "makeHTTPPassthroughRoute sha host upstream port =
     JObj [(''@id'', JStr (httpPassthroughRouteID sha host)),
           (''match'', JArr [JObj [(''host'', JArr [JStr host]), (''protocol'', JStr ''http'')]]),
           (''handle'', proxy_to upstream port),
           (''terminal'', JBool True)]"

definition baseConfig :: json where
  "baseConfig =
     JObj [(''admin'', JObj [(''listen'', JStr ''0.0.0.0:2019'')]),
           (''logging'', JObj [(''logs'', JObj [(''default'', JObj [(''level'', JStr ''INFO'')])])]),
           (''apps'', JObj [(''http'', JObj [(''servers'', JObj [(''srv0'',
              JObj [(''listen'', JArr [JStr '':80'', JStr '':443'']),
                    (''routes'', JArr []),
                    (''automatic_https'', JObj [(''disable'', JBool False)])])])])])]"

section \<open>The client\<close>

definition LoadConfig :: "'c http \<Rightarrow> json \<Rightarrow> ('d, 'c, 'x, unit) hostm" where
  "LoadConfig http full = bnd (caddy_do http ''POST'' ''/load'' (Some full)) (\<lambda>_. ret ())"

definition BootstrapBaseConfig :: "'c http \<Rightarrow> ('d, 'c, 'x, unit) hostm" where
  "BootstrapBaseConfig http = LoadConfig http baseConfig"

definition Ping :: "'c http \<Rightarrow> ('d, 'c, 'x, unit) hostm" where
  "Ping http =
     bnd (attempt (on_caddy (http ''GET'' ''/config/'' None))) (\<lambda>r.
     case r of
       Inl e \<Rightarrow> fail (ErrWrap (error_text e) ErrAdminUnreachable)
     | Inr resp \<Rightarrow>
         (if go_quot (rp_StatusCode resp) 100 \<noteq> 2
          then fail (ErrWrap (''status '' @ int_digits (rp_StatusCode resp)) ErrAdminUnreachable)
          else ret ()))"

definition GetConfig :: "'c http \<Rightarrow> ('d, 'c, 'x, (string \<times> json) list) hostm" where
  "GetConfig http =
     bnd (attempt (on_caddy (http ''GET'' ''/config/'' None))) (\<lambda>r.
     case r of
       Inl e \<Rightarrow> fail (ErrWrap (error_text e) ErrAdminUnreachable)
     | Inr resp \<Rightarrow>
         (if go_quot (rp_StatusCode resp) 100 \<noteq> 2 then fail (errFromBody ''GET'' ''/config/'' resp)
          else case rp_Body resp of
              EmptyBody \<Rightarrow> ret []
            | Decoded (JObj fs) \<Rightarrow> ret fs
            | Decoded JNull \<Rightarrow> ret []
            | _ \<Rightarrow> fail (ErrWrap ''decode config'' ErrBadResponse)))"

definition isInvalidTraversal :: "err \<Rightarrow> bool" where
  "isInvalidTraversal e = sublist ''invalid traversal path'' (error_text e)"

definition routes_path :: string where
  "routes_path = ''/config/apps/http/servers/srv0/routes''"

definition upsertSingleRoute :: "'c http \<Rightarrow> json \<Rightarrow> string \<Rightarrow> ('d, 'c, 'x, unit) hostm" where
  "upsertSingleRoute http route i =
     bnd (attempt (caddy_do http ''PATCH'' (''/id/'' @ i) (Some route))) (\<lambda>r.
     case r of
       Inr _ \<Rightarrow> ret ()
     | Inl _ \<Rightarrow>
         bnd (attempt (caddy_do http ''POST'' routes_path (Some route))) (\<lambda>r2.
         case r2 of
           Inr _ \<Rightarrow> ret ()
         | Inl e \<Rightarrow>
             (if isInvalidTraversal e then
                bnd (wrapping ''caddy: bootstrap during upsert'' (BootstrapBaseConfig http)) (\<lambda>_.
                bnd (caddy_do http ''POST'' routes_path (Some route)) (\<lambda>_. ret ()))
              else fail e)))"

definition UpsertRoute ::
  "'c http \<Rightarrow> (string \<Rightarrow> nat list) \<Rightarrow> string \<Rightarrow> string \<Rightarrow> int \<Rightarrow> bool \<Rightarrow> ('d, 'c, 'x, unit) hostm" where
  "UpsertRoute http sha host upstream port forceHTTPS =
     (if host = [] then fail (ErrNew ''caddy: UpsertRoute: empty host'')
      else if upstream = [] then fail (ErrNew ''caddy: UpsertRoute: empty upstream'')
      else if port \<le> 0 \<or> port > 65535 then fail (ErrNew ''caddy: UpsertRoute: invalid port'')
      else
        bnd (upsertSingleRoute http (makeRoute sha host upstream port) (routeID sha host)) (\<lambda>_.
        if \<not> forceHTTPS then
          upsertSingleRoute http (makeHTTPPassthroughRoute sha host upstream port)
            (httpPassthroughRouteID sha host)
        else
          bnd (attempt (caddy_do http ''DELETE'' (''/id/'' @ httpPassthroughRouteID sha host) None)) (\<lambda>r.
          case r of
            Inl e \<Rightarrow>
              (if \<not> errors_is e ErrRouteNotFound then fail (ErrWrap ''caddy: drop http passthrough'' e)
               else ret ())
          | Inr _ \<Rightarrow> ret ())))"

definition RemoveRoute :: "'c http \<Rightarrow> (string \<Rightarrow> nat list) \<Rightarrow> string \<Rightarrow> ('d, 'c, 'x, unit) hostm" where
  "RemoveRoute http sha host =
     (if host = [] then fail (ErrNew ''caddy: RemoveRoute: empty host'')
      else
        bnd (attempt (caddy_do http ''DELETE'' (''/id/'' @ httpPassthroughRouteID sha host) None)) (\<lambda>r.
        let drop_canonical =
              bnd (caddy_do http ''DELETE'' (''/id/'' @ routeID sha host) None) (\<lambda>_. ret ())
        in case r of
             Inl e \<Rightarrow>
               (if \<not> errors_is e ErrRouteNotFound then fail (ErrWrap ''caddy: drop http passthrough'' e)
                else drop_canonical)
           | Inr _ \<Rightarrow> drop_canonical))"

text \<open>\<open>m[key].(map[string]any)\<close>: the fields of the object under a key, none when it is no object.\<close>

definition object_at :: "string \<Rightarrow> (string \<times> json) list \<Rightarrow> (string \<times> json) list option" where
  "object_at k fs = (case map_of fs k of Some (JObj gs) \<Rightarrow> Some gs | _ \<Rightarrow> None)"

definition json_string :: "json \<Rightarrow> string option" where
  "json_string j = (case j of JStr s \<Rightarrow> Some s | _ \<Rightarrow> None)"

definition readSkipList :: "(string \<times> json) list \<Rightarrow> string list" where
  "readSkipList cfg =
     (case Option.bind (Option.bind (Option.bind (Option.bind (object_at ''apps'' cfg) (object_at ''http''))
             (object_at ''servers'')) (object_at ''srv0'')) (object_at ''automatic_https'') of
        None \<Rightarrow> []
      | Some ah \<Rightarrow> (case map_of ah ''skip'' of Some (JArr xs) \<Rightarrow> List.map_filter json_string xs | _ \<Rightarrow> []))"

definition putSkipList :: "'c http \<Rightarrow> string list \<Rightarrow> ('d, 'c, 'x, unit) hostm" where
  "putSkipList http xs =
     bnd (caddy_do http ''PATCH'' ''/config/apps/http/servers/srv0/automatic_https/skip''
            (Some (JArr (map JStr xs)))) (\<lambda>_. ret ())"

definition addToSkip :: "'c http \<Rightarrow> string \<Rightarrow> ('d, 'c, 'x, unit) hostm" where
  "addToSkip http host =
     bnd (GetConfig http) (\<lambda>cfg.
     let skip = readSkipList cfg
     in if host \<in> set skip then ret () else putSkipList http (skip @ [host]))"

definition removeFromSkip :: "'c http \<Rightarrow> string \<Rightarrow> ('d, 'c, 'x, unit) hostm" where
  "removeFromSkip http host =
     bnd (GetConfig http) (\<lambda>cfg.
     let skip = readSkipList cfg
     in if host \<notin> set skip then ret () else putSkipList http (filter (\<lambda>h. h \<noteq> host) skip))"

definition EnableTLS :: "'c http \<Rightarrow> string \<Rightarrow> ('d, 'c, 'x, unit) hostm" where
  "EnableTLS http host =
     (if host = [] then fail (ErrNew ''caddy: EnableTLS: empty host'') else removeFromSkip http host)"

definition DisableTLS :: "'c http \<Rightarrow> string \<Rightarrow> ('d, 'c, 'x, unit) hostm" where
  "DisableTLS http host =
     (if host = [] then fail (ErrNew ''caddy: DisableTLS: empty host'') else addToSkip http host)"

end
