(* ===== verification/Deploy_Engine.thy ===== *)
theory Deploy_Engine
  imports Services Caddy
begin

text \<open>
  The deploy engine (\<open>internal/deploy\<close>): the deployments table, admission (one deployment per app, a
  bounded number overall), the pipeline from the inserted row to the swapped container, rollback,
  restart, stop, and the reconciliation at start-up. The computations run over the database, the
  container engines, the proxy, the locks and the list of published events.

  The field \<open>en_build\<close> stands for the build engine (git, tar streams and image builds, which change
  the container engines only), \<open>en_probe\<close> for an HTTP request to the candidate, \<open>en_Done\<close> for the
  cancellation of the request's context (on its own, whatever the database answers), \<open>en_Create\<close> for opening the log file. Lines written to the
  log have no modelled effect. A function that returns a row and an error yields
  \<open>Inr (row, Some error)\<close>; \<open>Inl\<close> is an error without a row. The rounds of the health check are counted
  by \<open>en_fuel\<close>, which the theory of its termination shows to be no restriction.
\<close>

section \<open>Names\<close>

definition derefStr :: "string option \<Rightarrow> string" where
  "derefStr p = (case p of None \<Rightarrow> [] | Some s \<Rightarrow> s)"

fun fold_dashes :: "string \<Rightarrow> bool \<Rightarrow> string" where
  "fold_dashes [] prevDash = []"
| "fold_dashes (c # s) prevDash =
     (if is_lower c \<or> is_digit c then c # fold_dashes s False
      else if c = CHR ''_'' then c # fold_dashes s False
      else if \<not> prevDash then CHR ''-'' # fold_dashes s True
      else fold_dashes s True)"

definition volume_slugify :: "string \<Rightarrow> string" where
  "volume_slugify s0 =
     (let s = to_lower (trim_space s0)
      in if s = [] then [] else trim_cutset ''-'' (fold_dashes s False))"

definition namedVolumeName :: "string \<Rightarrow> string \<Rightarrow> string" where
  "namedVolumeName appName mountPath =
     ''prexel-vol-'' @ volume_slugify appName @ ''-'' @ volume_slugify mountPath"

fun dedupe_loop :: "string list \<Rightarrow> string set \<Rightarrow> string list" where
  "dedupe_loop [] seen = []"
| "dedupe_loop (n # ns) seen =
     (if n = [] then dedupe_loop ns seen
      else if n \<in> seen then dedupe_loop ns seen
      else n # dedupe_loop ns (insert n seen))"

definition legacyDedupe :: "string list \<Rightarrow> string list" where
  "legacyDedupe names = dedupe_loop names {}"

text \<open>The text before the last colon, all of it when there is none.\<close>

definition strip_tag :: "string \<Rightarrow> string" where
  "strip_tag r =
     (if CHR '':'' \<in> set r then rev (tl (dropWhile (\<lambda>c. c \<noteq> CHR '':'') (rev r))) else r)"

definition imageShortSHA :: "string \<Rightarrow> string \<Rightarrow> ('x, string) go" where
  "imageShortSHA imageRef appName =
     (let r = strip_tag imageRef; pre = ''prexel-'' @ appName @ ''-''
      in if prefix pre r then ret (drop (length pre) r)
         else bnd new_uuid (\<lambda>u. ret (take 7 u)))"

definition composeCanonicalName :: "string \<Rightarrow> string \<Rightarrow> string" where
  "composeCanonicalName appName serviceName = appName @ ''-'' @ serviceName"

definition legacyComposeName :: "string \<Rightarrow> string \<Rightarrow> string" where
  "legacyComposeName appName serviceName = ''prexel-'' @ appName @ ''-'' @ serviceName"

definition shortDeployID :: "string \<Rightarrow> string" where
  "shortDeployID i = take 7 (remove_byte (CHR ''-'') i)"

definition suffixForType :: "string \<Rightarrow> string" where
  "suffixForType t =
     (if t = ''deploy.started'' then ''started''
      else if t = ''deploy.log'' then ''log''
      else if t = ''deploy.success'' then ''success''
      else if t = ''deploy.failed'' then ''failed''
      else if t = ''app.status_changed'' then ''status_changed''
      else replace_byte (CHR ''.'') ''_'' t)"

text \<open>\<open>path.Clean\<close>: empty and \<open>.\<close> segments are dropped, \<open>..\<close> takes back the segment before it.\<close>

fun clean_segments :: "bool \<Rightarrow> string list \<Rightarrow> string list \<Rightarrow> string list" where
  "clean_segments rooted [] out = out"
| "clean_segments rooted (c # cs) out =
     (if c = [] \<or> c = ''.'' then clean_segments rooted cs out
      else if c = ''..'' then
        (if out \<noteq> [] \<and> last out \<noteq> ''..'' then clean_segments rooted cs (butlast out)
         else if rooted then clean_segments rooted cs out
         else clean_segments rooted cs (out @ [''..'']))
      else clean_segments rooted cs (out @ [c]))"

fun join_slash :: "string list \<Rightarrow> string" where
  "join_slash [] = []"
| "join_slash [s] = s"
| "join_slash (s # t # ss) = s @ ''/'' @ join_slash (t # ss)"

definition path_clean :: "string \<Rightarrow> string" where
  "path_clean p =
     (let rooted = prefix ''/'' p;
          out = (if rooted then ''/'' else []) @ join_slash (clean_segments rooted (split_on (CHR ''/'') p) [])
      in if out = [] then ''.'' else out)"

definition path_join :: "string \<Rightarrow> string \<Rightarrow> string" where
  "path_join a b = (if a = [] then (if b = [] then [] else path_clean b) else path_clean (a @ ''/'' @ b))"

section \<open>The deployments table\<close>

definition deploy_ErrNotFound :: err where
  "deploy_ErrNotFound = ErrNew ''deploy: not found''"

definition deploy_insert :: "deployment_row \<Rightarrow> ('x, unit) dbm" where
  "deploy_insert d =
     bnd (db_exec (\<lambda>w. insert_deployment (d\<lparr>dp_error_message := None, dp_created_at := unixepoch w\<rparr>) w))
       (\<lambda>_. ret ())"

definition scanDeployment :: "('x db_scheme \<Rightarrow> deployment_row option) \<Rightarrow> ('x, deployment_row) dbm" where
  "scanDeployment q =
     bnd (attempt (db_query_row q)) (\<lambda>r.
     case r of
       Inl e \<Rightarrow> (if errors_is e (ErrSql NoRows) then fail deploy_ErrNotFound else fail e)
     | Inr d \<Rightarrow> ret d)"

definition deploy_get :: "string \<Rightarrow> ('x, deployment_row) dbm" where
  "deploy_get i = scanDeployment (\<lambda>w. find (\<lambda>d. dp_id d = i) (deployments w))"

text \<open>\<open>ORDER BY created_at DESC, id DESC\<close>.\<close>

definition newest_first :: "deployment_row list \<Rightarrow> deployment_row list" where
  "newest_first ds = rev (sort_key (\<lambda>d. (dp_created_at d, dp_id d)) ds)"

definition listByApp :: "string \<Rightarrow> int \<Rightarrow> ('x, deployment_row list) dbm" where
  "listByApp appID limit0 =
     (let limit = (if limit0 \<le> 0 \<or> limit0 > 500 then 50 else limit0)
      in db_query (\<lambda>w. take (nat limit) (newest_first (filter (\<lambda>d. dp_app_id d = appID) (deployments w)))))"

definition lastSuccess :: "string \<Rightarrow> string \<Rightarrow> ('x, deployment_row) dbm" where
  "lastSuccess appID excludeID =
     scanDeployment (\<lambda>w.
       case newest_first (filter (\<lambda>d. dp_app_id d = appID \<and> dp_status d = ''success'' \<and>
              (excludeID = [] \<or> dp_id d \<noteq> excludeID)) (deployments w)) of
         [] \<Rightarrow> None
       | d # _ \<Rightarrow> Some d)"

text \<open>A partial update: \<open>f\<close> sets the columns of the map the code builds.\<close>

definition updateFields :: "string \<Rightarrow> (deployment_row \<Rightarrow> deployment_row) \<Rightarrow> ('x, unit) dbm" where
  "updateFields i f =
     bnd (db_exec (update_deployments (\<lambda>d. dp_id d = i) f)) (\<lambda>n.
     if n = 0 then fail deploy_ErrNotFound else ret ())"

definition in_flight :: "string \<Rightarrow> bool" where
  "in_flight s \<longleftrightarrow> s = ''pending'' \<or> s = ''building'' \<or> s = ''deploying''"

definition failPending :: "('x, nat) dbm" where
  "failPending =
     db_exec (\<lambda>w. update_deployments (\<lambda>d. in_flight (dp_status d))
       (\<lambda>d. d\<lparr>dp_status := ''failed'', dp_finished_at := Some (unixepoch w)\<rparr>) w)"

section \<open>The engine\<close>

record ComposeServiceSummary =
  svc_Name :: string
  svc_Image :: string
  svc_Ports :: "int list"
  svc_Env :: "(string \<times> string) list"
  svc_Command :: "string list"
  svc_Restart :: string

record build_result =
  br_ImageRef :: string
  br_CommitSHA :: string
  br_Compose :: "ComposeServiceSummary list option"

record BuildOptions =
  bo_DeploymentID :: string
  bo_AppID :: string
  bo_Branch :: string
  bo_CommitSHA :: string
  bo_ImageTag :: string

record DeployOptions =
  op_Branch :: string
  op_CommitSHA :: string
  op_ImageTag :: string
  op_DeploymentID :: string

record ('d, 'c) engine =
  en_moby :: "'d moby"
  en_http :: "'c http option"
  en_sha1 :: "string \<Rightarrow> nat list"
  en_Servers :: aead
  en_Secrets :: "aead option"
  en_AppVolumes :: bool
  en_Bus :: bool
  en_Limit :: "(nat \<Rightarrow> int) option"
  en_LogDir :: string
  en_build :: "provider \<Rightarrow> App \<Rightarrow> BuildOptions \<Rightarrow> ('d, build_result) call"
  en_Create :: "string \<Rightarrow> nat \<Rightarrow> err + unit"
  en_writeKeyFile :: "nat \<Rightarrow> err + unit"
  en_listen :: "nat \<Rightarrow> nat \<Rightarrow> bool"
  en_NewRequest :: "string \<Rightarrow> string \<Rightarrow> err + unit"
  en_probe :: "string \<Rightarrow> string \<Rightarrow> nat \<Rightarrow> 'd \<Rightarrow> err + int"
  en_Done :: "nat \<Rightarrow> err option"
  en_fuel :: nat

definition ErrDeployInProgress :: err where
  "ErrDeployInProgress = ErrNew ''deploy: in progress''"

definition ErrTooManyDeploys :: err where
  "ErrTooManyDeploys = ErrNew ''deploy: too many concurrent deploys''"

definition LogPath :: "('d, 'c) engine \<Rightarrow> string \<Rightarrow> string" where
  "LogPath en i = path_join (en_LogDir en) (i @ ''.log'')"

subsection \<open>Admission\<close>

definition acquireLock :: "string \<Rightarrow> ('d, 'c, 'x, bool) hostm" where
  "acquireLock i = access (\<lambda>w. if i \<in> set (locks w) then (False, w) else (True, w\<lparr>locks := i # locks w\<rparr>))"

definition unlock :: "string \<Rightarrow> ('d, 'c, 'x, unit) hostm" where
  "unlock i = access (\<lambda>w. ((), w\<lparr>locks := removeAll i (locks w)\<rparr>))"

text \<open>The semaphore as its capacity and the number of taken slots; it is made at the first use.\<close>

definition slots_once :: "('d, 'c) engine \<Rightarrow> ('d, 'c, 'x) hostdb_scheme \<Rightarrow> nat \<times> nat" where
  "slots_once en w =
     (case globalSlots w of
        Some s \<Rightarrow> s
      | None \<Rightarrow>
          (case en_Limit en of
             None \<Rightarrow> (0, 0)
           | Some limit \<Rightarrow> (nat (if limit (stp w) < 1 then 1 else limit (stp w)), 0)))"

definition acquireGlobalSlot :: "('d, 'c) engine \<Rightarrow> ('d, 'c, 'x, bool) hostm" where
  "acquireGlobalSlot en =
     (case en_Limit en of
        None \<Rightarrow> ret True
      | Some _ \<Rightarrow>
          access (\<lambda>w. case slots_once en w of
              (cap, used) \<Rightarrow>
                (if used < cap then (True, tick (w\<lparr>globalSlots := Some (cap, Suc used)\<rparr>))
                 else (False, tick (w\<lparr>globalSlots := Some (cap, used)\<rparr>)))))"

definition releaseSlot :: "('d, 'c) engine \<Rightarrow> ('d, 'c, 'x, unit) hostm" where
  "releaseSlot en =
     (case en_Limit en of
        None \<Rightarrow> ret ()
      | Some _ \<Rightarrow>
          access (\<lambda>w. ((), w\<lparr>globalSlots := map_option (\<lambda>(cap, used). (cap, used - 1)) (globalSlots w)\<rparr>)))"

text \<open>\<open>defer mu.Unlock()\<close> and \<open>defer release()\<close>: the clean-up runs whatever the body returns.\<close>

definition deferring :: "('x, unit) go \<Rightarrow> ('x, 'a) go \<Rightarrow> ('x, 'a) go" where
  "deferring cleanup m = bnd (attempt m) (\<lambda>r. bnd (attempt cleanup) (\<lambda>_. lift_res r))"

definition admitted :: "('d, 'c) engine \<Rightarrow> string \<Rightarrow> ('d, 'c, 'x, 'a) hostm \<Rightarrow> ('d, 'c, 'x, 'a) hostm" where
  "admitted en i body =
     bnd (acquireLock i) (\<lambda>ok.
     if \<not> ok then fail ErrDeployInProgress
     else
       deferring (unlock i)
         (bnd (acquireGlobalSlot en) (\<lambda>ok2.
          if \<not> ok2 then fail ErrTooManyDeploys
          else deferring (releaseSlot en) body)))"

subsection \<open>Events\<close>

definition publish :: "('d, 'c) engine \<Rightarrow> string \<Rightarrow> string \<Rightarrow> string \<Rightarrow> ('d, 'c, 'x, unit) hostm" where
  "publish en appID deploymentID eventType =
     (if \<not> en_Bus en then ret ()
      else access (\<lambda>w. ((), w\<lparr>events := events w @
             [(''deploy.'' @ deploymentID @ ''.'' @ suffixForType eventType, eventType),
              (''app.'' @ appID @ ''.'' @ suffixForType eventType, eventType)]\<rparr>)))"

subsection \<open>Health check\<close>

text \<open>A wait on a timer that the context may end.\<close>

definition wait :: "('d, 'c) engine \<Rightarrow> ('x, unit) go" where
  "wait en = draw (\<lambda>n. case en_Done en n of None \<Rightarrow> Inr () | Some e \<Rightarrow> Inl e)"

definition probe :: "('d, 'c) engine \<Rightarrow> string \<Rightarrow> string \<Rightarrow> ('d, 'c, 'x, int) hostm" where
  "probe en meth url w = (en_probe en meth url (stp w) (dockerd w), tick w)"

definition ErrStillChecking :: err where
  "ErrStillChecking = ErrNew ''health check still running''"

fun health_loop ::
  "('d, 'c) engine \<Rightarrow> string \<Rightarrow> string \<Rightarrow> int \<Rightarrow> int \<Rightarrow> nat \<Rightarrow> err option \<Rightarrow> ('d, 'c, 'x, unit) hostm" where
  "health_loop en meth url wantCode deadline 0 lastErr = fail ErrStillChecking"
| "health_loop en meth url wantCode deadline (Suc n) lastErr =
     bnd time_now (\<lambda>now.
     if now > deadline then
       fail (ErrWrap ''after'' (case lastErr of None \<Rightarrow> ErrNew ''timeout'' | Some e \<Rightarrow> e))
     else
       bnd (wrapping ''build request'' (lift_res (en_NewRequest en meth url))) (\<lambda>_.
       bnd (attempt (probe en meth url)) (\<lambda>r.
       let pending = (\<lambda>e. bnd (wait en) (\<lambda>_. health_loop en meth url wantCode deadline n (Some e)))
       in case r of
            Inr code \<Rightarrow> (if code = wantCode then ret () else pending (ErrNew ''status''))
          | Inl e \<Rightarrow> pending e)))"

definition healthCheck :: "('d, 'c) engine \<Rightarrow> App \<Rightarrow> string \<Rightarrow> int \<Rightarrow> ('d, 'c, 'x, unit) hostm" where
  "healthCheck en app containerName containerPort =
     (let a = app_row app in
      if \<not> a_health_check_enabled a then wait en
      else
        let path0 = (if a_health_check_path a = [] then ''/'' else a_health_check_path a);
            path = (if prefix ''/'' path0 then path0 else ''/'' @ path0);
            port = (case a_health_check_port a of Some p \<Rightarrow> (if p > 0 then p else containerPort) | None \<Rightarrow> containerPort);
            meth0 = to_upper (a_health_check_method a);
            meth = (if meth0 = [] then ''GET'' else meth0);
            wantCode = (if a_health_check_return_code a = 0 then 200 else a_health_check_return_code a);
            timeout = (if a_health_check_timeout a \<le> 0 then 60 else a_health_check_timeout a) * second;
            url = ''http://'' @ containerName @ '':'' @ int_digits port @ path
        in bnd (if a_health_check_start_period a > 0 then wait en else ret ()) (\<lambda>_.
           bnd time_now (\<lambda>now.
           health_loop en meth url wantCode (now + timeout) (en_fuel en) None)))"

subsection \<open>Domains of an app\<close>

fun split_domains :: "domain_row list \<Rightarrow> string \<Rightarrow> string list \<Rightarrow> string \<times> string list" where
  "split_domains [] primary aliases = (primary, aliases)"
| "split_domains (d # ds) primary aliases =
     (if d_is_primary d \<and> primary = [] then split_domains ds (d_name d) aliases
      else split_domains ds primary (aliases @ [d_name d]))"

definition appDomains :: "string \<Rightarrow> ('x, string \<times> string list \<times> (string \<times> bool) list) dbm" where
  "appDomains appID =
     bnd (domain_list (Some appID)) (\<lambda>doms.
     let force = fold (\<lambda>d. assoc_put (d_name d) (d_force_https d)) doms []
     in case split_domains doms [] [] of
          (primary, aliases) \<Rightarrow>
            (if primary = [] \<and> aliases \<noteq> [] then ret (hd aliases, tl aliases, force)
             else ret (primary, aliases, force)))"

definition force_of :: "(string \<times> bool) list \<Rightarrow> string \<Rightarrow> bool" where
  "force_of m host = (case map_of m host of None \<Rightarrow> False | Some b \<Rightarrow> b)"

end
