(* ===== verification/Deploy_Swap.thy ===== *)
theory Deploy_Swap
  imports Deploy_Engine
begin

text \<open>
  The swap of an app's container (\<open>Engine.swap\<close>) in the phases of the source, its counterpart for
  compose apps (\<open>Engine.swapCompose\<close>), and the pipeline around them: \<open>Deploy\<close>, \<open>Rollback\<close>, \<open>Restart\<close>,
  \<open>Stop\<close>, \<open>Reconcile\<close>.
\<close>

section \<open>Phases of the swap\<close>

definition container_name :: "App \<Rightarrow> string" where
  "container_name app =
     (let n = derefStr (a_container_name (app_row app)) in if n = [] then a_name (app_row app) else n)"

definition legacy_name :: "App \<Rightarrow> string" where
  "legacy_name app = ''prexel-'' @ a_name (app_row app)"

definition temp_name :: "App \<Rightarrow> string \<Rightarrow> string" where
  "temp_name app shortSHA = container_name app @ ''-deploying-'' @ shortSHA"

definition hook :: "string option \<Rightarrow> string option" where
  "hook c = (case c of None \<Rightarrow> None | Some s \<Rightarrow> (if trim_space s = [] then None else Some s))"

text \<open>The hook runs in the old container; a container whose existence cannot be checked counts as missing.\<close>

definition pre_deploy :: "('d, 'c) engine \<Rightarrow> provider \<Rightarrow> App \<Rightarrow> ('d, 'c, 'x, unit) hostm" where
  "pre_deploy en p app =
     (case hook (a_pre_deploy_command (app_row app)) of
        None \<Rightarrow> ret ()
      | Some cmd \<Rightarrow>
          bnd (attempt (ContainerExists (en_moby en) p (container_name app))) (\<lambda>r.
          case r of
            Inr True \<Rightarrow>
              wrapping ''pre-deploy command failed''
                (Exec (en_moby en) p (container_name app) [''sh'', ''-c'', cmd])
          | _ \<Rightarrow> ret ()))"

definition runtime_env :: "('d, 'c) engine \<Rightarrow> App \<Rightarrow> ('x, (string \<times> string) list) dbm" where
  "runtime_env en app =
     (case en_Secrets en of
        None \<Rightarrow> ret (app_EnvVars app)
      | Some cipher \<Rightarrow>
          bnd (wrapping ''resolve runtime secrets'' (ResolveRuntime cipher (a_id (app_row app)))) (\<lambda>secs.
          ret (assoc_put_all secs (app_EnvVars app))))"

definition container_port :: "App \<Rightarrow> int" where
  "container_port app = (case a_port (app_row app) of Some p \<Rightarrow> (if p > 0 then p else 80) | None \<Rightarrow> 80)"

definition host_bindings :: "('d, 'c) engine \<Rightarrow> App \<Rightarrow> bool \<Rightarrow> ('x, PortBinding list) dbm" where
  "host_bindings en app hasDomain =
     (if hasDomain then ret []
      else
        let binding = (\<lambda>hp. [\<lparr>pb_HostPort = hp, pb_ContainerPort = container_port app, pb_Protocol = ''tcp''\<rparr>]);
            assign = bnd (wrapping ''assign host port'' (AssignHostPort (en_listen en) (a_id (app_row app))))
                       (\<lambda>hp. ret (binding (int hp)))
        in case a_host_port (app_row app) of
             Some hp \<Rightarrow> (if hp > 0 then ret (binding hp) else assign)
           | None \<Rightarrow> assign)"

text \<open>Stop and remove of old containers; failures are only logged.\<close>

definition drop_old :: "('d, 'c) engine \<Rightarrow> provider \<Rightarrow> string list \<Rightarrow> ('d, 'c, 'x, unit) hostm" where
  "drop_old en p =
     for_each (\<lambda>name.
       bnd (attempt (StopContainer (en_moby en) p name (10 * second))) (\<lambda>_.
       bnd (attempt (RemoveContainer (en_moby en) p name True)) (\<lambda>_. ret ())))"

definition app_labels :: "App \<Rightarrow> deployment_row \<Rightarrow> (string \<times> string) list" where
  "app_labels app d =
     assoc_put_all
       [(''prexel.app_id'', a_id (app_row app)), (''prexel.app_name'', a_name (app_row app)),
        (''prexel.deployment'', dp_id d), (''prexel.role'', ''candidate'')]
       (app_DockerLabels app)"

fun volume_mounts :: "('d, 'c) engine \<Rightarrow> provider \<Rightarrow> App \<Rightarrow> volume_row list \<Rightarrow> ('d, 'c, 'x, dmount list) hostm" where
  "volume_mounts en p app [] = ret []"
| "volume_mounts en p app (v # vs) =
     (if v_service v \<noteq> None then volume_mounts en p app vs
      else
        let mnt = (\<lambda>t src. \<lparr>m_Source = src, m_Target = v_mount_path v, m_Type = t, m_ReadOnly = v_read_only v\<rparr>);
            rest = (\<lambda>m. bnd (volume_mounts en p app vs) (\<lambda>ms. ret (m # ms)))
        in if v_is_named v then
             let src = namedVolumeName (a_name (app_row app)) (v_mount_path v)
             in bnd (wrapping ''ensure volume'' (EnsureVolume (en_moby en) p src
                       [(''prexel.app_id'', a_id (app_row app)), (''prexel.app_name'', a_name (app_row app))]))
                  (\<lambda>_. rest (mnt ''volume'' src))
           else case v_host_path v of
                  None \<Rightarrow> fail (ErrNew ''bind mount has no host_path'')
                | Some h \<Rightarrow> rest (mnt ''bind'' h))"

definition app_mounts :: "('d, 'c) engine \<Rightarrow> provider \<Rightarrow> App \<Rightarrow> ('d, 'c, 'x, dmount list) hostm" where
  "app_mounts en p app =
     (if \<not> en_AppVolumes en then ret []
      else
        bnd (attempt (volume_List (a_id (app_row app)))) (\<lambda>r.
        volume_mounts en p app (case r of Inl _ \<Rightarrow> [] | Inr vols \<Rightarrow> vols)))"

definition restart_policy :: "App \<Rightarrow> string" where
  "restart_policy app =
     (if a_restart_policy (app_row app) = [] then ''unless-stopped'' else a_restart_policy (app_row app))"

definition candidate_opts ::
  "App \<Rightarrow> string \<Rightarrow> string \<Rightarrow> deployment_row \<Rightarrow> (string \<times> string) list \<Rightarrow> PortBinding list \<Rightarrow> dmount list
     \<Rightarrow> ContainerOpts" where
  "candidate_opts app tempName imageRef d envMap bindings mounts =
     (let a = app_row app in
      \<lparr>co_Name = tempName, co_Image = imageRef, co_Cmd = [], co_Env = envMap, co_Labels = app_labels app d,
       co_Network = [], co_Aliases = [tempName], co_PortBindings = bindings,
       co_RestartPolicy = restart_policy app, co_MemoryLimit = derefStr (a_limits_memory a),
       co_CPULimit = derefStr (a_limits_cpus a), co_AutoRemove = False, co_Mounts = mounts,
       co_MemorySwap = derefStr (a_limits_memory_swap a), co_MemorySwappiness = a_limits_memory_swappiness a,
       co_MemoryReservation = derefStr (a_limits_memory_reservation a), co_CPUSet = derefStr (a_limits_cpuset a),
       co_CPUShares = (case a_limits_cpu_shares a of None \<Rightarrow> 0 | Some n \<Rightarrow> n)\<rparr>)"

text \<open>The health check of the candidate; when it fails the candidate and its image are removed.\<close>

definition candidate_healthy ::
  "('d, 'c) engine \<Rightarrow> provider \<Rightarrow> App \<Rightarrow> string \<Rightarrow> string \<Rightarrow> ('d, 'c, 'x, unit) hostm" where
  "candidate_healthy en p app tempName imageRef =
     bnd (attempt (healthCheck en app tempName (container_port app))) (\<lambda>r.
     case r of
       Inr _ \<Rightarrow> ret ()
     | Inl e \<Rightarrow>
         bnd (attempt (StopContainer (en_moby en) p tempName (10 * second))) (\<lambda>_.
         bnd (attempt (RemoveContainer (en_moby en) p tempName True)) (\<lambda>_.
         bnd (attempt (RemoveImage (en_moby en) p imageRef)) (\<lambda>_.
         fail (ErrWrap ''health check'' e)))))"

definition route_candidate ::
  "('d, 'c) engine \<Rightarrow> App \<Rightarrow> (string \<times> bool) list \<Rightarrow> string \<Rightarrow> string list \<Rightarrow> ('d, 'c, 'x, unit) hostm" where
  "route_candidate en app force upstream hosts =
     (case en_http en of
        None \<Rightarrow> ret ()
      | Some http \<Rightarrow>
          for_each (\<lambda>host.
            wrapping ''caddy upsert'' (UpsertRoute http (en_sha1 en) host upstream (container_port app)
              (force_of force host))) hosts)"

definition route_canonical ::
  "('d, 'c) engine \<Rightarrow> App \<Rightarrow> (string \<times> bool) list \<Rightarrow> string list \<Rightarrow> ('d, 'c, 'x, unit) hostm" where
  "route_canonical en app force hosts =
     (case en_http en of
        None \<Rightarrow> ret ()
      | Some http \<Rightarrow>
          for_each (\<lambda>host.
            bnd (attempt (UpsertRoute http (en_sha1 en) host (container_name app) (container_port app)
              (force_of force host))) (\<lambda>_. ret ())) hosts)"

definition post_deploy :: "('d, 'c) engine \<Rightarrow> provider \<Rightarrow> App \<Rightarrow> ('d, 'c, 'x, unit) hostm" where
  "post_deploy en p app =
     (case hook (a_post_deploy_command (app_row app)) of
        None \<Rightarrow> ret ()
      | Some cmd \<Rightarrow>
          bnd (attempt (Exec (en_moby en) p (container_name app) [''sh'', ''-c'', cmd])) (\<lambda>_. ret ()))"

text \<open>The candidate of an app, with a domain or on a host port.\<close>

definition run_candidate ::
  "('d, 'c) engine \<Rightarrow> App \<Rightarrow> provider \<Rightarrow> string \<Rightarrow> deployment_row \<Rightarrow> string \<Rightarrow> (string \<times> string) list \<Rightarrow> bool \<Rightarrow>
     ('d, 'c, 'x, unit) hostm" where
  "run_candidate en app p imageRef d tempName envMap hasDomain =
     bnd (host_bindings en app hasDomain) (\<lambda>bindings.
     bnd (if \<not> hasDomain then drop_old en p (legacyDedupe [container_name app, legacy_name app]) else ret ()) (\<lambda>_.
     bnd (attempt (RemoveContainer (en_moby en) p tempName True)) (\<lambda>_.
     bnd (app_mounts en p app) (\<lambda>mounts.
     bnd (wrapping ''run container'' (RunContainer (en_moby en) p
            (candidate_opts app tempName imageRef d envMap bindings mounts))) (\<lambda>_.
     candidate_healthy en p app tempName imageRef)))))"

text \<open>The phases up to the healthy candidate; the hosts to route are returned.\<close>

definition start_candidate ::
  "('d, 'c) engine \<Rightarrow> App \<Rightarrow> provider \<Rightarrow> string \<Rightarrow> deployment_row \<Rightarrow> string \<Rightarrow>
     ('d, 'c, 'x, string list \<times> (string \<times> bool) list) hostm" where
  "start_candidate en app p imageRef d tempName =
     bnd (pre_deploy en p app) (\<lambda>_.
     bnd (runtime_env en app) (\<lambda>envMap.
     bnd (wrapping ''load domains'' (appDomains (a_id (app_row app)))) (\<lambda>(primary, aliases, force).
     bnd (run_candidate en app p imageRef d tempName envMap (primary \<noteq> [])) (\<lambda>_.
     ret (if primary = [] then [] else primary # aliases, force)))))"

text \<open>From the healthy candidate to the new canonical container.\<close>

definition promote_candidate ::
  "('d, 'c) engine \<Rightarrow> App \<Rightarrow> provider \<Rightarrow> string \<Rightarrow> string list \<times> (string \<times> bool) list \<Rightarrow> ('d, 'c, 'x, unit) hostm" where
  "promote_candidate en app p tempName hf =
     (case hf of (hosts, force) \<Rightarrow>
        bnd (route_candidate en app force tempName hosts) (\<lambda>_.
        bnd (drop_old en p (legacyDedupe [container_name app, legacy_name app])) (\<lambda>_.
        bnd (wrapping ''rename'' (RenameContainer (en_moby en) p tempName (container_name app))) (\<lambda>_.
        bnd (route_canonical en app force hosts) (\<lambda>_.
        post_deploy en p app)))))"

definition swap ::
  "('d, 'c) engine \<Rightarrow> App \<Rightarrow> provider \<Rightarrow> string \<Rightarrow> deployment_row \<Rightarrow> ('d, 'c, 'x, unit) hostm" where
  "swap en app p imageRef d =
     bnd (attempt (updateFields (dp_id d) (\<lambda>r. r\<lparr>dp_status := ''deploying''\<rparr>))) (\<lambda>_.
     bnd (attempt (SetStatus (a_id (app_row app)) ''deploying'')) (\<lambda>_.
     bnd (publish en (a_id (app_row app)) (dp_id d) ''app.status_changed'') (\<lambda>_.
     bnd (imageShortSHA imageRef (a_name (app_row app))) (\<lambda>shortSHA.
     let tempName = temp_name app shortSHA
     in bnd (start_candidate en app p imageRef d tempName) (promote_candidate en app p tempName)))))"

section \<open>Compose apps\<close>

record composeCandidate =
  cc_serviceName :: string
  cc_canonicalName :: string
  cc_tempName :: string
  cc_ports :: "int list"

text \<open>A map from a name to a list, grown by \<open>m[k] = append(m[k], v)\<close>.\<close>

definition assoc_append :: "'k \<Rightarrow> 'v \<Rightarrow> ('k \<times> 'v list) list \<Rightarrow> ('k \<times> 'v list) list" where
  "assoc_append k v m = assoc_put k ((case map_of m k of None \<Rightarrow> [] | Some vs \<Rightarrow> vs) @ [v]) m"

definition assoc_list :: "('k \<times> 'v list) list \<Rightarrow> 'k \<Rightarrow> 'v list" where
  "assoc_list m k = (case map_of m k of None \<Rightarrow> [] | Some vs \<Rightarrow> vs)"

definition is_service :: "string option \<Rightarrow> string option" where
  "is_service s = (case s of None \<Rightarrow> None | Some n \<Rightarrow> (if trim_space n = [] then None else Some n))"

definition appDomainsByService :: "string \<Rightarrow> ('x, (string \<times> (string \<times> int option) list) list) dbm" where
  "appDomainsByService appID =
     bnd (domain_list (Some appID)) (\<lambda>doms.
     ret (fold (\<lambda>d m. case is_service (d_service d) of None \<Rightarrow> m | Some s \<Rightarrow> assoc_append s (d_name d, d_port d) m)
           doms []))"

fun compose_volumes ::
  "('d, 'c) engine \<Rightarrow> provider \<Rightarrow> App \<Rightarrow> volume_row list \<Rightarrow> (string \<times> dmount list) list \<Rightarrow>
     ('d, 'c, 'x, (string \<times> dmount list) list) hostm" where
  "compose_volumes en p app [] out = ret out"
| "compose_volumes en p app (v # vs) out =
     (case is_service (v_service v) of
        None \<Rightarrow> compose_volumes en p app vs out
      | Some s \<Rightarrow>
          let mnt = (\<lambda>t src. \<lparr>m_Source = src, m_Target = v_mount_path v, m_Type = t, m_ReadOnly = v_read_only v\<rparr>)
          in if v_is_named v then
               let src = namedVolumeName (a_name (app_row app)) (s @ ''-'' @ v_mount_path v)
               in bnd (attempt (EnsureVolume (en_moby en) p src
                         [(''prexel.app_id'', a_id (app_row app)), (''prexel.app_name'', a_name (app_row app)),
                          (''prexel.service'', s)]))
                    (\<lambda>_. compose_volumes en p app vs (assoc_append s (mnt ''volume'' src) out))
             else case v_host_path v of
                    None \<Rightarrow> compose_volumes en p app vs out
                  | Some h \<Rightarrow> compose_volumes en p app vs (assoc_append s (mnt ''bind'' h) out))"

definition collectComposeVolumes ::
  "('d, 'c) engine \<Rightarrow> App \<Rightarrow> provider \<Rightarrow> ('d, 'c, 'x, (string \<times> dmount list) list) hostm" where
  "collectComposeVolumes en app p =
     (if \<not> en_AppVolumes en then ret []
      else
        bnd (attempt (volume_List (a_id (app_row app)))) (\<lambda>r.
        case r of Inl _ \<Rightarrow> ret [] | Inr vols \<Rightarrow> compose_volumes en p app vols []))"

definition compose_labels :: "App \<Rightarrow> deployment_row \<Rightarrow> string \<Rightarrow> (string \<times> string) list" where
  "compose_labels app d svc =
     assoc_put_all
       [(''prexel.compose'', ''true''), (''prexel.service'', svc),
        (''com.docker.compose.project'', a_name (app_row app)), (''com.docker.compose.service'', svc),
        (''com.docker.compose.container-number'', ''1''), (''com.docker.compose.oneoff'', ''False'')]
       (app_labels app d)"

definition startComposeCandidate ::
  "('d, 'c) engine \<Rightarrow> App \<Rightarrow> provider \<Rightarrow> deployment_row \<Rightarrow> ComposeServiceSummary \<Rightarrow> (string \<times> string) list \<Rightarrow>
     dmount list \<Rightarrow> string \<Rightarrow> ('d, 'c, 'x, composeCandidate) hostm" where
  "startComposeCandidate en app p d svc baseEnv mounts defaultRestart =
     (let a = app_row app;
          canonicalName = composeCanonicalName (a_name a) (svc_Name svc);
          tempName = canonicalName @ ''-deploying-'' @ shortDeployID (dp_id d);
          restart = trim_space (svc_Restart svc);
          opts = \<lparr>co_Name = tempName, co_Image = svc_Image svc, co_Cmd = svc_Command svc,
                  co_Env = assoc_put_all (svc_Env svc) baseEnv,
                  co_Labels = compose_labels app d (svc_Name svc), co_Network = [],
                  co_Aliases = [svc_Name svc, canonicalName, tempName], co_PortBindings = [],
                  co_RestartPolicy = (if restart = [] then defaultRestart else restart),
                  co_MemoryLimit = derefStr (a_limits_memory a), co_CPULimit = derefStr (a_limits_cpus a),
                  co_AutoRemove = False, co_Mounts = mounts,
                  co_MemorySwap = derefStr (a_limits_memory_swap a),
                  co_MemorySwappiness = a_limits_memory_swappiness a,
                  co_MemoryReservation = derefStr (a_limits_memory_reservation a),
                  co_CPUSet = derefStr (a_limits_cpuset a),
                  co_CPUShares = (case a_limits_cpu_shares a of None \<Rightarrow> 0 | Some n \<Rightarrow> n)\<rparr>
      in bnd (attempt (RemoveContainer (en_moby en) p tempName True)) (\<lambda>_.
         bnd (wrapping ''run container'' (RunContainer (en_moby en) p opts)) (\<lambda>_.
         ret \<lparr>cc_serviceName = svc_Name svc, cc_canonicalName = canonicalName, cc_tempName = tempName,
              cc_ports = svc_Ports svc\<rparr>)))"

definition drop_candidates :: "('d, 'c) engine \<Rightarrow> provider \<Rightarrow> composeCandidate list \<Rightarrow> ('d, 'c, 'x, unit) hostm" where
  "drop_candidates en p =
     for_each (\<lambda>c.
       bnd (attempt (StopContainer (en_moby en) p (cc_tempName c) (5 * second))) (\<lambda>_.
       bnd (attempt (RemoveContainer (en_moby en) p (cc_tempName c) True)) (\<lambda>_. ret ())))"

fun start_all ::
  "('d, 'c) engine \<Rightarrow> App \<Rightarrow> provider \<Rightarrow> deployment_row \<Rightarrow> (string \<times> string) list \<Rightarrow> (string \<times> dmount list) list \<Rightarrow>
     ComposeServiceSummary list \<Rightarrow> composeCandidate list \<Rightarrow> ('d, 'c, 'x, composeCandidate list) hostm" where
  "start_all en app p d baseEnv vols [] candidates = ret candidates"
| "start_all en app p d baseEnv vols (svc # svcs) candidates =
     bnd (attempt (startComposeCandidate en app p d svc baseEnv (assoc_list vols (svc_Name svc)) (restart_policy app)))
       (\<lambda>r. case r of
          Inl e \<Rightarrow> bnd (drop_candidates en p candidates) (\<lambda>_. fail e)
        | Inr c \<Rightarrow> start_all en app p d baseEnv vols svcs (candidates @ [c]))"

definition settle :: "('d, 'c) engine \<Rightarrow> provider \<Rightarrow> composeCandidate list \<Rightarrow> ('d, 'c, 'x, unit) hostm" where
  "settle en p candidates =
     bnd (attempt (wait en)) (\<lambda>r.
     case r of Inr _ \<Rightarrow> ret () | Inl e \<Rightarrow> bnd (drop_candidates en p candidates) (\<lambda>_. fail e))"

definition swap_service :: "('d, 'c) engine \<Rightarrow> App \<Rightarrow> provider \<Rightarrow> composeCandidate \<Rightarrow> ('d, 'c, 'x, unit) hostm" where
  "swap_service en app p c =
     bnd (drop_old en p [cc_canonicalName c, legacyComposeName (a_name (app_row app)) (cc_serviceName c)]) (\<lambda>_.
     wrapping ''rename'' (RenameContainer (en_moby en) p (cc_tempName c) (cc_canonicalName c)))"

definition compose_port :: "composeCandidate \<Rightarrow> int option \<Rightarrow> int" where
  "compose_port c port =
     (let p = (case port of Some n \<Rightarrow> (if n > 0 then n else 0) | None \<Rightarrow> 0)
      in if p = 0 \<and> cc_ports c \<noteq> [] then hd (cc_ports c) else p)"

definition route_service ::
  "('d, 'c) engine \<Rightarrow> (string \<times> bool) list \<Rightarrow> (string \<times> (string \<times> int option) list) list \<Rightarrow> composeCandidate \<Rightarrow>
     ('d, 'c, 'x, unit) hostm" where
  "route_service en force doms c =
     (case en_http en of
        None \<Rightarrow> ret ()
      | Some http \<Rightarrow>
          for_each (\<lambda>(host, port).
            if compose_port c port = 0 then ret ()
            else
              bnd (attempt (UpsertRoute http (en_sha1 en) host (cc_canonicalName c) (compose_port c port)
                (force_of force host))) (\<lambda>_. ret ())) (assoc_list doms (cc_serviceName c)))"

definition prune_one :: "('d, 'c) engine \<Rightarrow> provider \<Rightarrow> string list \<Rightarrow> listed_container \<Rightarrow> ('d, 'c, 'x, unit) hostm" where
  "prune_one en p liveServices c =
     (let svc = derefStr (map_of (lc_Labels c) ''prexel.service'');
          name = (case lc_Names c of [] \<Rightarrow> [] | n # _ \<Rightarrow> (if prefix ''/'' n then drop 1 n else n))
      in if svc = [] \<or> svc \<in> set liveServices \<or> name = [] then ret ()
         else
           bnd (attempt (StopContainer (en_moby en) p name (5 * second))) (\<lambda>_.
           bnd (attempt (RemoveContainer (en_moby en) p name True)) (\<lambda>_. ret ())))"

definition pruneOrphanComposeContainers ::
  "('d, 'c) engine \<Rightarrow> provider \<Rightarrow> App \<Rightarrow> string list \<Rightarrow> ('d, 'c, 'x, unit) hostm" where
  "pruneOrphanComposeContainers en p app liveServices =
     bnd (ListContainers (en_moby en) p [(''label'', ''prexel.app_id='' @ a_id (app_row app))]) (\<lambda>cs.
     for_each (prune_one en p liveServices) cs)"

definition swapCompose ::
  "('d, 'c) engine \<Rightarrow> App \<Rightarrow> provider \<Rightarrow> build_result \<Rightarrow> deployment_row \<Rightarrow> ('d, 'c, 'x, unit) hostm" where
  "swapCompose en app p res d =
     (case br_Compose res of
        None \<Rightarrow> fail (ErrNew ''swap compose: missing compose result'')
      | Some svcs \<Rightarrow>
          (if svcs = [] then fail (ErrNew ''swap compose: no services to deploy'')
           else
             bnd (attempt (updateFields (dp_id d) (\<lambda>r. r\<lparr>dp_status := ''deploying''\<rparr>))) (\<lambda>_.
             bnd (attempt (SetStatus (a_id (app_row app)) ''deploying'')) (\<lambda>_.
             bnd (publish en (a_id (app_row app)) (dp_id d) ''app.status_changed'') (\<lambda>_.
             bnd (runtime_env en app) (\<lambda>baseEnv.
             bnd (wrapping ''load domains'' (appDomains (a_id (app_row app)))) (\<lambda>(primary, aliases, force).
             bnd (wrapping ''load per-service domains'' (appDomainsByService (a_id (app_row app)))) (\<lambda>doms.
             bnd (collectComposeVolumes en app p) (\<lambda>vols.
             bnd (start_all en app p d baseEnv vols svcs []) (\<lambda>candidates.
             bnd (settle en p candidates) (\<lambda>_.
             bnd (for_each (swap_service en app p) candidates) (\<lambda>_.
             bnd (for_each (route_service en force doms) candidates) (\<lambda>_.
             bnd (attempt (pruneOrphanComposeContainers en p app (map cc_serviceName candidates))) (\<lambda>_.
             ret ()))))))))))))))"

section \<open>The pipeline\<close>

definition failDeploy ::
  "('d, 'c) engine \<Rightarrow> App \<Rightarrow> deployment_row \<Rightarrow> err \<Rightarrow> ('d, 'c, 'x, deployment_row) hostm" where
  "failDeploy en app d cause =
     bnd time_now (\<lambda>now.
     let failed = (\<lambda>r. r\<lparr>dp_status := ''failed'', dp_finished_at := Some (unix now),
                         dp_error_message := Some (error_text cause)\<rparr>)
     in bnd (attempt (updateFields (dp_id d) failed)) (\<lambda>_.
        bnd (attempt (lastSuccess (a_id (app_row app)) (dp_id d))) (\<lambda>prev.
        bnd (attempt (SetStatus (a_id (app_row app)) (case prev of Inr _ \<Rightarrow> ''running'' | Inl _ \<Rightarrow> ''error''))) (\<lambda>_.
        bnd (publish en (a_id (app_row app)) (dp_id d) ''deploy.failed'') (\<lambda>_.
        ret (failed d))))))"

text \<open>\<open>e.failDeploy(..., wrapped); return d, err\<close>.\<close>

definition fail_with ::
  "('d, 'c) engine \<Rightarrow> App \<Rightarrow> deployment_row \<Rightarrow> (err \<Rightarrow> err) \<Rightarrow> err \<Rightarrow>
     ('d, 'c, 'x, deployment_row \<times> err option) hostm" where
  "fail_with en app d wrap e = bnd (failDeploy en app d (wrap e)) (\<lambda>d'. ret (d', Some e))"

definition pruneImages :: "('d, 'c) engine \<Rightarrow> provider \<Rightarrow> App \<Rightarrow> nat \<Rightarrow> ('d, 'c, 'x, unit) hostm" where
  "pruneImages en p app keep =
     bnd (attempt (bnd (on_docker (mb_Client (en_moby en) p)) (\<lambda>_. on_docker (mb_ImageList (en_moby en) p)))) (\<lambda>r.
     case r of
       Inl _ \<Rightarrow> ret ()
     | Inr imgs \<Rightarrow>
         let pre = ''prexel-'' @ a_name (app_row app) @ ''-'';
             matched = concat (map (\<lambda>img. case find (prefix pre) (li_RepoTags img) of
                          None \<Rightarrow> [] | Some tag \<Rightarrow> [(tag, li_Created img)]) imgs);
             sorted = sort_key (\<lambda>m. - snd m) matched
         in for_each (\<lambda>m. bnd (attempt (RemoveImage (en_moby en) p (fst m))) (\<lambda>_. ret ())) (drop keep sorted))"

definition failed_before_log :: "string \<Rightarrow> ('x, unit) dbm" where
  "failed_before_log i =
     bnd time_now (\<lambda>now.
     bnd (attempt (updateFields i (\<lambda>r. r\<lparr>dp_status := ''failed'', dp_finished_at := Some (unix now)\<rparr>))) (\<lambda>_.
     ret ()))"

text \<open>The row a deployment starts with.\<close>

definition new_row :: "('d, 'c) engine \<Rightarrow> App \<Rightarrow> DeployOptions \<Rightarrow> string \<Rightarrow> string \<Rightarrow> deployment_row" where
  "new_row en app opts rollbackOf i =
     (let a = app_row app;
          branch0 = trim_space (op_Branch opts);
          branch = (if branch0 = [] then a_branch a else branch0);
          commit = trim_space (op_CommitSHA opts);
          app_commit = (case a_git_commit_sha a of
                          Some c \<Rightarrow> (if trim_space c \<noteq> [] then Some c else None) | None \<Rightarrow> None)
      in \<lparr>dp_id = i, dp_app_id = a_id a, dp_commit_sha = (if commit \<noteq> [] then Some commit else app_commit),
          dp_commit_msg = None, dp_branch = Some branch, dp_image_tag = None,
          dp_rollback_of = (if rollbackOf \<noteq> [] then Some rollbackOf else None), dp_status = ''pending'',
          dp_log_path = Some (LogPath en i), dp_error_message = None, dp_started_at = None,
          dp_finished_at = None, dp_created_at = 0\<rparr>)"

definition deployment_id :: "string \<Rightarrow> ('x, string) go" where
  "deployment_id given = (let i = trim_space given in if i = [] then new_uuid else ret i)"

definition deploy_success ::
  "('d, 'c) engine \<Rightarrow> App \<Rightarrow> provider \<Rightarrow> string \<Rightarrow> deployment_row \<Rightarrow>
     ('d, 'c, 'x, deployment_row \<times> err option) hostm" where
  "deploy_success en app p imageRef d =
     bnd time_now (\<lambda>now.
     let aid = a_id (app_row app);
         done = (\<lambda>r. r\<lparr>dp_status := ''success'', dp_image_tag := Some imageRef,
                        dp_finished_at := Some (unix now)\<rparr>)
     in bnd (attempt (updateFields (dp_id d) done)) (\<lambda>_.
        bnd (attempt (SetStatus aid ''running'')) (\<lambda>_.
        bnd (publish en aid (dp_id d) ''deploy.success'') (\<lambda>_.
        bnd (publish en aid (dp_id d) ''app.status_changed'') (\<lambda>_.
        bnd (pruneImages en p app 5) (\<lambda>_.
        ret (done d, None)))))))"

text \<open>The pipeline after the log file is open; every error from here on ends in \<open>failDeploy\<close>.\<close>

definition build_and_swap ::
  "('d, 'c) engine \<Rightarrow> App \<Rightarrow> DeployOptions \<Rightarrow> provider \<Rightarrow> deployment_row \<Rightarrow>
     ('d, 'c, 'x, deployment_row \<times> err option) hostm" where
  "build_and_swap en app opts p d =
     (let aid = a_id (app_row app); branch = derefStr (dp_branch d) in
      bnd (attempt (EnsureNetwork (en_moby en) p PrexelNetwork)) (\<lambda>r0.
      case r0 of
        Inl e \<Rightarrow> fail_with en app d (ErrWrap ''ensure network'') e
      | Inr _ \<Rightarrow>
          bnd time_now (\<lambda>started.
          bnd (attempt (updateFields (dp_id d)
                 (\<lambda>r. r\<lparr>dp_status := ''building'', dp_started_at := Some (unix started)\<rparr>))) (\<lambda>_.
          bnd (attempt (SetStatus aid ''building'')) (\<lambda>_.
          bnd (publish en aid (dp_id d) ''app.status_changed'') (\<lambda>_.
          bnd (attempt (on_docker (en_build en p app
                 \<lparr>bo_DeploymentID = dp_id d, bo_AppID = aid, bo_Branch = branch,
                  bo_CommitSHA = op_CommitSHA opts, bo_ImageTag = op_ImageTag opts\<rparr>))) (\<lambda>r1.
          case r1 of
            Inl e \<Rightarrow> fail_with en app d (ErrWrap ''build'') e
          | Inr res \<Rightarrow>
              bnd (if br_CommitSHA res \<noteq> [] then
                     bnd (attempt (updateFields (dp_id d) (\<lambda>r. r\<lparr>dp_commit_sha := Some (br_CommitSHA res)\<rparr>)))
                       (\<lambda>_. ret (d\<lparr>dp_commit_sha := Some (br_CommitSHA res)\<rparr>))
                   else ret d) (\<lambda>d.
              bnd (attempt (if a_build_type (app_row app) = ''docker_compose'' then swapCompose en app p res d
                            else swap en app p (br_ImageRef res) d)) (\<lambda>r2.
              case r2 of
                Inl e \<Rightarrow> fail_with en app d (\<lambda>e. e) e
              | Inr _ \<Rightarrow>
                  deploy_success en app p (br_ImageRef res) d)))))))))"

definition runDeploy ::
  "('d, 'c) engine \<Rightarrow> App \<Rightarrow> DeployOptions \<Rightarrow> string \<Rightarrow> ('d, 'c, 'x, deployment_row \<times> err option) hostm" where
  "runDeploy en app opts rollbackOf =
     (case a_server_id (app_row app) of
        None \<Rightarrow> fail (ErrNew ''deploy: app has no server'')
      | Some sid \<Rightarrow>
          bnd (server_get sid) (\<lambda>srv.
          if sv_status srv \<noteq> ''connected'' then fail (ErrNew ''deploy: server status'')
          else
            bnd (deployment_id (op_DeploymentID opts)) (\<lambda>i.
            let d = new_row en app opts rollbackOf i
            in bnd (wrapping ''deploy: insert'' (deploy_insert d)) (\<lambda>_.
               bnd (attempt (draw (en_Create en (LogPath en i)))) (\<lambda>r.
               case r of
                 Inl e \<Rightarrow> bnd (failed_before_log i) (\<lambda>_. fail (ErrWrap ''deploy: log file'' e))
               | Inr _ \<Rightarrow>
                   bnd (publish en (a_id (app_row app)) i ''deploy.started'') (\<lambda>_.
                   bnd (attempt (Provider (en_writeKeyFile en) (en_Servers en) sid)) (\<lambda>rp.
                   case rp of
                     Inl e \<Rightarrow> fail_with en app d (ErrWrap ''provider'') e
                   | Inr p \<Rightarrow> build_and_swap en app opts p d)))))))"

definition rollback_row :: "('d, 'c) engine \<Rightarrow> App \<Rightarrow> string \<Rightarrow> string \<Rightarrow> string \<Rightarrow> int \<Rightarrow> deployment_row" where
  "rollback_row en app imageRef rollbackOf i started =
     \<lparr>dp_id = i, dp_app_id = a_id (app_row app), dp_commit_sha = None, dp_commit_msg = None, dp_branch = None,
      dp_image_tag = Some imageRef, dp_rollback_of = Some rollbackOf, dp_status = ''deploying'',
      dp_log_path = Some (LogPath en i), dp_error_message = None, dp_started_at = Some (unix started),
      dp_finished_at = None, dp_created_at = 0\<rparr>"

definition rollback_success ::
  "('d, 'c) engine \<Rightarrow> App \<Rightarrow> deployment_row \<Rightarrow> ('d, 'c, 'x, deployment_row \<times> err option) hostm" where
  "rollback_success en app d =
     bnd time_now (\<lambda>now.
     let aid = a_id (app_row app);
         done = (\<lambda>r. r\<lparr>dp_status := ''success'', dp_finished_at := Some (unix now)\<rparr>)
     in bnd (attempt (updateFields (dp_id d) done)) (\<lambda>_.
        bnd (attempt (SetStatus aid ''running'')) (\<lambda>_.
        bnd (publish en aid (dp_id d) ''deploy.success'') (\<lambda>_.
        ret (done d, None)))))"

definition runFromImage ::
  "('d, 'c) engine \<Rightarrow> App \<Rightarrow> provider \<Rightarrow> string \<Rightarrow> string \<Rightarrow> string \<Rightarrow>
     ('d, 'c, 'x, deployment_row \<times> err option) hostm" where
  "runFromImage en app p imageRef rollbackOf preallocatedID =
     bnd (deployment_id preallocatedID) (\<lambda>i.
     bnd time_now (\<lambda>started.
     let d = rollback_row en app imageRef rollbackOf i started
     in bnd (wrapping ''deploy: insert'' (deploy_insert d)) (\<lambda>_.
        bnd (attempt (draw (en_Create en (LogPath en i)))) (\<lambda>r.
        case r of
          Inl e \<Rightarrow> bnd (failed_before_log i) (\<lambda>_. fail (ErrWrap ''deploy: log file'' e))
        | Inr _ \<Rightarrow>
            bnd (publish en (a_id (app_row app)) i ''deploy.started'') (\<lambda>_.
            bnd (attempt (swap en app p imageRef d)) (\<lambda>r2.
            case r2 of
              Inl e \<Rightarrow> fail_with en app d (\<lambda>e. e) e
            | Inr _ \<Rightarrow>
                rollback_success en app d))))))"

definition Deploy ::
  "('d, 'c) engine \<Rightarrow> string \<Rightarrow> DeployOptions \<Rightarrow> ('d, 'c, 'x, deployment_row \<times> err option) hostm" where
  "Deploy en appID opts =
     bnd (app_Get appID) (\<lambda>app. admitted en (a_id (app_row app)) (runDeploy en app opts []))"

text \<open>The deployment a rollback goes back to.\<close>

definition rollback_target :: "App \<Rightarrow> string \<Rightarrow> ('x, deployment_row) dbm" where
  "rollback_target app targetID =
     (if targetID \<noteq> [] then
        bnd (deploy_get targetID) (\<lambda>target.
        if dp_app_id target \<noteq> a_id (app_row app) then
          fail (ErrNew ''deploy: target deployment belongs to a different app'')
        else if dp_status target \<noteq> ''success'' then fail (ErrNew ''deploy: target deployment status'')
        else ret target)
      else
        bnd (attempt (lastSuccess (a_id (app_row app)) [])) (\<lambda>r.
        case r of
          Inl e \<Rightarrow>
            (if errors_is e deploy_ErrNotFound then fail (ErrNew ''deploy: no successful deployment to roll back to'')
             else fail e)
        | Inr target \<Rightarrow> ret target))"

definition rollback_body ::
  "('d, 'c) engine \<Rightarrow> App \<Rightarrow> string \<Rightarrow> DeployOptions \<Rightarrow> ('d, 'c, 'x, deployment_row \<times> err option) hostm" where
  "rollback_body en app targetID opts =
     bnd (rollback_target app targetID) (\<lambda>target.
     if derefStr (dp_image_tag target) = [] then fail (ErrNew ''deploy: target deployment has no image tag'')
     else
       bnd (wrapping ''deploy: provider'' (Provider (en_writeKeyFile en) (en_Servers en)
              (derefStr (a_server_id (app_row app))))) (\<lambda>p.
       bnd (wrapping ''deploy: docker client'' (on_docker (mb_Client (en_moby en) p))) (\<lambda>_.
       bnd (attempt (on_docker (mb_ImageInspect (en_moby en) p (derefStr (dp_image_tag target))))) (\<lambda>r.
       case r of
         Inl _ \<Rightarrow> fail (ErrNew ''deploy: image_not_found'')
       | Inr _ \<Rightarrow>
           runFromImage en app p (derefStr (dp_image_tag target)) (dp_id target) (op_DeploymentID opts)))))"

definition Rollback ::
  "('d, 'c) engine \<Rightarrow> string \<Rightarrow> string \<Rightarrow> DeployOptions \<Rightarrow>
     ('d, 'c, 'x, deployment_row \<times> err option) hostm" where
  "Rollback en appID targetID opts =
     bnd (app_Get appID) (\<lambda>app. admitted en (a_id (app_row app)) (rollback_body en app targetID opts))"

definition Restart :: "('d, 'c) engine \<Rightarrow> string \<Rightarrow> ('d, 'c, 'x, unit) hostm" where
  "Restart en appID =
     bnd (app_Get appID) (\<lambda>app.
     case a_container_name (app_row app) of
       None \<Rightarrow> fail (ErrNew ''deploy: app has no container_name'')
     | Some name \<Rightarrow>
         bnd (wrapping ''deploy: provider'' (Provider (en_writeKeyFile en) (en_Servers en)
                (derefStr (a_server_id (app_row app))))) (\<lambda>p.
         bnd (on_docker (mb_Client (en_moby en) p)) (\<lambda>_.
         on_docker (mb_ContainerRestart (en_moby en) p name 10))))"

definition Stop :: "('d, 'c) engine \<Rightarrow> string \<Rightarrow> ('d, 'c, 'x, unit) hostm" where
  "Stop en appID =
     bnd (app_Get appID) (\<lambda>app.
     bnd (case a_container_name (app_row app) of
            None \<Rightarrow> ret ()
          | Some name \<Rightarrow>
              bnd (attempt (Provider (en_writeKeyFile en) (en_Servers en)
                     (derefStr (a_server_id (app_row app))))) (\<lambda>r.
              case r of
                Inl _ \<Rightarrow> ret ()
              | Inr p \<Rightarrow> bnd (attempt (StopContainer (en_moby en) p name (10 * second))) (\<lambda>_. ret ())))
       (\<lambda>_. SetStatus (a_id (app_row app)) ''stopped''))"

section \<open>Reconciliation at start-up\<close>

definition inspectAppContainer :: "('d, 'c) engine \<Rightarrow> string \<Rightarrow> string \<Rightarrow> ('d, 'c, 'x, string) hostm" where
  "inspectAppContainer en sid name =
     bnd (attempt (bnd (Provider (en_writeKeyFile en) (en_Servers en) sid) (\<lambda>p.
                   bnd (on_docker (mb_Client (en_moby en) p)) (\<lambda>_. ret p)))) (\<lambda>r.
     case r of
       Inl _ \<Rightarrow> ret ''error''
     | Inr p \<Rightarrow>
         bnd (attempt (on_docker (mb_ContainerInspect (en_moby en) p name))) (\<lambda>r2.
         case r2 of
           Inl e \<Rightarrow> ret (if errors_is e ErrContainerNotFound then ''stopped'' else ''error'')
         | Inr running \<Rightarrow> ret (if running then ''running'' else ''stopped'')))"

definition reconcile_app :: "('d, 'c) engine \<Rightarrow> App \<Rightarrow> ('d, 'c, 'x, unit) hostm" where
  "reconcile_app en app =
     (let a = app_row app in
      if a_status a \<noteq> ''building'' \<and> a_status a \<noteq> ''deploying'' then ret ()
      else
        bnd (case (a_server_id a, a_container_name a) of
               (Some sid, Some name) \<Rightarrow> inspectAppContainer en sid name
             | _ \<Rightarrow> ret ''error'') (\<lambda>newStatus.
        bnd (attempt (SetStatus (a_id a) newStatus)) (\<lambda>_. ret ())))"

definition Reconcile :: "('d, 'c) engine \<Rightarrow> ('d, 'c, 'x, unit) hostm" where
  "Reconcile en =
     bnd ListAll (\<lambda>all.
     bnd (attempt failPending) (\<lambda>_.
     for_each (reconcile_app en) all))"

end
