(* ===== verification/Deploy_Frames.thy ===== *)
theory Deploy_Frames
  imports Deploy_Swap
begin

text \<open>
  What the computations of the deploy engine leave alone. The locale \<open>host_frame\<close> collects what a
  relation between states must allow (any answer of the container engines and of the proxy, published
  events, updates of apps) to be respected by every phase of a swap; \<open>pipeline_frame\<close> adds the
  statements on deployments and covers the whole pipeline. The interpretations below (locks and slots,
  the schema, the tables the engine only reads, the deployments during a swap) are what the properties
  rest on.
\<close>

lemma bnd_publish: "bnd (publish en i j t) f w = f () (snd (publish en i j t w))"
  by (simp add: bnd_def publish_def access_def ret_def)

section \<open>Interfaces\<close>

locale host_frame = frame R
  for R :: "('d, 'c, 'x) hostdb_scheme \<Rightarrow> ('d, 'c, 'x) hostdb_scheme \<Rightarrow> bool" +
  assumes R_docker: "R w (w\<lparr>dockerd := d\<rparr>)"
    and R_caddy: "R w (w\<lparr>caddyd := c\<rparr>)"
    and R_events: "R w (w\<lparr>events := es\<rparr>)"
    and R_apps: "update_apps p f w = Inr (n, w') \<Longrightarrow> R w w'"
begin

lemma on_docker_R: "moves R (on_docker f)"
  by (auto simp: moves_def on_docker_def intro!: R_tick R_docker split: prod.split)

lemma on_caddy_R: "moves R (on_caddy f)"
  by (auto simp: moves_def on_caddy_def intro!: R_tick R_caddy split: prod.split)

lemma publish_R: "moves R (publish en i j t)"
  unfolding publish_def by (intro frame_rules moves_intro frame_access) (simp add: R_events)

lemma probe_R: "moves R (probe en m u)"
  by (simp add: moves_def probe_def R_tick R_refl)

lemma update_apps_R: "moves R (db_exec (update_apps p f))"
  by (rule frame_exec) (rule R_apps)

lemmas host_rules = frame_rules moves_intro on_docker_R on_caddy_R publish_R probe_R update_apps_R

lemma docker_R:
  "moves R (RunContainer mb p opts)" "moves R (StopContainer mb p name t)" "moves R (RemoveContainer mb p name b)"
  "moves R (RenameContainer mb p name name')" "moves R (ListContainers mb p fs)" "moves R (RemoveImage mb p ref)"
  "moves R (EnsureVolume mb p name ls)" "moves R (ContainerExists mb p name)" "moves R (Exec mb p name cmd)"
  "moves R (EnsureNetwork mb p name)"
  unfolding RunContainer_def StopContainer_def RemoveContainer_def RenameContainer_def ListContainers_def
    RemoveImage_def EnsureVolume_def ContainerExists_def Exec_def EnsureNetwork_def classified_def Let_def
  by (intro host_rules)+

lemma caddy_do_R: "moves R (caddy_do http m u b)"
  unfolding caddy_do_def by (intro host_rules)

lemma upsertSingleRoute_R: "moves R (upsertSingleRoute http r i)"
  unfolding upsertSingleRoute_def BootstrapBaseConfig_def LoadConfig_def by (intro host_rules caddy_do_R)

lemma UpsertRoute_R: "moves R (UpsertRoute http sha h u p b)"
  unfolding UpsertRoute_def by (intro host_rules caddy_do_R upsertSingleRoute_R)

lemma reads_R:
  "moves R (app_get i)" "moves R (app_Get v)" "moves R ListAll" "moves R (server_get i)" "moves R (domain_list x)"
  "moves R (volume_List i)" "moves R (ResolveRuntime cipher i)" "moves R (Provider f cipher i)"
  by (rule frame_read, rule service_reads ResolveRuntime_read Provider_read)+

lemma SetStatus_R: "moves R (SetStatus i s)"
  unfolding SetStatus_def updateStatus_def by (intro host_rules reads_R)

lemma scan_ports_R: "moves R (scan_ports listen fin port tried)"
proof (induction listen fin port tried rule: scan_ports.induct)
  case (1 listen fin port tried)
  show ?case
    by (subst scan_ports.simps) (intro host_rules 1)
qed

lemma AssignHostPort_R: "moves R (AssignHostPort listen i)"
  unfolding AssignHostPort_def FindAvailablePort_def by (intro host_rules scan_ports_R)

lemma wait_R: "moves R (wait en)"
  unfolding wait_def by (intro host_rules)

lemma health_loop_R: "moves R (health_loop en m u c dl n le)"
proof (induction n arbitrary: le)
  case (Suc n)
  show ?case unfolding health_loop.simps Let_def by (intro host_rules wait_R Suc)
qed (simp add: frame_fail)

lemma healthCheck_R: "moves R (healthCheck en app name port)"
  unfolding healthCheck_def Let_def by (intro host_rules wait_R health_loop_R)

lemma imageShortSHA_R: "moves R (imageShortSHA ref n)"
  unfolding imageShortSHA_def Let_def by (intro host_rules)

lemma appDomains_R: "moves R (appDomains i)"
  unfolding appDomains_def Let_def by (intro host_rules reads_R)

lemma appDomainsByService_R: "moves R (appDomainsByService i)"
  unfolding appDomainsByService_def by (intro host_rules reads_R)

lemma volume_mounts_R: "moves R (volume_mounts en p app vs)"
proof (induction vs)
  case (Cons v vs)
  show ?case unfolding volume_mounts.simps Let_def by (intro host_rules docker_R Cons)
qed (simp add: frame_ret)

lemma compose_volumes_R: "moves R (compose_volumes en p app vs out)"
proof (induction vs arbitrary: out)
  case (Cons v vs)
  show ?case unfolding compose_volumes.simps Let_def by (intro host_rules docker_R Cons)
qed (simp add: frame_ret)

lemma drop_R: "moves R (drop_old en p ns)" "moves R (drop_candidates en p cs)"
  unfolding drop_old_def drop_candidates_def by (intro host_rules docker_R)+

lemma pre_deploy_R: "moves R (pre_deploy en p app)"
  unfolding pre_deploy_def by (intro host_rules docker_R)

lemma phases_R:
  "moves R (runtime_env en app)" "moves R (host_bindings en app b)" "moves R (app_mounts en p app)"
  "moves R (candidate_healthy en p app t ref)" "moves R (route_candidate en app force up hosts)"
  "moves R (route_canonical en app force hosts)" "moves R (post_deploy en p app)"
  unfolding runtime_env_def host_bindings_def app_mounts_def candidate_healthy_def
    route_candidate_def route_canonical_def post_deploy_def Let_def
  by (intro host_rules docker_R reads_R AssignHostPort_R volume_mounts_R healthCheck_R UpsertRoute_R)+

lemma start_candidate_R: "moves R (start_candidate en app p ref d t)"
  unfolding start_candidate_def run_candidate_def by (intro host_rules docker_R phases_R pre_deploy_R appDomains_R drop_R)

lemma promote_candidate_R: "moves R (promote_candidate en app p t hf)"
  unfolding promote_candidate_def by (intro host_rules docker_R phases_R drop_R)

lemma startComposeCandidate_R: "moves R (startComposeCandidate en app p d svc env ms r)"
  unfolding startComposeCandidate_def Let_def by (intro host_rules docker_R)

lemma start_all_R: "moves R (start_all en app p d env vols svcs cs)"
  by (induction svcs arbitrary: cs)
    (auto intro!: host_rules startComposeCandidate_R drop_R split: sum.split)

lemma compose_phases_R:
  "moves R (collectComposeVolumes en app p)" "moves R (settle en p cs)" "moves R (swap_service en app p c)"
  "moves R (pruneOrphanComposeContainers en p app ls)"
  unfolding collectComposeVolumes_def settle_def swap_service_def
    pruneOrphanComposeContainers_def prune_one_def Let_def
  by (intro host_rules docker_R reads_R compose_volumes_R wait_R drop_R)+

lemma route_service_R: "moves R (route_service en force doms c)"
  unfolding route_service_def by (intro host_rules UpsertRoute_R)

lemma pruneImages_R: "moves R (pruneImages en p app k)"
  unfolding pruneImages_def Let_def by (intro host_rules docker_R)

lemma inspectAppContainer_R: "moves R (inspectAppContainer en sid name)"
  unfolding inspectAppContainer_def by (intro host_rules reads_R)

lemma deploy_reads_R:
  "moves R (deploy_get i)" "moves R (lastSuccess i j)" "moves R (rollback_target app t)" "moves R (deployment_id g)"
  unfolding deploy_get_def lastSuccess_def scanDeployment_def rollback_target_def deployment_id_def Let_def
  by (intro host_rules)+

lemma deferring_R: "moves R c \<Longrightarrow> moves R m \<Longrightarrow> moves R (deferring c m)"
  unfolding deferring_def by (intro host_rules)

lemma control_R: "moves R (Restart en i)" "moves R (Stop en i)"
  unfolding Restart_def Stop_def by (intro host_rules reads_R docker_R SetStatus_R)+

end

text \<open>The updates the engine makes keep what identifies a row.\<close>

definition harmless :: "(deployment_row \<Rightarrow> deployment_row) \<Rightarrow> bool" where
  "harmless f \<longleftrightarrow>
     (\<forall>d. dp_id (f d) = dp_id d \<and> dp_app_id (f d) = dp_app_id d \<and> dp_rollback_of (f d) = dp_rollback_of d)"

lemma harmless_intros:
  "harmless (\<lambda>r. r\<lparr>dp_status := s\<rparr>)" "harmless (\<lambda>r. r\<lparr>dp_status := s, dp_finished_at := t\<rparr>)"
  "harmless (\<lambda>r. r\<lparr>dp_status := s, dp_finished_at := t, dp_error_message := m\<rparr>)"
  "harmless (\<lambda>r. r\<lparr>dp_status := s, dp_started_at := t\<rparr>)" "harmless (\<lambda>r. r\<lparr>dp_commit_sha := c\<rparr>)"
  "harmless (\<lambda>r. r\<lparr>dp_status := s, dp_image_tag := g, dp_finished_at := t\<rparr>)"
  by (simp_all add: harmless_def)

locale own_frame = host_frame R
  for R :: "('d, 'c, 'x) hostdb_scheme \<Rightarrow> ('d, 'c, 'x) hostdb_scheme \<Rightarrow> bool" +
  fixes own :: "string \<Rightarrow> bool"
  assumes R_own: "own i \<Longrightarrow> harmless f \<Longrightarrow> update_deployments (\<lambda>d. dp_id d = i) f w = Inr (n, w') \<Longrightarrow> R w w'"
begin

lemma updateFields_R: "own i \<Longrightarrow> harmless g \<Longrightarrow> moves R (updateFields i g)"
  unfolding updateFields_def by (intro host_rules frame_exec R_own)

lemma failed_before_log_R: "own i \<Longrightarrow> moves R (failed_before_log i)"
  unfolding failed_before_log_def by (intro host_rules updateFields_R harmless_intros)

lemma swap_R: "own (dp_id d) \<Longrightarrow> moves R (swap en app p ref d)"
  unfolding swap_def Let_def
  by (intro host_rules updateFields_R harmless_intros SetStatus_R imageShortSHA_R start_candidate_R
      promote_candidate_R)

lemma swapCompose_R: "own (dp_id d) \<Longrightarrow> moves R (swapCompose en app p res d)"
  unfolding swapCompose_def
  by (intro host_rules updateFields_R harmless_intros SetStatus_R phases_R appDomains_R appDomainsByService_R
      compose_phases_R start_all_R route_service_R)

lemma failDeploy_R: "own (dp_id d) \<Longrightarrow> moves R (failDeploy en app d e)"
  unfolding failDeploy_def Let_def
  by (intro host_rules updateFields_R harmless_intros SetStatus_R deploy_reads_R)

lemma fail_with_R: "own (dp_id d) \<Longrightarrow> moves R (fail_with en app d f e)"
  unfolding fail_with_def by (intro host_rules failDeploy_R)

lemma success_R:
  "own (dp_id d) \<Longrightarrow> moves R (deploy_success en app p ref d)"
  "own (dp_id d) \<Longrightarrow> moves R (rollback_success en app d)"
  unfolding deploy_success_def rollback_success_def Let_def
  by (intro host_rules updateFields_R harmless_intros SetStatus_R pruneImages_R; simp)+

lemma build_and_swap_R:
  assumes "own (dp_id d)"
  shows "moves R (build_and_swap en app opts p d)"
  unfolding build_and_swap_def Let_def bnd_if bnd_assoc bnd_ret
  by (intro host_rules docker_R updateFields_R harmless_intros SetStatus_R fail_with_R swap_R swapCompose_R
      success_R; simp add: assms)

end

locale pipeline_frame = own_frame R "\<lambda>_. True"
  for R :: "('d, 'c, 'x) hostdb_scheme \<Rightarrow> ('d, 'c, 'x) hostdb_scheme \<Rightarrow> bool" +
  assumes R_insert: "insert_deployment d w = Inr (n, w') \<Longrightarrow> R w w'"
    and R_update: "update_deployments q f w = Inr (n, w') \<Longrightarrow> R w w'"
begin

lemma table_R: "moves R (deploy_insert d)" "moves R failPending"
  unfolding deploy_insert_def failPending_def by (intro host_rules frame_exec; (erule R_insert R_update)?)+

lemma runDeploy_R: "moves R (runDeploy en app opts rb)"
  unfolding runDeploy_def Let_def
  by (intro host_rules reads_R deploy_reads_R table_R failed_before_log_R fail_with_R build_and_swap_R TrueI)

lemma runFromImage_R: "moves R (runFromImage en app p ref rb i)"
  unfolding runFromImage_def Let_def
  by (intro host_rules deploy_reads_R table_R failed_before_log_R fail_with_R swap_R success_R TrueI)

lemma rollback_body_R: "moves R (rollback_body en app t opts)"
  unfolding rollback_body_def
  by (intro host_rules reads_R deploy_reads_R runFromImage_R)

lemma Reconcile_R: "moves R (Reconcile en)"
  unfolding Reconcile_def reconcile_app_def Let_def
  by (intro host_rules reads_R table_R SetStatus_R inspectAppContainer_R)

end

section \<open>Interpretations\<close>

text \<open>Locks and slots.\<close>

definition same_admission :: "('d, 'c, 'x) hostdb_scheme \<Rightarrow> ('d, 'c, 'x) hostdb_scheme \<Rightarrow> bool" where
  "same_admission w w' \<longleftrightarrow> locks w' = locks w \<and> globalSlots w' = globalSlots w"

interpretation adm: pipeline_frame same_admission
  by unfold_locales (auto simp: same_admission_def statement_defs checked_Inr_iff)

text \<open>The schema.\<close>

lemma schema_ok_host [simp]:
  "schema_ok (w\<lparr>dockerd := d\<rparr>) = schema_ok w" "schema_ok (w\<lparr>caddyd := c\<rparr>) = schema_ok w"
  "schema_ok (w\<lparr>events := es\<rparr>) = schema_ok w" "schema_ok (w\<lparr>locks := ls\<rparr>) = schema_ok w"
  "schema_ok (w\<lparr>globalSlots := gs\<rparr>) = schema_ok w"
  by (simp_all add: schema_ok_def unique_ok_def check_ok_def fk_ok_def deploy_unique_ok_def deploy_check_ok_def
      deploy_fk_ok_def user_ids_def role_ids_def team_ids_def app_ids_def cong: option.case_cong)

interpretation sch: pipeline_frame "keeps schema_ok"
  by unfold_locales (auto simp: keeps_def intro: statement_schema_ok)

text \<open>The tables the engine only reads.\<close>

definition same_inputs :: "('d, 'c, 'x) hostdb_scheme \<Rightarrow> ('d, 'c, 'x) hostdb_scheme \<Rightarrow> bool" where
  "same_inputs w w' \<longleftrightarrow>
     orc w' = orc w \<and> domains w' = domains w \<and> secrets w' = secrets w \<and> servers w' = servers w \<and>
     app_volumes w' = app_volumes w"

interpretation inp: pipeline_frame same_inputs
  by unfold_locales (auto simp: same_inputs_def statement_defs checked_Inr_iff)

text \<open>A swap changes no row of the deployments table but its own status.\<close>

definition same_deploys :: "('d, 'c, 'x) hostdb_scheme \<Rightarrow> ('d, 'c, 'x) hostdb_scheme \<Rightarrow> bool" where
  "same_deploys w w' \<longleftrightarrow> deployments w' = deployments w"

interpretation dep: host_frame same_deploys
  by unfold_locales (auto simp: same_deploys_def statement_defs checked_Inr_iff)

end
