(* ===== verification/Deploy_Admission.thy ===== *)
theory Deploy_Admission
  imports Deploy_Frames
begin

text \<open>
  Who may deploy. Requests run concurrently: \<open>admission_step\<close> interleaves the steps \<open>Deploy\<close> and
  \<open>Rollback\<close> take on the per-app locks and on the semaphore, with anything that leaves both alone in
  between. It refines \<open>deploys_step\<close>, in which an app enters the set of running deployments only when it
  is not there yet and there is room. The sequential view: whatever happens inside, a call that
  returns has given back its lock and its slot.
\<close>

section \<open>The specification\<close>

inductive deploys_step :: "nat option \<Rightarrow> string set \<Rightarrow> string set \<Rightarrow> bool" for cap where
  enter: "i \<notin> A \<Longrightarrow> (case cap of None \<Rightarrow> True | Some c \<Rightarrow> card A < c) \<Longrightarrow> deploys_step cap A (insert i A)"
| leave: "i \<in> A \<Longrightarrow> deploys_step cap A (A - {i})"
| stutter: "deploys_step cap A A"

section \<open>The engine's admission, interleaved\<close>

datatype phase = Locked | Running | Releasing

type_synonym ('d, 'c, 'x) desk = "('d, 'c, 'x) hostdb_scheme \<times> (string \<times> phase) list"

inductive admission_step ::
  "('d, 'c) engine \<Rightarrow> ('d, 'c, 'x) desk \<Rightarrow> ('d, 'c, 'x) desk \<Rightarrow> bool" for en where
  locked: "acquireLock i w = (Inr True, w') \<Longrightarrow> admission_step en (w, ts) (w', (i, Locked) # ts)"
| in_progress: "acquireLock i w = (Inr False, w') \<Longrightarrow> admission_step en (w, ts) (w', ts)"
| slot: "acquireGlobalSlot en w = (Inr True, w') \<Longrightarrow>
    admission_step en (w, xs @ (i, Locked) # ys) (w', xs @ (i, Running) # ys)"
| too_many: "acquireGlobalSlot en w = (Inr False, w') \<Longrightarrow>
    admission_step en (w, xs @ (i, Locked) # ys) (w', xs @ (i, Releasing) # ys)"
| work: "same_admission w w' \<Longrightarrow> admission_step en (w, ts) (w', ts)"
| released: "releaseSlot en w = (Inr (), w') \<Longrightarrow>
    admission_step en (w, xs @ (i, Running) # ys) (w', xs @ (i, Releasing) # ys)"
| unlocked: "unlock i w = (Inr (), w') \<Longrightarrow>
    admission_step en (w, xs @ (i, Releasing) # ys) (w', xs @ ys)"

definition running :: "(string \<times> phase) list \<Rightarrow> string list" where
  "running ts = map fst (filter (\<lambda>t. snd t = Running) ts)"

definition capacity :: "('d, 'c) engine \<Rightarrow> ('d, 'c, 'x) hostdb_scheme \<Rightarrow> nat option" where
  "capacity en w = (case en_Limit en of None \<Rightarrow> None | Some _ \<Rightarrow> Some (fst (slots_once en w)))"

definition admission_ok :: "('d, 'c) engine \<Rightarrow> ('d, 'c, 'x) desk \<Rightarrow> bool" where
  "admission_ok en s \<longleftrightarrow>
     distinct (map fst (snd s)) \<and> set (map fst (snd s)) = set (locks (fst s)) \<and>
     (en_Limit en \<noteq> None \<longrightarrow>
        snd (slots_once en (fst s)) = length (running (snd s)) \<and>
        length (running (snd s)) \<le> fst (slots_once en (fst s)))"

lemma running_simps [simp]:
  "running [] = []" "running (xs @ ys) = running xs @ running ys"
  "running ((i, ph) # ts) = (if ph = Running then i # running ts else running ts)"
  by (auto simp: running_def)

lemma running_subset: "set (running ts) \<subseteq> fst ` set ts"
  by (auto simp: running_def)

lemma distinct_running: "distinct (map fst ts) \<Longrightarrow> distinct (running ts)"
  by (simp add: running_def distinct_map_filter)

lemma slots_once_Some [simp]: "globalSlots w = Some s \<Longrightarrow> slots_once en w = s"
  by (simp add: slots_once_def)

lemma slots_once_None: "globalSlots w = None \<Longrightarrow> snd (slots_once en w) = 0"
  by (auto simp: slots_once_def split: option.split)

lemma slots_once_locks [simp]: "slots_once en (w\<lparr>locks := ls\<rparr>) = slots_once en w"
  by (auto simp: slots_once_def split: option.split)

lemma host_tick [simp]:
  "locks (tick w) = locks w" "globalSlots (tick w) = globalSlots w" "dockerd (tick w) = dockerd w"
  "caddyd (tick w) = caddyd w" "events (tick w) = events w"
  by (simp_all add: tick_def)

text \<open>What the primitives do.\<close>

lemma acquireLock_eq:
  "acquireLock i w = (Inr b, w') \<longleftrightarrow>
     (if b then i \<notin> set (locks w) \<and> w' = w\<lparr>locks := i # locks w\<rparr> else i \<in> set (locks w) \<and> w' = w)"
  by (auto simp: acquireLock_def access_eq_Inr_iff)

lemma acquireGlobalSlot_eq:
  "acquireGlobalSlot en w = (Inr b, w') \<longleftrightarrow>
     (case en_Limit en of
        None \<Rightarrow> b \<and> w' = w
      | Some _ \<Rightarrow>
          (case slots_once en w of (cap, used) \<Rightarrow>
             b = (used < cap) \<and> w' = tick (w\<lparr>globalSlots := Some (cap, if b then Suc used else used)\<rparr>)))"
  by (auto simp: acquireGlobalSlot_def access_eq_Inr_iff ret_def split: option.splits prod.splits)

lemma releaseSlot_eq:
  "releaseSlot en w = (Inr (), w') \<longleftrightarrow>
     w' = (case en_Limit en of None \<Rightarrow> w
           | Some _ \<Rightarrow> w\<lparr>globalSlots := map_option (\<lambda>(cap, used). (cap, used - 1)) (globalSlots w)\<rparr>)"
  by (auto simp: releaseSlot_def access_eq_Inr_iff ret_def split: option.splits)

lemma unlock_eq: "unlock i w = (Inr (), w') \<longleftrightarrow> w' = w\<lparr>locks := removeAll i (locks w)\<rparr>"
  by (auto simp: unlock_def access_eq_Inr_iff)

section \<open>Refinement\<close>

lemma running_card:
  assumes "admission_ok en (w, ts)" and "en_Limit en \<noteq> None"
  shows "card (set (running ts)) = snd (slots_once en w)" "card (set (running ts)) \<le> fst (slots_once en w)"
  using assms by (simp_all add: admission_ok_def distinct_card distinct_running)

lemma running_slots_None:
  assumes "admission_ok en (w, ts)" and "en_Limit en \<noteq> None" and "globalSlots w = None"
  shows "running ts = []"
  using assms by (simp add: admission_ok_def slots_once_None)

lemma admission_ok_work:
  assumes "admission_ok en (w, ts)" and "same_admission w w'"
  shows "admission_ok en (w', ts)"
proof (cases "globalSlots w")
  case None
  with assms have "en_Limit en \<noteq> None \<longrightarrow> running ts = []" by (blast intro: running_slots_None)
  with assms None show ?thesis by (auto simp: admission_ok_def same_admission_def slots_once_None)
qed (use assms in \<open>auto simp: admission_ok_def same_admission_def\<close>)

lemma admission_step_ok:
  assumes "admission_step en s s'" and "admission_ok en s"
  shows "admission_ok en s'"
  using assms
proof (induction rule: admission_step.induct)
  case (locked i w w' ts)
  then show ?case
    by (auto simp: acquireLock_eq admission_ok_def)
next
  case (in_progress i w w' ts)
  then show ?case by (auto simp: acquireLock_eq)
next
  case (slot w w' xs i ys)
  then show ?case
    by (auto simp: acquireGlobalSlot_eq admission_ok_def split: option.splits prod.splits)
next
  case (too_many w w' xs i ys)
  then show ?case
    by (auto simp: acquireGlobalSlot_eq admission_ok_def split: option.splits prod.splits)
next
  case (work w w' ts)
  then show ?case by (blast intro: admission_ok_work)
next
  case (released w w' xs i ys)
  show ?case
  proof (cases "globalSlots w")
    case None
    with released have "en_Limit en = None"
      using running_slots_None [of en w "xs @ (i, Running) # ys"] by fastforce
    with released show ?thesis by (auto simp: releaseSlot_eq admission_ok_def)
  next
    case (Some s)
    with released show ?thesis
      by (cases s) (auto simp: releaseSlot_eq admission_ok_def split: option.splits)
  qed
next
  case (unlocked i w w' xs ys)
  then show ?case
    by (auto simp: unlock_eq admission_ok_def)
qed

lemma admission_ok_start: "locks w = [] \<Longrightarrow> globalSlots w = None \<Longrightarrow> admission_ok en (w, [])"
  by (simp add: admission_ok_def slots_once_None)

lemma admission_run_ok:
  "(admission_step en)\<^sup>*\<^sup>* s s' \<Longrightarrow> admission_ok en s \<Longrightarrow> admission_ok en s'"
  by (induction rule: rtranclp_induct) (auto intro: admission_step_ok)

lemma admission_step_refines:
  assumes "admission_step en s s'" and "admission_ok en s"
  shows "deploys_step (capacity en (fst s)) (set (running (snd s))) (set (running (snd s')))"
  using assms
proof (induction rule: admission_step.induct)
  case (slot w w' xs i ys)
  have "i \<notin> fst ` set xs \<union> fst ` set ys"
    using slot by (auto simp: admission_ok_def)
  then have new: "i \<notin> set (running (xs @ (i, Locked) # ys))"
    using running_subset [of xs] running_subset [of ys] by auto
  have room: "case capacity en w of None \<Rightarrow> True | Some c \<Rightarrow> card (set (running (xs @ (i, Locked) # ys))) < c"
    using slot running_card(1) [OF slot(2)]
    by (auto simp: capacity_def acquireGlobalSlot_eq split: option.splits prod.splits)
  from deploys_step.enter [OF new room] show ?case by simp
next
  case (released w w' xs i ys)
  have "i \<notin> fst ` set xs \<union> fst ` set ys"
    using released by (auto simp: admission_ok_def)
  then have "set (running (xs @ (i, Releasing) # ys)) = set (running (xs @ (i, Running) # ys)) - {i}"
    using running_subset [of xs] running_subset [of ys] by auto
  then show ?case
    using deploys_step.leave [of i "set (running (xs @ (i, Running) # ys))"] by simp
qed (simp_all add: deploys_step.stutter)

text \<open>
  The capacity. It is read from the settings by the first request that asks for a slot and never again:
  afterwards the configured limit makes no difference, although the comments on \<open>ConcurrencyLimiter\<close> and
  \<open>acquireGlobalSlot\<close> say that later changes take effect. With a limit that does not change, the capacity
  is that limit, and at least one.
\<close>

lemma limit_read_once:
  "globalSlots w = Some s \<Longrightarrow>
     acquireGlobalSlot (en\<lparr>en_Limit := Some l\<rparr>) w = acquireGlobalSlot (en\<lparr>en_Limit := Some l'\<rparr>) w"
  by (simp add: acquireGlobalSlot_def access_def)

definition configured :: "int option \<Rightarrow> nat option" where
  "configured = map_option (\<lambda>c. nat (max 1 c))"

definition fixed_limit :: "int option \<Rightarrow> ('d, 'c) engine \<Rightarrow> bool" where
  "fixed_limit mx en \<longleftrightarrow> en_Limit en = map_option (\<lambda>c n. c) mx"

definition sized :: "int option \<Rightarrow> ('d, 'c, 'x) hostdb_scheme \<Rightarrow> bool" where
  "sized mx w \<longleftrightarrow> (\<forall>s. globalSlots w = Some s \<longrightarrow> configured mx = Some (fst s))"

lemma capacity_configured: "fixed_limit mx en \<Longrightarrow> sized mx w \<Longrightarrow> capacity en w = configured mx"
  by (cases mx; cases "globalSlots w")
    (auto simp: fixed_limit_def sized_def configured_def capacity_def slots_once_def max_def)

lemma sized_slot:
  assumes "fixed_limit mx en" and "sized mx w" and "acquireGlobalSlot en w = (Inr b, w')"
  shows "sized mx w'"
  using assms(3) capacity_configured [OF assms(1,2)] assms(2)
  by (auto simp: acquireGlobalSlot_eq capacity_def sized_def split: option.splits prod.splits)

lemma admission_step_sized:
  assumes "admission_step en s s'" and "fixed_limit mx en" and "sized mx (fst s)"
  shows "sized mx (fst s')"
  using assms
proof (induction rule: admission_step.induct)
  case (slot w w' xs i ys)
  then show ?case using sized_slot [of mx en w True] by simp
next
  case (too_many w w' xs i ys)
  then show ?case using sized_slot [of mx en w False] by simp
qed (auto simp: acquireLock_eq releaseSlot_eq unlock_eq same_admission_def sized_def split: option.splits)

lemma admission_run_sized:
  "(admission_step en)\<^sup>*\<^sup>* s s' \<Longrightarrow> fixed_limit mx en \<Longrightarrow> sized mx (fst s) \<Longrightarrow> sized mx (fst s')"
  by (induction rule: rtranclp_induct) (auto intro: admission_step_sized)

text \<open>
  C3. Admission of concurrent requests refines its specification: with a limit that does not change while the
  engine runs (or none), in every interleaving of deploy and rollback requests, a deployment of an app starts
  running only when no deployment of that app runs and fewer run than the configured limit allows; it stops
  running only by its own release.
\<close>

theorem admission_refines:
  assumes "locks w0 = []" and "globalSlots w0 = None" and "fixed_limit mx en"
    and "(admission_step en)\<^sup>*\<^sup>* (w0, []) (w, ts)" and "admission_step en (w, ts) (w', ts')"
  shows "deploys_step (configured mx) (set (running ts)) (set (running ts'))"
proof -
  have "sized mx w"
    using admission_run_sized [OF assms(4,3)] assms(2) by (simp add: sized_def)
  from capacity_configured [OF assms(3) this]
    admission_step_refines [OF assms(5) admission_run_ok [OF assms(4) admission_ok_start [OF assms(1,2)]]]
  show ?thesis by simp
qed

text \<open>
  C7. At most one request holds an app, and with a limit configured at most as many deployments run as
  the semaphore has slots.
\<close>

theorem one_deploy_per_app:
  assumes "locks w0 = []" and "globalSlots w0 = None" and "en_Limit en = Some limit"
    and "(admission_step en)\<^sup>*\<^sup>* (w0, []) (w, ts)"
  shows "distinct (map fst ts) \<and>
    length (running ts) \<le> (case globalSlots w of None \<Rightarrow> 0 | Some (cap, _) \<Rightarrow> cap)"
proof -
  have ok: "admission_ok en (w, ts)"
    using admission_run_ok [OF assms(4) admission_ok_start [OF assms(1,2)]] .
  then have "globalSlots w = None \<Longrightarrow> running ts = []"
    using running_slots_None assms(3) by blast
  with ok assms(3) show ?thesis
    by (auto simp: admission_ok_def split: option.split)
qed

section \<open>Every return gives back the lock and the slot\<close>

definition used_slots :: "('d, 'c, 'x) hostdb_scheme \<Rightarrow> nat" where
  "used_slots w = (case globalSlots w of None \<Rightarrow> 0 | Some s \<Rightarrow> snd s)"

lemma deferring_run:
  "deferring c m w = (fst (m w), snd (c (snd (m w))))"
  by (simp add: deferring_def bnd_attempt lift_res_def)

lemma release_run:
  "snd (releaseSlot en w) =
     (case en_Limit en of None \<Rightarrow> w
      | Some _ \<Rightarrow> w\<lparr>globalSlots := map_option (\<lambda>(cap, used). (cap, used - 1)) (globalSlots w)\<rparr>)"
  by (simp add: releaseSlot_def access_def ret_def split: option.split)

lemma slot_body_run:
  assumes "moves same_admission body"
    and "bnd (acquireGlobalSlot en) (\<lambda>ok. if \<not> ok then fail e else deferring (releaseSlot en) body) w = (r, w')"
  shows "locks w' = locks w \<and> used_slots w' = used_slots w"
proof -
  have body: "locks (snd (body v)) = locks v \<and> globalSlots (snd (body v)) = globalSlots v" for v
    using moves_snd [OF assms(1), of v] by (simp add: same_admission_def)
  have slots: "snd (slots_once en w) = used_slots w"
    by (simp add: used_slots_def slots_once_def split: option.split)
  have "\<exists>b v. acquireGlobalSlot en w = (Inr b, v)"
    by (cases "en_Limit en"; cases "slots_once en w") (auto simp: acquireGlobalSlot_def access_def ret_def)
  then obtain b v where a: "acquireGlobalSlot en w = (Inr b, v)" by blast
  show ?thesis
    using assms(2) slots a body [of v]
    by (auto simp: bnd_def deferring_run release_run acquireGlobalSlot_eq fail_def used_slots_def
        split: if_splits option.splits prod.splits)
qed

lemma admitted_restores:
  assumes "moves same_admission body" and "admitted en i body w = (r, w')"
  shows "set (locks w') = set (locks w) \<and> used_slots w' = used_slots w"
proof (cases "i \<in> set (locks w)")
  case True
  then have "acquireLock i w = (Inr False, w)" by (simp add: acquireLock_eq)
  with assms(2) show ?thesis by (simp add: admitted_def bnd_def fail_def)
next
  case False
  define v where "v = w\<lparr>locks := i # locks w\<rparr>"
  have "acquireLock i w = (Inr True, v)" using False by (simp add: acquireLock_eq v_def)
  with assms(2) have w': "w' = snd (unlock i (snd (bnd (acquireGlobalSlot en)
      (\<lambda>ok. if \<not> ok then fail ErrTooManyDeploys else deferring (releaseSlot en) body) v)))"
    unfolding admitted_def by (subst (asm) bnd_def) (simp add: deferring_run)
  have "locks (snd (bnd (acquireGlobalSlot en)
      (\<lambda>ok. if \<not> ok then fail ErrTooManyDeploys else deferring (releaseSlot en) body) v)) = i # locks w \<and>
    used_slots (snd (bnd (acquireGlobalSlot en)
      (\<lambda>ok. if \<not> ok then fail ErrTooManyDeploys else deferring (releaseSlot en) body) v)) = used_slots w"
    using slot_body_run [OF assms(1) prod.collapse [symmetric], of en ErrTooManyDeploys v]
    by (simp add: v_def used_slots_def)
  with w' False show ?thesis
    by (auto simp: unlock_def access_def used_slots_def)
qed

lemma looked_up_restores:
  assumes "\<And>a. moves same_admission (body a)"
    and "bnd (app_Get appID) (\<lambda>app. admitted en (a_id (app_row app)) (body app)) w = (r, w')"
  shows "set (locks w') = set (locks w) \<and> used_slots w' = used_slots w"
proof (cases "app_Get appID w")
  case (Pair x v)
  have read: "locks v = locks w \<and> used_slots v = used_slots w"
    using adm.reads_R(2) [THEN movesD, OF Pair] by (simp add: same_admission_def used_slots_def)
  show ?thesis
  proof (cases x)
    case (Inl e)
    with assms(2) Pair read show ?thesis by (simp add: bnd_def)
  next
    case (Inr a)
    with assms(2) Pair have "admitted en (a_id (app_row a)) (body a) v = (r, w')" by (simp add: bnd_def)
    from admitted_restores [OF assms(1) this] read show ?thesis by simp
  qed
qed

text \<open>
  C8. However a deployment or a rollback ends (refused, failed in any phase, or successful), when the
  call returns the same apps are locked as before and as many slots are taken as before: no error path
  leaves an app or the instance blocked.
\<close>

theorem deploys_release:
  "set (locks (snd (Deploy en appID opts w))) = set (locks w) \<and>
   used_slots (snd (Deploy en appID opts w)) = used_slots w \<and>
   set (locks (snd (Rollback en appID target opts w))) = set (locks w) \<and>
   used_slots (snd (Rollback en appID target opts w)) = used_slots w"
proof -
  have "set (locks (snd (Deploy en appID opts w))) = set (locks w) \<and>
      used_slots (snd (Deploy en appID opts w)) = used_slots w"
    unfolding Deploy_def by (rule looked_up_restores [OF adm.runDeploy_R prod.collapse [symmetric]])
  moreover have "set (locks (snd (Rollback en appID target opts w))) = set (locks w) \<and>
      used_slots (snd (Rollback en appID target opts w)) = used_slots w"
    unfolding Rollback_def by (rule looked_up_restores [OF adm.rollback_body_R prod.collapse [symmetric]])
  ultimately show ?thesis by simp
qed

end
