(* ===== verification/Deploy_Outcome.thy ===== *)
theory Deploy_Outcome
  imports Deploy_Frames
begin

text \<open>
  What a deployment leaves in the deployments table: the row it inserted, and nothing else, in a final
  status.
\<close>

section \<open>Updating the row of a deployment\<close>

lemma schema_ok_deployments:
  assumes "schema_ok w" and "map dp_id ds = map dp_id (deployments w)"
    and "map dp_app_id ds = map dp_app_id (deployments w)"
    and "map dp_rollback_of ds = map dp_rollback_of (deployments w)"
  shows "schema_ok (w\<lparr>deployments := ds\<rparr>)"
proof -
  have app: "dp_app_id ` set ds = dp_app_id ` set (deployments w)"
    and rb: "dp_rollback_of ` set ds = dp_rollback_of ` set (deployments w)"
    and ids: "dp_id ` set ds = dp_id ` set (deployments w)"
    using assms(2-4) by (metis list.set_map)+
  have rows: "(\<forall>d\<in>set ds. dp_app_id d \<in> app_ids w \<and>
        (case dp_rollback_of d of None \<Rightarrow> True | Some r \<Rightarrow> r \<in> dp_id ` set ds))"
    if "\<forall>d\<in>set (deployments w). dp_app_id d \<in> app_ids w \<and>
        (case dp_rollback_of d of None \<Rightarrow> True | Some r \<Rightarrow> r \<in> dp_id ` set (deployments w))"
  proof
    fix d assume "d \<in> set ds"
    then have "dp_app_id d \<in> dp_app_id ` set (deployments w)" "dp_rollback_of d \<in> dp_rollback_of ` set (deployments w)"
      using app rb by blast+
    then show "dp_app_id d \<in> app_ids w \<and>
        (case dp_rollback_of d of None \<Rightarrow> True | Some r \<Rightarrow> r \<in> dp_id ` set ds)"
      using that unfolding ids by auto
  qed
  have "unique_ok (w\<lparr>deployments := ds\<rparr>) = unique_ok w" "check_ok (w\<lparr>deployments := ds\<rparr>) = check_ok w"
    using assms(2) by (simp_all add: unique_ok_def deploy_unique_ok_def check_ok_def deploy_check_ok_def)
  moreover have "deploy_fk_ok w \<Longrightarrow> deploy_fk_ok (w\<lparr>deployments := ds\<rparr>)"
    using rows by (simp add: deploy_fk_ok_def app_ids_def cong: option.case_cong)
  then have "fk_ok w \<Longrightarrow> fk_ok (w\<lparr>deployments := ds\<rparr>)"
    by (simp add: fk_ok_def user_ids_def role_ids_def team_ids_def cong: option.case_cong)
  ultimately show ?thesis using assms(1) by (simp add: schema_ok_def)
qed

lemma update_own_row:
  assumes "schema_ok w" and "deployments w = ds @ [row]" and "dp_id row \<notin> dp_id ` set ds" and "harmless f"
  shows "update_deployments (\<lambda>d. dp_id d = dp_id row) f w = Inr (1, w\<lparr>deployments := ds @ [f row]\<rparr>)"
proof -
  have "update_where (\<lambda>d. dp_id d = dp_id row) f ds = ds"
    using assms(3) by (induction ds) (auto simp: update_where_def)
  then have upd: "update_where (\<lambda>d. dp_id d = dp_id row) f (deployments w) = ds @ [f row]"
    using assms(2) by (simp add: update_where_def)
  have "affected (\<lambda>d. dp_id d = dp_id row) (deployments w) = 1"
    using assms(2,3) by (auto simp: affected_def filter_empty_conv image_iff)
  moreover have "schema_ok (w\<lparr>deployments := ds @ [f row]\<rparr>)"
    using assms(1,2,4) by (intro schema_ok_deployments) (auto simp: harmless_def)
  ultimately show ?thesis
    using upd by (simp add: update_deployments_def checked_ok)
qed

text \<open>The state between the insertion of the row and its final update.\<close>

definition awaiting :: "deployment_row list \<Rightarrow> string \<Rightarrow> 'x db_scheme \<Rightarrow> bool" where
  "awaiting ds i w \<longleftrightarrow>
     quiet w \<and> schema_ok w \<and> i \<notin> dp_id ` set ds \<and> (\<exists>row. deployments w = ds @ [row] \<and> dp_id row = i)"

lemma updateFields_awaiting:
  assumes "awaiting ds i w" and "harmless f"
  obtains row where "deployments w = ds @ [row]" and "dp_id row = i"
    and "updateFields i f w = (Inr (), tick (w\<lparr>deployments := ds @ [f row]\<rparr>))"
proof -
  from assms(1) obtain row where row: "deployments w = ds @ [row]" "dp_id row = i" and "i \<notin> dp_id ` set ds"
    and w: "schema_ok w" "quiet w" by (auto simp: awaiting_def)
  then have "update_deployments (\<lambda>d. dp_id d = i) f w = Inr (1, w\<lparr>deployments := ds @ [f row]\<rparr>)"
    using update_own_row [of w ds row f] assms(2) by simp
  with w have "updateFields i f w = (Inr (), tick (w\<lparr>deployments := ds @ [f row]\<rparr>))"
    by (simp add: updateFields_def bnd_def db_exec_def quiet_def ret_def)
  with row that show thesis by blast
qed

lemma quiet_stp [simp]: "quiet (w\<lparr>stp := n\<rparr>) = quiet w"
  by (simp add: quiet_def)

lemma update_apps_awaiting: "update_apps q f w = Inr (n, w') \<Longrightarrow> keeps (awaiting ds i) w w'"
  by (auto simp: keeps_def awaiting_def quiet_def update_apps_def checked_Inr_iff)

lemma update_own_awaiting:
  assumes "harmless g" and "update_deployments (\<lambda>d. dp_id d = i) g w = Inr (n, w')"
  shows "keeps (awaiting ds i) w w'"
proof (unfold keeps_def, rule impI)
  assume aw: "awaiting ds i w"
  then obtain row where row: "deployments w = ds @ [row]" "dp_id row = i" by (auto simp: awaiting_def)
  with aw assms have "w' = w\<lparr>deployments := ds @ [g row]\<rparr>" "schema_ok w'"
    using update_own_row [of w ds row g] statement_schema_ok by (auto simp: awaiting_def)
  with aw assms(1) row show "awaiting ds i w'" by (simp add: awaiting_def quiet_def harmless_def)
qed

interpretation aw: own_frame "keeps (awaiting ds i)" "\<lambda>j. j = i" for ds i
  by unfold_locales
    (auto simp: update_own_awaiting update_apps_awaiting, auto simp: keeps_def awaiting_def quiet_def)

section \<open>The final update\<close>

text \<open>The row the call returns is the one in the table, in a final status.\<close>

definition settled ::
  "deployment_row list \<Rightarrow> deployment_row \<times> err option \<Rightarrow> 'x db_scheme \<Rightarrow> bool" where
  "settled ds x w \<longleftrightarrow>
     (case x of (d, r) \<Rightarrow>
        \<exists>row. deployments w = ds @ [row] \<and> dp_id row = dp_id d \<and> dp_status row = dp_status d \<and>
          dp_finished_at row = dp_finished_at d \<and>
          (case r of
             None \<Rightarrow> dp_status d = ''success'' \<and> dp_image_tag row = dp_image_tag d \<and> dp_image_tag d \<noteq> None
           | Some e \<Rightarrow> dp_status d = ''failed'' \<and> dp_error_message row = dp_error_message d \<and> dp_error_message d \<noteq> None))"

lemma same_deploysD: "moves same_deploys m \<Longrightarrow> m w = (r, w') \<Longrightarrow> deployments w' = deployments w"
  by (drule movesD) (auto simp: same_deploys_def)

text \<open>An ignored error followed by steps that leave the table alone.\<close>

lemma after_update:
  assumes "awaiting ds i w" and "harmless f" and "bnd (attempt (updateFields i f)) (\<lambda>_. m) w = (r, w')"
    and "moves same_deploys m"
  obtains row where "deployments w = ds @ [row]" and "dp_id row = i" and "deployments w' = ds @ [f row]"
proof -
  obtain row where row: "deployments w = ds @ [row]" "dp_id row = i"
    "updateFields i f w = (Inr (), tick (w\<lparr>deployments := ds @ [f row]\<rparr>))"
    by (rule updateFields_awaiting [OF assms(1,2)])
  with assms(3) have "m (tick (w\<lparr>deployments := ds @ [f row]\<rparr>)) = (r, w')"
    by (simp add: bnd_attempt)
  from same_deploysD [OF assms(4) this] row that show thesis by simp
qed

lemma awaiting_tick [simp]: "awaiting ds i (tick w) = awaiting ds i w"
  by (simp add: awaiting_def quiet_def)

lemma fail_with_settled:
  assumes "awaiting ds (dp_id d) w" and "fail_with en app d f e w = (r, w')"
  shows "\<exists>x. r = Inr (x, Some e) \<and> settled ds (x, Some e) w'"
proof -
  define failed :: "deployment_row \<Rightarrow> deployment_row" where
    "failed = (\<lambda>r. r\<lparr>dp_status := ''failed'', dp_finished_at := Some (unix (o_now (orc w) (stp w))),
     dp_error_message := Some (error_text (f e))\<rparr>)"
  let ?rest = "bnd (attempt (lastSuccess (a_id (app_row app)) (dp_id d))) (\<lambda>prev.
     bnd (attempt (SetStatus (a_id (app_row app)) (case prev of Inr _ \<Rightarrow> ''running'' | Inl _ \<Rightarrow> ''error''))) (\<lambda>_.
     bnd (publish en (a_id (app_row app)) (dp_id d) ''deploy.failed'') (\<lambda>_. ret (failed d, Some e))))"
  have run: "bnd (attempt (updateFields (dp_id d) failed)) (\<lambda>_. ?rest) (tick w) = (r, w')"
    using assms(2) unfolding fail_with_def failDeploy_def Let_def bnd_assoc bnd_ret failed_def
    by (simp add: bnd_def [of time_now] time_now_def)
  have mv: "moves same_deploys ?rest"
    by (intro dep.host_rules dep.SetStatus_R dep.deploy_reads_R)
  have aw: "awaiting ds (dp_id d) (tick w)" using assms(1) by simp
  have h: "harmless failed" by (simp add: failed_def harmless_def)
  obtain row where "deployments w' = ds @ [failed row]" "dp_id row = dp_id d"
    by (rule after_update [OF aw h run mv])
  moreover have "r = Inr (failed d, Some e)"
    using run by (simp add: bnd_attempt bnd_publish ret_def)
  ultimately show ?thesis by (auto simp: settled_def failed_def)
qed

section \<open>From the inserted row to the final update\<close>

text \<open>Where the computations of the pipeline, started in a state with the row pending, end.\<close>

definition leads ::
  "deployment_row list \<Rightarrow> string \<Rightarrow> ('d, 'c, 'x, deployment_row \<times> err option) hostm \<Rightarrow> bool" where
  "leads ds i m \<longleftrightarrow> (\<forall>w r w'. awaiting ds i w \<longrightarrow> m w = (r, w') \<longrightarrow> (\<exists>x. r = Inr x \<and> settled ds x w'))"

lemma leads_attempt:
  assumes "moves (keeps (awaiting ds i)) m" and "\<And>x. leads ds i (f x)"
  shows "leads ds i (bnd (attempt m) f)"
  using assms keeps_snd [OF assms(1)] unfolding leads_def bnd_attempt by blast

lemma leads_publish:
  assumes "\<And>x. leads ds i (f x)"
  shows "leads ds i (bnd (publish en a j t) f)"
  using assms keeps_snd [OF aw.publish_R] unfolding leads_def bnd_publish by blast

lemma leads_time:
  assumes "\<And>t. leads ds i (f t)"
  shows "leads ds i (bnd time_now (f :: int \<Rightarrow> ('d, 'c, 'x, deployment_row \<times> err option) hostm))"
proof -
  have "bnd time_now f w = f (o_now (orc w) (stp w)) (tick w)" for w :: "('d, 'c, 'x) hostdb_scheme"
    by (simp add: bnd_def time_now_def)
  then show ?thesis
    using assms awaiting_tick [THEN iffD2] unfolding leads_def by metis
qed

lemma leads_case_sum:
  "(\<And>e. x = Inl e \<Longrightarrow> leads ds i (m e)) \<Longrightarrow> (\<And>y. x = Inr y \<Longrightarrow> leads ds i (n y)) \<Longrightarrow>
     leads ds i (case x of Inl e \<Rightarrow> m e | Inr y \<Rightarrow> n y)"
  by (cases x) auto

lemma leads_if:
  "(b \<Longrightarrow> leads ds i m) \<Longrightarrow> (\<not> b \<Longrightarrow> leads ds i n) \<Longrightarrow> leads ds i (if b then m else n)"
  by simp

lemma leads_fail_with: "i = dp_id d \<Longrightarrow> leads ds i (fail_with en app d f e)"
  unfolding leads_def using fail_with_settled by fastforce

lemmas leads_rules = leads_attempt leads_publish leads_time leads_case_sum leads_if leads_fail_with

text \<open>The success path: the final update, then steps that leave the table alone and return.\<close>

lemma leads_done:
  assumes "harmless f" and "moves same_deploys m" and "\<And>w r w'. m w = (r, w') \<Longrightarrow> r = Inr (f d, None)"
    and "i = dp_id d" and "\<And>row. dp_status (f row) = ''success'' \<and> dp_finished_at (f row) = t"
    and "\<And>row. dp_image_tag (f row) = Some g"
  shows "leads ds i (bnd (attempt (updateFields i f)) (\<lambda>_. m))"
  unfolding leads_def
proof (intro allI impI)
  fix w r w'
  assume aw: "awaiting ds i w" and run: "bnd (attempt (updateFields i f)) (\<lambda>_. m) w = (r, w')"
  obtain row where row: "dp_id row = i" "deployments w' = ds @ [f row]"
    by (rule after_update [OF aw assms(1) run assms(2)])
  have "r = Inr (f d, None)" using run assms(3) unfolding bnd_attempt by blast
  then show "\<exists>x. r = Inr x \<and> settled ds x w'"
    using row assms(1,4-6) by (auto simp: settled_def harmless_def)
qed

lemma pruneImages_returns: "bnd (pruneImages en p app k) f w = f () (snd (pruneImages en p app k w))"
proof -
  have each: "fst (for_each (\<lambda>m. bnd (attempt (g m)) (\<lambda>_. ret ())) xs v) = Inr ()" for g xs v
    by (induction xs arbitrary: v) (simp_all add: ret_def bnd_attempt bnd_assoc)
  have "fst (pruneImages en p app k w) = Inr ()"
    unfolding pruneImages_def Let_def by (subst bnd_attempt) (auto simp: ret_def each split: sum.split)
  then show ?thesis by (cases "pruneImages en p app k w") (simp add: bnd_def)
qed

lemma deploy_success_settles:
  assumes "i = dp_id d"
  shows "leads ds i (deploy_success en app p ref d)"
  unfolding deploy_success_def Let_def assms
  by (intro leads_time leads_done harmless_intros dep.host_rules dep.SetStatus_R dep.pruneImages_R refl;
      simp add: bnd_attempt bnd_publish pruneImages_returns ret_def; fail)

lemma build_and_swap_settles: "leads ds (dp_id d) (build_and_swap en app opts p d)"
  unfolding build_and_swap_def Let_def bnd_if bnd_assoc bnd_ret
  by (intro leads_rules deploy_success_settles aw.host_rules aw.docker_R aw.updateFields_R aw.SetStatus_R aw.swap_R
      aw.swapCompose_R harmless_intros refl; simp)

lemma swap_deployments:
  "deployments (snd (swap en app p ref d w)) =
     deployments (snd (updateFields (dp_id d) (\<lambda>r. r\<lparr>dp_status := ''deploying''\<rparr>) w))"
proof -
  let ?rest = "bnd (attempt (SetStatus (a_id (app_row app)) ''deploying'')) (\<lambda>_.
     bnd (publish en (a_id (app_row app)) (dp_id d) ''app.status_changed'') (\<lambda>_.
     bnd (imageShortSHA ref (a_name (app_row app))) (\<lambda>shortSHA.
     bnd (start_candidate en app p ref d (temp_name app shortSHA)) (promote_candidate en app p (temp_name app shortSHA)))))"
  have "moves same_deploys ?rest"
    by (intro dep.host_rules dep.SetStatus_R dep.imageShortSHA_R dep.start_candidate_R dep.promote_candidate_R)
  from moves_snd [OF this] show ?thesis
    unfolding swap_def Let_def by (subst bnd_attempt) (simp add: same_deploys_def)
qed

text \<open>A rollback inserts the image with the row, and keeps it.\<close>

lemma rollback_settles:
  assumes "awaiting ds (dp_id d) w" and "deployments w = ds @ [row0]" and "dp_image_tag row0 = dp_image_tag d"
    and "dp_image_tag d \<noteq> None"
    and "bnd (attempt (swap en app p ref d)) (\<lambda>r. case r of Inl e \<Rightarrow> fail_with en app d (\<lambda>e. e) e
           | Inr _ \<Rightarrow> rollback_success en app d) w = (r, w')"
  shows "\<exists>x. r = Inr x \<and> settled ds x w'"
proof -
  define v where "v = snd (swap en app p ref d w)"
  have aw: "awaiting ds (dp_id d) v"
    unfolding v_def by (rule keeps_snd [OF aw.swap_R assms(1)]) simp
  obtain row1 where "deployments w = ds @ [row1]" and u: "updateFields (dp_id d) (\<lambda>r. r\<lparr>dp_status := ''deploying''\<rparr>) w =
      (Inr (), tick (w\<lparr>deployments := ds @ [row1\<lparr>dp_status := ''deploying''\<rparr>]\<rparr>))"
    by (rule updateFields_awaiting [OF assms(1) harmless_intros(1)])
  with assms(2) have v: "deployments v = ds @ [row0\<lparr>dp_status := ''deploying''\<rparr>]"
    by (simp add: v_def swap_deployments)
  from assms(5) have run: "(case fst (swap en app p ref d w) of Inl e \<Rightarrow> fail_with en app d (\<lambda>e. e) e
       | Inr _ \<Rightarrow> rollback_success en app d) v = (r, w')"
    by (simp add: bnd_attempt v_def)
  show ?thesis
  proof (cases "fst (swap en app p ref d w)")
    case (Inl e)
    with run have "fail_with en app d (\<lambda>e. e) e v = (r, w')" by simp
    from fail_with_settled [OF aw this] show ?thesis by blast
  next
    case (Inr u)
    define fin :: "deployment_row \<Rightarrow> deployment_row" where
      "fin = (\<lambda>r. r\<lparr>dp_status := ''success'', dp_finished_at := Some (unix (o_now (orc v) (stp v)))\<rparr>)"
    let ?rest = "bnd (attempt (SetStatus (a_id (app_row app)) ''running'')) (\<lambda>_.
       bnd (publish en (a_id (app_row app)) (dp_id d) ''deploy.success'') (\<lambda>_. ret (fin d, None)))"
    from run Inr have fin: "bnd (attempt (updateFields (dp_id d) fin)) (\<lambda>_. ?rest) (tick v) = (r, w')"
      unfolding rollback_success_def Let_def fin_def by (simp add: bnd_def [of time_now] time_now_def)
    have "harmless fin" by (simp add: fin_def harmless_def)
    moreover have "moves same_deploys ?rest" by (intro dep.host_rules dep.SetStatus_R)
    ultimately obtain row where "deployments (tick v) = ds @ [row]" "deployments w' = ds @ [fin row]"
      by (rule after_update [OF awaiting_tick [THEN iffD2, OF aw] _ fin])
    moreover have "r = Inr (fin d, None)"
      using fin by (simp add: bnd_attempt bnd_publish ret_def)
    moreover have "dp_id row0 = dp_id d"
      using assms(1,2) by (auto simp: awaiting_def)
    ultimately show ?thesis
      using v assms(3,4) by (auto simp: settled_def fin_def)
  qed
qed

section \<open>Before the row is inserted\<close>

definition before_row :: "('d, 'c, 'x) hostdb_scheme \<Rightarrow> ('d, 'c, 'x) hostdb_scheme \<Rightarrow> bool" where
  "before_row w w' \<longleftrightarrow> deployments w' = deployments w \<and> orc w' = orc w \<and> (schema_ok w \<longrightarrow> schema_ok w')"

interpretation pre: host_frame before_row
  by unfold_locales (auto simp: before_row_def statement_defs checked_Inr_iff)

text \<open>The rows a call leaves, given those before it.\<close>

definition accounted ::
  "deployment_row list \<Rightarrow> err + deployment_row \<times> err option \<Rightarrow> 'x db_scheme \<Rightarrow> bool" where
  "accounted ds res w \<longleftrightarrow>
     (case res of
        Inl e \<Rightarrow> deployments w = ds \<or> (\<exists>row. deployments w = ds @ [row] \<and> dp_status row = ''failed'')
      | Inr x \<Rightarrow> settled ds x w)"

definition accounts :: "('d, 'c, 'x, deployment_row \<times> err option) hostm \<Rightarrow> bool" where
  "accounts m \<longleftrightarrow> (\<forall>w r w'. schema_ok w \<longrightarrow> quiet w \<longrightarrow> m w = (r, w') \<longrightarrow> accounted (deployments w) r w')"

lemma accounts_fail: "accounts (fail e)"
  by (simp add: accounts_def accounted_def fail_def)

lemma accounts_bnd:
  assumes "moves before_row m" and "\<And>x. accounts (f x)"
  shows "accounts (bnd m f)"
  unfolding accounts_def
proof (intro allI impI)
  fix w r w'
  assume w: "schema_ok w" "quiet w" and run: "bnd m f w = (r, w')"
  obtain x v where m: "m w = (x, v)" by (cases "m w")
  then have v: "deployments v = deployments w" "schema_ok v" "quiet v"
    using movesD [OF assms(1) m] w by (auto simp: before_row_def quiet_def)
  show "accounted (deployments w) r w'"
  proof (cases x)
    case (Inl e)
    with run m v show ?thesis by (auto simp: bnd_def accounted_def)
  next
    case (Inr y)
    with run m have "f y v = (r, w')" by (simp add: bnd_def)
    with assms(2) v show ?thesis unfolding accounts_def by metis
  qed
qed

lemma accounts_if: "(b \<Longrightarrow> accounts m) \<Longrightarrow> (\<not> b \<Longrightarrow> accounts n) \<Longrightarrow> accounts (if b then m else n)"
  by simp

lemma accounts_case_sum:
  "(\<And>e. accounts (m e)) \<Longrightarrow> (\<And>y. accounts (n y)) \<Longrightarrow> accounts (case x of Inl e \<Rightarrow> m e | Inr y \<Rightarrow> n y)"
  by (cases x) auto

lemma accounts_case_option:
  "accounts m \<Longrightarrow> (\<And>y. accounts (n y)) \<Longrightarrow> accounts (case x of None \<Rightarrow> m | Some y \<Rightarrow> n y)"
  by (cases x) auto

lemma accounts_deferring:
  assumes "moves before_row c" and "accounts m"
  shows "accounts (deferring c m)"
  unfolding accounts_def
proof (intro allI impI)
  fix w r w'
  assume w: "schema_ok w" "quiet w" and run: "deferring c m w = (r, w')"
  obtain r' v where m: "m w = (r', v)" by (cases "m w")
  with run have "r' = r" "w' = snd (c v)"
    by (auto simp: deferring_def bnd_attempt lift_res_def)
  moreover have "accounted (deployments w) r' v" using assms(2) w m by (auto simp: accounts_def)
  moreover have "deployments (snd (c v)) = deployments v" using moves_snd [OF assms(1)] by (auto simp: before_row_def)
  ultimately show "accounted (deployments w) r w'"
    by (auto simp: accounted_def settled_def split: sum.splits)
qed

lemma admission_pre:
  "moves before_row (acquireLock i)" "moves before_row (unlock i)" "moves before_row (acquireGlobalSlot en)"
  "moves before_row (releaseSlot en)"
  unfolding acquireLock_def unlock_def acquireGlobalSlot_def releaseSlot_def
  by (intro pre.host_rules pre.frame_access; auto simp: before_row_def split: prod.split)+

lemma accounts_admitted: "accounts m \<Longrightarrow> accounts (admitted en i m)"
  unfolding admitted_def
  by (intro accounts_bnd accounts_if accounts_fail accounts_deferring admission_pre)

text \<open>The insertion, and what follows when the log file cannot be opened.\<close>

lemma accounts_insert:
  assumes "\<And>ds w r w'. awaiting ds (dp_id d) w \<Longrightarrow>
      (\<exists>row. deployments w = ds @ [row] \<and> dp_image_tag row = dp_image_tag d) \<Longrightarrow> m w = (r, w') \<Longrightarrow> accounted ds r w'"
  shows "accounts (bnd (wrapping msg (deploy_insert d)) (\<lambda>_. m))"
  unfolding accounts_def
proof (intro allI impI)
  fix w r w'
  assume w: "schema_ok w" "quiet w" and run: "bnd (wrapping msg (deploy_insert d)) (\<lambda>_. m) w = (r, w')"
  define d' where "d' = d\<lparr>dp_error_message := None, dp_created_at := unixepoch w\<rparr>"
  show "accounted (deployments w) r w'"
  proof (cases "schema_ok (w\<lparr>deployments := deployments w @ [d']\<rparr>)")
    case True
    then have "dp_id d \<notin> dp_id ` set (deployments w)"
      by (auto simp: schema_ok_def unique_ok_def deploy_unique_ok_def d'_def)
    moreover have "m (tick (w\<lparr>deployments := deployments w @ [d']\<rparr>)) = (r, w')"
      using run True w
      by (simp add: bnd_def wrapping_def deploy_insert_def db_exec_def quiet_def insert_deployment_def d'_def
          checked_ok ret_def)
    ultimately show ?thesis
      using True w by (intro assms [where w = "tick (w\<lparr>deployments := deployments w @ [d']\<rparr>)"])
        (auto simp: awaiting_def quiet_def d'_def)
  next
    case False
    then have "\<exists>e. checked 1 (w\<lparr>deployments := deployments w @ [d']\<rparr>) = Inl e"
      by (metis checked_Inr_iff prod.exhaust sum.exhaust)
    with run w show ?thesis
      by (auto simp: bnd_def wrapping_def deploy_insert_def db_exec_def quiet_def insert_deployment_def d'_def
          accounted_def)
  qed
qed

lemma failed_before_log_accounted:
  fixes w :: "('d, 'c, 'x) hostdb_scheme"
  assumes "awaiting ds i w" and "bnd (failed_before_log i) (\<lambda>_. fail e) w = (r, w')"
  shows "accounted ds r w'"
proof -
  define f :: "deployment_row \<Rightarrow> deployment_row" where
    "f = (\<lambda>r. r\<lparr>dp_status := ''failed'', dp_finished_at := Some (unix (o_now (orc w) (stp w)))\<rparr>)"
  have run: "bnd (attempt (updateFields i f)) (\<lambda>_. fail e) (tick w) = (r, w')"
    using assms(2) unfolding failed_before_log_def bnd_assoc bnd_ret f_def by (simp add: bnd_def [of time_now] time_now_def)
  have "harmless f" by (simp add: f_def harmless_def)
  then obtain row where "deployments w' = ds @ [f row]"
    using after_update [OF awaiting_tick [THEN iffD2, OF assms(1)] _ run dep.frame_fail] by blast
  moreover have "r = Inl e" using run by (simp add: bnd_attempt fail_def)
  ultimately show ?thesis by (simp add: accounted_def f_def)
qed

lemma leads_accounted: "leads ds i m \<Longrightarrow> awaiting ds i w \<Longrightarrow> m w = (r, w') \<Longrightarrow> accounted ds r w'"
  unfolding leads_def accounted_def by fastforce

lemma runDeploy_accounts: "accounts (runDeploy en app opts rb)"
proof -
  have row: "dp_id (new_row en app opts rb i) = i" for i
    by (simp add: new_row_def Let_def)
  have after: "accounted ds r w'"
    if "awaiting ds i w" and "bnd (attempt (draw (en_Create en (LogPath en i)))) (\<lambda>r.
         case r of Inl e \<Rightarrow> bnd (failed_before_log i) (\<lambda>_. fail (ErrWrap ''deploy: log file'' e))
         | Inr _ \<Rightarrow>
             bnd (publish en (a_id (app_row app)) i ''deploy.started'') (\<lambda>_.
             bnd (attempt (Provider (en_writeKeyFile en) (en_Servers en) sid)) (\<lambda>rp.
             case rp of Inl e \<Rightarrow> fail_with en app (new_row en app opts rb i) (ErrWrap ''provider'') e
             | Inr p \<Rightarrow> build_and_swap en app opts p (new_row en app opts rb i)))) w = (r, w')"
    for ds i sid w r w'
  proof (cases "en_Create en (LogPath en i) (stp w)")
    case (Inl e)
    with that show ?thesis
      using failed_before_log_accounted [of ds i "tick w" "ErrWrap ''deploy: log file'' e" r w']
      by (simp add: bnd_attempt draw_def)
  next
    case (Inr u)
    have "leads ds i (bnd (publish en (a_id (app_row app)) i ''deploy.started'') (\<lambda>_.
             bnd (attempt (Provider (en_writeKeyFile en) (en_Servers en) sid)) (\<lambda>rp.
             case rp of Inl e \<Rightarrow> fail_with en app (new_row en app opts rb i) (ErrWrap ''provider'') e
             | Inr p \<Rightarrow> build_and_swap en app opts p (new_row en app opts rb i))))"
      using build_and_swap_settles [of ds "new_row en app opts rb i"]
      by (intro leads_rules aw.reads_R) (simp_all add: row)
    from leads_accounted [OF this, of "tick w" r w'] Inr that show ?thesis
      by (simp add: bnd_attempt [of "draw f" for f] draw_def)
  qed
  show ?thesis
    unfolding runDeploy_def Let_def
    by (intro accounts_case_option accounts_fail accounts_bnd accounts_if accounts_insert pre.reads_R pre.deploy_reads_R)
      (simp add: row, erule (1) after)
qed

lemma runFromImage_accounts: "accounts (runFromImage en app p ref rb i)"
proof -
  have row: "dp_id (rollback_row en app ref rb j t) = j" "dp_image_tag (rollback_row en app ref rb j t) = Some ref"
    for j t by (simp_all add: rollback_row_def)
  have after: "accounted ds r w'"
    if aw: "awaiting ds (dp_id d) w" and row: "\<exists>row. deployments w = ds @ [row] \<and> dp_image_tag row = dp_image_tag d"
      and img: "dp_image_tag d \<noteq> None"
      and run: "bnd (attempt (draw (en_Create en (LogPath en (dp_id d))))) (\<lambda>r.
         case r of Inl e \<Rightarrow> bnd (failed_before_log (dp_id d)) (\<lambda>_. fail (ErrWrap ''deploy: log file'' e))
         | Inr _ \<Rightarrow>
             bnd (publish en (a_id (app_row app)) (dp_id d) ''deploy.started'') (\<lambda>_.
             bnd (attempt (swap en app p ref d)) (\<lambda>r2.
             case r2 of Inl e \<Rightarrow> fail_with en app d (\<lambda>e. e) e | Inr _ \<Rightarrow> rollback_success en app d))) w = (r, w')"
    for d ds w r w'
  proof (cases "en_Create en (LogPath en (dp_id d)) (stp w)")
    case (Inl e)
    with aw run show ?thesis
      using failed_before_log_accounted [of ds "dp_id d" "tick w" "ErrWrap ''deploy: log file'' e" r w']
      by (simp add: bnd_attempt draw_def)
  next
    case (Inr u)
    define v where "v = snd (publish en (a_id (app_row app)) (dp_id d) ''deploy.started'' (tick w))"
    have "awaiting ds (dp_id d) v"
      unfolding v_def by (rule keeps_snd [OF aw.publish_R]) (simp add: aw)
    moreover have "same_deploys (tick w) v"
      unfolding v_def by (rule moves_snd [OF dep.publish_R])
    then have "deployments v = deployments w" by (simp add: same_deploys_def)
    moreover have "bnd (attempt (swap en app p ref d)) (\<lambda>r2.
             case r2 of Inl e \<Rightarrow> fail_with en app d (\<lambda>e. e) e | Inr _ \<Rightarrow> rollback_success en app d) v = (r, w')"
      using Inr run by (simp add: bnd_attempt [of "draw f" for f] draw_def bnd_publish v_def)
    ultimately have "\<exists>x. r = Inr x \<and> settled ds x w'"
      using row img rollback_settles by metis
    then show ?thesis by (auto simp: accounted_def)
  qed
  show ?thesis
    unfolding runFromImage_def Let_def
    by (intro accounts_insert accounts_bnd pre.deploy_reads_R pre.frame_time)
      (rule after, assumption, assumption, simp add: row, unfold row, assumption)
qed

lemma Deploy_accounts: "accounts (Deploy en appID opts)"
  unfolding Deploy_def by (intro accounts_bnd accounts_admitted runDeploy_accounts pre.reads_R)

lemma Rollback_accounts: "accounts (Rollback en appID target opts)"
  unfolding Rollback_def rollback_body_def
  by (intro accounts_bnd accounts_admitted accounts_if accounts_fail accounts_case_sum runFromImage_accounts
      pre.reads_R pre.deploy_reads_R pre.host_rules)

text \<open>
  C6. A deployment or rollback accounts for itself in the deployments table. While the database answers,
  a call that returns a row has appended exactly that row: with status success and the image that was
  deployed when it returns no error, with status failed and the error's text when it returns one. A
  call that returns only an error has appended nothing, or (the log file could not be opened) a row
  that is already marked failed. No other row changes, and none is left in flight.
\<close>

theorem deployments_accounted:
  assumes "schema_ok w" and "quiet w"
  shows "accounted (deployments w) (fst (Deploy en appID opts w)) (snd (Deploy en appID opts w)) \<and>
    accounted (deployments w) (fst (Rollback en appID target opts w)) (snd (Rollback en appID target opts w))"
  using assms Deploy_accounts [of en appID opts] Rollback_accounts [of en appID target opts]
  unfolding accounts_def by (metis prod.collapse)

end
