(* ===== verification/Deploy_Props.thy ===== *)
theory Deploy_Props
  imports Deploy_Outcome
begin

text \<open>
  Properties of single operations of the deploy engine: which deployment a rollback goes back to, what
  the reconciliation at start-up leaves, that the health check ends, and which names containers and
  volumes get.
\<close>

section \<open>What a computation returns\<close>

definition returns :: "('a \<Rightarrow> bool) \<Rightarrow> ('x, 'a) go \<Rightarrow> bool" where
  "returns P m \<longleftrightarrow> (\<forall>w x w'. m w = (Inr x, w') \<longrightarrow> P x)"

lemma returnsD: "returns P m \<Longrightarrow> m w = (Inr x, w') \<Longrightarrow> P x"
  unfolding returns_def by blast

lemma returns_ret: "P x \<Longrightarrow> returns P (ret x)"
  by (simp add: returns_def ret_def)

lemma returns_fail: "returns P (fail e)"
  by (simp add: returns_def fail_def)

lemma returns_bnd: "(\<And>x. returns P (f x)) \<Longrightarrow> returns P (bnd m f)"
  unfolding returns_def bnd_eq_Inr_iff by blast

lemma returns_case_sum:
  "(\<And>e. returns P (m e)) \<Longrightarrow> (\<And>y. returns P (n y)) \<Longrightarrow> returns P (case x of Inl e \<Rightarrow> m e | Inr y \<Rightarrow> n y)"
  by (cases x) auto

lemma returns_if: "(b \<Longrightarrow> returns P m) \<Longrightarrow> (\<not> b \<Longrightarrow> returns P n) \<Longrightarrow> returns P (if b then m else n)"
  by simp

lemma returns_deferring: "returns P m \<Longrightarrow> returns P (deferring c m)"
  by (auto simp: returns_def deferring_def bnd_attempt lift_res_def) (metis prod.collapse)

lemmas returns_rules = returns_ret returns_fail returns_bnd returns_case_sum returns_if returns_deferring

section \<open>The newest success\<close>

lemma newest_first_Cons:
  assumes "newest_first ds = d # rest"
  shows "d \<in> set ds \<and> (\<forall>e \<in> set ds. (dp_created_at e, dp_id e) \<le> (dp_created_at d, dp_id d))"
proof -
  let ?k = "\<lambda>d. (dp_created_at d, dp_id d)"
  from assms have s: "sort_key ?k ds = rev rest @ [d]"
    by (simp add: newest_first_def rev_eq_append_conv flip: rev_swap)
  then have "set ds = set (rev rest @ [d])" by (metis set_sort)
  moreover have "sorted (map ?k (rev rest @ [d]))"
    using sorted_sort_key [of ?k ds] unfolding s .
  then have "\<forall>e \<in> set (rev rest @ [d]). ?k e \<le> ?k d"
    by (auto simp: sorted_append)
  ultimately show ?thesis by simp
qed

lemma scanDeployment_Inr:
  "scanDeployment q w = (Inr d, w') \<longleftrightarrow> \<not> o_fault (orc w) (stp w) \<and> q w = Some d \<and> w' = tick w"
  by (auto simp: scanDeployment_def bnd_attempt db_query_row_cases fail_def ret_def split: option.splits if_splits)

lemma lastSuccess_Inr:
  assumes "lastSuccess i ex w = (Inr d, w')"
  shows "d \<in> set (deployments w) \<and> dp_app_id d = i \<and> dp_status d = ''success'' \<and> (ex = [] \<or> dp_id d \<noteq> ex) \<and>
    (\<forall>e \<in> set (deployments w). dp_app_id e = i \<and> dp_status e = ''success'' \<and> (ex = [] \<or> dp_id e \<noteq> ex) \<longrightarrow>
       (dp_created_at e, dp_id e) \<le> (dp_created_at d, dp_id d))"
proof -
  from assms obtain rest where "newest_first (filter (\<lambda>d. dp_app_id d = i \<and> dp_status d = ''success'' \<and>
      (ex = [] \<or> dp_id d \<noteq> ex)) (deployments w)) = d # rest"
    by (auto simp: lastSuccess_def scanDeployment_Inr split: list.splits)
  from newest_first_Cons [OF this] show ?thesis by auto
qed

section \<open>Rollback\<close>

text \<open>The deployment a rollback may go back to.\<close>

definition restorable :: "deployment_row list \<Rightarrow> string \<Rightarrow> deployment_row \<Rightarrow> bool" where
  "restorable ds appID t \<longleftrightarrow>
     t \<in> set ds \<and> dp_app_id t = appID \<and> dp_status t = ''success'' \<and> derefStr (dp_image_tag t) \<noteq> []"

text \<open>The one it picks: the deployment it was asked for, or the newest success when it was asked for none.\<close>

definition picked :: "deployment_row list \<Rightarrow> string \<Rightarrow> string \<Rightarrow> deployment_row \<Rightarrow> bool" where
  "picked ds appID targetID t \<longleftrightarrow>
     (if targetID \<noteq> [] then dp_id t = targetID
      else \<forall>e \<in> set ds. dp_app_id e = appID \<and> dp_status e = ''success'' \<longrightarrow>
             (dp_created_at e, dp_id e) \<le> (dp_created_at t, dp_id t))"

lemma rollback_target_Inr:
  assumes "rollback_target app targetID w = (Inr t, w')"
  shows "t \<in> set (deployments w) \<and> dp_app_id t = a_id (app_row app) \<and> dp_status t = ''success'' \<and>
    picked (deployments w) (a_id (app_row app)) targetID t"
proof (cases "targetID = []")
  case True
  with assms have "lastSuccess (a_id (app_row app)) [] w = (Inr t, w')"
    by (cases "lastSuccess (a_id (app_row app)) [] w")
      (auto simp: rollback_target_def bnd_attempt fail_def ret_def split: sum.splits if_splits)
  from lastSuccess_Inr [OF this] True show ?thesis by (simp add: picked_def)
next
  case False
  with assms show ?thesis
    by (auto simp: picked_def rollback_target_def bnd_eq_Inr_iff deploy_get_def scanDeployment_Inr fail_def ret_def
        split: if_splits dest: find_SomeD)
qed

lemma runFromImage_returns:
  "returns (\<lambda>x. dp_app_id (fst x) = a_id (app_row app) \<and> dp_image_tag (fst x) = Some ref \<and>
     dp_rollback_of (fst x) = Some rb) (runFromImage en app p ref rb i)"
  unfolding runFromImage_def rollback_success_def fail_with_def failDeploy_def Let_def bnd_assoc bnd_ret
  by (intro returns_rules) (simp_all add: rollback_row_def)

lemma rollback_body_Inr:
  assumes "rollback_body en app targetID opts w = (Inr (d, r), w')"
  shows "\<exists>t. restorable (deployments w) (a_id (app_row app)) t \<and> picked (deployments w) (a_id (app_row app)) targetID t \<and>
    dp_app_id d = a_id (app_row app) \<and> dp_image_tag d = dp_image_tag t \<and> dp_rollback_of d = Some (dp_id t)"
proof -
  from assms obtain t v where t: "rollback_target app targetID w = (Inr t, v)"
    and img: "derefStr (dp_image_tag t) \<noteq> []"
    and run: "bnd (wrapping ''deploy: provider'' (Provider (en_writeKeyFile en) (en_Servers en)
              (derefStr (a_server_id (app_row app))))) (\<lambda>p.
       bnd (wrapping ''deploy: docker client'' (on_docker (mb_Client (en_moby en) p))) (\<lambda>_.
       bnd (attempt (on_docker (mb_ImageInspect (en_moby en) p (derefStr (dp_image_tag t))))) (\<lambda>r.
       case r of
         Inl _ \<Rightarrow> fail (ErrNew ''deploy: image_not_found'')
       | Inr _ \<Rightarrow> runFromImage en app p (derefStr (dp_image_tag t)) (dp_id t) (op_DeploymentID opts)))) v = (Inr (d, r), w')"
    unfolding rollback_body_def bnd_eq_Inr_iff [of "rollback_target app targetID"]
    by (auto simp: fail_def split: if_splits)
  from run obtain p u where "runFromImage en app p (derefStr (dp_image_tag t)) (dp_id t) (op_DeploymentID opts) u =
      (Inr (d, r), w')"
    by (auto simp: bnd_eq_Inr_iff attempt_run fail_def split: sum.splits) (metis old.unit.exhaust sum.exhaust)
  from returnsD [OF runFromImage_returns this]
  have "dp_app_id d = a_id (app_row app) \<and> dp_image_tag d = Some (derefStr (dp_image_tag t)) \<and>
      dp_rollback_of d = Some (dp_id t)" by simp
  moreover have "dp_image_tag t = Some (derefStr (dp_image_tag t))"
    using img by (cases "dp_image_tag t") (simp_all add: derefStr_def)
  moreover have "restorable (deployments w) (a_id (app_row app)) t" "picked (deployments w) (a_id (app_row app)) targetID t"
    unfolding restorable_def using rollback_target_Inr [OF t] img by blast+
  ultimately show ?thesis by metis
qed

lemma admitted_Inr:
  assumes "admitted en i m w = (Inr x, w')"
  obtains v v' where "m v = (Inr x, v')" and "deployments v = deployments w"
proof -
  have lock: "deployments (snd (acquireLock i w)) = deployments w"
    "deployments (snd (acquireGlobalSlot en v)) = deployments v" for v
    using moves_snd [OF admission_pre(1), of w i] moves_snd [OF admission_pre(3), of v en]
    by (simp_all add: before_row_def)
  from assms obtain u where l: "acquireLock i w = (Inr True, u)"
    and "deferring (unlock i) (bnd (acquireGlobalSlot en) (\<lambda>ok2.
          if \<not> ok2 then fail ErrTooManyDeploys else deferring (releaseSlot en) m)) u = (Inr x, w')"
    by (auto simp: admitted_def bnd_eq_Inr_iff [of "acquireLock i"] fail_def split: if_splits)
  then have "fst (bnd (acquireGlobalSlot en) (\<lambda>ok2.
          if \<not> ok2 then fail ErrTooManyDeploys else deferring (releaseSlot en) m) u) = Inr x"
    by (simp add: deferring_def bnd_attempt lift_res_def)
  then obtain u' where g: "acquireGlobalSlot en u = (Inr True, u')" and "fst (deferring (releaseSlot en) m u') = Inr x"
    by (auto simp: bnd_def fail_def split: prod.splits sum.splits if_splits)
  then have "fst (m u') = Inr x" by (simp add: deferring_def bnd_attempt lift_res_def)
  then have "m u' = (Inr x, snd (m u'))" by (metis prod.collapse)
  moreover have "deployments u' = deployments w" using lock(1) lock(2) [of u] l g by simp
  ultimately show thesis by (rule that)
qed

lemma Rollback_Inr:
  fixes w :: "('d, 'c, 'x) hostdb_scheme"
  assumes "Rollback en appID targetID opts w = (Inr (d, r), w')"
  shows "\<exists>app t. fst (app_Get appID w) = Inr app \<and> restorable (deployments w) (a_id (app_row app)) t \<and>
    picked (deployments w) (a_id (app_row app)) targetID t \<and> dp_app_id d = a_id (app_row app) \<and>
    dp_image_tag d = dp_image_tag t \<and> dp_rollback_of d = Some (dp_id t)"
proof -
  from assms obtain app u where g: "app_Get appID w = (Inr app, u)"
    and a: "admitted en (a_id (app_row app)) (rollback_body en app targetID opts) u = (Inr (d, r), w')"
    unfolding Rollback_def bnd_eq_Inr_iff by blast
  obtain v v' :: "('d, 'c, 'x) hostdb_scheme" where b: "rollback_body en app targetID opts v = (Inr (d, r), v')" and v: "deployments v = deployments u"
    by (rule admitted_Inr [OF a]) blast
  have u: "deployments u = deployments w"
    using movesD [OF pre.reads_R(2) g] by (simp add: before_row_def)
  have "fst (app_Get appID w) = Inr app" by (simp add: g)
  then show ?thesis using rollback_body_Inr [OF b] unfolding v u by blast
qed

text \<open>
  Without a target a rollback goes to the newest success of the app, which is the deployment in use when the last
  one succeeded; the comment on \<open>Rollback\<close> excludes that one.
\<close>

lemma Rollback_default_newest:
  assumes "Rollback en appID [] opts w = (Inr (d, r), w')"
    and "e \<in> set (deployments w)" and "dp_app_id e = dp_app_id d" and "dp_status e = ''success''"
  shows "\<exists>t \<in> set (deployments w). dp_rollback_of d = Some (dp_id t) \<and> (dp_created_at e, dp_id e) \<le> (dp_created_at t, dp_id t)"
  using Rollback_Inr [OF assms(1)] assms(2-) by (fastforce simp: restorable_def picked_def)

text \<open>
  C9. A rollback to a named deployment only ever restores a proven image of the app it was asked for: a call that
  gets as far as a deployment row found the app, and the target is a deployment of that very app that succeeded and
  has an image; the row belongs to the app, carries that image and points back to the target.
\<close>

theorem Rollback_restores_success:
  fixes w :: "('d, 'c, 'x) hostdb_scheme"
  assumes "Rollback en appID targetID opts w = (Inr (d, r), w')" and "targetID \<noteq> []"
  shows "\<exists>app t. fst (app_Get appID w) = Inr app \<and> restorable (deployments w) (a_id (app_row app)) t \<and>
    dp_id t = targetID \<and> dp_app_id d = a_id (app_row app) \<and> dp_image_tag d = dp_image_tag t \<and>
    dp_rollback_of d = Some targetID"
  using Rollback_Inr [OF assms(1)] assms(2) by (auto simp: picked_def)

section \<open>Reconciliation\<close>

definition busy :: "string \<Rightarrow> bool" where
  "busy s \<longleftrightarrow> s = ''building'' \<or> s = ''deploying''"

definition decodes :: "app_row \<Rightarrow> bool" where
  "decodes a \<longleftrightarrow> (\<exists>x. scanApp a = Inr x)"

lemma decodes_status [simp]: "decodes (a\<lparr>a_status := s\<rparr>) = decodes a" "decodes (a\<lparr>a_updated_at := n\<rparr>) = decodes a"
  by (auto simp: decodes_def scanApp_def split: option.splits)

lemma schema_ok_apps:
  assumes "schema_ok w"
    and "\<And>a. a_id (f a) = a_id a \<and> a_name (f a) = a_name a \<and> a_build_type (f a) = a_build_type a \<and>
      a_restart_policy (f a) = a_restart_policy a \<and> a_server_id (f a) = a_server_id a \<and> a_team_id (f a) = a_team_id a \<and>
      a_git_source_id (f a) = a_git_source_id a"
  shows "schema_ok (w\<lparr>apps := map f (apps w)\<rparr>)"
proof -
  have "map a_id (map f (apps w)) = map a_id (apps w)" "map a_name (map f (apps w)) = map a_name (apps w)"
    using assms(2) by simp_all
  moreover have "app_ids (w\<lparr>apps := map f (apps w)\<rparr>) = app_ids w"
    unfolding app_ids_def using assms(2) by force
  ultimately show ?thesis
    using assms
    by (simp add: schema_ok_def unique_ok_def check_ok_def fk_ok_def deploy_unique_ok_def deploy_check_ok_def
        deploy_fk_ok_def user_ids_def role_ids_def team_ids_def cong: option.case_cong del: map_map)
qed

text \<open>What is still to do: every app in a busy status stands in the rest of the list in that status.\<close>

definition unsettled :: "App list \<Rightarrow> 'x db_scheme \<Rightarrow> bool" where
  "unsettled xs w \<longleftrightarrow>
     quiet w \<and> schema_ok w \<and> list_all decodes (apps w) \<and>
     (\<forall>a \<in> set (apps w). busy (a_status a) \<longrightarrow>
        (\<exists>x \<in> set xs. a_id (app_row x) = a_id a \<and> busy (a_status (app_row x))))"

lemma SetStatus_apps:
  assumes "quiet w" and "schema_ok w" and "list_all decodes (apps w)"
  shows "\<exists>n. snd (SetStatus i s w) =
    w\<lparr>stp := n, apps := (case find (\<lambda>a. a_id a = i) (apps w) of
        None \<Rightarrow> apps w
      | Some r \<Rightarrow> (if a_status r = StatusUnreachable \<and> s \<noteq> ''running'' then apps w
                  else update_where (\<lambda>a. a_id a = i) (\<lambda>a. a\<lparr>a_status := s, a_updated_at := unixepoch (tick w)\<rparr>) (apps w)))\<rparr>"
proof (cases "find (\<lambda>a. a_id a = i) (apps w)")
  case None
  have "app_get i w = (Inl app_ErrNotFound, tick w)"
    using assms(1) None by (simp add: app_get_def app_query_def bnd_attempt db_query_row_cases quiet_def fail_def)
  then show ?thesis using None by (auto simp: SetStatus_def bnd_def tick_def intro: exI [of _ "Suc (stp w)"])
next
  case (Some r)
  then have "r \<in> set (apps w)" by (auto dest: find_SomeD)
  then obtain x where x: "scanApp r = Inr x" using assms(3) by (auto simp: list_all_iff decodes_def)
  then have row: "app_row x = r" by (rule scanApp_row)
  have get: "app_get i w = (Inr x, tick w)"
    using assms(1) Some x
    by (simp add: app_get_def app_query_def bnd_attempt db_query_row_cases quiet_def lift_res_def)
  have "schema_ok ((tick w)\<lparr>apps := update_where (\<lambda>a. a_id a = i)
      (\<lambda>a. a\<lparr>a_status := s, a_updated_at := unixepoch (tick w)\<rparr>) (apps w)\<rparr>)"
    using schema_ok_apps [of "tick w" "\<lambda>a. if a_id a = i then a\<lparr>a_status := s, a_updated_at := unixepoch (tick w)\<rparr> else a"]
      assms(2) by (simp add: update_where_def)
  then have "update_apps (\<lambda>a. a_id a = i) (\<lambda>a. a\<lparr>a_status := s\<rparr>) (tick w) =
      Inr (affected (\<lambda>a. a_id a = i) (apps w), (tick w)\<lparr>apps := update_where (\<lambda>a. a_id a = i)
        (\<lambda>a. a\<lparr>a_status := s, a_updated_at := unixepoch (tick w)\<rparr>) (apps w)\<rparr>)"
    by (simp add: update_apps_def checked_ok)
  with get row Some assms(1) show ?thesis
    by (auto simp: SetStatus_def updateStatus_def bnd_def db_exec_def quiet_def ret_def tick_def
        intro: exI [of _ "Suc (stp w)"] exI [of _ "Suc (Suc (stp w))"])
qed

lemma SetStatus_settles:
  fixes w :: "('d, 'c, 'x) hostdb_scheme"
  assumes "unsettled (x # xs) w" and "busy (a_status (app_row x))" and "\<not> busy s"
  shows "unsettled xs (snd (SetStatus (a_id (app_row x)) s w))"
proof -
  let ?i = "a_id (app_row x)"
  define w' where "w' = snd (SetStatus ?i s w)"
  have pre: "quiet w" "schema_ok w" "list_all decodes (apps w)"
    using assms(1) by (simp_all add: unsettled_def)
  from SetStatus_apps [OF pre, of ?i s] 
  have up: "apps w' = (case find (\<lambda>a. a_id a = ?i) (apps w) of
        None \<Rightarrow> apps w
      | Some r \<Rightarrow> (if a_status r = StatusUnreachable \<and> s \<noteq> ''running'' then apps w
                  else update_where (\<lambda>a. a_id a = ?i) (\<lambda>a. a\<lparr>a_status := s, a_updated_at := unixepoch (tick w)\<rparr>) (apps w)))"
    unfolding w'_def [symmetric] by (elim exE) simp
  have schema: "schema_ok w'"
    unfolding w'_def by (rule keeps_snd [OF sch.SetStatus_R pre(2)])
  have dist: "distinct (map a_id (apps w))" using pre(2) by (simp add: schema_ok_def unique_ok_def)
  have dec: "list_all decodes (apps w')"
    using pre(3) up by (auto simp: update_where_def list_all_iff split: option.splits)
  have left: "\<exists>y \<in> set xs. a_id (app_row y) = a_id a \<and> busy (a_status (app_row y))"
    if "a \<in> set (apps w')" and "busy (a_status a)" for a
  proof -
    have "a \<in> set (apps w) \<and> a_id a \<noteq> ?i"
    proof (cases "find (\<lambda>a. a_id a = ?i) (apps w)")
      case None
      with that up show ?thesis by (auto simp: find_None_iff)
    next
      case (Some r)
      show ?thesis
      proof (cases "a_status r = StatusUnreachable \<and> s \<noteq> ''running''")
        case True
        then have "\<not> busy (a_status r)" by (simp add: busy_def StatusUnreachable_def)
        moreover have "a' = r" if "a' \<in> set (apps w)" "a_id a' = ?i" for a'
          using find_SomeD [OF Some] dist that by (auto simp: distinct_map inj_on_def)
        ultimately show ?thesis using that up Some True by auto
      next
        case False
        with that up Some assms(3) show ?thesis by (auto simp: update_where_def split: if_splits)
      qed
    qed
    then show ?thesis using assms(1) that(2) by (auto simp: unsettled_def)
  qed
  have "same_inputs w w'" unfolding w'_def by (rule moves_snd [OF inp.SetStatus_R])
  then have "quiet w'" using pre(1) by (simp add: same_inputs_def quiet_def)
  with schema dec left show ?thesis by (auto simp: unsettled_def w'_def)
qed

text \<open>Inspecting a container changes no table.\<close>

definition same_tables :: "('d, 'c, 'x) hostdb_scheme \<Rightarrow> ('d, 'c, 'x) hostdb_scheme \<Rightarrow> bool" where
  "same_tables w w' \<longleftrightarrow>
     apps w' = apps w \<and> deployments w' = deployments w \<and> orc w' = orc w \<and> schema_ok w' = schema_ok w"

interpretation tab: frame same_tables
  by unfold_locales (auto simp: same_tables_def)

lemma on_docker_same_tables: "moves same_tables (on_docker f)"
  by (auto simp: moves_def on_docker_def same_tables_def split: prod.split)

lemma inspect_same_tables: "moves same_tables (inspectAppContainer en sid name)"
  unfolding inspectAppContainer_def
  by (intro tab.frame_rules moves_intro tab.frame_read [OF Provider_read] on_docker_same_tables)

lemma inspect_status:
  "\<exists>s. fst (inspectAppContainer en sid name w) = Inr s \<and> \<not> busy s"
  unfolding inspectAppContainer_def
  by (auto simp: bnd_attempt ret_def busy_def split: sum.split)

lemma unsettled_same_tables: "same_tables w w' \<Longrightarrow> unsettled xs w \<Longrightarrow> unsettled xs w'"
  by (auto simp: same_tables_def unsettled_def quiet_def)

lemma reconcile_app_settles:
  fixes w :: "('d, 'c, 'x) hostdb_scheme"
  assumes "unsettled (x # xs) w"
  shows "fst (reconcile_app en x w) = Inr () \<and> unsettled xs (snd (reconcile_app en x w))"
proof (cases "busy (a_status (app_row x))")
  case False
  then have "reconcile_app en x w = (Inr (), w)" by (simp add: reconcile_app_def busy_def ret_def Let_def)
  moreover have "unsettled xs w" using assms False by (fastforce simp: unsettled_def)
  ultimately show ?thesis by simp
next
  case True
  define m :: "('d, 'c, 'x, string) hostm" where "m = (case (a_server_id (app_row x), a_container_name (app_row x)) of
       (Some sid, Some name) \<Rightarrow> inspectAppContainer en sid name | _ \<Rightarrow> ret ''error'')"
  have m: "moves same_tables m"
    unfolding m_def by (auto intro: inspect_same_tables tab.frame_ret split: option.split)
  obtain s where s: "fst (m w) = Inr s" "\<not> busy s"
  proof (cases "a_server_id (app_row x)"; cases "a_container_name (app_row x)")
    fix sid name
    assume "a_server_id (app_row x) = Some sid" "a_container_name (app_row x) = Some name"
    with that inspect_status [of en sid name w] show thesis by (auto simp: m_def)
  qed (use that in \<open>simp_all add: m_def ret_def busy_def\<close>)
  define v where "v = snd (m w)"
  have "unsettled (x # xs) v"
    unfolding v_def using moves_snd [OF m] assms by (rule unsettled_same_tables)
  moreover have "reconcile_app en x w = (Inr (), snd (SetStatus (a_id (app_row x)) s v))"
    using True s(1) unfolding reconcile_app_def Let_def m_def [symmetric] v_def
    by (cases "m w") (auto simp: busy_def bnd_def attempt_def ret_def split: prod.split)
  ultimately show ?thesis using SetStatus_settles True s(2) by simp
qed

lemma reconcile_all_settles:
  fixes w :: "('d, 'c, 'x) hostdb_scheme"
  assumes "unsettled xs w"
  shows "fst (for_each (reconcile_app en) xs w) = Inr () \<and> unsettled [] (snd (for_each (reconcile_app en) xs w))"
  using assms
proof (induction xs arbitrary: w)
  case (Cons x xs)
  from reconcile_app_settles [OF Cons.prems, of en] have
    "for_each (reconcile_app en) (x # xs) w = for_each (reconcile_app en) xs (snd (reconcile_app en x w))"
    by (cases "reconcile_app en x w") (simp add: bnd_def)
  with Cons.IH reconcile_app_settles [OF Cons.prems, of en] show ?case by simp
qed (simp add: ret_def)

lemma failPending_run:
  assumes "quiet w" and "schema_ok w"
  shows "snd (failPending w) = tick (w\<lparr>deployments := update_where (\<lambda>d. in_flight (dp_status d))
    (\<lambda>d. d\<lparr>dp_status := ''failed'', dp_finished_at := Some (unixepoch w)\<rparr>) (deployments w)\<rparr>)"
proof -
  have "schema_ok (w\<lparr>deployments := update_where (\<lambda>d. in_flight (dp_status d))
      (\<lambda>d. d\<lparr>dp_status := ''failed'', dp_finished_at := Some (unixepoch w)\<rparr>) (deployments w)\<rparr>)"
    by (rule schema_ok_deployments [OF assms(2)]) (simp_all add: map_update_where)
  then show ?thesis
    using assms(1) by (simp add: failPending_def db_exec_def quiet_def update_deployments_def checked_ok)
qed

lemma scan_all_total: "list_all decodes rs \<Longrightarrow> \<exists>xs. scan_all rs = Inr xs \<and> map app_row xs = rs"
  by (induction rs) (auto simp: sum_bind_def decodes_def scanApp_row)

text \<open>
  C10. After a crash, reconciliation leaves no ghost state: while the database answers, no deployment is
  left pending, building or deploying and no app is left building or deploying. Reconciliation itself
  does not fail once the apps could be read.
\<close>

theorem Reconcile_settles:
  fixes w :: "('d, 'c, 'x) hostdb_scheme"
  assumes "quiet w" and "schema_ok w" and "list_all decodes (apps w)"
  shows "fst (Reconcile en w) = Inr () \<and>
    list_all (\<lambda>d. \<not> in_flight (dp_status d)) (deployments (snd (Reconcile en w))) \<and>
    list_all (\<lambda>a. \<not> busy (a_status a)) (apps (snd (Reconcile en w)))"
proof -
  have "list_all decodes (sort_key a_created_at (apps w))" using assms(3) by (simp add: list_all_iff)
  then obtain xs where xs: "scan_all (sort_key a_created_at (apps w)) = Inr xs"
    and rows: "map app_row xs = sort_key a_created_at (apps w)"
    using scan_all_total by blast
  define v where "v = snd (failPending (tick w))"
  have run: "Reconcile en w = for_each (reconcile_app en) xs v"
    using xs assms(1) by (simp add: Reconcile_def ListAll_def app_list_def bnd_def db_query_def quiet_def lift_res_def
        attempt_def v_def split: prod.split)
  have v: "v = tick ((tick w)\<lparr>deployments := update_where (\<lambda>d. in_flight (dp_status d))
    (\<lambda>d. d\<lparr>dp_status := ''failed'', dp_finished_at := Some (unixepoch (tick w))\<rparr>) (deployments w)\<rparr>)"
    unfolding v_def using assms by (subst failPending_run) (auto simp: quiet_def)
  have "schema_ok v"
    unfolding v_def by (rule keeps_snd [OF sch.table_R(2)]) (simp add: assms)
  moreover have "app_row ` set xs = set (apps w)" using rows by (metis list.set_map set_sort)
  ultimately have "unsettled xs v"
    using assms unfolding unsettled_def v by (auto simp: quiet_def image_iff) (metis image_iff)
  note fin = reconcile_all_settles [OF this, of en]
  have "moves same_deploys (reconcile_app en x)" for x
    unfolding reconcile_app_def Let_def by (intro dep.host_rules dep.SetStatus_R dep.inspectAppContainer_R)
  then have "moves same_deploys (for_each (reconcile_app en) xs)" by (rule dep.frame_for_each)
  then have "deployments (snd (for_each (reconcile_app en) xs v)) = deployments v"
    using moves_snd by (fastforce simp: same_deploys_def)
  moreover have "list_all (\<lambda>d. \<not> in_flight (dp_status d)) (deployments v)"
    by (auto simp: v update_where_def list_all_iff in_flight_def)
  ultimately show ?thesis
    unfolding run using fin by (auto simp: unsettled_def list_all_iff)
qed

section \<open>The health check ends\<close>

text \<open>Time passes: the clock leaves every instant behind for good.\<close>

definition clock_runs :: "environ \<Rightarrow> bool" where
  "clock_runs o1 \<longleftrightarrow> (\<forall>t. \<exists>N. \<forall>n \<ge> N. t < o_now o1 n)"

lemma health_loop_ends:
  fixes w :: "('d, 'c, 'x) hostdb_scheme"
  assumes "\<And>n. n \<ge> N \<Longrightarrow> deadline < o_now (orc w) n" and "\<And>n. en_Done en n \<noteq> Some ErrStillChecking"
    and "N - stp w < k" and "k \<le> k'"
  shows "health_loop en m u c deadline k' le w = health_loop en m u c deadline k le w \<and>
    fst (health_loop en m u c deadline k le w) \<noteq> Inl ErrStillChecking"
  using assms
proof (induction k arbitrary: k' le w)
  case (Suc k)
  then obtain j where k': "k' = Suc j" "k \<le> j" by (metis Suc_le_D Suc_le_mono)
  show ?case
  proof (cases "deadline < o_now (orc w) (stp w)")
    case True
    then show ?thesis
      by (simp add: k' bnd_def time_now_def fail_def ErrStillChecking_def)
  next
    case False
    with Suc.prems(1) have "\<not> N \<le> stp w" by blast
    with Suc.prems(3) have less: "N - Suc (Suc (Suc (stp w))) < k" by simp
    have IH: "health_loop en m u c deadline j (Some e) v = health_loop en m u c deadline k (Some e) v \<and>
        fst (health_loop en m u c deadline k (Some e) v) \<noteq> Inl ErrStillChecking"
      if "v = tick (tick (tick w))" for e v
      by (rule Suc.IH) (use that Suc.prems less k' in simp_all)
    have "\<And>e. en_Done en n = Some e \<Longrightarrow> e \<noteq> ErrStillChecking" for n
      using Suc.prems(2) by blast
    with False IH show ?thesis
      by (auto simp: k' bnd_def time_now_def wrapping_def lift_res_def probe_def wait_def draw_def attempt_def Let_def
          ret_def ErrStillChecking_def split: sum.split option.split)
  qed
qed simp

lemma fuel_irrelevant:
  "wait (en\<lparr>en_fuel := k\<rparr>) = wait en" "probe (en\<lparr>en_fuel := k\<rparr>) = probe en"
  "en_NewRequest (en\<lparr>en_fuel := k\<rparr>) = en_NewRequest en" "en_fuel (en\<lparr>en_fuel := k\<rparr>) = k"
  by (simp_all add: wait_def probe_def [abs_def])

lemma health_loop_fuel: "health_loop (en\<lparr>en_fuel := k\<rparr>) m u c dl n le = health_loop en m u c dl n le"
proof (induction n arbitrary: le)
  case (Suc n)
  show ?case unfolding health_loop.simps fuel_irrelevant Suc.IH ..
qed simp

lemma wait_verdict:
  "wait en v = (Inl e, v') \<Longrightarrow> (\<And>n. en_Done en n \<noteq> Some ErrStillChecking) \<Longrightarrow> e \<noteq> ErrStillChecking"
  by (auto simp: wait_def draw_def split: option.splits)

lemma health_loop_settles:
  assumes "clock_runs (orc v)" and "\<And>n. en_Done en n \<noteq> Some ErrStillChecking"
  shows "\<exists>N. \<forall>fuel. N \<le> fuel \<longrightarrow>
    health_loop en m u c dl fuel None v = health_loop en m u c dl N None v \<and>
    fst (health_loop en m u c dl fuel None v) \<noteq> Inl ErrStillChecking"
proof -
  from assms(1) obtain N where "\<And>n. n \<ge> N \<Longrightarrow> dl < o_now (orc v) n"
    unfolding clock_runs_def by blast
  then have "health_loop en m u c dl k None v = health_loop en m u c dl (Suc N) None v \<and>
      fst (health_loop en m u c dl (Suc N) None v) \<noteq> Inl ErrStillChecking" if "Suc N \<le> k" for k
    by (rule health_loop_ends) (use assms(2) that in \<open>simp_all, linarith?\<close>)
  then show ?thesis by (intro exI [of _ "Suc N"] allI impI) metis
qed

text \<open>
  C11. The health check ends: as long as the clock runs (and the context is not cancelled with the
  model's own marker), there is a number of rounds after which its result no longer depends on how many
  more are allowed, and it is a verdict, not the marker for running out of rounds.
\<close>

theorem healthCheck_ends:
  fixes w :: "('d, 'c, 'x) hostdb_scheme"
  assumes "clock_runs (orc w)" and "\<And>n. en_Done en n \<noteq> Some ErrStillChecking"
  shows "\<exists>N. \<forall>fuel. N \<le> fuel \<longrightarrow>
    healthCheck (en\<lparr>en_fuel := fuel\<rparr>) app name port w = healthCheck (en\<lparr>en_fuel := N\<rparr>) app name port w \<and>
    fst (healthCheck (en\<lparr>en_fuel := fuel\<rparr>) app name port w) \<noteq> Inl ErrStillChecking"
proof (cases "a_health_check_enabled (app_row app)")
  case False
  then show ?thesis
    by (cases "wait en w") (auto simp: healthCheck_def fuel_irrelevant Let_def dest: wait_verdict [OF _ assms(2)])
next
  case True
  define pre :: "('d, 'c, 'x, unit) hostm" where
    "pre = (if a_health_check_start_period (app_row app) > 0 then wait en else ret ())"
  note unfolded = healthCheck_def Let_def fuel_irrelevant health_loop_fuel pre_def [symmetric]
  obtain r v where Pair: "pre w = (r, v)" by (cases "pre w")
  show ?thesis
  proof (cases r)
    case (Inl e)
    then have "wait en w = (Inl e, v)" using Pair by (auto simp: pre_def ret_def split: if_splits)
    then have "e \<noteq> ErrStillChecking" by (rule wait_verdict [OF _ assms(2)])
    with True Pair Inl show ?thesis unfolding unfolded by (simp add: bnd_def [of pre])
  next
    case (Inr y)
    have "clock_runs (orc (tick v))"
      using Pair assms(1) by (auto simp: pre_def wait_def draw_def ret_def split: if_splits)
    from health_loop_settles [OF this assms(2)] True Pair Inr show ?thesis
      unfolding unfolded by (simp add: bnd_def [of pre] bnd_def [of time_now] time_now_def)
  qed
qed

section \<open>Names\<close>

definition volume_char :: "char \<Rightarrow> bool" where
  "volume_char c \<longleftrightarrow> is_lower c \<or> is_digit c \<or> c = CHR ''_'' \<or> c = CHR ''-''"

lemma fold_dashes_chars: "list_all volume_char (fold_dashes s b)"
  by (induction s b rule: fold_dashes.induct) (auto simp: volume_char_def)

lemma trim_cutset_subset: "set (trim_cutset cs s) \<subseteq> set s"
  unfolding trim_cutset_def by (auto dest!: set_dropWhileD)

lemma volume_slugify_chars: "list_all volume_char (volume_slugify s)"
  using fold_dashes_chars [of "to_lower (trim_space s)" False] trim_cutset_subset
  by (fastforce simp: volume_slugify_def Let_def list_all_iff)

text \<open>
  The name of a managed volume is legal for the container engine whatever the app and the mount path
  are called: it has the managed prefix, and every character is a lower-case letter, a digit, an
  underscore or a dash.
\<close>

theorem namedVolumeName_legal:
  "prefix ''prexel-vol-'' (namedVolumeName appName mountPath) \<and>
   list_all (\<lambda>c. is_lower c \<or> is_digit c \<or> c = CHR ''_'' \<or> c = CHR ''-'') (namedVolumeName appName mountPath)"
  using volume_slugify_chars [of appName] volume_slugify_chars [of mountPath]
  unfolding volume_char_def by (simp add: namedVolumeName_def) (simp add: is_lower_def less_eq_char_def)

text \<open>The names are not injective: two apps can share a volume, and two compose services a container.\<close>

lemma namedVolumeName_collides: "namedVolumeName ''a'' ''/b/c'' = namedVolumeName ''a-b'' ''/c''"
  by code_simp

lemma composeCanonicalName_collides: "composeCanonicalName ''a-b'' ''c'' = composeCanonicalName ''a'' ''b-c''"
  by code_simp

end
