(* ===== verification/Deploy_Containers.thy ===== *)
theory Deploy_Containers
  imports Deploy_Frames
begin

text \<open>
  What a swap does to containers. The container engine is a parameter of the model; \<open>docker_law\<close> states
  its documented behaviour in terms of two views of its state: \<open>cont d p n\<close> is the container called
  \<open>n\<close> on the engine of \<open>p\<close> (what it was created from, and whether it was last started or stopped), and
  \<open>target d p k\<close> is the container a key \<open>k\<close> refers to, which may be a name or an identifier, or the
  beginning of one: a key that is no hexadecimal number can only be a name. A call on a key changes
  no container but its target, and calls on images, volumes, networks and processes in a container
  change none.
\<close>

section \<open>The container engine\<close>

type_synonym 'd containers = "'d \<Rightarrow> provider \<Rightarrow> string \<Rightarrow> (container_spec \<times> bool) option"
type_synonym 'd targets = "'d \<Rightarrow> provider \<Rightarrow> string \<Rightarrow> string option"

definition leaves :: "'d containers \<Rightarrow> provider \<Rightarrow> ('d, 'a) call \<Rightarrow> bool" where
  "leaves cont p f \<longleftrightarrow> (\<forall>n d k. cont (snd (f n d)) p k = cont d p k)"

definition touches :: "'d containers \<Rightarrow> 'd targets \<Rightarrow> provider \<Rightarrow> string \<Rightarrow> ('d, 'a) call \<Rightarrow> bool" where
  "touches cont target p k f \<longleftrightarrow> (\<forall>n d x. target d p k \<noteq> Some x \<longrightarrow> cont (snd (f n d)) p x = cont d p x)"

definition nameable :: "string \<Rightarrow> bool" where
  "nameable k \<longleftrightarrow> \<not> list_all is_hex k"

definition create_law :: "'d moby \<Rightarrow> 'd containers \<Rightarrow> 'd targets \<Rightarrow> bool" where
  "create_law mb cont target \<longleftrightarrow>
     (\<forall>p spec n d d' e x. mb_ContainerCreate mb p spec n d = (Inl e, d') \<longrightarrow> cont d' p x = cont d p x) \<and>
     (\<forall>p spec n d d' i. mb_ContainerCreate mb p spec n d = (Inr i, d') \<longrightarrow>
        target d' p i = Some (cs_Name spec) \<and> cont d' p (cs_Name spec) = Some (spec, False) \<and>
        (\<forall>x. x \<noteq> cs_Name spec \<longrightarrow> cont d' p x = cont d p x))"

definition start_law :: "'d moby \<Rightarrow> 'd containers \<Rightarrow> 'd targets \<Rightarrow> bool" where
  "start_law mb cont target \<longleftrightarrow>
     (\<forall>p k n d. (\<forall>x. target (snd (mb_ContainerStart mb p k n d)) p x = target d p x) \<and>
        (\<forall>x. map_option fst (cont (snd (mb_ContainerStart mb p k n d)) p x) = map_option fst (cont d p x)))"

definition rename_law :: "'d moby \<Rightarrow> 'd containers \<Rightarrow> 'd targets \<Rightarrow> bool" where
  "rename_law mb cont target \<longleftrightarrow>
     (\<forall>p k new n d d' e x. mb_ContainerRename mb p k new n d = (Inl e, d') \<longrightarrow> cont d' p x = cont d p x) \<and>
     (\<forall>p k new n d d' u. mb_ContainerRename mb p k new n d = (Inr u, d') \<longrightarrow>
        (\<exists>old. target d p k = Some old \<and> cont d' p new = cont d p old))"

definition docker_law :: "'d moby \<Rightarrow> 'd containers \<Rightarrow> 'd targets \<Rightarrow> bool" where
  "docker_law mb cont target \<longleftrightarrow>
     (\<forall>p. leaves cont p (mb_Client mb p) \<and> (\<forall>x. leaves cont p (mb_ImageRemove mb p x)) \<and>
        (\<forall>x ls. leaves cont p (mb_VolumeCreate mb p x ls)) \<and> (\<forall>k c. leaves cont p (mb_ExecCreate mb p k c)) \<and>
        (\<forall>i. leaves cont p (mb_ExecAttach mb p i)) \<and> (\<forall>i. leaves cont p (mb_ExecRead mb p i)) \<and>
        (\<forall>i. leaves cont p (mb_ExecInspect mb p i)) \<and>
        (\<forall>k. touches cont target p k (mb_ContainerStart mb p k)) \<and>
        (\<forall>k t. touches cont target p k (mb_ContainerStop mb p k t)) \<and>
        (\<forall>k f. touches cont target p k (mb_ContainerRemove mb p k f))) \<and>
     create_law mb cont target \<and> start_law mb cont target \<and> rename_law mb cont target \<and>
     (\<forall>d p k x. nameable k \<longrightarrow> target d p k = Some x \<longrightarrow> x = k)"

section \<open>What keeps a container\<close>

definition same_container ::
  "'d containers \<Rightarrow> provider \<Rightarrow> string \<Rightarrow> ('d, 'c, 'x) hostdb_scheme \<Rightarrow> ('d, 'c, 'x) hostdb_scheme \<Rightarrow> bool" where
  "same_container cont p x w w' \<longleftrightarrow> cont (dockerd w') p x = cont (dockerd w) p x"

interpretation sc: frame "same_container cont p x" for cont p x
  by unfold_locales (auto simp: same_container_def)

definition same_docker :: "('d, 'c, 'x) hostdb_scheme \<Rightarrow> ('d, 'c, 'x) hostdb_scheme \<Rightarrow> bool" where
  "same_docker w w' \<longleftrightarrow> dockerd w' = dockerd w"

interpretation sd: frame same_docker
  by unfold_locales (auto simp: same_docker_def)

lemma same_docker_container: "moves same_docker m \<Longrightarrow> moves (same_container cont p x) m"
  by (auto simp: moves_def same_docker_def same_container_def)

lemma db_same_docker:
  "moves same_docker (updateFields i f)" "moves same_docker (SetStatus i s)" "moves same_docker (publish en a j t)"
  "moves same_docker (imageShortSHA ref n)"
  unfolding updateFields_def SetStatus_def updateStatus_def publish_def imageShortSHA_def Let_def
  by (intro sd.frame_rules moves_intro sd.frame_exec sd.frame_access sd.frame_read [OF service_reads(2)];
      auto simp: same_docker_def statement_defs checked_Inr_iff)+

lemma caddy_same_docker: "moves same_docker (UpsertRoute http sha h u n b)"
proof -
  have "moves same_docker (on_caddy f)" for f
    by (auto simp: moves_def on_caddy_def same_docker_def tick_def split: prod.split)
  then have "moves same_docker (caddy_do http m u b)" for m u b
    unfolding caddy_do_def by (intro sd.frame_rules moves_intro)
  then show ?thesis
    unfolding UpsertRoute_def upsertSingleRoute_def BootstrapBaseConfig_def LoadConfig_def
    by (intro sd.frame_rules moves_intro)
qed

lemma on_docker_leaves: "leaves cont p f \<Longrightarrow> moves (same_container cont p x) (on_docker f)"
  by (auto simp: moves_def on_docker_def same_container_def leaves_def tick_def split: prod.split) (metis snd_conv)

lemma on_docker_touches:
  "touches cont target p k f \<Longrightarrow> (\<And>d. target d p k \<noteq> Some x) \<Longrightarrow> moves (same_container cont p x) (on_docker f)"
  by (auto simp: moves_def on_docker_def same_container_def touches_def tick_def split: prod.split) (metis snd_conv)

lemma docker_lawD:
  assumes "docker_law mb cont target"
  shows "leaves cont p (mb_Client mb p)" "leaves cont p (mb_ImageRemove mb p x)" "leaves cont p (mb_VolumeCreate mb p x ls)"
    "leaves cont p (mb_ExecCreate mb p k c)" "leaves cont p (mb_ExecAttach mb p i)" "leaves cont p (mb_ExecRead mb p i)"
    "leaves cont p (mb_ExecInspect mb p i)" "touches cont target p k (mb_ContainerStart mb p k)"
    "touches cont target p k (mb_ContainerStop mb p k t)" "touches cont target p k (mb_ContainerRemove mb p k f)"
    "create_law mb cont target" "start_law mb cont target" "rename_law mb cont target"
    "nameable k \<Longrightarrow> x \<noteq> k \<Longrightarrow> target d p k \<noteq> Some x"
  using assms unfolding docker_law_def by blast+

text \<open>Calls of the wrapper that leave a container alone.\<close>

lemma wrapper_same_container:
  assumes "docker_law mb cont target"
  shows "moves (same_container cont p x) (RemoveImage mb p ref)"
    and "moves (same_container cont p x) (EnsureVolume mb p name ls)"
    and "moves (same_container cont p x) (Exec mb p name cmd)"
    and "nameable k \<Longrightarrow> x \<noteq> k \<Longrightarrow> moves (same_container cont p x) (StopContainer mb p k t)"
    and "nameable k \<Longrightarrow> x \<noteq> k \<Longrightarrow> moves (same_container cont p x) (RemoveContainer mb p k f)"
  unfolding RemoveImage_def EnsureVolume_def Exec_def StopContainer_def RemoveContainer_def classified_def Let_def
  by (intro sc.frame_rules moves_intro on_docker_leaves docker_lawD [OF assms]
      on_docker_touches [OF docker_lawD(9) [OF assms]] on_docker_touches [OF docker_lawD(10) [OF assms]]; assumption?)+

lemma container_config_name: "container_config mb opts = Inr spec \<Longrightarrow> cs_Name spec = co_Name opts \<and> cs_Image spec = co_Image opts"
  by (auto simp: container_config_def sum_bind_def split: sum.splits)

text \<open>Starting a container: no other container changes; on success it is there, made as asked.\<close>

lemma RunContainer_containers:
  assumes "docker_law mb cont target" and "RunContainer mb p opts w = (r, w')"
  shows "(\<forall>x. x \<noteq> co_Name opts \<longrightarrow> cont (dockerd w') p x = cont (dockerd w) p x) \<and>
    (case r of Inl _ \<Rightarrow> True
     | Inr _ \<Rightarrow> \<exists>spec b. container_config mb opts = Inr spec \<and> cont (dockerd w') p (co_Name opts) = Some (spec, b))"
proof -
  define v where "v = snd (on_docker (mb_Client mb p) w)"
  have "same_container cont p x w v" for x
    unfolding v_def by (rule moves_snd [OF on_docker_leaves [OF docker_lawD(1) [OF assms(1)]]])
  then have client: "cont (dockerd v) p x = cont (dockerd w) p x" for x
    by (simp add: same_container_def)
  show ?thesis
  proof (cases "\<exists>u spec. co_Name opts \<noteq> [] \<and> co_Image opts \<noteq> [] \<and> fst (on_docker (mb_Client mb p) w) = Inr u \<and>
      container_config mb opts = Inr spec")
    case False
    with assms(2) client show ?thesis
      unfolding RunContainer_def v_def
      by (cases "on_docker (mb_Client mb p) w"; cases "container_config mb opts")
        (auto simp: bnd_def lift_res_def fail_def split: if_splits sum.splits)
  next
    case True
    then obtain u spec where ok: "co_Name opts \<noteq> []" "co_Image opts \<noteq> []" "on_docker (mb_Client mb p) w = (Inr u, v)"
      "container_config mb opts = Inr spec"
      by (metis prod.collapse v_def)
    have name: "cs_Name spec = co_Name opts" using container_config_name [OF ok(4)] by simp
    from assms(2) ok have run: "bnd (wrapping ''docker: create'' (on_docker (mb_ContainerCreate mb p spec))) (\<lambda>i.
        bnd (attempt (on_docker (mb_ContainerStart mb p i))) (\<lambda>r.
        case r of
          Inl e \<Rightarrow>
            bnd (attempt (on_docker (mb_ContainerRemove mb p i True))) (\<lambda>_. fail (ErrWrap ''docker: start'' e))
        | Inr _ \<Rightarrow> ret i)) v = (r, w')"
      unfolding RunContainer_def by (simp add: bnd_def [of "on_docker (mb_Client mb p)"] bnd_lift_res)
    obtain rc d1 where c: "mb_ContainerCreate mb p spec (stp v) (dockerd v) = (rc, d1)" by fastforce
    show ?thesis
    proof (cases rc)
      case (Inl e)
      with c docker_lawD(11) [OF assms(1)] have "cont d1 p x = cont (dockerd v) p x" for x
        unfolding create_law_def by blast
      with run c Inl client show ?thesis
        by (auto simp: bnd_def wrapping_def on_docker_def tick_def)
    next
      case (Inr i)
      then have made: "target d1 p i = Some (co_Name opts)" "cont d1 p (co_Name opts) = Some (spec, False)"
        "\<And>x. x \<noteq> co_Name opts \<Longrightarrow> cont d1 p x = cont (dockerd v) p x"
        using c docker_lawD(11) [OF assms(1)] unfolding create_law_def name [symmetric] by blast+
      obtain rs d2 where st: "mb_ContainerStart mb p i (Suc (stp v)) d1 = (rs, d2)" by fastforce
      have started: "target d2 p i = Some (co_Name opts)" "map_option fst (cont d2 p (co_Name opts)) = Some spec"
        using docker_lawD(12) [OF assms(1)] st made(1,2) unfolding start_law_def by (metis snd_conv option.simps(9) fst_conv)+
      have others: "cont d2 p x = cont (dockerd w) p x" if "x \<noteq> co_Name opts" for x
        using docker_lawD(8) [OF assms(1), of p i] st made(1,3) client that unfolding touches_def
        by (metis option.inject snd_conv)
      obtain rr d3 where rm: "mb_ContainerRemove mb p i True (Suc (Suc (stp v))) d2 = (rr, d3)" by fastforce
      have gone: "cont d3 p x = cont (dockerd w) p x" if "x \<noteq> co_Name opts" for x
        using docker_lawD(10) [OF assms(1), of p i True] rm started(1) others that unfolding touches_def
        by (metis option.inject snd_conv)
      from run c Inr st rm started(2) others gone ok(4) show ?thesis
        by (cases rs) (auto simp: bnd_def wrapping_def attempt_def on_docker_def tick_def fail_def ret_def)
    qed
  qed
qed

section \<open>The old container while the candidate starts\<close>

lemma temp_name_simps: "temp_name app t \<noteq> container_name app" "nameable (temp_name app t)" "nameable (legacy_name app)"
  by (simp_all add: temp_name_def legacy_name_def nameable_def is_hex_def is_digit_def less_eq_char_def)

lemma probe_read: "moves only_step (probe en m u)"
  by (simp add: moves_def probe_def rd.R_tick rd.R_refl)

lemma health_loop_read: "moves only_step (health_loop en m u c dl n le)"
proof (induction n arbitrary: le)
  case (Suc n)
  show ?case
    unfolding health_loop.simps Let_def wait_def by (intro rd.frame_rules moves_intro probe_read Suc)
qed (simp add: rd.frame_fail)

lemma healthCheck_read: "moves only_step (healthCheck en app name port)"
  unfolding healthCheck_def Let_def wait_def by (intro rd.frame_rules moves_intro health_loop_read)

lemma volume_mounts_same_container:
  assumes "docker_law (en_moby en) cont target"
  shows "moves (same_container cont p x) (volume_mounts en p app vs)"
proof (induction vs)
  case (Cons v vs)
  show ?case
    unfolding volume_mounts.simps Let_def
    by (intro sc.frame_rules moves_intro wrapper_same_container [OF assms] Cons)
qed (simp add: sc.frame_ret)

lemma candidate_healthy_same_container:
  assumes "docker_law (en_moby en) cont target" and "x \<noteq> temp_name app t"
  shows "moves (same_container cont p x) (candidate_healthy en p app (temp_name app t) ref)"
  unfolding candidate_healthy_def
  by (intro sc.frame_rules moves_intro sc.frame_read [OF healthCheck_read] wrapper_same_container [OF assms(1)]
      temp_name_simps assms(2))

lemma RunContainer_same_container:
  assumes "docker_law mb cont target" and "x \<noteq> co_Name opts"
  shows "moves (same_container cont p x) (RunContainer mb p opts)"
  unfolding moves_def same_container_def
  using RunContainer_containers [OF assms(1) prod.collapse [symmetric]] assms(2) by blast

lemma candidate_opts_simps [simp]:
  "co_Name (candidate_opts app t ref d env bs ms) = t" "co_Image (candidate_opts app t ref d env bs ms) = ref"
  by (simp_all add: candidate_opts_def Let_def)

lemma run_candidate_same_container:
  assumes "docker_law (en_moby en) cont target" and "x \<noteq> temp_name app t"
  shows "moves (same_container cont p x) (run_candidate en app p ref d (temp_name app t) env True)"
  unfolding run_candidate_def app_mounts_def host_bindings_def
  by (intro sc.frame_rules moves_intro sc.frame_read [OF service_reads(8)] wrapper_same_container [OF assms(1)]
      volume_mounts_same_container [OF assms(1)] candidate_healthy_same_container [OF assms]
      RunContainer_same_container [OF assms(1)] temp_name_simps; simp add: assms sc.frame_ret)

text \<open>An app with a domain, all of its domains named.\<close>

definition has_domain :: "string \<Rightarrow> 'x db_scheme \<Rightarrow> bool" where
  "has_domain i w \<longleftrightarrow>
     filter (\<lambda>d. d_app_id d = Some i) (domains w) \<noteq> [] \<and>
     list_all (\<lambda>d. d_name d \<noteq> []) (filter (\<lambda>d. d_app_id d = Some i) (domains w))"

lemma split_domains_named:
  assumes "list_all (\<lambda>d. d_name d \<noteq> []) ds" and "list_all (\<lambda>n. n \<noteq> []) al" and "split_domains ds pr al = (pr', al')"
  shows "list_all (\<lambda>n. n \<noteq> []) al' \<and> (ds = [] \<and> pr = [] \<and> al = [] \<or> pr' \<noteq> [] \<or> al' \<noteq> [])"
  using assms by (induction ds pr al rule: split_domains.induct) (auto split: if_splits)

lemma appDomains_primary:
  assumes "has_domain i w" and "appDomains i w = (Inr (primary, aliases, force), w')"
  shows "primary \<noteq> []"
proof -
  let ?ds = "sort_key d_created_at (filter (\<lambda>d. d_app_id d = Some i) (domains w))"
  have "filter (\<lambda>d. case Some i of None \<Rightarrow> True | Some a \<Rightarrow> d_app_id d = Some a) (domains w) =
      filter (\<lambda>d. d_app_id d = Some i) (domains w)" by simp
  then obtain pr al where s: "split_domains ?ds [] [] = (pr, al)"
    and r: "primary = (if pr = [] \<and> al \<noteq> [] then hd al else pr)"
    using assms(2)
    by (auto simp: appDomains_def domain_list_def bnd_eq_Inr_iff db_query_eq_Inr_iff ret_def Let_def
        split: prod.splits if_splits)
  have "list_all (\<lambda>d. d_name d \<noteq> []) ?ds" "?ds \<noteq> []"
    using assms(1) by (auto simp: has_domain_def list_all_iff) (metis length_0_conv length_sort)
  with split_domains_named [OF _ _ s] have "list_all (\<lambda>n. n \<noteq> []) al" "pr \<noteq> [] \<or> al \<noteq> []" by simp_all
  with r show ?thesis by (cases al) auto
qed

lemma runtime_env_read: "moves only_step (runtime_env en app)"
  unfolding runtime_env_def by (intro rd.frame_rules moves_intro ResolveRuntime_read)

lemma appDomains_read: "moves only_step (appDomains i)"
  unfolding appDomains_def Let_def by (intro rd.frame_rules moves_intro service_reads)

lemma pre_deploy_none: "hook (a_pre_deploy_command (app_row app)) = None \<Longrightarrow> pre_deploy en p app = ret ()"
  by (simp add: pre_deploy_def)

lemma start_candidate_keeps:
  fixes w :: "('d, 'c, 'x) hostdb_scheme"
  assumes "docker_law (en_moby en) cont target" and "x \<noteq> temp_name app t"
    and "hook (a_pre_deploy_command (app_row app)) = None" and "has_domain (a_id (app_row app)) w"
    and "start_candidate en app p ref d (temp_name app t) w = (r, w')"
  shows "cont (dockerd w') p x = cont (dockerd w) p x"
proof -
  obtain e1 w1 where env: "runtime_env en app w = (e1, w1)" by fastforce
  obtain n where w1: "w1 = w\<lparr>stp := n\<rparr>" by (rule only_stepE [OF runtime_env_read env])
  obtain e2 w2 where dom: "wrapping ''load domains'' (appDomains (a_id (app_row app))) w1 = (e2, w2)" by fastforce
  obtain k where w2: "w2 = w1\<lparr>stp := k\<rparr>" by (rule only_stepE [OF rd.frame_wrapping [OF appDomains_read] dom])
  note pre = pre_deploy_none [OF assms(3)]
  show ?thesis
  proof (cases e1)
    case (Inl e)
    with assms(5) env w1 show ?thesis by (auto simp add: start_candidate_def pre bnd_def [of "runtime_env en app"])
  next
    case e1: (Inr envMap)
    show ?thesis
    proof (cases e2)
      case (Inl e)
      with assms(5) env e1 dom w1 w2 show ?thesis
        by (auto simp add: start_candidate_def pre bnd_def [of "runtime_env en app"] bnd_def [of "wrapping m f" for m f])
    next
      case (Inr y)
      obtain primary aliases force where y: "y = (primary, aliases, force)" by (cases y)
      have "has_domain (a_id (app_row app)) w1" using assms(4) w1 by (simp add: has_domain_def)
      moreover have "appDomains (a_id (app_row app)) w1 = (Inr (primary, aliases, force), w2)"
        using dom Inr y by (simp add: wrapping_eq_Inr_iff)
      ultimately have primary: "primary \<noteq> []" by (rule appDomains_primary)
      have run: "bnd (run_candidate en app p ref d (temp_name app t) envMap True)
          (\<lambda>_. ret (if primary = [] then [] else primary # aliases, force)) w2 = (r, w')"
        using assms(5) env e1 dom Inr y primary
        by (simp add: start_candidate_def pre bnd_def [of "runtime_env en app"] bnd_def [of "wrapping m f" for m f])
      have mv: "moves (same_container cont p x) (bnd (run_candidate en app p ref d (temp_name app t) envMap True)
          (\<lambda>_. ret (if primary = [] then [] else primary # aliases, force)))"
        by (intro sc.frame_rules run_candidate_same_container [OF assms(1,2)])
      from movesD [OF mv run] w1 w2 show ?thesis by (simp add: same_container_def)
    qed
  qed
qed

text \<open>Up to the old container's removal, and after it only the rename can fail.\<close>

lemma drop_old_returns: "fst (drop_old en p ns v) = Inr ()"
  unfolding drop_old_def by (induction ns arbitrary: v) (simp_all add: ret_def bnd_attempt bnd_assoc)

lemma route_canonical_returns: "fst (route_canonical en app force hosts v) = Inr ()"
proof -
  have "fst (for_each (\<lambda>h. bnd (attempt (g h)) (\<lambda>_. ret ())) hs v) = Inr ()" for g hs v
    by (induction hs arbitrary: v) (simp_all add: ret_def bnd_attempt bnd_assoc)
  then show ?thesis by (auto simp: route_canonical_def ret_def split: option.split)
qed

lemma post_deploy_returns: "fst (post_deploy en p app v) = Inr ()"
  by (auto simp: post_deploy_def bnd_attempt ret_def split: option.split)

lemma promote_candidate_keeps:
  fixes w :: "('d, 'c, 'x) hostdb_scheme"
  assumes "promote_candidate en app p t hf w = (Inl e, w')"
  shows "cont (dockerd w') p x = cont (dockerd w) p x \<or> (\<exists>e'. e = ErrWrap ''rename'' e')"
proof -
  obtain hosts force where hf: "hf = (hosts, force)" by (cases hf)
  have route: "moves same_docker (route_candidate en app force t hosts)"
    unfolding route_candidate_def by (intro sd.frame_rules moves_intro caddy_same_docker)
  obtain r v where rt: "route_candidate en app force t hosts w = (r, v)" by fastforce
  with movesD [OF route rt] have v: "dockerd v = dockerd w" by (simp add: same_docker_def)
  show ?thesis
  proof (cases r)
    case (Inl e0)
    with assms rt hf v show ?thesis by (simp add: promote_candidate_def bnd_def [of "route_candidate a b c d e" for a b c d e])
  next
    case (Inr u)
    let ?v = "snd (drop_old en p (legacyDedupe [container_name app, legacy_name app]) v)"
    from assms rt hf Inr have "bnd (wrapping ''rename'' (RenameContainer (en_moby en) p t (container_name app))) (\<lambda>_.
        bnd (route_canonical en app force hosts) (\<lambda>_. post_deploy en p app)) ?v = (Inl e, w')"
      by (simp add: promote_candidate_def bnd_def [of "route_candidate a b c d e" for a b c d e] bnd_total [OF drop_old_returns])
    then show ?thesis
      using route_canonical_returns [of en app force hosts] post_deploy_returns [of en p app]
      unfolding bnd_eq_Inl_iff wrapping_eq_Inl_iff by (metis Inl_Inr_False fst_conv)
  qed
qed

lemma imageShortSHA_returns: "\<exists>s. fst (imageShortSHA ref n w) = Inr s"
  by (simp add: imageShortSHA_def Let_def ret_def bnd_def new_uuid_def)

text \<open>The first steps of a swap leave the container engine and the domains alone and fix the candidate's name.\<close>

lemma swap_start:
  fixes w :: "('d, 'c, 'x) hostdb_scheme"
  obtains s v where "dockerd v = dockerd w" and "domains v = domains w"
    and "swap en app p ref d w =
      bnd (start_candidate en app p ref d (temp_name app s)) (promote_candidate en app p (temp_name app s)) v"
proof -
  define first :: "('d, 'c, 'x, string) hostm" where
    "first = bnd (attempt (updateFields (dp_id d) (\<lambda>r. r\<lparr>dp_status := ''deploying''\<rparr>))) (\<lambda>_.
       bnd (attempt (SetStatus (a_id (app_row app)) ''deploying'')) (\<lambda>_.
       bnd (publish en (a_id (app_row app)) (dp_id d) ''app.status_changed'') (\<lambda>_.
       imageShortSHA ref (a_name (app_row app)))))"
  have mv: "moves same_docker first" "moves same_inputs first"
    unfolding first_def
    by (intro sd.frame_rules db_same_docker inp.host_rules inp.updateFields_R inp.SetStatus_R inp.imageShortSHA_R
        harmless_intros TrueI)+
  obtain s where s: "fst (first w) = Inr s"
    using imageShortSHA_returns by (simp add: first_def bnd_attempt bnd_publish) blast
  have "swap en app p ref d = bnd first (\<lambda>s. bnd (start_candidate en app p ref d (temp_name app s))
      (promote_candidate en app p (temp_name app s)))"
    by (simp add: swap_def Let_def bnd_assoc first_def)
  then have "swap en app p ref d w =
      bnd (start_candidate en app p ref d (temp_name app s)) (promote_candidate en app p (temp_name app s)) (snd (first w))"
    by (simp add: bnd_total [where m = first and w = w, OF s])
  moreover have "dockerd (snd (first w)) = dockerd w" "domains (snd (first w)) = domains w"
    using moves_snd [OF mv(1), of w] moves_snd [OF mv(2), of w] by (simp_all add: same_docker_def same_inputs_def)
  ultimately show thesis using that by blast
qed

text \<open>
  C4. No downtime from a failed deployment: for an app with a domain and no pre-deploy hook, when the
  swap fails, the container that serves the app is exactly as it was (not stopped, not replaced), unless
  the failure is that of renaming the candidate, which comes after the old container was removed.
\<close>

theorem failed_swap_keeps_container:
  fixes w :: "('d, 'c, 'x) hostdb_scheme"
  assumes "docker_law (en_moby en) cont target" and "hook (a_pre_deploy_command (app_row app)) = None"
    and "has_domain (a_id (app_row app)) w" and "swap en app p ref d w = (Inl e, w')"
  shows "cont (dockerd w') p (container_name app) = cont (dockerd w) p (container_name app) \<or>
    (\<exists>e'. e = ErrWrap ''rename'' e')"
proof -
  obtain s v where v: "dockerd v = dockerd w" "domains v = domains w" and "swap en app p ref d w =
      bnd (start_candidate en app p ref d (temp_name app s)) (promote_candidate en app p (temp_name app s)) v"
    by (rule swap_start)
  with assms(4) have run:
    "bnd (start_candidate en app p ref d (temp_name app s)) (promote_candidate en app p (temp_name app s)) v = (Inl e, w')"
    by simp
  have dom: "has_domain (a_id (app_row app)) v" using assms(3) v by (simp add: has_domain_def)
  have start: "cont (dockerd u) p (container_name app) = cont (dockerd w) p (container_name app)"
    if "start_candidate en app p ref d (temp_name app s) v = (r, u)" for r u
    using start_candidate_keeps [OF assms(1) temp_name_simps(1) [symmetric] assms(2) dom that] v by simp
  from run show ?thesis
    unfolding bnd_eq_Inl_iff
  proof (elim disjE exE conjE)
    fix hf u
    assume st: "start_candidate en app p ref d (temp_name app s) v = (Inr hf, u)"
      and "promote_candidate en app p (temp_name app s) hf u = (Inl e, w')"
    from promote_candidate_keeps [OF this(2), of cont "container_name app"] start [OF st] show ?thesis by simp
  qed (simp add: start)
qed

section \<open>The new container after a success\<close>

definition runs_image :: "'d containers \<Rightarrow> 'd \<Rightarrow> provider \<Rightarrow> string \<Rightarrow> string \<Rightarrow> bool" where
  "runs_image cont d p name ref \<longleftrightarrow> (\<exists>spec b. cont d p name = Some (spec, b) \<and> cs_Image spec = ref)"

lemma candidate_healthy_Inr:
  assumes "candidate_healthy en p app t ref w = (Inr u, w')"
  shows "dockerd w' = dockerd w"
proof -
  obtain r v where h: "healthCheck en app t (container_port app) w = (r, v)" by fastforce
  obtain n where "v = w\<lparr>stp := n\<rparr>" by (rule only_stepE [OF healthCheck_read h])
  with assms h show ?thesis
    by (cases r) (simp_all add: candidate_healthy_def bnd_attempt ret_def fail_def, auto)
qed

lemma run_candidate_Inr:
  fixes w :: "('d, 'c, 'x) hostdb_scheme"
  assumes "docker_law (en_moby en) cont target" and "run_candidate en app p ref d t env b w = (Inr u, w')"
  shows "runs_image cont (dockerd w') p t ref"
proof -
  from assms(2) obtain v i v' opts where run: "RunContainer (en_moby en) p opts v = (Inr i, v')"
    and healthy: "candidate_healthy en p app t ref v' = (Inr u, w')" and "co_Name opts = t" "co_Image opts = ref"
    unfolding run_candidate_def bnd_eq_Inr_iff wrapping_eq_Inr_iff by fastforce
  then show ?thesis
    using RunContainer_containers [OF assms(1) run] container_config_name candidate_healthy_Inr [OF healthy]
    by (fastforce simp: runs_image_def)
qed

lemma start_candidate_Inr:
  assumes "docker_law (en_moby en) cont target" and "start_candidate en app p ref d t w = (Inr hf, w')"
  shows "runs_image cont (dockerd w') p t ref"
proof -
  from assms(2) obtain env hasDomain u v where "run_candidate en app p ref d t env hasDomain v = (Inr u, w')"
    unfolding start_candidate_def by (auto simp: bnd_eq_Inr_iff ret_def)
  then show ?thesis by (rule run_candidate_Inr [OF assms(1)])
qed

lemma drop_old_same_container:
  assumes "docker_law (en_moby en) cont target" and "list_all (\<lambda>n. nameable n \<and> x \<noteq> n) ns"
  shows "moves (same_container cont p x) (drop_old en p ns)"
  using assms(2)
proof (induction ns)
  case (Cons n ns)
  then have n: "nameable n" "x \<noteq> n" and all: "list_all (\<lambda>n. nameable n \<and> x \<noteq> n) ns" by simp_all
  note rest = Cons.IH [OF all, unfolded drop_old_def]
  show ?case
    unfolding drop_old_def for_each.simps
    by (intro sc.frame_bnd sc.frame_attempt sc.frame_ret rest wrapper_same_container [OF assms(1)] n)
qed (simp add: drop_old_def sc.frame_ret)

lemma legacyDedupe_all: "list_all P ns \<Longrightarrow> list_all P (legacyDedupe ns)"
proof -
  have "list_all P ns \<Longrightarrow> list_all P (dedupe_loop ns seen)" for seen
    by (induction ns seen rule: dedupe_loop.induct) auto
  then show "list_all P ns \<Longrightarrow> list_all P (legacyDedupe ns)" by (simp add: legacyDedupe_def)
qed

lemma after_rename_same_docker:
  "moves same_docker (route_candidate en app force t hosts)" "moves same_docker (route_canonical en app force hosts)"
  unfolding route_candidate_def route_canonical_def by (intro sd.frame_rules moves_intro caddy_same_docker)+

lemma post_deploy_same_container:
  "docker_law (en_moby en) cont target \<Longrightarrow> moves (same_container cont p x) (post_deploy en p app)"
  unfolding post_deploy_def by (intro sc.frame_rules moves_intro wrapper_same_container)

lemma RenameContainer_Inr:
  fixes w :: "('d, 'c, 'x) hostdb_scheme"
  assumes "docker_law mb cont target" and "nameable k" and "RenameContainer mb p k new w = (Inr u, w')"
  shows "cont (dockerd w') p new = cont (dockerd w) p k"
proof -
  from assms(3) obtain c v where cl: "on_docker (mb_Client mb p) w = (Inr c, v)"
    and "classified mb ErrContainerNotFound ''docker: rename'' (on_docker (mb_ContainerRename mb p k new)) v = (Inr u, w')"
    unfolding RenameContainer_def bnd_eq_Inr_iff by blast
  then have "on_docker (mb_ContainerRename mb p k new) v = (Inr u, w')"
    by (cases "on_docker (mb_ContainerRename mb p k new) v")
      (auto simp: classified_def bnd_attempt fail_def ret_def split: sum.splits if_splits)
  then obtain d' where r: "mb_ContainerRename mb p k new (stp v) (dockerd v) = (Inr u, d')" and w': "dockerd w' = d'"
    by (auto simp: on_docker_def tick_def split: prod.splits)
  with docker_lawD(13) [OF assms(1)] obtain old where old: "target (dockerd v) p k = Some old" "cont d' p new = cont (dockerd v) p old"
    unfolding rename_law_def by blast
  have "old = k" using docker_lawD(14) [OF assms(1,2)] old(1) by blast
  moreover have "cont (dockerd v) p k = cont (dockerd w) p k"
    using movesD [OF on_docker_leaves [OF docker_lawD(1) [OF assms(1)]] cl] by (simp add: same_container_def)
  ultimately show ?thesis using old(2) w' by simp
qed

lemma promote_candidate_Inr:
  fixes w :: "('d, 'c, 'x) hostdb_scheme"
  assumes "docker_law (en_moby en) cont target" and "promote_candidate en app p (temp_name app s) hf w = (Inr u, w')"
    and "nameable (container_name app)" and "temp_name app s \<noteq> legacy_name app"
  shows "cont (dockerd w') p (container_name app) = cont (dockerd w) p (temp_name app s)"
proof -
  obtain hosts force where hf: "hf = (hosts, force)" by (cases hf)
  let ?old = "legacyDedupe [container_name app, legacy_name app]"
  from assms(2) hf obtain u1 v1 v2 u3 v3 u4 v4 where
    r1: "route_candidate en app force (temp_name app s) hosts w = (Inr u1, v1)" and
    r2: "drop_old en p ?old v1 = (Inr (), v2)" and
    r3: "RenameContainer (en_moby en) p (temp_name app s) (container_name app) v2 = (Inr u3, v3)" and
    r4: "route_canonical en app force hosts v3 = (Inr u4, v4)" and r5: "post_deploy en p app v4 = (Inr u, w')"
    by (auto simp: promote_candidate_def bnd_eq_Inr_iff wrapping_eq_Inr_iff)
  have names: "list_all (\<lambda>n. nameable n \<and> temp_name app s \<noteq> n) ?old"
    using assms(3,4) temp_name_simps(1,3) by (intro legacyDedupe_all) simp
  have "cont (dockerd v2) p (temp_name app s) = cont (dockerd w) p (temp_name app s)"
    using movesD [OF after_rename_same_docker(1) r1] movesD [OF drop_old_same_container [OF assms(1) names] r2]
    by (simp add: same_docker_def same_container_def)
  moreover have "cont (dockerd v3) p (container_name app) = cont (dockerd v2) p (temp_name app s)"
    by (rule RenameContainer_Inr [OF assms(1) temp_name_simps(2) r3])
  moreover have "cont (dockerd w') p (container_name app) = cont (dockerd v3) p (container_name app)"
    using movesD [OF after_rename_same_docker(2) r4] movesD [OF post_deploy_same_container [OF assms(1)] r5]
    by (simp add: same_docker_def same_container_def)
  ultimately show ?thesis by simp
qed

text \<open>
  C5. After a successful swap the app's canonical container is the one created from the requested image,
  whatever was there before. (The app goes by its own name, and that name is not a hexadecimal number,
  which the container engine could take for the beginning of another container's identifier.)
\<close>

theorem swap_installs_image:
  fixes w :: "('d, 'c, 'x) hostdb_scheme"
  assumes "docker_law (en_moby en) cont target" and "container_name app = a_name (app_row app)"
    and "nameable (a_name (app_row app))" and "swap en app p ref d w = (Inr u, w')"
  shows "runs_image cont (dockerd w') p (a_name (app_row app)) ref"
proof -
  obtain s v where "swap en app p ref d w =
      bnd (start_candidate en app p ref d (temp_name app s)) (promote_candidate en app p (temp_name app s)) v"
    by (rule swap_start)
  with assms(4) obtain hf v' where start: "start_candidate en app p ref d (temp_name app s) v = (Inr hf, v')"
    and promote: "promote_candidate en app p (temp_name app s) hf v' = (Inr u, w')"
    by (auto simp: bnd_eq_Inr_iff)
  have "length (temp_name app s) \<noteq> length (legacy_name app)"
    by (simp add: temp_name_def legacy_name_def assms(2))
  then have "temp_name app s \<noteq> legacy_name app" by metis
  with promote_candidate_Inr [OF assms(1) promote] start_candidate_Inr [OF assms(1) start] assms(2,3) show ?thesis
    by (simp add: runs_image_def)
qed

end
