(* ===== verification/Deploy_Witness.thy ===== *)
theory Deploy_Witness
  imports Deploy_Admission Deploy_Props Deploy_Containers Fixtures
begin

text \<open>
  A concrete container engine, proxy and deploy engine for the witnesses. The container engine keeps an
  association list from names to what was created under the name and whether it was started; keys are
  names, and creating a name twice fails. The proxy accepts everything.
\<close>

type_synonym fx_dock = "(string \<times> container_spec \<times> bool) list"

definition fx_missing :: err where
  "fx_missing = ErrNew ''No such object''"

definition fx_on :: "string \<Rightarrow> (container_spec \<times> bool \<Rightarrow> container_spec \<times> bool) \<Rightarrow> fx_dock \<Rightarrow> (err + unit) \<times> fx_dock" where
  "fx_on k f d =
     (if k \<in> fst ` set d then (Inr (), map (\<lambda>(n, c). if n = k then (n, f c) else (n, c)) d)
      else (Inl fx_missing, d))"

definition fx_create :: "container_spec \<Rightarrow> fx_dock \<Rightarrow> (err + string) \<times> fx_dock" where
  "fx_create spec d =
     (if cs_Name spec \<in> fst ` set d then (Inl (ErrNew ''Conflict''), d)
      else (Inr (cs_Name spec), d @ [(cs_Name spec, spec, False)]))"

definition fx_remove :: "string \<Rightarrow> fx_dock \<Rightarrow> (err + unit) \<times> fx_dock" where
  "fx_remove k d =
     (if k \<in> fst ` set d then (Inr (), filter (\<lambda>(n, c). n \<noteq> k) d) else (Inl fx_missing, d))"

definition fx_rename :: "string \<Rightarrow> string \<Rightarrow> fx_dock \<Rightarrow> (err + unit) \<times> fx_dock" where
  "fx_rename k new d =
     (if k \<notin> fst ` set d then (Inl fx_missing, d)
      else if new \<in> fst ` set d then (Inl (ErrNew ''Conflict''), d)
      else (Inr (), map (\<lambda>(n, c). (if n = k then new else n, c)) d))"

definition fx_moby :: "fx_dock moby" where
  "fx_moby =
     \<lparr>mb_Client = (\<lambda>p n d. (Inr (), d)), mb_IsErrNotFound = (\<lambda>e. e = fx_missing),
      mb_NewPort = (\<lambda>proto n. Inr (n @ ''/'' @ proto)),
      mb_ContainerCreate = (\<lambda>p spec n d. fx_create spec d),
      mb_ContainerStart = (\<lambda>p k n d. fx_on k (\<lambda>(c, b). (c, True)) d),
      mb_ContainerStop = (\<lambda>p k t n d. fx_on k (\<lambda>(c, b). (c, False)) d),
      mb_ContainerRestart = (\<lambda>p k t n d. fx_on k (\<lambda>(c, b). (c, True)) d),
      mb_ContainerRemove = (\<lambda>p k f n d. fx_remove k d),
      mb_ContainerRename = (\<lambda>p k k' n d. fx_rename k k' d),
      mb_ContainerInspect = (\<lambda>p k n d. (case map_of d k of None \<Rightarrow> Inl fx_missing | Some c \<Rightarrow> Inr (snd c), d)),
      mb_ContainerList = (\<lambda>p fs n d. (Inr (map (\<lambda>(k, c). \<lparr>lc_Names = [''/'' @ k], lc_Labels = cs_Labels (fst c)\<rparr>) d), d)),
      mb_ExecCreate = (\<lambda>p k cmd n d. (if k \<in> fst ` set d then Inr k else Inl fx_missing, d)),
      mb_ExecAttach = (\<lambda>p k n d. (Inr (), d)), mb_ExecRead = (\<lambda>p k n d. (Inr [], d)),
      mb_ExecInspect = (\<lambda>p k n d. (Inr 0, d)), mb_ImageInspect = (\<lambda>p k n d. (Inr (), d)),
      mb_ImageList = (\<lambda>p n d. (Inr [], d)), mb_ImageRemove = (\<lambda>p k n d. (Inr (), d)),
      mb_VolumeCreate = (\<lambda>p k ls n d. (Inr (), d)), mb_NetworkInspect = (\<lambda>p k n d. (Inr (), d)),
      mb_NetworkCreate = (\<lambda>p k n d. (Inr (), d))\<rparr>"

definition fx_http :: "unit http" where
  "fx_http m path body n c = (Inr \<lparr>rp_StatusCode = 200, rp_Text = [], rp_Body = EmptyBody\<rparr>, c)"

text \<open>The health check of the engine \<open>fx_engine code\<close> always sees the status \<open>code\<close>.\<close>

definition fx_engine :: "int \<Rightarrow> (fx_dock, unit) engine" where
  "fx_engine code =
     \<lparr>en_moby = fx_moby, en_http = Some fx_http, en_sha1 = (\<lambda>s. replicate 20 0), en_Servers = fx_cipher,
      en_Secrets = None, en_AppVolumes = True, en_Bus = True, en_Limit = Some (\<lambda>n. 2), en_LogDir = ''/logs'',
      en_build = (\<lambda>p app bo n d. (Inr \<lparr>br_ImageRef = ''prexel-web-abc:1'', br_CommitSHA = ''abc'', br_Compose = None\<rparr>, d)),
      en_Create = (\<lambda>path n. Inr ()), en_writeKeyFile = (\<lambda>n. Inr ()), en_listen = (\<lambda>n p. True),
      en_NewRequest = (\<lambda>m u. Inr ()), en_probe = (\<lambda>m u n d. Inr code), en_Done = (\<lambda>n. None), en_fuel = 3\<rparr>"

definition fx_spec :: "string \<Rightarrow> string \<Rightarrow> container_spec" where
  "fx_spec name img =
     \<lparr>cs_Name = name, cs_Image = img, cs_Cmd = [], cs_Env = [], cs_Labels = [], cs_Ports = [],
      cs_RestartPolicy = ''always'', cs_AutoRemove = False, cs_Resources = no_resources, cs_Mounts = [],
      cs_Network = PrexelNetwork, cs_Aliases = []\<rparr>"

definition fx_domain :: domain_row where
  "fx_domain =
     \<lparr>d_id = ''d1'', d_name = ''x.io'', d_app_id = Some ''a1'', d_is_primary = True, d_ssl_status = ''active'',
      d_ssl_expires_at = None, d_zone_id = None, d_covered_by_wildcard = False, d_dns_verified = True,
      d_dns_verified_at = None, d_dns_last_check = None, d_dns_check_count = 0, d_service = None, d_port = None,
      d_force_https = True, d_created_at = 0, d_updated_at = 0\<rparr>"

definition fx_deployment :: "string \<Rightarrow> string \<Rightarrow> deployment_row" where
  "fx_deployment i status =
     \<lparr>dp_id = i, dp_app_id = ''a1'', dp_commit_sha = None, dp_commit_msg = None, dp_branch = None,
      dp_image_tag = Some ''prexel-web-1:1'', dp_rollback_of = None, dp_status = status, dp_log_path = None,
      dp_error_message = None, dp_started_at = None, dp_finished_at = None, dp_created_at = 0\<rparr>"

definition fx_host :: "(fx_dock, unit) hostdb" where
  "fx_host =
     db.extend (fx_apps\<lparr>orc := quiet_env\<lparr>o_now := (\<lambda>n. int n * 40000000000)\<rparr>,
         domains := [fx_domain], deployments := [fx_deployment ''dep0'' ''success''],
         apps := [(fx_app ''a1'' ''web'')\<lparr>a_health_check_enabled := True, a_health_check_start_period := 0, a_port := Some 8,
                    a_status := ''running''\<rparr>]\<rparr>)
       (hostdb.fields [(''web'', fx_spec ''web'' ''old'', True)] () [] None [])"

definition fx_opts :: DeployOptions where
  "fx_opts = \<lparr>op_Branch = [], op_CommitSHA = [], op_ImageTag = [], op_DeploymentID = ''dep1''\<rparr>"

lemma fx_host_schema: "schema_ok fx_host"
  by code_simp


lemma fx_host_simps [simp]:
  "quiet fx_host" "locks fx_host = []" "globalSlots fx_host = None" "clock_runs (orc fx_host)"
proof -
  have "\<forall>n \<ge> nat (\<bar>t\<bar> + 1). t < int n * 40000000000" for t :: int by auto
  then show "clock_runs (orc fx_host)" unfolding clock_runs_def fx_host_def by (simp add: db.defs hostdb.defs) blast
qed (simp_all add: quiet_def fx_host_def db.defs hostdb.defs)

text \<open>The fixture's container engine keeps the laws.\<close>

definition fx_cont :: "fx_dock containers" where
  "fx_cont d p k = map_of d k"

definition fx_target :: "fx_dock targets" where
  "fx_target d p k = (if k \<in> fst ` set d then Some k else None)"

lemma fx_on_map: "map_of (map (\<lambda>(n, c). if n = k then (n, f c) else (n, c)) d) x =
    (if x = k then map_option f (map_of d k) else map_of d x)"
  by (induction d) auto

lemma fx_on_names: "map fst (map (\<lambda>(n, c). if n = k then (n, f c) else (n, c)) d) = map fst d"
  by (induction d) auto

lemma fx_rename_map:
  "new \<notin> fst ` set d \<Longrightarrow> map_of (map (\<lambda>(n, c). (if n = k then new else n, c)) d) new = map_of d k"
  by (induction d) auto

lemma fx_remove_map: "x \<noteq> k \<Longrightarrow> map_of (filter (\<lambda>(n, c). n \<noteq> k) d) x = map_of d x"
  by (induction d) auto

lemma fx_create_map: "map_of (d @ [(k, c)]) x = (if x \<in> fst ` set d then map_of d x else if x = k then Some c else None)"
  by (induction d) auto

lemma fx_absent: "x \<notin> fst ` set d \<Longrightarrow> map_of d x = None"
  by (simp add: map_of_eq_None_iff)

lemma fx_on_touches: "fx_target d p k \<noteq> Some x \<Longrightarrow> fx_cont (snd (fx_on k f d)) p x = fx_cont d p x"
  by (auto simp: fx_on_def fx_cont_def fx_target_def fx_on_map split: if_splits)

lemma fx_create_law: "create_law fx_moby fx_cont fx_target"
  by (auto simp: create_law_def fx_moby_def fx_create_def fx_cont_def fx_target_def fx_create_map fx_absent
      simp del: map_of_append split: if_splits)

lemma fx_start_law: "start_law fx_moby fx_cont fx_target"
proof -
  have "fst ` set (snd (fx_on k f d)) = fst ` set d" for k f d
    using arg_cong [OF fx_on_names [of k f d], of set] by (simp add: fx_on_def image_image)
  moreover have "map_option fst (map_of (snd (fx_on k (\<lambda>(c, b). (c, True)) d)) x) = map_option fst (map_of d x)" for k d x
    by (simp add: fx_on_def fx_on_map option.map_comp) (simp add: comp_def split_def)
  ultimately show ?thesis by (simp add: start_law_def fx_moby_def fx_target_def fx_cont_def)
qed

lemma fx_rename_law: "rename_law fx_moby fx_cont fx_target"
  by (auto simp: rename_law_def fx_moby_def fx_rename_def fx_cont_def fx_target_def fx_rename_map split: if_splits)

lemma fx_law: "docker_law fx_moby fx_cont fx_target"
  unfolding docker_law_def
proof (intro conjI allI fx_create_law fx_start_law fx_rename_law)
  show "touches fx_cont fx_target p k (mb_ContainerStart fx_moby p k)" for p k
    by (simp add: touches_def fx_moby_def fx_on_touches)
  show "touches fx_cont fx_target p k (mb_ContainerStop fx_moby p k t)" for p k t
    by (simp add: touches_def fx_moby_def fx_on_touches)
  show "touches fx_cont fx_target p k (mb_ContainerRemove fx_moby p k f)" for p k f
    by (auto simp: touches_def fx_moby_def fx_remove_def fx_cont_def fx_target_def fx_remove_map split: if_splits)
qed (auto simp: leaves_def fx_moby_def fx_target_def)


section \<open>Witnesses\<close>

theorem admission_refines_witness:
  "\<exists>w. deploys_step (configured (Some 2)) {} {''a1''} \<and>
     admission_step (fx_engine 200) (fx_host\<lparr>locks := [''a1'']\<rparr>, [(''a1'', Locked)]) (w, [(''a1'', Running)])"
proof -
  define v where "v = fx_host\<lparr>locks := [''a1'']\<rparr>"
  define w where "w = tick (v\<lparr>globalSlots := Some (2, 1)\<rparr>)"
  have "acquireLock ''a1'' fx_host = (Inr True, v)" by (simp add: acquireLock_eq v_def)
  from admission_step.locked [OF this, of "fx_engine 200" "[]"]
  have run: "(admission_step (fx_engine 200))\<^sup>*\<^sup>* (fx_host, []) (v, [(''a1'', Locked)])" by simp
  have "acquireGlobalSlot (fx_engine 200) v = (Inr True, w)"
    by (simp add: acquireGlobalSlot_eq w_def v_def slots_once_def fx_engine_def)
  from admission_step.slot [OF this, of "[]" _ "[]"]
  have step: "admission_step (fx_engine 200) (v, [(''a1'', Locked)]) (w, [(''a1'', Running)])" by simp
  have "fixed_limit (Some 2) (fx_engine 200)" by (simp add: fixed_limit_def fx_engine_def)
  from admission_refines [OF _ _ this run step] step show ?thesis by (auto simp: v_def running_def)
qed

theorem one_deploy_per_app_witness:
  "\<exists>w. distinct (map fst [(''a1'', Locked)]) \<and> length (running [(''a1'', Locked)]) \<le> (case globalSlots w of None \<Rightarrow> 0 | Some (cap, _) \<Rightarrow> cap) \<and>
     (admission_step (fx_engine 200))\<^sup>*\<^sup>* (fx_host, []) (w, [(''a1'', Locked)])"
proof -
  have "acquireLock ''a1'' fx_host = (Inr True, fx_host\<lparr>locks := [''a1'']\<rparr>)" by (simp add: acquireLock_eq)
  from admission_step.locked [OF this, of "fx_engine 200" "[]"]
  have run: "(admission_step (fx_engine 200))\<^sup>*\<^sup>* (fx_host, []) (fx_host\<lparr>locks := [''a1'']\<rparr>, [(''a1'', Locked)])" by simp
  have "en_Limit (fx_engine 200) = Some (\<lambda>n. 2)" by (simp add: fx_engine_def)
  from one_deploy_per_app [OF _ _ this run] run show ?thesis by auto
qed

theorem deployments_accounted_witness:
  "accounted (deployments fx_host) (fst (Deploy (fx_engine 200) ''web'' fx_opts fx_host))
     (snd (Deploy (fx_engine 200) ''web'' fx_opts fx_host)) \<and> quiet fx_host \<and> schema_ok fx_host"
  using deployments_accounted [OF fx_host_schema fx_host_simps(1)] fx_host_schema by simp

definition fx_swap_app :: App where
  "fx_swap_app = \<lparr>app_row = hd (apps fx_host), app_EnvVars = [], app_DockerLabels = []\<rparr>"

text \<open>An engine that admits everything and creates no container.\<close>

definition fx_broken :: "(fx_dock, unit) engine" where
  "fx_broken =
     (fx_engine 500)\<lparr>en_Limit := None, en_moby := fx_moby\<lparr>mb_ContainerCreate := (\<lambda>p spec n d. (Inl fx_missing, d))\<rparr>\<rparr>"

lemma fx_tables:
  "\<not> o_fault (orc fx_host) n" "servers fx_host = [fx_server]" "deployments fx_host = [fx_deployment ''dep0'' ''success'']"
  "stp fx_host = 0" "find (\<lambda>a. a_name a = ''web'') (apps fx_host) = Some (app_row fx_swap_app)"
  by (simp_all add: fx_swap_app_def fx_host_def fx_apps_def fx_db_def fx_app_def db.defs hostdb.defs)

lemma fx_app_row: "scanApp (app_row fx_swap_app) = Inr fx_swap_app" "a_id (app_row fx_swap_app) = ''a1''"
  "a_server_id (app_row fx_swap_app) = Some ''s1''"
  by (simp_all add: scanApp_def fx_swap_app_def fx_host_def fx_apps_def fx_app_def db.defs hostdb.defs)

lemmas fx_run = go_simps bnd_def attempt_def wrapping_def lift_res_def db_query_row_def db_query_def tick_def fx_tables fx_app_row

lemma fx_get: "app_Get ''web'' fx_host = (Inr fx_swap_app, fx_host\<lparr>stp := 1\<rparr>)"
proof -
  have "trim_space ''web'' = ''web''" "\<not> uuidRegex ''web''" by code_simp+
  then show ?thesis by (simp add: app_Get_def app_getByName_def app_query_def fx_run)
qed

lemma fx_dep0: "rollback_target fx_swap_app ''dep0'' (fx_host\<lparr>stp := Suc 0, locks := ls\<rparr>) =
    (Inr (fx_deployment ''dep0'' ''success''), fx_host\<lparr>stp := 2, locks := ls\<rparr>)"
  by (simp add: rollback_target_def deploy_get_def scanDeployment_def fx_run fx_deployment_def)

lemma fx_provider: "Provider f c ''s1'' (fx_host\<lparr>stp := 2, locks := ls\<rparr>) =
    (Inr (LocalProvider ''local''), fx_host\<lparr>stp := 3, locks := ls\<rparr>)"
  by (simp add: Provider_def server_get_def fx_run fx_server_def NewLocalProvider_def)

lemma fx_from_image:
  "map_sum error_text (dp_id \<circ> fst) (fst (runFromImage fx_broken fx_swap_app (LocalProvider ''local'') ''prexel-web-1:1'' ''dep0'' ''dep1''
     (fx_host\<lparr>locks := [''a1''], stp := 5\<rparr>))) = Inr ''dep1''"
  by code_simp

lemma fst_deferring: "fst (deferring c m w) = fst (m w)"
  by (cases "m w") (simp add: deferring_def bnd_attempt lift_res_def)


lemma fx_broken_simps:
  "en_Limit fx_broken = None" "mb_Client (en_moby fx_broken) p n d = (Inr (), d)" "mb_ImageInspect (en_moby fx_broken) p k n d = (Inr (), d)"
  by (simp_all add: fx_broken_def fx_engine_def fx_moby_def)

lemma fx_rollback: "fst (Rollback fx_broken ''web'' ''dep0'' fx_opts fx_host) =
    fst (runFromImage fx_broken fx_swap_app (LocalProvider ''local'') ''prexel-web-1:1'' ''dep0'' ''dep1''
      (fx_host\<lparr>locks := [''a1''], stp := 5\<rparr>))"
proof -
  have "dp_image_tag (fx_deployment i s) = Some ''prexel-web-1:1''" "dp_id (fx_deployment i s) = i" "op_DeploymentID fx_opts = ''dep1''"
    "derefStr (Some x) = x" "locks fx_host = []" for i s x
    by (simp_all add: fx_deployment_def fx_opts_def derefStr_def)
  then show ?thesis
    by (simp add: Rollback_def rollback_body_def admitted_def acquireLock_def access_def fst_deferring acquireGlobalSlot_def
      on_docker_def fx_broken_simps fx_get fx_dep0 fx_provider fx_run)
qed

theorem Rollback_restores_success_witness:
  "\<exists>d r w' t. Rollback fx_broken ''web'' ''dep0'' fx_opts fx_host = (Inr (d, r), w') \<and>
     restorable (deployments fx_host) ''a1'' t \<and> dp_app_id d = ''a1'' \<and> dp_rollback_of d = Some ''dep0''"
proof -
  obtain d r where "fst (Rollback fx_broken ''web'' ''dep0'' fx_opts fx_host) = Inr (d, r)"
    using fx_from_image unfolding fx_rollback [symmetric]
    by (cases "fst (Rollback fx_broken ''web'' ''dep0'' fx_opts fx_host)") auto
  from Rollback_restores_success [OF fst_result [OF this]] fst_result [OF this] show ?thesis
    by (auto simp: fx_get fx_app_row)
qed

lemma fx_decodes: "list_all decodes (apps (fx_host\<lparr>deployments := ds\<rparr>))"
  by (simp add: decodes_def scanApp_def fx_host_def fx_apps_def fx_app_def db.defs hostdb.defs)

theorem Reconcile_settles_witness:
  "fst (Reconcile (fx_engine 200) (fx_host\<lparr>deployments := [fx_deployment ''dep0'' ''building'']\<rparr>)) = Inr () \<and>
   list_all (\<lambda>d. \<not> in_flight (dp_status d))
     (deployments (snd (Reconcile (fx_engine 200) (fx_host\<lparr>deployments := [fx_deployment ''dep0'' ''building'']\<rparr>))))"
proof -
  have "quiet (fx_host\<lparr>deployments := [fx_deployment ''dep0'' ''building'']\<rparr>)"
    using fx_host_simps(1) by (simp add: quiet_def)
  moreover have "schema_ok (fx_host\<lparr>deployments := [fx_deployment ''dep0'' ''building'']\<rparr>)" by code_simp
  ultimately show ?thesis using Reconcile_settles [OF _ _ fx_decodes] by blast
qed

theorem healthCheck_ends_witness:
  "\<exists>N. fst (healthCheck ((fx_engine 500)\<lparr>en_fuel := N\<rparr>) \<lparr>app_row = fx_app ''a1'' ''web'', app_EnvVars = [], app_DockerLabels = []\<rparr>
     ''web'' 8 fx_host) \<noteq> Inl ErrStillChecking"
proof -
  have "en_Done (fx_engine 500) n \<noteq> Some ErrStillChecking" for n by (simp add: fx_engine_def)
  from healthCheck_ends [OF fx_host_simps(4) this] show ?thesis by blast
qed

lemma fx_swap_bad:
  "map_sum error_text id (fst (swap (fx_engine 500) fx_swap_app (LocalProvider []) ''new'' (fx_deployment ''dep0'' ''building'') fx_host)) =
     Inl ''health check: after: status''"
  by code_simp

lemma fx_swap_ok:
  "fst (swap (fx_engine 200) fx_swap_app (LocalProvider []) ''new'' (fx_deployment ''dep0'' ''building'') fx_host) = Inr ()"
  by code_simp

theorem failed_swap_keeps_container_witness:
  "fx_cont (dockerd (snd (swap (fx_engine 500) fx_swap_app (LocalProvider []) ''new'' (fx_deployment ''dep0'' ''building'') fx_host)))
     (LocalProvider []) ''web'' = Some (fx_spec ''web'' ''old'', True)"
proof -
  let ?x = "swap (fx_engine 500) fx_swap_app (LocalProvider []) ''new'' (fx_deployment ''dep0'' ''building'') fx_host"
  obtain e where e: "fst ?x = Inl e" and msg: "error_text e = ''health check: after: status''"
    using fx_swap_bad by (cases "fst ?x") auto
  have app: "has_domain (a_id (app_row fx_swap_app)) fx_host" "hook (a_pre_deploy_command (app_row fx_swap_app)) = None"
    "container_name fx_swap_app = ''web''" by code_simp+
  have law: "docker_law (en_moby (fx_engine 500)) fx_cont fx_target" using fx_law by (simp add: fx_engine_def)
  have "fx_cont (dockerd fx_host) p ''web'' = Some (fx_spec ''web'' ''old'', True)" for p
    by (simp add: fx_cont_def fx_host_def db.defs hostdb.defs)
  moreover have "e \<noteq> ErrWrap ''rename'' e'" for e' using msg by auto
  ultimately show ?thesis
    using failed_swap_keeps_container [OF law app(2,1) fst_result [OF e]] app(3) by simp
qed

theorem swap_installs_image_witness:
  "runs_image fx_cont (dockerd (snd (swap (fx_engine 200) fx_swap_app (LocalProvider []) ''new''
     (fx_deployment ''dep0'' ''building'') fx_host))) (LocalProvider []) ''web'' ''new''"
proof -
  have "a_name (app_row fx_swap_app) = ''web''" "container_name fx_swap_app = ''web''" "nameable ''web''" by code_simp+
  moreover have "docker_law (en_moby (fx_engine 200)) fx_cont fx_target" using fx_law by (simp add: fx_engine_def)
  ultimately show ?thesis using swap_installs_image [OF _ _ _ fst_result [OF fx_swap_ok]] by simp
qed

end
