(* ===== verification/DnsZone.thy ===== *)
theory DnsZone
  imports Database Fixtures
begin

text \<open>
  The zones of the domain names an operator manages (\<open>internal/dnszone/zone.go\<close>): finding the
  registrable name of a host, keeping one row per such name, and probing its records. The list of
  public suffixes (\<open>golang.org/x/net/publicsuffix\<close>), the parser of addresses and the resolver are
  parameters: \<open>EffectiveTLDPlusOne\<close> as a partial function on names, \<open>net.ParseIP\<close> as the set of texts
  it accepts, a lookup as a function of the name and of the step at which it is made.
\<close>

section \<open>Parameters\<close>

datatype dns_err = DnsNotFound | DnsOther string

record netlib =
  EffectiveTLDPlusOne :: "string \<Rightarrow> err + string"
  parses_as_ip :: "string \<Rightarrow> bool"
  LookupHost :: "string \<Rightarrow> nat \<Rightarrow> string list \<times> dns_err option"

text \<open>The registrable name of a host name is one of its suffixes.\<close>

definition suffix_law :: "netlib \<Rightarrow> bool" where
  "suffix_law lib \<longleftrightarrow> (\<forall>s a. EffectiveTLDPlusOne lib s = Inr a \<longrightarrow> suffix a s)"

section \<open>Zones\<close>

record Zone =
  zn_ID :: string
  zn_Apex :: string
  zn_TargetIP :: string
  zn_ApexVerified :: bool
  zn_ApexVerifiedAt :: "int option"
  zn_ApexLastCheck :: "int option"
  zn_WildcardVerified :: bool
  zn_WildcardVerifiedAt :: "int option"
  zn_WildcardLastCheck :: "int option"
  zn_Notes :: string
  zn_CreatedAt :: int
  zn_UpdatedAt :: int
  zn_SubdomainCount :: nat

definition zone_ErrNotFound :: err where
  "zone_ErrNotFound = ErrNew ''dnszone: not found''"

definition ErrInvalidApex :: err where
  "ErrInvalidApex = ErrNew ''dnszone: invalid apex''"

definition ErrInternalName :: err where
  "ErrInternalName = ErrNew ''dnszone: cannot host internal/non-public name''"

text \<open>\<open>strings.TrimSuffix(s, ".")\<close>.\<close>

definition trim_dot :: "string \<Rightarrow> string" where
  "trim_dot s = (if suffix ''.'' s then butlast s else s)"

definition ApexOf :: "netlib \<Rightarrow> string \<Rightarrow> err + string" where
  "ApexOf lib fqdn =
     (let clean = trim_dot (trim_space (to_lower fqdn))
      in if clean = [] then Inl ErrInvalidApex
         else if parses_as_ip lib clean then Inl ErrInternalName
         else if CHR ''.'' \<notin> set clean then Inl ErrInternalName
         else case EffectiveTLDPlusOne lib clean of
             Inl e \<Rightarrow> Inl (ErrWrap ''publicsuffix'' ErrInvalidApex)
           | Inr registrable \<Rightarrow> Inr registrable)"

definition IsApex :: "netlib \<Rightarrow> string \<Rightarrow> bool" where
  "IsApex lib fqdn =
     (case ApexOf lib fqdn of
        Inl _ \<Rightarrow> False
      | Inr apex \<Rightarrow> to_lower (trim_dot (trim_space fqdn)) = to_lower apex)"

definition zone_scan :: "'x db_scheme \<Rightarrow> zone_row \<Rightarrow> Zone" where
  "zone_scan w z =
     \<lparr>zn_ID = z_id z, zn_Apex = z_apex z, zn_TargetIP = (case z_target_ip z of None \<Rightarrow> [] | Some s \<Rightarrow> s),
      zn_ApexVerified = z_apex_verified z, zn_ApexVerifiedAt = z_apex_verified_at z,
      zn_ApexLastCheck = z_apex_last_check z, zn_WildcardVerified = z_wildcard_verified z,
      zn_WildcardVerifiedAt = z_wildcard_verified_at z, zn_WildcardLastCheck = z_wildcard_last_check z,
      zn_Notes = (case z_notes z of None \<Rightarrow> [] | Some s \<Rightarrow> s), zn_CreatedAt = z_created_at z,
      zn_UpdatedAt = z_updated_at z,
      zn_SubdomainCount = length (filter (\<lambda>d. d_zone_id d = Some (z_id z)) (domains w))\<rparr>"

definition scanOne :: "(zone_row \<Rightarrow> bool) \<Rightarrow> ('x, Zone) dbm" where
  "scanOne p =
     bnd (db_query (\<lambda>w. map_option (zone_scan w) (find p (dns_zones w)))) (\<lambda>r.
     case r of None \<Rightarrow> fail zone_ErrNotFound | Some z \<Rightarrow> ret z)"

definition zone_Get :: "string \<Rightarrow> ('x, Zone) dbm" where
  "zone_Get i = scanOne (\<lambda>z. z_id z = i)"

definition GetByApex :: "string \<Rightarrow> ('x, Zone) dbm" where
  "GetByApex apex = scanOne (\<lambda>z. z_apex z = to_lower apex)"

definition ApexRegistered :: "string \<Rightarrow> ('x, bool) dbm" where
  "ApexRegistered apex =
     db_query (\<lambda>w. length (filter (\<lambda>z. z_apex z = to_lower (trim_space apex)) (dns_zones w)) > 0)"

definition zone_List :: "('x, Zone list) dbm" where
  "zone_List = db_query (\<lambda>w. map (zone_scan w) (sort_key z_apex (dns_zones w)))"

text \<open>A new row: the columns the statement does not name have their defaults.\<close>

definition new_zone :: "string \<Rightarrow> string \<Rightarrow> int \<Rightarrow> zone_row" where
  "new_zone i apex now =
     \<lparr>z_id = i, z_apex = apex, z_target_ip = None, z_apex_verified = False, z_apex_verified_at = None,
      z_apex_last_check = None, z_wildcard_verified = False, z_wildcard_verified_at = None,
      z_wildcard_last_check = None, z_notes = None, z_created_at = now, z_updated_at = now\<rparr>"

definition zone_create :: "string \<Rightarrow> ('x, Zone) dbm" where
  "zone_create apex =
     bnd new_uuid (\<lambda>i.
     bnd (wrapping ''dnszone: insert'' (db_exec (\<lambda>w. insert_zone (new_zone i apex (unixepoch w)) w))) (\<lambda>_.
     zone_Get i))"

text \<open>The row of an apex, made when there is none.\<close>

definition find_or_create :: "string \<Rightarrow> ('x, Zone) dbm" where
  "find_or_create apex =
     bnd (attempt (GetByApex apex)) (\<lambda>r.
     case r of
       Inr z \<Rightarrow> ret z
     | Inl e \<Rightarrow> (if \<not> errors_is e zone_ErrNotFound then fail e else zone_create apex))"

definition EnsureForFQDN :: "netlib \<Rightarrow> string \<Rightarrow> ('x, Zone) dbm" where
  "EnsureForFQDN lib fqdn = bnd (lift_res (ApexOf lib fqdn)) find_or_create"

definition zone_Create :: "netlib \<Rightarrow> string \<Rightarrow> ('x, Zone) dbm" where
  "zone_Create lib apex =
     bnd (case ApexOf lib apex of
            Inl e \<Rightarrow> (case ApexOf lib (''x.'' @ apex) of Inl _ \<Rightarrow> fail e | Inr _ \<Rightarrow> ret ())
          | Inr _ \<Rightarrow> ret ()) (\<lambda>_.
     bnd (case ApexOf lib apex of
            Inl e \<Rightarrow> lift_res (ApexOf lib (''x.'' @ apex))
          | Inr cleaned \<Rightarrow> ret cleaned) find_or_create)"

definition UpdateNotes :: "string \<Rightarrow> string \<Rightarrow> ('x, unit) dbm" where
  "UpdateNotes i notes =
     bnd (db_exec (update_zones (\<lambda>z. z_id z = i) (\<lambda>z. z\<lparr>z_notes := Some notes\<rparr>))) (\<lambda>n.
     if n = 0 then fail zone_ErrNotFound else ret ())"

definition zone_Delete :: "string \<Rightarrow> ('x, unit) dbm" where
  "zone_Delete i =
     bnd (db_exec (delete_zones (\<lambda>z. z_id z = i))) (\<lambda>n.
     if n = 0 then fail zone_ErrNotFound else ret ())"

section \<open>Verification\<close>

record ProbeResult =
  pr_OK :: bool
  pr_ResolvedTo :: "string list"
  pr_Expected :: string
  pr_Probed :: string
  pr_Error :: string

record VerificationResult =
  vr_Apex :: ProbeResult
  vr_Wildcard :: ProbeResult
  vr_Hostname :: "ProbeResult option"

definition containsAddr :: "string list \<Rightarrow> string \<Rightarrow> bool" where
  "containsAddr addrs want \<longleftrightarrow> list_ex (\<lambda>a. a = want) addrs"

definition lookup_host :: "netlib \<Rightarrow> string \<Rightarrow> ('x, string list \<times> dns_err option) go" where
  "lookup_host lib name = draw (\<lambda>n. Inr (LookupHost lib name n))"

definition probeHostname :: "netlib \<Rightarrow> string \<Rightarrow> string \<Rightarrow> ('x, ProbeResult) go" where
  "probeHostname lib fqdn expectedIP =
     bnd (lookup_host lib fqdn) (\<lambda>(addrs, er).
     let out = \<lparr>pr_OK = False, pr_ResolvedTo = addrs, pr_Expected = expectedIP, pr_Probed = fqdn, pr_Error = []\<rparr>
     in ret (case er of
         Some DnsNotFound \<Rightarrow> out
       | Some (DnsOther m) \<Rightarrow> out\<lparr>pr_Error := m\<rparr>
       | None \<Rightarrow> out\<lparr>pr_OK := expectedIP \<noteq> [] \<and> containsAddr addrs expectedIP\<rparr>))"

definition probeApex :: "netlib \<Rightarrow> string \<Rightarrow> string \<Rightarrow> ('x, ProbeResult) go" where
  "probeApex lib apex expectedIP =
     bnd (lookup_host lib apex) (\<lambda>(addrs, er).
     let out = \<lparr>pr_OK = False, pr_ResolvedTo = addrs, pr_Expected = expectedIP, pr_Probed = apex, pr_Error = []\<rparr>
     in ret (case er of
         Some DnsNotFound \<Rightarrow> out
       | Some (DnsOther m) \<Rightarrow> out\<lparr>pr_Error := m\<rparr>
       | None \<Rightarrow> out\<lparr>pr_OK := expectedIP \<noteq> [] \<and> containsAddr addrs expectedIP\<rparr>))"

text \<open>Six random bytes; the buffer keeps its zeros when there is no randomness.\<close>

definition randomLabel :: "('x, string) go" where
  "randomLabel =
     bnd (attempt (rand_read 6)) (\<lambda>r.
     ret (''prxprobe-'' @ hex_encode (case r of Inl _ \<Rightarrow> replicate 6 0 | Inr b \<Rightarrow> b)))"

definition probeWildcard :: "netlib \<Rightarrow> string \<Rightarrow> string \<Rightarrow> ('x, ProbeResult) go" where
  "probeWildcard lib apex expectedIP =
     bnd randomLabel (\<lambda>label.
     let probe = label @ ''.'' @ apex
     in bnd (lookup_host lib probe) (\<lambda>(addrs, er).
        let out = \<lparr>pr_OK = False, pr_ResolvedTo = addrs, pr_Expected = expectedIP, pr_Probed = probe, pr_Error = []\<rparr>
        in ret (case er of
            Some DnsNotFound \<Rightarrow> out
          | Some (DnsOther m) \<Rightarrow> out\<lparr>pr_Error := m\<rparr>
          | None \<Rightarrow>
              (if expectedIP = [] then out\<lparr>pr_OK := addrs \<noteq> []\<rparr>
               else out\<lparr>pr_OK := containsAddr addrs expectedIP\<rparr>))))"

definition record_verification ::
  "string \<Rightarrow> VerificationResult \<Rightarrow> int \<Rightarrow> zone_row \<Rightarrow> zone_row" where
  "record_verification expectedIP res now z =
     z\<lparr>z_target_ip := (if expectedIP \<noteq> [] then Some expectedIP else z_target_ip z),
       z_apex_verified := pr_OK (vr_Apex res),
       z_apex_verified_at := (if pr_OK (vr_Apex res) then Some now else z_apex_verified_at z),
       z_apex_last_check := Some now,
       z_wildcard_verified := pr_OK (vr_Wildcard res),
       z_wildcard_verified_at := (if pr_OK (vr_Wildcard res) then Some now else z_wildcard_verified_at z),
       z_wildcard_last_check := Some now\<rparr>"

definition probe_wanted :: "netlib \<Rightarrow> string \<Rightarrow> string \<Rightarrow> ('x, ProbeResult option) go" where
  "probe_wanted lib hostname expectedIP =
     (if hostname = [] then ret None
      else bnd (probeHostname lib (trim_dot (to_lower (trim_space hostname))) expectedIP) (\<lambda>ph. ret (Some ph)))"

definition persist_verify :: "string \<Rightarrow> string \<Rightarrow> VerificationResult \<Rightarrow> ('x, VerificationResult) dbm" where
  "persist_verify zoneID expectedIP res =
     bnd time_now (\<lambda>t.
     bnd (wrapping ''dnszone: persist verify'' (db_exec (update_zones (\<lambda>z. z_id z = zoneID)
            (record_verification expectedIP res (unix t))))) (\<lambda>_.
     ret res))"

definition zone_Verify :: "netlib \<Rightarrow> string \<Rightarrow> string \<Rightarrow> string \<Rightarrow> ('x, VerificationResult) dbm" where
  "zone_Verify lib zoneID expectedIP hostname =
     bnd (zone_Get zoneID) (\<lambda>z.
     bnd (probeApex lib (zn_Apex z) expectedIP) (\<lambda>pa.
     bnd (probeWildcard lib (zn_Apex z) expectedIP) (\<lambda>pw.
     bnd (probe_wanted lib hostname expectedIP) (\<lambda>ho.
     persist_verify zoneID expectedIP \<lparr>vr_Apex = pa, vr_Wildcard = pw, vr_Hostname = ho\<rparr>))))"

section \<open>One zone per registrable name\<close>

lemma ApexOf_lower:
  assumes "suffix_law lib" and "ApexOf lib fqdn = Inr apex"
  shows "to_lower apex = apex"
proof -
  let ?s = "trim_space (to_lower fqdn)"
  have "to_lower (trim_dot ?s) = trim_dot ?s"
    using to_lower_prefix [of "butlast ?s" "''.''"] to_lower_trim [of fqdn]
    by (auto simp: trim_dot_def suffix_def)
  moreover have "suffix apex (trim_dot ?s)"
    using assms by (auto simp: ApexOf_def suffix_law_def Let_def split: if_splits sum.splits)
  ultimately show ?thesis by (rule to_lower_suffix)
qed

lemma scanOne_Inr:
  "scanOne p w = (Inr z, w') \<longleftrightarrow>
     \<not> o_fault (orc w) (stp w) \<and> w' = tick w \<and> (\<exists>r. find p (dns_zones w) = Some r \<and> z = zone_scan w r)"
  by (auto simp: scanOne_def bnd_eq_Inr_iff db_query_eq_Inr_iff go_simps split: option.splits)

lemma scanOne_not_found:
  "fst (scanOne p w) = Inl zone_ErrNotFound \<Longrightarrow> find p (dns_zones w) = None \<and> snd (scanOne p w) = tick w"
  by (auto simp: scanOne_def bnd_def db_query_def go_simps zone_ErrNotFound_def split: if_splits option.splits)

lemma scanOne_err: "fst (scanOne p w) = Inl e \<Longrightarrow> errors_is e zone_ErrNotFound \<Longrightarrow> e = zone_ErrNotFound"
  by (auto simp: scanOne_def bnd_def db_query_def go_simps zone_ErrNotFound_def split: if_splits option.splits)

lemma zone_scan_ID [simp]: "zn_ID (zone_scan w r) = z_id r" "zn_Apex (zone_scan w r) = z_apex r"
  by (simp_all add: zone_scan_def)

text \<open>The row a call of \<open>find_or_create\<close> returns is the one a lookup by apex finds afterwards.\<close>

lemma zone_create_Inr:
  assumes "zone_create apex w = (Inr z, w')" and "find (\<lambda>r. z_apex r = apex) (dns_zones w) = None"
  shows "\<exists>r. find (\<lambda>r. z_apex r = apex) (dns_zones w') = Some r \<and> z_id r = zn_ID z"
proof -
  from assms(1) obtain i v v' n where ins: "insert_zone (new_zone i apex (unixepoch v)) v = Inr (n, v')"
    and v: "dns_zones v = dns_zones w" and get: "zone_Get i (tick v') = (Inr z, w')"
    by (auto simp: zone_create_def bnd_eq_Inr_iff wrapping_eq_Inr_iff new_uuid_eq_Inr_iff db_exec_eq_Inr_iff)
  define row where "row = new_zone i apex (unixepoch v)"
  from ins have zones: "dns_zones v' = dns_zones w @ [row]" and "schema_ok v'"
    by (auto simp: insert_zone_def checked_Inr_iff row_def v)
  then have "distinct (map z_id (dns_zones w @ [row]))"
    by (simp add: schema_ok_def unique_ok_def deploy_unique_ok_def)
  then have "find (\<lambda>r. z_id r = i) (dns_zones w @ [row]) = Some row"
    by (intro find_key [where k = z_id]) (auto simp: row_def new_zone_def)
  with get zones have "zn_ID z = z_id row" and "w' = tick (tick v')"
    by (auto simp: zone_Get_def scanOne_Inr)
  moreover have "z_apex row = apex" by (simp add: row_def new_zone_def)
  ultimately show ?thesis using zones assms(2) by (simp add: find_append)
qed

lemma find_or_create_Inr:
  assumes "find_or_create apex w = (Inr z, w')" and "to_lower apex = apex"
  shows "\<exists>r. find (\<lambda>r. z_apex r = apex) (dns_zones w') = Some r \<and> z_id r = zn_ID z"
proof (cases "fst (GetByApex apex w)")
  case (Inr z')
  then have g: "GetByApex apex w = (Inr z', snd (GetByApex apex w))" by (metis prod.collapse)
  with Inr assms(1) have "z = z'" "w' = snd (GetByApex apex w)"
    by (simp_all add: find_or_create_def bnd_attempt go_simps)
  with g assms(2) show ?thesis by (auto simp: GetByApex_def scanOne_Inr)
next
  case (Inl e)
  with assms(1) have nf: "errors_is e zone_ErrNotFound" and c: "zone_create apex (snd (GetByApex apex w)) = (Inr z, w')"
    by (auto simp: find_or_create_def bnd_attempt fail_def split: if_splits)
  from nf Inl have "fst (GetByApex apex w) = Inl zone_ErrNotFound" using scanOne_err unfolding GetByApex_def by blast
  with scanOne_not_found assms(2) have "find (\<lambda>r. z_apex r = apex) (dns_zones w) = None" "snd (GetByApex apex w) = tick w"
    unfolding GetByApex_def by fastforce+
  with zone_create_Inr [of apex "tick w" z w'] c show ?thesis by simp
qed

text \<open>
  Once a host name has been given its zone, every further name under the same registrable name is
  given that zone, and no second row is made.
\<close>

theorem one_zone_per_apex:
  assumes "suffix_law lib" and "EnsureForFQDN lib fqdn w = (Inr z, w')"
    and "ApexOf lib other = ApexOf lib fqdn" and "\<not> o_fault (orc w') (stp w')"
  shows "\<exists>z'. EnsureForFQDN lib other w' = (Inr z', tick w') \<and> zn_ID z' = zn_ID z"
proof -
  from assms(2) obtain apex where apex: "ApexOf lib fqdn = Inr apex" and f: "find_or_create apex w = (Inr z, w')"
    by (auto simp: EnsureForFQDN_def bnd_lift_res fail_def split: sum.splits)
  have lower: "to_lower apex = apex" by (rule ApexOf_lower [OF assms(1) apex])
  with find_or_create_Inr [OF f] obtain r where "find (\<lambda>r. z_apex r = apex) (dns_zones w') = Some r" "z_id r = zn_ID z" by blast
  with assms(3,4) apex lower show ?thesis
    by (simp add: EnsureForFQDN_def bnd_lift_res find_or_create_def bnd_attempt GetByApex_def scanOne_def
        attempt_def bnd_def db_query_def go_simps)
qed

section \<open>Verification and deletion\<close>

lemma zone_probes_read:
  "moves only_step (probeApex lib a ip)" "moves only_step (probeWildcard lib a ip)" "moves only_step (probeHostname lib h ip)"
  "moves only_step (zone_Get i)" "moves only_step (probe_wanted lib h ip)"
  unfolding probe_wanted_def probeApex_def probeWildcard_def probeHostname_def randomLabel_def lookup_host_def zone_Get_def scanOne_def Let_def
  by (intro rd.frame_rules moves_intro)+

lemma persist_verify_Inr:
  assumes "persist_verify i ip res w = (Inr res', w')"
  shows "res' = res \<and> (\<exists>t now. dns_zones w' = update_where (\<lambda>z. z_id z = i)
      (\<lambda>z. (record_verification ip res t z)\<lparr>z_updated_at := now\<rparr>) (dns_zones w))"
  using assms by (auto simp: persist_verify_def run_iffs ret_def update_zones_def checked_Inr_iff) blast

text \<open>A probe is positive exactly when the lookup went well and saw the expected address.\<close>

definition resolves :: "netlib \<Rightarrow> string \<Rightarrow> string \<Rightarrow> nat \<Rightarrow> bool" where
  "resolves lib name ip n \<longleftrightarrow>
     snd (LookupHost lib name n) = None \<and> ip \<noteq> [] \<and> ip \<in> set (fst (LookupHost lib name n))"

lemma containsAddr_iff: "containsAddr addrs want \<longleftrightarrow> want \<in> set addrs"
  by (auto simp: containsAddr_def list_ex_iff)

lemma probeApex_Inr:
  "probeApex lib apex ip w = (Inr p, w') \<Longrightarrow> w' = tick w \<and> (pr_OK p \<longleftrightarrow> resolves lib apex ip (stp w))"
  by (auto simp: probeApex_def lookup_host_def run_iffs ret_def Let_def resolves_def containsAddr_iff
      split: prod.splits option.splits dns_err.splits)

lemma probeWildcard_Inr:
  assumes "probeWildcard lib apex ip w = (Inr p, w')" and "pr_OK p" and "ip \<noteq> []"
  shows "\<exists>label n. resolves lib (''prxprobe-'' @ label @ ''.'' @ apex) ip n"
proof -
  from assms(1) obtain label v where l: "randomLabel w = (Inr label, v)"
    by (cases "randomLabel w") (auto simp: probeWildcard_def bnd_def split: sum.splits)
  obtain addrs er where q: "LookupHost lib (label @ ''.'' @ apex) (stp v) = (addrs, er)" by fastforce
  have p: "pr_OK p \<longrightarrow> resolves lib (label @ ''.'' @ apex) ip (stp v)"
    using assms(1,3) l q
    by (auto simp: probeWildcard_def bnd_def lookup_host_def draw_def ret_def Let_def resolves_def containsAddr_iff
        split: option.splits dns_err.splits)
  from l obtain h where "label = ''prxprobe-'' @ h" by (auto simp: randomLabel_def bnd_attempt ret_def)
  with p assms(2) show ?thesis by auto
qed

text \<open>
  Verification of a zone is sound. Afterwards the zone counts as verified exactly when the lookup of
  its apex made by this call gave the expected address, and as having a wildcard record only when a
  name made up for the purpose resolved to the expected address; every other zone is as before.
\<close>

theorem zone_Verify_sound:
  assumes "zone_Verify lib i ip hostname w = (Inr res, w')" and "ip \<noteq> []" and "z \<in> set (dns_zones w')"
    and "z_id z = i" and "schema_ok w"
  shows "z_apex_verified z = resolves lib (z_apex z) ip (Suc (stp w)) \<and>
    (z_wildcard_verified z \<longrightarrow> (\<exists>label n. resolves lib (''prxprobe-'' @ label @ ''.'' @ z_apex z) ip n)) \<and>
    filter (\<lambda>z. z_id z \<noteq> i) (dns_zones w') = filter (\<lambda>z. z_id z \<noteq> i) (dns_zones w)"
proof -
  from assms(1) obtain y v1 pa v2 pw v3 ho v4 where
    r: "zone_Get i w = (Inr y, v1)" "probeApex lib (zn_Apex y) ip v1 = (Inr pa, v2)"
      "probeWildcard lib (zn_Apex y) ip v2 = (Inr pw, v3)" "probe_wanted lib hostname ip v3 = (Inr ho, v4)"
    and up: "persist_verify i ip \<lparr>vr_Apex = pa, vr_Wildcard = pw, vr_Hostname = ho\<rparr> v4 = (Inr res, w')"
    unfolding zone_Verify_def bnd_eq_Inr_iff by blast
  have v4: "dns_zones v4 = dns_zones w"
    using only_step_D [OF movesD [OF zone_probes_read(4) r(1)]] only_step_D [OF movesD [OF zone_probes_read(1) r(2)]]
      only_step_D [OF movesD [OF zone_probes_read(2) r(3)]] only_step_D [OF movesD [OF zone_probes_read(5) r(4)]] by auto
  obtain t now where zones: "dns_zones w' = update_where (\<lambda>z. z_id z = i) (\<lambda>z. (record_verification ip
      \<lparr>vr_Apex = pa, vr_Wildcard = pw, vr_Hostname = ho\<rparr> t z)\<lparr>z_updated_at := now\<rparr>) (dns_zones w)"
    using persist_verify_Inr [OF up] v4 by auto
  from r(1) obtain row where row: "find (\<lambda>z. z_id z = i) (dns_zones w) = Some row" "zn_Apex y = z_apex row" "v1 = tick w"
    by (auto simp: zone_Get_def scanOne_Inr)
  obtain z0 where z0: "z0 \<in> set (dns_zones w)" "z_id z0 = i" "z = (record_verification ip
      \<lparr>vr_Apex = pa, vr_Wildcard = pw, vr_Hostname = ho\<rparr> t z0)\<lparr>z_updated_at := now\<rparr>"
    using assms(3,4) zones by (auto simp: set_update_where record_verification_def split: if_splits)
  have "find (\<lambda>z. z_id z = i) (dns_zones w) = Some z0"
    using assms(5) z0(1,2) by (intro find_key) (auto simp: schema_ok_def unique_ok_def deploy_unique_ok_def)
  with row z0 have apex: "z_apex z = zn_Apex y" "z_apex_verified z = pr_OK pa" "z_wildcard_verified z = pr_OK pw"
    by (simp_all add: record_verification_def)
  have "filter (\<lambda>z. z_id z \<noteq> i) (dns_zones w') = filter (\<lambda>z. z_id z \<noteq> i) (dns_zones w)"
    unfolding zones by (rule filter_update_where_other) (simp add: record_verification_def)
  then show ?thesis
    using probeApex_Inr [OF r(2)] probeWildcard_Inr [OF r(3) _ assms(2)] apex row(3) by (auto simp: tick_def)
qed

text \<open>
  Deleting a zone removes its row and detaches its domains, which are otherwise unchanged.
\<close>

theorem zone_Delete_detaches:
  assumes "zone_Delete i w = (Inr (), w')"
  shows "dns_zones w' = filter (\<lambda>z. z_id z \<noteq> i) (dns_zones w) \<and> i \<in> z_id ` set (dns_zones w) \<and>
    domains w' = map (\<lambda>d. if d_zone_id d = Some i then d\<lparr>d_zone_id := None\<rparr> else d) (domains w)"
proof -
  from assms obtain n v where d: "delete_zones (\<lambda>z. z_id z = i) w = Inr (n, v)" "n \<noteq> 0" "w' = tick v"
    by (auto simp: zone_Delete_def bnd_eq_Inr_iff db_exec_eq_Inr_iff go_simps fail_def split: if_splits)
  then have some: "filter (\<lambda>z. z_id z = i) (dns_zones w) \<noteq> []"
    by (auto simp: delete_zones_def Let_def checked_Inr_iff affected_def)
  then have "set (map z_id (filter (\<lambda>z. z_id z = i) (dns_zones w))) = {i}"
    by (auto simp: filter_empty_conv)
  with d some show ?thesis
    by (auto simp: delete_zones_def Let_def checked_Inr_iff filter_empty_conv split: option.split intro!: map_cong)
qed

section \<open>Witnesses\<close>

definition fx_net :: netlib where
  "fx_net =
     \<lparr>EffectiveTLDPlusOne = (\<lambda>s. if suffix ''x.io'' s then Inr ''x.io'' else Inl (ErrNew ''not registrable'')),
      parses_as_ip = (\<lambda>_. False),
      LookupHost = (\<lambda>name n. if suffix ''x.io'' name then ([''1.2.3.4''], None) else ([], Some DnsNotFound))\<rparr>"

lemma fx_net_suffix: "suffix_law fx_net"
  by (auto simp: suffix_law_def fx_net_def split: if_splits)

theorem one_zone_per_apex_witness:
  "\<exists>z'. fst (EnsureForFQDN fx_net ''b.x.io'' (snd (EnsureForFQDN fx_net ''A.x.io'' fx_db))) = Inr z' \<and> zn_ID z' = ''id-1''"
proof -
  have "map_sum id zn_ID (fst (EnsureForFQDN fx_net ''A.x.io'' fx_db)) = Inr ''id-1''" by code_simp
  then obtain z where z: "fst (EnsureForFQDN fx_net ''A.x.io'' fx_db) = Inr z" and i: "zn_ID z = ''id-1''"
    by (cases "fst (EnsureForFQDN fx_net ''A.x.io'' fx_db)") auto
  have "same_env fx_db (snd (EnsureForFQDN fx_net ''A.x.io'' fx_db))"
    unfolding EnsureForFQDN_def find_or_create_def zone_create_def GetByApex_def zone_Get_def scanOne_def
    by (rule moves_snd, intro env.frame_rules moves_intro env.frame_exec) (auto simp: same_env_def insert_zone_def checked_Inr_iff)
  then have "orc (snd (EnsureForFQDN fx_net ''A.x.io'' fx_db)) = quiet_env" by (simp add: same_env_def)
  moreover have "ApexOf fx_net ''b.x.io'' = ApexOf fx_net ''A.x.io''" by code_simp
  ultimately show ?thesis
    using one_zone_per_apex [OF fx_net_suffix fst_result [OF z], of "''b.x.io''"] i by auto
qed

definition fx_zoned :: db where
  "fx_zoned = fx_db\<lparr>orc := quiet_env\<lparr>o_rand := (\<lambda>_. None)\<rparr>, dns_zones := [new_zone ''z1'' ''x.io'' 0]\<rparr>"

theorem zone_Verify_sound_witness:
  "\<exists>z. z \<in> set (dns_zones (snd (zone_Verify fx_net ''z1'' ''1.2.3.4'' [] fx_zoned))) \<and>
     z_apex_verified z = resolves fx_net (z_apex z) ''1.2.3.4'' 1"
proof -
  let ?v = "zone_Verify fx_net ''z1'' ''1.2.3.4'' [] fx_zoned"
  have "map_sum id (\<lambda>r. pr_OK (vr_Apex r)) (fst ?v) = Inr True" by code_simp
  then obtain r where r: "fst ?v = Inr r" by (cases "fst ?v") auto
  have "map z_id (dns_zones (snd ?v)) = [''z1'']" by code_simp
  then obtain z where z: "z \<in> set (dns_zones (snd ?v))" "z_id z = ''z1''" by (auto simp: map_eq_Cons_conv)
  have "schema_ok fx_zoned" by code_simp
  with zone_Verify_sound [OF fst_result [OF r] _ z(1,2)] z show ?thesis by (auto simp: fx_zoned_def)
qed

theorem zone_Delete_detaches_witness:
  "dns_zones (snd (zone_Delete ''z1'' fx_zoned)) = []"
proof -
  have "fst (zone_Delete ''z1'' fx_zoned) = Inr ()" by code_simp
  from zone_Delete_detaches [OF fst_result [OF this]] show ?thesis by (simp add: fx_zoned_def new_zone_def)
qed

end
