(* ===== verification/Domain_Service.thy ===== *)
theory Domain_Service
  imports DnsZone Caddy Services
begin

text \<open>
  The domains of apps and of the panel (\<open>internal/domains\<close>): service, repository, the pass of the DNS
  check and the pass of the certificate monitor. The resolver and the address parser are those of
  \<open>DnsZone\<close>; a TLS dial is a parameter that yields an error, no certificate, or the fields the monitor
  reads of the first certificate. The collaborators that may be nil in the source (proxy, zones, public
  address, instance address, events) are options of the service record. The timers that start the
  passes are not modelled.
\<close>

section \<open>The service\<close>

datatype dial = DialError | NoPeerCertificates | PeerCertificate string string string int

record 'c dsvc =
  ds_caddy :: "'c http option"
  ds_sha1 :: "string \<Rightarrow> nat list"
  ds_net :: netlib
  ds_zones :: "netlib option"
  ds_publicIP :: "(nat \<Rightarrow> err + string) option"
  ds_instance :: "(nat \<Rightarrow> string) option"
  ds_events :: bool
  ds_dial :: "string \<Rightarrow> nat \<Rightarrow> dial"

definition domain_ErrNotFound :: err where
  "domain_ErrNotFound = ErrNew ''domain: not found''"

definition ErrDuplicate :: err where
  "ErrDuplicate = ErrNew ''domain: name already exists''"

definition ErrInUseByApp :: err where
  "ErrInUseByApp = ErrNew ''domain: in use by an app''"

definition ErrInUseByInstance :: err where
  "ErrInUseByInstance = ErrNew ''domain: in use by the panel instance URL''"

section \<open>Names\<close>

definition normalizeName :: "string \<Rightarrow> string" where
  "normalizeName s0 =
     (let s = to_lower (trim_space s0);
          s = (if prefix ''https://'' s then trim_prefix ''https://'' s
               else if prefix ''http://'' s then trim_prefix ''http://'' s else s);
          s = trim_prefix ''www.'' s
      in rev (dropWhile (\<lambda>c. c = CHR ''/'') (rev s)))"

text \<open>The pattern \<open>hostnameRe\<close>: labels of 1 to 63 letters, digits and inner hyphens, and a last label of
  2 to 63 letters.\<close>

definition label_ok :: "string \<Rightarrow> bool" where
  "label_ok l \<longleftrightarrow>
     l \<noteq> [] \<and> length l \<le> 63 \<and> is_alnum (hd l) \<and> is_alnum (last l) \<and> list_all (\<lambda>c. is_alnum c \<or> c = CHR ''-'') l"

definition hostnameRe :: "string \<Rightarrow> bool" where
  "hostnameRe s \<longleftrightarrow>
     (let ls = split_on (CHR ''.'') s
      in length ls \<ge> 2 \<and> list_all label_ok (butlast ls) \<and>
         2 \<le> length (last ls) \<and> length (last ls) \<le> 63 \<and> list_all is_letter (last ls))"

definition validateName :: "netlib \<Rightarrow> string \<Rightarrow> err + unit" where
  "validateName lib s =
     (if s = [] then Inl (ErrNew ''invalid_domain: empty'')
      else if CHR ''/'' \<in> set s then Inl (ErrNew ''invalid_domain: paths are not allowed'')
      else if CHR ''*'' \<in> set s then Inl (ErrNew ''invalid_domain: wildcards are not supported (v0.1)'')
      else if to_lower s = ''localhost'' then Inl (ErrNew ''invalid_domain: localhost not allowed'')
      else if parses_as_ip lib s then Inl (ErrNew ''invalid_domain: IP addresses not allowed'')
      else if CHR ''.'' \<notin> set s then Inl (ErrNew ''invalid_domain: must contain a dot'')
      else if \<not> hostnameRe s then Inl (ErrNew ''invalid_domain: malformed hostname'')
      else Inr ())"

section \<open>Repository\<close>

definition domain_insertTx :: "domain_row \<Rightarrow> ('x, unit) dbm" where
  "domain_insertTx d =
     bnd (attempt (db_exec (\<lambda>w. insert_domain
            (d\<lparr>d_ssl_expires_at := None, d_dns_verified_at := None, d_dns_last_check := None, d_service := None,
               d_port := None, d_created_at := unixepoch w, d_updated_at := unixepoch w\<rparr>) w))) (\<lambda>r.
     case r of
       Inl e \<Rightarrow> (if e = ErrSql UniqueViolation then fail ErrDuplicate else fail e)
     | Inr _ \<Rightarrow> ret ())"

definition domain_find :: "(domain_row \<Rightarrow> bool) \<Rightarrow> ('x, domain_row) dbm" where
  "domain_find p =
     bnd (attempt (db_query_row (\<lambda>w. find p (domains w)))) (\<lambda>r.
     case r of
       Inl e \<Rightarrow> (if errors_is e (ErrSql NoRows) then fail domain_ErrNotFound else fail e)
     | Inr d \<Rightarrow> ret d)"

definition domain_get :: "string \<Rightarrow> ('x, domain_row) dbm" where
  "domain_get i = domain_find (\<lambda>d. d_id d = i)"

definition domain_getByName :: "string \<Rightarrow> ('x, domain_row) dbm" where
  "domain_getByName name = domain_find (\<lambda>d. d_name d = name)"

definition domain_delete :: "string \<Rightarrow> ('x, unit) dbm" where
  "domain_delete i =
     bnd (db_exec (delete_domains (\<lambda>d. d_id d = i))) (\<lambda>n.
     if n = 0 then fail domain_ErrNotFound else ret ())"

text \<open>\<open>UPDATE domains SET ..., updated_at = unixepoch() WHERE id = ?\<close>, the number of rows ignored.\<close>

definition set_domain :: "string \<Rightarrow> (domain_row \<Rightarrow> domain_row) \<Rightarrow> ('x, unit) dbm" where
  "set_domain i f = bnd (db_exec (update_domains (\<lambda>d. d_id d = i) f)) (\<lambda>_. ret ())"

definition demotePrimaryTx :: "string \<Rightarrow> ('x, unit) dbm" where
  "demotePrimaryTx appID =
     bnd (db_exec (update_domains (\<lambda>d. d_app_id d = Some appID \<and> d_is_primary d) (\<lambda>d. d\<lparr>d_is_primary := False\<rparr>)))
       (\<lambda>_. ret ())"

definition appExistsTx :: "string \<Rightarrow> ('x, bool) dbm" where
  "appExistsTx appID = db_query (\<lambda>w. length (filter (\<lambda>a. a_id a = appID) (apps w)) > 0)"

definition appName :: "string \<Rightarrow> ('x, string) dbm" where
  "appName appID =
     bnd (attempt (db_query_row (\<lambda>w. map_option a_name (find (\<lambda>a. a_id a = appID) (apps w))))) (\<lambda>r.
     case r of
       Inl e \<Rightarrow> (if errors_is e (ErrSql NoRows) then fail ErrAppNotFound else fail e)
     | Inr name \<Rightarrow> ret name)"

definition appPort :: "string \<Rightarrow> ('x, int) dbm" where
  "appPort appID =
     bnd (attempt (db_query_row (\<lambda>w. map_option a_port (find (\<lambda>a. a_id a = appID) (apps w))))) (\<lambda>r.
     case r of
       Inl e \<Rightarrow> (if errors_is e (ErrSql NoRows) then fail ErrAppNotFound else fail e)
     | Inr p \<Rightarrow> ret (case p of None \<Rightarrow> 80 | Some n \<Rightarrow> (if n = 0 then 80 else n)))"

definition listForDNSCheck :: "int \<Rightarrow> ('x, domain_row list) dbm" where
  "listForDNSCheck maxCount =
     db_query (\<lambda>w. filter (\<lambda>d. d_ssl_status d = ''pending'' \<and> d_dns_check_count d < maxCount) (domains w))"

definition listForSSLMonitor :: "('x, domain_row list) dbm" where
  "listForSSLMonitor =
     db_query (\<lambda>w. filter (\<lambda>d. d_ssl_status d = ''issuing'' \<or> d_ssl_status d = ''active'') (domains w))"

definition markDNSVerified :: "string \<Rightarrow> ('x, unit) dbm" where
  "markDNSVerified i =
     bnd time_now (\<lambda>t.
     set_domain i (\<lambda>d. d\<lparr>d_dns_verified := True, d_dns_verified_at := Some (unix t),
       d_dns_last_check := Some (unix t), d_ssl_status := ''issuing''\<rparr>))"

definition updateAppPrimaryTx :: "string \<Rightarrow> string option \<Rightarrow> bool \<Rightarrow> ('x, unit) dbm" where
  "updateAppPrimaryTx i appID primary = set_domain i (\<lambda>d. d\<lparr>d_app_id := appID, d_is_primary := primary\<rparr>)"

definition updateForceHTTPSTx :: "string \<Rightarrow> bool \<Rightarrow> ('x, unit) dbm" where
  "updateForceHTTPSTx i force = set_domain i (\<lambda>d. d\<lparr>d_force_https := force\<rparr>)"

definition updateServiceRouteTx :: "string \<Rightarrow> string option \<Rightarrow> int option \<Rightarrow> ('x, unit) dbm" where
  "updateServiceRouteTx i service port = set_domain i (\<lambda>d. d\<lparr>d_service := service, d_port := port\<rparr>)"

definition setZoneID :: "string \<Rightarrow> string \<Rightarrow> ('x, unit) dbm" where
  "setZoneID i zoneID = set_domain i (\<lambda>d. d\<lparr>d_zone_id := Some zoneID\<rparr>)"

definition setCoveredByWildcard :: "string \<Rightarrow> bool \<Rightarrow> ('x, unit) dbm" where
  "setCoveredByWildcard i covered = set_domain i (\<lambda>d. d\<lparr>d_covered_by_wildcard := covered\<rparr>)"

definition bumpDNSFailure :: "string \<Rightarrow> ('x, unit) dbm" where
  "bumpDNSFailure i =
     bnd time_now (\<lambda>t.
     set_domain i (\<lambda>d. d\<lparr>d_dns_check_count := d_dns_check_count d + 1, d_dns_last_check := Some (unix t)\<rparr>))"

definition markSSLStatus :: "string \<Rightarrow> string \<Rightarrow> int option \<Rightarrow> ('x, unit) dbm" where
  "markSSLStatus i status expiry =
     (case expiry of
        None \<Rightarrow> set_domain i (\<lambda>d. d\<lparr>d_ssl_status := status\<rparr>)
      | Some e \<Rightarrow> set_domain i (\<lambda>d. d\<lparr>d_ssl_status := status, d_ssl_expires_at := Some e\<rparr>))"

definition resetForRetry :: "string \<Rightarrow> ('x, unit) dbm" where
  "resetForRetry i =
     set_domain i (\<lambda>d. d\<lparr>d_dns_check_count := 0, d_dns_verified := False, d_dns_verified_at := None,
       d_dns_last_check := None, d_ssl_status := ''pending'', d_ssl_expires_at := None\<rparr>)"

definition tlsMode :: "('x, string) dbm" where
  "tlsMode =
     bnd (attempt (db_query_row (\<lambda>w. map_option st_value (find (\<lambda>s. st_key s = ''tls_mode'') (settings w))))) (\<lambda>r.
     case r of
       Inl e \<Rightarrow> (if errors_is e (ErrSql NoRows) then ret [] else fail e)
     | Inr v \<Rightarrow> ret v)"

section \<open>Creating a domain\<close>

record CreateInput =
  ci_Name :: string
  ci_AppID :: "string option"
  ci_IsPrimary :: bool
  ci_ForceHTTPS :: "bool option"

definition resolveUpstreamFor ::
  "string option \<Rightarrow> string option \<Rightarrow> int option \<Rightarrow> ('x, string \<times> int) dbm" where
  "resolveUpstreamFor appID service port =
     (case appID of
        None \<Rightarrow> ret (''prexel'', 3000)
      | Some a \<Rightarrow>
          bnd (appName a) (\<lambda>name.
          let app_level = bnd (appPort a) (\<lambda>p. ret (''prexel-'' @ name, p))
          in case (service, port) of
               (Some s, Some p) \<Rightarrow>
                 (if trim_space s \<noteq> [] \<and> p > 0 then ret (''prexel-'' @ name @ ''-'' @ trim_space s, p) else app_level)
             | _ \<Rightarrow> app_level))"

definition resolveUpstream :: "string option \<Rightarrow> ('x, string \<times> int) dbm" where
  "resolveUpstream appID = resolveUpstreamFor appID None None"

definition link_zone :: "'c dsvc \<Rightarrow> string \<Rightarrow> ('x, string option) dbm" where
  "link_zone ds name =
     (case ds_zones ds of
        None \<Rightarrow> ret None
      | Some lib \<Rightarrow>
          bnd (wrapping ''domain: zone linkage'' (EnsureForFQDN lib name)) (\<lambda>z. ret (Some (zn_ID z))))"

definition new_domain :: "CreateInput \<Rightarrow> string \<Rightarrow> string \<Rightarrow> string option \<Rightarrow> domain_row" where
  "new_domain inp i name zoneID =
     \<lparr>d_id = i, d_name = name, d_app_id = ci_AppID inp, d_is_primary = ci_IsPrimary inp, d_ssl_status = ''pending'',
      d_ssl_expires_at = None, d_zone_id = zoneID, d_covered_by_wildcard = False, d_dns_verified = False,
      d_dns_verified_at = None, d_dns_last_check = None, d_dns_check_count = 0, d_service = None, d_port = None,
      d_force_https = (case ci_ForceHTTPS inp of None \<Rightarrow> True | Some b \<Rightarrow> b), d_created_at = 0, d_updated_at = 0\<rparr>"

definition create_tx :: "CreateInput \<Rightarrow> string \<Rightarrow> string option \<Rightarrow> ('x, domain_row) dbm" where
  "create_tx inp name zoneID =
     transaction_as (ErrWrap ''domain: begin'') (ErrWrap ''domain: commit'')
       (bnd (case ci_AppID inp of
               None \<Rightarrow> ret ()
             | Some a \<Rightarrow>
                 bnd (wrapping ''domain: app lookup'' (appExistsTx a)) (\<lambda>ok.
                 if \<not> ok then fail ErrAppNotFound
                 else if ci_IsPrimary inp then wrapping ''domain: demote primary'' (demotePrimaryTx a)
                 else ret ())) (\<lambda>_.
        bnd new_uuid (\<lambda>i.
        bnd (domain_insertTx (new_domain inp i name zoneID)) (\<lambda>_.
        ret (new_domain inp i name zoneID)))))"

text \<open>The route of a new domain; the row stays whatever the proxy answers.\<close>

definition register_route :: "'c dsvc \<Rightarrow> domain_row \<Rightarrow> string \<Rightarrow> int \<Rightarrow> ('d, 'c, 'x, err option) hostm" where
  "register_route ds d upstream port =
     (case ds_caddy ds of
        None \<Rightarrow> ret None
      | Some http \<Rightarrow>
          bnd (attempt (UpsertRoute http (ds_sha1 ds) (d_name d) upstream port (d_force_https d))) (\<lambda>r.
          case r of
            Inl e \<Rightarrow> ret (Some (ErrWrap ''domain: caddy upsert'' e))
          | Inr _ \<Rightarrow>
              bnd (attempt (DisableTLS http (d_name d))) (\<lambda>r2.
              case r2 of
                Inl e \<Rightarrow>
                  (if \<not> errors_is e ErrRouteNotFound then ret (Some (ErrWrap ''domain: caddy disable tls'' e))
                   else ret None)
              | Inr _ \<Rightarrow> ret None)))"

definition domain_Create :: "'c dsvc \<Rightarrow> CreateInput \<Rightarrow> ('d, 'c, 'x, domain_row \<times> err option) hostm" where
  "domain_Create ds inp =
     (let name = normalizeName (ci_Name inp)
      in bnd (lift_res (validateName (ds_net ds) name)) (\<lambda>_.
         bnd (link_zone ds name) (\<lambda>zoneID.
         bnd (resolveUpstream (ci_AppID inp)) (\<lambda>(upstream, port).
         bnd (create_tx inp name zoneID) (\<lambda>d0.
         bnd (attempt (domain_get (d_id d0))) (\<lambda>r.
         let d = (case r of Inl _ \<Rightarrow> d0 | Inr persisted \<Rightarrow> persisted)
         in bnd (register_route ds d upstream port) (\<lambda>e. ret (d, e))))))))"

section \<open>Deleting and updating\<close>

text \<open>The checks before the row goes, with the route taken from the proxy.\<close>

definition delete_checks :: "'c dsvc \<Rightarrow> string \<Rightarrow> ('d, 'c, 'x, unit) hostm" where
  "delete_checks ds i =
     bnd (domain_get i) (\<lambda>d.
     if (case d_app_id d of None \<Rightarrow> False | Some a \<Rightarrow> a \<noteq> []) then fail ErrInUseByApp
     else
       bnd (case ds_instance ds of
              None \<Rightarrow> ret False
            | Some url \<Rightarrow> draw (\<lambda>n. Inr (url n \<noteq> [] \<and> to_lower (url n) = to_lower (d_name d)))) (\<lambda>panel.
       if panel then fail ErrInUseByInstance
       else
         case ds_caddy ds of
           None \<Rightarrow> ret ()
         | Some http \<Rightarrow> bnd (attempt (RemoveRoute http (ds_sha1 ds) (d_name d))) (\<lambda>_. ret ())))"

definition domain_Delete :: "'c dsvc \<Rightarrow> string \<Rightarrow> ('d, 'c, 'x, unit) hostm" where
  "domain_Delete ds i = bnd (delete_checks ds i) (\<lambda>_. domain_delete i)"

record UpdateInput =
  ui_AppID :: "string option"
  ui_ClearAppID :: bool
  ui_IsPrimary :: "bool option"
  ui_Service :: "string option"
  ui_Port :: "int option"
  ui_ClearService :: bool
  ui_ForceHTTPS :: "bool option"

record domain_change =
  ch_AppID :: "string option"
  ch_Service :: "string option"
  ch_Port :: "int option"
  ch_ForceHTTPS :: bool
  ch_serviceChanged :: bool
  ch_forceHTTPSChanged :: bool

definition next_app :: "UpdateInput \<Rightarrow> domain_row \<Rightarrow> ('x, string option) dbm" where
  "next_app inp d =
     (if ui_ClearAppID inp then ret None
      else
        case ui_AppID inp of
          None \<Rightarrow> ret (d_app_id d)
        | Some a \<Rightarrow>
            (let v = trim_space a
             in if v = [] then ret None
                else
                  bnd (wrapping ''domain: app lookup'' (appExistsTx v)) (\<lambda>ok.
                  if \<not> ok then fail ErrAppNotFound else ret (Some v))))"

definition update_rows ::
  "string \<Rightarrow> string option \<Rightarrow> bool \<Rightarrow> (string option \<times> int option) option \<Rightarrow> bool option \<Rightarrow> ('x, unit) dbm" where
  "update_rows i newAppID newPrimary route force =
     bnd (case newAppID of
            None \<Rightarrow> ret ()
          | Some a \<Rightarrow> (if newPrimary then wrapping ''domain: demote primary'' (demotePrimaryTx a) else ret ())) (\<lambda>_.
     bnd (updateAppPrimaryTx i newAppID newPrimary) (\<lambda>_.
     bnd (case route of
            None \<Rightarrow> ret ()
          | Some (service, port) \<Rightarrow> wrapping ''domain: update service route'' (updateServiceRouteTx i service port)) (\<lambda>_.
     case force of
       None \<Rightarrow> ret ()
     | Some b \<Rightarrow> wrapping ''domain: update force_https'' (updateForceHTTPSTx i b))))"

definition update_tx :: "string \<Rightarrow> UpdateInput \<Rightarrow> domain_row \<Rightarrow> ('x, domain_change) dbm" where
  "update_tx i inp d =
     bnd (next_app inp d) (\<lambda>newAppID.
     let newPrimary = newAppID \<noteq> None \<and> (case ui_IsPrimary inp of None \<Rightarrow> d_is_primary d | Some b \<Rightarrow> b);
         serviceChanged = ui_ClearService inp \<or> ui_Service inp \<noteq> None \<or> ui_Port inp \<noteq> None;
         newService = (if ui_ClearService inp then None else if serviceChanged then ui_Service inp else d_service d);
         newPort = (if ui_ClearService inp then None else if serviceChanged then ui_Port inp else d_port d)
     in bnd (update_rows i newAppID newPrimary (if serviceChanged then Some (newService, newPort) else None) (ui_ForceHTTPS inp)) (\<lambda>_.
        ret \<lparr>ch_AppID = newAppID, ch_Service = newService, ch_Port = newPort,
             ch_ForceHTTPS = (case ui_ForceHTTPS inp of None \<Rightarrow> d_force_https d | Some b \<Rightarrow> b),
             ch_serviceChanged = serviceChanged,
             ch_forceHTTPSChanged = (case ui_ForceHTTPS inp of None \<Rightarrow> False | Some b \<Rightarrow> b \<noteq> d_force_https d)\<rparr>))"

definition reroute :: "'c dsvc \<Rightarrow> domain_row \<Rightarrow> domain_change \<Rightarrow> ('d, 'c, 'x, unit) hostm" where
  "reroute ds d ch =
     (case ds_caddy ds of
        None \<Rightarrow> ret ()
      | Some http \<Rightarrow>
          (if d_app_id d \<noteq> ch_AppID ch \<or> ch_serviceChanged ch \<or> ch_forceHTTPSChanged ch then
             bnd (attempt (resolveUpstreamFor (ch_AppID ch) (ch_Service ch) (ch_Port ch))) (\<lambda>r.
             case r of
               Inl _ \<Rightarrow> ret ()
             | Inr (upstream, port) \<Rightarrow>
                 bnd (attempt (UpsertRoute http (ds_sha1 ds) (d_name d) upstream port (ch_ForceHTTPS ch))) (\<lambda>_. ret ()))
           else ret ()))"

definition domain_Update :: "'c dsvc \<Rightarrow> string \<Rightarrow> UpdateInput \<Rightarrow> ('d, 'c, 'x, domain_row) hostm" where
  "domain_Update ds i inp =
     bnd (domain_get i) (\<lambda>d.
     bnd (transaction_as (ErrWrap ''domain: begin update'') (ErrWrap ''domain: commit'') (update_tx i inp d)) (\<lambda>ch.
     bnd (reroute ds d ch) (\<lambda>_.
     domain_get i)))"

definition Retry :: "string \<Rightarrow> ('x, unit) dbm" where
  "Retry i = bnd (domain_get i) (\<lambda>_. resetForRetry i)"

section \<open>The DNS check\<close>

definition domain_publish :: "'c dsvc \<Rightarrow> string \<Rightarrow> string \<Rightarrow> ('d, 'c, 'x, unit) hostm" where
  "domain_publish ds topic payload =
     (if ds_events ds then access (\<lambda>w. ((), w\<lparr>events := events w @ [(topic, payload)]\<rparr>)) else ret ())"

definition maxDNSCheckCount :: int where
  "maxDNSCheckCount = 96"

definition refreshWildcardCoverage :: "'c dsvc \<Rightarrow> domain_row \<Rightarrow> ('x, unit) dbm" where
  "refreshWildcardCoverage ds d =
     (case (ds_zones ds, d_zone_id d) of
        (Some _, Some zid) \<Rightarrow>
          bnd (attempt (zone_Get zid)) (\<lambda>r.
          case r of
            Inl _ \<Rightarrow> ret ()
          | Inr z \<Rightarrow>
              (if zn_WildcardVerified z \<noteq> d_covered_by_wildcard d then
                 bnd (attempt (setCoveredByWildcard (d_id d) (zn_WildcardVerified z))) (\<lambda>_. ret ())
               else ret ()))
      | _ \<Rightarrow> ret ())"

definition dns_mismatch :: "'c dsvc \<Rightarrow> domain_row \<Rightarrow> ('d, 'c, 'x, unit) hostm" where
  "dns_mismatch ds d =
     bnd (bumpDNSFailure (d_id d)) (\<lambda>_.
     bnd (attempt (domain_get (d_id d))) (\<lambda>r.
     case r of
       Inl _ \<Rightarrow> ret ()
     | Inr updated \<Rightarrow>
         (if d_dns_check_count updated \<ge> maxDNSCheckCount then
            bnd (attempt (markSSLStatus (d_id d) ''failed'' None)) (\<lambda>_.
            domain_publish ds ''domain.dns.failed'' (d_id d))
          else ret ())))"

definition dns_match :: "'c dsvc \<Rightarrow> domain_row \<Rightarrow> ('d, 'c, 'x, unit) hostm" where
  "dns_match ds d =
     bnd (markDNSVerified (d_id d)) (\<lambda>_.
     bnd (case ds_caddy ds of
            None \<Rightarrow> ret ()
          | Some http \<Rightarrow>
              bnd (attempt (EnableTLS http (d_name d))) (\<lambda>r.
              case r of
                Inl _ \<Rightarrow> domain_publish ds ''domain.caddy.enable_tls_failed'' (d_id d)
              | Inr _ \<Rightarrow> ret ())) (\<lambda>_.
     domain_publish ds ''domain.dns.verified'' (d_id d)))"

definition runDNSCheckOnce :: "'c dsvc \<Rightarrow> domain_row \<Rightarrow> string \<Rightarrow> ('d, 'c, 'x, unit) hostm" where
  "runDNSCheckOnce ds d expectedIP =
     bnd (refreshWildcardCoverage ds d) (\<lambda>_.
     bnd (lookup_host (ds_net ds) (d_name d)) (\<lambda>(addrs, er).
     if er \<noteq> None \<or> \<not> containsAddr addrs expectedIP then dns_mismatch ds d else dns_match ds d))"

definition domain_Verify :: "'c dsvc \<Rightarrow> string \<Rightarrow> ('d, 'c, 'x, unit) hostm" where
  "domain_Verify ds i =
     bnd (domain_get i) (\<lambda>d.
     case ds_publicIP ds of
       None \<Rightarrow> fail (ErrNew ''domain: public IP unknown'')
     | Some get \<Rightarrow>
         bnd (wrapping ''domain: public IP lookup failed'' (draw get)) (\<lambda>ip. runDNSCheckOnce ds d ip))"

definition runDNSCheckPass :: "'c dsvc \<Rightarrow> ('d, 'c, 'x, unit) hostm" where
  "runDNSCheckPass ds =
     bnd (attempt (listForDNSCheck maxDNSCheckCount)) (\<lambda>r.
     case r of
       Inl _ \<Rightarrow> ret ()
     | Inr ds0 \<Rightarrow>
         (if ds0 = [] then ret ()
          else
            case ds_publicIP ds of
              None \<Rightarrow> ret ()
            | Some get \<Rightarrow>
                bnd (attempt (draw get)) (\<lambda>rip.
                case rip of
                  Inl _ \<Rightarrow> ret ()
                | Inr ip \<Rightarrow> for_each (\<lambda>d. bnd (attempt (runDNSCheckOnce ds d ip)) (\<lambda>_. ret ())) ds0)))"

section \<open>The certificate monitor\<close>

record failureTracker =
  ft_attempts :: "string \<Rightarrow> nat"
  ft_firstSeen :: "string \<Rightarrow> int option"

definition newFailureTracker :: failureTracker where
  "newFailureTracker = \<lparr>ft_attempts = (\<lambda>_. 0), ft_firstSeen = (\<lambda>_. None)\<rparr>"

text \<open>The number of attempts and the time since the first one, with the tracker after it.\<close>

definition ft_record :: "failureTracker \<Rightarrow> string \<Rightarrow> ('x, nat \<times> int \<times> failureTracker) go" where
  "ft_record t i =
     (let attempts = Suc (ft_attempts t i)
      in bnd (case ft_firstSeen t i of Some s \<Rightarrow> ret s | None \<Rightarrow> time_now) (\<lambda>first.
         bnd time_now (\<lambda>now.
         ret (attempts, now - first,
              \<lparr>ft_attempts = (ft_attempts t)(i := attempts), ft_firstSeen = (ft_firstSeen t)(i := Some first)\<rparr>))))"

definition ft_clear :: "failureTracker \<Rightarrow> string \<Rightarrow> failureTracker" where
  "ft_clear t i = \<lparr>ft_attempts = (ft_attempts t)(i := 0), ft_firstSeen = (ft_firstSeen t)(i := None)\<rparr>"

definition sslIssuingMaxAttempts :: nat where
  "sslIssuingMaxAttempts = 3"

definition sslIssuingFailDuration :: int where
  "sslIssuingFailDuration = 600 * second"

definition sslSelfSignedTTL :: int where
  "sslSelfSignedTTL = 7776000 * second"

definition handleDevMode :: "'c dsvc \<Rightarrow> domain_row \<Rightarrow> failureTracker \<Rightarrow> ('d, 'c, 'x, failureTracker) hostm" where
  "handleDevMode ds d t =
     (if d_ssl_status d \<noteq> ''issuing'' then ret t
      else
        bnd time_now (\<lambda>now.
        bnd (attempt (markSSLStatus (d_id d) ''active'' (Some (unix (now + sslSelfSignedTTL))))) (\<lambda>r.
        case r of
          Inl _ \<Rightarrow> ret t
        | Inr _ \<Rightarrow> bnd (domain_publish ds ''domain.ssl.changed'' (d_id d)) (\<lambda>_. ret (ft_clear t (d_id d))))))"

definition recordSSLFailure :: "'c dsvc \<Rightarrow> domain_row \<Rightarrow> failureTracker \<Rightarrow> ('d, 'c, 'x, failureTracker) hostm" where
  "recordSSLFailure ds d t =
     bnd (ft_record t (d_id d)) (\<lambda>(attempts, elapsed, t').
     if d_ssl_status d \<noteq> ''issuing'' then ret t'
     else if attempts \<ge> sslIssuingMaxAttempts \<and> elapsed \<ge> sslIssuingFailDuration then
       bnd (attempt (markSSLStatus (d_id d) ''failed'' None)) (\<lambda>r.
       case r of
         Inl _ \<Rightarrow> ret t'
       | Inr _ \<Rightarrow> bnd (domain_publish ds ''domain.ssl.failed'' (d_id d)) (\<lambda>_. ret (ft_clear t' (d_id d))))
     else ret t')"

definition handleProdMode :: "'c dsvc \<Rightarrow> domain_row \<Rightarrow> failureTracker \<Rightarrow> ('d, 'c, 'x, failureTracker) hostm" where
  "handleProdMode ds d t =
     bnd (draw (\<lambda>n. Inr (ds_dial ds (d_name d @ '':443'') n))) (\<lambda>out.
     case out of
       DialError \<Rightarrow> recordSSLFailure ds d t
     | NoPeerCertificates \<Rightarrow> recordSSLFailure ds d t
     | PeerCertificate commonName issuer subject notAfter \<Rightarrow>
         (if \<not> sublist (''let'' @ [CHR 0x27] @ ''s encrypt'') (to_lower commonName) \<and> issuer = subject
          then recordSSLFailure ds d t
          else
            bnd (if d_ssl_status d \<noteq> ''active'' then domain_publish ds ''domain.ssl.changed'' (d_id d) else ret ()) (\<lambda>_.
            bnd (attempt (markSSLStatus (d_id d) ''active'' (Some notAfter))) (\<lambda>r.
            case r of Inl _ \<Rightarrow> ret t | Inr _ \<Rightarrow> ret (ft_clear t (d_id d))))))"

fun ssl_each :: "'c dsvc \<Rightarrow> bool \<Rightarrow> domain_row list \<Rightarrow> failureTracker \<Rightarrow> ('d, 'c, 'x, failureTracker) hostm" where
  "ssl_each ds devMode [] t = ret t"
| "ssl_each ds devMode (d # rest) t =
     bnd (if devMode then handleDevMode ds d t else handleProdMode ds d t) (ssl_each ds devMode rest)"

definition runSSLPass :: "'c dsvc \<Rightarrow> failureTracker \<Rightarrow> ('d, 'c, 'x, failureTracker) hostm" where
  "runSSLPass ds t =
     bnd (attempt listForSSLMonitor) (\<lambda>r.
     case r of
       Inl _ \<Rightarrow> ret t
     | Inr ds0 \<Rightarrow>
         (if ds0 = [] then ret t
          else
            bnd (attempt tlsMode) (\<lambda>m.
            ssl_each ds (m = Inr ''self-signed'') ds0 t)))"

end
