(* ===== verification/Domain_Props.thy ===== *)
theory Domain_Props
  imports Domain_Service Deploy_Frames
begin

text \<open>
  What stays true of the domains table, whatever is called: at most one primary domain per app, only
  well-formed host names, and no certificate stage without a verified DNS record. The locale
  \<open>domain_frame\<close> states what a relation between states must allow to be respected by all the steps that
  leave these columns alone; the properties follow from its interpretation on the invariant and from
  one lemma for each statement that does change them.
\<close>

section \<open>The invariant\<close>

text \<open>The columns the invariant looks at.\<close>

definition core :: "domain_row \<Rightarrow> string \<times> string \<times> string option \<times> bool \<times> string \<times> bool" where
  "core d = (d_id d, d_name d, d_app_id d, d_is_primary d, d_ssl_status d, d_dns_verified d)"

definition primary_key :: "domain_row \<Rightarrow> string option" where
  "primary_key d = (if d_is_primary d then d_app_id d else None)"

definition row_ok :: "netlib \<Rightarrow> domain_row \<Rightarrow> bool" where
  "row_ok lib d \<longleftrightarrow>
     validateName lib (d_name d) = Inr () \<and>
     (d_ssl_status d = ''issuing'' \<or> d_ssl_status d = ''active'' \<longrightarrow> d_dns_verified d)"

definition domain_ok :: "netlib \<Rightarrow> 'x db_scheme \<Rightarrow> bool" where
  "domain_ok lib w \<longleftrightarrow>
     schema_ok w \<and> list_all (row_ok lib) (domains w) \<and> distinct (some_key primary_key (domains w))"

lemma some_key_Cons [simp]: "some_key k (r # rs) = (case k r of None \<Rightarrow> some_key k rs | Some v \<Rightarrow> v # some_key k rs)"
  by (auto simp: some_key_def split: option.split)

lemma some_key_Nil [simp]: "some_key k [] = []"
  by (simp add: some_key_def)

declare some_key_append [simp]

lemma some_key_map: "some_key k rs = map the (filter (\<lambda>x. x \<noteq> None) (map k rs))"
  by (simp add: some_key_def filter_map comp_def)

lemma distinct_some_key_filter: "distinct (some_key k rs) \<Longrightarrow> distinct (some_key k (filter p rs))"
  by (induction rs) (auto simp: some_key_mem split: option.splits)

lemma rows_core:
  "list_all (row_ok lib) ds = list_all (\<lambda>(_, n, _, _, s, v). validateName lib n = Inr () \<and>
     (s = ''issuing'' \<or> s = ''active'' \<longrightarrow> v)) (map core ds)"
  "map primary_key ds = map (\<lambda>(_, _, a, b, _, _). if b then a else None) (map core ds)"
  by (simp_all add: list_all_iff core_def row_ok_def primary_key_def)

lemma domain_ok_core:
  assumes "map core (domains w') = map core (domains w)" and "schema_ok w'" and "domain_ok lib w"
  shows "domain_ok lib w'"
  using assms(2,3) unfolding domain_ok_def some_key_map rows_core assms(1) by simp

lemma domain_ok_stp [simp]: "domain_ok lib (w\<lparr>stp := n\<rparr>) = domain_ok lib w" "domain_ok lib (tick w) = domain_ok lib w"
  by (simp_all add: domain_ok_def)

lemma domain_ok_host [simp]:
  "domain_ok lib (w\<lparr>dockerd := d\<rparr>) = domain_ok lib w"
  "domain_ok lib (w\<lparr>caddyd := c\<rparr>) = domain_ok lib w" "domain_ok lib (w\<lparr>events := es\<rparr>) = domain_ok lib w"
  by (simp_all add: domain_ok_def)

section \<open>Steps that leave it alone\<close>

lemma moves_case_decoded [moves_intro]:
  "(\<And>j. moves R (m j)) \<Longrightarrow> moves R n \<Longrightarrow> moves R k \<Longrightarrow>
     moves R (case x of Decoded j \<Rightarrow> m j | EmptyBody \<Rightarrow> n | BadBody \<Rightarrow> k)"
  by (cases x) auto

lemma moves_case_json [moves_intro]:
  "moves R a \<Longrightarrow> (\<And>x. moves R (b x)) \<Longrightarrow> (\<And>x. moves R (c x)) \<Longrightarrow> (\<And>x. moves R (d x)) \<Longrightarrow> (\<And>x. moves R (e x)) \<Longrightarrow>
     (\<And>x. moves R (f x)) \<Longrightarrow>
     moves R (case j of JNull \<Rightarrow> a | JBool x \<Rightarrow> b x | JNum x \<Rightarrow> c x | JStr x \<Rightarrow> d x | JArr x \<Rightarrow> e x | JObj x \<Rightarrow> f x)"
  by (cases j) auto

locale domain_frame = host_frame R
  for R :: "('d, 'c, 'x) hostdb_scheme \<Rightarrow> ('d, 'c, 'x) hostdb_scheme \<Rightarrow> bool" +
  assumes R_zone: "insert_zone z w = Inr (n, w') \<Longrightarrow> R w w'"
    and R_domain: "(\<And>d. core (f d) = core d) \<Longrightarrow> update_domains q f w = Inr (n, w') \<Longrightarrow> R w w'"
begin

lemma set_domain_R: "(\<And>d. core (f d) = core d) \<Longrightarrow> moves R (set_domain i f)"
  unfolding set_domain_def by (intro host_rules frame_exec) (erule R_domain)

lemma route_R: "moves R (RemoveRoute http sha h)" "moves R (EnableTLS http h)" "moves R (DisableTLS http h)"
  unfolding RemoveRoute_def EnableTLS_def DisableTLS_def addToSkip_def removeFromSkip_def putSkipList_def GetConfig_def Let_def
  by (intro host_rules moves_intro caddy_do_R)+

lemma domain_reads_R:
  "moves R (domain_get i)" "moves R (appName a)" "moves R (appPort a)" "moves R (appExistsTx a)" "moves R tlsMode"
  "moves R (listForDNSCheck n)" "moves R listForSSLMonitor" "moves R (zone_Get i)" "moves R (lookup_host lib h)"
  "moves R (resolveUpstreamFor appID service port)" "moves R (next_app inp d)" "moves R (ft_record t i)"
  unfolding domain_get_def domain_find_def appName_def appPort_def appExistsTx_def tlsMode_def listForDNSCheck_def
    listForSSLMonitor_def zone_Get_def scanOne_def lookup_host_def resolveUpstreamFor_def next_app_def ft_record_def Let_def
  by (intro host_rules)+

lemma EnsureForFQDN_R: "moves R (EnsureForFQDN lib fqdn)"
  unfolding EnsureForFQDN_def find_or_create_def zone_create_def GetByApex_def zone_Get_def scanOne_def
  by (intro host_rules frame_exec) (erule R_zone)

lemma domain_publish_R: "moves R (domain_publish ds t i)"
  unfolding domain_publish_def by (intro host_rules frame_access) (simp add: R_events)

lemma quiet_steps_R:
  "moves R (link_zone ds name)" "moves R (resolveUpstream appID)" "moves R (register_route ds d u p)"
  "moves R (reroute ds d ch)" "moves R (setCoveredByWildcard i b)" "moves R (bumpDNSFailure i)"
  "moves R (updateServiceRouteTx i s port)" "moves R (updateForceHTTPSTx i b)" "moves R (refreshWildcardCoverage ds d)"
  unfolding link_zone_def resolveUpstream_def register_route_def reroute_def setCoveredByWildcard_def bumpDNSFailure_def
    updateServiceRouteTx_def updateForceHTTPSTx_def refreshWildcardCoverage_def
  by (intro host_rules EnsureForFQDN_R domain_reads_R UpsertRoute_R route_R set_domain_R; simp add: core_def)+

end

lemma domain_ok_statements:
  "update_apps p f w = Inr (n, w') \<Longrightarrow> domain_ok lib w \<Longrightarrow> domain_ok lib w'"
  "insert_zone z w = Inr (n, w') \<Longrightarrow> domain_ok lib w \<Longrightarrow> domain_ok lib w'"
  by (auto simp: domain_ok_def update_apps_def insert_zone_def checked_Inr_iff)

lemma domain_ok_update_core:
  assumes "\<And>d. core (f d) = core d" and "update_domains q f w = Inr (n, w')" and "domain_ok lib w"
  shows "domain_ok lib w'"
proof (rule domain_ok_core [OF _ _ assms(3)])
  have "core ((f d)\<lparr>d_updated_at := t\<rparr>) = core d" for d t using assms(1) [of d] by (simp add: core_def)
  then show "map core (domains w') = map core (domains w)"
    using assms(2) by (auto simp: update_domains_def checked_Inr_iff update_where_def)
  show "schema_ok w'" using assms(2) by (auto simp: update_domains_def checked_Inr_iff)
qed

interpretation inv: domain_frame "keeps (domain_ok lib)" for lib
  by unfold_locales (auto simp: keeps_def intro: domain_ok_statements domain_ok_update_core)

section \<open>Statements that change it\<close>

interpretation dv: frame "keeps (domain_ok lib)" for lib
  by (rule frame_keeps) simp

text \<open>An update that keeps the primary key of a row and makes good rows of good rows.\<close>

lemma update_domains_ok:
  assumes "update_domains p f w = Inr (n, w')" and "domain_ok lib w"
    and "\<And>d. primary_key (f d) = primary_key d" and "\<And>d. p d \<Longrightarrow> row_ok lib d \<Longrightarrow> d \<in> set (domains w) \<Longrightarrow> row_ok lib (f d)"
  shows "domain_ok lib w'"
proof -
  have "primary_key (d\<lparr>d_updated_at := t\<rparr>) = primary_key d" for d t by (simp add: primary_key_def)
  then have key: "primary_key ((f d)\<lparr>d_updated_at := t\<rparr>) = primary_key d" for d t using assms(3) by simp
  have row: "row_ok lib (d\<lparr>d_updated_at := t\<rparr>) = row_ok lib d" for d t by (simp add: row_ok_def)
  obtain t where w': "domains w' = update_where p (\<lambda>d. (f d)\<lparr>d_updated_at := t\<rparr>) (domains w)" "schema_ok w'"
    using assms(1) by (auto simp: update_domains_def checked_Inr_iff)
  have "some_key primary_key (domains w') = some_key primary_key (domains w)"
    unfolding some_key_map w'(1) by (simp add: map_update_where key)
  moreover have "list_all (row_ok lib) (domains w')"
    unfolding w'(1) using assms(2,4) by (auto simp: list_all_iff set_update_where domain_ok_def row)
  ultimately show ?thesis using assms(2) w'(2) by (simp add: domain_ok_def)
qed

lemma set_domain_ok:
  assumes "\<And>d. primary_key (f d) = primary_key d" and "\<And>d. row_ok lib d \<Longrightarrow> row_ok lib (f d)"
  shows "moves (keeps (domain_ok lib)) (set_domain i f)"
  unfolding set_domain_def
  by (intro dv.frame_rules dv.frame_exec) (auto simp: keeps_def intro: update_domains_ok [OF _ _ assms])

lemma stages_ok:
  "moves (keeps (domain_ok lib)) (markDNSVerified i)" "moves (keeps (domain_ok lib)) (resetForRetry i)"
  "moves (keeps (domain_ok lib)) (markSSLStatus i ''failed'' x)"
  unfolding markDNSVerified_def resetForRetry_def markSSLStatus_def
  by (intro dv.frame_rules moves_intro set_domain_ok; simp add: primary_key_def row_ok_def)+

lemma domain_delete_ok: "moves (keeps (domain_ok lib)) (domain_delete i)"
  unfolding domain_delete_def
  by (intro dv.frame_rules moves_intro dv.frame_exec)
    (auto simp: keeps_def domain_ok_def delete_domains_def checked_Inr_iff list_all_iff intro: distinct_some_key_filter)

lemma demote_rows:
  assumes "update_domains (\<lambda>d. d_app_id d = Some a \<and> d_is_primary d) (\<lambda>d. d\<lparr>d_is_primary := False\<rparr>) w = Inr (n, w')"
    and "domain_ok lib w"
  shows "domain_ok lib w' \<and> a \<notin> set (some_key primary_key (domains w'))"
proof -
  obtain t where w': "domains w' = update_where (\<lambda>d. d_app_id d = Some a \<and> d_is_primary d)
      (\<lambda>d. d\<lparr>d_is_primary := False, d_updated_at := t\<rparr>) (domains w)" "schema_ok w'"
    using assms(1) by (auto simp: update_domains_def checked_Inr_iff)
  have "some_key primary_key (domains w') = filter (\<lambda>x. x \<noteq> a) (some_key primary_key (domains w))"
  proof -
    have "some_key primary_key (update_where (\<lambda>d. d_app_id d = Some a \<and> d_is_primary d)
        (\<lambda>d. d\<lparr>d_is_primary := False, d_updated_at := t\<rparr>) ds) = filter (\<lambda>x. x \<noteq> a) (some_key primary_key ds)" for ds
      by (induction ds) (auto simp: update_where_def primary_key_def split: option.split)
    then show ?thesis by (simp add: w'(1))
  qed
  moreover have "list_all (row_ok lib) (domains w')"
    unfolding w'(1) using assms(2) by (auto simp: list_all_iff set_update_where domain_ok_def row_ok_def)
  ultimately show ?thesis using assms(2) w'(2) by (simp add: domain_ok_def)
qed

lemma demotePrimaryTx_Inr:
  assumes "demotePrimaryTx a w = (Inr u, w')" and "domain_ok lib w"
  shows "domain_ok lib w' \<and> a \<notin> set (some_key primary_key (domains w'))"
proof -
  from assms(1) obtain n v where up: "update_domains (\<lambda>d. d_app_id d = Some a \<and> d_is_primary d) (\<lambda>d. d\<lparr>d_is_primary := False\<rparr>) w = Inr (n, v)"
    and "w' = tick v" by (auto simp: demotePrimaryTx_def run_iffs ret_def)
  with demote_rows [OF up assms(2)] show ?thesis by simp
qed

lemma domain_insertTx_Inr:
  assumes "domain_insertTx d w = (Inr u, w')" and "domain_ok lib w" and "row_ok lib d"
    and "\<And>a. primary_key d = Some a \<Longrightarrow> a \<notin> set (some_key primary_key (domains w))"
  shows "domain_ok lib w'"
proof -
  define row where "row t = d\<lparr>d_ssl_expires_at := None, d_dns_verified_at := None, d_dns_last_check := None, d_service := None,
      d_port := None, d_created_at := t, d_updated_at := t\<rparr>" for t
  define x where "x = db_exec (\<lambda>w. insert_domain (row (unixepoch w)) w) w"
  from assms(1) have "(case fst x of Inl e \<Rightarrow> (if e = ErrSql UniqueViolation then fail ErrDuplicate else fail e) | Inr _ \<Rightarrow> ret ()) (snd x) = (Inr u, w')"
    by (simp add: domain_insertTx_def bnd_attempt x_def row_def)
  then obtain n where "x = (Inr n, w')" by (cases x; cases "fst x") (auto simp: fail_def ret_def split: if_splits)
  then obtain v t where "insert_domain (row t) w = Inr (n, v)" and "w' = tick v"
    by (auto simp: x_def db_exec_eq_Inr_iff)
  moreover have "row_ok lib (row t)" "primary_key (row t) = primary_key d"
    using assms(3) by (simp_all add: row_def row_ok_def primary_key_def)
  ultimately show ?thesis
    using assms(2,4) by (auto simp: insert_domain_def checked_Inr_iff domain_ok_def list_all_iff split: option.split)
qed

lemma distinct_keys_update:
  assumes "distinct (map d_id ds)" and "distinct (some_key primary_key ds)" and "\<And>d. primary_key (f d) = k"
    and "\<And>a. k = Some a \<Longrightarrow> a \<notin> set (some_key primary_key ds)"
  shows "distinct (some_key primary_key (update_where (\<lambda>d. d_id d = i) f ds))"
  using assms(1,2,4)
proof (induction ds)
  case (Cons d ds)
  show ?case
  proof (cases "d_id d = i")
    case True
    with Cons.prems(1) have "d_id x \<noteq> i" if "x \<in> set ds" for x using that by (auto simp: image_iff)
    then have "update_where (\<lambda>d. d_id d = i) f ds = ds"
      unfolding update_where_def by (intro map_idI) simp
    with True Cons.prems assms(3) show ?thesis by (auto simp: update_where_def split: option.splits)
  next
    case False
    have "set (some_key primary_key (update_where (\<lambda>d. d_id d = i) f ds)) \<subseteq>
        set (some_key primary_key ds) \<union> set_option k"
      using assms(3) by (auto simp: some_key_mem set_update_where split: if_splits)
    with False Cons show ?thesis by (fastforce simp: update_where_def split: option.splits)
  qed
qed (simp add: update_where_def)

lemma updateAppPrimaryTx_Inr:
  assumes "updateAppPrimaryTx i app b w = (Inr u, w')" and "domain_ok lib w"
    and "\<And>a. b \<Longrightarrow> app = Some a \<Longrightarrow> a \<notin> set (some_key primary_key (domains w))"
  shows "domain_ok lib w'"
proof -
  from assms(1) obtain t where v: "domains w' = update_where (\<lambda>d. d_id d = i)
      (\<lambda>d. d\<lparr>d_app_id := app, d_is_primary := b, d_updated_at := t\<rparr>) (domains w)" "schema_ok w'"
    by (auto simp: updateAppPrimaryTx_def set_domain_def run_iffs ret_def update_domains_def checked_Inr_iff)
  have "distinct (some_key primary_key (domains w'))"
    unfolding v(1)
  proof (rule distinct_keys_update [where k = "if b then app else None"])
    show "distinct (map d_id (domains w))" "distinct (some_key primary_key (domains w))"
      using assms(2) by (auto simp: domain_ok_def schema_ok_def unique_ok_def deploy_unique_ok_def)
  qed (use assms(3) in \<open>auto simp: primary_key_def split: if_splits\<close>)
  moreover have "list_all (row_ok lib) (domains w')"
    using assms(2) by (auto simp: v(1) list_all_iff set_update_where domain_ok_def row_ok_def)
  ultimately show ?thesis using v(2) by (simp add: domain_ok_def)
qed

section \<open>The operations\<close>

text \<open>A transaction keeps the invariant when its successes do.\<close>

lemma transaction_ok:
  assumes "\<And>w x w'. m w = (Inr x, w') \<Longrightarrow> domain_ok lib w \<Longrightarrow> domain_ok lib w'"
  shows "moves (keeps (domain_ok lib)) (transaction_as fb fc m)"
proof -
  have "domain_ok lib (snd (transaction_as fb fc m w))" if "domain_ok lib w" for w
  proof (cases "fst (transaction_as fb fc m w)")
    case (Inl e)
    then show ?thesis using transaction_atomic [of fb fc m w e] that by (metis domain_ok_stp(1) prod.collapse)
  next
    case (Inr x)
    then have "transaction_as fb fc m w = (Inr x, snd (transaction_as fb fc m w))" by (metis prod.collapse)
    then obtain v where "m (tick w) = (Inr x, v)" "snd (transaction_as fb fc m w) = tick v"
      unfolding transaction_eq_Inr_iff by blast
    with assms [of "tick w" x v] that show ?thesis by simp
  qed
  then show ?thesis by (simp add: moves_def keeps_def)
qed

lemma create_tx_ok:
  assumes "validateName lib name = Inr ()"
  shows "moves (keeps (domain_ok lib)) (create_tx inp name zoneID)"
  unfolding create_tx_def
proof (rule transaction_ok)
  fix w d w'
  assume run: "bnd (case ci_AppID inp of None \<Rightarrow> ret ()
       | Some a \<Rightarrow> bnd (wrapping ''domain: app lookup'' (appExistsTx a)) (\<lambda>ok.
           if \<not> ok then fail ErrAppNotFound
           else if ci_IsPrimary inp then wrapping ''domain: demote primary'' (demotePrimaryTx a) else ret ()))
     (\<lambda>_. bnd new_uuid (\<lambda>i. bnd (domain_insertTx (new_domain inp i name zoneID)) (\<lambda>_. ret (new_domain inp i name zoneID)))) w =
     (Inr d, w')" (is "bnd ?pre _ w = _") and ok: "domain_ok lib w"
  then obtain u v i u2 v2 where pre: "?pre w = (Inr u, v)" and ins: "domain_insertTx (new_domain inp i name zoneID) (tick v) = (Inr u2, v2)"
    and w': "w' = v2" by (auto simp: bnd_eq_Inr_iff new_uuid_eq_Inr_iff ret_def)
  have "domain_ok lib v \<and> (\<forall>a. ci_IsPrimary inp \<and> ci_AppID inp = Some a \<longrightarrow> a \<notin> set (some_key primary_key (domains v)))"
  proof (cases "ci_AppID inp")
    case (Some a)
    with pre obtain x where x: "appExistsTx a w = (Inr True, x)"
      and rest: "(if ci_IsPrimary inp then wrapping ''domain: demote primary'' (demotePrimaryTx a) else ret ()) x = (Inr u, v)"
      by (auto simp: bnd_eq_Inr_iff wrapping_eq_Inr_iff fail_def split: if_splits)
    have "domain_ok lib x" using x ok by (auto simp: appExistsTx_def db_query_eq_Inr_iff)
    with rest Some show ?thesis
      by (cases "ci_IsPrimary inp") (auto simp: wrapping_eq_Inr_iff ret_def dest: demotePrimaryTx_Inr)
  qed (use pre ok in \<open>auto simp: ret_def\<close>)
  with ins show "domain_ok lib w'"
    unfolding w' using assms
    by (intro domain_insertTx_Inr [OF ins]) (auto simp: new_domain_def row_ok_def primary_key_def split: if_splits)
qed

lemma domain_ok_id: "domain_ok lib w \<Longrightarrow> distinct (map d_id (domains w))"
  by (simp add: domain_ok_def schema_ok_def unique_ok_def deploy_unique_ok_def)

lemma next_app_Inr: "next_app inp d w = (Inr a, w') \<Longrightarrow> domain_ok lib w \<Longrightarrow> domain_ok lib w'"
  by (auto simp: next_app_def ret_def fail_def bnd_eq_Inr_iff wrapping_eq_Inr_iff appExistsTx_def db_query_eq_Inr_iff Let_def
      split: if_splits option.splits)

lemma quiet_columns_ok:
  "moves (keeps (domain_ok lib)) (updateServiceRouteTx i s port)" "moves (keeps (domain_ok lib)) (updateForceHTTPSTx i b)"
  unfolding updateServiceRouteTx_def updateForceHTTPSTx_def
  by (intro set_domain_ok; simp add: primary_key_def row_ok_def)+

lemma update_rows_Inr:
  assumes "update_rows i a b route force (w :: 'x db_scheme) = (Inr u, w')" and "domain_ok lib w"
  shows "domain_ok lib w'"
proof -
  define tail :: "('x, unit) dbm" where "tail = bnd (case route of None \<Rightarrow> ret ()
      | Some (service, port) \<Rightarrow> wrapping ''domain: update service route'' (updateServiceRouteTx i service port)) (\<lambda>_.
     case force of None \<Rightarrow> ret () | Some b \<Rightarrow> wrapping ''domain: update force_https'' (updateForceHTTPSTx i b))"
  have tail: "moves (keeps (domain_ok lib)) tail"
    unfolding tail_def by (intro dv.frame_rules moves_intro quiet_columns_ok)
  obtain u1 v1 u2 v2 where pre: "(case a of None \<Rightarrow> ret ()
         | Some x \<Rightarrow> (if b then wrapping ''domain: demote primary'' (demotePrimaryTx x) else ret ())) w = (Inr u1, v1)"
    and up: "updateAppPrimaryTx i a b v1 = (Inr u2, v2)" and rest: "tail v2 = (Inr u, w')"
    using assms(1) unfolding update_rows_def tail_def [symmetric] by (auto simp: bnd_eq_Inr_iff)
  have "domain_ok lib v1 \<and> (\<forall>x. b \<and> a = Some x \<longrightarrow> x \<notin> set (some_key primary_key (domains v1)))"
    using pre assms(2) by (cases a; cases b) (auto simp: wrapping_eq_Inr_iff ret_def dest: demotePrimaryTx_Inr)
  then have "domain_ok lib v2" by (intro updateAppPrimaryTx_Inr [OF up]) auto
  with tail rest show ?thesis unfolding moves_def keeps_def by (metis snd_conv)
qed

lemma update_tx_ok: "moves (keeps (domain_ok lib)) (transaction_as fb fc (update_tx i inp d))"
  by (rule transaction_ok)
    (auto simp: update_tx_def bnd_eq_Inr_iff Let_def ret_def dest: next_app_Inr update_rows_Inr)

lemmas step_rules = update_tx_ok inv.host_rules inv.domain_reads_R inv.quiet_steps_R inv.route_R inv.domain_publish_R inv.EnsureForFQDN_R
  stages_ok domain_delete_ok

lemma domain_Create_ok:
  assumes "ds_net ds = lib"
  shows "moves (keeps (domain_ok lib)) (domain_Create ds inp)"
proof (cases "validateName lib (normalizeName (ci_Name inp))")
  case (Inl e)
  with assms show ?thesis by (simp add: domain_Create_def Let_def bnd_lift_res inv.frame_fail)
next
  case (Inr u)
  show ?thesis
    unfolding domain_Create_def Let_def assms bnd_lift_res Inr sum.case by (intro step_rules create_tx_ok) (simp add: Inr)
qed

lemma dns_steps_ok:
  "moves (keeps (domain_ok lib)) (dns_mismatch ds d)" "moves (keeps (domain_ok lib)) (dns_match ds d)"
  "moves (keeps (domain_ok lib)) (runDNSCheckOnce ds d ip)"
  unfolding runDNSCheckOnce_def dns_mismatch_def dns_match_def by (intro step_rules)+

lemma domain_ops_ok:
  "moves (keeps (domain_ok lib)) (domain_Update ds i upd)" "moves (keeps (domain_ok lib)) (domain_Delete ds i)"
  "moves (keeps (domain_ok lib)) (domain_Verify ds i)" "moves (keeps (domain_ok lib)) (runDNSCheckPass ds)"
  unfolding domain_Update_def domain_Delete_def delete_checks_def domain_Verify_def runDNSCheckPass_def
  by (intro step_rules dns_steps_ok)+

lemma Retry_ok: "moves (keeps (domain_ok lib)) (Retry i)"
  unfolding Retry_def domain_get_def domain_find_def by (intro dv.frame_rules moves_intro stages_ok)

text \<open>The certificate monitor works on the rows it listed first: while it runs, those rows keep their verified
  DNS record, which is what allows it to set them active.\<close>

definition verified_ok :: "netlib \<Rightarrow> string set \<Rightarrow> 'x db_scheme \<Rightarrow> bool" where
  "verified_ok lib V w \<longleftrightarrow> domain_ok lib w \<and> (\<forall>d \<in> set (domains w). d_id d \<in> V \<longrightarrow> d_dns_verified d)"

lemma verified_ok_core:
  assumes "map core (domains w') = map core (domains w)" and "schema_ok w'" and "verified_ok lib V w"
  shows "verified_ok lib V w'"
proof -
  have "(\<forall>d \<in> set ds. d_id d \<in> V \<longrightarrow> d_dns_verified d) = list_all (\<lambda>(i, _, _, _, _, v). i \<in> V \<longrightarrow> v) (map core ds)" for ds
    by (simp add: list_all_iff core_def)
  with assms domain_ok_core [OF assms(1,2)] show ?thesis by (simp add: verified_ok_def)
qed

lemma update_core:
  assumes "\<And>d. core (f d) = core d" and "update_domains q f w = Inr (n, w')"
  shows "map core (domains w') = map core (domains w) \<and> schema_ok w'"
proof -
  have "core ((f d)\<lparr>d_updated_at := t\<rparr>) = core d" for d t using assms(1) [of d] by (simp add: core_def)
  with assms(2) show ?thesis by (auto simp: update_domains_def checked_Inr_iff update_where_def)
qed

lemma verified_ok_statements:
  "update_apps p f w = Inr (n, w') \<Longrightarrow> verified_ok lib V w \<Longrightarrow> verified_ok lib V w'"
  "insert_zone z w = Inr (n, w') \<Longrightarrow> verified_ok lib V w \<Longrightarrow> verified_ok lib V w'"
  by (auto simp: verified_ok_def domain_ok_def update_apps_def insert_zone_def checked_Inr_iff)

lemma verified_ok_host [simp]:
  "verified_ok lib V (w\<lparr>dockerd := d\<rparr>) = verified_ok lib V w" "verified_ok lib V (w\<lparr>stp := n\<rparr>) = verified_ok lib V w"
  "verified_ok lib V (w\<lparr>caddyd := c\<rparr>) = verified_ok lib V w" "verified_ok lib V (w\<lparr>events := es\<rparr>) = verified_ok lib V w"
  by (simp_all add: verified_ok_def)

interpretation vw: domain_frame "keeps (verified_ok lib V)" for lib V
proof unfold_locales
  show "(\<And>d. core (f d) = core d) \<Longrightarrow> update_domains q f w = Inr (n, w') \<Longrightarrow> keeps (verified_ok lib V) w w'" for f q w n w'
    using update_core verified_ok_core by (metis keeps_def)
next
  show "update_apps p f w = Inr (n, w') \<Longrightarrow> keeps (verified_ok lib V) w w'" for p f w n w'
    by (simp add: keeps_def verified_ok_statements(1))
  show "insert_zone z w = Inr (n, w') \<Longrightarrow> keeps (verified_ok lib V) w w'" for z w n w'
    by (simp add: keeps_def verified_ok_statements(2))
qed (auto simp: keeps_def)

interpretation dvv: frame "keeps (verified_ok lib V)" for lib V
  by (rule frame_keeps) (simp add: verified_ok_def)

lemma update_status_verified:
  assumes "update_domains (\<lambda>d. d_id d = i) f w = Inr (n, w')" and "verified_ok lib V w" and "i \<in> V"
    and "\<And>d. (d_id (f d), d_name (f d), d_dns_verified (f d)) = (d_id d, d_name d, d_dns_verified d)"
    and "\<And>d. primary_key (f d) = primary_key d"
  shows "verified_ok lib V w'"
proof -
  have "domain_ok lib w'"
    using assms(2,3,4) by (intro update_domains_ok [OF assms(1) _ assms(5)]) (auto simp: verified_ok_def row_ok_def)
  with assms(1,2,4) show ?thesis
    by (auto simp: verified_ok_def update_domains_def checked_Inr_iff set_update_where split: if_splits)
qed

lemma markSSLStatus_verified: "i \<in> V \<Longrightarrow> moves (keeps (verified_ok lib V)) (markSSLStatus i status x)"
  unfolding markSSLStatus_def set_domain_def
  by (intro dvv.frame_rules moves_intro dvv.frame_exec; unfold keeps_def; intro impI; erule update_status_verified;
      simp add: primary_key_def)

lemma ssl_handlers_ok:
  assumes "d_id d \<in> V"
  shows "moves (keeps (verified_ok lib V)) (handleDevMode ds d t)" "moves (keeps (verified_ok lib V)) (handleProdMode ds d t)"
proof -
  have "moves (keeps (verified_ok lib V)) (recordSSLFailure ds d t)"
    unfolding recordSSLFailure_def by (intro vw.host_rules vw.domain_reads_R vw.domain_publish_R markSSLStatus_verified [OF assms])
  then show "moves (keeps (verified_ok lib V)) (handleDevMode ds d t)" "moves (keeps (verified_ok lib V)) (handleProdMode ds d t)"
    unfolding handleDevMode_def handleProdMode_def
    by (auto intro!: vw.host_rules vw.domain_publish_R markSSLStatus_verified [OF assms] split: dial.split)
qed

lemma ssl_each_ok: "d_id ` set rows \<subseteq> V \<Longrightarrow> moves (keeps (verified_ok lib V)) (ssl_each ds dev rows t)"
  by (induction rows arbitrary: t) (auto intro!: vw.host_rules ssl_handlers_ok)

lemma listed_verified:
  assumes "domain_ok lib w"
  shows "verified_ok lib (d_id ` {d \<in> set (domains w). d_ssl_status d = ''issuing'' \<or> d_ssl_status d = ''active''}) w"
proof -
  have "d = d'" if "d \<in> set (domains w)" "d' \<in> set (domains w)" "d_id d = d_id d'" for d d'
    using domain_ok_id [OF assms] that by (auto simp: distinct_map inj_on_def)
  with assms show ?thesis by (auto simp: verified_ok_def domain_ok_def list_all_iff row_ok_def)
qed

lemma runSSLPass_ok: "moves (keeps (domain_ok lib)) (runSSLPass ds t :: ('d, 'c, 'x, failureTracker) hostm)"
proof -
  have "domain_ok lib (snd (runSSLPass ds t w))" if ok: "domain_ok lib w" for w :: "('d, 'c, 'x) hostdb_scheme"
  proof -
    define rows where "rows = filter (\<lambda>d. d_ssl_status d = ''issuing'' \<or> d_ssl_status d = ''active'') (domains w)"
    define rest :: "('d, 'c, 'x, failureTracker) hostm" where "rest = (if rows = [] then ret t else bnd (attempt tlsMode) (\<lambda>m. ssl_each ds (m = Inr ''self-signed'') rows t))"
    have "moves (keeps (verified_ok lib (d_id ` set rows))) rest"
      unfolding rest_def by (intro vw.host_rules vw.domain_reads_R ssl_each_ok) simp
    moreover have "verified_ok lib (d_id ` set rows) (tick w)"
      using listed_verified [OF ok] by (simp add: rows_def verified_ok_def)
    ultimately have "domain_ok lib (snd (rest (tick w)))" by (simp add: moves_def keeps_def verified_ok_def)
    moreover have "snd (runSSLPass ds t w) = (if o_fault (orc w) (stp w) then tick w else snd (rest (tick w)))"
      by (simp add: runSSLPass_def listForSSLMonitor_def bnd_attempt db_query_def rows_def rest_def ret_def)
    ultimately show ?thesis using ok by simp
  qed
  then show ?thesis by (simp add: moves_def keeps_def)
qed

section \<open>Every sequence of calls\<close>

datatype domain_call =
    DCreate CreateInput | DUpdate string UpdateInput | DDelete string | DRetry string | DVerify string
  | DnsPass | SslPass failureTracker

definition domain_call_run :: "'c dsvc \<Rightarrow> domain_call \<Rightarrow> ('d, 'c, 'x) hostdb_scheme \<Rightarrow> ('d, 'c, 'x) hostdb_scheme" where
  "domain_call_run ds c w =
     (case c of
        DCreate inp \<Rightarrow> snd (domain_Create ds inp w)
      | DUpdate i inp \<Rightarrow> snd (domain_Update ds i inp w)
      | DDelete i \<Rightarrow> snd (domain_Delete ds i w)
      | DRetry i \<Rightarrow> snd (Retry i w)
      | DVerify i \<Rightarrow> snd (domain_Verify ds i w)
      | DnsPass \<Rightarrow> snd (runDNSCheckPass ds w)
      | SslPass t \<Rightarrow> snd (runSSLPass ds t w))"

lemma domain_call_ok:
  assumes "domain_ok (ds_net ds) w"
  shows "domain_ok (ds_net ds) (domain_call_run ds c w)"
proof -
  have step: "domain_ok (ds_net ds) (snd (m w))" if "moves (keeps (domain_ok (ds_net ds))) m" for m
    using that assms by (simp add: moves_def keeps_def)
  show ?thesis
    by (cases c) (simp_all add: domain_call_run_def step domain_Create_ok domain_ops_ok runSSLPass_ok Retry_ok)
qed

text \<open>
  C12. Whatever sequence of domain calls and background passes runs, with whatever answers of the database
  driver, the proxy, the resolver and the certificate dials: every domain keeps a name that validation
  accepts, no app has two primary domains, and no certificate stage (issuing or active) is reached without
  a verified DNS record.
\<close>

theorem domains_stay_ok:
  assumes "domain_ok (ds_net ds) w"
  shows "domain_ok (ds_net ds) (fold (domain_call_run ds) calls w)"
  using assms by (induction calls arbitrary: w) (auto intro: domain_call_ok)

section \<open>Deleting\<close>

interpretation sdm: host_frame "\<lambda>w w'. domains w' = domains w"
  by unfold_locales (auto simp: update_apps_def checked_Inr_iff)

lemma removal_same_domains: "moves (\<lambda>w w'. domains w' = domains w) (RemoveRoute http sha h)"
  unfolding RemoveRoute_def Let_def by (intro sdm.host_rules sdm.caddy_do_R)

lemma domain_find_Inr:
  "domain_find p w = (Inr d, w') \<Longrightarrow> find p (domains w) = Some d \<and> w' = tick w"
  by (auto simp: domain_find_def bnd_attempt db_query_row_eq_Inr_iff ret_def fail_def split: sum.splits if_splits)
     (metis db_query_row_eq_Inr_iff prod.collapse)+

lemma domain_delete_rows:
  "case domain_delete i w of
     (Inl e, w') \<Rightarrow> domains w' = domains w
   | (Inr _, w') \<Rightarrow> domains w' = filter (\<lambda>d. d_id d \<noteq> i) (domains w)"
proof -
  have "domains v = domains w" if "delete_domains (\<lambda>d. d_id d = i) w = Inr (0, v)" for v
    using that by (auto simp: delete_domains_def checked_Inr_iff affected_def filter_empty_conv intro: filter_True)
  then show ?thesis
    by (auto simp: domain_delete_def bnd_def db_exec_def fail_def ret_def delete_domains_def checked_Inr_iff
        split: prod.splits sum.splits if_splits)
qed

lemma delete_checks_same: "moves (\<lambda>w w'. domains w' = domains w) (delete_checks ds i)"
  unfolding delete_checks_def domain_get_def domain_find_def by (intro sdm.host_rules removal_same_domains)

text \<open>
  Deleting a domain removes its row and no other, and only when no app is bound to it; a deletion that
  is refused or fails leaves every domain as it was.
\<close>

theorem domain_Delete_exact:
  assumes "domain_Delete ds i w = (r, w')"
  shows "case r of
      Inl e \<Rightarrow> domains w' = domains w
    | Inr _ \<Rightarrow> domains w' = filter (\<lambda>d. d_id d \<noteq> i) (domains w) \<and>
        (\<exists>d. find (\<lambda>d. d_id d = i) (domains w) = Some d \<and> (d_app_id d = None \<or> d_app_id d = Some []))"
proof (cases "delete_checks ds i w")
  case (Pair c v)
  have same: "domains v = domains w" using movesD [OF delete_checks_same Pair] .
  show ?thesis
  proof (cases c)
    case (Inl e)
    with assms Pair same show ?thesis by (auto simp: domain_Delete_def bnd_def)
  next
    case (Inr u)
    then have "domain_delete i v = (r, w')" using assms Pair by (simp add: domain_Delete_def bnd_def)
    moreover have "\<exists>d. find (\<lambda>d. d_id d = i) (domains w) = Some d \<and> (d_app_id d = None \<or> d_app_id d = Some [])"
      using Pair Inr unfolding delete_checks_def domain_get_def
      by (auto simp: bnd_eq_Inr_iff fail_def dest!: domain_find_Inr split: if_splits option.splits)
    ultimately show ?thesis using domain_delete_rows [where i = i and w = v] same by (auto split: sum.splits)
  qed
qed

section \<open>Routes of the proxy\<close>

text \<open>The pattern for host names leaves letters, digits, hyphens and dots.\<close>

lemma split_on_not_Nil: "split_on k s \<noteq> []"
  by (induction s) (auto simp: split_on_def)

lemma split_on_Cons: "split_on k (d # s) = (if d = k then [] # split_on k s else (d # hd (split_on k s)) # tl (split_on k s))"
  by (simp add: split_on_def)

lemma split_on_chars: "c \<in> set s \<Longrightarrow> c = k \<or> (\<exists>l \<in> set (split_on k s). c \<in> set l)"
proof (induction s)
  case (Cons d s)
  obtain l ls where "split_on k s = l # ls" using split_on_not_Nil by (cases "split_on k s") auto
  with Cons show ?case by (auto simp: split_on_Cons)
qed simp

lemma validateName_chars:
  assumes "validateName lib s = Inr ()" and "c \<in> set s"
  shows "is_alnum c \<or> c = CHR ''-'' \<or> c = CHR ''.''"
proof -
  define ls where "ls = split_on (CHR ''.'') s"
  from assms(1) have re: "list_all label_ok (butlast ls)" "list_all is_letter (last ls)"
    by (auto simp: validateName_def hostnameRe_def ls_def Let_def split: if_splits)
  have "set ls = set (butlast ls) \<union> {last ls}"
    using split_on_not_Nil [of "CHR ''.''" s] by (metis append_butlast_last_id ls_def list.simps(15) set_append list.set(1))
  with re split_on_chars [OF assms(2), of "CHR ''.''"] show ?thesis
    by (auto simp: ls_def [symmetric] list_all_iff label_ok_def is_alnum_def)
qed

definition slug_char :: "char \<Rightarrow> char" where
  "slug_char c = (if c = CHR ''.'' then CHR ''_'' else c)"

lemma replace_byte_none: "k \<notin> set s \<Longrightarrow> replace_byte k new s = s"
  by (induction s) (auto simp: replace_byte_def)

lemma routeSlug_valid:
  assumes "validateName lib s = Inr ()"
  shows "routeSlug sha s = (if length s > 60 then take 60 (map slug_char s) @ ''_'' @ hex_encode (take 4 (sha s)) else map slug_char s)"
proof -
  have plain: "c \<noteq> CHR '':'' \<and> c \<noteq> CHR ''*''" if "c \<in> set s" for c
    using validateName_chars [OF assms that] by (auto simp: is_alnum_def is_letter_def is_lower_def is_upper_def is_digit_def)
  have dots: "replace_byte (CHR ''.'') ''_'' s = map slug_char s"
    by (induction s) (simp_all add: replace_byte_def slug_char_def)
  have "replace_byte k new (map slug_char s) = map slug_char s" if "k \<in> {CHR '':'', CHR ''*''}" for k new
  proof -
    have "slug_char c \<noteq> k" if "c \<in> set s" for c using plain [OF that] \<open>k \<in> _\<close> by (auto simp: slug_char_def)
    then have "k \<notin> set (map slug_char s)" by auto
    then show ?thesis by (rule replace_byte_none)
  qed
  then show ?thesis by (simp add: routeSlug_def dots Let_def)
qed

lemma slug_char_inj: "inj_on slug_char {c. is_alnum c \<or> c = CHR ''-'' \<or> c = CHR ''.''}"
  by (auto simp: inj_on_def slug_char_def is_alnum_def is_letter_def is_lower_def is_upper_def is_digit_def)

lemma map_slug_inj:
  assumes "validateName lib a = Inr ()" and "validateName lib b = Inr ()" and "map slug_char (take n a) = map slug_char (take n b)"
  shows "take n a = take n b"
proof (rule map_inj_on [OF assms(3)])
  have "set (take n a) \<union> set (take n b) \<subseteq> {c. is_alnum c \<or> c = CHR ''-'' \<or> c = CHR ''.''}"
    using validateName_chars [OF assms(1)] validateName_chars [OF assms(2)] by (auto dest!: in_set_takeD)
  then show "inj_on slug_char (set (take n a) \<union> set (take n b))" by (rule inj_on_subset [OF slug_char_inj])
qed

lemma routeSlug_eq:
  assumes "validateName lib a = Inr ()" and "validateName lib b = Inr ()" and "a \<noteq> b" and "routeSlug sha a = routeSlug sha b"
  shows "length a > 60 \<and> length b > 60 \<and> take 60 a = take 60 b \<and> hex_encode (take 4 (sha a)) = hex_encode (take 4 (sha b))"
proof (cases "length a > 60 \<and> length b > 60")
  case True
  with assms(4) have "map slug_char (take 60 a) = map slug_char (take 60 b) \<and> hex_encode (take 4 (sha a)) = hex_encode (take 4 (sha b))"
    by (simp add: routeSlug_valid [OF assms(1)] routeSlug_valid [OF assms(2)] take_map)
  with True map_slug_inj [OF assms(1,2)] show ?thesis by blast
next
  case False
  have "length (routeSlug sha x) > 60 \<longleftrightarrow> length x > 60" if "validateName lib x = Inr ()" for x
    by (simp add: routeSlug_valid [OF that])
  with assms have "length a > 60 \<longleftrightarrow> length b > 60" by metis
  with False assms(4) have "length a \<le> 60" "length b \<le> 60" "map slug_char a = map slug_char b"
    by (auto simp: routeSlug_valid [OF assms(1)] routeSlug_valid [OF assms(2)])
  then have "a = b" using map_slug_inj [OF assms(1,2), of 60] by simp
  with assms(3) show ?thesis by simp
qed

text \<open>
  C18. Two accepted host names of at most 60 bytes never share a proxy route: neither their routes, nor their
  plain-HTTP routes, nor a route of one with a plain-HTTP route of the other. Longer names share one only when
  they agree on their first 60 bytes and on the first four bytes of their hash.
\<close>

theorem routes_of_domains_distinct:
  assumes "validateName lib a = Inr ()" and "validateName lib b = Inr ()" and "a \<noteq> b"
  shows "routeID sha a \<noteq> httpPassthroughRouteID sha b \<and>
    (routeID sha a = routeID sha b \<longleftrightarrow> httpPassthroughRouteID sha a = httpPassthroughRouteID sha b) \<and>
    (routeID sha a = routeID sha b \<longrightarrow> length a > 60 \<and> length b > 60 \<and> take 60 a = take 60 b \<and>
       hex_encode (take 4 (sha a)) = hex_encode (take 4 (sha b)))"
  using routeSlug_eq [OF assms, of sha] by (auto simp: routeID_def httpPassthroughRouteID_def)

section \<open>Two passes at once\<close>

text \<open>The invariant needs the certificate monitor's pass to run alone: its statements do not check that the row
  still is where the listing saw it. With a retry between the listing and the update, a domain becomes active
  without a verified record.\<close>

definition fx_dsvc :: "unit dsvc" where
  "fx_dsvc =
     \<lparr>ds_caddy = None, ds_sha1 = (\<lambda>s. []), ds_net = fx_net, ds_zones = None, ds_publicIP = Some (\<lambda>n. Inr ''1.2.3.4''),
      ds_instance = None, ds_events = False, ds_dial = (\<lambda>h n. PeerCertificate ''R3'' ''lets'' ''other'' 5)\<rparr>"

definition fx_row :: "string \<Rightarrow> string \<Rightarrow> string option \<Rightarrow> string \<Rightarrow> bool \<Rightarrow> domain_row" where
  "fx_row i name app ssl v =
     \<lparr>d_id = i, d_name = name, d_app_id = app, d_is_primary = app \<noteq> None, d_ssl_status = ssl, d_ssl_expires_at = None,
      d_zone_id = None, d_covered_by_wildcard = False, d_dns_verified = v, d_dns_verified_at = None, d_dns_last_check = None,
      d_dns_check_count = 0, d_service = None, d_port = None, d_force_https = True, d_created_at = 0, d_updated_at = 0\<rparr>"

definition fx_domains :: "(unit, unit) hostdb" where
  "fx_domains =
     db.extend (fx_apps\<lparr>orc := quiet_env\<lparr>o_rand := (\<lambda>_. None)\<rparr>,
         domains := [fx_row ''d1'' ''x.io'' (Some ''a1'') ''issuing'' True, fx_row ''d2'' ''b.x.io'' None ''pending'' False]\<rparr>)
       (hostdb.fields () () [] None [])"

lemma fx_domains_ok: "domain_ok (ds_net fx_dsvc) fx_domains"
  by code_simp

lemma monitor_needs_exclusion:
  "\<not> domain_ok (ds_net fx_dsvc)
     (snd (handleProdMode fx_dsvc (fx_row ''d1'' ''x.io'' (Some ''a1'') ''issuing'' True) newFailureTracker
       (domain_call_run fx_dsvc (DRetry ''d1'') fx_domains)))"
  by code_simp

section \<open>Witnesses\<close>

theorem domains_stay_ok_witness:
  "domain_ok (ds_net fx_dsvc) (fold (domain_call_run fx_dsvc) [DVerify ''d2'', DDelete ''d2'', SslPass newFailureTracker] fx_domains)"
  by (rule domains_stay_ok [OF fx_domains_ok])

theorem domain_Delete_exact_witness:
  "map d_id (domains (snd (domain_Delete fx_dsvc ''d2'' fx_domains))) = [''d1'']"
proof -
  have "fst (domain_Delete fx_dsvc ''d2'' fx_domains) = Inr ()" by code_simp
  from domain_Delete_exact [OF fst_result [OF this]] show ?thesis by (simp add: fx_domains_def fx_row_def db.defs)
qed

theorem routes_of_domains_distinct_witness: "routeID (\<lambda>s. []) ''x.io'' \<noteq> routeID (\<lambda>s. []) ''b.x.io''"
proof -
  have "validateName fx_net ''x.io'' = Inr ()" "validateName fx_net ''b.x.io'' = Inr ()" by code_simp+
  from routes_of_domains_distinct [OF this, of "\<lambda>s. []"] show ?thesis by auto
qed

end
