(* ===== verification/GitSource.thy ===== *)
theory GitSource
  imports Services
begin

text \<open>
  Git sources (\<open>internal/gitsrc/source.go\<close>): the repository of the \<open>git_sources\<close> table, the sealed
  credentials of a source, the one-time state of the GitHub manifest round trip, which lives in the
  \<open>settings\<close> table, and the migration of the credentials that earlier releases kept there. Cloning and
  the GitHub API are not part of the model.
\<close>

section \<open>Sources\<close>

record Source =
  so_ID :: string
  so_Type :: string
  so_Name :: string
  so_InstallationID :: "string option"
  so_PrivateKey :: "nat list"
  so_PublicKey :: "string option"
  so_Token :: "nat list"
  so_CreatedAt :: int
  so_AppID :: string
  so_AppSlug :: string
  so_AppPrivateKey :: "nat list"
  so_AccountLogin :: string
  so_AccountType :: string
  so_WebhookSecret :: string

definition source_ErrNotFound :: err where
  "source_ErrNotFound = ErrNew ''git source: not found''"

definition source_ErrInUse :: err where
  "source_ErrInUse = ErrNew ''git source: in use by one or more apps''"

definition NewWebhookSecret :: "('x, string) go" where
  "NewWebhookSecret = bnd (rand_read 32) (\<lambda>buf. ret (hex_encode buf))"

definition nullBytes :: "nat list \<Rightarrow> nat list option" where
  "nullBytes b = (if b = [] then None else Some b)"

definition nullString :: "string \<Rightarrow> string option" where
  "nullString s = (if s = [] then None else Some s)"

definition or_empty :: "'a list option \<Rightarrow> 'a list" where
  "or_empty p = (case p of None \<Rightarrow> [] | Some s \<Rightarrow> s)"

definition scanSource :: "source_row \<Rightarrow> Source" where
  "scanSource r =
     \<lparr>so_ID = gs_id r, so_Type = gs_type r, so_Name = gs_name r, so_InstallationID = gs_installation_id r,
      so_PrivateKey = or_empty (gs_private_key r), so_PublicKey = gs_public_key r, so_Token = or_empty (gs_token r),
      so_CreatedAt = gs_created_at r, so_AppID = or_empty (gs_app_id r), so_AppSlug = or_empty (gs_app_slug r),
      so_AppPrivateKey = or_empty (gs_app_private_key r), so_AccountLogin = or_empty (gs_account_login r),
      so_AccountType = or_empty (gs_account_type r), so_WebhookSecret = or_empty (gs_webhook_secret r)\<rparr>"

text \<open>The row the statement of \<open>Create\<close> writes; \<open>created_at\<close> is the default of the column.\<close>

definition source_values :: "Source \<Rightarrow> int \<Rightarrow> source_row" where
  "source_values s now =
     \<lparr>gs_id = so_ID s, gs_type = so_Type s, gs_name = so_Name s, gs_installation_id = so_InstallationID s,
      gs_private_key = nullBytes (so_PrivateKey s), gs_public_key = so_PublicKey s, gs_token = nullBytes (so_Token s),
      gs_created_at = now, gs_app_id = nullString (so_AppID s), gs_app_slug = nullString (so_AppSlug s),
      gs_app_private_key = nullBytes (so_AppPrivateKey s), gs_account_login = nullString (so_AccountLogin s),
      gs_account_type = nullString (so_AccountType s), gs_webhook_secret = nullString (so_WebhookSecret s)\<rparr>"

definition source_Create :: "Source \<Rightarrow> ('x, unit) dbm" where
  "source_Create s =
     bnd (wrapping ''insert git_source'' (db_exec (\<lambda>w. insert_source (source_values s (unixepoch w)) w))) (\<lambda>_. ret ())"

text \<open>An update of one source, an error when there is none.\<close>

definition set_source :: "string \<Rightarrow> string \<Rightarrow> (source_row \<Rightarrow> source_row) \<Rightarrow> ('x, unit) dbm" where
  "set_source msg i f =
     bnd (wrapping msg (db_exec (update_sources (\<lambda>s. gs_id s = i) f))) (\<lambda>n.
     if n = 0 then fail source_ErrNotFound else ret ())"

definition SetWebhookSecret :: "string \<Rightarrow> string \<Rightarrow> ('x, unit) dbm" where
  "SetWebhookSecret i secret = set_source ''update webhook_secret'' i (\<lambda>s. s\<lparr>gs_webhook_secret := nullString secret\<rparr>)"

definition UpdateInstallation :: "string \<Rightarrow> string \<Rightarrow> string \<Rightarrow> string \<Rightarrow> ('x, unit) dbm" where
  "UpdateInstallation i installationID accountLogin accountType =
     set_source ''update installation'' i
       (\<lambda>s. s\<lparr>gs_installation_id := Some installationID, gs_account_login := Some accountLogin,
             gs_account_type := Some accountType\<rparr>)"

definition source_Get :: "string \<Rightarrow> ('x, Source) dbm" where
  "source_Get i =
     bnd (attempt (db_query_row (\<lambda>w. find (\<lambda>s. gs_id s = i) (git_sources w)))) (\<lambda>r.
     case r of
       Inl e \<Rightarrow> (if errors_is e (ErrSql NoRows) then fail source_ErrNotFound else fail e)
     | Inr s \<Rightarrow> ret (scanSource s))"

text \<open>\<open>ORDER BY created_at DESC\<close>.\<close>

definition source_List :: "('x, Source list) dbm" where
  "source_List =
     wrapping ''query git_sources''
       (db_query (\<lambda>w. map scanSource (sort_key (\<lambda>s. - gs_created_at s) (git_sources w))))"

definition CountGitHubSources :: "('x, nat) dbm" where
  "CountGitHubSources =
     wrapping ''count github sources'' (db_query (\<lambda>w. length (filter (\<lambda>s. gs_type s = ''github_app'') (git_sources w))))"

definition source_Delete :: "string \<Rightarrow> ('x, unit) dbm" where
  "source_Delete i =
     bnd (wrapping ''count apps'' (db_query (\<lambda>w. length (filter (\<lambda>a. a_git_source_id a = Some i) (apps w))))) (\<lambda>n.
     if n > 0 then fail source_ErrInUse
     else
       bnd (wrapping ''delete git_source'' (db_exec (delete_sources (\<lambda>s. gs_id s = i)))) (\<lambda>aff.
       if aff = 0 then fail source_ErrNotFound else ret ()))"

section \<open>Credentials\<close>

definition open_field :: "aead \<Rightarrow> nat list \<Rightarrow> err + string" where
  "open_field cipher b = (if b = [] then Inr [] else sum_bind (Decrypt cipher b) (\<lambda>p. Inr (string_of p)))"

definition DecryptPrivateKey :: "aead \<Rightarrow> Source \<Rightarrow> err + string" where
  "DecryptPrivateKey cipher s = open_field cipher (so_PrivateKey s)"

definition DecryptToken :: "aead \<Rightarrow> Source \<Rightarrow> err + string" where
  "DecryptToken cipher s = open_field cipher (so_Token s)"

definition DecryptAppPrivateKey :: "aead \<Rightarrow> Source \<Rightarrow> err + string" where
  "DecryptAppPrivateKey cipher s = open_field cipher (so_AppPrivateKey s)"

definition EncryptString :: "aead \<Rightarrow> string \<Rightarrow> ('x, nat list) go" where
  "EncryptString cipher s = (if s = [] then ret [] else Encrypt cipher (bytes_of s))"

record AppAuth =
  aa_AppID :: string
  aa_PrivateKeyPEM :: string
  aa_InstallationID :: string

definition AppAuthFor :: "aead \<Rightarrow> Source \<Rightarrow> err + AppAuth" where
  "AppAuthFor cipher s =
     (case DecryptAppPrivateKey cipher s of
        Inl e \<Rightarrow> Inl (ErrWrap ''decrypt app private key'' e)
      | Inr pem \<Rightarrow>
          Inr \<lparr>aa_AppID = so_AppID s, aa_PrivateKeyPEM = pem,
               aa_InstallationID = (case so_InstallationID s of None \<Rightarrow> [] | Some i \<Rightarrow> i)\<rparr>)"

section \<open>Settings\<close>

definition Setting :: "string \<Rightarrow> ('x, string) dbm" where
  "Setting key =
     bnd (attempt (db_query_row (\<lambda>w. map_option st_value (find (\<lambda>s. st_key s = key) (settings w))))) (\<lambda>r.
     case r of
       Inl e \<Rightarrow> (if errors_is e (ErrSql NoRows) then fail source_ErrNotFound else fail e)
     | Inr v \<Rightarrow> ret v)"

definition state_key :: "string \<Rightarrow> string" where
  "state_key state = ''github_manifest_state:'' @ state"

definition SaveManifestState :: "string \<Rightarrow> string \<Rightarrow> ('x, unit) dbm" where
  "SaveManifestState state baseURL = bnd (db_exec (upsert_setting True (state_key state) baseURL)) (\<lambda>_. ret ())"

definition ConsumeManifestState :: "string \<Rightarrow> ('x, string) dbm" where
  "ConsumeManifestState state =
     transaction_as id id
       (bnd (Setting (state_key state)) (\<lambda>baseURL.
        bnd (db_exec (delete_settings (\<lambda>s. st_key s = state_key state))) (\<lambda>_.
        ret baseURL)))"

text \<open>The keys of the credentials earlier releases kept in \<open>settings\<close>.\<close>

definition singleton_keys :: "string list" where
  "singleton_keys = [''github_app_id'', ''github_app_slug'', ''github_app_private_key'']"

definition singleton_value :: "setting_row list \<Rightarrow> string \<Rightarrow> string" where
  "singleton_value rows k = (case find (\<lambda>s. st_key s = k) rows of None \<Rightarrow> [] | Some s \<Rightarrow> st_value s)"

definition backfill_tx :: "string \<Rightarrow> string \<Rightarrow> nat list \<Rightarrow> ('x, unit) dbm" where
  "backfill_tx appID slug rawKey =
     bnd (wrapping ''apply singleton to rows''
       (db_exec (update_sources (\<lambda>s. gs_type s = ''github_app'' \<and> gs_app_id s = None)
          (\<lambda>s. s\<lparr>gs_app_id := Some appID, gs_app_slug := Some slug, gs_app_private_key := Some rawKey\<rparr>)))) (\<lambda>_.
     bnd (wrapping ''delete singleton'' (db_exec (delete_settings (\<lambda>s. st_key s \<in> set singleton_keys)))) (\<lambda>_.
     ret ()))"

definition BackfillSingletonAppConfig :: "('x, unit) dbm" where
  "BackfillSingletonAppConfig =
     bnd (wrapping ''read singleton'' (db_query (\<lambda>w. filter (\<lambda>s. st_key s \<in> set singleton_keys) (settings w)))) (\<lambda>rows.
     let value = singleton_value rows
     in if value ''github_app_id'' = [] \<or> value ''github_app_private_key'' = [] then ret ()
        else
          case base64_decode (value ''github_app_private_key'') of
            None \<Rightarrow> fail (ErrWrap ''decode legacy private_key'' (ErrNew ''base64''))
          | Some rawKey \<Rightarrow> transaction_as id id (backfill_tx (value ''github_app_id'') (value ''github_app_slug'') rawKey))"

section \<open>Properties\<close>

lemma Setting_Inr: "Setting k w = (Inr v, w') \<longleftrightarrow>
    \<not> o_fault (orc w) (stp w) \<and> w' = tick w \<and> (\<exists>s. find (\<lambda>s. st_key s = k) (settings w) = Some s \<and> st_value s = v)"
  by (auto simp: Setting_def bnd_attempt db_query_row_cases fail_def ret_def split: option.splits)

lemma Setting_absent:
  "\<not> o_fault (orc w) (stp w) \<Longrightarrow> find (\<lambda>s. st_key s = k) (settings w) = None \<Longrightarrow> Setting k w = (Inl source_ErrNotFound, tick w)"
  by (simp add: Setting_def bnd_attempt db_query_row_cases fail_def)

text \<open>
  A state of the manifest round trip can be used once: the call that returns it removes it, keeps every
  other setting, and the same state presented again is refused.
\<close>

theorem manifest_state_once:
  assumes "ConsumeManifestState state w = (Inr baseURL, w')" and "quiet w"
  shows "(\<exists>s. s \<in> set (settings w) \<and> st_key s = state_key state \<and> st_value s = baseURL) \<and>
    settings w' = filter (\<lambda>s. st_key s \<noteq> state_key state) (settings w) \<and>
    fst (ConsumeManifestState state w') = Inl source_ErrNotFound"
proof -
  from assms(1) obtain n v s where del: "delete_settings (\<lambda>s. st_key s = state_key state) (tick (tick w)) = Inr (n, v)"
    and s: "find (\<lambda>s. st_key s = state_key state) (settings w) = Some s" "st_value s = baseURL" and w': "w' = tick (tick v)"
    by (auto simp: ConsumeManifestState_def transaction_eq_Inr_iff bnd_eq_Inr_iff Setting_Inr db_exec_eq_Inr_iff ret_def)
  from del have rows: "settings v = filter (\<lambda>s. st_key s \<noteq> state_key state) (settings w)" "orc v = orc w"
    by (auto simp: delete_settings_def checked_Inr_iff)
  have "Setting (state_key state) (tick w') = (Inl source_ErrNotFound, tick (tick w'))"
    using assms(2) rows by (intro Setting_absent) (auto simp: w' quiet_def find_None_iff)
  then have "fst (ConsumeManifestState state w') = Inl source_ErrNotFound"
    using assms(2) rows by (simp add: ConsumeManifestState_def transaction_as_def bnd_def w' quiet_def)
  moreover have "s \<in> set (settings w)" "st_key s = state_key state" using s(1) by (auto simp: find_Some_iff)
  ultimately show ?thesis using s(2) rows(1) w' by auto
qed

text \<open>
  A source is deleted only when no app uses it, and then alone; a refused deletion changes no source.
\<close>

theorem source_Delete_unused:
  assumes "source_Delete i w = (r, w')"
  shows "apps w' = apps w \<and> (case r of
      Inl _ \<Rightarrow> git_sources w' = git_sources w
    | Inr _ \<Rightarrow> git_sources w' = filter (\<lambda>s. gs_id s \<noteq> i) (git_sources w) \<and> (\<exists>s. s \<in> set (git_sources w) \<and> gs_id s = i) \<and>
        (\<nexists>a. a \<in> set (apps w) \<and> a_git_source_id a = Some i))"
proof -
  have none: "filter (\<lambda>s. gs_id s \<noteq> i) (git_sources w) = git_sources w" if "affected (\<lambda>s. gs_id s = i) (git_sources w) = 0"
    using that by (auto simp: affected_def filter_empty_conv intro!: filter_True)
  show ?thesis
    using assms none unfolding source_Delete_def bnd_def wrapping_def db_query_def db_exec_def delete_sources_def
    by (auto simp: fail_def ret_def checked_def affected_def filter_empty_conv split: if_splits)
qed

text \<open>
  What is stored of a source is what is read back, with the creation time of the statement.
\<close>

theorem source_roundtrip:
  assumes "source_Create s w = (Inr (), v)" and "quiet w"
  shows "\<exists>t. fst (source_Get (so_ID s) v) = Inr (s\<lparr>so_CreatedAt := t\<rparr>)"
proof -
  from assms(1) obtain n u t where ins: "insert_source (source_values s t) w = Inr (n, u)" and v: "v = tick u"
    by (auto simp: source_Create_def bnd_eq_Inr_iff wrapping_eq_Inr_iff db_exec_eq_Inr_iff ret_def)
  then have rows: "git_sources u = git_sources w @ [source_values s t]" "orc u = orc w"
    "distinct (map gs_id (git_sources w @ [source_values s t]))"
    by (auto simp: insert_source_def checked_Inr_iff unique_ok_def deploy_unique_ok_def schema_ok_def)
  have "gs_id (source_values s t) = so_ID s" by (simp add: source_values_def)
  with rows(3) have "find (\<lambda>r. gs_id r = so_ID s) (git_sources w) = None" by (auto simp: find_None_iff image_iff)
  then have "find (\<lambda>r. gs_id r = so_ID s) (git_sources u) = Some (source_values s t)"
    by (simp add: rows find_append source_values_def)
  moreover have "scanSource (source_values s t) = s\<lparr>so_CreatedAt := t\<rparr>"
    by (simp add: scanSource_def source_values_def or_empty_def nullBytes_def nullString_def)
  ultimately have "fst (source_Get (so_ID s) v) = Inr (s\<lparr>so_CreatedAt := t\<rparr>)"
    using assms(2) rows(2) by (simp add: source_Get_def bnd_attempt db_query_row_cases v quiet_def ret_def)
  then show ?thesis ..
qed

text \<open>
  A credential sealed for a source opens to the same text.
\<close>

theorem credential_roundtrip:
  assumes "aead_law cipher" and "EncryptString cipher plain w = (Inr sealed, w')"
  shows "DecryptToken cipher (s\<lparr>so_Token := sealed\<rparr>) = Inr plain"
proof (cases "plain = []")
  case True
  with assms(2) show ?thesis by (simp add: EncryptString_def ret_def DecryptToken_def open_field_def)
next
  case False
  with assms(2) have enc: "Encrypt cipher (bytes_of plain) w = (Inr sealed, w')" by (simp add: EncryptString_def)
  then have "sealed \<noteq> []"
    by (auto simp: Encrypt_def bnd_eq_Inr_iff wrapping_eq_Inr_iff go_simps nonceLen_def dest!: rand_read_length)
  with Decrypt_Encrypt [OF assms(1) enc] show ?thesis by (simp add: DecryptToken_def open_field_def sum_bind_def)
qed

text \<open>
  The migration of the old credentials gives them to every GitHub source without its own, changes no other
  source, leaves none of the old settings behind, and does nothing when it runs again.
\<close>

theorem backfill_migrates:
  assumes "BackfillSingletonAppConfig w = (Inr (), w')" and "quiet w"
    and "singleton_value (settings w) ''github_app_id'' \<noteq> []" and "singleton_value (settings w) ''github_app_private_key'' \<noteq> []"
  shows "\<exists>rawKey. base64_decode (singleton_value (settings w) ''github_app_private_key'') = Some rawKey \<and>
    git_sources w' = map (\<lambda>s. if gs_type s = ''github_app'' \<and> gs_app_id s = None
      then s\<lparr>gs_app_id := Some (singleton_value (settings w) ''github_app_id''),
             gs_app_slug := Some (singleton_value (settings w) ''github_app_slug''), gs_app_private_key := Some rawKey\<rparr>
      else s) (git_sources w) \<and>
    settings w' = filter (\<lambda>s. st_key s \<notin> set singleton_keys) (settings w) \<and>
    BackfillSingletonAppConfig w' = (Inr (), tick w')"
proof -
  define rows where "rows = filter (\<lambda>s. st_key s \<in> set singleton_keys) (settings w)"
  have val: "singleton_value rows k = singleton_value (settings w) k" if "k \<in> set singleton_keys" for k
  proof -
    have "find (\<lambda>s. st_key s = k) (filter (\<lambda>s. st_key s \<in> set singleton_keys) rs) = find (\<lambda>s. st_key s = k) rs" for rs :: "setting_row list"
      using that by (induction rs) auto
    then show ?thesis by (simp add: singleton_value_def rows_def)
  qed
  have keys: "''github_app_id'' \<in> set singleton_keys" "''github_app_slug'' \<in> set singleton_keys" "''github_app_private_key'' \<in> set singleton_keys"
    by (simp_all add: singleton_keys_def)
  from assms(1,3,4) obtain rawKey where raw: "base64_decode (singleton_value (settings w) ''github_app_private_key'') = Some rawKey"
    and tx: "transaction_as id id (backfill_tx (singleton_value (settings w) ''github_app_id'') (singleton_value (settings w) ''github_app_slug'') rawKey)
      (tick w) = (Inr (), w')"
    using val [OF keys(1)] val [OF keys(2)] val [OF keys(3)]
    by (auto simp: BackfillSingletonAppConfig_def bnd_eq_Inr_iff wrapping_eq_Inr_iff db_query_eq_Inr_iff rows_def [symmetric] Let_def
        ret_def fail_def split: option.splits if_splits)
  from tx have w': "git_sources w' = map (\<lambda>s. if gs_type s = ''github_app'' \<and> gs_app_id s = None
      then s\<lparr>gs_app_id := Some (singleton_value (settings w) ''github_app_id''),
             gs_app_slug := Some (singleton_value (settings w) ''github_app_slug''), gs_app_private_key := Some rawKey\<rparr>
      else s) (git_sources w)" "settings w' = filter (\<lambda>s. st_key s \<notin> set singleton_keys) (settings w)" "orc w' = orc w"
    by (auto simp: transaction_eq_Inr_iff backfill_tx_def bnd_eq_Inr_iff wrapping_eq_Inr_iff db_exec_eq_Inr_iff ret_def
        update_sources_def delete_settings_def checked_Inr_iff update_where_def)
  have "BackfillSingletonAppConfig w' = (Inr (), tick w')"
    using assms(2) w'(2,3)
    by (simp add: BackfillSingletonAppConfig_def bnd_def wrapping_def db_query_def quiet_def singleton_value_def ret_def filter_empty_conv Let_def)
  with raw w' show ?thesis by blast
qed

section \<open>Witnesses\<close>

definition fx_source :: Source where
  "fx_source =
     \<lparr>so_ID = ''g1'', so_Type = ''github_app'', so_Name = ''gh'', so_InstallationID = None, so_PrivateKey = [], so_PublicKey = None,
      so_Token = [], so_CreatedAt = 0, so_AppID = [], so_AppSlug = [], so_AppPrivateKey = [], so_AccountLogin = [],
      so_AccountType = [], so_WebhookSecret = ''s''\<rparr>"

definition fx_setting :: "string \<Rightarrow> string \<Rightarrow> setting_row" where
  "fx_setting k v = \<lparr>st_key = k, st_value = v, st_updated_at = 0\<rparr>"

definition fx_git :: db where
  "fx_git =
     fx_db\<lparr>orc := quiet_env\<lparr>o_rand := (\<lambda>n. Some (replicate 12 7))\<rparr>, git_sources := [source_values fx_source 0],
       settings := [fx_setting (state_key ''s'') ''u'', fx_setting ''github_app_id'' ''1'', fx_setting ''github_app_private_key'' ''QUJD'']\<rparr>"

lemma fx_git_quiet: "quiet fx_git"
  by (simp add: quiet_def fx_git_def)

theorem manifest_state_once_witness:
  "fst (ConsumeManifestState ''s'' (snd (ConsumeManifestState ''s'' fx_git))) = Inl source_ErrNotFound"
proof -
  have "fst (ConsumeManifestState ''s'' fx_git) = Inr ''u''" by code_simp
  from manifest_state_once [OF fst_result [OF this] fx_git_quiet] show ?thesis by blast
qed

theorem source_Delete_unused_witness: "git_sources (snd (source_Delete ''g1'' fx_git)) = []"
proof -
  have "fst (source_Delete ''g1'' fx_git) = Inr ()" by code_simp
  from source_Delete_unused [OF fst_result [OF this]] show ?thesis by (simp add: fx_git_def source_values_def fx_source_def)
qed

theorem source_roundtrip_witness:
  "\<exists>t. fst (source_Get ''g2'' (snd (source_Create (fx_source\<lparr>so_ID := ''g2''\<rparr>) fx_git))) = Inr (fx_source\<lparr>so_ID := ''g2'', so_CreatedAt := t\<rparr>)"
proof -
  have "fst (source_Create (fx_source\<lparr>so_ID := ''g2''\<rparr>) fx_git) = Inr ()" by code_simp
  from source_roundtrip [OF fst_result [OF this] fx_git_quiet] show ?thesis by simp
qed

theorem credential_roundtrip_witness:
  "\<exists>sealed. fst (EncryptString fx_cipher ''pw'' fx_git) = Inr sealed \<and> DecryptToken fx_cipher (fx_source\<lparr>so_Token := sealed\<rparr>) = Inr ''pw''"
proof -
  have "\<exists>sealed. fst (EncryptString fx_cipher ''pw'' fx_git) = Inr sealed"
    by (simp add: EncryptString_def Encrypt_def bnd_def wrapping_def rand_read_def nonceLen_def fx_git_def ret_def)
  then obtain sealed where s: "fst (EncryptString fx_cipher ''pw'' fx_git) = Inr sealed" ..
  have "aead_law fx_cipher" by (simp add: aead_law_def fx_cipher_def)
  with s credential_roundtrip [OF this fst_result [OF s]] show ?thesis by auto
qed

theorem backfill_migrates_witness:
  "map gs_app_private_key (git_sources (snd (BackfillSingletonAppConfig fx_git))) = [Some [65, 66, 67]]"
proof -
  have run: "fst (BackfillSingletonAppConfig fx_git) = Inr ()" by code_simp
  have "singleton_value (settings fx_git) ''github_app_id'' \<noteq> []" "singleton_value (settings fx_git) ''github_app_private_key'' \<noteq> []"
    by code_simp+
  from backfill_migrates [OF fst_result [OF run] fx_git_quiet this]
  obtain rawKey where "base64_decode (singleton_value (settings fx_git) ''github_app_private_key'') = Some rawKey"
    and rows: "git_sources (snd (BackfillSingletonAppConfig fx_git)) = map (\<lambda>s. if gs_type s = ''github_app'' \<and> gs_app_id s = None
      then s\<lparr>gs_app_id := Some (singleton_value (settings fx_git) ''github_app_id''),
             gs_app_slug := Some (singleton_value (settings fx_git) ''github_app_slug''), gs_app_private_key := Some rawKey\<rparr>
      else s) (git_sources fx_git)" by blast
  moreover have "base64_decode (singleton_value (settings fx_git) ''github_app_private_key'') = Some [65, 66, 67]" by code_simp
  ultimately show ?thesis by (simp add: fx_git_def source_values_def fx_source_def nullString_def)
qed

end
