(* ===== verification/GitUrl.thy ===== *)
theory GitUrl
  imports GitSource
begin

text \<open>
  The gate in front of every clone (\<open>internal/gitsrc/validate.go\<close>): which repository addresses are
  accepted, and the classification of network addresses it rests on (\<open>net.IP\<close> of the standard library: a
  list of 4 or 16 bytes). Parsing of addresses (\<open>net.ParseIP\<close>), of URLs (\<open>url.Parse\<close>: scheme and host) and
  the resolver are parameters.
\<close>

section \<open>Addresses\<close>

type_synonym ip = "nat list"

definition To4 :: "ip \<Rightarrow> ip option" where
  "To4 ip =
     (if length ip = 4 then Some ip
      else if length ip = 16 \<and> take 10 ip = replicate 10 0 \<and> ip ! 10 = 255 \<and> ip ! 11 = 255 then Some (drop 12 ip)
      else None)"

definition IsLoopback :: "ip \<Rightarrow> bool" where
  "IsLoopback ip \<longleftrightarrow> (case To4 ip of Some q \<Rightarrow> q ! 0 = 127 | None \<Rightarrow> ip = replicate 15 0 @ [1])"

definition IsUnspecified :: "ip \<Rightarrow> bool" where
  "IsUnspecified ip \<longleftrightarrow> (case To4 ip of Some q \<Rightarrow> q = [0, 0, 0, 0] | None \<Rightarrow> ip = replicate 16 0)"

definition IsMulticast :: "ip \<Rightarrow> bool" where
  "IsMulticast ip \<longleftrightarrow> (case To4 ip of Some q \<Rightarrow> q ! 0 div 16 = 14 | None \<Rightarrow> length ip = 16 \<and> ip ! 0 = 255)"

definition IsLinkLocalUnicast :: "ip \<Rightarrow> bool" where
  "IsLinkLocalUnicast ip \<longleftrightarrow>
     (case To4 ip of
        Some q \<Rightarrow> q ! 0 = 169 \<and> q ! 1 = 254
      | None \<Rightarrow> length ip = 16 \<and> ip ! 0 = 254 \<and> ip ! 1 div 64 = 2)"

definition IsLinkLocalMulticast :: "ip \<Rightarrow> bool" where
  "IsLinkLocalMulticast ip \<longleftrightarrow>
     (case To4 ip of
        Some q \<Rightarrow> q ! 0 = 224 \<and> q ! 1 = 0 \<and> q ! 2 = 0
      | None \<Rightarrow> length ip = 16 \<and> ip ! 0 = 255 \<and> ip ! 1 mod 16 = 2)"

definition IsPrivate :: "ip \<Rightarrow> bool" where
  "IsPrivate ip \<longleftrightarrow>
     (case To4 ip of
        Some q \<Rightarrow> q ! 0 = 10 \<or> (q ! 0 = 172 \<and> q ! 1 div 16 = 1) \<or> (q ! 0 = 192 \<and> q ! 1 = 168)
      | None \<Rightarrow> length ip = 16 \<and> ip ! 0 div 2 = 126)"

definition awsMetadataIP :: ip where
  "awsMetadataIP = replicate 10 0 @ [255, 255, 169, 254, 169, 254]"

definition ip_Equal :: "ip \<Rightarrow> ip \<Rightarrow> bool" where
  "ip_Equal a b \<longleftrightarrow> (case (To4 a, To4 b) of (Some p, Some q) \<Rightarrow> p = q | (None, None) \<Rightarrow> a = b | _ \<Rightarrow> False)"

definition isBlockedIP :: "ip \<Rightarrow> bool" where
  "isBlockedIP ip \<longleftrightarrow>
     ip = [] \<or> IsLoopback ip \<or> (IsLinkLocalUnicast ip \<or> IsLinkLocalMulticast ip) \<or> IsMulticast ip \<or> IsUnspecified ip \<or>
     ip_Equal ip awsMetadataIP \<or> IsPrivate ip"

section \<open>Repository addresses\<close>

record urllib =
  ul_ParseIP :: "string \<Rightarrow> ip option"
  ul_LookupIP :: "string \<Rightarrow> nat \<Rightarrow> err + ip list"
  ul_Parse :: "string \<Rightarrow> err + string \<times> string"

definition trim_brackets :: "string \<Rightarrow> string" where
  "trim_brackets s =
     (let b = (\<lambda>c. c = CHR ''['' \<or> c = CHR '']'')
      in rev (dropWhile b (rev (dropWhile b s))))"

text \<open>The text before the first colon, without a slash, and in it the text after the last at sign.\<close>

definition parseSCPLike :: "string \<Rightarrow> string option" where
  "parseSCPLike raw =
     (let hostPart = takeWhile (\<lambda>c. c \<noteq> CHR '':'') raw;
          host = rev (takeWhile (\<lambda>c. c \<noteq> CHR ''@'') (rev hostPart))
      in if CHR '':'' \<notin> set raw \<or> hostPart = [] then None
         else if CHR ''/'' \<in> set hostPart then None
         else if host = [] then None
         else Some host)"

definition validateHost :: "urllib \<Rightarrow> string \<Rightarrow> ('x, unit) go" where
  "validateHost ul host0 =
     (let host = trim_brackets host0
      in case ul_ParseIP ul host of
           Some ip \<Rightarrow> (if isBlockedIP ip then fail (ErrNew ''git url: host resolves to a blocked address'') else ret ())
         | None \<Rightarrow>
             bnd (wrapping ''git url: resolve'' (draw (ul_LookupIP ul host))) (\<lambda>ips.
             if ips = [] then fail (ErrNew ''git url: host resolves to no addresses'')
             else if list_ex isBlockedIP ips then fail (ErrNew ''git url: host resolves to a blocked address'')
             else ret ()))"

definition allowed_schemes :: "string list" where
  "allowed_schemes = [''https'', ''ssh'', ''git+ssh'']"

definition ValidateRepoURL :: "urllib \<Rightarrow> string \<Rightarrow> ('x, unit) go" where
  "ValidateRepoURL ul rawURL =
     (let raw = trim_space rawURL
      in if raw = [] then fail (ErrNew ''git url: empty'')
         else if \<not> sublist ''://'' raw then
           (case parseSCPLike raw of
              None \<Rightarrow> fail (ErrNew ''git url: unsupported form'')
            | Some host \<Rightarrow> validateHost ul host)
         else
           bnd (wrapping ''git url: parse'' (lift_res (ul_Parse ul raw))) (\<lambda>(scheme, host).
           if to_lower scheme \<notin> set allowed_schemes then fail (ErrNew ''git url: scheme not allowed'')
           else if host = [] then fail (ErrNew ''git url: missing host'')
           else validateHost ul host))"

section \<open>Properties\<close>

text \<open>The value of an IPv4 address, and the ranges that are refused.\<close>

definition ipv4_value :: "ip \<Rightarrow> nat" where
  "ipv4_value q = ((q ! 0 * 256 + q ! 1) * 256 + q ! 2) * 256 + q ! 3"

definition cidr :: "nat \<Rightarrow> nat \<Rightarrow> nat \<Rightarrow> nat \<Rightarrow> nat \<Rightarrow> nat \<Rightarrow> bool" where
  "cidr a b c d bits n \<longleftrightarrow> n div 2 ^ (32 - bits) = ipv4_value [a, b, c, d] div 2 ^ (32 - bits)"

definition blocked_range :: "nat \<Rightarrow> bool" where
  "blocked_range n \<longleftrightarrow>
     n = 0 \<or> cidr 10 0 0 0 8 n \<or> cidr 127 0 0 0 8 n \<or> cidr 169 254 0 0 16 n \<or> cidr 172 16 0 0 12 n \<or> cidr 192 168 0 0 16 n \<or>
     cidr 224 0 0 0 4 n"

lemma two_digits:
  fixes x y k :: nat
  assumes "x < k" and "y < k"
  shows "a * k + x = b * k + y \<longleftrightarrow> a = b \<and> x = y"
proof
  assume eq: "a * k + x = b * k + y"
  then have "(a * k + x) div k = (b * k + y) div k" "(a * k + x) mod k = (b * k + y) mod k" by simp_all
  with assms show "a = b \<and> x = y" by simp
qed simp

lemma blocked_range_bytes:
  assumes "a < 256" "b < 256" "c < 256" "d < 256"
  shows "blocked_range (ipv4_value [a, b, c, d]) \<longleftrightarrow>
    a = 0 \<and> b = 0 \<and> c = 0 \<and> d = 0 \<or> a = 10 \<or> a = 127 \<or> a = 169 \<and> b = 254 \<or> a = 172 \<and> b div 16 = 1 \<or> a = 192 \<and> b = 168 \<or>
    a div 16 = 14"
proof -
  define n where "n = ipv4_value [a, b, c, d]"
  have n: "n = ((a * 256 + b) * 256 + c) * 256 + d" by (simp add: n_def ipv4_value_def)
  have "n div 256 = (a * 256 + b) * 256 + c" using assms(4) by (simp add: n)
  then have n16: "n div 65536 = a * 256 + b" using assms(3) div_mult2_eq [of n 256 256] by simp
  then have "n div 1048576 = a * 16 + b div 16" using div_mult2_eq [of n 65536 16] by simp
  moreover have n24: "n div 16777216 = a" using assms(2) n16 div_mult2_eq [of n 65536 256] by simp
  moreover have "n div 268435456 = a div 16" using n24 div_mult2_eq [of n 16777216 16] by simp
  moreover note n16
  moreover have "a * 256 + b = 43518 \<longleftrightarrow> a = 169 \<and> b = 254" "a * 256 + b = 49320 \<longleftrightarrow> a = 192 \<and> b = 168"
    "a * 16 + b div 16 = 2753 \<longleftrightarrow> a = 172 \<and> b div 16 = 1"
    using two_digits [of b 256 254 a 169] two_digits [of b 256 168 a 192] two_digits [of "b div 16" 16 1 a 172] assms(2) by auto
  moreover have "n = 0 \<longleftrightarrow> a = 0 \<and> b = 0 \<and> c = 0 \<and> d = 0" using n by auto
  ultimately show ?thesis
    unfolding n_def [symmetric] blocked_range_def cidr_def by (simp add: ipv4_value_def)
qed

lemma isBlockedIP_bytes:
  assumes "To4 ip = Some [a, b, c, d]" and "ip \<noteq> []"
  shows "isBlockedIP ip \<longleftrightarrow> a = 0 \<and> b = 0 \<and> c = 0 \<and> d = 0 \<or> a = 10 \<or> a = 127 \<or> a = 169 \<and> b = 254 \<or> a = 172 \<and> b div 16 = 1 \<or>
    a = 192 \<and> b = 168 \<or> a div 16 = 14"
proof -
  have "To4 awsMetadataIP = Some [169, 254, 169, 254]" by (simp add: To4_def awsMetadataIP_def numeral_eq_Suc)
  with assms show ?thesis
    by (auto simp: isBlockedIP_def IsLoopback_def IsLinkLocalUnicast_def IsLinkLocalMulticast_def IsMulticast_def IsUnspecified_def
        ip_Equal_def IsPrivate_def)
qed

text \<open>The address space shared by the customers of a carrier, \<open>100.64.0.0/10\<close>.\<close>

definition carrier_grade :: "nat \<Rightarrow> bool" where
  "carrier_grade n \<longleftrightarrow> cidr 100 64 0 0 10 n"

text \<open>
  C15. An IPv4 address outside the shared address space of carriers, written in four bytes or mapped into sixteen, is
  refused exactly when it is the unspecified address or lies in one of the loopback, private, link-local or multicast ranges.
\<close>

theorem isBlockedIP_ranges:
  assumes "length q = 4" and "list_all (\<lambda>b. b < 256) q" and "\<not> carrier_grade (ipv4_value q)"
  shows "(isBlockedIP q \<longleftrightarrow> blocked_range (ipv4_value q)) \<and>
    (isBlockedIP (replicate 10 0 @ [255, 255] @ q) \<longleftrightarrow> blocked_range (ipv4_value q))"
proof -
  obtain a b c d where q: "q = [a, b, c, d]"
    using assms(1) by (auto simp: length_Suc_conv numeral_eq_Suc)
  have bounds: "a < 256" "b < 256" "c < 256" "d < 256" using assms(2) q by auto
  have "To4 (replicate 10 0 @ [255, 255] @ q) = Some q" "To4 q = Some q"
    by (simp_all add: To4_def q numeral_eq_Suc)
  then show ?thesis
    using isBlockedIP_bytes [of q a b c d] isBlockedIP_bytes [of "replicate 10 0 @ [255, 255] @ q" a b c d] blocked_range_bytes [OF bounds]
    by (simp add: q)
qed

text \<open>
  C14. A repository address is accepted only when it has no \<open>://\<close> and is in the short form of SSH, or has one and its
  scheme is \<open>https\<close>, \<open>ssh\<close> or \<open>git+ssh\<close>; and its host is either an address that is not refused or a name that resolves, and only to addresses that are not
  refused.
\<close>

theorem ValidateRepoURL_sound:
  assumes "ValidateRepoURL ul url w = (Inr (), w')"
  shows "\<exists>host.
    (if sublist ''://'' (trim_space url)
     then \<exists>scheme. ul_Parse ul (trim_space url) = Inr (scheme, host) \<and> to_lower scheme \<in> {''https'', ''ssh'', ''git+ssh''}
     else parseSCPLike (trim_space url) = Some host) \<and>
    (case ul_ParseIP ul (trim_brackets host) of
       Some ip \<Rightarrow> \<not> isBlockedIP ip
     | None \<Rightarrow> \<exists>ips. ul_LookupIP ul (trim_brackets host) (stp w) = Inr ips \<and> ips \<noteq> [] \<and> \<not> list_ex isBlockedIP ips)"
proof -
  have host: "case ul_ParseIP ul (trim_brackets host) of
       Some ip \<Rightarrow> \<not> isBlockedIP ip
     | None \<Rightarrow> \<exists>ips. ul_LookupIP ul (trim_brackets host) (stp v) = Inr ips \<and> ips \<noteq> [] \<and> \<not> list_ex isBlockedIP ips"
    if "validateHost ul host v = (Inr (), v')" for host and v v' :: "'a base_scheme"
    using that
    by (auto simp: validateHost_def Let_def fail_def ret_def bnd_eq_Inr_iff wrapping_eq_Inr_iff draw_def split: option.splits if_splits)
  show ?thesis
  proof (cases "sublist ''://'' (trim_space url)")
    case False
    with assms obtain h where "parseSCPLike (trim_space url) = Some h" "validateHost ul h w = (Inr (), w')"
      by (auto simp: ValidateRepoURL_def Let_def fail_def split: if_splits option.splits)
    with host False show ?thesis by auto
  next
    case True
    with assms obtain scheme h where "ul_Parse ul (trim_space url) = Inr (scheme, h)" "validateHost ul h w = (Inr (), w')"
      "to_lower scheme \<in> {''https'', ''ssh'', ''git+ssh''}"
      by (auto simp: ValidateRepoURL_def Let_def fail_def bnd_eq_Inr_iff wrapping_eq_Inr_iff lift_res_def allowed_schemes_def split: if_splits)
    with host True show ?thesis by auto
  qed
qed

text \<open>The comment on the last check promises the shared address space of carriers as well; it is accepted.\<close>

lemma carrier_grade_not_blocked: "carrier_grade (ipv4_value [100, 64, 0, 1]) \<and> \<not> isBlockedIP [100, 64, 0, 1]"
proof
  show "\<not> isBlockedIP [100, 64, 0, 1]" by code_simp
qed (simp add: carrier_grade_def cidr_def ipv4_value_def)

section \<open>Witnesses\<close>

definition fx_url :: urllib where
  "fx_url =
     \<lparr>ul_ParseIP = (\<lambda>s. None), ul_LookupIP = (\<lambda>h n. if h = ''evil.io'' then Inr [[10, 0, 0, 1]] else Inr [[140, 82, 121, 4]]),
      ul_Parse = (\<lambda>s. Inr (takeWhile (\<lambda>c. c \<noteq> CHR '':'') s, ''github.com''))\<rparr>"

theorem isBlockedIP_ranges_witness: "isBlockedIP [172, 31, 0, 1] \<and> \<not> isBlockedIP [172, 32, 0, 1]"
proof -
  have "blocked_range (ipv4_value [172, 31, 0, 1])" "\<not> blocked_range (ipv4_value [172, 32, 0, 1])"
    by (simp_all add: blocked_range_def cidr_def ipv4_value_def)
  moreover have "\<not> carrier_grade (ipv4_value [172, 31, 0, 1])" "\<not> carrier_grade (ipv4_value [172, 32, 0, 1])"
    by (simp_all add: carrier_grade_def cidr_def ipv4_value_def)
  ultimately show ?thesis using isBlockedIP_ranges [of "[172, 31, 0, 1]"] isBlockedIP_ranges [of "[172, 32, 0, 1]"] by simp
qed

theorem ValidateRepoURL_sound_witness:
  "(\<exists>ips. ul_LookupIP fx_url ''github.com'' 0 = Inr ips \<and> \<not> list_ex isBlockedIP ips) \<and>
   fst (ValidateRepoURL fx_url ''file:///etc/passwd'' fx_git) \<noteq> Inr ()"
proof
  have p: "\<not> sublist ''://'' (trim_space ''git@github.com:a/b'')" "parseSCPLike (trim_space ''git@github.com:a/b'') = Some ''github.com''"
    "trim_brackets ''github.com'' = ''github.com''" by code_simp+
  have "fst (ValidateRepoURL fx_url ''git@github.com:a/b'' fx_git) = Inr ()" by code_simp
  from ValidateRepoURL_sound [OF fst_result [OF this]]
  show "\<exists>ips. ul_LookupIP fx_url ''github.com'' 0 = Inr ips \<and> \<not> list_ex isBlockedIP ips"
    unfolding if_not_P [OF p(1)] p(2) by (elim exE conjE) (auto simp: p(3) fx_url_def fx_git_def)
next
  have f: "sublist ''://'' (trim_space ''file:///etc/passwd'')" "trim_space ''file:///etc/passwd'' = ''file:///etc/passwd''"
    "to_lower ''file'' = ''file''" by code_simp+
  have u: "ul_Parse fx_url ''file:///etc/passwd'' = Inr (''file'', ''github.com'')" by (simp add: fx_url_def)
  show "fst (ValidateRepoURL fx_url ''file:///etc/passwd'' fx_git) \<noteq> Inr ()"
  proof
    assume "fst (ValidateRepoURL fx_url ''file:///etc/passwd'' fx_git) = Inr ()"
    from ValidateRepoURL_sound [OF fst_result [OF this]] show False
      unfolding if_P [OF f(1)] unfolding f(2) u by (elim exE conjE) (simp add: f(3))
  qed
qed

end
