(* ===== verification/App_Service.thy ===== *)
theory App_Service
  imports GitSource
begin

text \<open>
  The service for apps (\<open>internal/app/service.go\<close> and the write half of \<open>internal/app/repo.go\<close>): what a
  new app must satisfy, the row that is built from the input with its defaults, the partial update, and
  the deletion with what must be cleaned up behind it. The checks of the source run in the order of the
  source. The map of columns an update writes is a list of the assignments it makes, in the order in which
  they are collected. Optional collaborators (git sources, instance defaults) are options of the service
  record.
\<close>

section \<open>Patterns\<close>

definition StatusIdle :: string where "StatusIdle = ''idle''"

definition StatusStopped :: string where "StatusStopped = ''stopped''"

definition digits :: "string \<Rightarrow> bool" where
  "digits s \<longleftrightarrow> s \<noteq> [] \<and> list_all is_digit s"

definition nameRegex :: "string \<Rightarrow> bool" where
  "nameRegex s \<longleftrightarrow> s \<noteq> [] \<and> is_alnum (hd s) \<and> is_alnum (last s) \<and> list_all (\<lambda>c. is_alnum c \<or> c = CHR ''-'') s"

definition envKeyRegex :: "string \<Rightarrow> bool" where
  "envKeyRegex s \<longleftrightarrow> s \<noteq> [] \<and> is_upper (hd s) \<and> list_all (\<lambda>c. is_upper c \<or> is_digit c \<or> c = CHR ''_'') s"

text \<open>A number with an optional fraction.\<close>

definition cpuRegex :: "string \<Rightarrow> bool" where
  "cpuRegex s \<longleftrightarrow> length (split_on (CHR ''.'') s) \<le> 2 \<and> list_all digits (split_on (CHR ''.'') s)"

definition memRegex :: "string \<Rightarrow> bool" where
  "memRegex s \<longleftrightarrow> cpuRegex s \<or> (s \<noteq> [] \<and> last s \<in> set ''mgkbMGKB'' \<and> cpuRegex (butlast s))"

definition cpusetRegex :: "string \<Rightarrow> bool" where
  "cpusetRegex s \<longleftrightarrow>
     list_all (\<lambda>r. length (split_on (CHR ''-'') r) \<le> 2 \<and> list_all digits (split_on (CHR ''-'') r)) (split_on (CHR '','') s)"

definition labelKeyRegex :: "string \<Rightarrow> bool" where
  "labelKeyRegex s \<longleftrightarrow>
     s \<noteq> [] \<and> is_alnum (hd s) \<and> list_all (\<lambda>c. is_alnum c \<or> c = CHR ''.'' \<or> c = CHR ''_'' \<or> c = CHR ''-'') s"

section \<open>Checks\<close>

definition strPtrOrNil :: "string \<Rightarrow> string option" where
  "strPtrOrNil s = (let v = trim_space s in if v = [] then None else Some v)"

definition trimmedPtr :: "string option \<Rightarrow> string option" where
  "trimmedPtr p = (case p of None \<Rightarrow> None | Some s \<Rightarrow> (let v = trim_space s in if v = [] then None else Some v))"

definition deref :: "string option \<Rightarrow> string" where
  "deref p = (case p of None \<Rightarrow> [] | Some s \<Rightarrow> s)"

definition nullableString :: "string \<Rightarrow> string option" where
  "nullableString s = (let v = trim_space s in if v = [] then None else Some v)"

definition isBlankPtr :: "string option \<Rightarrow> bool" where
  "isBlankPtr p \<longleftrightarrow> (case p of None \<Rightarrow> True | Some s \<Rightarrow> trim_space s = [])"

definition or_default :: "string \<Rightarrow> string \<Rightarrow> string" where
  "or_default d s = (let v = trim_space s in if v = [] then d else v)"

definition require :: "bool \<Rightarrow> string \<Rightarrow> err + unit" where
  "require b msg = (if b then Inr () else Inl (ErrNew msg))"

definition validRestartPolicies :: "string set" where
  "validRestartPolicies = {''no'', ''always'', ''on-failure'', ''unless-stopped''}"

definition validateRestartPolicy :: "string \<Rightarrow> err + unit" where
  "validateRestartPolicy p = require (p \<in> validRestartPolicies) ''invalid_restart_policy''"

definition validatePort :: "int option \<Rightarrow> err + unit" where
  "validatePort p =
     (case p of None \<Rightarrow> Inr () | Some n \<Rightarrow> require (\<not> (n < 1 \<or> n > 65535)) ''invalid_port'')"

text \<open>The text of an optional limit, blank or matching a pattern.\<close>

definition limit_text :: "(string \<Rightarrow> bool) \<Rightarrow> string \<Rightarrow> string option \<Rightarrow> err + unit" where
  "limit_text re msg p =
     (case p of None \<Rightarrow> Inr () | Some s \<Rightarrow> (let v = trim_space s in require (v = [] \<or> re v) msg))"

definition limit_range :: "int \<Rightarrow> int \<Rightarrow> string \<Rightarrow> int option \<Rightarrow> err + unit" where
  "limit_range lo hi msg p = (case p of None \<Rightarrow> Inr () | Some n \<Rightarrow> require (\<not> (n < lo \<or> n > hi)) msg)"

definition validateLimits :: "string option \<Rightarrow> string option \<Rightarrow> err + unit" where
  "validateLimits mem cpus =
     sum_bind (limit_text memRegex ''invalid_limits_memory: expected <num>(m|g|k|b)?'' mem) (\<lambda>_.
     limit_text cpuRegex ''invalid_limits_cpus: expected <float>'' cpus)"

definition validateAdvancedLimits ::
  "string option \<Rightarrow> string option \<Rightarrow> int option \<Rightarrow> string option \<Rightarrow> int option \<Rightarrow> err + unit" where
  "validateAdvancedLimits memSwap memReservation swappiness cpuset cpuShares =
     sum_bind (limit_text memRegex ''invalid_limits_memory_swap'' memSwap) (\<lambda>_.
     sum_bind (limit_text memRegex ''invalid_limits_memory_reservation'' memReservation) (\<lambda>_.
     sum_bind (limit_range 0 100 ''invalid_limits_memory_swappiness: 0-100'' swappiness) (\<lambda>_.
     sum_bind (limit_text cpusetRegex ''invalid_limits_cpuset'' cpuset) (\<lambda>_.
     limit_range 2 262144 ''invalid_limits_cpu_shares: 2-262144'' cpuShares))))"

definition label_key_ok :: "string \<Rightarrow> bool" where
  "label_key_ok k \<longleftrightarrow> k \<noteq> [] \<and> length k \<le> 253 \<and> labelKeyRegex k"

definition validateDockerLabels :: "(string \<times> string) list \<Rightarrow> err + unit" where
  "validateDockerLabels m = require (list_all (\<lambda>(k, _). label_key_ok k) m) ''invalid_docker_label_key''"

definition validateEnvMap :: "(string \<times> string) list \<Rightarrow> err + unit" where
  "validateEnvMap m = require (list_all (\<lambda>(k, _). envKeyRegex k) m) ''invalid_env_key''"

section \<open>Health checks\<close>

record HealthCheckOpts =
  hc_Enabled :: "bool option"
  hc_Path :: string
  hc_Port :: "int option"
  hc_Method :: string
  hc_ReturnCode :: int
  hc_Interval :: int
  hc_Timeout :: int
  hc_Retries :: int
  hc_StartPeriod :: int

record resolvedHealth =
  rh_Enabled :: bool
  rh_Path :: string
  rh_Method :: string
  rh_Port :: "int option"
  rh_ReturnCode :: int
  rh_Interval :: int
  rh_Timeout :: int
  rh_Retries :: int
  rh_StartPeriod :: int

definition nonzero :: "int \<Rightarrow> int \<Rightarrow> int" where
  "nonzero d n = (if n = 0 then d else n)"

text \<open>The defaults, then the ranges in the order of the source.\<close>

definition health_defaults :: "HealthCheckOpts \<Rightarrow> HealthCheckOpts" where
  "health_defaults h =
     \<lparr>hc_Enabled = (case hc_Enabled h of None \<Rightarrow> Some True | Some b \<Rightarrow> Some b),
      hc_Path = (if hc_Path h = [] then ''/'' else hc_Path h), hc_Port = hc_Port h,
      hc_Method = to_upper (if hc_Method h = [] then ''GET'' else hc_Method h),
      hc_ReturnCode = nonzero 200 (hc_ReturnCode h), hc_Interval = nonzero 30 (hc_Interval h),
      hc_Timeout = nonzero 60 (hc_Timeout h), hc_Retries = nonzero 3 (hc_Retries h),
      hc_StartPeriod = nonzero 10 (hc_StartPeriod h)\<rparr>"

definition normaliseHealthCheck :: "HealthCheckOpts \<Rightarrow> err + HealthCheckOpts" where
  "normaliseHealthCheck opts =
     (let out = health_defaults opts
      in sum_bind (require (hc_Method out = ''GET'' \<or> hc_Method out = ''HEAD'') ''invalid_health_check_method'') (\<lambda>_.
         sum_bind (require (\<not> (hc_ReturnCode out < 100 \<or> hc_ReturnCode out > 599)) ''invalid_health_check_return_code'') (\<lambda>_.
         sum_bind (require (\<not> (hc_Timeout out < 1 \<or> hc_Timeout out > 300)) ''invalid_health_check_timeout'') (\<lambda>_.
         sum_bind (require (\<not> (hc_Retries out < 1 \<or> hc_Retries out > 10)) ''invalid_health_check_retries'') (\<lambda>_.
         sum_bind (validatePort (hc_Port out)) (\<lambda>_. Inr out))))))"

definition Unwrap :: "HealthCheckOpts \<Rightarrow> resolvedHealth" where
  "Unwrap h =
     \<lparr>rh_Enabled = (case hc_Enabled h of None \<Rightarrow> True | Some b \<Rightarrow> b), rh_Path = hc_Path h, rh_Method = hc_Method h,
      rh_Port = hc_Port h, rh_ReturnCode = hc_ReturnCode h, rh_Interval = hc_Interval h, rh_Timeout = hc_Timeout h,
      rh_Retries = hc_Retries h, rh_StartPeriod = hc_StartPeriod h\<rparr>"

section \<open>Creating an app\<close>

record AppCreateInput =
  in_Name :: string
  in_Description :: string
  in_TeamID :: "string option"
  in_ServerID :: string
  in_GitSourceID :: "string option"
  in_RepoURL :: "string option"
  in_Branch :: string
  in_GitCommitSHA :: "string option"
  in_BuildType :: string
  in_DockerfilePath :: string
  in_BuildContext :: string
  in_DockerfileInline :: "string option"
  in_ComposeFile :: "string option"
  in_ComposeInline :: "string option"
  in_ImageName :: "string option"
  in_ImageTag :: string
  in_InstallCommand :: "string option"
  in_BuildCommand :: "string option"
  in_StartCommand :: "string option"
  in_PreDeployCommand :: "string option"
  in_PostDeployCommand :: "string option"
  in_Port :: "int option"
  in_HostPort :: "int option"
  in_HealthCheck :: HealthCheckOpts
  in_LimitsMemory :: "string option"
  in_LimitsCPUs :: "string option"
  in_LimitsMemorySwap :: "string option"
  in_LimitsMemorySwappiness :: "int option"
  in_LimitsMemoryReservation :: "string option"
  in_LimitsCPUSet :: "string option"
  in_LimitsCPUShares :: "int option"
  in_RestartPolicy :: string
  in_AutoDeployBranch :: "string option"
  in_BuildArgsInject :: "bool option"
  in_BuildArgsSourceCommit :: "bool option"
  in_DockerLabels :: "(string \<times> string) list option"
  in_EnvVars :: "(string \<times> string) list option"

text \<open>\<open>as_gitSrcs\<close>: whether git sources are enabled; \<open>as_defaults\<close>: the instance's limits at a step.\<close>

record asvc =
  as_gitSrcs :: bool
  as_defaults :: "(nat \<Rightarrow> string \<times> string) option"

definition validateTeam :: "string \<Rightarrow> ('x, unit) dbm" where
  "validateTeam i =
     bnd (db_query (\<lambda>w. length (filter (\<lambda>t. t_id t = i) (teams w)))) (\<lambda>n.
     if n = 0 then fail (ErrNew ''invalid_team_id'') else ret ())"

definition check_server :: "string \<Rightarrow> ('x, server_row) dbm" where
  "check_server i =
     bnd (attempt (server_get (trim_space i))) (\<lambda>r.
     case r of
       Inl e \<Rightarrow> (if errors_is e server_ErrNotFound then fail (ErrWrap ''invalid_server_id'' e) else fail e)
     | Inr srv \<Rightarrow> (if sv_status srv \<noteq> ''connected'' then fail (ErrNew ''server_not_connected'') else ret srv))"

definition source_exists :: "string \<Rightarrow> ('x, unit) dbm" where
  "source_exists g =
     bnd (attempt (source_Get g)) (\<lambda>r.
     case r of
       Inl e \<Rightarrow> (if errors_is e source_ErrNotFound then fail (ErrWrap ''invalid_git_source_id'' e) else fail e)
     | Inr _ \<Rightarrow> ret ())"

text \<open>Exactly one origin for a build from a file, an image name for an image.\<close>

definition one_origin :: "string \<Rightarrow> string \<Rightarrow> string option \<Rightarrow> string option \<Rightarrow> err + unit" where
  "one_origin kind field repo inline =
     (let hasRepo = \<not> isBlankPtr repo; hasInline = \<not> isBlankPtr inline
      in sum_bind (require (hasRepo \<or> hasInline) (''invalid_build: '' @ kind @ '' requires repo_url or '' @ field)) (\<lambda>_.
         require (\<not> (hasRepo \<and> hasInline)) (''invalid_build: cannot set both repo_url and '' @ field)))"

definition check_build :: "AppCreateInput \<Rightarrow> err + unit" where
  "check_build inp =
     (let buildType = trim_space (in_BuildType inp)
      in if buildType = ''dockerfile'' then one_origin buildType ''dockerfile_inline'' (in_RepoURL inp) (in_DockerfileInline inp)
         else if buildType = ''docker_image'' then
           require (\<not> isBlankPtr (in_ImageName inp)) ''invalid_build: docker_image requires image_name''
         else if buildType = ''docker_compose'' then one_origin buildType ''compose_inline'' (in_RepoURL inp) (in_ComposeInline inp)
         else Inl (ErrNew ''invalid_build_type''))"

definition inherit_limits :: "asvc \<Rightarrow> AppCreateInput \<Rightarrow> ('x, AppCreateInput) go" where
  "inherit_limits svc inp =
     (case as_defaults svc of
        None \<Rightarrow> ret inp
      | Some f \<Rightarrow>
          bnd (draw (\<lambda>n. Inr (f n))) (\<lambda>(dm, dc).
          ret (inp\<lparr>in_LimitsMemory := (if isBlankPtr (in_LimitsMemory inp) \<and> dm \<noteq> [] then Some dm else in_LimitsMemory inp),
                   in_LimitsCPUs := (if isBlankPtr (in_LimitsCPUs inp) \<and> dc \<noteq> [] then Some dc else in_LimitsCPUs inp)\<rparr>)))"

definition json_of :: "(string \<times> string) list option \<Rightarrow> (string \<times> string) list" where
  "json_of m = (case m of None \<Rightarrow> [] | Some kvs \<Rightarrow> kvs)"

definition check_values :: "AppCreateInput \<Rightarrow> err + resolvedHealth" where
  "check_values inp =
     sum_bind (validateLimits (in_LimitsMemory inp) (in_LimitsCPUs inp)) (\<lambda>_.
     sum_bind (validateAdvancedLimits (in_LimitsMemorySwap inp) (in_LimitsMemoryReservation inp) (in_LimitsMemorySwappiness inp)
       (in_LimitsCPUSet inp) (in_LimitsCPUShares inp)) (\<lambda>_.
     sum_bind (validateEnvMap (json_of (in_EnvVars inp))) (\<lambda>_.
     sum_bind (validateRestartPolicy (or_default ''unless-stopped'' (in_RestartPolicy inp))) (\<lambda>_.
     sum_bind (validateDockerLabels (json_of (in_DockerLabels inp))) (\<lambda>_.
     sum_bind (normaliseHealthCheck (in_HealthCheck inp)) (\<lambda>h. Inr (Unwrap h)))))))"

definition compose_file :: "AppCreateInput \<Rightarrow> string" where
  "compose_file inp =
     (let f = trim_space (deref (in_ComposeFile inp))
      in if f = [] \<and> trim_space (in_BuildType inp) = ''docker_compose'' \<and> in_ComposeInline inp = None
         then ''docker-compose.yml'' else f)"

definition new_app :: "AppCreateInput \<Rightarrow> resolvedHealth \<Rightarrow> string \<Rightarrow> string \<Rightarrow> app_row" where
  "new_app inp hc i srvID =
     \<lparr>a_id = i, a_name = trim_space (in_Name inp), a_description = strPtrOrNil (in_Description inp),
          a_team_id = trimmedPtr (in_TeamID inp), a_server_id = Some srvID, a_git_source_id = trimmedPtr (in_GitSourceID inp),
          a_repo_url = trimmedPtr (in_RepoURL inp), a_branch = or_default ''main'' (in_Branch inp),
          a_git_commit_sha = trimmedPtr (in_GitCommitSHA inp), a_build_type = trim_space (in_BuildType inp),
          a_dockerfile_path = or_default ''Dockerfile'' (in_DockerfilePath inp),
          a_build_context = or_default ''.'' (in_BuildContext inp), a_dockerfile_inline = trimmedPtr (in_DockerfileInline inp),
          a_compose_file = strPtrOrNil (compose_file inp), a_compose_inline = trimmedPtr (in_ComposeInline inp),
          a_image_name = trimmedPtr (in_ImageName inp), a_image_tag = or_default ''latest'' (in_ImageTag inp),
          a_install_command = trimmedPtr (in_InstallCommand inp), a_build_command = trimmedPtr (in_BuildCommand inp),
          a_start_command = trimmedPtr (in_StartCommand inp), a_pre_deploy_command = trimmedPtr (in_PreDeployCommand inp),
          a_post_deploy_command = trimmedPtr (in_PostDeployCommand inp), a_port = in_Port inp, a_host_port = in_HostPort inp,
          a_container_name = Some (trim_space (in_Name inp)), a_health_check_enabled = rh_Enabled hc,
          a_health_check_path = rh_Path hc, a_health_check_method = rh_Method hc, a_health_check_port = rh_Port hc,
          a_health_check_return_code = rh_ReturnCode hc, a_health_check_interval = rh_Interval hc,
          a_health_check_timeout = rh_Timeout hc, a_health_check_retries = rh_Retries hc,
          a_health_check_start_period = rh_StartPeriod hc, a_limits_memory = trimmedPtr (in_LimitsMemory inp),
          a_limits_cpus = trimmedPtr (in_LimitsCPUs inp), a_limits_memory_swap = trimmedPtr (in_LimitsMemorySwap inp),
          a_limits_memory_swappiness = in_LimitsMemorySwappiness inp,
          a_limits_memory_reservation = trimmedPtr (in_LimitsMemoryReservation inp),
          a_limits_cpuset = trimmedPtr (in_LimitsCPUSet inp), a_limits_cpu_shares = in_LimitsCPUShares inp,
          a_restart_policy = or_default ''unless-stopped'' (in_RestartPolicy inp),
          a_auto_deploy_branch = trimmedPtr (in_AutoDeployBranch inp),
          a_build_args_inject = (case in_BuildArgsInject inp of None \<Rightarrow> True | Some b \<Rightarrow> b),
          a_build_args_source_commit = (case in_BuildArgsSourceCommit inp of None \<Rightarrow> False | Some b \<Rightarrow> b),
          a_docker_labels = Some (json_of (in_DockerLabels inp)), a_env_vars = Some (json_of (in_EnvVars inp)),
          a_status = StatusIdle, a_created_at = 0, a_updated_at = 0\<rparr>"

definition ErrNameInUse :: err where
  "ErrNameInUse = ErrNew ''app: name already in use''"

definition app_insert :: "app_row \<Rightarrow> ('x, unit) dbm" where
  "app_insert a =
     bnd (attempt (db_exec (\<lambda>w. insert_app (a\<lparr>a_restart_policy := (if a_restart_policy a = [] then ''unless-stopped'' else a_restart_policy a),
            a_created_at := unixepoch w, a_updated_at := unixepoch w\<rparr>) w))) (\<lambda>r.
     case r of
       Inl e \<Rightarrow> (if e = ErrSql UniqueViolation then fail ErrNameInUse else fail e)
     | Inr _ \<Rightarrow> ret ())"

definition check_name :: "string \<Rightarrow> err + unit" where
  "check_name name =
     sum_bind (require (\<not> (length name < 3 \<or> length name > 50)) ''invalid_name: must be 3-50 chars'') (\<lambda>_.
     require (nameRegex name) ''invalid_name: must match [a-zA-Z0-9][a-zA-Z0-9-]*[a-zA-Z0-9]'')"

text \<open>Everything before the row is written, in the order of the source.\<close>

definition create_checks :: "asvc \<Rightarrow> AppCreateInput \<Rightarrow> ('x, AppCreateInput \<times> resolvedHealth \<times> server_row) dbm" where
  "create_checks svc inp =
     bnd (lift_res (check_name (trim_space (in_Name inp)))) (\<lambda>_.
     bnd (check_server (in_ServerID inp)) (\<lambda>srv.
     bnd (case trimmedPtr (in_TeamID inp) of None \<Rightarrow> ret () | Some t \<Rightarrow> validateTeam t) (\<lambda>_.
     bnd (lift_res (check_build inp)) (\<lambda>_.
     bnd (case trimmedPtr (in_GitSourceID inp) of
            None \<Rightarrow> ret ()
          | Some g \<Rightarrow> (if \<not> as_gitSrcs svc then fail (ErrNew ''git_sources_disabled'') else source_exists g)) (\<lambda>_.
     bnd (lift_res (sum_bind (validatePort (in_Port inp)) (\<lambda>_. validatePort (in_HostPort inp)))) (\<lambda>_.
     bnd (inherit_limits svc inp) (\<lambda>inp'.
     bnd (lift_res (check_values inp')) (\<lambda>hc.
     ret (inp', hc, srv)))))))))"

definition app_Create :: "asvc \<Rightarrow> AppCreateInput \<Rightarrow> ('x, App) dbm" where
  "app_Create svc inp =
     bnd (create_checks svc inp) (\<lambda>(inp', hc, srv).
     bnd new_uuid (\<lambda>i.
     bnd (app_insert (new_app inp' hc i (sv_id srv))) (\<lambda>_. app_get i)))"

section \<open>Updating an app\<close>

record UpdatePatch =
  up_Description :: "string option"
  up_TeamID :: "string option"
  up_ClearTeamID :: bool
  up_GitSourceID :: "string option"
  up_ClearGitSourceID :: bool
  up_RepoURL :: "string option"
  up_Branch :: "string option"
  up_GitCommitSHA :: "string option"
  up_DockerfilePath :: "string option"
  up_BuildContext :: "string option"
  up_DockerfileInline :: "string option"
  up_ComposeFile :: "string option"
  up_ComposeInline :: "string option"
  up_ImageName :: "string option"
  up_ImageTag :: "string option"
  up_InstallCommand :: "string option"
  up_BuildCommand :: "string option"
  up_StartCommand :: "string option"
  up_PreDeployCommand :: "string option"
  up_PostDeployCommand :: "string option"
  up_Port :: "int option"
  up_HostPort :: "int option"
  up_HealthCheck :: "HealthCheckOpts option"
  up_LimitsMemory :: "string option"
  up_LimitsCPUs :: "string option"
  up_LimitsMemorySwap :: "string option"
  up_LimitsMemorySwappiness :: "int option"
  up_ClearMemorySwappiness :: bool
  up_LimitsMemoryReservation :: "string option"
  up_LimitsCPUSet :: "string option"
  up_LimitsCPUShares :: "int option"
  up_ClearCPUShares :: bool
  up_RestartPolicy :: "string option"
  up_AutoDeployBranch :: "string option"
  up_ClearAutoDeployBranch :: bool
  up_BuildArgsInject :: "bool option"
  up_BuildArgsSourceCommit :: "bool option"
  up_DockerLabels :: "(string \<times> string) list option"
  up_EnvVars :: "(string \<times> string) list option"

type_synonym sets = "(app_row \<Rightarrow> app_row) list"

text \<open>The kinds of assignment: a text that becomes NULL when blank, a text with a default, a text under a
  pattern, a number under a range, a value taken as it is.\<close>

definition set_null :: "(string option \<Rightarrow> app_row \<Rightarrow> app_row) \<Rightarrow> string option \<Rightarrow> err + sets" where
  "set_null f p = Inr (case p of None \<Rightarrow> [] | Some s \<Rightarrow> [f (nullableString s)])"

definition set_default :: "string \<Rightarrow> (string \<Rightarrow> app_row \<Rightarrow> app_row) \<Rightarrow> string option \<Rightarrow> err + sets" where
  "set_default d f p = Inr (case p of None \<Rightarrow> [] | Some s \<Rightarrow> [f (or_default d s)])"

definition set_checked :: "('v option \<Rightarrow> err + unit) \<Rightarrow> ('v \<Rightarrow> app_row \<Rightarrow> app_row) \<Rightarrow> 'v option \<Rightarrow> err + sets" where
  "set_checked check f p =
     (case p of None \<Rightarrow> Inr [] | Some v \<Rightarrow> sum_bind (check (Some v)) (\<lambda>_. Inr [f v]))"

definition set_clearable :: "bool \<Rightarrow> (app_row \<Rightarrow> app_row) \<Rightarrow> err + sets \<Rightarrow> err + sets" where
  "set_clearable clear f s = (if clear then Inr [f] else s)"

definition set_flag :: "(bool \<Rightarrow> app_row \<Rightarrow> app_row) \<Rightarrow> bool option \<Rightarrow> err + sets" where
  "set_flag f p = Inr (case p of None \<Rightarrow> [] | Some b \<Rightarrow> [f b])"

text \<open>The first failing check decides.\<close>

fun collect_sets :: "(err + sets) list \<Rightarrow> err + sets" where
  "collect_sets [] = Inr []"
| "collect_sets (x # xs) = sum_bind x (\<lambda>s. sum_bind (collect_sets xs) (\<lambda>t. Inr (s @ t)))"

definition overlay :: "app_row \<Rightarrow> HealthCheckOpts \<Rightarrow> HealthCheckOpts" where
  "overlay cur p =
     \<lparr>hc_Enabled = (case hc_Enabled p of None \<Rightarrow> Some (a_health_check_enabled cur) | Some b \<Rightarrow> Some b),
      hc_Path = (if hc_Path p \<noteq> [] then hc_Path p else a_health_check_path cur),
      hc_Port = (case hc_Port p of None \<Rightarrow> a_health_check_port cur | Some n \<Rightarrow> Some n),
      hc_Method = (if hc_Method p \<noteq> [] then hc_Method p else a_health_check_method cur),
      hc_ReturnCode = nonzero (a_health_check_return_code cur) (hc_ReturnCode p),
      hc_Interval = nonzero (a_health_check_interval cur) (hc_Interval p),
      hc_Timeout = nonzero (a_health_check_timeout cur) (hc_Timeout p),
      hc_Retries = nonzero (a_health_check_retries cur) (hc_Retries p),
      hc_StartPeriod = nonzero (a_health_check_start_period cur) (hc_StartPeriod p)\<rparr>"

definition write_health :: "resolvedHealth \<Rightarrow> app_row \<Rightarrow> app_row" where
  "write_health hc a =
     a\<lparr>a_health_check_enabled := rh_Enabled hc, a_health_check_path := rh_Path hc, a_health_check_method := rh_Method hc,
       a_health_check_port := rh_Port hc, a_health_check_return_code := rh_ReturnCode hc,
       a_health_check_interval := rh_Interval hc, a_health_check_timeout := rh_Timeout hc,
       a_health_check_retries := rh_Retries hc, a_health_check_start_period := rh_StartPeriod hc\<rparr>"

definition set_health :: "app_row \<Rightarrow> HealthCheckOpts option \<Rightarrow> err + sets" where
  "set_health cur p =
     (case p of
        None \<Rightarrow> Inr []
      | Some h \<Rightarrow> sum_bind (normaliseHealthCheck (overlay cur h)) (\<lambda>out. Inr [write_health (Unwrap out)]))"

definition build_sets :: "UpdatePatch \<Rightarrow> err + sets" where
  "build_sets p =
     collect_sets
      [set_null (\<lambda>v a. a\<lparr>a_repo_url := v\<rparr>) (up_RepoURL p),
       set_default ''main'' (\<lambda>v a. a\<lparr>a_branch := v\<rparr>) (up_Branch p),
       set_null (\<lambda>v a. a\<lparr>a_git_commit_sha := v\<rparr>) (up_GitCommitSHA p),
       set_default ''Dockerfile'' (\<lambda>v a. a\<lparr>a_dockerfile_path := v\<rparr>) (up_DockerfilePath p),
       set_default ''.'' (\<lambda>v a. a\<lparr>a_build_context := v\<rparr>) (up_BuildContext p),
       set_null (\<lambda>v a. a\<lparr>a_dockerfile_inline := v\<rparr>) (up_DockerfileInline p),
       set_null (\<lambda>v a. a\<lparr>a_compose_file := v\<rparr>) (up_ComposeFile p),
       set_null (\<lambda>v a. a\<lparr>a_compose_inline := v\<rparr>) (up_ComposeInline p),
       set_null (\<lambda>v a. a\<lparr>a_image_name := v\<rparr>) (up_ImageName p),
       set_default ''latest'' (\<lambda>v a. a\<lparr>a_image_tag := v\<rparr>) (up_ImageTag p),
       set_null (\<lambda>v a. a\<lparr>a_install_command := v\<rparr>) (up_InstallCommand p),
       set_null (\<lambda>v a. a\<lparr>a_build_command := v\<rparr>) (up_BuildCommand p),
       set_null (\<lambda>v a. a\<lparr>a_start_command := v\<rparr>) (up_StartCommand p),
       set_null (\<lambda>v a. a\<lparr>a_pre_deploy_command := v\<rparr>) (up_PreDeployCommand p),
       set_null (\<lambda>v a. a\<lparr>a_post_deploy_command := v\<rparr>) (up_PostDeployCommand p)]"

definition runtime_sets :: "UpdatePatch \<Rightarrow> err + sets" where
  "runtime_sets p =
     collect_sets
      [set_checked (\<lambda>v. validateRestartPolicy (or_default ''unless-stopped'' (deref v)))
         (\<lambda>v a. a\<lparr>a_restart_policy := or_default ''unless-stopped'' v\<rparr>) (up_RestartPolicy p),
       set_clearable (up_ClearAutoDeployBranch p) (\<lambda>a. a\<lparr>a_auto_deploy_branch := None\<rparr>)
         (set_null (\<lambda>v a. a\<lparr>a_auto_deploy_branch := v\<rparr>) (up_AutoDeployBranch p)),
       set_flag (\<lambda>v a. a\<lparr>a_build_args_inject := v\<rparr>) (up_BuildArgsInject p),
       set_flag (\<lambda>v a. a\<lparr>a_build_args_source_commit := v\<rparr>) (up_BuildArgsSourceCommit p),
       set_checked (\<lambda>v. validateDockerLabels (json_of v)) (\<lambda>v a. a\<lparr>a_docker_labels := Some v\<rparr>) (up_DockerLabels p),
       set_checked (limit_text memRegex ''invalid_limits_memory_swap'')
         (\<lambda>v a. a\<lparr>a_limits_memory_swap := nullableString v\<rparr>) (up_LimitsMemorySwap p),
       set_checked (limit_text memRegex ''invalid_limits_memory_reservation'')
         (\<lambda>v a. a\<lparr>a_limits_memory_reservation := nullableString v\<rparr>) (up_LimitsMemoryReservation p),
       set_clearable (up_ClearMemorySwappiness p) (\<lambda>a. a\<lparr>a_limits_memory_swappiness := None\<rparr>)
         (set_checked (limit_range 0 100 ''invalid_limits_memory_swappiness: 0-100'')
           (\<lambda>v a. a\<lparr>a_limits_memory_swappiness := Some v\<rparr>) (up_LimitsMemorySwappiness p)),
       set_checked (limit_text cpusetRegex ''invalid_limits_cpuset'')
         (\<lambda>v a. a\<lparr>a_limits_cpuset := nullableString v\<rparr>) (up_LimitsCPUSet p),
       set_clearable (up_ClearCPUShares p) (\<lambda>a. a\<lparr>a_limits_cpu_shares := None\<rparr>)
         (set_checked (limit_range 2 262144 ''invalid_limits_cpu_shares: 2-262144'')
           (\<lambda>v a. a\<lparr>a_limits_cpu_shares := Some v\<rparr>) (up_LimitsCPUShares p)),
       set_checked validatePort (\<lambda>v a. a\<lparr>a_port := Some v\<rparr>) (up_Port p),
       set_checked validatePort (\<lambda>v a. a\<lparr>a_host_port := Some v\<rparr>) (up_HostPort p),
       set_checked (limit_text memRegex ''invalid_limits_memory'')
         (\<lambda>v a. a\<lparr>a_limits_memory := nullableString v\<rparr>) (up_LimitsMemory p),
       set_checked (limit_text cpuRegex ''invalid_limits_cpus'')
         (\<lambda>v a. a\<lparr>a_limits_cpus := nullableString v\<rparr>) (up_LimitsCPUs p)]"

text \<open>The assignments that need no look at the database, in the order of the source.\<close>

definition patch_sets :: "app_row \<Rightarrow> UpdatePatch \<Rightarrow> err + sets" where
  "patch_sets cur p =
     collect_sets
      [build_sets p, runtime_sets p, set_health cur (up_HealthCheck p),
       set_checked (\<lambda>v. validateEnvMap (json_of v)) (\<lambda>v a. a\<lparr>a_env_vars := Some v\<rparr>) (up_EnvVars p)]"

definition team_set :: "UpdatePatch \<Rightarrow> ('x, sets) dbm" where
  "team_set p =
     (if up_ClearTeamID p then ret [\<lambda>a. a\<lparr>a_team_id := None\<rparr>]
      else
        case up_TeamID p of
          None \<Rightarrow> ret []
        | Some t \<Rightarrow>
            (let teamID = trim_space t
             in if teamID = [] then ret [\<lambda>a. a\<lparr>a_team_id := None\<rparr>]
                else bnd (validateTeam teamID) (\<lambda>_. ret [\<lambda>a. a\<lparr>a_team_id := Some teamID\<rparr>])))"

definition git_set :: "asvc \<Rightarrow> UpdatePatch \<Rightarrow> ('x, sets) dbm" where
  "git_set svc p =
     (if up_ClearGitSourceID p then ret [\<lambda>a. a\<lparr>a_git_source_id := None\<rparr>]
      else
        case up_GitSourceID p of
          None \<Rightarrow> ret []
        | Some g \<Rightarrow>
            (let gid = trim_space g
             in bnd (if gid \<noteq> [] \<and> as_gitSrcs svc then source_exists gid else ret ()) (\<lambda>_.
                ret [if gid = [] then (\<lambda>a. a\<lparr>a_git_source_id := None\<rparr>) else (\<lambda>a. a\<lparr>a_git_source_id := Some gid\<rparr>)])))"

definition app_updateFields :: "string \<Rightarrow> sets \<Rightarrow> ('x, App) dbm" where
  "app_updateFields i fs =
     (if fs = [] then app_get i
      else
        bnd (db_exec (update_apps (\<lambda>a. a_id a = i) (fold id fs))) (\<lambda>n.
        if n = 0 then fail app_ErrNotFound else app_get i))"

definition keep_unreachable :: "string \<Rightarrow> app_row \<Rightarrow> App \<Rightarrow> ('x, App) dbm" where
  "keep_unreachable i cur out =
     (if a_status cur = StatusUnreachable \<and> a_status (app_row out) \<noteq> StatusUnreachable then
        bnd (updateStatus i StatusUnreachable) (\<lambda>_.
        ret (out\<lparr>app_row := (app_row out)\<lparr>a_status := StatusUnreachable\<rparr>\<rparr>))
      else ret out)"

definition app_Update :: "asvc \<Rightarrow> string \<Rightarrow> UpdatePatch \<Rightarrow> ('x, App) dbm" where
  "app_Update svc i p =
     bnd (app_get i) (\<lambda>cur.
     bnd (team_set p) (\<lambda>t.
     bnd (git_set svc p) (\<lambda>g.
     bnd (lift_res (patch_sets (app_row cur) p)) (\<lambda>fs.
     bnd (app_updateFields i ((case up_Description p of None \<Rightarrow> [] | Some s \<Rightarrow> [\<lambda>a. a\<lparr>a_description := nullableString s\<rparr>]) @ t @ g @ fs)) (\<lambda>out.
     keep_unreachable i (app_row cur) out)))))"

section \<open>Environment, status and deletion\<close>

definition updateEnvVars :: "string \<Rightarrow> (string \<times> string) list \<Rightarrow> ('x, unit) dbm" where
  "updateEnvVars i env =
     bnd (db_exec (update_apps (\<lambda>a. a_id a = i) (\<lambda>a. a\<lparr>a_env_vars := Some env\<rparr>))) (\<lambda>n.
     if n = 0 then fail app_ErrNotFound else ret ())"

definition SetEnvVars :: "string \<Rightarrow> (string \<times> string) list option \<Rightarrow> ('x, App) dbm" where
  "SetEnvVars i env =
     bnd (lift_res (validateEnvMap (json_of env))) (\<lambda>_.
     bnd (app_get i) (\<lambda>_.
     bnd (updateEnvVars i (json_of env)) (\<lambda>_. app_get i)))"

definition app_Stop :: "string \<Rightarrow> ('x, unit) dbm" where
  "app_Stop i =
     bnd (app_get i) (\<lambda>cur.
     if a_status (app_row cur) = StatusUnreachable then ret () else updateStatus i StatusStopped)"

definition MarkUnreachable :: "string \<Rightarrow> ('x, unit) dbm" where
  "MarkUnreachable i = updateStatus i StatusUnreachable"

definition app_delete :: "string \<Rightarrow> ('x, unit) dbm" where
  "app_delete i =
     bnd (db_exec (delete_apps (\<lambda>a. a_id a = i))) (\<lambda>n. if n = 0 then fail app_ErrNotFound else ret ())"

definition app_Delete :: "string \<Rightarrow> ('x, unit) dbm" where
  "app_Delete i = app_delete i"

record CleanupTargets =
  ct_Domains :: "string list"
  ct_DeploymentIDs :: "string list"

text \<open>A query that fails contributes nothing.\<close>

definition GatherCleanupTargets :: "string \<Rightarrow> ('x, CleanupTargets) dbm" where
  "GatherCleanupTargets appID =
     bnd (attempt (db_query (\<lambda>w. filter (\<lambda>n. n \<noteq> []) (map d_name (filter (\<lambda>d. d_app_id d = Some appID) (domains w)))))) (\<lambda>ds.
     bnd (attempt (db_query (\<lambda>w. filter (\<lambda>n. n \<noteq> []) (map dp_id (take 10000 (filter (\<lambda>d. dp_app_id d = appID) (deployments w))))))) (\<lambda>ps.
     ret \<lparr>ct_Domains = (case ds of Inl _ \<Rightarrow> [] | Inr xs \<Rightarrow> xs),
          ct_DeploymentIDs = (case ps of Inl _ \<Rightarrow> [] | Inr xs \<Rightarrow> xs)\<rparr>))"

end
