(* ===== verification/App_Props.thy ===== *)
theory App_Props
  imports App_Service Deploy_Outcome
begin

text \<open>
  What the app service guarantees of the rows it writes: every app is within the ranges and patterns the
  containers are later built from, whatever sequence of calls made it; an update never touches identity
  or status; a deletion takes everything of the app with it, and what has to be cleaned up elsewhere was
  collected before.
\<close>

section \<open>Valid apps\<close>

definition port_ok :: "int option \<Rightarrow> bool" where
  "port_ok p \<longleftrightarrow> (case p of None \<Rightarrow> True | Some n \<Rightarrow> 1 \<le> n \<and> n \<le> 65535)"

definition limits_ok :: "app_row \<Rightarrow> bool" where
  "limits_ok a \<longleftrightarrow>
     pred_option memRegex (a_limits_memory a) \<and> pred_option cpuRegex (a_limits_cpus a) \<and>
     pred_option memRegex (a_limits_memory_swap a) \<and> pred_option memRegex (a_limits_memory_reservation a) \<and>
     pred_option cpusetRegex (a_limits_cpuset a) \<and>
     pred_option (\<lambda>n. 0 \<le> n \<and> n \<le> 100) (a_limits_memory_swappiness a) \<and>
     pred_option (\<lambda>n. 2 \<le> n \<and> n \<le> 262144) (a_limits_cpu_shares a)"

definition health_ok :: "app_row \<Rightarrow> bool" where
  "health_ok a \<longleftrightarrow>
     a_health_check_path a \<noteq> [] \<and> a_health_check_method a \<in> {''GET'', ''HEAD''} \<and> port_ok (a_health_check_port a) \<and>
     100 \<le> a_health_check_return_code a \<and> a_health_check_return_code a \<le> 599 \<and>
     1 \<le> a_health_check_timeout a \<and> a_health_check_timeout a \<le> 300 \<and>
     1 \<le> a_health_check_retries a \<and> a_health_check_retries a \<le> 10"

definition maps_ok :: "app_row \<Rightarrow> bool" where
  "maps_ok a \<longleftrightarrow>
     (case a_env_vars a of None \<Rightarrow> False | Some m \<Rightarrow> list_all (\<lambda>(k, _). envKeyRegex k) m) \<and>
     (case a_docker_labels a of None \<Rightarrow> False | Some m \<Rightarrow> list_all (\<lambda>(k, _). label_key_ok k) m)"

definition app_valid :: "app_row \<Rightarrow> bool" where
  "app_valid a \<longleftrightarrow>
     3 \<le> length (a_name a) \<and> length (a_name a) \<le> 50 \<and> nameRegex (a_name a) \<and> a_container_name a = Some (a_name a) \<and>
     port_ok (a_port a) \<and> port_ok (a_host_port a) \<and> limits_ok a \<and> health_ok a \<and> maps_ok a"

definition apps_valid :: "'x db_scheme \<Rightarrow> bool" where
  "apps_valid w \<longleftrightarrow> list_all app_valid (apps w)"

lemmas valid_defs = app_valid_def limits_ok_def health_ok_def maps_ok_def

section \<open>Checks and values\<close>

lemma require_Inr [simp]: "require b m = Inr u \<longleftrightarrow> b"
  by (simp add: require_def)

lemma sum_bind_Inr: "sum_bind r f = Inr y \<longleftrightarrow> (\<exists>x. r = Inr x \<and> f x = Inr y)"
  by (cases r) (auto simp: sum_bind_def)

lemma validatePort_iff: "validatePort p = Inr () \<longleftrightarrow> port_ok p"
  by (auto simp: validatePort_def port_ok_def split: option.split)

lemma limit_text_iff: "limit_text re m p = Inr () \<longleftrightarrow> pred_option re (trimmedPtr p)"
  by (auto simp: limit_text_def trimmedPtr_def Let_def split: option.split)

lemma limit_range_iff: "limit_range lo hi m p = Inr () \<longleftrightarrow> pred_option (\<lambda>n. lo \<le> n \<and> n \<le> hi) p"
  by (auto simp: limit_range_def split: option.split)

lemma trimmedPtr_Some: "trimmedPtr (Some v) = nullableString v"
  by (simp add: trimmedPtr_def nullableString_def)

text \<open>The health check of a row, as the source resolves it.\<close>

lemma resolved_health:
  assumes "normaliseHealthCheck h = Inr out"
  shows "health_ok (write_health (Unwrap out) a)"
proof -
  from assms have "out = health_defaults h" by (auto simp: normaliseHealthCheck_def Let_def sum_bind_Inr)
  with assms show ?thesis
    by (auto simp: normaliseHealthCheck_def Let_def sum_bind_Inr validatePort_iff health_ok_def write_health_def Unwrap_def health_defaults_def)
qed

section \<open>Assignments\<close>

text \<open>What an assignment of an update must not touch.\<close>

definition identity :: "app_row \<Rightarrow> string \<times> string \<times> string option \<times> string \<times> string option \<times> string \<times> int" where
  "identity a = (a_id a, a_name a, a_server_id a, a_build_type a, a_container_name a, a_status a, a_created_at a)"

definition scannable :: "app_row \<Rightarrow> bool" where
  "scannable a \<longleftrightarrow> a_env_vars a \<noteq> None \<and> a_docker_labels a \<noteq> None"

definition good :: "(app_row \<Rightarrow> app_row) \<Rightarrow> bool" where
  "good f \<longleftrightarrow> (\<forall>a. identity (f a) = identity a \<and> (scannable a \<longrightarrow> scannable (f a)) \<and> (app_valid a \<longrightarrow> app_valid (f a)))"

definition safe :: "err + sets \<Rightarrow> bool" where
  "safe x \<longleftrightarrow> (case x of Inl _ \<Rightarrow> True | Inr s \<Rightarrow> list_all good s)"

lemma goodI: "(\<And>a. identity (f a) = identity a) \<Longrightarrow> (\<And>a. scannable a \<Longrightarrow> scannable (f a)) \<Longrightarrow> (\<And>a. app_valid a \<Longrightarrow> app_valid (f a)) \<Longrightarrow> good f"
  by (simp add: good_def)

lemma good_fold: "list_all good fs \<Longrightarrow> good (fold id fs)"
  by (induction fs) (auto simp: good_def)

named_theorems safe_intro \<open>rules for the assignments of an update\<close>

lemma safe_collect [safe_intro]: "list_all safe xs \<Longrightarrow> safe (collect_sets xs)"
  by (induction xs) (auto simp: safe_def sum_bind_def split: sum.splits)

lemma safe_null [safe_intro]: "(\<And>v. good (f v)) \<Longrightarrow> safe (set_null f p)"
  by (simp add: safe_def set_null_def split: option.split)

lemma safe_default [safe_intro]: "(\<And>v. good (f v)) \<Longrightarrow> safe (set_default d f p)"
  by (simp add: safe_def set_default_def split: option.split)

lemma safe_checked [safe_intro]: "(\<And>v. check (Some v) = Inr () \<Longrightarrow> good (f v)) \<Longrightarrow> safe (set_checked check f p)"
  by (auto simp: safe_def set_checked_def sum_bind_def split: option.split sum.split)

lemma safe_clearable [safe_intro]: "good f \<Longrightarrow> safe s \<Longrightarrow> safe (set_clearable c f s)"
  by (simp add: safe_def set_clearable_def)

lemma safe_flag [safe_intro]: "(\<And>v. good (f v)) \<Longrightarrow> safe (set_flag f p)"
  by (simp add: safe_def set_flag_def split: option.split)

lemma safe_build: "safe (build_sets p)"
  unfolding build_sets_def
  by (intro safe_intro, unfold list.pred_inject, intro conjI TrueI safe_intro goodI) (simp_all add: scannable_def identity_def valid_defs)

lemma checked_text:
  "limit_text re m (Some v) = Inr () \<Longrightarrow> pred_option re (nullableString v)"
  by (simp only: limit_text_iff trimmedPtr_Some)

lemmas check_iffs = validatePort_iff limit_range_iff validateDockerLabels_def validateEnvMap_def json_of_def

lemma safe_runtime: "safe (runtime_sets p)"
  unfolding runtime_sets_def
  by (intro safe_intro, unfold list.pred_inject, intro conjI TrueI safe_intro goodI)
    (simp_all add: scannable_def identity_def valid_defs check_iffs checked_text)

lemma safe_health: "safe (set_health cur p)"
proof -
  have "good (write_health (Unwrap out))" if "normaliseHealthCheck h = Inr out" for h out
    using resolved_health [OF that]
    by (intro goodI) (simp_all add: scannable_def identity_def write_health_def app_valid_def limits_ok_def maps_ok_def)
  then show ?thesis by (auto simp: safe_def set_health_def sum_bind_def split: option.split sum.split)
qed

lemma patch_sets_good: "patch_sets cur p = Inr fs \<Longrightarrow> list_all good fs"
proof -
  have "safe (patch_sets cur p)"
    unfolding patch_sets_def
    by (intro safe_intro, unfold list.pred_inject, intro conjI TrueI safe_build safe_runtime safe_health safe_intro goodI)
      (simp_all add: scannable_def identity_def valid_defs check_iffs)
  then show "patch_sets cur p = Inr fs \<Longrightarrow> list_all good fs" by (simp add: safe_def)
qed

lemma team_set_good: "team_set p w = (Inr fs, w') \<Longrightarrow> list_all good fs"
  by (auto simp: team_set_def Let_def ret_def bnd_eq_Inr_iff split: if_splits option.splits intro!: goodI)
    (simp_all add: scannable_def identity_def valid_defs)

lemma git_set_good: "git_set svc p w = (Inr fs, w') \<Longrightarrow> list_all good fs"
  by (auto simp: git_set_def Let_def ret_def bnd_eq_Inr_iff split: if_splits option.splits intro!: goodI)
    (simp_all add: scannable_def identity_def valid_defs)

section \<open>The operations keep apps valid\<close>

lemma new_app_valid:
  assumes "check_name (trim_space (in_Name inp)) = Inr ()" and "port_ok (in_Port inp)" and "port_ok (in_HostPort inp)"
    and "check_values inp = Inr hc"
  shows "app_valid (new_app inp hc i srv)"
proof -
  obtain h out where hc: "normaliseHealthCheck h = Inr out" "hc = Unwrap out" and
    rest: "validateLimits (in_LimitsMemory inp) (in_LimitsCPUs inp) = Inr ()"
    "validateAdvancedLimits (in_LimitsMemorySwap inp) (in_LimitsMemoryReservation inp) (in_LimitsMemorySwappiness inp)
       (in_LimitsCPUSet inp) (in_LimitsCPUShares inp) = Inr ()"
    "validateEnvMap (json_of (in_EnvVars inp)) = Inr ()" "validateDockerLabels (json_of (in_DockerLabels inp)) = Inr ()"
    using assms(4) by (auto simp: check_values_def sum_bind_Inr)
  define a where "a = new_app inp hc i srv"
  have "health_ok a"
    using resolved_health [OF hc(1), of a] by (simp add: a_def hc(2) health_ok_def write_health_def new_app_def)
  moreover have "limits_ok a"
    using rest(1,2)
    by (simp add: a_def limits_ok_def new_app_def validateLimits_def validateAdvancedLimits_def sum_bind_Inr limit_text_iff limit_range_iff)
  moreover have "maps_ok a"
    using rest(3,4) by (simp add: a_def maps_ok_def new_app_def validateEnvMap_def validateDockerLabels_def)
  ultimately show ?thesis
    using assms(1-3) by (simp add: a_def app_valid_def new_app_def check_name_def sum_bind_Inr not_less)
qed

lemma inherit_limits_Inr:
  "inherit_limits svc inp w = (Inr inp', w') \<Longrightarrow>
     in_Name inp' = in_Name inp \<and> in_Port inp' = in_Port inp \<and> in_HostPort inp' = in_HostPort inp"
  by (auto simp: inherit_limits_def ret_def bnd_eq_Inr_iff split: option.splits)

interpretation av: frame "keeps apps_valid"
  by (rule frame_keeps) (simp add: apps_valid_def)

lemma create_reads:
  "moves only_step (check_server i)" "moves only_step (validateTeam t)" "moves only_step (source_exists g)"
  "moves only_step (inherit_limits svc inp)" "moves only_step (team_set p)" "moves only_step (git_set svc p)"
  unfolding check_server_def server_get_def validateTeam_def source_exists_def source_Get_def inherit_limits_def
    team_set_def git_set_def Let_def
  by (intro rd.frame_rules moves_intro)+

lemmas app_reads = av.frame_read [OF create_reads(1)] av.frame_read [OF create_reads(2)] av.frame_read [OF create_reads(3)]
  av.frame_read [OF create_reads(4)] av.frame_read [OF create_reads(5)] av.frame_read [OF create_reads(6)]
  av.frame_read [OF service_reads(2)]

lemma update_apps_valid:
  assumes "\<And>a. app_valid a \<Longrightarrow> app_valid (f a)"
  shows "moves (keeps apps_valid) (db_exec (update_apps q f))"
proof (rule av.frame_exec)
  fix w n w'
  assume "update_apps q f w = Inr (n, w')"
  moreover have "app_valid (a\<lparr>a_updated_at := t\<rparr>) = app_valid a" for a t by (simp add: valid_defs)
  ultimately show "keeps apps_valid w w'"
    using assms by (auto simp: keeps_def apps_valid_def update_apps_def checked_Inr_iff list_all_iff set_update_where)
qed

lemma app_insert_valid: "app_valid a \<Longrightarrow> moves (keeps apps_valid) (app_insert a)"
  unfolding app_insert_def
  by (intro av.frame_rules moves_intro av.frame_exec)
    (auto simp: keeps_def apps_valid_def insert_app_def checked_Inr_iff valid_defs)

lemma create_checks_read: "moves only_step (create_checks svc inp)"
  unfolding create_checks_def by (intro create_reads rd.frame_rules moves_intro)

lemma create_checks_Inr:
  assumes "create_checks svc inp (w :: 'x db_scheme) = (Inr (inp', hc, srv), w')"
  shows "app_valid (new_app inp' hc i (sv_id srv)) \<and> in_Name inp' = in_Name inp \<and> srv \<in> set (servers w) \<and> sv_status srv = ''connected''"
proof -
  from assms obtain v x x' where name: "check_name (trim_space (in_Name inp)) = Inr ()"
    and srv: "check_server (in_ServerID inp) w = (Inr srv, v)" and ports: "validatePort (in_Port inp) = Inr ()" "validatePort (in_HostPort inp) = Inr ()"
    and lim: "inherit_limits svc inp (x :: 'x db_scheme) = (Inr inp', x')" and vals: "check_values inp' = Inr hc"
    by (auto simp: create_checks_def bnd_eq_Inr_iff lift_res_def ret_def sum_bind_Inr)
  have "srv \<in> set (servers w)" "sv_status srv = ''connected''"
    using srv by (auto simp: check_server_def server_get_def bnd_attempt db_query_row_cases bnd_def attempt_def fail_def ret_def find_Some_iff
        split: sum.splits if_splits option.splits)
  with inherit_limits_Inr [OF lim] name ports vals show ?thesis by (auto simp: validatePort_iff intro!: new_app_valid)
qed

lemma app_Create_valid: "moves (keeps apps_valid) (app_Create svc inp)"
  unfolding app_Create_def
proof (intro av.frame_bnd_run moves_intro)
  show "moves (keeps apps_valid) (create_checks svc inp)" by (rule av.frame_read [OF create_checks_read])
next
  fix w x w' inp' y hc srv i
  assume "create_checks svc inp w = (Inr x, w')" and "x = (inp', y)" and "y = (hc, srv)"
  then show "moves (keeps apps_valid) (app_insert (new_app inp' hc i (sv_id srv)))"
    by (auto dest: create_checks_Inr intro: app_insert_valid)
qed (intro app_reads av.frame_rules)+

lemma status_valid: "moves (keeps apps_valid) (updateStatus i st)"
  unfolding updateStatus_def by (intro av.frame_rules update_apps_valid) (simp add: valid_defs)

lemma updateFields_valid: "list_all good fs \<Longrightarrow> moves (keeps apps_valid) (app_updateFields i fs)"
  unfolding app_updateFields_def
  by (intro av.frame_rules moves_intro app_reads update_apps_valid) (drule good_fold, simp add: good_def)

lemma description_good: "list_all good (case d of None \<Rightarrow> [] | Some s \<Rightarrow> [\<lambda>a. a\<lparr>a_description := nullableString s\<rparr>])"
  by (auto simp: scannable_def identity_def valid_defs intro!: goodI split: option.split)

lemma app_Update_valid: "moves (keeps apps_valid) (app_Update svc i p)"
  unfolding app_Update_def
proof (intro av.frame_bnd_run)
  fix w1 w1' w2 w2' w3 w3' cur t g fs
  assume "team_set p w1 = (Inr t, w1')" and "git_set svc p w2 = (Inr g, w2')"
    and "lift_res (patch_sets (app_row cur) p) w3 = (Inr fs, w3')"
  then have "list_all good t" "list_all good g" "list_all good fs"
    by (auto simp: lift_res_def dest: team_set_good git_set_good patch_sets_good)
  then show "moves (keeps apps_valid) (app_updateFields i
      ((case up_Description p of None \<Rightarrow> [] | Some s \<Rightarrow> [\<lambda>a. a\<lparr>a_description := nullableString s\<rparr>]) @ t @ g @ fs))"
    by (intro updateFields_valid) (simp add: description_good)
next
  fix cur out
  show "moves (keeps apps_valid) (keep_unreachable i (app_row cur) out)"
    unfolding keep_unreachable_def by (intro av.frame_rules moves_intro status_valid)
qed (intro app_reads av.frame_rules moves_intro)+

lemma SetEnvVars_valid: "moves (keeps apps_valid) (SetEnvVars i env)"
  unfolding SetEnvVars_def
proof (intro av.frame_bnd_run)
  fix w u w'
  assume "lift_res (validateEnvMap (json_of env)) w = (Inr u, w')"
  then show "moves (keeps apps_valid) (updateEnvVars i (json_of env))"
    unfolding updateEnvVars_def
    by (intro av.frame_rules moves_intro update_apps_valid) (simp add: valid_defs validateEnvMap_def lift_res_def)
qed (intro app_reads av.frame_rules)+

lemma scan_ports_read: "moves only_step (scan_ports listen fin port tried)"
proof (induction listen fin port tried rule: scan_ports.induct)
  case (1 listen fin port tried)
  show ?case by (subst scan_ports.simps) (intro rd.frame_rules moves_intro 1)
qed

lemma AssignHostPort_valid: "moves (keeps apps_valid) (AssignHostPort listen i)"
  unfolding AssignHostPort_def
proof (intro av.frame_bnd_run)
  show "moves (keeps apps_valid) (FindAvailablePort listen PortRangeStart PortRangeEnd)"
    unfolding FindAvailablePort_def by (intro av.frame_rules moves_intro av.frame_read [OF scan_ports_read])
next
  fix w port w'
  assume "FindAvailablePort listen PortRangeStart PortRangeEnd w = (Inr port, w')"
  then have "1 \<le> port \<and> port \<le> 65535"
    by (auto simp: FindAvailablePort_def PortRangeStart_def PortRangeEnd_def dest!: scan_ports_Inr)
  then show "moves (keeps apps_valid) (wrapping ''port: assign'' (db_exec (update_apps (\<lambda>a. a_id a = i) (\<lambda>a. a\<lparr>a_host_port := Some (int port)\<rparr>))))"
    by (intro av.frame_rules update_apps_valid) (simp add: valid_defs port_ok_def)
qed (intro av.frame_rules moves_intro)+

lemma app_others_valid:
  "moves (keeps apps_valid) (app_Stop i)" "moves (keeps apps_valid) (MarkUnreachable i)"
  "moves (keeps apps_valid) (SetStatus i st)" "moves (keeps apps_valid) (app_Delete i)"
proof -
  show "moves (keeps apps_valid) (app_Delete i)"
    unfolding app_Delete_def app_delete_def
    by (intro av.frame_rules moves_intro av.frame_exec)
      (auto simp: keeps_def apps_valid_def delete_apps_def checked_Inr_iff list_all_iff Let_def)
qed (unfold app_Stop_def MarkUnreachable_def SetStatus_def, (intro av.frame_rules moves_intro app_reads status_valid)+)

section \<open>Every sequence of calls\<close>

datatype app_call =
    ACreate AppCreateInput | AUpdate string UpdatePatch | ASetEnvVars string "(string \<times> string) list option" | AStop string
  | AMarkUnreachable string | ASetStatus string string | AAssignHostPort string | ADelete string

definition app_call_run :: "asvc \<Rightarrow> (nat \<Rightarrow> nat \<Rightarrow> bool) \<Rightarrow> app_call \<Rightarrow> 'x db_scheme \<Rightarrow> 'x db_scheme" where
  "app_call_run svc listen c w =
     (case c of
        ACreate inp \<Rightarrow> snd (app_Create svc inp w)
      | AUpdate i p \<Rightarrow> snd (app_Update svc i p w)
      | ASetEnvVars i env \<Rightarrow> snd (SetEnvVars i env w)
      | AStop i \<Rightarrow> snd (app_Stop i w)
      | AMarkUnreachable i \<Rightarrow> snd (MarkUnreachable i w)
      | ASetStatus i st \<Rightarrow> snd (SetStatus i st w)
      | AAssignHostPort i \<Rightarrow> snd (AssignHostPort listen i w)
      | ADelete i \<Rightarrow> snd (app_Delete i w))"

lemma app_call_valid: "apps_valid w \<Longrightarrow> apps_valid (app_call_run svc listen c w)"
proof -
  assume ok: "apps_valid w"
  have step: "apps_valid (snd (m w))" if "moves (keeps apps_valid) m" for m
    using that ok by (simp add: moves_def keeps_def)
  show ?thesis
    by (cases c) (simp_all add: app_call_run_def step app_Create_valid app_Update_valid SetEnvVars_valid AssignHostPort_valid app_others_valid)
qed

text \<open>
  C13. Whatever sequence of calls the app service gets, and whatever the database driver does, every stored
  app keeps a legal name, which is also its container name, ports and limits within the ranges and patterns
  of the container engine, a health check that can run, and legal environment and label keys.
\<close>

theorem apps_stay_valid:
  assumes "apps_valid w"
  shows "apps_valid (fold (app_call_run svc listen) calls w)"
  using assms by (induction calls arbitrary: w) (auto intro: app_call_valid)

section \<open>What an update leaves alone\<close>

definition same_identity :: "string \<Rightarrow> 'x db_scheme \<Rightarrow> 'x db_scheme \<Rightarrow> bool" where
  "same_identity i w w' \<longleftrightarrow>
     map identity (apps w') = map identity (apps w) \<and> filter (\<lambda>a. a_id a \<noteq> i) (apps w') = filter (\<lambda>a. a_id a \<noteq> i) (apps w)"

interpretation si: frame "same_identity i" for i
  by unfold_locales (auto simp: same_identity_def)

lemma update_apps_identity:
  assumes "good f" and "update_apps (\<lambda>a. a_id a = i) f w = Inr (n, w')"
  shows "same_identity i w w'"
proof -
  obtain t where w': "apps w' = update_where (\<lambda>a. a_id a = i) (\<lambda>a. (f a)\<lparr>a_updated_at := t\<rparr>) (apps w)"
    using assms(2) by (auto simp: update_apps_def checked_Inr_iff)
  have same: "identity ((f a)\<lparr>a_updated_at := t\<rparr>) = identity a" for a using assms(1) by (simp add: good_def identity_def)
  then have "a_id (f a) = a_id a" for a using assms(1) by (simp add: good_def identity_def)
  then show ?thesis
    using same by (simp add: same_identity_def w' update_where_def comp_def if_distrib cong: if_cong)
      (simp add: filter_map comp_def if_distrib cong: if_cong, intro map_idI, simp)
qed

lemma find_identity:
  "map identity xs = map identity ys \<Longrightarrow>
     map_option identity (find (\<lambda>a. a_id a = i) xs) = map_option identity (find (\<lambda>a. a_id a = i) ys)"
proof (induction xs arbitrary: ys)
  case (Cons x xs)
  then obtain y ys' where "ys = y # ys'" "identity x = identity y" "map identity xs = map identity ys'" by (cases ys) auto
  moreover from this(2) have "a_id x = a_id y" by (simp add: identity_def)
  ultimately show ?case using Cons.IH [of ys'] by simp
qed simp

text \<open>The update up to the look at the status, with the row before and after.\<close>

definition update_fields :: "asvc \<Rightarrow> string \<Rightarrow> UpdatePatch \<Rightarrow> ('x, App \<times> App) dbm" where
  "update_fields svc i p =
     bnd (app_get i) (\<lambda>cur.
     bnd (team_set p) (\<lambda>t.
     bnd (git_set svc p) (\<lambda>g.
     bnd (lift_res (patch_sets (app_row cur) p)) (\<lambda>fs.
     bnd (app_updateFields i ((case up_Description p of None \<Rightarrow> [] | Some s \<Rightarrow> [\<lambda>a. a\<lparr>a_description := nullableString s\<rparr>]) @ t @ g @ fs)) (\<lambda>out.
     ret (cur, out))))))"

lemma app_Update_fields: "app_Update svc i p = bnd (update_fields svc i p) (\<lambda>(cur, out). keep_unreachable i (app_row cur) out)"
  by (simp add: app_Update_def update_fields_def bnd_assoc)

lemmas si_reads = si.frame_read [OF create_reads(5)] si.frame_read [OF create_reads(6)] si.frame_read [OF service_reads(2)]

lemma updateFields_identity: "list_all good fs \<Longrightarrow> moves (same_identity i) (app_updateFields i fs)"
  unfolding app_updateFields_def
  by (intro si.frame_rules moves_intro si_reads si.frame_exec update_apps_identity) (rule good_fold)

lemma update_fields_identity: "moves (same_identity i) (update_fields svc i p)"
  unfolding update_fields_def
proof (intro si.frame_bnd_run)
  fix w1 w1' w2 w2' w3 w3' cur t g fs
  assume "team_set p w1 = (Inr t, w1')" and "git_set svc p w2 = (Inr g, w2')"
    and "lift_res (patch_sets (app_row cur) p) w3 = (Inr fs, w3')"
  then show "moves (same_identity i) (app_updateFields i
      ((case up_Description p of None \<Rightarrow> [] | Some s \<Rightarrow> [\<lambda>a. a\<lparr>a_description := nullableString s\<rparr>]) @ t @ g @ fs))"
    by (intro updateFields_identity) (auto simp: lift_res_def description_good dest: team_set_good git_set_good patch_sets_good)
qed (intro si_reads si.frame_rules)+

lemma app_get_Inr: "app_get i w = (Inr a, w') \<Longrightarrow> find (\<lambda>a. a_id a = i) (apps w) = Some (app_row a) \<and> w' = tick w"
  by (auto simp: app_get_def app_query_Inr dest: scanApp_row)

lemma update_fields_rows:
  assumes "update_fields svc i p w = (Inr (cur, out), w')"
  shows "find (\<lambda>a. a_id a = i) (apps w) = Some (app_row cur) \<and> find (\<lambda>a. a_id a = i) (apps w') = Some (app_row out)"
proof -
  from assms obtain fs v v' where get: "app_get i w = (Inr cur, v)" and up: "app_updateFields i fs v' = (Inr out, w')"
    by (auto simp: update_fields_def bnd_eq_Inr_iff ret_def)
  from up have "\<exists>v. app_get i v = (Inr out, w')"
    by (auto simp: app_updateFields_def bnd_eq_Inr_iff fail_def split: if_splits)
  with get show ?thesis by (auto dest!: app_get_Inr)
qed

lemma update_fields_status:
  assumes "update_fields svc i p w = (Inr (cur, out), v)"
  shows "keep_unreachable i (app_row cur) out = ret out"
proof -
  have "identity (app_row out) = identity (app_row cur)"
    using update_fields_rows [OF assms] movesD [OF update_fields_identity assms] find_identity [of "apps v" "apps w" i]
    by (simp add: same_identity_def)
  then show ?thesis by (simp add: identity_def keep_unreachable_def)
qed

lemma app_Update_split:
  "app_Update svc i p w = (case update_fields svc i p w of (Inl e, v) \<Rightarrow> (Inl e, v) | (Inr (cur, out), v) \<Rightarrow> (Inr out, v))"
  by (auto simp: app_Update_fields bnd_def update_fields_status ret_def split: prod.split sum.split)

text \<open>
  An update of an app never changes its id, name, server, build type, container name, creation time or status, nor
  any other app, whether it succeeds or fails.
\<close>

theorem app_Update_identity:
  assumes "app_Update svc i p w = (r, w')"
  shows "map identity (apps w') = map identity (apps w) \<and>
    filter (\<lambda>a. a_id a \<noteq> i) (apps w') = filter (\<lambda>a. a_id a \<noteq> i) (apps w)"
proof -
  have "same_identity i w w'"
    using assms movesD [OF update_fields_identity, of svc i p w]
    by (auto simp: app_Update_split split: prod.splits sum.splits)
  then show ?thesis by (simp add: same_identity_def)
qed

section \<open>Refused updates\<close>

lemma find_update_id:
  "(\<And>a. a_id (f a) = a_id a) \<Longrightarrow>
     find (\<lambda>a. a_id a = i) (update_where (\<lambda>a. a_id a = i) f rs) = map_option f (find (\<lambda>a. a_id a = i) rs)"
  by (induction rs) (auto simp: update_where_def)

lemma update_where_none: "affected q rs = 0 \<Longrightarrow> update_where q f rs = rs"
  by (induction rs) (auto simp: update_where_def affected_def split: if_splits)

lemma app_get_quiet:
  "quiet w \<Longrightarrow> find (\<lambda>a. a_id a = i) (apps w) = Some r \<Longrightarrow> scannable r \<Longrightarrow> \<exists>a. app_get i w = (Inr a, tick w)"
  by (auto simp: app_get_def app_query_Inr quiet_def scannable_def scanApp_def)

lemma updateFields_refused:
  assumes "app_updateFields i fs w = (Inl e, w')" and "quiet w" and "list_all good fs"
    and "find (\<lambda>a. a_id a = i) (apps w) = Some r" and "scannable r"
  shows "apps w' = apps w"
proof (cases "fs = []")
  case True
  with assms(1) app_get_quiet [OF assms(2,4,5)] show ?thesis by (auto simp: app_updateFields_def)
next
  case False
  define x where "x = update_apps (\<lambda>a. a_id a = i) (fold id fs) w"
  show ?thesis
  proof (cases x)
    case (Inl q)
    with assms(1,2) False show ?thesis by (auto simp: app_updateFields_def x_def bnd_def db_exec_def quiet_def)
  next
    case (Inr y)
    then obtain n v where v: "x = Inr (n, v)" by (cases y) simp
    then obtain t where rows: "apps v = update_where (\<lambda>a. a_id a = i) (\<lambda>a. (fold id fs a)\<lparr>a_updated_at := t\<rparr>) (apps w)" "orc v = orc w"
      and n: "n = affected (\<lambda>a. a_id a = i) (apps w)"
      by (auto simp: x_def update_apps_def checked_Inr_iff)
    have good: "good (fold id fs)" using assms(3) by (rule good_fold)
    then have "find (\<lambda>a. a_id a = i) (apps (tick v)) = Some ((fold id fs r)\<lparr>a_updated_at := t\<rparr>)"
      using assms(4) by (simp add: rows find_update_id good_def identity_def)
    moreover have "scannable ((fold id fs r)\<lparr>a_updated_at := t\<rparr>)" using good assms(5) by (simp add: good_def scannable_def)
    moreover have "quiet (tick v)" using assms(2) rows(2) by (simp add: quiet_def)
    ultimately obtain a where a: "app_get i (tick v) = (Inr a, tick (tick v))" using app_get_quiet by blast
    have "db_exec (update_apps (\<lambda>a. a_id a = i) (fold id fs)) w = (Inr n, tick v)"
      using v assms(2) by (simp add: db_exec_def x_def quiet_def)
    with assms(1) False a have "n = 0" "w' = tick v" by (auto simp: app_updateFields_def bnd_def fail_def split: if_splits)
    with n show ?thesis by (simp add: rows update_where_none)
  qed
qed

lemma read_apps:
  assumes "moves only_step m" and "m w = (r, w')"
  shows "apps w' = apps w \<and> quiet w' = quiet w"
proof -
  obtain n where "w' = w\<lparr>stp := n\<rparr>" using only_stepE [OF assms] .
  then show ?thesis by (simp add: quiet_def)
qed

lemma app_get_scannable: "app_get i w = (Inr a, w') \<Longrightarrow> scannable (app_row a)"
proof -
  have "scannable r" if "scanApp r = Inr a" for r using that by (auto simp: scanApp_def scannable_def split: option.splits)
  then show "app_get i w = (Inr a, w') \<Longrightarrow> scannable (app_row a)"
    by (auto simp: app_get_def app_query_Inr dest: scanApp_row)
qed

text \<open>
  C16. When the database driver works, an update that is refused (an unknown app, team or source, a value out of
  range, a constraint) leaves the apps exactly as they were.
\<close>

theorem app_Update_refused:
  assumes "app_Update svc i p w = (Inl e, w')" and "quiet w"
  shows "apps w' = apps w"
proof -
  from assms(1) have "update_fields svc i p w = (Inl e, w')" by (auto simp: app_Update_split split: prod.splits sum.splits)
  then consider "app_get i w = (Inl e, w')"
    | cur v where "app_get i w = (Inr cur, v)" "team_set p v = (Inl e, w')"
    | cur v t v2 where "app_get i w = (Inr cur, v)" "team_set p v = (Inr t, v2)" "git_set svc p v2 = (Inl e, w')"
    | cur v t v2 g v3 where "app_get i w = (Inr cur, v)" "team_set p v = (Inr t, v2)" "git_set svc p v2 = (Inr g, v3)" "w' = v3"
    | cur v t v2 g v3 fs where "app_get i w = (Inr cur, v)" "team_set p v = (Inr t, v2)" "git_set svc p v2 = (Inr g, v3)"
        "patch_sets (app_row cur) p = Inr fs"
        "app_updateFields i ((case up_Description p of None \<Rightarrow> [] | Some s \<Rightarrow> [\<lambda>a. a\<lparr>a_description := nullableString s\<rparr>]) @ t @ g @ fs) v3 = (Inl e, w')"
    unfolding update_fields_def bnd_eq_Inl_iff lift_res_def ret_def by auto
  then show ?thesis
  proof cases
    case 5
    note r = read_apps [OF service_reads(2) 5(1)] read_apps [OF create_reads(5) 5(2)] read_apps [OF create_reads(6) 5(3)]
    have "find (\<lambda>a. a_id a = i) (apps v3) = Some (app_row cur)" using app_get_Inr [OF 5(1)] r by simp
    then have "apps w' = apps v3"
      using r assms(2) app_get_scannable [OF 5(1)] team_set_good [OF 5(2)] git_set_good [OF 5(3)] patch_sets_good [OF 5(4)]
      by (intro updateFields_refused [OF 5(5)]) (simp_all add: description_good)
    with r show ?thesis by simp
  qed (metis read_apps service_reads(2) create_reads(5,6))+
qed

section \<open>Creation\<close>

lemma app_insert_Inr:
  assumes "app_insert a w = (Inr u, w')"
  shows "\<exists>t. schema_ok w' \<and> apps w' = apps w @ [a\<lparr>a_restart_policy := (if a_restart_policy a = [] then ''unless-stopped'' else a_restart_policy a),
      a_created_at := t, a_updated_at := t\<rparr>]"
proof -
  define row where "row t = a\<lparr>a_restart_policy := (if a_restart_policy a = [] then ''unless-stopped'' else a_restart_policy a),
      a_created_at := t, a_updated_at := t\<rparr>" for t
  define x where "x = db_exec (\<lambda>w. insert_app (row (unixepoch w)) w) w"
  from assms have "(case fst x of Inl e \<Rightarrow> (if e = ErrSql UniqueViolation then fail ErrNameInUse else fail e) | Inr _ \<Rightarrow> ret ()) (snd x) = (Inr u, w')"
    by (simp add: app_insert_def bnd_attempt x_def row_def)
  then obtain n where "x = (Inr n, w')" by (cases x; cases "fst x") (auto simp: fail_def ret_def split: if_splits)
  then obtain v t where "insert_app (row t) w = Inr (n, v)" and "w' = tick v"
    by (auto simp: x_def db_exec_eq_Inr_iff)
  then show ?thesis unfolding row_def [symmetric] by (auto simp: insert_app_def checked_Inr_iff)
qed

text \<open>
  A created app is stored as the last row of the table: valid, idle, named by the trimmed input, on a server that was
  connected, and what the call returns is that row.
\<close>

theorem app_Create_row:
  assumes "app_Create svc inp w = (Inr a, w')"
  shows "apps w' = apps w @ [app_row a] \<and> app_valid (app_row a) \<and> a_name (app_row a) = trim_space (in_Name inp) \<and>
    a_status (app_row a) = StatusIdle \<and>
    (\<exists>srv. srv \<in> set (servers w) \<and> sv_status srv = ''connected'' \<and> a_server_id (app_row a) = Some (sv_id srv))"
proof -
  from assms obtain inp' hc srv v i v2 where checks: "create_checks svc inp w = (Inr (inp', hc, srv), v)"
    and ins: "app_insert (new_app inp' hc i (sv_id srv)) (tick v) = (Inr (), v2)" and get: "app_get i v2 = (Inr a, w')"
    by (auto simp: app_Create_def bnd_eq_Inr_iff new_uuid_eq_Inr_iff)
  define row where "row t = (new_app inp' hc i (sv_id srv))\<lparr>a_restart_policy := (if a_restart_policy (new_app inp' hc i (sv_id srv)) = [] then ''unless-stopped''
      else a_restart_policy (new_app inp' hc i (sv_id srv))), a_created_at := t, a_updated_at := t\<rparr>" for t
  from ins obtain t where v2: "apps v2 = apps v @ [row t]" "schema_ok v2"
    using app_insert_Inr [OF ins] by (auto simp: row_def)
  have "apps v = apps w" using read_apps [OF create_checks_read checks] by simp
  moreover have "app_row a = row t"
  proof -
    have "distinct (map a_id (apps v @ [row t]))" using v2 by (simp add: schema_ok_def unique_ok_def)
    moreover have "a_id (row t) = i" by (simp add: row_def new_app_def)
    ultimately have "find (\<lambda>a. a_id a = i) (apps v) = None" and "a_id (row t) = i" by (auto simp: find_None_iff image_iff)
    then have "find (\<lambda>a. a_id a = i) (apps v2) = Some (row t)" using v2(1) by (simp add: find_append)
    with app_get_Inr [OF get] show ?thesis by simp
  qed
  moreover have "apps w' = apps v2" using app_get_Inr [OF get] by simp
  moreover have "app_valid (row t)" using create_checks_Inr [OF checks] by (simp add: row_def valid_defs)
  ultimately show ?thesis
    using create_checks_Inr [OF checks] v2(1) by (auto simp: row_def new_app_def)
qed

section \<open>Deletion\<close>


section \<open>Witnesses\<close>

definition fx_hc :: HealthCheckOpts where
  "fx_hc = \<lparr>hc_Enabled = None, hc_Path = [], hc_Port = None, hc_Method = ''head'', hc_ReturnCode = 0, hc_Interval = 0,
     hc_Timeout = 0, hc_Retries = 0, hc_StartPeriod = 0\<rparr>"

definition fx_input :: AppCreateInput where
  "fx_input =
     \<lparr>in_Name = '' blog '', in_Description = [], in_TeamID = Some ''t1'', in_ServerID = ''s1'', in_GitSourceID = None, in_RepoURL = None,
      in_Branch = [], in_GitCommitSHA = None, in_BuildType = ''docker_image'', in_DockerfilePath = [], in_BuildContext = [],
      in_DockerfileInline = None, in_ComposeFile = None, in_ComposeInline = None, in_ImageName = Some ''nginx'', in_ImageTag = [],
      in_InstallCommand = None, in_BuildCommand = None, in_StartCommand = None, in_PreDeployCommand = None,
      in_PostDeployCommand = None, in_Port = Some 80, in_HostPort = None, in_HealthCheck = fx_hc, in_LimitsMemory = Some ''1.5g'',
      in_LimitsCPUs = None, in_LimitsMemorySwap = None, in_LimitsMemorySwappiness = Some 10, in_LimitsMemoryReservation = None,
      in_LimitsCPUSet = Some ''0,2-4'', in_LimitsCPUShares = None, in_RestartPolicy = [], in_AutoDeployBranch = None,
      in_BuildArgsInject = None, in_BuildArgsSourceCommit = None, in_DockerLabels = None,
      in_EnvVars = Some [(''PORT'', ''80'')]\<rparr>"

definition fx_patch :: UpdatePatch where
  "fx_patch =
     \<lparr>up_Description = Some ''x'', up_TeamID = None, up_ClearTeamID = False, up_GitSourceID = None, up_ClearGitSourceID = False,
      up_RepoURL = None, up_Branch = Some [], up_GitCommitSHA = None, up_DockerfilePath = None, up_BuildContext = None,
      up_DockerfileInline = None, up_ComposeFile = None, up_ComposeInline = None, up_ImageName = None, up_ImageTag = None,
      up_InstallCommand = None, up_BuildCommand = None, up_StartCommand = None, up_PreDeployCommand = None,
      up_PostDeployCommand = None, up_Port = Some 8, up_HostPort = None, up_HealthCheck = None, up_LimitsMemory = None,
      up_LimitsCPUs = None, up_LimitsMemorySwap = None, up_LimitsMemorySwappiness = None, up_ClearMemorySwappiness = False,
      up_LimitsMemoryReservation = None, up_LimitsCPUSet = None, up_LimitsCPUShares = None, up_ClearCPUShares = False,
      up_RestartPolicy = None, up_AutoDeployBranch = None, up_ClearAutoDeployBranch = False, up_BuildArgsInject = None,
      up_BuildArgsSourceCommit = None, up_DockerLabels = None, up_EnvVars = None\<rparr>"

definition fx_svc :: asvc where
  "fx_svc = \<lparr>as_gitSrcs = True, as_defaults = Some (\<lambda>n. (''512m'', ''0.5''))\<rparr>"

definition fx_running :: db where
  "fx_running =
     fx_apps\<lparr>orc := quiet_env\<lparr>o_rand := (\<lambda>_. None)\<rparr>,
       apps := [(fx_app ''a1'' ''web'')\<lparr>a_status := ''unreachable'', a_container_name := Some ''web''\<rparr>]\<rparr>"

lemma fx_running_quiet: "quiet fx_running"
  by (simp add: quiet_def fx_running_def)

lemma fx_running_valid: "apps_valid fx_running"
proof -
  have "nameRegex ''web''" by code_simp
  then show ?thesis by (simp add: apps_valid_def fx_running_def fx_app_def valid_defs port_ok_def)
qed

theorem apps_stay_valid_witness:
  "apps_valid (fold (app_call_run fx_svc (\<lambda>n p. True)) [ACreate fx_input, AUpdate ''a1'' fx_patch, ADelete ''a1''] fx_running)"
  by (rule apps_stay_valid [OF fx_running_valid])

theorem app_Update_identity_witness:
  "map a_status (apps (snd (app_Update fx_svc ''a1'' fx_patch fx_running))) = [''unreachable'']"
proof -
  from app_Update_identity [OF surjective_pairing, of fx_svc "''a1''" fx_patch fx_running]
  have "map identity (apps (snd (app_Update fx_svc ''a1'' fx_patch fx_running))) = map identity (apps fx_running)" by simp
  then show ?thesis by (auto simp: fx_running_def identity_def)
qed

theorem app_Update_refused_witness:
  "apps (snd (app_Update fx_svc ''a1'' (fx_patch\<lparr>up_Port := Some 70000\<rparr>) fx_running)) = apps fx_running"
proof -
  have "fst (app_Update fx_svc ''a1'' (fx_patch\<lparr>up_Port := Some 70000\<rparr>) fx_running) = Inl (ErrNew ''invalid_port'')" by code_simp
  from app_Update_refused [OF fst_result [OF this] fx_running_quiet] show ?thesis .
qed

text \<open>The creation in two parts: the checks, which fill in the processor limit of the instance, and the row.\<close>

definition fx_checked :: AppCreateInput where
  "fx_checked = fx_input\<lparr>in_LimitsCPUs := Some ''0.5''\<rparr>"

lemma fx_create: "\<exists>a. fst (app_Create fx_svc fx_input fx_running) = Inr a"
proof -
  let ?c = "create_checks fx_svc fx_input fx_running" and ?h = "Unwrap (health_defaults fx_hc)"
  have "map_sum id (\<lambda>(i, h, s). (i, h, sv_id s)) (fst ?c) = Inr (fx_checked, ?h, ''s1'')" by code_simp
  then obtain srv where c: "fst ?c = Inr (fx_checked, ?h, srv)" "sv_id srv = ''s1''" by (cases "fst ?c") auto
  have "stp (snd ?c) = 3" by code_simp
  moreover obtain n where "snd ?c = fx_running\<lparr>stp := n\<rparr>" by (rule only_stepE [OF create_checks_read surjective_pairing])
  ultimately have c2: "?c = (Inr (fx_checked, ?h, srv), fx_running\<lparr>stp := 3\<rparr>)" using fst_result [OF c(1)] by simp
  let ?r = "bnd (app_insert (new_app fx_checked ?h ''id-3'' ''s1'')) (\<lambda>_. app_get ''id-3'') (fx_running\<lparr>stp := 4\<rparr>)"
  have "map_sum id (a_name \<circ> app_row) (fst ?r) = Inr ''blog''" by code_simp
  then have "\<exists>a. fst ?r = Inr a" by (cases "fst ?r") auto
  moreover have "nat_digits 3 = ''3''" by code_simp
  then have "new_uuid (fx_running\<lparr>stp := 3\<rparr>) = (Inr ''id-3'', fx_running\<lparr>stp := 4\<rparr>)"
    by (simp add: new_uuid_def tick_def fx_running_def quiet_env_def)
  ultimately show ?thesis by (simp add: app_Create_def bnd_def [of "create_checks fx_svc fx_input"] bnd_def [of new_uuid] c2 c(2))
qed

theorem app_Create_row_witness: "\<exists>a. apps (snd (app_Create fx_svc fx_input fx_running)) = apps fx_running @ [a] \<and> a_name a = ''blog''"
proof -
  obtain a where a: "fst (app_Create fx_svc fx_input fx_running) = Inr a" using fx_create ..
  have "trim_space (in_Name fx_input) = ''blog''" by code_simp
  with app_Create_row [OF fst_result [OF a]] show ?thesis by auto
qed


end
