(* ===== verification/AppVolume.thy ===== *)
theory AppVolume
  imports App_Props
begin

text \<open>
  The persistent storage of apps (\<open>internal/appvolume\<close>): the rows of \<open>app_volumes\<close> an operator declares and
  the deploy engine turns into mounts. The checks of paths, services and the pairing of named volumes and
  host paths, the operations on rows, and what they keep true of every row.
\<close>

section \<open>Checks\<close>

definition serviceRegex :: "string \<Rightarrow> bool" where
  "serviceRegex s \<longleftrightarrow>
     (case s of [] \<Rightarrow> False | c # r \<Rightarrow> is_alnum c \<and> list_all (\<lambda>d. is_alnum d \<or> d \<in> set ''._-'') r)"

definition maxPathLen :: nat where
  "maxPathLen = 512"

definition containsParentSegment :: "string \<Rightarrow> bool" where
  "containsParentSegment p = list_ex (\<lambda>seg. seg = ''..'') (split_on (CHR ''/'') p)"

text \<open>The three checks both kinds of path go through once they are trimmed and not empty.\<close>

definition path_checks :: "string \<Rightarrow> string \<Rightarrow> err + unit" where
  "path_checks field v =
     sum_bind (require (length v \<le> maxPathLen) (field @ '': max 512 chars'')) (\<lambda>_.
     sum_bind (require (prefix ''/'' v) (field @ '': must be absolute (start with /)'')) (\<lambda>_.
     require (\<not> containsParentSegment v) (field @ '': must not contain .. segments'')))"

definition validateMountPath :: "string \<Rightarrow> err + string" where
  "validateMountPath raw =
     (let v = trim_space raw
      in sum_bind (require (v \<noteq> []) ''invalid_mount_path: required'') (\<lambda>_.
         sum_bind (path_checks ''invalid_mount_path'' v) (\<lambda>_. Inr v)))"

definition validateHostPath :: "string option \<Rightarrow> err + string option" where
  "validateHostPath inp =
     (case inp of
        None \<Rightarrow> Inr None
      | Some raw \<Rightarrow>
          (let v = trim_space raw
           in if v = [] then Inr None
              else sum_bind (path_checks ''invalid_host_path'' v) (\<lambda>_. Inr (Some v))))"

definition validatePairing :: "bool \<Rightarrow> string option \<Rightarrow> err + unit" where
  "validatePairing isNamed host =
     (if isNamed then
        (case host of None \<Rightarrow> Inr () | Some _ \<Rightarrow> Inl (ErrNew ''invalid_host_path: must be empty for named volumes''))
      else
        (case host of
           None \<Rightarrow> Inl (ErrNew ''invalid_host_path: required when is_named=false'')
         | Some h \<Rightarrow> require (trim_space h \<noteq> []) ''invalid_host_path: required when is_named=false''))"

definition normaliseService :: "string option \<Rightarrow> err + string option" where
  "normaliseService inp =
     (case inp of
        None \<Rightarrow> Inr None
      | Some raw \<Rightarrow>
          (let v = trim_space raw
           in if v = [] then Inr None
              else sum_bind (require (serviceRegex v) ''invalid_service'') (\<lambda>_. Inr (Some v))))"

section \<open>Rows\<close>

definition volume_ErrNotFound :: err where
  "volume_ErrNotFound = ErrNew ''appvolume: not found''"

definition volume_ErrDuplicate :: err where
  "volume_ErrDuplicate = ErrNew ''appvolume: duplicate mount''"

definition volume_insert :: "volume_row \<Rightarrow> ('x, unit) dbm" where
  "volume_insert v =
     bnd (attempt (db_exec (\<lambda>w. insert_volume (v\<lparr>v_created_at := unixepoch w, v_updated_at := unixepoch w\<rparr>) w))) (\<lambda>r.
     case r of
       Inl e \<Rightarrow> (if e = ErrSql UniqueViolation then fail volume_ErrDuplicate else fail e)
     | Inr _ \<Rightarrow> ret ())"

definition volume_get :: "string \<Rightarrow> ('x, volume_row) dbm" where
  "volume_get i =
     bnd (attempt (db_query_row (\<lambda>w. find (\<lambda>v. v_id v = i) (app_volumes w)))) (\<lambda>r.
     case r of
       Inl e \<Rightarrow> (if errors_is e (ErrSql NoRows) then fail volume_ErrNotFound else fail e)
     | Inr v \<Rightarrow> ret v)"

text \<open>The assignments of an update, in the order they are collected.\<close>

definition volume_updateFields :: "string \<Rightarrow> (volume_row \<Rightarrow> volume_row) list \<Rightarrow> ('x, volume_row) dbm" where
  "volume_updateFields i fs =
     (if fs = [] then volume_get i
      else
        bnd (attempt (db_exec (update_volumes (\<lambda>v. v_id v = i) (fold id fs)))) (\<lambda>r.
        case r of
          Inl e \<Rightarrow> (if e = ErrSql UniqueViolation then fail volume_ErrDuplicate else fail e)
        | Inr n \<Rightarrow> (if n = 0 then fail volume_ErrNotFound else volume_get i)))"

definition volume_delete :: "string \<Rightarrow> ('x, unit) dbm" where
  "volume_delete i =
     bnd (db_exec (delete_volumes (\<lambda>v. v_id v = i))) (\<lambda>n.
     if n = 0 then fail volume_ErrNotFound else ret ())"

section \<open>The service\<close>

record VolumeInput =
  vi_AppID :: string
  vi_Service :: "string option"
  vi_MountPath :: string
  vi_HostPath :: "string option"
  vi_IsNamed :: bool
  vi_ReadOnly :: bool

record VolumePatch =
  vp_MountPath :: "string option"
  vp_HostPath :: "string option"
  vp_IsNamed :: "bool option"
  vp_ReadOnly :: "bool option"

definition findExisting :: "string \<Rightarrow> string \<Rightarrow> ('x, bool) dbm" where
  "findExisting appID mount =
     bnd (volume_listByApp appID) (\<lambda>rows.
     ret (list_ex (\<lambda>r. v_service r = None \<and> v_mount_path r = mount) rows))"

text \<open>The app a volume is declared for; a miss is reported under the name of the field.\<close>

definition volume_app :: "string \<Rightarrow> ('x, App) dbm" where
  "volume_app appID =
     bnd (attempt (app_Get appID)) (\<lambda>r.
     case r of
       Inl e \<Rightarrow> (if errors_is e app_ErrNotFound then fail (ErrWrap ''invalid_app_id'' e) else fail e)
     | Inr a \<Rightarrow> ret a)"

text \<open>The validated parts of a new volume: service, mount path and host path.\<close>

definition volume_values :: "VolumeInput \<Rightarrow> err + string option \<times> string \<times> string option" where
  "volume_values inp =
     sum_bind (normaliseService (vi_Service inp)) (\<lambda>svc.
     sum_bind (validateMountPath (vi_MountPath inp)) (\<lambda>mount.
     sum_bind (validateHostPath (vi_HostPath inp)) (\<lambda>host.
     sum_bind (validatePairing (vi_IsNamed inp) host) (\<lambda>_.
     Inr (svc, mount, host)))))"

definition new_volume :: "VolumeInput \<Rightarrow> string \<Rightarrow> string \<Rightarrow> string option \<times> string \<times> string option \<Rightarrow> volume_row" where
  "new_volume inp i appID vals =
     (case vals of (svc, mount, host) \<Rightarrow>
        \<lparr>v_id = i, v_app_id = appID, v_service = svc, v_mount_path = mount, v_host_path = host,
         v_is_named = vi_IsNamed inp, v_read_only = vi_ReadOnly inp, v_created_at = 0, v_updated_at = 0\<rparr>)"

text \<open>
  UNIQUE does not apply to rows without a service, so their mount paths are compared here.
\<close>

definition mount_taken :: "string \<Rightarrow> string option \<times> string \<times> string option \<Rightarrow> ('x, bool) dbm" where
  "mount_taken appID vals =
     (case vals of (svc, mount, _) \<Rightarrow> (if svc = None then findExisting appID mount else ret False))"

definition volume_Create :: "VolumeInput \<Rightarrow> ('x, volume_row) dbm" where
  "volume_Create inp =
     (let appID = trim_space (vi_AppID inp)
      in if appID = [] then fail (ErrNew ''invalid_app_id: required'')
         else
           bnd (volume_app appID) (\<lambda>a.
           bnd (lift_res (volume_values inp)) (\<lambda>vals.
           bnd (mount_taken (a_id (app_row a)) vals) (\<lambda>dup.
           if dup then fail volume_ErrDuplicate
           else
             bnd new_uuid (\<lambda>i.
             bnd (volume_insert (new_volume inp i (a_id (app_row a)) vals)) (\<lambda>_.
             volume_get i))))))"

definition volume_Get :: "string \<Rightarrow> ('x, volume_row) dbm" where
  "volume_Get i = (if trim_space i = [] then fail volume_ErrNotFound else volume_get (trim_space i))"

definition volume_sets :: "VolumePatch \<Rightarrow> string option \<Rightarrow> string option \<Rightarrow> (volume_row \<Rightarrow> volume_row) list" where
  "volume_sets p host mount =
     (case vp_IsNamed p of None \<Rightarrow> [] | Some b \<Rightarrow> [\<lambda>v. v\<lparr>v_is_named := b\<rparr>]) @
     (case vp_HostPath p of None \<Rightarrow> [] | Some _ \<Rightarrow> [\<lambda>v. v\<lparr>v_host_path := host\<rparr>]) @
     (case mount of None \<Rightarrow> [] | Some m \<Rightarrow> [\<lambda>v. v\<lparr>v_mount_path := m\<rparr>]) @
     (case vp_ReadOnly p of None \<Rightarrow> [] | Some b \<Rightarrow> [\<lambda>v. v\<lparr>v_read_only := b\<rparr>])"

text \<open>The values the row will have, checked together, and the assignments that give it those values.\<close>

definition volume_patch :: "volume_row \<Rightarrow> VolumePatch \<Rightarrow> err + (volume_row \<Rightarrow> volume_row) list" where
  "volume_patch cur p =
     sum_bind (case vp_HostPath p of None \<Rightarrow> Inr (v_host_path cur) | Some h \<Rightarrow> validateHostPath (Some h)) (\<lambda>finalHost.
     sum_bind (validatePairing (case vp_IsNamed p of None \<Rightarrow> v_is_named cur | Some b \<Rightarrow> b) finalHost) (\<lambda>_.
     sum_bind (case vp_MountPath p of None \<Rightarrow> Inr None | Some m \<Rightarrow> sum_bind (validateMountPath m) (\<lambda>v. Inr (Some v))) (\<lambda>mount.
     Inr (volume_sets p finalHost mount))))"

definition volume_Update :: "string \<Rightarrow> VolumePatch \<Rightarrow> ('x, volume_row) dbm" where
  "volume_Update i p =
     bnd (volume_get i) (\<lambda>cur.
     bnd (lift_res (volume_patch cur p)) (\<lambda>fs.
     volume_updateFields i fs))"

definition volume_Delete :: "string \<Rightarrow> ('x, unit) dbm" where
  "volume_Delete i = volume_delete (trim_space i)"

section \<open>Well-formed volumes\<close>

text \<open>
  What the deploy engine relies on: paths are absolute, bounded and without a parent segment, and a volume
  has a host path exactly when it is not a named one.
\<close>

definition path_ok :: "string \<Rightarrow> bool" where
  "path_ok p \<longleftrightarrow> prefix ''/'' p \<and> length p \<le> 512 \<and> ''..'' \<notin> set (split_on (CHR ''/'') p)"

definition volume_ok :: "volume_row \<Rightarrow> bool" where
  "volume_ok v \<longleftrightarrow>
     path_ok (v_mount_path v) \<and> (v_is_named v \<longleftrightarrow> v_host_path v = None) \<and>
     pred_option path_ok (v_host_path v) \<and> pred_option serviceRegex (v_service v)"

definition volumes_ok :: "'x db_scheme \<Rightarrow> bool" where
  "volumes_ok w \<longleftrightarrow> list_all volume_ok (app_volumes w)"

lemma path_checks_Inr: "path_checks field v = Inr u \<longleftrightarrow> path_ok v"
  by (auto simp: path_checks_def sum_bind_Inr path_ok_def maxPathLen_def containsParentSegment_def list_ex_iff)

lemma validateMountPath_Inr: "validateMountPath raw = Inr v \<Longrightarrow> path_ok v"
  by (auto simp: validateMountPath_def Let_def sum_bind_Inr path_checks_Inr)

lemma validateHostPath_Inr: "validateHostPath inp = Inr h \<Longrightarrow> pred_option path_ok h"
  by (auto simp: validateHostPath_def Let_def sum_bind_Inr path_checks_Inr split: option.splits if_splits)

lemma validatePairing_Inr: "validatePairing named h = Inr u \<Longrightarrow> named \<longleftrightarrow> h = None"
  by (auto simp: validatePairing_def split: if_splits option.splits)

lemma normaliseService_Inr: "normaliseService inp = Inr s \<Longrightarrow> pred_option serviceRegex s"
  by (auto simp: normaliseService_def Let_def sum_bind_Inr split: option.splits if_splits)

lemma new_volume_ok: "volume_values inp = Inr vals \<Longrightarrow> volume_ok (new_volume inp i appID vals)"
  by (auto simp: volume_values_def sum_bind_Inr new_volume_def volume_ok_def
      dest: validateMountPath_Inr validateHostPath_Inr validatePairing_Inr normaliseService_Inr)

lemma volume_patch_ok:
  assumes "volume_patch cur p = Inr fs" and "volume_ok cur"
  shows "volume_ok (fold id fs cur)"
proof -
  obtain host u mount where h: "(case vp_HostPath p of None \<Rightarrow> Inr (v_host_path cur) | Some x \<Rightarrow> validateHostPath (Some x)) = Inr host"
    and pair: "validatePairing (case vp_IsNamed p of None \<Rightarrow> v_is_named cur | Some b \<Rightarrow> b) host = Inr u"
    and m: "(case vp_MountPath p of None \<Rightarrow> Inr None | Some x \<Rightarrow> sum_bind (validateMountPath x) (\<lambda>v. Inr (Some v))) = Inr mount"
    and fs: "fs = volume_sets p host mount"
    using assms(1) by (auto simp: volume_patch_def sum_bind_Inr)
  have "pred_option path_ok host" using h assms(2) by (auto simp: volume_ok_def dest: validateHostPath_Inr split: option.splits)
  moreover have "pred_option path_ok mount" using m by (auto simp: sum_bind_Inr dest: validateMountPath_Inr split: option.splits)
  moreover have "vp_HostPath p = None \<Longrightarrow> host = v_host_path cur" using h by simp
  ultimately show ?thesis
    using assms(2) validatePairing_Inr [OF pair] by (auto simp: fs volume_sets_def volume_ok_def split: option.splits)
qed

interpretation vo: frame "keeps volumes_ok"
  by (rule frame_keeps) (simp add: volumes_ok_def)

lemma volume_reads:
  "moves only_step (volume_get i)" "moves only_step (volume_app i)" "moves only_step (mount_taken i vals)"
  unfolding volume_get_def volume_app_def mount_taken_def findExisting_def volume_listByApp_def
  by (intro rd.frame_rules moves_intro service_reads)+

lemma volume_insert_ok: "volume_ok v \<Longrightarrow> moves (keeps volumes_ok) (volume_insert v)"
  unfolding volume_insert_def
  by (intro vo.frame_rules moves_intro vo.frame_exec) (auto simp: keeps_def volumes_ok_def volume_ok_def insert_volume_def checked_Inr_iff)

lemma volume_Create_ok: "moves (keeps volumes_ok) (volume_Create inp)"
  unfolding volume_Create_def Let_def
proof (intro vo.frame_bnd_run moves_intro)
  fix w vals w' and a :: App and i
  assume "lift_res (volume_values inp) w = (Inr vals, w')"
  then show "moves (keeps volumes_ok) (volume_insert (new_volume inp i (a_id (app_row a)) vals))"
    by (intro volume_insert_ok) (auto simp: lift_res_def intro: new_volume_ok)
qed (intro vo.frame_rules vo.frame_read volume_reads)+

lemma volume_get_Inr: "volume_get i w = (Inr v, w') \<Longrightarrow> find (\<lambda>v. v_id v = i) (app_volumes w) = Some v \<and> w' = tick w"
  by (auto simp: volume_get_def bnd_attempt db_query_row_cases fail_def ret_def split: option.splits if_splits)

text \<open>An update writes the row it has read: the assignments only have to be right for that row.\<close>

lemma update_volumes_ok:
  assumes "volumes_ok w" and "find (\<lambda>v. v_id v = i) (app_volumes w) = Some cur" and "volume_ok (f cur)"
    and "\<And>v. v_id (f v) = v_id v" and "update_volumes (\<lambda>v. v_id v = i) f w = Inr (n, w')"
  shows "volumes_ok w'"
proof -
  obtain t where w': "app_volumes w' = update_where (\<lambda>v. v_id v = i) (\<lambda>v. (f v)\<lparr>v_updated_at := t\<rparr>) (app_volumes w)" and "schema_ok w'"
    using assms(5) by (auto simp: update_volumes_def checked_Inr_iff)
  then have "distinct (map v_id (app_volumes w'))" by (simp add: schema_ok_def unique_ok_def deploy_unique_ok_def)
  then have "distinct (map v_id (app_volumes w))" unfolding w' by (subst (asm) map_update_where) (simp_all add: assms(4))
  then have "v \<in> set (app_volumes w) \<Longrightarrow> v_id v = i \<Longrightarrow> v = cur" for v
    using find_key [of v_id "app_volumes w" v i] assms(2) by simp
  moreover have "volume_ok (v\<lparr>v_updated_at := t\<rparr>) = volume_ok v" for v by (simp add: volume_ok_def)
  ultimately show ?thesis
    using assms(1,3) by (auto simp: volumes_ok_def w' set_update_where list_all_iff)
qed

lemma volume_sets_id: "v_id (fold id (volume_sets p h m) v) = v_id v \<and> v_app_id (fold id (volume_sets p h m) v) = v_app_id v \<and>
    v_service (fold id (volume_sets p h m) v) = v_service v"
  by (simp add: volume_sets_def split: option.split)

lemma volume_patch_id: "volume_patch cur p = Inr fs \<Longrightarrow> v_id (fold id fs v) = v_id v"
  by (auto simp: volume_patch_def sum_bind_Inr volume_sets_id)

lemma volume_updateFields_ok:
  assumes "volumes_ok w" and "find (\<lambda>v. v_id v = i) (app_volumes w) = Some cur" and "volume_patch cur p = Inr fs"
  shows "volumes_ok (snd (volume_updateFields i fs w))"
proof -
  have "volume_ok cur" using assms(1,2) by (auto simp: volumes_ok_def list_all_iff find_Some_iff)
  then have "volume_ok (fold id fs cur)" by (rule volume_patch_ok [OF assms(3)])
  then have step: "volumes_ok w'" if "update_volumes (\<lambda>v. v_id v = i) (fold id fs) w = Inr (n, w')" for n w'
    using update_volumes_ok [OF assms(1,2) _ volume_patch_id [OF assms(3)] that] by simp
  have get: "volumes_ok (snd (volume_get i v))" if "volumes_ok v" for v :: "'a db_scheme"
    by (rule keeps_snd [OF vo.frame_read [OF volume_reads(1)] that])
  have tick: "volumes_ok (tick v) = volumes_ok v" for v :: "'a db_scheme" by (simp add: volumes_ok_def)
  show ?thesis
    using assms(1) step get
    by (auto simp: volume_updateFields_def bnd_def attempt_def db_exec_def fail_def tick split: sum.split prod.split)
qed

lemma volume_Update_ok:
  assumes "volumes_ok w"
  shows "volumes_ok (snd (volume_Update i p w))"
proof -
  obtain r v where g: "volume_get i w = (r, v)" by (cases "volume_get i w")
  have v: "volumes_ok v" by (rule keepsD [OF vo.frame_read [OF volume_reads(1)] assms g])
  show ?thesis
  proof (cases r)
    case (Inr cur)
    with g volume_get_Inr [of i w cur v] have "find (\<lambda>v. v_id v = i) (app_volumes v) = Some cur" by simp
    from volume_updateFields_ok [OF v this] show ?thesis
      using v by (cases "volume_patch cur p") (simp_all add: volume_Update_def bnd_def lift_res_def g Inr)
  qed (simp add: volume_Update_def bnd_def g v)
qed

lemma volume_Delete_ok: "moves (keeps volumes_ok) (volume_Delete i)"
  unfolding volume_Delete_def volume_delete_def
  by (intro vo.frame_rules moves_intro vo.frame_exec) (auto simp: keeps_def volumes_ok_def delete_volumes_def checked_Inr_iff list_all_iff)

datatype volume_call = VCreate VolumeInput | VUpdate string VolumePatch | VDelete string

definition volume_call_run :: "volume_call \<Rightarrow> 'x db_scheme \<Rightarrow> 'x db_scheme" where
  "volume_call_run c w =
     (case c of
        VCreate inp \<Rightarrow> snd (volume_Create inp w)
      | VUpdate i p \<Rightarrow> snd (volume_Update i p w)
      | VDelete i \<Rightarrow> snd (volume_Delete i w))"

lemma volume_call_ok: "volumes_ok w \<Longrightarrow> volumes_ok (volume_call_run c w)"
  by (cases c) (simp_all add: volume_call_run_def volume_Update_ok keeps_snd [OF volume_Create_ok] keeps_snd [OF volume_Delete_ok])

text \<open>
  C27. Whatever sequence of calls the volume service gets, and whatever the database driver does, every stored
  volume has an absolute mount path without a parent segment, a host path of the same form exactly when it
  is a bind mount, and a legal service name.
\<close>

theorem volumes_stay_ok:
  assumes "volumes_ok w"
  shows "volumes_ok (fold volume_call_run calls w)"
  using assms by (induction calls arbitrary: w) (auto intro: volume_call_ok)

section \<open>One mount per path\<close>

definition mount_key :: "volume_row \<Rightarrow> string \<times> string option \<times> string" where
  "mount_key v = (v_app_id v, v_service v, v_mount_path v)"

definition mounts_distinct :: "'x db_scheme \<Rightarrow> bool" where
  "mounts_distinct w \<longleftrightarrow> distinct (map mount_key (app_volumes w))"

text \<open>The schema tells volumes of services apart, the lookup before the insertion those without one.\<close>

lemma appended_mount:
  assumes "schema_ok w'" and "app_volumes w' = app_volumes w @ [v]" and "mounts_distinct w"
    and "v_service v = None \<Longrightarrow> \<not> list_ex (\<lambda>r. v_service r = None \<and> v_mount_path r = v_mount_path v)
           (filter (\<lambda>r. v_app_id r = v_app_id v) (app_volumes w))"
  shows "mounts_distinct w'"
proof -
  have "distinct (some_key volume_key (app_volumes w @ [v]))"
    using assms(1,2) by (simp add: schema_ok_def unique_ok_def deploy_unique_ok_def)
  then have key: "k \<notin> set (some_key volume_key (app_volumes w))" if "volume_key v = Some k" for k
    using that by (simp add: some_key_append some_key_single [of volume_key, OF that])
  have "mount_key v \<notin> mount_key ` set (app_volumes w)"
  proof (cases "v_service v")
    case None
    with assms(4) show ?thesis by (auto simp: mount_key_def list_ex_iff)
  next
    case (Some s)
    then have "volume_key v = Some (v_app_id v, s, v_mount_path v)" by (simp add: volume_key_def)
    from key [OF this] show ?thesis using Some by (force simp: some_key_mem volume_key_def mount_key_def)
  qed
  with assms(2,3) show ?thesis by (simp add: mounts_distinct_def)
qed

lemma mount_taken_False:
  assumes "mount_taken i (svc, m, h) w = (Inr False, w')"
  shows "app_volumes w' = app_volumes w \<and>
    (svc = None \<longrightarrow> \<not> list_ex (\<lambda>r. v_service r = None \<and> v_mount_path r = m) (filter (\<lambda>r. v_app_id r = i) (app_volumes w)))"
  using assms
  by (auto simp: mount_taken_def findExisting_def volume_listByApp_def bnd_def db_query_def ret_def list_ex_iff split: if_splits)

lemma volume_insert_Inr:
  assumes "volume_insert v w = (Inr u, w')"
  shows "\<exists>t. app_volumes w' = app_volumes w @ [v\<lparr>v_created_at := t, v_updated_at := t\<rparr>] \<and> schema_ok w'"
  using assms
  by (auto simp: volume_insert_def bnd_attempt db_exec_def insert_volume_def checked_Inr_iff fail_def ret_def
      split: if_splits sum.splits prod.splits)

lemma volume_app_Inr:
  assumes "volume_app i w = (Inr a, w')"
  shows "app_row a \<in> set (apps w) \<and> app_volumes w' = app_volumes w"
proof -
  from assms have "app_Get i w = (Inr a, w')"
    by (auto simp: volume_app_def bnd_attempt fail_def ret_def split: sum.splits if_splits) (metis prod.collapse)
  then show ?thesis
    by (auto simp: app_Get_def app_get_def app_getByName_def Let_def app_query_Inr fail_def find_Some_iff dest!: scanApp_row split: if_splits)
qed

text \<open>
  A creation that succeeds appends exactly the volume it returns, well formed and bound to a stored app,
  with the trimmed mount path of the request; and it never gives one container two mounts at one path.
\<close>

theorem volume_Create_appends:
  assumes "volume_Create inp w = (Inr v, w')"
  shows "app_volumes w' = app_volumes w @ [v] \<and> volume_ok v \<and> v_app_id v \<in> app_ids w \<and>
    v_mount_path v = trim_space (vi_MountPath inp) \<and> (mounts_distinct w \<longrightarrow> mounts_distinct w')"
proof -
  from assms obtain a w1 vals w2 i w3 w4 where app: "volume_app (trim_space (vi_AppID inp)) w = (Inr a, w1)"
    and vals: "volume_values inp = Inr vals"
    and dup: "mount_taken (a_id (app_row a)) vals w1 = (Inr False, w2)"
    and ins: "volume_insert (new_volume inp i (a_id (app_row a)) vals) w3 = (Inr (), w4)" and w3: "app_volumes w3 = app_volumes w2"
    and get: "volume_get i w4 = (Inr v, w')"
    by (auto simp: volume_Create_def Let_def bnd_eq_Inr_iff lift_res_def fail_def new_uuid_def split: if_splits)
  note a = volume_app_Inr [OF app]
  obtain t where w4: "app_volumes w4 = app_volumes w3 @ [(new_volume inp i (a_id (app_row a)) vals)\<lparr>v_created_at := t, v_updated_at := t\<rparr>]"
      (is "_ = _ @ [?v]") and ok: "schema_ok w4"
    using volume_insert_Inr [OF ins] by blast
  obtain svc m h where p: "vals = (svc, m, h)" by (cases vals)
  note free = mount_taken_False [OF dup [unfolded p]]
  have "find (\<lambda>x. v_id x = i) (app_volumes w4) = Some ?v"
    using ok by (intro find_key) (auto simp: w4 schema_ok_def unique_ok_def deploy_unique_ok_def new_volume_def split: prod.split)
  with volume_get_Inr [OF get] have v: "v = ?v" and w': "w' = tick w4" by auto
  have "volume_ok (new_volume inp i (a_id (app_row a)) vals)" by (rule new_volume_ok [OF vals])
  then have "volume_ok v" by (simp add: v volume_ok_def)
  moreover have app_vols: "app_volumes w' = app_volumes w @ [v]" using w4 w3 free a v w' by simp
  moreover have "mounts_distinct w'" if "mounts_distinct w"
    using ok app_vols that
  proof (intro appended_mount [of w' w v])
    assume "v_service v = None"
    then show "\<not> list_ex (\<lambda>r. v_service r = None \<and> v_mount_path r = v_mount_path v) (filter (\<lambda>r. v_app_id r = v_app_id v) (app_volumes w))"
      using free a by (simp add: v new_volume_def p)
  qed (simp_all add: w')
  moreover have "v_app_id v \<in> app_ids w" using a by (auto simp: v new_volume_def app_ids_def split: prod.split)
  moreover have "v_mount_path v = trim_space (vi_MountPath inp)"
    using vals by (auto simp: v new_volume_def volume_values_def sum_bind_Inr validateMountPath_def Let_def)
  ultimately show ?thesis by blast
qed

definition fx_volume :: VolumeInput where
  "fx_volume = \<lparr>vi_AppID = ''web'', vi_Service = None, vi_MountPath = '' /data'', vi_HostPath = None, vi_IsNamed = True, vi_ReadOnly = False\<rparr>"

lemma fx_volume_run: "(case fst (volume_Create fx_volume fx_apps) of Inr v \<Rightarrow> v_app_id v = ''a1'' \<and> v_mount_path v = ''/data'' | Inl _ \<Rightarrow> False)"
  by code_simp

theorem volume_Create_appends_witness:
  "\<exists>v. fst (volume_Create fx_volume fx_apps) = Inr v \<and> app_volumes (snd (volume_Create fx_volume fx_apps)) = [v] \<and>
     v_mount_path v = ''/data'' \<and> mounts_distinct (snd (volume_Create fx_volume fx_apps))"
proof -
  obtain v where v: "fst (volume_Create fx_volume fx_apps) = Inr v" and "v_mount_path v = ''/data''"
    using fx_volume_run by (cases "fst (volume_Create fx_volume fx_apps)") auto
  moreover have "mounts_distinct fx_apps" "app_volumes fx_apps = []" by code_simp+
  ultimately show ?thesis using volume_Create_appends [OF fst_result [OF v]] by auto
qed

text \<open>An update has no such check: two volumes without a service can end at one path.\<close>

definition fx_mount :: "string \<Rightarrow> string \<Rightarrow> volume_row" where
  "fx_mount i path = \<lparr>v_id = i, v_app_id = ''a1'', v_service = None, v_mount_path = path, v_host_path = None, v_is_named = True,
     v_read_only = False, v_created_at = 0, v_updated_at = 0\<rparr>"

definition fx_mounts :: db where
  "fx_mounts = fx_apps\<lparr>app_volumes := [fx_mount ''v1'' ''/data'', fx_mount ''v2'' ''/logs'']\<rparr>"

lemma volume_Update_duplicates:
  "mounts_distinct fx_mounts \<and>
   \<not> mounts_distinct (snd (volume_Update ''v2'' \<lparr>vp_MountPath = Some ''/data'', vp_HostPath = None, vp_IsNamed = None, vp_ReadOnly = None\<rparr> fx_mounts))"
  by code_simp

theorem volumes_stay_ok_witness:
  "volumes_ok (fold volume_call_run
     [VCreate fx_volume, VUpdate ''v2'' \<lparr>vp_MountPath = Some ''/data'', vp_HostPath = None, vp_IsNamed = None, vp_ReadOnly = None\<rparr>] fx_mounts)"
proof (rule volumes_stay_ok)
  show "volumes_ok fx_mounts" by (simp add: volumes_ok_def fx_mounts_def fx_mount_def volume_ok_def path_ok_def split_on_def)
qed

end
