(* ===== verification/Tag.thy ===== *)
theory Tag
  imports App_Props
begin

text \<open>
  Tags of apps (\<open>internal/tag\<close>): the dictionary of names, created on demand under a normal form, and the links
  between apps and tags. A loop over a Go map visits the keys in an unspecified order: \<open>order n xs\<close> is the
  order in which the keys \<open>xs\<close> are visited at step \<open>n\<close>, a parameter of the operations.
\<close>

section \<open>Names and colours\<close>

definition tag_nameRegex :: "string \<Rightarrow> bool" where
  "tag_nameRegex s \<longleftrightarrow>
     (case s of [] \<Rightarrow> False
      | c # r \<Rightarrow> (is_lower c \<or> is_digit c) \<and> list_all (\<lambda>d. is_lower d \<or> is_digit d \<or> d = CHR ''-'') r)"

definition tag_colorRegex :: "string \<Rightarrow> bool" where
  "tag_colorRegex s \<longleftrightarrow> length s = 7 \<and> hd s = CHR 0x23 \<and> list_all is_hex (tl s)"

definition is_ws :: "char \<Rightarrow> bool" where
  "is_ws c \<longleftrightarrow> c \<in> {CHR 0x09, CHR 0x0A, CHR 0x0C, CHR 0x0D, CHR 0x20}"

text \<open>\<open>wsRegex.ReplaceAllString (s, "-")\<close>: every run of white space becomes one dash.\<close>

fun collapse_ws :: "string \<Rightarrow> string" where
  "collapse_ws [] = []"
| "collapse_ws (c # s) =
     (if is_ws c then (if s \<noteq> [] \<and> is_ws (hd s) then collapse_ws s else CHR ''-'' # collapse_ws s)
      else c # collapse_ws s)"

definition tag_char :: "char \<Rightarrow> bool" where
  "tag_char c \<longleftrightarrow> is_lower c \<or> is_digit c \<or> c = CHR ''-''"

definition tag_normalizeName :: "string \<Rightarrow> err + string" where
  "tag_normalizeName inp =
     (let s = filter tag_char (collapse_ws (to_lower (trim_space inp)))
      in if s = [] then Inl (ErrNew ''invalid_name: empty after normalisation'')
         else if length s > 40 then Inl (ErrNew ''invalid_name: max 40'')
         else if \<not> tag_nameRegex s then Inl (ErrNew ''invalid_name: must match'')
         else Inr s)"

definition normalizeColor :: "string option \<Rightarrow> err + string option" where
  "normalizeColor inp =
     (case inp of
        None \<Rightarrow> Inr None
      | Some raw \<Rightarrow>
          (let v = trim_space raw
           in if v = [] then Inr None
              else if \<not> tag_colorRegex v then Inl (ErrNew ''invalid_color'')
              else Inr (Some v)))"

section \<open>Rows\<close>

definition tag_ErrNotFound :: err where
  "tag_ErrNotFound = ErrNew ''tag: not found''"

definition tag_ErrNameInUse :: err where
  "tag_ErrNameInUse = ErrNew ''tag: name already in use''"

definition tag_insert :: "tag_row \<Rightarrow> ('x, unit) dbm" where
  "tag_insert t =
     bnd (attempt (db_exec (\<lambda>w. insert_tag (t\<lparr>tg_created_at := unixepoch w\<rparr>) w))) (\<lambda>r.
     case r of
       Inl e \<Rightarrow> (if e = ErrSql UniqueViolation then fail tag_ErrNameInUse else fail e)
     | Inr _ \<Rightarrow> ret ())"

definition tag_query :: "(tag_row \<Rightarrow> bool) \<Rightarrow> ('x, tag_row) dbm" where
  "tag_query p =
     bnd (attempt (db_query_row (\<lambda>w. find p (tags w)))) (\<lambda>r.
     case r of
       Inl e \<Rightarrow> (if errors_is e (ErrSql NoRows) then fail tag_ErrNotFound else fail e)
     | Inr t \<Rightarrow> ret t)"

definition tag_get :: "string \<Rightarrow> ('x, tag_row) dbm" where
  "tag_get i = tag_query (\<lambda>t. tg_id t = i)"

definition tag_getByName :: "string \<Rightarrow> ('x, tag_row) dbm" where
  "tag_getByName name = tag_query (\<lambda>t. tg_name t = name)"

definition tag_list :: "('x, tag_row list) dbm" where
  "tag_list = db_query (\<lambda>w. sort_key tg_name (tags w))"

definition tag_delete :: "string \<Rightarrow> ('x, unit) dbm" where
  "tag_delete i =
     bnd (db_exec (delete_tags (\<lambda>t. tg_id t = i))) (\<lambda>n.
     if n = 0 then fail tag_ErrNotFound else ret ())"

definition attach :: "string \<Rightarrow> string \<Rightarrow> ('x, unit) dbm" where
  "attach appID tagID = bnd (db_exec (insert_app_tag \<lparr>xt_app_id = appID, xt_tag_id = tagID\<rparr>)) (\<lambda>_. ret ())"

definition detach :: "string \<Rightarrow> string \<Rightarrow> ('x, unit) dbm" where
  "detach appID tagID =
     bnd (db_exec (delete_app_tags (\<lambda>x. xt_app_id x = appID \<and> xt_tag_id x = tagID))) (\<lambda>_. ret ())"

definition linked :: "app_tag list \<Rightarrow> string \<Rightarrow> string \<Rightarrow> bool" where
  "linked links appID tagID \<longleftrightarrow> list_ex (\<lambda>x. xt_app_id x = appID \<and> xt_tag_id x = tagID) links"

definition listForApp :: "string \<Rightarrow> ('x, tag_row list) dbm" where
  "listForApp appID =
     db_query (\<lambda>w. sort_key tg_name (filter (\<lambda>t. linked (app_tags w) appID (tg_id t)) (tags w)))"

definition listAppsForTag :: "string \<Rightarrow> ('x, string list) dbm" where
  "listAppsForTag tagID = db_query (\<lambda>w. map xt_app_id (filter (\<lambda>x. xt_tag_id x = tagID) (app_tags w)))"

section \<open>The service\<close>

definition tag_Create :: "string \<Rightarrow> string option \<Rightarrow> ('x, tag_row) dbm" where
  "tag_Create rawName color =
     bnd (lift_res (tag_normalizeName rawName)) (\<lambda>name.
     bnd (lift_res (normalizeColor color)) (\<lambda>colorPtr.
     bnd new_uuid (\<lambda>i.
     bnd (attempt (tag_insert \<lparr>tg_id = i, tg_name = name, tg_color = colorPtr, tg_created_at = 0\<rparr>)) (\<lambda>r.
     case r of
       Inl e \<Rightarrow> (if errors_is e tag_ErrNameInUse then tag_getByName name else fail e)
     | Inr _ \<Rightarrow> tag_get i))))"

definition tag_Get :: "string \<Rightarrow> ('x, tag_row) dbm" where
  "tag_Get i = tag_get (trim_space i)"

definition tag_List :: "('x, tag_row list) dbm" where
  "tag_List = tag_list"

definition tag_Delete :: "string \<Rightarrow> ('x, unit) dbm" where
  "tag_Delete i = tag_delete (trim_space i)"

definition Attach :: "string \<Rightarrow> string \<Rightarrow> ('x, unit) dbm" where
  "Attach = attach"

definition Detach :: "string \<Rightarrow> string \<Rightarrow> ('x, unit) dbm" where
  "Detach = detach"

definition ForApp :: "string \<Rightarrow> ('x, string list) dbm" where
  "ForApp appID = bnd (listForApp appID) (\<lambda>rows. ret (map tg_name rows))"

definition ForAppDetailed :: "string \<Rightarrow> ('x, tag_row list) dbm" where
  "ForAppDetailed = listForApp"

definition AppsForTag :: "string \<Rightarrow> ('x, string list) dbm" where
  "AppsForTag tagID = listAppsForTag (trim_space tagID)"

text \<open>The names asked for, normalised, the first occurrence of each in the order given.\<close>

fun normalize_all :: "string list \<Rightarrow> string list \<Rightarrow> err + string list" where
  "normalize_all [] seen = Inr []"
| "normalize_all (raw # names) seen =
     sum_bind (tag_normalizeName raw) (\<lambda>n.
     if n \<in> set seen then normalize_all names seen
     else sum_bind (normalize_all names (n # seen)) (\<lambda>ns. Inr (n # ns)))"

definition detach_dropped :: "string \<Rightarrow> string list \<Rightarrow> string list \<Rightarrow> ('x, unit) dbm" where
  "detach_dropped appID desired =
     for_each (\<lambda>i. if i \<in> set desired then ret () else wrapping ''detach'' (detach appID i))"

definition SetAppTags :: "(nat \<Rightarrow> string list \<Rightarrow> string list) \<Rightarrow> string \<Rightarrow> string list \<Rightarrow> ('x, tag_row list) dbm" where
  "SetAppTags order appID names =
     bnd (lift_res (normalize_all names [])) (\<lambda>normalized.
     bnd (map_each (\<lambda>n. wrapping ''ensure tag'' (tag_Create n None)) normalized) (\<lambda>ts.
     let desired = remdups (map tg_id ts)
     in bnd (listForApp appID) (\<lambda>current.
        bnd (range_keys order (map tg_id current)) (\<lambda>ids.
        bnd (detach_dropped appID desired ids) (\<lambda>_.
        bnd (range_keys order desired) (\<lambda>new.
        bnd (for_each (\<lambda>i. wrapping ''attach'' (attach appID i)) new) (\<lambda>_.
        listForApp appID)))))))"

section \<open>Normal forms\<close>

definition tag_name_ok :: "string \<Rightarrow> bool" where
  "tag_name_ok s \<longleftrightarrow> tag_nameRegex s \<and> length s \<le> 40"

lemma tag_nameRegex_chars: "tag_nameRegex s \<Longrightarrow> list_all tag_char s \<and> s \<noteq> []"
  by (auto simp: tag_nameRegex_def tag_char_def list_all_iff split: list.splits)

lemma tag_char_plain:
  assumes "tag_char c"
  shows "ascii_lower c = c \<and> \<not> is_ws c \<and> (of_char c :: nat) \<in> {45} \<union> {48..57} \<union> {97..122}"
  using assms by (auto simp: tag_char_def ascii_lower_def is_lower_def is_digit_def is_upper_def is_ws_def less_eq_char_def)

lemma tag_chars_lower: "list_all tag_char s \<Longrightarrow> to_lower s = s"
proof (induction s)
  case (Cons c s)
  then have "tag_char c" by simp
  note c = tag_char_plain [OF this]
  then have "c \<noteq> CHR 0xE2" "c \<noteq> CHR 0xC4" by auto
  with Cons c show ?case by simp
qed simp

lemma tag_chars_collapse: "list_all tag_char s \<Longrightarrow> collapse_ws s = s"
  by (induction s) (auto dest: tag_char_plain)

lemma space_ends: "p \<in> set space_encodings \<Longrightarrow> p \<noteq> [] \<and> \<not> tag_char (hd p) \<and> \<not> tag_char (last p)"
proof -
  have "list_all (\<lambda>p. p \<noteq> [] \<and> \<not> tag_char (hd p) \<and> \<not> tag_char (last p)) space_encodings" by code_simp
  then show "p \<in> set space_encodings \<Longrightarrow> ?thesis" by (simp add: list_all_iff)
qed

lemma tag_chars_trim:
  assumes "list_all tag_char s"
  shows "trim_space s = s"
proof (rule trim_space_stop)
  fix p assume "p \<in> set space_encodings"
  note p = space_ends [OF this]
  have "hd p \<in> set s" if "prefix p s" using that p set_mono_prefix hd_in_set by blast
  with assms p show "\<not> prefix p s" by (auto simp: list_all_iff)
  have "last p \<in> set s" if "suffix p s" using that p set_mono_suffix last_in_set by blast
  with assms p show "\<not> suffix p s" by (auto simp: list_all_iff)
qed

lemma tag_normalizeName_ok: "tag_normalizeName raw = Inr s \<Longrightarrow> tag_name_ok s"
  by (auto simp: tag_normalizeName_def Let_def tag_name_ok_def split: if_splits)

lemma tag_name_normal: "tag_name_ok s \<Longrightarrow> tag_normalizeName s = Inr s"
proof -
  assume s: "tag_name_ok s"
  then have c: "list_all tag_char s" "s \<noteq> []" using tag_nameRegex_chars by (auto simp: tag_name_ok_def)
  then have "filter tag_char s = s" by (auto simp: filter_id_conv list_all_iff)
  with s c show ?thesis
    by (simp add: tag_normalizeName_def tag_name_ok_def tag_chars_trim tag_chars_lower tag_chars_collapse)
qed

text \<open>
  Normalisation yields a legal name of at most 40 characters, and a name it yields is its own normal
  form: the names a replacement of tags looks up are the names it created.
\<close>

theorem tag_normalizeName_normal:
  assumes "tag_normalizeName raw = Inr s"
  shows "tag_name_ok s \<and> tag_normalizeName s = Inr s"
  using tag_normalizeName_ok [OF assms] tag_name_normal by blast

theorem tag_normalizeName_normal_witness:
  "tag_normalizeName ''  QA Stage! '' = Inr ''qa-stage'' \<and> tag_name_ok ''qa-stage'' \<and> tag_normalizeName ''qa-stage'' = Inr ''qa-stage''"
proof -
  have "tag_normalizeName ''  QA Stage! '' = Inr ''qa-stage''" by code_simp
  with tag_normalizeName_normal [OF this] show ?thesis by simp
qed

lemma normalize_all_normal:
  "normalize_all names seen = Inr ns \<Longrightarrow> list_all tag_name_ok ns \<and> distinct ns \<and> set ns \<inter> set seen = {}"
proof (induction names seen arbitrary: ns rule: normalize_all.induct)
  case (2 raw names seen)
  from "2.prems" obtain n where n: "tag_normalizeName raw = Inr n"
    and rest: "(if n \<in> set seen then normalize_all names seen
      else sum_bind (normalize_all names (n # seen)) (\<lambda>ns. Inr (n # ns))) = Inr ns"
    by (auto simp: sum_bind_Inr simp del: if_split)
  show ?case
  proof (cases "n \<in> set seen")
    case True
    then show ?thesis using rest "2.IH"(1) by simp
  next
    case False
    then obtain ms where "normalize_all names (n # seen) = Inr ms" "ns = n # ms" using rest by (auto simp: sum_bind_Inr)
    with "2.IH"(2) [OF False, of ms] False tag_normalizeName_ok [OF n] show ?thesis by simp
  qed
qed simp

section \<open>Creation on demand\<close>

lemma tag_ids: "schema_ok w \<Longrightarrow> distinct (map tg_id (tags w)) \<and> distinct (map tg_name (tags w))"
  by (simp add: schema_ok_def unique_ok_def deploy_unique_ok_def)

lemma tag_query_Inr:
  "tag_query p w = (Inr t, w') \<longleftrightarrow> \<not> o_fault (orc w) (stp w) \<and> w' = tick w \<and> find p (tags w) = Some t"
  by (auto simp: tag_query_def bnd_attempt db_query_row_cases fail_def ret_def split: option.splits if_splits)

text \<open>What a sequence of creations does: the dictionary grows at its end, the links stay.\<close>

definition grows :: "'x db_scheme \<Rightarrow> 'x db_scheme \<Rightarrow> bool" where
  "grows w w' \<longleftrightarrow> prefix (tags w) (tags w') \<and> app_tags w' = app_tags w \<and> (schema_ok w \<longrightarrow> schema_ok w')"

interpretation gr: frame grows
  by unfold_locales (auto simp: grows_def)

lemma tag_insert_grows: "moves grows (tag_insert t)"
  unfolding tag_insert_def
  by (intro gr.frame_rules moves_intro gr.frame_exec) (auto simp: grows_def insert_tag_def checked_Inr_iff)

lemma tag_reads: "moves only_step (tag_query p)" "moves only_step (tag_get i)" "moves only_step (tag_getByName n)"
  "moves only_step (listForApp a)" "moves only_step tag_List" "moves only_step (ForApp a)" "moves only_step (AppsForTag i)"
  unfolding tag_get_def tag_getByName_def tag_query_def listForApp_def tag_List_def tag_list_def ForApp_def AppsForTag_def listAppsForTag_def
  by (intro rd.frame_rules moves_intro)+

lemma tag_Create_grows: "moves grows (tag_Create n c)"
  unfolding tag_Create_def
  by (intro gr.frame_rules moves_intro tag_insert_grows gr.frame_read [OF tag_reads(2)] gr.frame_read [OF tag_reads(3)])

lemma tag_Create_Inr:
  assumes "tag_Create raw c w = (Inr t, w')" and "schema_ok w"
  shows "tag_normalizeName raw = Inr (tg_name t) \<and> t \<in> set (tags w')"
proof -
  obtain name col i w1 r w2 where name: "tag_normalizeName raw = Inr name"
    and ins: "tag_insert \<lparr>tg_id = i, tg_name = name, tg_color = col, tg_created_at = 0\<rparr> w1 = (r, w2)" (is "tag_insert ?t _ = _")
    and fin: "(case r of Inl e \<Rightarrow> if errors_is e tag_ErrNameInUse then tag_getByName name else fail e | Inr _ \<Rightarrow> tag_get i) w2 = (Inr t, w')"
    using assms(1) unfolding tag_Create_def bnd_eq_Inr_iff lift_res_def attempt_run
    by (metis (no_types, lifting) prod.collapse prod.inject sum.inject(2))
  show ?thesis
  proof (cases r)
    case (Inl e)
    with fin have "find (\<lambda>t. tg_name t = name) (tags w2) = Some t" "w' = tick w2"
      by (auto simp: tag_getByName_def tag_query_Inr fail_def split: if_splits)
    with name show ?thesis by (auto simp: find_Some_iff)
  next
    case (Inr u)
    with ins obtain k where tags: "tags w2 = tags w1 @ [?t\<lparr>tg_created_at := k\<rparr>]" and ok: "schema_ok w2"
      by (auto simp: tag_insert_def bnd_attempt db_exec_def insert_tag_def checked_Inr_iff fail_def ret_def split: if_splits sum.splits prod.splits)
    have "find (\<lambda>t. tg_id t = i) (tags w2) = Some (?t\<lparr>tg_created_at := k\<rparr>)"
      using tag_ids [OF ok] by (intro find_key) (auto simp: tags)
    with fin Inr have "t = ?t\<lparr>tg_created_at := k\<rparr>" "w' = tick w2" by (auto simp: tag_get_def tag_query_Inr)
    with name tags show ?thesis by simp
  qed
qed

lemma tags_created:
  assumes "map_each (\<lambda>n. wrapping msg (tag_Create n None)) ns w = (Inr ts, w')" and "schema_ok w" and "list_all tag_name_ok ns"
  shows "map tg_name ts = ns \<and> set ts \<subseteq> set (tags w') \<and> grows w w'"
  using assms
proof (induction ns arbitrary: w ts)
  case (Cons n ns)
  from Cons.prems(1) obtain t ts' v where t: "tag_Create n None w = (Inr t, v)"
    and ts: "map_each (\<lambda>n. wrapping msg (tag_Create n None)) ns v = (Inr ts', w')" "ts = t # ts'"
    by (auto simp: bnd_eq_Inr_iff wrapping_eq_Inr_iff ret_def)
  have g: "grows w v" by (rule movesD [OF tag_Create_grows t])
  then have "schema_ok v" using Cons.prems(2) by (simp add: grows_def)
  note IH = Cons.IH [OF ts(1) this]
  have "t \<in> set (tags w')" using tag_Create_Inr [OF t Cons.prems(2)] IH Cons.prems(3) set_mono_prefix by (fastforce simp: grows_def)
  moreover have "tg_name t = n" using tag_Create_Inr [OF t Cons.prems(2)] Cons.prems(3) tag_name_normal [of n] by simp
  ultimately show ?case using IH Cons.prems(3) ts(2) gr.R_trans [OF g] by auto
qed (simp add: ret_def gr.R_refl)

section \<open>Replacing the tags of an app\<close>

lemma detach_Inr:
  "detach a i w = (Inr u, w') \<Longrightarrow> tags w' = tags w \<and> schema_ok w' \<and>
     app_tags w' = filter (\<lambda>x. \<not> (xt_app_id x = a \<and> xt_tag_id x = i)) (app_tags w)"
  by (auto simp: detach_def bnd_eq_Inr_iff db_exec_eq_Inr_iff ret_def delete_app_tags_def checked_Inr_iff)

lemma attach_Inr:
  "attach a i w = (Inr u, w') \<Longrightarrow> tags w' = tags w \<and> (schema_ok w \<longrightarrow> schema_ok w') \<and>
     set (app_tags w') = insert \<lparr>xt_app_id = a, xt_tag_id = i\<rparr> (set (app_tags w)) \<and>
     filter (\<lambda>x. xt_app_id x \<noteq> a) (app_tags w') = filter (\<lambda>x. xt_app_id x \<noteq> a) (app_tags w)"
  by (auto simp: attach_def bnd_eq_Inr_iff db_exec_eq_Inr_iff ret_def insert_app_tag_def checked_Inr_iff split: if_splits)

lemma detach_dropped_Inr:
  assumes "detach_dropped a keep ids w = (Inr u, w')" and "schema_ok w"
  shows "tags w' = tags w \<and> schema_ok w' \<and>
    app_tags w' = filter (\<lambda>x. \<not> (xt_app_id x = a \<and> xt_tag_id x \<in> set ids - set keep)) (app_tags w)"
  using assms
proof (induction ids arbitrary: w)
  case (Cons i ids)
  show ?case
  proof (cases "i \<in> set keep")
    case True
    with Cons.prems have "detach_dropped a keep ids w = (Inr u, w')" by (simp add: detach_dropped_def bnd_def ret_def)
    from Cons.IH [OF this Cons.prems(2)] True show ?thesis by (simp add: insert_Diff_if)
  next
    case False
    with Cons.prems obtain v where d: "detach a i w = (Inr (), v)" and r: "detach_dropped a keep ids v = (Inr u, w')"
      by (auto simp: detach_dropped_def bnd_eq_Inr_iff wrapping_eq_Inr_iff)
    note d = detach_Inr [OF d]
    from Cons.IH [OF r] d False show ?thesis by (auto intro!: filter_cong)
  qed
qed (simp add: detach_dropped_def ret_def)

lemma attach_all_Inr:
  assumes "for_each (\<lambda>i. wrapping msg (attach a i)) ids w = (Inr u, w')" and "schema_ok w"
  shows "tags w' = tags w \<and> schema_ok w' \<and>
    set (app_tags w') = set (app_tags w) \<union> (\<lambda>i. \<lparr>xt_app_id = a, xt_tag_id = i\<rparr>) ` set ids \<and>
    filter (\<lambda>x. xt_app_id x \<noteq> a) (app_tags w') = filter (\<lambda>x. xt_app_id x \<noteq> a) (app_tags w)"
  using assms
proof (induction ids arbitrary: w)
  case (Cons i ids)
  from Cons.prems obtain v where a: "attach a i w = (Inr (), v)" and r: "for_each (\<lambda>i. wrapping msg (attach a i)) ids v = (Inr u, w')"
    by (auto simp: bnd_eq_Inr_iff wrapping_eq_Inr_iff)
  note a = attach_Inr [OF a]
  from Cons.IH [OF r] a Cons.prems(2) show ?case by auto
qed (simp add: ret_def)

lemma linked_iff: "linked xs a i \<longleftrightarrow> \<lparr>xt_app_id = a, xt_tag_id = i\<rparr> \<in> set xs"
proof -
  have "x = \<lparr>xt_app_id = xt_app_id x, xt_tag_id = xt_tag_id x\<rparr>" for x :: app_tag by simp
  then have "xt_app_id x = a \<and> xt_tag_id x = i \<longleftrightarrow> x = \<lparr>xt_app_id = a, xt_tag_id = i\<rparr>" for x by auto
  then show ?thesis unfolding linked_def list_ex_iff by simp
qed

lemma linked_known: "schema_ok w \<Longrightarrow> linked (app_tags w) a i \<Longrightarrow> i \<in> tg_id ` set (filter (\<lambda>t. linked (app_tags w) a (tg_id t)) (tags w))"
  by (fastforce simp: linked_iff schema_ok_def fk_ok_def deploy_fk_ok_def)

text \<open>The tags linked to an app, as a list of the dictionary, are the ones whose identifiers are linked.\<close>

lemma linked_names:
  assumes "schema_ok w" and "set ts \<subseteq> set (tags w)" and "distinct (map tg_name ts)"
    and "\<And>i. linked (app_tags w) a i \<longleftrightarrow> i \<in> tg_id ` set ts"
  shows "map tg_name (sort_key tg_name (filter (\<lambda>t. linked (app_tags w) a (tg_id t)) (tags w))) = sort (map tg_name ts)"
proof -
  have d: "distinct (map tg_id (tags w))" "distinct (map tg_name (tags w))" using tag_ids [OF assms(1)] by auto
  then have "inj_on tg_id (set (tags w))" by (simp add: distinct_map)
  then have mem: "t \<in> set (tags w) \<Longrightarrow> tg_id t \<in> tg_id ` set ts \<longleftrightarrow> t \<in> set ts" for t
    using assms(2) by (intro inj_on_image_mem_iff [of tg_id "set (tags w)"])
  let ?ls = "filter (\<lambda>t. linked (app_tags w) a (tg_id t)) (tags w)"
  have "set ?ls = set ts" using mem assms(2,4) by (simp add: set_eq_iff subset_iff) blast
  moreover have "distinct (map tg_name (sort_key tg_name ?ls))"
    using d(2) by (auto simp: distinct_map intro: inj_on_subset)
  moreover have "sorted (map tg_name (sort_key tg_name ?ls))" by simp
  ultimately show ?thesis
    using assms(3) by (intro sorted_distinct_set_unique) auto
qed

lemma SetAppTags_result:
  assumes "SetAppTags order a names w = (Inr ts, w')" and "schema_ok w" and "\<And>n xs. set (order n xs) = set xs"
  shows "\<exists>ns. normalize_all names [] = Inr ns \<and> map tg_name ts = sort ns \<and> prefix (tags w) (tags w') \<and>
    filter (\<lambda>x. xt_app_id x \<noteq> a) (app_tags w') = filter (\<lambda>x. xt_app_id x \<noteq> a) (app_tags w)"
proof -
  from assms(1) obtain ns new w1 cur w2 w3 w4 where ns: "normalize_all names [] = Inr ns"
    and cr: "map_each (\<lambda>n. wrapping ''ensure tag'' (tag_Create n None)) ns w = (Inr new, w1)"
    and cur: "cur = sort_key tg_name (filter (\<lambda>t. linked (app_tags w1) a (tg_id t)) (tags w1))" and w2: "w2 = tick w1"
    and det: "detach_dropped a (remdups (map tg_id new)) (order (stp w2) (map tg_id cur)) w2 = (Inr (), w3)"
    and att: "for_each (\<lambda>i. wrapping ''attach'' (attach a i)) (order (stp w3) (remdups (map tg_id new))) w3 = (Inr (), w4)"
    and fin: "ts = sort_key tg_name (filter (\<lambda>t. linked (app_tags w4) a (tg_id t)) (tags w4))" and w': "w' = tick w4"
    by (auto simp: SetAppTags_def Let_def bnd_eq_Inr_iff lift_res_def range_keys_def access_def listForApp_def db_query_def split: if_splits)
  note n = normalize_all_normal [OF ns]
  have c: "map tg_name new = ns" "set new \<subseteq> set (tags w1)" "grows w w1" using tags_created [OF cr assms(2)] n by auto
  then have ok: "schema_ok w2" using assms(2) by (simp add: grows_def w2)
  note d = detach_dropped_Inr [OF det ok]
  note at = attach_all_Inr [OF att] 
  have "linked (app_tags w1) a i \<Longrightarrow> i \<in> tg_id ` set cur" for i
    using linked_known [of w1 a i] ok unfolding cur by (simp add: w2)
  then have "linked (app_tags w3) a i \<Longrightarrow> i \<in> tg_id ` set new" for i
    using d assms(3) by (auto simp: linked_iff w2)
  then have "linked (app_tags w4) a i \<longleftrightarrow> i \<in> tg_id ` set new" for i
    using at d assms(3) by (auto simp: linked_iff)
  then have "map tg_name ts = sort (map tg_name new)"
    unfolding fin using at d c n by (intro linked_names) (auto simp: w2)
  moreover have "filter (\<lambda>x. xt_app_id x \<noteq> a) (app_tags w3) = filter (\<lambda>x. xt_app_id x \<noteq> a) (app_tags w1)"
    using d by (auto simp: w2 filter_filter intro!: filter_cong)
  ultimately show ?thesis using ns c(1,3) at d by (simp add: grows_def w2 w')
qed

section \<open>The replacement goes through\<close>

text \<open>Identifiers from the generator do not repeat and are not in use.\<close>

definition fresh_tags :: "'x db_scheme \<Rightarrow> bool" where
  "fresh_tags w \<longleftrightarrow> inj_on (o_uuid (orc w)) {stp w..} \<and> (\<forall>n \<ge> stp w. o_uuid (orc w) n \<notin> tg_id ` set (tags w))"

definition ready :: "string \<Rightarrow> 'x db_scheme \<Rightarrow> bool" where
  "ready a w \<longleftrightarrow> quiet w \<and> schema_ok w \<and> fresh_tags w \<and> a \<in> app_ids w"

lemma fresh_tags_tick: "fresh_tags w \<Longrightarrow> fresh_tags (tick w)"
  by (auto simp: fresh_tags_def tick_def inj_on_def)

lemma ready_tick: "ready a w \<Longrightarrow> ready a (tick w)"
  by (simp add: ready_def fresh_tags_tick quiet_def app_ids_def)

lemma tag_added_ok:
  "schema_ok w \<Longrightarrow> tg_id t \<notin> tg_id ` set (tags w) \<Longrightarrow> tg_name t \<notin> tg_name ` set (tags w) \<Longrightarrow> schema_ok (w\<lparr>tags := tags w @ [t]\<rparr>)"
  by (simp add: schema_ok_def unique_ok_def deploy_unique_ok_def check_ok_def deploy_check_ok_def fk_ok_def deploy_fk_ok_def
      user_ids_def role_ids_def team_ids_def app_ids_def cong: option.case_cong)

lemma links_cut_ok: "schema_ok w \<Longrightarrow> schema_ok (w\<lparr>app_tags := filter p (app_tags w)\<rparr>)"
  by (simp add: schema_ok_def unique_ok_def deploy_unique_ok_def check_ok_def deploy_check_ok_def fk_ok_def deploy_fk_ok_def
      user_ids_def role_ids_def team_ids_def app_ids_def distinct_map_filter cong: option.case_cong)

lemma link_added_ok:
  assumes "schema_ok w" and "a \<in> app_ids w" and "i \<in> tg_id ` set (tags w)" and "\<lparr>xt_app_id = a, xt_tag_id = i\<rparr> \<notin> set (app_tags w)"
  shows "schema_ok (w\<lparr>app_tags := app_tags w @ [\<lparr>xt_app_id = a, xt_tag_id = i\<rparr>]\<rparr>)"
proof -
  have "(a, i) \<notin> (\<lambda>x. (xt_app_id x, xt_tag_id x)) ` set (app_tags w)"
    using assms(4) unfolding linked_iff [symmetric] linked_def list_ex_iff by auto
  with assms(1-3) show ?thesis
    by (simp add: schema_ok_def unique_ok_def deploy_unique_ok_def check_ok_def deploy_check_ok_def fk_ok_def deploy_fk_ok_def
        user_ids_def role_ids_def team_ids_def app_ids_def cong: option.case_cong)
qed

text \<open>Under these conditions no statement of the replacement can fail.\<close>

lemma tag_Create_total:
  assumes "ready a w" and "tag_normalizeName raw = Inr name"
  shows "\<exists>t w'. tag_Create raw None w = (Inr t, w') \<and> ready a w'"
proof -
  define i where "i = o_uuid (orc w) (stp w)"
  define t where "t = \<lparr>tg_id = i, tg_name = name, tg_color = None, tg_created_at = unixepoch (tick w)\<rparr>"
  define w1 where "w1 = (tick w)\<lparr>tags := tags w @ [t]\<rparr>"
  have q: "quiet (tick w)" "schema_ok (tick w)" and fr: "i \<notin> tg_id ` set (tags w)" "fresh_tags (tick w)"
    using assms(1) fresh_tags_tick by (auto simp: ready_def quiet_def fresh_tags_def i_def)
  have run: "tag_Create raw None w = (case checked 1 w1 of
      Inl e \<Rightarrow> (if e = UniqueViolation then tag_getByName name (tick (tick w)) else (Inl (ErrSql e), tick (tick w)))
    | Inr (n, v) \<Rightarrow> tag_get i (tick v))"
    using q by (auto simp: tag_Create_def assms(2) normalizeColor_def lift_res_def bnd_def new_uuid_def attempt_def tag_insert_def
        db_exec_def insert_tag_def quiet_def w1_def t_def i_def fail_def ret_def tag_ErrNameInUse_def split: sum.split prod.split)
  show ?thesis
  proof (cases "name \<in> tg_name ` set (tags w)")
    case True
    then have "\<not> unique_ok w1" by (simp add: unique_ok_def deploy_unique_ok_def w1_def t_def)
    then have "tag_Create raw None w = tag_getByName name (tick (tick w))" by (simp add: run checked_def)
    moreover obtain u where "find (\<lambda>t. tg_name t = name) (tags w) = Some u"
      using True by (metis (mono_tags, lifting) find_None_iff image_iff option.exhaust)
    then have "tag_getByName name (tick (tick w)) = (Inr u, tick (tick (tick w)))"
      using q by (simp add: tag_getByName_def tag_query_Inr quiet_def)
    ultimately show ?thesis using ready_tick assms(1) by metis
  next
    case False
    have "schema_ok w1" using tag_added_ok [OF q(2), of t] fr False by (simp add: w1_def t_def)
    then have "tag_Create raw None w = tag_get i (tick w1)" by (simp add: run checked_ok)
    moreover have "find (\<lambda>t. tg_id t = i) (tags w1) = Some t"
      using tag_ids [OF \<open>schema_ok w1\<close>] by (intro find_key) (auto simp: w1_def t_def)
    then have "tag_get i (tick w1) = (Inr t, tick (tick w1))"
      using q by (simp add: tag_get_def tag_query_Inr quiet_def w1_def)
    moreover have "i \<noteq> o_uuid (orc w) n" if "stp w < n" for n
      using assms(1) that inj_onD [of "o_uuid (orc w)" "{stp w..}" "stp w" n] by (auto simp: ready_def fresh_tags_def i_def)
    then have "fresh_tags w1" using fr(2) by (auto simp: fresh_tags_def w1_def t_def tick_def Suc_le_eq)
    then have "ready a w1" using assms(1) \<open>schema_ok w1\<close> by (simp add: ready_def w1_def quiet_def app_ids_def)
    ultimately show ?thesis using ready_tick by metis
  qed
qed

lemma tags_created_total:
  "ready a w \<Longrightarrow> list_all tag_name_ok ns \<Longrightarrow>
     \<exists>ts w'. map_each (\<lambda>n. wrapping msg (tag_Create n None)) ns w = (Inr ts, w') \<and> ready a w'"
proof (induction ns arbitrary: w)
  case (Cons n ns)
  then obtain t v where "tag_Create n None w = (Inr t, v)" "ready a v"
    using tag_Create_total [OF Cons.prems(1) tag_name_normal [of n]] by auto
  moreover from Cons.IH [OF this(2)] Cons.prems(2) obtain ts w' where
    "map_each (\<lambda>n. wrapping msg (tag_Create n None)) ns v = (Inr ts, w')" "ready a w'" by auto
  ultimately show ?case by (force simp: bnd_eq_Inr_iff wrapping_eq_Inr_iff ret_def)
qed (simp add: ret_def)

lemma detach_total: "ready a w \<Longrightarrow> \<exists>w'. detach a i w = (Inr (), w') \<and> ready a w' \<and> tags w' = tags w"
  by (auto simp: detach_def bnd_def db_exec_def ready_def quiet_def delete_app_tags_def checked_ok links_cut_ok ret_def app_ids_def
      fresh_tags_def tick_def inj_on_def)

lemma attach_total:
  "ready a w \<Longrightarrow> i \<in> tg_id ` set (tags w) \<Longrightarrow> \<exists>w'. attach a i w = (Inr (), w') \<and> ready a w' \<and> tags w' = tags w"
  by (auto simp: attach_def bnd_def db_exec_def ready_def quiet_def insert_app_tag_def checked_ok link_added_ok ret_def app_ids_def
      fresh_tags_def tick_def inj_on_def)

lemma detach_dropped_total: "ready a w \<Longrightarrow> \<exists>w'. detach_dropped a keep ids w = (Inr (), w') \<and> ready a w' \<and> tags w' = tags w"
proof (induction ids arbitrary: w)
  case (Cons i ids)
  have "\<exists>v. (if i \<in> set keep then ret () else wrapping ''detach'' (detach a i)) w = (Inr (), v) \<and> ready a v \<and> tags v = tags w"
    using detach_total [OF Cons.prems, of i] Cons.prems by (auto simp: ret_def wrapping_def)
  then obtain v where v: "(if i \<in> set keep then ret () else wrapping ''detach'' (detach a i)) w = (Inr (), v)" "ready a v" "tags v = tags w"
    by blast
  with Cons.IH [OF v(2)] show ?case by (auto simp: detach_dropped_def bnd_def)
qed (simp add: detach_dropped_def ret_def)

lemma attach_all_total:
  "ready a w \<Longrightarrow> set ids \<subseteq> tg_id ` set (tags w) \<Longrightarrow> \<exists>w'. for_each (\<lambda>i. wrapping msg (attach a i)) ids w = (Inr (), w') \<and> ready a w'"
proof (induction ids arbitrary: w)
  case (Cons i ids)
  obtain v where v: "attach a i w = (Inr (), v)" "ready a v" "tags v = tags w" using attach_total [OF Cons.prems(1), of i] Cons.prems(2) by auto
  with Cons.IH [OF v(2)] Cons.prems show ?case by (auto simp: bnd_def wrapping_def)
qed (simp add: ret_def)

lemma SetAppTags_total:
  assumes "ready a w" and "normalize_all names [] = Inr ns" and "\<And>n xs. set (order n xs) = set xs"
  shows "\<exists>ts w'. SetAppTags order a names w = (Inr ts, w')"
proof -
  have ok: "list_all tag_name_ok ns" and s: "schema_ok w" using normalize_all_normal [OF assms(2)] assms(1) by (auto simp: ready_def)
  obtain new w1 where c: "map_each (\<lambda>n. wrapping ''ensure tag'' (tag_Create n None)) ns w = (Inr new, w1)" and r1: "ready a w1"
    using tags_created_total [OF assms(1) ok] by blast
  note new = tags_created [OF c s ok]
  let ?cur = "map tg_id (sort_key tg_name (filter (\<lambda>t. linked (app_tags w1) a (tg_id t)) (tags w1)))"
  obtain w3 where d: "detach_dropped a (remdups (map tg_id new)) (order (stp (tick w1)) ?cur) (tick w1) = (Inr (), w3)"
    and r3: "ready a w3" and t3: "tags w3 = tags w1"
    using detach_dropped_total [OF ready_tick [OF r1]] by fastforce
  have "set (order (stp w3) (remdups (map tg_id new))) \<subseteq> tg_id ` set (tags w3)" using new t3 assms(3) by auto
  then obtain w4 where at: "for_each (\<lambda>i. wrapping ''attach'' (attach a i)) (order (stp w3) (remdups (map tg_id new))) w3 = (Inr (), w4)"
    and r4: "ready a w4" using attach_all_total [OF r3] by blast
  have "\<not> o_fault (orc w1) (stp w1)" "\<not> o_fault (orc w4) (stp w4)" using r1 r4 by (auto simp: ready_def quiet_def)
  with c d at show ?thesis
    by (simp add: SetAppTags_def assms(2) lift_res_def bnd_def Let_def listForApp_def db_query_def range_keys_def access_def)
qed

text \<open>
  C20. Replacing the tags of an app succeeds when the names are legal, the app exists, the driver does not fail
  and new identifiers are unused; then the app carries exactly the normalised names asked for, in order, the
  tags of every other app are as before, and no tag of the dictionary was lost, in whatever order the maps of
  the code are walked.
\<close>

theorem SetAppTags_exact:
  assumes "quiet w" and "schema_ok w" and "fresh_tags w" and "a \<in> app_ids w" and "normalize_all names [] = Inr ns"
    and "\<And>n xs. set (order n xs) = set xs"
  shows "\<exists>ts w'. SetAppTags order a names w = (Inr ts, w') \<and> map tg_name ts = sort ns \<and> prefix (tags w) (tags w') \<and>
    filter (\<lambda>x. xt_app_id x \<noteq> a) (app_tags w') = filter (\<lambda>x. xt_app_id x \<noteq> a) (app_tags w)"
proof -
  obtain ts w' where "SetAppTags order a names w = (Inr ts, w')"
    using SetAppTags_total [of a w names ns order] assms by (auto simp: ready_def)
  with SetAppTags_result [OF this assms(2,6)] assms(5) show ?thesis by auto
qed

theorem SetAppTags_exact_witness:
  "\<exists>ts w'. SetAppTags (\<lambda>_ xs. rev xs) ''a1'' [''Prod'', ''QA stage'', ''prod''] fx_apps = (Inr ts, w') \<and>
     map tg_name ts = [''prod'', ''qa-stage'']"
proof -
  have "nat_digits n = nat_digits m \<Longrightarrow> n = m" for n m :: nat by (rule nat_digits_inj)
  then have "fresh_tags fx_apps" by (auto simp: fresh_tags_def fx_apps_def fx_db_def quiet_env_def inj_on_def)
  moreover have "quiet fx_apps" by (simp add: quiet_def fx_apps_def)
  moreover have "''a1'' \<in> app_ids fx_apps" "normalize_all [''Prod'', ''QA stage'', ''prod''] [] = Inr [''prod'', ''qa-stage'']"
    "sort [''prod'', ''qa-stage''] = [''prod'', ''qa-stage'']" by code_simp+
  ultimately show ?thesis
    using SetAppTags_exact [of fx_apps "''a1''" "[''Prod'', ''QA stage'', ''prod'']" "[''prod'', ''qa-stage'']" "\<lambda>_ xs. rev xs"] fx_apps_schema by auto
qed

end
