(* ===== verification/Server_Service.thy ===== *)
theory Server_Service
  imports Services Caddy
begin

text \<open>
  The machines apps run on (\<open>internal/server\<close>): registration with a sealed private key, the connection test with
  its report, the status pass, and the SSH primitives they use (\<open>internal/ssh\<close>), with the version check of the
  container engine (\<open>internal/dockersvc/helpers.go\<close>). What is reached over the network (the resolver, the SSH
  library, the engines) is the parameter \<open>machines\<close>, which may answer differently at every step; a handshake
  first presents the fingerprint of the host key, then authenticates.
\<close>

section \<open>Versions\<close>

definition minSupportedDockerVersion :: string where
  "minSupportedDockerVersion = ''20.10''"

definition ErrUnsupportedDockerVersion :: err where
  "ErrUnsupportedDockerVersion = ErrNew ''docker: engine version is below the supported minimum (20.10)''"

text \<open>A part that does not start with a digit, or that \<open>strconv.Atoi\<close> refuses, ends the loop.\<close>

fun parse_parts :: "string list \<Rightarrow> int list" where
  "parse_parts [] = []"
| "parse_parts (p # ps) =
     (let ds = takeWhile is_digit p
      in if ds = [] then []
         else case Atoi ds of
             None \<Rightarrow> []
           | Some n \<Rightarrow> (if length ds < length p then [n] else n # parse_parts ps))"

definition parseDottedVersion :: "string \<Rightarrow> int list" where
  "parseDottedVersion s = parse_parts (split_on (CHR ''.'') s)"

fun at_least :: "int list \<Rightarrow> int list \<Rightarrow> bool" where
  "at_least gp [] = True"
| "at_least gp (w # ws) =
     (let g = (case gp of [] \<Rightarrow> 0 | x # _ \<Rightarrow> x)
      in if g > w then True else if g < w then False else at_least (tl gp) ws)"

definition versionAtLeast :: "string \<Rightarrow> string \<Rightarrow> bool" where
  "versionAtLeast got want = at_least (parseDottedVersion got) (parseDottedVersion want)"

section \<open>The machines\<close>

record 'k machines =
  mc_Client :: "provider \<Rightarrow> nat \<Rightarrow> err + unit"
  mc_Info :: "provider \<Rightarrow> nat \<Rightarrow> err + unit"
  mc_ServerVersion :: "provider \<Rightarrow> nat \<Rightarrow> err + string \<times> string"
  mc_LookupHost :: "string \<Rightarrow> nat \<Rightarrow> err + unit"
  mc_Dial :: "string \<Rightarrow> int \<Rightarrow> nat \<Rightarrow> err + unit"
  mc_HostKey :: "string \<Rightarrow> int \<Rightarrow> nat \<Rightarrow> err + string"
  mc_Authenticate :: "string \<Rightarrow> int \<Rightarrow> string \<Rightarrow> 'k \<Rightarrow> nat \<Rightarrow> err + unit"
  mc_ParsePrivateKey :: "nat list \<Rightarrow> err + 'k"
  mc_MarshalAuthorizedKey :: "'k \<Rightarrow> string"
  mc_GenerateEd25519 :: "nat \<Rightarrow> err + nat list \<times> string"
  mc_writeKeyFile :: "nat \<Rightarrow> err + unit"
  mc_cipher :: aead

definition docker_Info :: "'k machines \<Rightarrow> provider \<Rightarrow> ('x, unit) go" where
  "docker_Info mc p = bnd (draw (mc_Client mc p)) (\<lambda>_. draw (mc_Info mc p))"

text \<open>The version comes back even when it is too old: the pair of Go's two results.\<close>

definition docker_Version :: "'k machines \<Rightarrow> provider \<Rightarrow> ('x, (string \<times> string) \<times> err option) go" where
  "docker_Version mc p =
     bnd (attempt (bnd (draw (mc_Client mc p)) (\<lambda>_. draw (mc_ServerVersion mc p)))) (\<lambda>r.
     case r of
       Inl e \<Rightarrow> ret (([], []), Some e)
     | Inr v \<Rightarrow>
         (if \<not> versionAtLeast (fst v) minSupportedDockerVersion
          then ret (v, Some (ErrWrap ''need 20.10'' ErrUnsupportedDockerVersion))
          else ret (v, None)))"

section \<open>SSH\<close>

definition ErrHostKeyMismatch :: err where
  "ErrHostKeyMismatch = ErrNew ''ssh: host key fingerprint mismatch''"

definition Callback :: "string \<Rightarrow> (string \<Rightarrow> ('x, unit) go) \<Rightarrow> string \<Rightarrow> ('x, unit) go" where
  "Callback storedFP save fp =
     (if storedFP = [] then wrapping ''ssh: persist host key fingerprint'' (save fp)
      else if storedFP = fp then ret ()
      else fail (ErrWrap ''have other'' ErrHostKeyMismatch))"

definition ParseKey :: "'k machines \<Rightarrow> nat list \<Rightarrow> err + 'k" where
  "ParseKey mc data =
     (if data = [] then Inl (ErrNew ''ssh: empty key'')
      else case mc_ParsePrivateKey mc data of
          Inl e \<Rightarrow> Inl (ErrWrap ''ssh: parse private key'' e)
        | Inr k \<Rightarrow> Inr k)"

definition PublicKeyToAuthorizedKey :: "'k machines \<Rightarrow> 'k \<Rightarrow> string" where
  "PublicKeyToAuthorizedKey mc k =
     (let out = mc_MarshalAuthorizedKey mc k
      in if out \<noteq> [] \<and> last out = CHR 0x0A then butlast out else out)"

definition Connect ::
  "'k machines \<Rightarrow> string \<Rightarrow> int \<Rightarrow> string \<Rightarrow> 'k \<Rightarrow> (string \<Rightarrow> ('x, unit) go) \<Rightarrow> ('x, unit) go" where
  "Connect mc host port user signer hostkey =
     (if host = [] then fail (ErrNew ''ssh: empty host'')
      else if port \<le> 0 \<or> port > 65535 then fail (ErrNew ''ssh: invalid port'')
      else if user = [] then fail (ErrNew ''ssh: empty user'')
      else
        bnd (wrapping ''ssh: tcp dial'' (draw (mc_Dial mc host port))) (\<lambda>_.
        wrapping ''ssh: handshake''
          (bnd (draw (mc_HostKey mc host port)) (\<lambda>fp.
           bnd (hostkey fp) (\<lambda>_.
           draw (mc_Authenticate mc host port user signer))))))"

section \<open>Rows\<close>

definition ErrLocalAlreadyExists :: err where
  "ErrLocalAlreadyExists = ErrNew ''server: a local server already exists''"

definition ErrHasApps :: err where
  "ErrHasApps = ErrNew ''server: has apps''"

text \<open>What callers get to see of a row: the private key is left out.\<close>

record Server =
  srv_ID :: string
  srv_Name :: string
  srv_Type :: string
  srv_Host :: "string option"
  srv_Port :: int
  srv_User :: "string option"
  srv_HostKeyFingerprint :: "string option"
  srv_Status :: string
  srv_DockerVersion :: "string option"
  srv_LastCheckedAt :: "int option"
  srv_HasEncryptedKey :: bool
  srv_PublicKey :: string
  srv_CreatedAt :: int
  srv_UpdatedAt :: int

definition scanServer :: "server_row \<Rightarrow> Server" where
  "scanServer r =
     \<lparr>srv_ID = sv_id r, srv_Name = sv_name r, srv_Type = sv_type r, srv_Host = sv_host r, srv_Port = sv_port r,
      srv_User = sv_user r, srv_HostKeyFingerprint = sv_host_key_fingerprint r, srv_Status = sv_status r,
      srv_DockerVersion = sv_docker_version r, srv_LastCheckedAt = sv_last_checked_at r,
      srv_HasEncryptedKey = (sv_private_key r \<noteq> None), srv_PublicKey = [], srv_CreatedAt = sv_created_at r,
      srv_UpdatedAt = sv_updated_at r\<rparr>"

definition countLocal :: "('x, nat) dbm" where
  "countLocal = db_query (\<lambda>w. affected (\<lambda>v. sv_type v = ''local'') (servers w))"

definition in_use :: "('x, 'a) dbm \<Rightarrow> ('x, 'a) dbm" where
  "in_use m =
     bnd (attempt m) (\<lambda>r.
     case r of
       Inl e \<Rightarrow> fail (if e = ErrSql UniqueViolation then ErrWrap ''server: name already in use'' e else e)
     | Inr x \<Rightarrow> ret x)"

definition server_insert :: "server_row \<Rightarrow> ('x, unit) dbm" where
  "server_insert s =
     in_use (bnd (db_exec (\<lambda>w. insert_server (s\<lparr>sv_created_at := unixepoch w, sv_updated_at := unixepoch w\<rparr>) w)) (\<lambda>_. ret ()))"

definition server_list :: "('x, server_row list) dbm" where
  "server_list = db_query (\<lambda>w. sort_key sv_created_at (servers w))"

record Patch =
  pt_Name :: "string option"
  pt_Host :: "string option"
  pt_Port :: "int option"
  pt_User :: "string option"

definition patch_sets_server :: "Patch \<Rightarrow> (server_row \<Rightarrow> server_row) list" where
  "patch_sets_server p =
     (case pt_Name p of None \<Rightarrow> [] | Some x \<Rightarrow> [\<lambda>s. s\<lparr>sv_name := x\<rparr>]) @
     (case pt_Host p of None \<Rightarrow> [] | Some x \<Rightarrow> [\<lambda>s. s\<lparr>sv_host := Some x\<rparr>]) @
     (case pt_Port p of None \<Rightarrow> [] | Some x \<Rightarrow> [\<lambda>s. s\<lparr>sv_port := x\<rparr>]) @
     (case pt_User p of None \<Rightarrow> [] | Some x \<Rightarrow> [\<lambda>s. s\<lparr>sv_user := Some x\<rparr>])"

definition updatePatch :: "string \<Rightarrow> Patch \<Rightarrow> ('x, server_row) dbm" where
  "updatePatch i p =
     (if patch_sets_server p = [] then server_get i
      else
        bnd (in_use (db_exec (update_servers (\<lambda>s. sv_id s = i) (fold id (patch_sets_server p))))) (\<lambda>n.
        if n = 0 then fail server_ErrNotFound else server_get i))"

definition server_delete :: "string \<Rightarrow> ('x, unit) dbm" where
  "server_delete i =
     bnd (db_query (\<lambda>w. affected (\<lambda>a. a_server_id a = Some i) (apps w))) (\<lambda>n.
     if n > 0 then fail (ErrWrap ''apps still attached'' ErrHasApps)
     else
       bnd (db_exec (delete_servers (\<lambda>s. sv_id s = i))) (\<lambda>k.
       if k = 0 then fail server_ErrNotFound else ret ()))"

definition server_updateStatus :: "string \<Rightarrow> string \<Rightarrow> string option \<Rightarrow> ('x, unit) dbm" where
  "server_updateStatus i status dockerVersion =
     bnd time_now (\<lambda>now.
     bnd (db_exec (update_servers (\<lambda>s. sv_id s = i)
            (\<lambda>s. s\<lparr>sv_status := status, sv_docker_version := dockerVersion, sv_last_checked_at := Some (unix now)\<rparr>))) (\<lambda>_.
     ret ()))"

definition updateHostKey :: "string \<Rightarrow> string \<Rightarrow> ('x, unit) dbm" where
  "updateHostKey i fp =
     bnd (db_exec (update_servers (\<lambda>s. sv_id s = i) (\<lambda>s. s\<lparr>sv_host_key_fingerprint := Some fp\<rparr>))) (\<lambda>_. ret ())"

definition markAppsUnreachable :: "string \<Rightarrow> ('x, unit) dbm" where
  "markAppsUnreachable i =
     bnd (db_exec (update_apps (\<lambda>a. a_server_id a = Some i \<and> a_status a \<noteq> ''unreachable'')
            (\<lambda>a. a\<lparr>a_status := ''unreachable''\<rparr>))) (\<lambda>_. ret ())"

section \<open>Registration\<close>

record ServerInput =
  si_Type :: string
  si_Name :: string
  si_Host :: string
  si_Port :: int
  si_User :: string
  si_GenerateKey :: bool
  si_PrivateKey :: string

definition local_row :: "string \<Rightarrow> string \<Rightarrow> string \<Rightarrow> int \<Rightarrow> server_row" where
  "local_row i name version now =
     \<lparr>sv_id = i, sv_name = name, sv_type = ''local'', sv_host = None, sv_port = 22, sv_user = None, sv_private_key = None,
      sv_host_key_fingerprint = None, sv_status = ''connected'', sv_docker_version = Some version,
      sv_last_checked_at = Some (unix now), sv_created_at = 0, sv_updated_at = 0\<rparr>"

definition createLocal :: "'k machines \<Rightarrow> string \<Rightarrow> ('x, Server) dbm" where
  "createLocal mc name =
     bnd (wrapping ''count local'' countLocal) (\<lambda>n.
     if n > 0 then fail ErrLocalAlreadyExists
     else
       let p = NewLocalProvider name
       in bnd (wrapping ''docker unreachable'' (docker_Info mc p)) (\<lambda>_.
          bnd (docker_Version mc p) (\<lambda>(v, err).
          case err of
            Some e \<Rightarrow> fail (ErrWrap ''docker version'' e)
          | None \<Rightarrow>
              bnd time_now (\<lambda>now.
              bnd new_uuid (\<lambda>i.
              bnd (server_insert (local_row i name (fst v) now)) (\<lambda>_.
              bnd (server_get i) (\<lambda>row. ret (scanServer row))))))))"

text \<open>The key pair of a remote machine: generated, or parsed from the request.\<close>

definition remote_key :: "'k machines \<Rightarrow> ServerInput \<Rightarrow> ('x, nat list \<times> string) go" where
  "remote_key mc inp =
     (if si_GenerateKey inp then
        bnd (wrapping ''generate key'' (draw (mc_GenerateEd25519 mc))) (\<lambda>(pem, pub). ret (pem, trim_space pub))
      else if si_PrivateKey inp \<noteq> [] then
        bnd (wrapping ''invalid_private_key'' (lift_res (ParseKey mc (bytes_of (si_PrivateKey inp))))) (\<lambda>signer.
        ret (bytes_of (si_PrivateKey inp), PublicKeyToAuthorizedKey mc signer))
      else fail (ErrNew ''missing_key: pass generate_key=true or private_key''))"

definition remote_row :: "string \<Rightarrow> string \<Rightarrow> string \<Rightarrow> int \<Rightarrow> string \<Rightarrow> nat list \<Rightarrow> server_row" where
  "remote_row i name host port user encrypted =
     \<lparr>sv_id = i, sv_name = name, sv_type = ''remote'', sv_host = Some host, sv_port = port, sv_user = Some user,
      sv_private_key = (if encrypted = [] then None else Some encrypted), sv_host_key_fingerprint = None,
      sv_status = ''unknown'', sv_docker_version = None, sv_last_checked_at = None, sv_created_at = 0, sv_updated_at = 0\<rparr>"

definition createRemote :: "'k machines \<Rightarrow> string \<Rightarrow> ServerInput \<Rightarrow> ('x, Server) dbm" where
  "createRemote mc name inp =
     (let host = trim_space (si_Host inp); user = trim_space (si_User inp);
          port = (if si_Port inp = 0 then 22 else si_Port inp)
      in if host = [] \<or> user = [] then fail (ErrNew ''missing_fields'')
         else if port < 1 \<or> port > 65535 then fail (ErrNew ''invalid_port'')
         else
           bnd (remote_key mc inp) (\<lambda>(privatePEM, publicSSH).
           bnd (wrapping ''encrypt key'' (Encrypt (mc_cipher mc) privatePEM)) (\<lambda>encrypted.
           bnd new_uuid (\<lambda>i.
           bnd (server_insert (remote_row i name host port user encrypted)) (\<lambda>_.
           bnd (server_get i) (\<lambda>row.
           ret ((scanServer row)\<lparr>srv_PublicKey := publicSSH\<rparr>)))))))"

definition server_Create :: "'k machines \<Rightarrow> ServerInput \<Rightarrow> ('x, Server) dbm" where
  "server_Create mc inp =
     (let name = trim_space (si_Name inp)
      in if name = [] then fail (ErrNew ''missing_name'')
         else if si_Type inp = ''local'' then createLocal mc name
         else if si_Type inp = ''remote'' then createRemote mc name inp
         else fail (ErrNew ''invalid_type''))"

definition server_List :: "('x, Server list) dbm" where
  "server_List = bnd server_list (\<lambda>rows. ret (map scanServer rows))"

definition server_Get :: "string \<Rightarrow> ('x, Server) dbm" where
  "server_Get i = bnd (server_get i) (\<lambda>row. ret (scanServer row))"

definition server_Update :: "string \<Rightarrow> Patch \<Rightarrow> ('x, Server) dbm" where
  "server_Update i p =
     (if (case pt_Port p of None \<Rightarrow> False | Some n \<Rightarrow> n < 1 \<or> n > 65535) then fail (ErrNew ''invalid_port'')
      else if (case pt_Name p of None \<Rightarrow> False | Some n \<Rightarrow> trim_space n = []) then fail (ErrNew ''invalid_name'')
      else bnd (updatePatch i (p\<lparr>pt_Name := map_option trim_space (pt_Name p)\<rparr>)) (\<lambda>row. ret (scanServer row)))"

definition server_Delete :: "string \<Rightarrow> ('x, unit) dbm" where
  "server_Delete = server_delete"

section \<open>The connection test\<close>

record Check =
  ck_Name :: string
  ck_OK :: bool
  ck_Message :: string

record TestReport =
  tr_ServerID :: string
  tr_Type :: string
  tr_Status :: string
  tr_Checks :: "Check list"

definition passed :: "string \<Rightarrow> string \<Rightarrow> Check" where
  "passed name msg = \<lparr>ck_Name = name, ck_OK = True, ck_Message = msg\<rparr>"

definition failed_check :: "string \<Rightarrow> string \<Rightarrow> Check" where
  "failed_check name msg = \<lparr>ck_Name = name, ck_OK = False, ck_Message = msg\<rparr>"

text \<open>The ends of a test: the status is written, an error of the write is ignored.\<close>

definition conclude :: "server_row \<Rightarrow> string \<Rightarrow> Check list \<Rightarrow> string option \<Rightarrow> ('x, TestReport) dbm" where
  "conclude srv status checks version =
     bnd (attempt (server_updateStatus (sv_id srv) status version)) (\<lambda>_.
     ret \<lparr>tr_ServerID = sv_id srv, tr_Type = (if sv_type srv = ''local'' then ''local'' else ''remote''),
          tr_Status = status, tr_Checks = checks\<rparr>)"

definition disconnected :: "server_row \<Rightarrow> Check list \<Rightarrow> string \<Rightarrow> string \<Rightarrow> string option \<Rightarrow> ('x, TestReport) dbm" where
  "disconnected srv before name msg version =
     conclude srv ''disconnected'' (before @ [failed_check name msg]) version"

definition version_step :: "'k machines \<Rightarrow> server_row \<Rightarrow> provider \<Rightarrow> Check list \<Rightarrow> string \<Rightarrow> ('x, TestReport) dbm" where
  "version_step mc srv p before socket =
     bnd (docker_Version mc p) (\<lambda>(v, err).
     case err of
       Some e \<Rightarrow> disconnected srv before ''docker_version'' (error_text e) (if fst v = [] then None else Some (fst v))
     | None \<Rightarrow>
         conclude srv ''connected''
           (before @ [passed ''docker_version'' (''Docker '' @ fst v @ '' (API '' @ snd v @ '')''), passed ''docker_socket'' socket])
           (Some (fst v)))"

definition testLocal :: "'k machines \<Rightarrow> server_row \<Rightarrow> ('x, TestReport) dbm" where
  "testLocal mc srv =
     (let p = NewLocalProvider (sv_name srv)
      in bnd (attempt (docker_Info mc p)) (\<lambda>r.
         case r of
           Inl e \<Rightarrow> disconnected srv [] ''docker_info'' (''docker info failed: '' @ error_text e) None
         | Inr _ \<Rightarrow> version_step mc srv p [passed ''docker_info'' ''docker daemon reachable''] ''socket accessible''))"

definition join_host_port :: "string \<Rightarrow> int \<Rightarrow> string" where
  "join_host_port host port =
     (if CHR '':'' \<in> set host then ''['' @ host @ '']:'' else host @ '':'') @ nat_digits (nat port)"

text \<open>The stored key of a machine, opened and parsed; the failure says which step went wrong.\<close>

definition stored_signer :: "'k machines \<Rightarrow> server_row \<Rightarrow> ('x, string + nat list \<times> 'k) dbm" where
  "stored_signer mc srv =
     bnd (attempt (getPrivateKey (sv_id srv))) (\<lambda>r.
     ret (case r of
            Inl _ \<Rightarrow> Inl ''no private key stored''
          | Inr encrypted \<Rightarrow>
              (if encrypted = [] then Inl ''no private key stored''
               else case Decrypt (mc_cipher mc) encrypted of
                   Inl e \<Rightarrow> Inl (''decrypt private key: '' @ error_text e)
                 | Inr pem \<Rightarrow> (case ParseKey mc pem of
                       Inl e \<Rightarrow> Inl (''parse private key: '' @ error_text e)
                     | Inr signer \<Rightarrow> Inr (pem, signer)))))"

definition ssh_step :: "'k machines \<Rightarrow> server_row \<Rightarrow> string \<Rightarrow> string \<Rightarrow> 'k \<Rightarrow> ('x, unit) dbm" where
  "ssh_step mc srv host user signer =
     Connect mc host (sv_port srv) user signer
       (Callback (case sv_host_key_fingerprint srv of None \<Rightarrow> [] | Some fp \<Rightarrow> fp) (updateHostKey (sv_id srv)))"

definition docker_step :: "'k machines \<Rightarrow> server_row \<Rightarrow> string \<Rightarrow> string \<Rightarrow> nat list \<Rightarrow> Check list \<Rightarrow> ('x, TestReport) dbm" where
  "docker_step mc srv host user pem before =
     bnd (attempt (NewRemoteProvider (mc_writeKeyFile mc) (sv_name srv) host (sv_port srv) user pem)) (\<lambda>r.
     case r of
       Inl e \<Rightarrow> disconnected srv before ''docker_info'' (''build provider: '' @ error_text e) None
     | Inr p \<Rightarrow>
         bnd (attempt (docker_Info mc p)) (\<lambda>r.
         case r of
           Inl e \<Rightarrow> disconnected srv before ''docker_info'' (''docker info failed: '' @ error_text e) None
         | Inr _ \<Rightarrow>
             version_step mc srv p (before @ [passed ''docker_info'' ''docker daemon reachable via SSH'']) ''remote socket accessible''))"

definition auth_step :: "'k machines \<Rightarrow> server_row \<Rightarrow> string \<Rightarrow> string \<Rightarrow> Check list \<Rightarrow> ('x, TestReport) dbm" where
  "auth_step mc srv host user before =
     bnd (stored_signer mc srv) (\<lambda>k.
     case k of
       Inl msg \<Rightarrow> disconnected srv before ''ssh_authenticates'' msg None
     | Inr (pem, signer) \<Rightarrow>
         bnd (attempt (ssh_step mc srv host user signer)) (\<lambda>r.
         case r of
           Inl e \<Rightarrow>
             disconnected srv before ''ssh_authenticates''
               ((if errors_is e ErrHostKeyMismatch then ''host key mismatch: '' else ''ssh handshake failed: '') @ error_text e) None
         | Inr _ \<Rightarrow> docker_step mc srv host user pem (before @ [passed ''ssh_authenticates'' (''authenticated as '' @ user)])))"

definition testRemote :: "'k machines \<Rightarrow> server_row \<Rightarrow> ('x, TestReport) dbm" where
  "testRemote mc srv =
     (case (sv_host srv, sv_user srv) of
        (Some host, Some user) \<Rightarrow>
          bnd (attempt (draw (mc_LookupHost mc host))) (\<lambda>r.
          case r of
            Inl e \<Rightarrow> disconnected srv [] ''hostname_resolves'' (''DNS lookup failed: '' @ error_text e) None
          | Inr _ \<Rightarrow>
              bnd (attempt (draw (mc_Dial mc host (sv_port srv)))) (\<lambda>r.
              case r of
                Inl e \<Rightarrow>
                  disconnected srv [passed ''hostname_resolves'' ''hostname resolves''] ''ssh_port_open''
                    (''cannot reach '' @ join_host_port host (sv_port srv) @ '': '' @ error_text e) None
              | Inr _ \<Rightarrow>
                  auth_step mc srv host user
                    [passed ''hostname_resolves'' ''hostname resolves'',
                     passed ''ssh_port_open'' (''connected to '' @ join_host_port host (sv_port srv))]))
      | _ \<Rightarrow> disconnected srv [] ''config'' ''missing host/user'' None)"

definition TestConnection :: "'k machines \<Rightarrow> string \<Rightarrow> ('x, TestReport) dbm" where
  "TestConnection mc i =
     bnd (server_get i) (\<lambda>srv.
     if sv_type srv = ''local'' then testLocal mc srv else testRemote mc srv)"

section \<open>The status pass\<close>

text \<open>The status and the version a probe finds; the error is only logged.\<close>

definition ping_provider :: "'k machines \<Rightarrow> provider \<Rightarrow> ('x, string \<times> string option) dbm" where
  "ping_provider mc p =
     bnd (docker_Version mc p) (\<lambda>(v, err).
     case err of Some _ \<Rightarrow> ret (''disconnected'', None) | None \<Rightarrow> ret (''connected'', Some (fst v)))"

definition ping :: "'k machines \<Rightarrow> server_row \<Rightarrow> ('x, string \<times> string option) dbm" where
  "ping mc srv =
     (if sv_type srv = ''local'' then ping_provider mc (NewLocalProvider (sv_name srv))
      else if sv_type srv = ''remote'' then
        (case (sv_host srv, sv_user srv) of
           (Some host, Some user) \<Rightarrow>
             bnd (attempt (getPrivateKey (sv_id srv))) (\<lambda>r.
             case r of
               Inl _ \<Rightarrow> ret (''unknown'', None)
             | Inr encrypted \<Rightarrow>
                 (if encrypted = [] then ret (''unknown'', None)
                  else case Decrypt (mc_cipher mc) encrypted of
                      Inl _ \<Rightarrow> ret (''disconnected'', None)
                    | Inr pem \<Rightarrow>
                        bnd (attempt (NewRemoteProvider (mc_writeKeyFile mc) (sv_name srv) host (sv_port srv) user pem)) (\<lambda>r.
                        case r of
                          Inl _ \<Rightarrow> ret (''disconnected'', None)
                        | Inr p \<Rightarrow> ping_provider mc p)))
         | _ \<Rightarrow> ret (''disconnected'', None))
      else ret (''unknown'', None))"

definition probe_server :: "'k machines \<Rightarrow> server_row \<Rightarrow> ('x, unit) dbm" where
  "probe_server mc srv =
     bnd (ping mc srv) (\<lambda>(status, ver).
     bnd (attempt (server_updateStatus (sv_id srv) status ver)) (\<lambda>r.
     case r of
       Inl _ \<Rightarrow> ret ()
     | Inr _ \<Rightarrow>
         (if status = ''disconnected'' \<and> sv_status srv \<noteq> ''disconnected''
          then bnd (attempt (markAppsUnreachable (sv_id srv))) (\<lambda>_. ret ())
          else ret ())))"

definition runOnce :: "'k machines \<Rightarrow> ('x, unit) dbm" where
  "runOnce mc =
     bnd (attempt server_list) (\<lambda>r.
     case r of Inl _ \<Rightarrow> ret () | Inr rows \<Rightarrow> for_each (probe_server mc) rows)"

end
