(* ===== verification/Server_Props.thy ===== *)
theory Server_Props
  imports Server_Service Deploy_Props
begin

text \<open>
  What the server service guarantees: the fingerprint of a host key, once stored, stays and is required of
  every later SSH connection of a test; a report says connected exactly when every check passed, and the row
  says what the report says; a machine found disconnected takes its apps with it; there is one local machine
  at most; and the version check compares versions, not strings.
\<close>

section \<open>Frames\<close>

lemma server_reads:
  "moves only_step (docker_Info mc p)" "moves only_step (docker_Version mc p)" "moves only_step (stored_signer mc srv)"
  "moves only_step (NewRemoteProvider f n h pt u k)" "moves only_step (ping mc srv)" "moves only_step server_list"
  "moves only_step (remote_key mc inp)" "moves only_step (Encrypt c pl)" "moves only_step countLocal"
  unfolding docker_Info_def docker_Version_def stored_signer_def NewRemoteProvider_def ping_def ping_provider_def server_list_def
    remote_key_def Encrypt_def countLocal_def getPrivateKey_def
  by (intro rd.frame_rules moves_intro)+

section \<open>Pinned host keys\<close>

definition pinned :: "string \<Rightarrow> string \<Rightarrow> 'x db_scheme \<Rightarrow> bool" where
  "pinned i f w \<longleftrightarrow>
     (\<forall>n. o_uuid (orc w) n \<noteq> i) \<and> (\<forall>v \<in> set (servers w). sv_id v = i \<longrightarrow> sv_host_key_fingerprint v = Some f)"

interpretation pin: frame "keeps (pinned i f)" for i f
  by (rule frame_keeps) (simp add: pinned_def)

lemma pin_update:
  assumes "\<And>v. sv_id (g v) = sv_id v" and "\<And>v. sv_id v = i \<Longrightarrow> q v \<Longrightarrow> sv_host_key_fingerprint (g v) = sv_host_key_fingerprint v"
  shows "moves (keeps (pinned i f)) (db_exec (update_servers q g))"
  by (rule pin.frame_exec) (use assms in \<open>auto simp: keeps_def pinned_def update_servers_def checked_Inr_iff set_update_where\<close>)

lemma pin_status: "moves (keeps (pinned i f)) (server_updateStatus j st v)"
  unfolding server_updateStatus_def by (intro pin.frame_rules pin_update) auto

lemma pin_host_key: "j \<noteq> i \<Longrightarrow> moves (keeps (pinned i f)) (updateHostKey j fp)"
  unfolding updateHostKey_def by (intro pin.frame_rules pin_update) auto

lemma pin_conclude: "moves (keeps (pinned i f)) (conclude srv st cs v)" "moves (keeps (pinned i f)) (disconnected srv cs n m v)"
  unfolding disconnected_def conclude_def by (intro pin.frame_rules pin_status)+

lemma pin_version_step: "moves (keeps (pinned i f)) (version_step mc srv p cs s)"
  unfolding version_step_def
  by (intro pin.frame_rules moves_intro pin_conclude pin.frame_read [OF server_reads(2)])

lemma pin_docker_step: "moves (keeps (pinned i f)) (docker_step mc srv h u pem cs)"
  unfolding docker_step_def
  by (intro pin.frame_rules moves_intro pin_conclude pin_version_step pin.frame_read [OF server_reads(1)] pin.frame_read [OF server_reads(4)])

lemma pin_ssh_step:
  assumes "sv_id srv = i \<Longrightarrow> sv_host_key_fingerprint srv = Some f" and "f \<noteq> []"
  shows "moves (keeps (pinned i f)) (ssh_step mc srv h u k)"
proof -
  have "moves (keeps (pinned i f)) (Callback (case sv_host_key_fingerprint srv of None \<Rightarrow> [] | Some fp \<Rightarrow> fp) (updateHostKey (sv_id srv)) fp)" for fp
    using assms by (cases "sv_id srv = i") (auto simp: Callback_def intro!: pin.frame_rules moves_intro pin_host_key)
  then show ?thesis unfolding ssh_step_def Connect_def by (intro pin.frame_rules moves_intro)
qed

lemma pin_testRemote:
  assumes "sv_id srv = i \<Longrightarrow> sv_host_key_fingerprint srv = Some f" and "f \<noteq> []"
  shows "moves (keeps (pinned i f)) (testRemote mc srv)"
  unfolding testRemote_def auth_step_def
  by (intro pin.frame_rules moves_intro pin_conclude pin_docker_step pin_ssh_step pin.frame_read [OF server_reads(3)] assms)

lemma pin_testLocal: "moves (keeps (pinned i f)) (testLocal mc srv)"
  unfolding testLocal_def Let_def
  by (intro pin.frame_rules moves_intro pin_conclude pin_version_step pin.frame_read [OF server_reads(1)])

lemma server_get_Inr: "server_get j w = (Inr v, w') \<Longrightarrow> find (\<lambda>v. sv_id v = j) (servers w) = Some v \<and> w' = tick w"
  by (auto simp: server_get_def bnd_attempt db_query_row_cases fail_def ret_def split: option.splits if_splits)

lemma pin_TestConnection:
  assumes "f \<noteq> []"
  shows "moves (keeps (pinned i f)) (TestConnection mc j)"
  unfolding TestConnection_def
proof (intro keeps_bnd_run moves_intro pin_testLocal pin_testRemote assms)
  show "moves (keeps (pinned i f)) (server_get j)" by (rule pin.frame_read [OF service_reads(5)])
next
  fix w srv w'
  assume "pinned i f w" and "server_get j w = (Inr srv, w')" and "sv_id srv = i"
  then show "sv_host_key_fingerprint srv = Some f" by (auto simp: pinned_def find_Some_iff dest!: server_get_Inr)
qed

lemma pin_insert: "sv_id v = o_uuid (orc u) n \<Longrightarrow> pinned i f u \<Longrightarrow> moves (keeps (pinned i f)) (server_insert v)"
  unfolding server_insert_def in_use_def
  by (intro pin.frame_rules moves_intro pin.frame_exec) (auto simp: keeps_def pinned_def insert_server_def checked_Inr_iff)

lemma new_uuid_Inr: "new_uuid w = (Inr x, w') \<longleftrightarrow> x = o_uuid (orc w) (stp w) \<and> w' = tick w"
  by (auto simp: new_uuid_def)

lemma pin_Create: "moves (keeps (pinned i f)) (server_Create mc inp)"
proof -
  have row: "moves (keeps (pinned i f)) (bnd new_uuid (\<lambda>x. bnd (server_insert (row x)) (\<lambda>_. bnd (server_get x) (\<lambda>r. ret (g r)))))"
    if "\<And>x. sv_id (row x) = x" for row and g :: "server_row \<Rightarrow> Server"
    by (rule keeps_bnd_run [OF pin.frame_uuid])
      (auto simp: new_uuid_Inr that intro!: pin.frame_rules pin_insert pin.frame_read [OF service_reads(5)])
  have "moves (keeps (pinned i f)) (createLocal mc name)" for name
    unfolding createLocal_def Let_def
    by (intro row pin.frame_rules moves_intro pin.frame_read [OF server_reads(1)] pin.frame_read [OF server_reads(2)] pin.frame_read [OF server_reads(9)])
      (simp add: local_row_def)
  moreover have "moves (keeps (pinned i f)) (createRemote mc name inp)" for name
    unfolding createRemote_def Let_def
    by (intro row pin.frame_rules moves_intro pin.frame_read [OF server_reads(7)] pin.frame_read [OF server_reads(8)])
      (simp add: remote_row_def)
  ultimately show ?thesis unfolding server_Create_def Let_def by (intro pin.frame_rules moves_intro)
qed

lemma pin_Update: "moves (keeps (pinned i f)) (server_Update j p)"
  unfolding server_Update_def updatePatch_def in_use_def
  by (intro pin.frame_rules moves_intro pin.frame_read [OF service_reads(5)] pin_update)
    (auto simp: patch_sets_server_def split: option.split)

lemma pin_Delete: "moves (keeps (pinned i f)) (server_Delete j)"
  unfolding server_Delete_def server_delete_def
  by (intro pin.frame_rules moves_intro pin.frame_exec) (auto simp: keeps_def pinned_def delete_servers_def checked_Inr_iff)

lemma pin_runOnce: "moves (keeps (pinned i f)) (runOnce mc)"
  unfolding runOnce_def probe_server_def markAppsUnreachable_def
  by (intro pin.frame_rules moves_intro pin_status pin.frame_read [OF server_reads(5)] pin.frame_read [OF server_reads(6)] pin.frame_exec)
    (auto simp: keeps_def pinned_def update_apps_def checked_Inr_iff)

datatype server_call =
  SCreate ServerInput | SUpdate string Patch | SDelete string | STest string | SRunOnce

definition server_call_run :: "'k machines \<Rightarrow> server_call \<Rightarrow> 'x db_scheme \<Rightarrow> 'x db_scheme" where
  "server_call_run mc c w =
     (case c of
        SCreate inp \<Rightarrow> snd (server_Create mc inp w)
      | SUpdate i p \<Rightarrow> snd (server_Update i p w)
      | SDelete i \<Rightarrow> snd (server_Delete i w)
      | STest i \<Rightarrow> snd (TestConnection mc i w)
      | SRunOnce \<Rightarrow> snd (runOnce mc w))"

lemma server_call_pinned: "f \<noteq> [] \<Longrightarrow> pinned i f w \<Longrightarrow> pinned i f (server_call_run mc c w)"
  by (cases c) (simp_all add: server_call_run_def keeps_snd [OF pin_Create] keeps_snd [OF pin_Update] keeps_snd [OF pin_Delete]
      keeps_snd [OF pin_TestConnection] keeps_snd [OF pin_runOnce])

text \<open>What a passed authentication says of the key the host presented.\<close>

lemma ssh_step_Inr:
  assumes "ssh_step mc srv h u k w = (Inr x, w')" and "sv_host_key_fingerprint srv = Some f" and "f \<noteq> []"
  shows "\<exists>n. mc_HostKey mc h (sv_port srv) n = Inr f"
  using assms
  by (auto simp: ssh_step_def Connect_def Callback_def bnd_eq_Inr_iff wrapping_eq_Inr_iff draw_def fail_def ret_def split: if_splits)

definition authenticated :: "TestReport \<Rightarrow> bool" where
  "authenticated rep \<longleftrightarrow> list_ex (\<lambda>c. ck_Name c = ''ssh_authenticates'' \<and> ck_OK c) (tr_Checks rep)"

lemma conclude_Inr:
  "conclude srv st cs v w = (Inr rep, w') \<Longrightarrow> tr_Status rep = st \<and> tr_Checks rep = cs"
  "disconnected srv cs n m v w = (Inr rep, w') \<Longrightarrow> tr_Status rep = ''disconnected'' \<and> tr_Checks rep = cs @ [failed_check n m]"
  by (auto simp: disconnected_def conclude_def bnd_eq_Inr_iff ret_def)

definition ssh_passed :: "Check list \<Rightarrow> bool" where
  "ssh_passed cs \<longleftrightarrow> list_ex (\<lambda>c. ck_Name c = ''ssh_authenticates'' \<and> ck_OK c) cs"

lemma yields_conclude: "ssh_passed cs \<longrightarrow> Q \<Longrightarrow> yields I (\<lambda>rep _. authenticated rep \<longrightarrow> Q) (conclude srv st cs v)"
  "ssh_passed cs \<longrightarrow> Q \<Longrightarrow> yields I (\<lambda>rep _. authenticated rep \<longrightarrow> Q) (disconnected srv cs n m v)"
  by (auto simp: yields_def authenticated_def ssh_passed_def failed_check_def dest!: conclude_Inr)

lemma yields_version_step:
  "ssh_passed cs \<longrightarrow> Q \<Longrightarrow> yields (\<lambda>_. True) (\<lambda>rep _. authenticated rep \<longrightarrow> Q) (version_step mc srv p cs s)"
  unfolding version_step_def
  by (intro yields_bnd yields_rules yields_conclude keeps_True) (auto simp: ssh_passed_def passed_def)

lemma testLocal_unauthenticated: "testLocal mc srv w = (Inr rep, w') \<Longrightarrow> \<not> authenticated rep"
proof -
  have "yields (\<lambda>_. True) (\<lambda>rep _. authenticated rep \<longrightarrow> False) (testLocal mc srv)"
    unfolding testLocal_def Let_def
    by (intro yields_bnd yields_rules yields_conclude yields_version_step keeps_True) (auto simp: ssh_passed_def passed_def)
  then show "testLocal mc srv w = (Inr rep, w') \<Longrightarrow> \<not> authenticated rep" by (auto dest: yieldsD)
qed

lemma testRemote_authenticated:
  fixes w :: "'x db_scheme"
  assumes "testRemote mc srv w = (Inr rep, w')" and "authenticated rep"
  shows "\<exists>h u k v v'. sv_host srv = Some h \<and> ssh_step mc srv h u k (v :: 'x db_scheme) = (Inr (), v')"
proof -
  define Q where "Q \<longleftrightarrow> (\<exists>h u k v v'. sv_host srv = Some h \<and> ssh_step mc srv h u k (v :: 'x db_scheme) = (Inr (), v'))"
  have docker: "yields (\<lambda>_. True) (\<lambda>rep _. authenticated rep \<longrightarrow> Q) (docker_step mc srv h u pem cs :: ('x, TestReport) dbm)" if Q for h u pem cs
    unfolding docker_step_def by (intro yields_bnd yields_rules yields_conclude yields_version_step keeps_True impI that)
  have auth: "yields (\<lambda>_. True) (\<lambda>rep _. authenticated rep \<longrightarrow> Q) (auth_step mc srv h u cs :: ('x, TestReport) dbm)"
    if "\<not> ssh_passed cs" and "sv_host srv = Some h" for h u cs
    unfolding auth_step_def
    by (intro yields_bnd yields_rules yields_conclude docker keeps_True) (use that in \<open>simp_all add: attempt_Inr Q_def, blast\<close>)
  have "yields (\<lambda>_. True) (\<lambda>rep _. authenticated rep \<longrightarrow> Q) (testRemote mc srv :: ('x, TestReport) dbm)"
    unfolding testRemote_def
    by (cases "sv_host srv"; cases "sv_user srv"; simp only: prod.case option.case)
      (intro yields_bnd yields_rules yields_conclude auth keeps_True; auto simp: ssh_passed_def passed_def)+
  with assms show ?thesis unfolding Q_def by (auto dest: yieldsD)
qed

text \<open>The host of a machine presented a key: one of the answers of the host at its stored address and port.\<close>

definition host_presented :: "'k machines \<Rightarrow> string \<Rightarrow> string \<Rightarrow> 'x db_scheme \<Rightarrow> bool" where
  "host_presented mc i f w \<longleftrightarrow>
     (\<exists>srv h n. srv \<in> set (servers w) \<and> sv_id srv = i \<and> sv_host srv = Some h \<and> mc_HostKey mc h (sv_port srv) n = Inr f)"

lemma TestConnection_key:
  fixes w :: "'b db_scheme"
  assumes "TestConnection mc i w = (Inr rep, w')" and "authenticated rep" and "pinned i f w" and "f \<noteq> []"
  shows "host_presented mc i f w"
proof -
  from assms(1) obtain srv v where g: "server_get i w = (Inr srv, v)"
    and t: "(if sv_type srv = ''local'' then testLocal mc srv else testRemote mc srv) v = (Inr rep, w')"
    by (auto simp: TestConnection_def bnd_eq_Inr_iff)
  from server_get_Inr [OF g] have srv: "srv \<in> set (servers w)" "sv_id srv = i" by (auto simp: find_Some_iff)
  with assms(3) have fp: "sv_host_key_fingerprint srv = Some f" by (auto simp: pinned_def)
  from t assms(2) have "testRemote mc srv v = (Inr rep, w')" using testLocal_unauthenticated [of mc srv v rep w'] by (auto split: if_splits)
  from testRemote_authenticated [OF this assms(2)] obtain h u k x x'
    where h: "sv_host srv = Some h" "ssh_step mc srv h u k (x :: 'b db_scheme) = (Inr (), x')" by blast
  with ssh_step_Inr [OF h(2) fp assms(4)] srv show ?thesis unfolding host_presented_def by blast
qed

text \<open>
  C19. The fingerprint stored for a machine survives every sequence of calls of the service, and after any of
  them a connection test passes its authentication only when the host at the machine's stored address and
  port presented exactly that key.
\<close>

theorem host_key_pinned:
  assumes "pinned i f w" and "f \<noteq> []" and "v = fold (server_call_run mc) calls w"
  shows "pinned i f v \<and>
    (\<forall>rep v'. TestConnection mc i v = (Inr rep, v') \<and> authenticated rep \<longrightarrow> host_presented mc i f v)"
proof -
  have "pinned i f v"
    unfolding assms(3) using assms(1) by (induction calls arbitrary: w) (simp_all add: server_call_pinned [OF assms(2)])
  then show ?thesis using TestConnection_key assms(2) by blast
qed

section \<open>Reports\<close>

definition calm :: "'x db_scheme \<Rightarrow> bool" where
  "calm w \<longleftrightarrow> quiet w \<and> schema_ok w"

interpretation clm: frame "keeps calm"
  by (rule frame_keeps) (simp add: calm_def quiet_def)

definition reports :: "string \<Rightarrow> TestReport \<Rightarrow> 'x db_scheme \<Rightarrow> bool" where
  "reports i rep w \<longleftrightarrow>
     tr_Status rep \<in> {''connected'', ''disconnected''} \<and>
     (tr_Status rep = ''connected'' \<longleftrightarrow> list_all ck_OK (tr_Checks rep)) \<and>
     (\<forall>v \<in> set (servers w). sv_id v = i \<longrightarrow> sv_status v = tr_Status rep)"

text \<open>The constraints look at identifiers, names and types of machines only.\<close>

lemma schema_servers:
  assumes "map sv_id vs = map sv_id (servers w)" and "map sv_name vs = map sv_name (servers w)" and "map sv_type vs = map sv_type (servers w)"
  shows "schema_ok (w\<lparr>servers := vs\<rparr>) = schema_ok w"
proof -
  have "set (map sv_type vs) = set (map sv_type (servers w))" "set (map sv_id vs) = set (map sv_id (servers w))" using assms by simp_all
  then have "(\<forall>v \<in> set vs. sv_type v \<in> S) = (\<forall>v \<in> set (servers w). sv_type v \<in> S)" for S
    by (metis (no_types, lifting) image_iff list.set_map)
  from this [of "{''local'', ''remote''}"] have "check_ok (w\<lparr>servers := vs\<rparr>) = check_ok w" by (simp add: check_ok_def deploy_check_ok_def)
  moreover have "unique_ok (w\<lparr>servers := vs\<rparr>) = unique_ok w" using assms(1,2) by (simp add: unique_ok_def deploy_unique_ok_def)
  moreover have "fk_ok (w\<lparr>servers := vs\<rparr>) = fk_ok w"
    using assms(1) by (simp add: fk_ok_def deploy_fk_ok_def user_ids_def role_ids_def team_ids_def app_ids_def del: set_map cong: option.case_cong)
  ultimately show ?thesis by (simp add: schema_ok_def)
qed

lemma update_servers_ok:
  assumes "schema_ok w" and "\<And>v. sv_id (g v) = sv_id v" and "\<And>v. sv_name (g v) = sv_name v" and "\<And>v. sv_type (g v) = sv_type v"
  shows "update_servers q g w = Inr (affected q (servers w),
    w\<lparr>servers := update_where q (\<lambda>v. (g v)\<lparr>sv_updated_at := unixepoch w\<rparr>) (servers w)\<rparr>)"
  unfolding update_servers_def by (intro checked_ok) (use assms in \<open>simp add: schema_servers map_update_where\<close>)

lemma updateStatus_calm:
  assumes "calm w"
  shows "\<exists>w'. server_updateStatus i st v w = (Inr (), w') \<and> calm w' \<and> (\<forall>s \<in> set (servers w'). sv_id s = i \<longrightarrow> sv_status s = st)"
proof -
  define g :: "server_row \<Rightarrow> server_row" where "g = (\<lambda>s. s\<lparr>sv_status := st, sv_docker_version := v, sv_last_checked_at := Some (unix (o_now (orc w) (stp w)))\<rparr>)"
  have g: "sv_id (g s) = sv_id s" "sv_name (g s) = sv_name s" "sv_type (g s) = sv_type s" for s by (simp_all add: g_def)
  define w1 where "w1 = (tick w)\<lparr>servers := update_where (\<lambda>s. sv_id s = i) (\<lambda>s. (g s)\<lparr>sv_updated_at := unixepoch (tick w)\<rparr>) (servers w)\<rparr>"
  have q: "\<not> o_fault (orc w) n" "schema_ok (tick w)" for n using assms by (auto simp: calm_def quiet_def)
  have up: "update_servers (\<lambda>s. sv_id s = i) g (tick w) = Inr (affected (\<lambda>s. sv_id s = i) (servers w), w1)"
    using update_servers_ok [OF q(2) g] unfolding w1_def tables_tick .
  then have "db_exec (update_servers (\<lambda>s. sv_id s = i) g) (tick w) = (Inr (affected (\<lambda>s. sv_id s = i) (servers w)), tick w1)"
    using q(1) by (simp add: db_exec_def)
  then have "server_updateStatus i st v w = (Inr (), tick w1)"
    unfolding g_def server_updateStatus_def by (simp add: bnd_def time_now_def ret_def)
  moreover have "schema_ok w1" using up by (simp add: update_servers_def checked_Inr_iff)
  then have "calm (tick w1)" using assms by (simp add: calm_def quiet_def) (simp add: w1_def)
  moreover have "\<forall>s \<in> set (servers (tick w1)). sv_id s = i \<longrightarrow> sv_status s = st" by (simp add: w1_def set_update_where g_def) (intro ballI, elim UnE imageE, simp_all)
  ultimately show ?thesis by blast
qed

lemma conclude_reports:
  assumes "st \<in> {''connected'', ''disconnected''}" and "st = ''connected'' \<longleftrightarrow> list_all ck_OK cs"
  shows "yields calm (reports (sv_id srv)) (conclude srv st cs v)"
  unfolding yields_def
proof (intro allI impI)
  fix w :: "'a db_scheme" and rep w'
  assume "calm w" and run: "conclude srv st cs v w = (Inr rep, w')"
  from updateStatus_calm [OF this(1)] obtain u where "server_updateStatus (sv_id srv) st v w = (Inr (), u)"
    and "\<forall>s \<in> set (servers u). sv_id s = sv_id srv \<longrightarrow> sv_status s = st" by blast
  with run assms show "reports (sv_id srv) rep w'" by (auto simp: conclude_def bnd_attempt ret_def reports_def)
qed

lemma disconnected_reports: "yields calm (reports (sv_id srv)) (disconnected srv cs n m v)"
  unfolding disconnected_def by (rule conclude_reports) (simp_all add: failed_check_def)

lemma calm_reads: "moves only_step m \<Longrightarrow> moves (keeps calm) m"
  by (rule clm.frame_read)

lemma version_step_reports: "list_all ck_OK cs \<Longrightarrow> yields calm (reports (sv_id srv)) (version_step mc srv p cs s)"
  unfolding version_step_def
  by (intro yields_bnd yields_rules conclude_reports disconnected_reports calm_reads server_reads) (simp_all add: passed_def)

lemma testLocal_reports: "yields calm (reports (sv_id srv)) (testLocal mc srv)"
  unfolding testLocal_def Let_def
  by (intro yields_bnd yields_rules disconnected_reports version_step_reports clm.frame_attempt calm_reads server_reads) (simp add: passed_def)

lemma updateHostKey_calm: "moves (keeps calm) (updateHostKey i fp)"
  unfolding updateHostKey_def
  by (intro clm.frame_rules clm.frame_exec) (auto simp: keeps_def calm_def quiet_def update_servers_def checked_Inr_iff)

lemma ssh_step_calm: "moves (keeps calm) (ssh_step mc srv h u k)"
  unfolding ssh_step_def Connect_def Callback_def by (intro clm.frame_rules moves_intro updateHostKey_calm)

lemma testRemote_reports: "yields calm (reports (sv_id srv)) (testRemote mc srv)"
  unfolding testRemote_def auth_step_def docker_step_def
  by (intro yields_bnd yields_rules disconnected_reports version_step_reports clm.frame_attempt ssh_step_calm clm.frame_draw calm_reads server_reads)
    (simp_all add: passed_def)

text \<open>
  The report of a connection test says connected exactly when every check of it passed, disconnected
  otherwise, and the stored status of the machine is the one the report gives.
\<close>

theorem TestConnection_reports:
  assumes "TestConnection mc i w = (Inr rep, w')" and "quiet w" and "schema_ok w"
  shows "tr_Status rep \<in> {''connected'', ''disconnected''} \<and>
    (tr_Status rep = ''connected'' \<longleftrightarrow> list_all ck_OK (tr_Checks rep)) \<and>
    (\<forall>v \<in> set (servers w'). sv_id v = i \<longrightarrow> sv_status v = tr_Status rep)"
proof -
  from assms(1) obtain srv v where g: "server_get i w = (Inr srv, v)"
    and t: "(if sv_type srv = ''local'' then testLocal mc srv else testRemote mc srv) v = (Inr rep, w')"
    by (auto simp: TestConnection_def bnd_eq_Inr_iff)
  note srv = server_get_Inr [OF g]
  then have "calm v" "sv_id srv = i" using assms(2,3) by (auto simp: calm_def quiet_def find_Some_iff)
  then have "reports i rep w'"
    using t testLocal_reports [of srv mc] testRemote_reports [of srv mc] by (auto dest: yieldsD split: if_splits)
  then show ?thesis unfolding reports_def .
qed

section \<open>The status pass\<close>

text \<open>A machine that was not disconnected before the pass and is now has no app that claims to be reachable.\<close>

definition down_shown :: "server_row \<Rightarrow> 'x db_scheme \<Rightarrow> bool" where
  "down_shown v w \<longleftrightarrow>
     (\<forall>v' \<in> set (servers w). sv_id v' = sv_id v \<and> sv_status v' = ''disconnected'' \<and> sv_status v \<noteq> ''disconnected'' \<longrightarrow>
        (\<forall>a \<in> set (apps w). a_server_id a = Some (sv_id v) \<longrightarrow> a_status a = ''unreachable''))"

interpretation stl: frame "keeps (down_shown v)" for v
  by (rule frame_keeps) (simp add: down_shown_def)

lemma updateStatus_settled:
  assumes "sv_id v \<noteq> i"
  shows "moves (keeps (down_shown v)) (server_updateStatus i st ver)"
  unfolding server_updateStatus_def
proof (intro stl.frame_rules stl.frame_exec)
  fix now w n w'
  assume "update_servers (\<lambda>s. sv_id s = i)
    (\<lambda>s. s\<lparr>sv_status := st, sv_docker_version := ver, sv_last_checked_at := Some (unix now)\<rparr>) w = Inr (n, w')"
  then have "v' \<in> set (servers w') \<and> sv_id v' = sv_id v \<Longrightarrow> v' \<in> set (servers w)" "apps w' = apps w" for v'
    using assms by (auto simp: update_servers_def checked_Inr_iff set_update_where split: if_splits)
  then show "keeps (down_shown v) w w'" unfolding keeps_def down_shown_def by metis
qed

lemma markApps_settled: "moves (keeps (down_shown v)) (markAppsUnreachable i)"
  unfolding markAppsUnreachable_def
  by (intro stl.frame_rules stl.frame_exec)
    (auto simp: keeps_def down_shown_def update_apps_def checked_Inr_iff set_update_where split: if_splits)

lemma probe_keeps_settled: "sv_id v \<noteq> sv_id srv \<Longrightarrow> moves (keeps (down_shown v)) (probe_server mc srv)"
  unfolding probe_server_def
  by (intro stl.frame_rules moves_intro updateStatus_settled markApps_settled stl.frame_read [OF server_reads(5)])

lemma markApps_calm:
  assumes "calm w"
  shows "\<exists>w'. markAppsUnreachable i w = (Inr (), w') \<and> calm w' \<and> servers w' = servers w \<and>
    (\<forall>a \<in> set (apps w'). a_server_id a = Some i \<longrightarrow> a_status a = ''unreachable'')"
proof -
  define p :: "app_row \<Rightarrow> bool" where "p = (\<lambda>a. a_server_id a = Some i \<and> a_status a \<noteq> ''unreachable'')"
  define f :: "app_row \<Rightarrow> app_row" where "f = (\<lambda>a. if p a then a\<lparr>a_status := ''unreachable'', a_updated_at := unixepoch w\<rparr> else a)"
  have "schema_ok (w\<lparr>apps := map f (apps w)\<rparr>)"
    using assms by (intro schema_ok_apps) (simp_all add: calm_def f_def)
  then have "markAppsUnreachable i w = (Inr (), tick (w\<lparr>apps := map f (apps w)\<rparr>))" "calm (tick (w\<lparr>apps := map f (apps w)\<rparr>))"
    using assms by (simp_all add: markAppsUnreachable_def bnd_def db_exec_def update_apps_def update_where_def checked_ok ret_def calm_def quiet_def
        f_def p_def)
  moreover have "a_server_id (f a) = Some i \<Longrightarrow> a_status (f a) = ''unreachable''" for a by (auto simp: f_def p_def split: if_splits)
  ultimately show ?thesis by auto
qed

lemma probe_settles:
  assumes "calm w"
  shows "\<exists>w'. probe_server mc srv w = (Inr (), w') \<and> calm w' \<and> down_shown srv w'"
proof -
  obtain r v where ping: "ping mc srv w = (r, v)" by (cases "ping mc srv w")
  have "raises (\<lambda>_. False) (ping mc srv)"
    unfolding ping_def ping_provider_def docker_Version_def by (intro raises_intro)
  then obtain st ver where r: "r = Inr (st, ver)" using ping raisesD by (cases r) fastforce+
  have "calm v" by (rule keepsD [OF calm_reads [OF server_reads(5)] assms ping])
  from updateStatus_calm [OF this] obtain u where u: "server_updateStatus (sv_id srv) st ver v = (Inr (), u)" "calm u"
    "\<forall>s \<in> set (servers u). sv_id s = sv_id srv \<longrightarrow> sv_status s = st" by blast
  obtain x where x: "markAppsUnreachable (sv_id srv) u = (Inr (), x)" "calm x" "servers x = servers u"
    "\<forall>a \<in> set (apps x). a_server_id a = Some (sv_id srv) \<longrightarrow> a_status a = ''unreachable''"
    using markApps_calm [OF u(2)] by blast
  show ?thesis
  proof (cases "st = ''disconnected'' \<and> sv_status srv \<noteq> ''disconnected''")
    case True
    have "down_shown srv x" using x(4) by (simp add: down_shown_def)
    with True ping r u(1) x(1,2) show ?thesis by (simp add: probe_server_def bnd_def attempt_def ret_def)
  next
    case False
    have "down_shown srv u" using u(3) False by (auto simp: down_shown_def)
    with False ping r u(1,2) show ?thesis by (auto simp: probe_server_def bnd_def attempt_def ret_def)
  qed
qed

lemma probes_settle:
  "calm w \<Longrightarrow> distinct (map sv_id rows) \<Longrightarrow> list_all (\<lambda>v. down_shown v w) done \<Longrightarrow> sv_id ` set done \<inter> sv_id ` set rows = {} \<Longrightarrow>
     \<exists>w'. for_each (probe_server mc) rows w = (Inr (), w') \<and> calm w' \<and> list_all (\<lambda>v. down_shown v w') (done @ rows)"
proof (induction rows arbitrary: w "done")
  case (Cons srv rows)
  obtain u where u: "probe_server mc srv w = (Inr (), u)" "calm u" "down_shown srv u" using probe_settles [OF Cons.prems(1)] by blast
  have "down_shown v u" if v: "v \<in> set done" for v
  proof -
    have "sv_id v \<noteq> sv_id srv" using imageI [OF v, of sv_id] Cons.prems(4) by auto
    moreover have "down_shown v w" using v Cons.prems(3) by (simp add: list_all_iff)
    ultimately show ?thesis using keepsD [OF probe_keeps_settled _ u(1)] by blast
  qed
  then have "list_all (\<lambda>v. down_shown v u) (done @ [srv])" using u(3) by (simp add: list_all_iff)
  moreover have "sv_id ` set (done @ [srv]) \<inter> sv_id ` set rows = {}" using Cons.prems(2,4) by auto
  ultimately show ?case using Cons.IH [OF u(2), of "done @ [srv]"] Cons.prems(2) u(1) by (auto simp: bnd_def)
qed (simp add: ret_def)

text \<open>
  One pass of the status loop over a healthy database ends without an error, and every app on a machine the
  pass found disconnected, and that was not before, is marked unreachable.
\<close>

theorem runOnce_settles:
  assumes "quiet w" and "schema_ok w"
  shows "\<exists>w'. runOnce mc w = (Inr (), w') \<and> schema_ok w' \<and>
    (\<forall>v \<in> set (servers w). \<forall>v' \<in> set (servers w'). \<forall>a \<in> set (apps w').
       sv_id v' = sv_id v \<and> sv_status v \<noteq> ''disconnected'' \<and> sv_status v' = ''disconnected'' \<and> a_server_id a = Some (sv_id v) \<longrightarrow>
       a_status a = ''unreachable'')"
proof -
  have "calm (tick w)" using assms by (simp add: calm_def quiet_def)
  moreover have "distinct (map sv_id (servers w))" using assms(2) by (simp add: schema_ok_def unique_ok_def deploy_unique_ok_def)
  then have "distinct (map sv_id (sort_key sv_created_at (servers w)))" by (simp add: distinct_map)
  ultimately obtain w' where run: "for_each (probe_server mc) (sort_key sv_created_at (servers w)) (tick w) = (Inr (), w')"
    and "calm w'" and "list_all (\<lambda>v. down_shown v w') (sort_key sv_created_at (servers w))"
    using probes_settle [of "tick w" "sort_key sv_created_at (servers w)" "[]" mc] by auto
  moreover have "runOnce mc w = (Inr (), w')"
    using run assms(1) by (simp add: runOnce_def server_list_def bnd_def attempt_def db_query_def quiet_def)
  ultimately show ?thesis by (auto simp: calm_def down_shown_def list_all_iff)
qed

section \<open>One local machine\<close>

definition locals :: "'x db_scheme \<Rightarrow> nat" where
  "locals w = affected (\<lambda>v. sv_type v = ''local'') (servers w)"

interpretation lc: frame "keeps (\<lambda>w. locals w \<le> n)" for n
  by (rule frame_keeps) (simp add: locals_def)

lemma lc_update: "(\<And>v. sv_type (g v) = sv_type v) \<Longrightarrow> moves (keeps (\<lambda>w. locals w \<le> n)) (db_exec (update_servers q g))"
  by (rule lc.frame_exec)
    (simp add: keeps_def locals_def update_servers_def checked_Inr_iff affected_def update_where_def filter_map comp_def if_distrib cong: if_cong)

lemma lc_tests:
  "moves (keeps (\<lambda>w. locals w \<le> n)) (server_updateStatus i st v)" "moves (keeps (\<lambda>w. locals w \<le> n)) (updateHostKey i fp)"
  unfolding server_updateStatus_def updateHostKey_def by (intro lc.frame_rules lc_update; simp)+

lemma lc_TestConnection: "moves (keeps (\<lambda>w. locals w \<le> n)) (TestConnection mc i)"
  unfolding TestConnection_def testLocal_def Let_def testRemote_def auth_step_def docker_step_def version_step_def disconnected_def conclude_def
    ssh_step_def Connect_def Callback_def
  by (intro lc.frame_rules moves_intro lc_tests lc.frame_read [OF server_reads(1)] lc.frame_read [OF server_reads(2)]
      lc.frame_read [OF server_reads(3)] lc.frame_read [OF server_reads(4)] lc.frame_read [OF service_reads(5)])

lemma fewer_left: "length (filter p (filter q xs)) \<le> length (filter p xs)"
  by (induction xs) auto

lemma lc_others:
  "moves (keeps (\<lambda>w. locals w \<le> n)) (server_Update j p)" "moves (keeps (\<lambda>w. locals w \<le> n)) (server_Delete j)"
  "moves (keeps (\<lambda>w. locals w \<le> n)) (runOnce mc)"
proof -
  show "moves (keeps (\<lambda>w. locals w \<le> n)) (server_Update j p)"
    unfolding server_Update_def updatePatch_def in_use_def
    by (intro lc.frame_rules moves_intro lc.frame_read [OF service_reads(5)] lc_update) (simp add: patch_sets_server_def split: option.split)
  show "moves (keeps (\<lambda>w. locals w \<le> n)) (server_Delete j)"
    unfolding server_Delete_def server_delete_def
    by (intro lc.frame_rules moves_intro lc.frame_exec)
      (auto simp: keeps_def locals_def affected_def delete_servers_def checked_Inr_iff simp del: filter_filter intro: le_trans [OF fewer_left])
  show "moves (keeps (\<lambda>w. locals w \<le> n)) (runOnce mc)"
    unfolding runOnce_def probe_server_def markAppsUnreachable_def
    by (intro lc.frame_rules moves_intro lc_tests lc.frame_read [OF server_reads(5)] lc.frame_read [OF server_reads(6)] lc.frame_exec)
      (auto simp: keeps_def locals_def update_apps_def checked_Inr_iff)
qed

lemma lc_insert:
  "sv_type r = ''remote'' \<Longrightarrow> moves (keeps (\<lambda>w. locals w \<le> n)) (server_insert r)"
  unfolding server_insert_def in_use_def
  by (intro lc.frame_rules moves_intro lc.frame_exec) (auto simp: keeps_def locals_def affected_def insert_server_def checked_Inr_iff)

lemma createRemote_locals: "moves (keeps (\<lambda>w. locals w \<le> n)) (createRemote mc name inp)"
  unfolding createRemote_def Let_def
  by (intro lc.frame_rules moves_intro lc_insert lc.frame_read [OF server_reads(7)] lc.frame_read [OF server_reads(8)] lc.frame_read [OF service_reads(5)])
    (simp add: remote_row_def)

lemma insert_local: "brings (\<lambda>w. locals w \<le> n) (\<lambda>w. locals w \<le> Suc n) (server_insert r)"
  by (auto simp: brings_def server_insert_def in_use_def bnd_def attempt_def db_exec_def ret_def fail_def insert_server_def checked_Inr_iff
      locals_def affected_def split: sum.split prod.split if_splits)

lemma createLocal_locals:
  fixes w :: "'x db_scheme"
  assumes "locals w \<le> 1"
  shows "locals (snd (createLocal mc name w)) \<le> 1"
proof (cases "o_fault (orc w) (stp w) \<or> locals w > 0")
  case True
  then show ?thesis
    using assms by (auto simp: createLocal_def countLocal_def bnd_def wrapping_def db_query_def fail_def locals_def)
next
  case False
  define rest :: "('x, Server) dbm" where "rest =
    (let p = NewLocalProvider name
     in bnd (wrapping ''docker unreachable'' (docker_Info mc p)) (\<lambda>_.
        bnd (docker_Version mc p) (\<lambda>(v, err).
        case err of
          Some e \<Rightarrow> fail (ErrWrap ''docker version'' e)
        | None \<Rightarrow>
            bnd time_now (\<lambda>now.
            bnd new_uuid (\<lambda>i.
            bnd (server_insert (local_row i name (fst v) now)) (\<lambda>_.
            bnd (server_get i) (\<lambda>row. ret (scanServer row))))))))"
  have "brings (\<lambda>w. locals w \<le> 0) (\<lambda>w. locals w \<le> Suc 0) rest"
    unfolding rest_def Let_def
    by (intro brings_after [OF insert_local] brings_before brings_case brings_fail lc.frame_time lc.frame_uuid lc.frame_wrapping lc.frame_read [OF server_reads(1)] lc.frame_read [OF server_reads(2)]
        lc.frame_rules lc.frame_read [OF service_reads(5)]) auto
  moreover have "createLocal mc name w = rest (tick w)"
    using False by (simp add: createLocal_def countLocal_def bnd_def [of "wrapping ''count local'' x" for x] wrapping_def db_query_def rest_def locals_def)
  ultimately show ?thesis using False by (simp add: brings_def locals_def)
qed

lemma server_call_locals: "locals w \<le> 1 \<Longrightarrow> locals (server_call_run mc c w) \<le> 1"
proof (cases c)
  case (SCreate inp)
  assume "locals w \<le> 1"
  with SCreate show ?thesis
    using createLocal_locals [of w mc] keeps_snd [OF createRemote_locals, of w 1 mc]
    by (auto simp: server_call_run_def server_Create_def Let_def fail_def)
qed (simp_all add: server_call_run_def keeps_snd [OF lc_others(1)] keeps_snd [OF lc_others(2)] keeps_snd [OF lc_others(3)] keeps_snd [OF lc_TestConnection])

text \<open>
  Calls that come one after the other never register a second local machine.
\<close>

theorem one_local_server:
  assumes "affected (\<lambda>v. sv_type v = ''local'') (servers w) \<le> 1"
  shows "affected (\<lambda>v. sv_type v = ''local'') (servers (fold (server_call_run mc) calls w)) \<le> 1"
proof -
  have "locals w \<le> 1 \<Longrightarrow> locals (fold (server_call_run mc) calls w) \<le> 1"
    by (induction calls arbitrary: w) (simp_all add: server_call_locals [simplified])
  then show ?thesis using assms by (simp add: locals_def)
qed

section \<open>Versions\<close>

text \<open>
  The version check is the lexicographic order on the numbers of the versions, the shorter one filled up
  with zeros.
\<close>

theorem at_least_lexicographic:
  "versionAtLeast got want \<longleftrightarrow>
     parseDottedVersion want \<le> take (length (parseDottedVersion want)) (parseDottedVersion got @ replicate (length (parseDottedVersion want)) 0)"
proof -
  have "at_least gp ws \<longleftrightarrow> ws \<le> take (length ws) (gp @ replicate (length ws) 0)" for gp ws
  proof (induction ws arbitrary: gp)
    case (Cons x ws)
    note IH = this
    show ?case
    proof (cases gp)
      case Nil
      then show ?thesis using IH [of "[]"] by (auto simp: Let_def)
    next
      case (Cons g gs)
      have "take (length ws) (gs @ replicate (Suc (length ws)) 0) = take (length ws) (gs @ replicate (length ws) 0)"
        by (simp add: replicate_append_same [symmetric])
      with Cons show ?thesis using IH [of gs] by (auto simp: Let_def)
    qed
  qed simp
  then show ?thesis by (simp add: versionAtLeast_def)
qed

section \<open>A machine\<close>

definition fx_machines :: "string \<Rightarrow> string \<Rightarrow> unit machines" where
  "fx_machines fp version =
     \<lparr>mc_Client = (\<lambda>_ _. Inr ()), mc_Info = (\<lambda>_ _. Inr ()), mc_ServerVersion = (\<lambda>_ _. Inr (version, ''1.43'')),
      mc_LookupHost = (\<lambda>_ _. Inr ()), mc_Dial = (\<lambda>_ _ _. Inr ()), mc_HostKey = (\<lambda>_ _ _. Inr fp),
      mc_Authenticate = (\<lambda>_ _ _ _ _. Inr ()), mc_ParsePrivateKey = (\<lambda>_. Inr ()), mc_MarshalAuthorizedKey = (\<lambda>_. ''ssh-ed25519''),
      mc_GenerateEd25519 = (\<lambda>_. Inr ([1, 2], ''ssh-ed25519'')), mc_writeKeyFile = (\<lambda>_. Inr ()), mc_cipher = fx_cipher\<rparr>"

definition fx_remote :: server_row where
  "fx_remote = fx_server\<lparr>sv_id := ''s9'', sv_name := ''edge'', sv_type := ''remote'', sv_host := Some ''edge.example'', sv_user := Some ''root'',
     sv_private_key := Some (replicate 12 0 @ aead_Seal fx_cipher (replicate 12 0) [7]), sv_host_key_fingerprint := Some ''SHA256:k''\<rparr>"

definition fx_fleet :: db where
  "fx_fleet = fx_db\<lparr>servers := [fx_remote], apps := [(fx_app ''a1'' ''web'')\<lparr>a_server_id := Some ''s9'', a_status := ''running''\<rparr>]\<rparr>"

lemma fx_fleet_ok: "schema_ok fx_fleet" "quiet fx_fleet"
  by code_simp (simp add: quiet_def fx_fleet_def)

lemma fx_fleet_pinned: "pinned ''s9'' ''SHA256:k'' fx_fleet"
  by (simp add: pinned_def fx_fleet_def fx_remote_def fx_db_def quiet_env_def)

theorem host_key_pinned_witness:
  "pinned ''s9'' ''SHA256:k'' (fold (server_call_run (fx_machines ''SHA256:other'' ''24.0.7'')) [STest ''s9'', SRunOnce] fx_fleet)"
  by (rule conjunct1 [OF host_key_pinned [OF fx_fleet_pinned _ refl]]) simp

lemma fx_test:
  "case fst (TestConnection (fx_machines ''SHA256:k'' ''24.0.7'') ''s1'' fx_apps) of Inr rep \<Rightarrow> list_all ck_OK (tr_Checks rep) | Inl _ \<Rightarrow> False"
  by code_simp

theorem TestConnection_reports_witness:
  "\<exists>rep. fst (TestConnection (fx_machines ''SHA256:k'' ''24.0.7'') ''s1'' fx_apps) = Inr rep \<and> tr_Status rep = ''connected''"
proof -
  obtain rep where rep: "fst (TestConnection (fx_machines ''SHA256:k'' ''24.0.7'') ''s1'' fx_apps) = Inr rep" and "list_all ck_OK (tr_Checks rep)"
    using fx_test by (cases "fst (TestConnection (fx_machines ''SHA256:k'' ''24.0.7'') ''s1'' fx_apps)") simp_all
  moreover have "quiet fx_apps" by (simp add: quiet_def fx_apps_def)
  ultimately show ?thesis using TestConnection_reports [OF fst_result [OF rep] _ fx_apps_schema] by blast
qed

text \<open>An engine that is too old: the pass marks the machine disconnected and its app unreachable.\<close>

lemma fx_pass:
  "map sv_status (servers (snd (runOnce (fx_machines ''SHA256:k'' ''19.3'') fx_fleet))) = [''disconnected'']"
  "map a_status (apps (snd (runOnce (fx_machines ''SHA256:k'' ''19.3'') fx_fleet))) = [''unreachable'']"
  by code_simp+

theorem runOnce_settles_witness:
  "\<exists>w'. runOnce (fx_machines ''SHA256:k'' ''19.3'') fx_fleet = (Inr (), w') \<and> schema_ok w' \<and> map a_status (apps w') = [''unreachable'']"
proof -
  obtain w' where w: "runOnce (fx_machines ''SHA256:k'' ''19.3'') fx_fleet = (Inr (), w')" and ok: "schema_ok w'"
    using runOnce_settles [OF fx_fleet_ok(2,1), of "fx_machines ''SHA256:k'' ''19.3''"] by (elim exE conjE)
  from fx_pass(2) have "map a_status (apps w') = [''unreachable'']" unfolding w snd_conv .
  with w ok show ?thesis by (intro exI [of _ w'] conjI)
qed

theorem one_local_server_witness:
  "affected (\<lambda>v. sv_type v = ''local'') (servers (fold (server_call_run (fx_machines ''k'' ''24.0''))
     [SCreate \<lparr>si_Type = ''local'', si_Name = ''a'', si_Host = [], si_Port = 0, si_User = [], si_GenerateKey = False, si_PrivateKey = []\<rparr>,
      SCreate \<lparr>si_Type = ''local'', si_Name = ''b'', si_Host = [], si_Port = 0, si_User = [], si_GenerateKey = False, si_PrivateKey = []\<rparr>] fx_db)) \<le> 1"
  by (rule one_local_server) (simp add: affected_def fx_db_def)

end
