(* ===== verification/AppCleanup.thy ===== *)
theory AppCleanup
  imports Deploy_Containers App_Props
begin

text \<open>
  The clean-up after an app is deleted (\<open>internal/appcleanup/worker.go\<close>): a bounded queue of tasks drained by one
  goroutine, and what one task does to the proxy, to the container engine and to the log files. The queue is a
  step relation, because requests submit while the goroutine works and another goroutine may stop it. The files
  of the log directory are part of the state; \<open>cl_Remove\<close> says whether the removal of a path fails. The deadline of a task is the context of its calls, whose
  errors the engine and the proxy answer with.
\<close>

section \<open>Volumes of the container engine\<close>

record 'd volume_api =
  va_VolumeList :: "provider \<Rightarrow> string list \<Rightarrow> ('d, string list) call"
  va_VolumeRemove :: "provider \<Rightarrow> string \<Rightarrow> bool \<Rightarrow> ('d, unit) call"

definition ListVolumes ::
  "'d moby \<Rightarrow> 'd volume_api \<Rightarrow> provider \<Rightarrow> (string \<times> string) list \<Rightarrow> ('d, 'c, 'x, string list) hostm" where
  "ListVolumes mb va p labels =
     bnd (on_docker (mb_Client mb p)) (\<lambda>_.
     wrapping ''docker: list volumes''
       (on_docker (va_VolumeList va p (map (\<lambda>(k, v). if v = [] then k else k @ ''='' @ v) labels))))"

definition RemoveVolume :: "'d moby \<Rightarrow> 'd volume_api \<Rightarrow> provider \<Rightarrow> string \<Rightarrow> bool \<Rightarrow> ('d, 'c, 'x, unit) hostm" where
  "RemoveVolume mb va p name force =
     bnd (on_docker (mb_Client mb p)) (\<lambda>_.
     bnd (attempt (on_docker (va_VolumeRemove va p name force))) (\<lambda>r.
     case r of
       Inl e \<Rightarrow> (if mb_IsErrNotFound mb e then ret () else fail (ErrWrap ''docker: remove volume'' e))
     | Inr _ \<Rightarrow> ret ()))"

section \<open>One task\<close>

record Task =
  tk_AppID :: string
  tk_AppName :: string
  tk_ServerID :: string
  tk_Domains :: "string list"
  tk_DeploymentIDs :: "string list"

record ('d, 'c) Worker =
  cl_moby :: "'d moby"
  cl_volumes :: "'d volume_api"
  cl_servers :: "((nat \<Rightarrow> err + unit) \<times> aead) option"
  cl_caddy :: "('c http \<times> (string \<Rightarrow> nat list)) option"
  cl_logDir :: string
  cl_Remove :: "string \<Rightarrow> nat \<Rightarrow> err + unit"

record ('d, 'c) diskdb = "('d, 'c) hostdb" +
  files :: "string list"

definition cleanupCaddy :: "('d, 'c) Worker \<Rightarrow> Task \<Rightarrow> ('d, 'c, 'x, unit) hostm" where
  "cleanupCaddy cl t =
     (case cl_caddy cl of
        None \<Rightarrow> ret ()
      | Some (http, sha) \<Rightarrow>
          for_each (\<lambda>host.
            if trim_space host = [] then ret ()
            else bnd (attempt (RemoveRoute http sha host)) (\<lambda>_. ret ())) (tk_Domains t))"

text \<open>The name of a listed container: its first name, without the leading slash.\<close>

definition listed_name :: "listed_container \<Rightarrow> string" where
  "listed_name c =
     (case lc_Names c of [] \<Rightarrow> [] | n # _ \<Rightarrow> (if prefix ''/'' n then tl n else n))"

definition remove_listed :: "('d, 'c) Worker \<Rightarrow> provider \<Rightarrow> listed_container \<Rightarrow> ('d, 'c, 'x, unit) hostm" where
  "remove_listed cl p c =
     (let name = listed_name c
      in if name = [] then ret ()
         else
           bnd (attempt (StopContainer (cl_moby cl) p name (5 * second))) (\<lambda>_.
           bnd (attempt (RemoveContainer (cl_moby cl) p name True)) (\<lambda>_.
           ret ())))"

definition cleanup_containers :: "('d, 'c) Worker \<Rightarrow> provider \<Rightarrow> Task \<Rightarrow> ('d, 'c, 'x, unit) hostm" where
  "cleanup_containers cl p t =
     bnd (attempt (ListContainers (cl_moby cl) p [(''label'', ''prexel.app_id='' @ tk_AppID t)])) (\<lambda>r.
     case r of Inl _ \<Rightarrow> ret () | Inr cs \<Rightarrow> for_each (remove_listed cl p) cs)"

text \<open>The references the clean-up takes for the app's images, each once, in the order they are listed.\<close>

definition app_images :: "string \<Rightarrow> listed_image list \<Rightarrow> string list" where
  "app_images appName imgs =
     rev (remdups (rev (filter (prefix (''prexel-'' @ appName @ ''-'')) (concat (map li_RepoTags imgs)))))"

definition cleanup_images :: "('d, 'c) Worker \<Rightarrow> provider \<Rightarrow> Task \<Rightarrow> ('d, 'c, 'x, unit) hostm" where
  "cleanup_images cl p t =
     bnd (attempt (on_docker (mb_ImageList (cl_moby cl) p))) (\<lambda>r.
     case r of
       Inl _ \<Rightarrow> ret ()
     | Inr imgs \<Rightarrow>
         for_each (\<lambda>ref. bnd (attempt (RemoveImage (cl_moby cl) p ref)) (\<lambda>_. ret ())) (app_images (tk_AppName t) imgs))"

definition cleanup_volumes :: "('d, 'c) Worker \<Rightarrow> provider \<Rightarrow> Task \<Rightarrow> ('d, 'c, 'x, unit) hostm" where
  "cleanup_volumes cl p t =
     bnd (attempt (ListVolumes (cl_moby cl) (cl_volumes cl) p [(''prexel.app_id'', tk_AppID t)])) (\<lambda>r.
     case r of
       Inl _ \<Rightarrow> ret ()
     | Inr vs \<Rightarrow>
         for_each (\<lambda>v. bnd (attempt (RemoveVolume (cl_moby cl) (cl_volumes cl) p v True)) (\<lambda>_. ret ())) vs)"

definition cleanupDocker :: "('d, 'c) Worker \<Rightarrow> Task \<Rightarrow> ('d, 'c, 'x, unit) hostm" where
  "cleanupDocker cl t =
     (case cl_servers cl of
        None \<Rightarrow> ret ()
      | Some (writeKeyFile, cipher) \<Rightarrow>
          if tk_ServerID t = [] then ret ()
          else
            bnd (attempt (Provider writeKeyFile cipher (tk_ServerID t))) (\<lambda>r.
            case r of
              Inl _ \<Rightarrow> ret ()
            | Inr p \<Rightarrow>
                bnd (cleanup_containers cl p t) (\<lambda>_.
                bnd (attempt (on_docker (mb_Client (cl_moby cl) p))) (\<lambda>r.
                case r of
                  Inl _ \<Rightarrow> ret ()
                | Inr _ \<Rightarrow>
                    bnd (cleanup_images cl p t) (\<lambda>_.
                    cleanup_volumes cl p t)))))"

definition log_path :: "string \<Rightarrow> string \<Rightarrow> string" where
  "log_path dir i = path_join dir (i @ ''.log'')"

definition remove_log :: "('d, 'c) Worker \<Rightarrow> string \<Rightarrow> ('d, 'c, 'z diskdb_ext, unit) hostm" where
  "remove_log cl raw =
     (let i = trim_space raw
      in if i = [] \<or> CHR ''/'' \<in> set i \<or> CHR 0x5C \<in> set i then ret ()
         else
           bnd (attempt (draw (cl_Remove cl (log_path (cl_logDir cl) i)))) (\<lambda>r.
           case r of
             Inl _ \<Rightarrow> ret ()
           | Inr _ \<Rightarrow> access (\<lambda>w. ((), w\<lparr>files := filter (\<lambda>f. f \<noteq> log_path (cl_logDir cl) i) (files w)\<rparr>))))"

definition cleanupLogFiles :: "('d, 'c) Worker \<Rightarrow> Task \<Rightarrow> ('d, 'c, 'z diskdb_ext, unit) hostm" where
  "cleanupLogFiles cl t =
     (if cl_logDir cl = [] then ret () else for_each (remove_log cl) (tk_DeploymentIDs t))"

definition run_task :: "('d, 'c) Worker \<Rightarrow> Task \<Rightarrow> ('d, 'c, 'z diskdb_ext, unit) hostm" where
  "run_task cl t =
     bnd (cleanupCaddy cl t) (\<lambda>_.
     bnd (cleanupDocker cl t) (\<lambda>_.
     cleanupLogFiles cl t))"

section \<open>The queue\<close>

definition ErrQueueFull :: err where
  "ErrQueueFull = ErrNew ''appcleanup: queue full''"

definition queue_capacity :: "int \<Rightarrow> nat" where
  "queue_capacity queueSize = (if queueSize \<le> 0 then 64 else nat queueSize)"

text \<open>
  The inbox, whether it was told to stop, whether the goroutine still runs, and, to state what happened, the
  tasks taken so far and the tasks that were accepted, both in order.
\<close>

record queue =
  q_inbox :: "Task list"
  q_stop :: bool
  q_alive :: bool
  q_run :: "Task list"
  q_accepted :: "Task list"

definition Submit :: "nat \<Rightarrow> Task \<Rightarrow> queue \<Rightarrow> (err + unit) \<times> queue" where
  "Submit cap t q =
     (if tk_AppID t = [] then (Inl (ErrNew ''appcleanup: empty AppID''), q)
      else if length (q_inbox q) < cap
      then (Inr (), q\<lparr>q_inbox := q_inbox q @ [t], q_accepted := q_accepted q @ [t]\<rparr>)
      else (Inl ErrQueueFull, q))"

definition worker_Stop :: "queue \<Rightarrow> queue" where
  "worker_Stop q = q\<lparr>q_stop := True\<rparr>"

text \<open>
  One turn of the goroutine. With a task waiting it is taken, on the normal path as on the path that drains the
  inbox after a stop; with none, a goroutine told to stop ends and another waits.
\<close>

definition loop_turn :: "queue \<Rightarrow> queue" where
  "loop_turn q =
     (if \<not> q_alive q then q
      else case q_inbox q of
          t # ts \<Rightarrow> q\<lparr>q_inbox := ts, q_run := q_run q @ [t]\<rparr>
        | [] \<Rightarrow> (if q_stop q then q\<lparr>q_alive := False\<rparr> else q))"

inductive queue_step :: "nat \<Rightarrow> queue \<Rightarrow> queue \<Rightarrow> bool" for cap where
  submit: "queue_step cap q (snd (Submit cap t q))"
| stop: "queue_step cap q (worker_Stop q)"
| turn: "queue_step cap q (loop_turn q)"

inductive_cases queue_stepE: "queue_step cap q q'"

definition started :: queue where
  "started = \<lparr>q_inbox = [], q_stop = False, q_alive = True, q_run = [], q_accepted = []\<rparr>"

section \<open>The queue is first in, first out, and drained\<close>

definition queue_ok :: "nat \<Rightarrow> queue \<Rightarrow> bool" where
  "queue_ok cap q \<longleftrightarrow> q_accepted q = q_run q @ q_inbox q \<and> length (q_inbox q) \<le> cap \<and> (\<not> q_alive q \<longrightarrow> q_stop q)"

lemma queue_step_ok: "queue_step cap q q' \<Longrightarrow> queue_ok cap q \<Longrightarrow> queue_ok cap q'"
  by (erule queue_stepE) (auto simp: queue_ok_def Submit_def worker_Stop_def loop_turn_def split: list.split)

lemma queue_run_ok: "(queue_step cap)\<^sup>*\<^sup>* q q' \<Longrightarrow> queue_ok cap q \<Longrightarrow> queue_ok cap q'"
  by (induction rule: rtranclp_induct) (auto intro: queue_step_ok)

text \<open>A worker told to stop needs one turn per waiting task and one more to end.\<close>

lemma drain:
  "queue_ok cap q \<Longrightarrow> q_alive q \<Longrightarrow> q_stop q \<Longrightarrow>
     (loop_turn ^^ Suc (length (q_inbox q))) q = q\<lparr>q_inbox := [], q_run := q_accepted q, q_alive := False\<rparr>"
proof (induction "q_inbox q" arbitrary: q)
  case Nil
  then show ?case by (simp add: loop_turn_def queue_ok_def split: list.split)
next
  case (Cons t ts)
  from Cons.hyps(2) [symmetric] Cons.prems have turn: "loop_turn q = q\<lparr>q_inbox := ts, q_run := q_run q @ [t]\<rparr>" (is "_ = ?q")
    by (simp add: loop_turn_def)
  have "queue_ok cap ?q" using Cons.prems(1) by (simp add: queue_ok_def Cons.hyps(2) [symmetric])
  with Cons.hyps(1) [of ?q] Cons.prems have "(loop_turn ^^ Suc (length ts)) ?q = ?q\<lparr>q_inbox := [], q_run := q_accepted q, q_alive := False\<rparr>"
    by simp
  moreover have "(loop_turn ^^ Suc (length (q_inbox q))) q = (loop_turn ^^ Suc (length ts)) (loop_turn q)"
    by (simp only: Cons.hyps(2) [symmetric] list.size(4) add_Suc_right add_0_right funpow_Suc_right comp_def)
  ultimately show ?case by (simp add: turn)
qed

text \<open>
  C21. However submissions, turns of the goroutine and a stop interleave, the inbox stays within its capacity and
  tasks run in the order they were accepted, none twice and none skipped; and once a stop was requested, as many
  turns as there are waiting tasks and one more have run every accepted task and ended the goroutine.
\<close>

theorem queue_fifo:
  assumes "(queue_step cap)\<^sup>*\<^sup>* started q"
  shows "q_accepted q = q_run q @ q_inbox q \<and> length (q_inbox q) \<le> cap \<and>
    (q_alive q \<and> q_stop q \<longrightarrow>
       q_run ((loop_turn ^^ Suc (length (q_inbox q))) q) = q_accepted q \<and> \<not> q_alive ((loop_turn ^^ Suc (length (q_inbox q))) q))"
proof -
  have "queue_ok cap q" using queue_run_ok [OF assms] by (simp add: queue_ok_def started_def)
  then show ?thesis using drain [of cap q] by (auto simp: queue_ok_def)
qed

definition fx_task :: "string \<Rightarrow> Task" where
  "fx_task i = \<lparr>tk_AppID = i, tk_AppName = ''web'', tk_ServerID = ''s1'', tk_Domains = [''x.io''], tk_DeploymentIDs = [''d1'', ''../etc'']\<rparr>"

theorem queue_fifo_witness:
  "q_run ((loop_turn ^^ 3) (worker_Stop (snd (Submit 2 (fx_task ''b'') (snd (Submit 2 (fx_task ''a'') started)))))) = [fx_task ''a'', fx_task ''b'']"
proof -
  let ?q = "worker_Stop (snd (Submit 2 (fx_task ''b'') (snd (Submit 2 (fx_task ''a'') started))))"
  have "(queue_step 2)\<^sup>*\<^sup>* started ?q"
    by (meson rtranclp.rtrancl_refl rtranclp.rtrancl_into_rtrancl queue_step.intros)
  moreover have "q_inbox ?q = [fx_task ''a'', fx_task ''b'']" "q_alive ?q" "q_stop ?q" "q_accepted ?q = [fx_task ''a'', fx_task ''b'']"
    by (simp_all add: Submit_def worker_Stop_def started_def fx_task_def)
  ultimately show ?thesis using queue_fifo [of 2 ?q] by (simp add: numeral_3_eq_3)
qed

text \<open>A task submitted after the goroutine has ended is accepted and never runs.\<close>

lemma submit_after_stop:
  "let q = snd (Submit 2 (fx_task ''a'') (loop_turn (worker_Stop started)))
   in fst (Submit 2 (fx_task ''a'') (loop_turn (worker_Stop started))) = Inr () \<and> loop_turn q = q \<and> q_run q = []"
  by (simp add: Submit_def worker_Stop_def started_def loop_turn_def fx_task_def)

section \<open>What a task touches\<close>

definition log_of :: "string \<Rightarrow> Task \<Rightarrow> string \<Rightarrow> bool" where
  "log_of dir t f \<longleftrightarrow>
     (\<exists>i \<in> set (tk_DeploymentIDs t). f = log_path dir (trim_space i) \<and> CHR ''/'' \<notin> set (trim_space i) \<and> CHR 0x5C \<notin> set (trim_space i))"

definition spares :: "(string \<Rightarrow> bool) \<Rightarrow> ('d, 'c, 'z) diskdb_scheme \<Rightarrow> ('d, 'c, 'z) diskdb_scheme \<Rightarrow> bool" where
  "spares p w w' \<longleftrightarrow>
     (\<exists>n d c fs. w' = w\<lparr>stp := n, dockerd := d, caddyd := c, files := fs\<rparr> \<and> set fs \<subseteq> set (files w) \<and>
        filter (\<lambda>f. \<not> p f) fs = filter (\<lambda>f. \<not> p f) (files w))"

lemma spares_intro:
  "set fs \<subseteq> set (files w) \<Longrightarrow> filter (\<lambda>f. \<not> p f) fs = filter (\<lambda>f. \<not> p f) (files w) \<Longrightarrow>
     spares p w (w\<lparr>stp := n, dockerd := d, caddyd := c, files := fs\<rparr>)"
  unfolding spares_def by blast

lemma spares_same: "spares p w (w\<lparr>stp := n, dockerd := d, caddyd := c\<rparr>)"
  by (rule spares_intro [of "files w" w p, simplified])

interpretation sp: frame "spares p" for p
proof
  fix w n
  show "spares p w w" using spares_same [where p = p and w = w and n = "stp w" and d = "dockerd w" and c = "caddyd w"] by simp
  show "spares p w (w\<lparr>stp := n\<rparr>)" using spares_same [where p = p and w = w and n = n and d = "dockerd w" and c = "caddyd w"] by simp
next
  fix u v w :: "('a, 'b, 'c) diskdb_scheme"
  assume "spares p u v" and "spares p v w"
  then show "spares p u w" unfolding spares_def by (elim exE conjE) (simp, blast)
qed

lemma spares_engines: "spares p w (w\<lparr>dockerd := d\<rparr>)" "spares p w (w\<lparr>caddyd := c\<rparr>)"
  using spares_same [where p = p and w = w and n = "stp w" and d = d and c = "caddyd w"]
    spares_same [where p = p and w = w and n = "stp w" and d = "dockerd w" and c = c] by simp_all

lemma sp_docker: "moves (spares p) (on_docker f)"
  by (auto simp: moves_def on_docker_def intro!: sp.R_tick spares_engines split: prod.split)

lemma sp_caddy: "moves (spares p) (on_caddy f)"
  by (auto simp: moves_def on_caddy_def intro!: sp.R_tick spares_engines split: prod.split)

lemmas sp_rules = sp.frame_rules moves_intro sp_docker sp_caddy

lemma sp_RemoveRoute: "moves (spares p) (RemoveRoute http sha host)"
  unfolding RemoveRoute_def caddy_do_def Let_def by (intro sp_rules)

lemma sp_Docker: "moves (spares p) (cleanupDocker cl t)"
  unfolding cleanupDocker_def cleanup_containers_def cleanup_images_def cleanup_volumes_def remove_listed_def ListVolumes_def
    RemoveVolume_def StopContainer_def RemoveContainer_def RemoveImage_def ListContainers_def classified_def Let_def
  by (intro sp_rules sp.frame_read [OF Provider_read])

lemma sp_log:
  assumes "i \<in> set (tk_DeploymentIDs t)"
  shows "moves (spares (log_of (cl_logDir cl) t)) (remove_log cl i)"
  unfolding remove_log_def Let_def
proof (intro sp_rules sp.frame_access)
  fix w :: "('a, 'b, 'c) diskdb_scheme"
  let ?f = "log_path (cl_logDir cl) (trim_space i)"
  assume "\<not> (trim_space i = [] \<or> CHR ''/'' \<in> set (trim_space i) \<or> CHR 0x5C \<in> set (trim_space i))"
  then have "log_of (cl_logDir cl) t ?f" using assms by (auto simp: log_of_def)
  then have "filter (\<lambda>f. \<not> log_of (cl_logDir cl) t f) (filter (\<lambda>f. f \<noteq> ?f) (files w)) = filter (\<lambda>f. \<not> log_of (cl_logDir cl) t f) (files w)"
    by (auto simp: filter_filter intro!: filter_cong)
  then show "spares (log_of (cl_logDir cl) t) w (snd ((), w\<lparr>files := filter (\<lambda>f. f \<noteq> ?f) (files w)\<rparr>))"
    using spares_intro [where fs = "filter (\<lambda>f. f \<noteq> ?f) (files w)" and w = w and p = "log_of (cl_logDir cl) t" and n = "stp w" and d = "dockerd w" and c = "caddyd w"] by auto
qed

lemma frame_for_each_in: "(\<And>x. x \<in> set xs \<Longrightarrow> moves (spares p) (f x)) \<Longrightarrow> moves (spares p) (for_each f xs)"
  by (induction xs) (auto intro!: sp_rules)

lemma run_task_spares: "moves (spares (log_of (cl_logDir cl) t)) (run_task cl t)"
  unfolding run_task_def cleanupCaddy_def cleanupLogFiles_def
  by (intro frame_for_each_in sp_log sp_rules sp_RemoveRoute sp_Docker)

lemma run_task_total: "raises (\<lambda>_. False) (run_task cl t)"
  unfolding run_task_def cleanupCaddy_def cleanupDocker_def cleanup_containers_def cleanup_images_def cleanup_volumes_def
    remove_listed_def cleanupLogFiles_def remove_log_def Let_def
  by (intro raises_intro)

text \<open>A log is a file directly inside the log directory, as \<open>filepath.Join\<close> writes the latter.\<close>

lemma split_on_snoc: "c \<notin> set ys \<Longrightarrow> split_on c (xs @ c # ys) = split_on c xs @ [ys]"
proof (induction xs)
  case Nil
  have "split_on c ys = [ys]" using Nil by (induction ys) (auto simp: split_on_def)
  then show ?case by (simp add: split_on_def)
next
  case (Cons d xs)
  have "split_on c xs \<noteq> []" by (induction xs) (auto simp: split_on_def)
  with Cons show ?case by (cases "split_on c xs") (simp_all add: split_on_def)
qed

lemma clean_segments_snoc:
  "c \<noteq> [] \<Longrightarrow> c \<noteq> ''.'' \<Longrightarrow> c \<noteq> ''..'' \<Longrightarrow> clean_segments r (cs @ [c]) out = clean_segments r cs out @ [c]"
  by (induction cs arbitrary: out; cases r) simp_all

lemma log_path_inside:
  assumes "dir \<noteq> []" and "CHR ''/'' \<notin> set i"
  shows "log_path dir i = (if prefix ''/'' dir then ''/'' else []) @
    join_slash (clean_segments (prefix ''/'' dir) (split_on (CHR ''/'') dir) [] @ [i @ ''.log''])"
proof -
  have "prefix ''/'' (dir @ ''/'' @ i @ ''.log'') = prefix ''/'' dir" using assms(1) by (cases dir) auto
  moreover have "split_on (CHR ''/'') (dir @ ''/'' @ i @ ''.log'') = split_on (CHR ''/'') dir @ [i @ ''.log'']"
    using split_on_snoc [of "CHR ''/''" "i @ ''.log''" dir] assms(2) by simp
  moreover have "i @ ''.log'' \<noteq> ''.''" "i @ ''.log'' \<noteq> ''..''" by (cases i; simp)+
  moreover have "join_slash (ss @ [i @ ''.log'']) \<noteq> []" for ss by (induction ss rule: join_slash.induct) auto
  ultimately show ?thesis
    using assms(1) by (simp add: log_path_def path_join_def path_clean_def clean_segments_snoc)
qed

text \<open>
  C22. A clean-up task always runs to its end, whatever the engine, the proxy and the file system answer; it
  leaves every table and every other part of the state as it was, and of the files it removes at most logs of
  deployments of its list, directly inside the log directory.
\<close>

theorem run_task_confined:
  "\<exists>n d c fs. run_task cl t w = (Inr (), w\<lparr>stp := n, dockerd := d, caddyd := c, files := fs\<rparr>) \<and> set fs \<subseteq> set (files w) \<and>
     filter (\<lambda>f. \<not> log_of (cl_logDir cl) t f) fs = filter (\<lambda>f. \<not> log_of (cl_logDir cl) t f) (files w)"
proof -
  obtain r w' where run: "run_task cl t w = (r, w')" by (cases "run_task cl t w")
  then have "r = Inr ()" using raisesD [OF run_task_total] by (cases r) auto
  moreover have "spares (log_of (cl_logDir cl) t) w w'" by (rule movesD [OF run_task_spares run])
  ultimately show ?thesis using run unfolding spares_def by auto
qed

text \<open>The prefix of an app's images is also a prefix of the images of an app whose name continues it.\<close>

lemma app_images_of_another_app:
  "app_images ''web'' [\<lparr>li_RepoTags = [''prexel-web-api-0a1b2c3:1700000000''], li_Created = 0\<rparr>] = [''prexel-web-api-0a1b2c3:1700000000'']"
  by (simp add: app_images_def)

end
