(* ===== verification/Instance.thy ===== *)
theory Instance
  imports DnsZone App_Service Caddy
begin

text \<open>
  The settings of the running server (\<open>internal/instance\<close>): the single row of \<open>instance_settings\<close>, the snapshot of
  it that hot paths read, and what the settings drive: the scheduled clean-up of the container engine
  (\<open>cleanup.go\<close>, \<open>prunetarget.go\<close>) and the cached check for a newer release (\<open>updates.go\<close>). The row and the snapshot
  extend the database state. Integer flags of the table are booleans.
\<close>

section \<open>The row\<close>

record settings_row =
  is_instance_url :: string
  is_tls_mode :: string
  is_default_memory_limit :: "string option"
  is_default_cpu_limit :: "string option"
  is_cleanup_enabled :: bool
  is_cleanup_schedule :: string
  is_cleanup_disk_threshold :: int
  is_cleanup_image_retention :: int
  is_max_concurrent_deploys :: int
  is_maintenance_mode :: bool
  is_maintenance_message :: string
  is_updated_at :: int

record Settings =
  se_InstanceURL :: string
  se_TLSMode :: string
  se_DefaultMemoryLimit :: string
  se_DefaultCPULimit :: string
  se_CleanupEnabled :: bool
  se_CleanupSchedule :: string
  se_CleanupDiskThreshold :: int
  se_CleanupImageRetention :: int
  se_MaxConcurrentDeploys :: int
  se_MaintenanceMode :: bool
  se_MaintenanceMessage :: string
  se_UpdatedAt :: int

record instdb = db +
  instance_row :: "settings_row option"
  cache :: "Settings option"

text \<open>The \<open>CHECK\<close> clauses of the table.\<close>

definition settings_checks :: "settings_row \<Rightarrow> bool" where
  "settings_checks r \<longleftrightarrow>
     is_tls_mode r \<in> {''self-signed'', ''letsencrypt''} \<and>
     0 \<le> is_cleanup_disk_threshold r \<and> is_cleanup_disk_threshold r \<le> 100 \<and>
     1 \<le> is_cleanup_image_retention r \<and> 1 \<le> is_max_concurrent_deploys r"

section \<open>Reading\<close>

definition read_settings :: "settings_row \<Rightarrow> Settings" where
  "read_settings r =
     \<lparr>se_InstanceURL = is_instance_url r, se_TLSMode = is_tls_mode r,
      se_DefaultMemoryLimit = (case is_default_memory_limit r of None \<Rightarrow> [] | Some s \<Rightarrow> s),
      se_DefaultCPULimit = (case is_default_cpu_limit r of None \<Rightarrow> [] | Some s \<Rightarrow> s),
      se_CleanupEnabled = is_cleanup_enabled r, se_CleanupSchedule = is_cleanup_schedule r,
      se_CleanupDiskThreshold = is_cleanup_disk_threshold r, se_CleanupImageRetention = is_cleanup_image_retention r,
      se_MaxConcurrentDeploys = is_max_concurrent_deploys r, se_MaintenanceMode = is_maintenance_mode r,
      se_MaintenanceMessage = is_maintenance_message r, se_UpdatedAt = is_updated_at r\<rparr>"

definition reload :: "('x instdb_ext, Settings) dbm" where
  "reload =
     bnd (db_query_row (\<lambda>w. map_option read_settings (instance_row w))) (\<lambda>s.
     bnd (access (\<lambda>w. ((), w\<lparr>cache := Some s\<rparr>))) (\<lambda>_.
     ret s))"

definition instance_NewService :: "('x instdb_ext, unit) dbm" where
  "instance_NewService = bnd (wrapping ''instance: initial load'' reload) (\<lambda>_. ret ())"

definition settings_Get :: "('x instdb_ext, Settings) dbm" where
  "settings_Get = reload"

definition no_settings :: Settings where
  "no_settings =
     \<lparr>se_InstanceURL = [], se_TLSMode = ''self-signed'', se_DefaultMemoryLimit = [], se_DefaultCPULimit = [],
      se_CleanupEnabled = False, se_CleanupSchedule = [], se_CleanupDiskThreshold = 0, se_CleanupImageRetention = 5,
      se_MaxConcurrentDeploys = 3, se_MaintenanceMode = False, se_MaintenanceMessage = [], se_UpdatedAt = 0\<rparr>"

definition Cached :: "'x instdb_scheme \<Rightarrow> Settings" where
  "Cached w = (case cache w of Some s \<Rightarrow> s | None \<Rightarrow> no_settings)"

definition CurrentInstanceURL :: "'x instdb_scheme \<Rightarrow> string" where
  "CurrentInstanceURL w = se_InstanceURL (Cached w)"

definition DefaultLimits :: "'x instdb_scheme \<Rightarrow> string \<times> string" where
  "DefaultLimits w = (se_DefaultMemoryLimit (Cached w), se_DefaultCPULimit (Cached w))"

definition MaxConcurrentDeploys :: "'x instdb_scheme \<Rightarrow> int" where
  "MaxConcurrentDeploys w = (let v = se_MaxConcurrentDeploys (Cached w) in if v < 1 then 1 else v)"

record CleanupConfig =
  cc_Enabled :: bool
  cc_Schedule :: string
  cc_DiskThreshold :: int
  cc_ImageRetention :: int

definition settings_Cleanup :: "'x instdb_scheme \<Rightarrow> CleanupConfig" where
  "settings_Cleanup w =
     (let c = Cached w
      in \<lparr>cc_Enabled = se_CleanupEnabled c, cc_Schedule = se_CleanupSchedule c,
          cc_DiskThreshold = se_CleanupDiskThreshold c, cc_ImageRetention = se_CleanupImageRetention c\<rparr>)"

section \<open>Writing\<close>

definition instance_ErrInvalidInput :: err where
  "instance_ErrInvalidInput = ErrNew ''instance: invalid input''"

definition ErrLetsEncryptNeedsURL :: err where
  "ErrLetsEncryptNeedsURL = ErrNew ''instance: letsencrypt requires instance_url''"

definition ErrZoneNotRegistered :: err where
  "ErrZoneNotRegistered = ErrNew ''instance: DNS zone for this hostname is not registered''"

record SettingsInput =
  ui_InstanceURL :: "string option"
  ui_TLSMode :: "string option"
  ui_DefaultMemoryLimit :: "string option"
  ui_DefaultCPULimit :: "string option"
  ui_CleanupEnabled :: "bool option"
  ui_CleanupSchedule :: "string option"
  ui_CleanupDiskThreshold :: "int option"
  ui_CleanupImageRetention :: "int option"
  ui_MaxConcurrentDeploys :: "int option"
  ui_MaintenanceMode :: "bool option"
  ui_MaintenanceMessage :: "string option"

definition normaliseInstanceURL :: "string \<Rightarrow> string" where
  "normaliseInstanceURL raw =
     trim_right ''/'' (trim_prefix ''www.'' (trim_prefix ''http://'' (trim_prefix ''https://'' (trim_space raw))))"

text \<open>
  \<open>cronLikeRegex\<close> is \<open>^\s*\S+\s+\S+\s+\S+\s+\S+\s+\S+\s*$\<close>: the two classes are complementary, so a string
  matches exactly when it has five maximal runs without white space.
\<close>

definition is_blank :: "char \<Rightarrow> bool" where
  "is_blank c \<longleftrightarrow> c \<in> set [CHR 0x09, CHR 0x0A, CHR 0x0C, CHR 0x0D, CHR 0x20]"

fun run_count :: "bool \<Rightarrow> string \<Rightarrow> nat" where
  "run_count inside [] = 0"
| "run_count inside (c # s) =
     (if is_blank c then run_count False s else if inside then run_count True s else Suc (run_count True s))"

definition cronLikeRegex :: "string \<Rightarrow> bool" where
  "cronLikeRegex s \<longleftrightarrow> run_count False s = 5"

definition checked_value :: "bool \<Rightarrow> string \<Rightarrow> 'a \<Rightarrow> err + 'a" where
  "checked_value ok msg v = (if ok then Inr v else Inl (ErrWrap msg instance_ErrInvalidInput))"

text \<open>One field of the patch: left alone when absent, else checked and stored.\<close>

definition set_field :: "('v \<Rightarrow> err + 'u) \<Rightarrow> ('u \<Rightarrow> Settings \<Rightarrow> Settings) \<Rightarrow> 'v option \<Rightarrow> Settings \<Rightarrow> err + Settings" where
  "set_field check store x s =
     (case x of None \<Rightarrow> Inr s | Some v \<Rightarrow> sum_bind (check v) (\<lambda>u. Inr (store u s)))"

definition tls_value :: "string \<Rightarrow> err + string" where
  "tls_value raw =
     (let v = trim_space raw
      in checked_value (v \<in> {''self-signed'', ''letsencrypt''}) ''tls_mode must be self-signed or letsencrypt'' v)"

definition text_value :: "(string \<Rightarrow> bool) \<Rightarrow> string \<Rightarrow> string \<Rightarrow> err + string" where
  "text_value ok msg raw = (let v = trim_space raw in checked_value (v = [] \<or> ok v) msg v)"

definition int_value :: "int \<Rightarrow> int option \<Rightarrow> string \<Rightarrow> int \<Rightarrow> err + int" where
  "int_value low high msg v = checked_value (low \<le> v \<and> (case high of None \<Rightarrow> True | Some h \<Rightarrow> v \<le> h)) msg v"

definition memory_value :: "string \<Rightarrow> err + string" where
  "memory_value = text_value memRegex ''default_memory_limit must look like 512m or 1g''"

definition cpu_value :: "string \<Rightarrow> err + string" where
  "cpu_value = text_value cpuRegex ''default_cpu_limit must look like 0.5 or 1.0''"

definition schedule_value :: "string \<Rightarrow> err + string" where
  "schedule_value = text_value cronLikeRegex ''cleanup_schedule must be a 5-field cron expression''"

definition threshold_value :: "int \<Rightarrow> err + int" where
  "threshold_value = int_value 0 (Some 100) ''cleanup_disk_threshold must be 0..100''"

definition retention_value :: "int \<Rightarrow> err + int" where
  "retention_value = int_value 1 None ''cleanup_image_retention must be >= 1''"

definition deploys_value :: "int \<Rightarrow> err + int" where
  "deploys_value = int_value 1 None ''max_concurrent_deploys must be >= 1''"

definition message_value :: "string \<Rightarrow> err + string" where
  "message_value raw = Inr (trim_space raw)"

definition merge_fields :: "SettingsInput \<Rightarrow> Settings \<Rightarrow> err + Settings" where
  "merge_fields inp s0 =
     sum_bind (set_field tls_value (\<lambda>v s. s\<lparr>se_TLSMode := v\<rparr>) (ui_TLSMode inp) s0) (\<lambda>s.
     sum_bind (set_field memory_value (\<lambda>v s. s\<lparr>se_DefaultMemoryLimit := v\<rparr>) (ui_DefaultMemoryLimit inp) s) (\<lambda>s.
     sum_bind (set_field cpu_value (\<lambda>v s. s\<lparr>se_DefaultCPULimit := v\<rparr>) (ui_DefaultCPULimit inp) s) (\<lambda>s.
     sum_bind (set_field Inr (\<lambda>v s. s\<lparr>se_CleanupEnabled := v\<rparr>) (ui_CleanupEnabled inp) s) (\<lambda>s.
     sum_bind (set_field schedule_value (\<lambda>v s. s\<lparr>se_CleanupSchedule := v\<rparr>) (ui_CleanupSchedule inp) s) (\<lambda>s.
     sum_bind (set_field threshold_value (\<lambda>v s. s\<lparr>se_CleanupDiskThreshold := v\<rparr>) (ui_CleanupDiskThreshold inp) s) (\<lambda>s.
     sum_bind (set_field retention_value (\<lambda>v s. s\<lparr>se_CleanupImageRetention := v\<rparr>) (ui_CleanupImageRetention inp) s) (\<lambda>s.
     sum_bind (set_field deploys_value (\<lambda>v s. s\<lparr>se_MaxConcurrentDeploys := v\<rparr>) (ui_MaxConcurrentDeploys inp) s) (\<lambda>s.
     sum_bind (set_field Inr (\<lambda>v s. s\<lparr>se_MaintenanceMode := v\<rparr>) (ui_MaintenanceMode inp) s) (\<lambda>s.
     sum_bind (set_field message_value (\<lambda>v s. s\<lparr>se_MaintenanceMessage := v\<rparr>) (ui_MaintenanceMessage inp) s) (\<lambda>s.
     if se_TLSMode s = ''letsencrypt'' \<and> se_InstanceURL s = [] then Inl ErrLetsEncryptNeedsURL
     else Inr s))))))))))"

definition merge_url :: "netlib option \<Rightarrow> SettingsInput \<Rightarrow> Settings \<Rightarrow> ('x instdb_ext, Settings) dbm" where
  "merge_url zones inp s =
     (case ui_InstanceURL inp of
        None \<Rightarrow> ret s
      | Some raw \<Rightarrow>
          let v = normaliseInstanceURL raw
          in case zones of
               None \<Rightarrow> ret (s\<lparr>se_InstanceURL := v\<rparr>)
             | Some lib \<Rightarrow>
                 if v = [] then ret (s\<lparr>se_InstanceURL := v\<rparr>)
                 else case ApexOf lib v of
                     Inl e \<Rightarrow> fail (ErrWrap (error_text e) instance_ErrInvalidInput)
                   | Inr apex \<Rightarrow>
                       bnd (wrapping ''instance: zone lookup'' (ApexRegistered apex)) (\<lambda>registered.
                       if registered then ret (s\<lparr>se_InstanceURL := v\<rparr>)
                       else fail (ErrWrap (''register zone '' @ apex @ '' first'') ErrZoneNotRegistered)))"

definition null_if_empty :: "string \<Rightarrow> string option" where
  "null_if_empty s = (if s = [] then None else Some s)"

text \<open>The statement of \<open>Update\<close>; a trigger of the table stamps \<open>updated_at\<close>.\<close>

definition settings_values :: "Settings \<Rightarrow> int \<Rightarrow> settings_row" where
  "settings_values s now =
     \<lparr>is_instance_url = se_InstanceURL s, is_tls_mode = se_TLSMode s,
      is_default_memory_limit = null_if_empty (se_DefaultMemoryLimit s),
      is_default_cpu_limit = null_if_empty (se_DefaultCPULimit s),
      is_cleanup_enabled = se_CleanupEnabled s, is_cleanup_schedule = se_CleanupSchedule s,
      is_cleanup_disk_threshold = se_CleanupDiskThreshold s, is_cleanup_image_retention = se_CleanupImageRetention s,
      is_max_concurrent_deploys = se_MaxConcurrentDeploys s, is_maintenance_mode = se_MaintenanceMode s,
      is_maintenance_message = se_MaintenanceMessage s, is_updated_at = now\<rparr>"

definition write_settings :: "Settings \<Rightarrow> 'x instdb_scheme \<Rightarrow> sql_err + nat \<times> 'x instdb_scheme" where
  "write_settings s w =
     (case instance_row w of
        None \<Rightarrow> Inr (0, w)
      | Some _ \<Rightarrow>
          let r = settings_values s (unixepoch w)
          in if settings_checks r then Inr (1, w\<lparr>instance_row := Some r\<rparr>) else Inl CheckViolation)"

definition settings_Update :: "netlib option \<Rightarrow> SettingsInput \<Rightarrow> ('x instdb_ext, Settings) dbm" where
  "settings_Update zones inp =
     bnd reload (\<lambda>current.
     bnd (merge_url zones inp current) (\<lambda>next1.
     bnd (lift_res (merge_fields inp next1)) (\<lambda>next.
     bnd (wrapping ''instance: update'' (db_exec (write_settings next))) (\<lambda>_.
     reload))))"

end
