(* ===== verification/Instance_Props.thy ===== *)
theory Instance_Props
  imports Instance Fixtures
begin

text \<open>
  What the settings guarantee: an update changes exactly the fields it names, to checked values; whatever is
  called, the stored row and the snapshot stay legal; and a refused update changes nothing.
\<close>

section \<open>Patches\<close>

text \<open>A field after a patch: as before when the patch does not name it, else the checked form of the input.\<close>

definition picked :: "('v \<Rightarrow> err + 'u) \<Rightarrow> 'v option \<Rightarrow> 'u \<Rightarrow> 'u \<Rightarrow> bool" where
  "picked check x old new \<longleftrightarrow> (case x of None \<Rightarrow> new = old | Some v \<Rightarrow> check v = Inr new)"

lemma sum_bind_eq_Inr: "sum_bind m f = Inr y \<longleftrightarrow> (\<exists>x. m = Inr x \<and> f x = Inr y)"
  by (cases m) (simp_all add: sum_bind_def)

lemma set_field_eq:
  assumes "\<And>s. s = store (get s) s"
  shows "set_field check store x s = Inr s' \<longleftrightarrow> (\<exists>u. picked check x (get s) u \<and> s' = store u s)"
  using assms [of s] by (cases x) (auto simp: set_field_def picked_def sum_bind_eq_Inr)

lemmas set_field_eqs =
  set_field_eq [where store = "\<lambda>v s. s\<lparr>se_TLSMode := v\<rparr>" and get = se_TLSMode, simplified]
  set_field_eq [where store = "\<lambda>v s. s\<lparr>se_DefaultMemoryLimit := v\<rparr>" and get = se_DefaultMemoryLimit, simplified]
  set_field_eq [where store = "\<lambda>v s. s\<lparr>se_DefaultCPULimit := v\<rparr>" and get = se_DefaultCPULimit, simplified]
  set_field_eq [where store = "\<lambda>v s. s\<lparr>se_CleanupEnabled := v\<rparr>" and get = se_CleanupEnabled, simplified]
  set_field_eq [where store = "\<lambda>v s. s\<lparr>se_CleanupSchedule := v\<rparr>" and get = se_CleanupSchedule, simplified]
  set_field_eq [where store = "\<lambda>v s. s\<lparr>se_CleanupDiskThreshold := v\<rparr>" and get = se_CleanupDiskThreshold, simplified]
  set_field_eq [where store = "\<lambda>v s. s\<lparr>se_CleanupImageRetention := v\<rparr>" and get = se_CleanupImageRetention, simplified]
  set_field_eq [where store = "\<lambda>v s. s\<lparr>se_MaxConcurrentDeploys := v\<rparr>" and get = se_MaxConcurrentDeploys, simplified]
  set_field_eq [where store = "\<lambda>v s. s\<lparr>se_MaintenanceMode := v\<rparr>" and get = se_MaintenanceMode, simplified]
  set_field_eq [where store = "\<lambda>v s. s\<lparr>se_MaintenanceMessage := v\<rparr>" and get = se_MaintenanceMessage, simplified]

text \<open>The patch as a relation between the settings before and after.\<close>

definition patched :: "SettingsInput \<Rightarrow> Settings \<Rightarrow> Settings \<Rightarrow> bool" where
  "patched inp s s' \<longleftrightarrow>
     picked tls_value (ui_TLSMode inp) (se_TLSMode s) (se_TLSMode s') \<and>
     picked memory_value (ui_DefaultMemoryLimit inp) (se_DefaultMemoryLimit s) (se_DefaultMemoryLimit s') \<and>
     picked cpu_value (ui_DefaultCPULimit inp) (se_DefaultCPULimit s) (se_DefaultCPULimit s') \<and>
     picked Inr (ui_CleanupEnabled inp) (se_CleanupEnabled s) (se_CleanupEnabled s') \<and>
     picked schedule_value (ui_CleanupSchedule inp) (se_CleanupSchedule s) (se_CleanupSchedule s') \<and>
     picked threshold_value (ui_CleanupDiskThreshold inp) (se_CleanupDiskThreshold s) (se_CleanupDiskThreshold s') \<and>
     picked retention_value (ui_CleanupImageRetention inp) (se_CleanupImageRetention s) (se_CleanupImageRetention s') \<and>
     picked deploys_value (ui_MaxConcurrentDeploys inp) (se_MaxConcurrentDeploys s) (se_MaxConcurrentDeploys s') \<and>
     picked Inr (ui_MaintenanceMode inp) (se_MaintenanceMode s) (se_MaintenanceMode s') \<and>
     picked message_value (ui_MaintenanceMessage inp) (se_MaintenanceMessage s) (se_MaintenanceMessage s')"

lemma patched_other:
  "patched inp (s\<lparr>se_InstanceURL := u\<rparr>) s' = patched inp s s'" "patched inp s (s'\<lparr>se_UpdatedAt := t\<rparr>) = patched inp s s'"
  by (simp_all add: patched_def)

lemma guarded_Inr: "(if b then Inl e else Inr x) = Inr y \<longleftrightarrow> \<not> b \<and> y = x"
  by auto

lemma merge_fields_Inr:
  "merge_fields inp s = Inr s' \<Longrightarrow>
   patched inp s s' \<and> se_InstanceURL s' = se_InstanceURL s \<and> (se_TLSMode s' = ''letsencrypt'' \<longrightarrow> se_InstanceURL s' \<noteq> [])"
  unfolding merge_fields_def sum_bind_eq_Inr set_field_eqs patched_def guarded_Inr
  by (elim exE conjE, hypsubst, simp)

section \<open>An update is exact\<close>

lemma read_written: "read_settings (settings_values s now) = s\<lparr>se_UpdatedAt := now\<rparr>"
  by (simp add: read_settings_def settings_values_def null_if_empty_def)

lemma reload_Inr:
  "reload w = (Inr s, w') \<longleftrightarrow>
     \<not> o_fault (orc w) (stp w) \<and> (\<exists>r. instance_row w = Some r \<and> s = read_settings r) \<and> w' = (tick w)\<lparr>cache := Some s\<rparr>"
  by (auto simp: reload_def bnd_eq_Inr_iff db_query_row_eq_Inr_iff access_def ret_def)

lemma reload_Inl: "reload w = (Inl e, w') \<Longrightarrow> o_fault (orc w) (stp w) \<or> instance_row w = None"
  by (auto simp: reload_def bnd_def db_query_row_def db_query_def access_def ret_def split: if_splits option.splits)

text \<open>The panel may only be served under a registered zone, when a registry is attached.\<close>

definition zone_of_url :: "netlib \<Rightarrow> string \<Rightarrow> 'x db_scheme \<Rightarrow> bool" where
  "zone_of_url lib url w \<longleftrightarrow>
     (\<exists>apex z. ApexOf lib url = Inr apex \<and> z \<in> set (dns_zones w) \<and> z_apex z = to_lower (trim_space apex))"

lemma merge_url_Inr:
  assumes "merge_url zones inp s w = (Inr s', w')"
  shows "s' = s\<lparr>se_InstanceURL := se_InstanceURL s'\<rparr> \<and>
    picked (\<lambda>raw. Inr (normaliseInstanceURL raw)) (ui_InstanceURL inp) (se_InstanceURL s) (se_InstanceURL s') \<and>
    (ui_InstanceURL inp \<noteq> None \<and> se_InstanceURL s' \<noteq> [] \<longrightarrow> (\<forall>lib. zones = Some lib \<longrightarrow> zone_of_url lib (se_InstanceURL s') w)) \<and>
    (\<exists>n. w' = w\<lparr>stp := n\<rparr>)"
  using assms
  by (auto simp: merge_url_def Let_def picked_def ret_def fail_def bnd_eq_Inr_iff wrapping_eq_Inr_iff ApexRegistered_def
      db_query_eq_Inr_iff zone_of_url_def tick_def filter_empty_conv
      split: option.splits if_splits sum.splits intro: exI [of _ "stp w"])

lemma write_settings_Inr:
  "write_settings s w = Inr (n, w') \<Longrightarrow> instance_row w \<noteq> None \<Longrightarrow>
   w' = w\<lparr>instance_row := Some (settings_values s (unixepoch w))\<rparr>"
  by (auto simp: write_settings_def Let_def split: option.splits if_splits)

text \<open>
  C23. A successful update changes the single row and nothing else of the database: every field the patch names
  has the checked form of its input, every other field is as before, apart from the time stamp; the result and
  the snapshot are the row as it is stored; automatic certificates come with an address; and a new address that
  is not empty belongs to a registered zone.
\<close>

theorem settings_Update_exact:
  assumes "settings_Update zones inp w = (Inr s, w')"
  shows "\<exists>r r' n. instance_row w = Some r \<and> w' = w\<lparr>stp := n, instance_row := Some r', cache := Some s\<rparr> \<and> s = read_settings r' \<and>
    patched inp (read_settings r) s \<and>
    picked (\<lambda>raw. Inr (normaliseInstanceURL raw)) (ui_InstanceURL inp) (is_instance_url r) (se_InstanceURL s) \<and>
    (se_TLSMode s = ''letsencrypt'' \<longrightarrow> se_InstanceURL s \<noteq> []) \<and>
    (ui_InstanceURL inp \<noteq> None \<and> se_InstanceURL s \<noteq> [] \<longrightarrow> (\<forall>lib. zones = Some lib \<longrightarrow> zone_of_url lib (se_InstanceURL s) w))"
proof -
  from assms obtain cur w1 s1 w2 s2 n w3 where
      r1: "reload w = (Inr cur, w1)" and u: "merge_url zones inp cur w1 = (Inr s1, w2)" and m: "merge_fields inp s1 = Inr s2"
      and x: "db_exec (write_settings s2) w2 = (Inr n, w3)" and r2: "reload w3 = (Inr s, w')"
    by (auto simp: settings_Update_def bnd_eq_Inr_iff wrapping_eq_Inr_iff lift_res_def)
  from r1 obtain r where r: "instance_row w = Some r" "cur = read_settings r" and w1: "w1 = (tick w)\<lparr>cache := Some cur\<rparr>"
    by (auto simp: reload_Inr)
  from merge_url_Inr [OF u] obtain k where w2: "w2 = w1\<lparr>stp := k\<rparr>" by blast
  from x obtain v where "write_settings s2 w2 = Inr (n, v)" and w3: "w3 = tick v" by (auto simp: db_exec_eq_Inr_iff)
  then have v: "v = w2\<lparr>instance_row := Some (settings_values s2 (unixepoch w2))\<rparr>"
    using r w1 w2 by (intro write_settings_Inr) (simp_all add: tick_def)
  from r2 have s: "s = s2\<lparr>se_UpdatedAt := unixepoch w2\<rparr>"
    and w': "w' = (tick w3)\<lparr>cache := Some s\<rparr>"
    by (auto simp: reload_Inr w3 v tick_def read_written)
  note url = merge_url_Inr [OF u] and fields = merge_fields_Inr [OF m]
  have url_s: "se_InstanceURL s = se_InstanceURL s1" using fields by (simp add: s)
  have same_zones: "zone_of_url lib a w1 = zone_of_url lib a w" for lib a by (simp add: w1 zone_of_url_def tick_def)
  show ?thesis
  proof (intro exI conjI)
    show "instance_row w = Some r" by (rule r(1))
    show "w' = w\<lparr>stp := stp w', instance_row := Some (settings_values s2 (unixepoch w2)), cache := Some s\<rparr>"
      by (simp add: w' w3 v w2 w1 tick_def)
    show "s = read_settings (settings_values s2 (unixepoch w2))" by (simp add: s read_written)
    from fields have "patched inp s1 s" by (simp add: s patched_other)
    with url show "patched inp (read_settings r) s" unfolding r(2) by (metis patched_other(1))
    show "picked (\<lambda>raw. Inr (normaliseInstanceURL raw)) (ui_InstanceURL inp) (is_instance_url r) (se_InstanceURL s)"
      using url by (simp add: url_s r(2) read_settings_def)
    show "se_TLSMode s = ''letsencrypt'' \<longrightarrow> se_InstanceURL s \<noteq> []" using fields by (auto simp: s)
    show "ui_InstanceURL inp \<noteq> None \<and> se_InstanceURL s \<noteq> [] \<longrightarrow> (\<forall>lib. zones = Some lib \<longrightarrow> zone_of_url lib (se_InstanceURL s) w)"
      using url unfolding url_s same_zones by blast
  qed
qed

section \<open>The settings stay legal\<close>

definition legal :: "Settings \<Rightarrow> bool" where
  "legal s \<longleftrightarrow>
     se_TLSMode s \<in> {''self-signed'', ''letsencrypt''} \<and>
     (se_TLSMode s = ''letsencrypt'' \<longrightarrow> se_InstanceURL s \<noteq> []) \<and>
     (se_DefaultMemoryLimit s = [] \<or> memRegex (se_DefaultMemoryLimit s)) \<and>
     (se_DefaultCPULimit s = [] \<or> cpuRegex (se_DefaultCPULimit s)) \<and>
     (se_CleanupSchedule s = [] \<or> cronLikeRegex (se_CleanupSchedule s)) \<and>
     0 \<le> se_CleanupDiskThreshold s \<and> se_CleanupDiskThreshold s \<le> 100 \<and>
     1 \<le> se_CleanupImageRetention s \<and> 1 \<le> se_MaxConcurrentDeploys s"

definition settings_ok :: "'x instdb_scheme \<Rightarrow> bool" where
  "settings_ok w \<longleftrightarrow>
     (\<forall>r. instance_row w = Some r \<longrightarrow> legal (read_settings r)) \<and> (\<forall>s. cache w = Some s \<longrightarrow> legal s)"

lemma value_Inr:
  "tls_value raw = Inr v \<Longrightarrow> v \<in> {''self-signed'', ''letsencrypt''}"
  "memory_value raw = Inr v \<Longrightarrow> v = [] \<or> memRegex v"
  "cpu_value raw = Inr v \<Longrightarrow> v = [] \<or> cpuRegex v"
  "schedule_value raw = Inr v \<Longrightarrow> v = [] \<or> cronLikeRegex v"
  "threshold_value n = Inr m \<Longrightarrow> 0 \<le> m \<and> m \<le> 100"
  "retention_value n = Inr m \<Longrightarrow> 1 \<le> m"
  "deploys_value n = Inr m \<Longrightarrow> 1 \<le> m"
  by (simp_all add: tls_value_def memory_value_def cpu_value_def schedule_value_def text_value_def threshold_value_def
      retention_value_def deploys_value_def int_value_def checked_value_def Let_def split: if_splits)

lemma picked_value:
  "picked tls_value x a b \<Longrightarrow> a \<in> {''self-signed'', ''letsencrypt''} \<Longrightarrow> b \<in> {''self-signed'', ''letsencrypt''}"
  "picked memory_value x a b \<Longrightarrow> a = [] \<or> memRegex a \<Longrightarrow> b = [] \<or> memRegex b"
  "picked cpu_value x a b \<Longrightarrow> a = [] \<or> cpuRegex a \<Longrightarrow> b = [] \<or> cpuRegex b"
  "picked schedule_value x a b \<Longrightarrow> a = [] \<or> cronLikeRegex a \<Longrightarrow> b = [] \<or> cronLikeRegex b"
  "picked threshold_value n i j \<Longrightarrow> 0 \<le> i \<and> i \<le> 100 \<Longrightarrow> 0 \<le> j \<and> j \<le> 100"
  "picked retention_value n i j \<Longrightarrow> 1 \<le> i \<Longrightarrow> 1 \<le> j"
  "picked deploys_value n i j \<Longrightarrow> 1 \<le> i \<Longrightarrow> 1 \<le> j"
  unfolding picked_def by (cases x; cases n; simp only: option.case; blast dest: value_Inr)+

lemma patched_legal:
  assumes "patched inp s s'" and "legal s" and "se_TLSMode s' = ''letsencrypt'' \<longrightarrow> se_InstanceURL s' \<noteq> []"
  shows "legal s'"
  using assms unfolding patched_def legal_def by (blast dest: picked_value)

interpretation sok: frame "keeps settings_ok"
  by (rule frame_keeps) (simp add: settings_ok_def)

lemma reload_ok: "moves (keeps settings_ok) reload"
  unfolding moves_def
proof
  show "keeps settings_ok w (snd (reload w))" for w :: "'x instdb_scheme"
    by (cases "reload w"; cases "fst (reload w)")
      (auto simp: keeps_def settings_ok_def reload_Inr tick_def, (auto simp: reload_def bnd_eq_Inl_iff db_query_row_def db_query_def bnd_def access_def ret_def fail_def tick_def split: if_splits option.splits)?)
qed

lemma legal_stamp: "legal (s\<lparr>se_UpdatedAt := t\<rparr>) = legal s"
  by (simp add: legal_def)

lemma write_ok: "legal s \<Longrightarrow> moves (keeps settings_ok) (db_exec (write_settings s))"
proof (rule sok.frame_exec)
  fix w w' :: "'x instdb_scheme" and n
  assume "legal s" and "write_settings s w = Inr (n, w')"
  then show "keeps settings_ok w w'"
    by (auto simp: keeps_def settings_ok_def write_settings_def Let_def read_written legal_stamp split: option.splits if_splits)
qed

lemma merge_url_ok: "moves (keeps settings_ok) (merge_url zones inp s)"
  unfolding merge_url_def ApexRegistered_def Let_def by (intro sok.frame_rules moves_intro)

lemma merged_legal:
  assumes "legal cur" and "merge_url zones inp cur w = (Inr s1, w')" and "merge_fields inp s1 = Inr s2"
  shows "legal s2"
proof -
  note url = merge_url_Inr [OF assms(2)] and fields = merge_fields_Inr [OF assms(3)]
  from fields have "patched inp s1 s2" by blast
  with url have "patched inp cur s2" by (metis patched_other(1))
  with assms(1) fields show ?thesis by (blast intro: patched_legal)
qed

lemma settings_Update_ok: "moves (keeps settings_ok) (settings_Update zones inp)"
  unfolding settings_Update_def
proof (rule keeps_bnd_run [OF reload_ok])
  fix w :: "'x instdb_scheme" and cur w1
  assume "settings_ok w" and "reload w = (Inr cur, w1)"
  then have cur: "legal cur" by (auto simp: settings_ok_def reload_Inr)
  show "moves (keeps settings_ok) (bnd (merge_url zones inp cur) (\<lambda>next1. bnd (lift_res (merge_fields inp next1)) (\<lambda>next.
      bnd (wrapping ''instance: update'' (db_exec (write_settings next))) (\<lambda>_. reload))))"
    by (intro sok.frame_bnd_run [OF merge_url_ok] sok.frame_bnd_run [OF sok.frame_lift_res] sok.frame_bnd sok.frame_wrapping write_ok reload_ok)
      (auto simp: lift_res_def intro: merged_legal [OF cur])
qed

datatype settings_call = LoadSettings | GetSettings | UpdateSettings SettingsInput

definition settings_call_run :: "netlib option \<Rightarrow> settings_call \<Rightarrow> 'x instdb_scheme \<Rightarrow> 'x instdb_scheme" where
  "settings_call_run zones c w =
     (case c of
        LoadSettings \<Rightarrow> snd (instance_NewService w)
      | GetSettings \<Rightarrow> snd (settings_Get w)
      | UpdateSettings inp \<Rightarrow> snd (settings_Update zones inp w))"

lemma NewService_ok: "moves (keeps settings_ok) instance_NewService"
  unfolding instance_NewService_def by (intro sok.frame_bnd sok.frame_wrapping reload_ok sok.frame_ret)

lemma settings_call_ok: "settings_ok w \<Longrightarrow> settings_ok (settings_call_run zones c w)"
  by (cases c) (simp_all add: settings_call_run_def settings_Get_def keeps_snd [OF reload_ok] keeps_snd [OF settings_Update_ok] keeps_snd [OF NewService_ok])

text \<open>
  Whatever sequence of calls the settings get, and whatever the database driver does, the stored row and the
  snapshot stay legal: a known certificate mode, automatic certificates only with an address, limits and
  schedule of the accepted form, a threshold that is a percentage, and at least one image kept and one
  deployment allowed.
\<close>

theorem settings_stay_ok:
  assumes "settings_ok w"
  shows "settings_ok (fold (settings_call_run zones) calls w)"
  using assms by (induction calls arbitrary: w) (auto intro: settings_call_ok)

section \<open>A refused update\<close>

definition settings_settled :: "settings_row \<Rightarrow> 'x instdb_scheme \<Rightarrow> bool" where
  "settings_settled r w \<longleftrightarrow> quiet w \<and> instance_row w = Some r \<and> cache w = Some (read_settings r)"

interpretation std: frame "keeps (settings_settled r)" for r
  by (rule frame_keeps) (simp add: settings_settled_def quiet_def)

lemma merge_url_settled: "moves (keeps (settings_settled r)) (merge_url zones inp s)"
  unfolding merge_url_def ApexRegistered_def Let_def by (intro std.frame_rules moves_intro)

lemma written_back_Inl:
  assumes "bnd (wrapping msg (db_exec (write_settings s))) (\<lambda>_. reload) w = (Inl e, w')" and "settings_settled r w"
  shows "settings_settled r w'"
proof -
  have "\<not> o_fault (orc w) n" for n using assms(2) by (simp add: settings_settled_def quiet_def)
  with assms show ?thesis
    by (cases "settings_checks (settings_values s (unixepoch w))")
      (auto simp: bnd_eq_Inl_iff wrapping_eq_Inl_iff wrapping_eq_Inr_iff db_exec_def write_settings_def settings_settled_def quiet_def tick_def Let_def
        dest!: reload_Inl)
qed

text \<open>
  When the driver works, an update that returns an error leaves the row as it was and the snapshot equal to
  it.
\<close>

theorem settings_Update_refused:
  assumes "settings_Update zones inp w = (Inl e, w')" and "quiet w" and "instance_row w = Some r"
  shows "instance_row w' = Some r \<and> cache w' = Some (read_settings r)"
proof -
  let ?w1 = "(tick w)\<lparr>cache := Some (read_settings r)\<rparr>"
  have "reload w = (Inr (read_settings r), ?w1)" using assms(2,3) by (simp add: reload_Inr quiet_def)
  moreover have "settings_settled r ?w1" using assms(2,3) by (simp add: settings_settled_def quiet_def tick_def)
  ultimately have "settings_settled r w'"
    using assms(1) keepsD [OF merge_url_settled [of r zones inp]] written_back_Inl
    by (fastforce simp: settings_Update_def bnd_eq_Inl_iff lift_res_def)
  then show ?thesis by (simp add: settings_settled_def)
qed

section \<open>Concrete settings\<close>

definition fx_settings :: Settings where
  "fx_settings =
     \<lparr>se_InstanceURL = [], se_TLSMode = ''self-signed'', se_DefaultMemoryLimit = [], se_DefaultCPULimit = ''0.5'',
      se_CleanupEnabled = True, se_CleanupSchedule = ''0 3 * * *'', se_CleanupDiskThreshold = 80, se_CleanupImageRetention = 5,
      se_MaxConcurrentDeploys = 3, se_MaintenanceMode = False, se_MaintenanceMessage = ''back soon'', se_UpdatedAt = 0\<rparr>"

definition fx_instance :: instdb where
  "fx_instance = db.extend fx_zoned (instdb.fields (Some (settings_values fx_settings 0)) None)"

lemma fx_instance_row:
  "instance_row fx_instance = Some (settings_values fx_settings 0)" "cache fx_instance = None" "quiet fx_instance"
  by (simp_all add: fx_instance_def db.defs instdb.defs quiet_def fx_zoned_def quiet_env_def)

definition fx_keep :: SettingsInput where
  "fx_keep =
     \<lparr>ui_InstanceURL = None, ui_TLSMode = None, ui_DefaultMemoryLimit = None, ui_DefaultCPULimit = None,
      ui_CleanupEnabled = None, ui_CleanupSchedule = None, ui_CleanupDiskThreshold = None, ui_CleanupImageRetention = None,
      ui_MaxConcurrentDeploys = None, ui_MaintenanceMode = None, ui_MaintenanceMessage = None\<rparr>"

definition fx_panel :: SettingsInput where
  "fx_panel = fx_keep\<lparr>ui_InstanceURL := Some ''https://www.panel.x.io/'', ui_TLSMode := Some '' letsencrypt ''\<rparr>"

theorem settings_Update_exact_witness:
  "\<exists>s. fst (settings_Update (Some fx_net) fx_panel fx_instance) = Inr s \<and>
     se_InstanceURL s = ''panel.x.io'' \<and> se_MaxConcurrentDeploys s = 3 \<and> zone_of_url fx_net ''panel.x.io'' fx_instance"
proof -
  let ?u = "settings_Update (Some fx_net) fx_panel fx_instance"
  have "map_sum id se_InstanceURL (fst ?u) = Inr ''panel.x.io''" by code_simp
  then obtain s where s: "fst ?u = Inr s" "se_InstanceURL s = ''panel.x.io''" by (cases "fst ?u") auto
  from settings_Update_exact [OF fst_result [OF s(1)]] s(2) fx_instance_row
  have "patched fx_panel (fx_settings\<lparr>se_UpdatedAt := 0\<rparr>) s \<and> zone_of_url fx_net ''panel.x.io'' fx_instance"
    by (auto simp: read_written fx_panel_def)
  then have "se_MaxConcurrentDeploys s = 3" "zone_of_url fx_net ''panel.x.io'' fx_instance"
    by (simp_all add: patched_def picked_def fx_panel_def fx_keep_def fx_settings_def)
  with s show ?thesis by blast
qed

theorem settings_stay_ok_witness:
  "settings_ok (fold (settings_call_run (Some fx_net)) [LoadSettings, UpdateSettings fx_panel, GetSettings] fx_instance)"
proof (rule settings_stay_ok)
  have "legal (fx_settings\<lparr>se_UpdatedAt := 0\<rparr>)" by code_simp
  then show "settings_ok fx_instance" by (simp add: settings_ok_def fx_instance_row read_written)
qed

theorem settings_Update_refused_witness:
  "instance_row (snd (settings_Update (Some fx_net) (fx_keep\<lparr>ui_TLSMode := Some ''letsencrypt''\<rparr>) fx_instance)) =
     Some (settings_values fx_settings 0)"
proof -
  let ?u = "settings_Update (Some fx_net) (fx_keep\<lparr>ui_TLSMode := Some ''letsencrypt''\<rparr>) fx_instance"
  have e: "fst ?u = Inl ErrLetsEncryptNeedsURL" by code_simp
  from settings_Update_refused [OF fst_result [OF e] fx_instance_row(3,1)] show ?thesis by blast
qed

text \<open>
  Without a working driver the error is no promise: when only the reading back fails, the update is stored, an
  error is returned, and the snapshot the other components read stays the old one.
\<close>

definition fx_flaky :: instdb where
  "fx_flaky = fx_instance\<lparr>orc := quiet_env\<lparr>o_fault := (\<lambda>n. n = 2)\<rparr>\<rparr>"

lemma update_stored_but_refused:
  "case settings_Update None (fx_keep\<lparr>ui_MaintenanceMode := Some True\<rparr>) fx_flaky of
     (Inl _, w) \<Rightarrow> map_option is_maintenance_mode (instance_row w) = Some True \<and> \<not> se_MaintenanceMode (Cached w)
   | (Inr _, _) \<Rightarrow> False"
  by code_simp

text \<open>
  The patch is read, merged and written in separate statements, without a transaction: of two updates that both
  read before either writes, the second writes the whole row and takes the first one back.
\<close>

lemma concurrent_update_lost:
  "case (merge_fields (fx_keep\<lparr>ui_MaintenanceMode := Some True\<rparr>) fx_settings,
         merge_fields (fx_keep\<lparr>ui_CleanupDiskThreshold := Some 90\<rparr>) fx_settings) of
     (Inr s1, Inr s2) \<Rightarrow>
       (case write_settings s1 fx_instance of
          Inr (_, w) \<Rightarrow>
            (case write_settings s2 w of
               Inr (_, w') \<Rightarrow> map_option is_maintenance_mode (instance_row w') = Some False
             | _ \<Rightarrow> False)
        | _ \<Rightarrow> False)
   | _ \<Rightarrow> False"
  by code_simp

end
