(* ===== verification/Instance_Cleanup.thy ===== *)
theory Instance_Cleanup
  imports Instance Strconv Fixtures "HOL-Library.Word"
begin

text \<open>
  What the instance settings drive. The clean-up of the container engine runs once a minute when its schedule
  says so (\<open>internal/instance/cleanup.go\<close>, \<open>prunetarget.go\<close>): it prunes when the disk is full enough, and always
  keeps the newest images of every app only. The release check (\<open>updates.go\<close>) caches what it fetched. The
  container engine, \<open>statfs\<close> and the HTTP request are parameters.
\<close>

section \<open>Disk usage\<close>

text \<open>The counts of \<open>statfs\<close> are unsigned 64-bit; the quotient is converted to a signed \<open>int\<close>.\<close>

definition disk_percent :: "64 word \<Rightarrow> 64 word \<Rightarrow> int" where
  "disk_percent blocks bfree =
     (if blocks = 0 then 0
      else let percent = sint ((blocks - bfree) * 100 div blocks)
           in if percent < 0 then 0 else if percent > 100 then 100 else percent)"

definition DefaultDiskUsage :: "(string \<Rightarrow> nat \<Rightarrow> err + 64 word \<times> 64 word) \<Rightarrow> string \<Rightarrow> nat \<Rightarrow> err + int" where
  "DefaultDiskUsage statfs path n =
     (case statfs path n of
        Inl e \<Rightarrow> Inl (ErrWrap (''statfs '' @ path) e)
      | Inr (blocks, bfree) \<Rightarrow> Inr (disk_percent blocks bfree))"

section \<open>Schedule\<close>

record clock_time =
  tm_Minute :: int
  tm_Hour :: int
  tm_Weekday :: int

definition atoiOrStar :: "string \<Rightarrow> int option" where
  "atoiOrStar s = (if s = ''*'' then Some (- 1) else Atoi s)"

text \<open>A value of a field is compared unless it is the one for any.\<close>

definition agrees :: "int \<Rightarrow> int \<Rightarrow> bool" where
  "agrees v now \<longleftrightarrow> v = - 1 \<or> v = now"

definition scheduleMatches :: "string \<Rightarrow> clock_time \<Rightarrow> bool" where
  "scheduleMatches expr now \<longleftrightarrow>
     (case Fields expr of
        [minute, hour, mday, month, dow] \<Rightarrow>
          (case (atoiOrStar minute, atoiOrStar hour) of
             (Some m, Some h) \<Rightarrow>
               agrees m (tm_Minute now) \<and> agrees h (tm_Hour now) \<and>
               (case atoiOrStar dow of None \<Rightarrow> False | Some d \<Rightarrow> agrees d (tm_Weekday now))
           | _ \<Rightarrow> False)
      | _ \<Rightarrow> False)"

section \<open>Images\<close>

record image_summary =
  im_ID :: string
  im_RepoTags :: "string list"
  im_RepoDigests :: "string list"
  im_Labels :: "(string \<times> string) list"
  im_Created :: int

record 'd prune_api =
  pa_ImageList :: "provider \<Rightarrow> string list \<Rightarrow> ('d, image_summary list) call"
  pa_ImagesPrune :: "provider \<Rightarrow> ('d, 64 word) call"
  pa_ContainersPrune :: "provider \<Rightarrow> ('d, 64 word) call"

definition ListImages ::
  "'d moby \<Rightarrow> 'd prune_api \<Rightarrow> provider \<Rightarrow> (string \<times> string) list \<Rightarrow> ('d, 'c, 'x, image_summary list) hostm" where
  "ListImages mb pa p labels =
     bnd (on_docker (mb_Client mb p)) (\<lambda>_.
     on_docker (pa_ImageList pa p (map (\<lambda>(k, v). if v = [] then k else k @ ''='' @ v) labels)))"

definition PruneImages :: "'d moby \<Rightarrow> 'd prune_api \<Rightarrow> provider \<Rightarrow> ('d, 'c, 'x, 64 word) hostm" where
  "PruneImages mb pa p =
     bnd (on_docker (mb_Client mb p)) (\<lambda>_.
     wrapping ''docker: prune images'' (on_docker (pa_ImagesPrune pa p)))"

definition PruneContainers :: "'d moby \<Rightarrow> 'd prune_api \<Rightarrow> provider \<Rightarrow> ('d, 'c, 'x, 64 word) hostm" where
  "PruneContainers mb pa p =
     bnd (on_docker (mb_Client mb p)) (\<lambda>_.
     wrapping ''docker: prune containers'' (on_docker (pa_ContainersPrune pa p)))"

text \<open>
  \<open>PruneDangling\<close> also returns the bytes of the images when the containers fail; its caller reads the bytes of
  a success only.
\<close>

definition PruneDangling :: "'d moby \<Rightarrow> 'd prune_api \<Rightarrow> provider \<Rightarrow> ('d, 'c, 'x, 64 word) hostm" where
  "PruneDangling mb pa p =
     bnd (PruneImages mb pa p) (\<lambda>imgBytes.
     bnd (PruneContainers mb pa p) (\<lambda>ctnBytes.
     ret (imgBytes + ctnBytes)))"

record imgEntry =
  ie_Created :: int
  ie_Ref :: string

fun firstNonEmpty :: "string list list \<Rightarrow> string" where
  "firstNonEmpty [] = []"
| "firstNonEmpty (s # ss) =
     (case s of [] \<Rightarrow> firstNonEmpty ss | x # _ \<Rightarrow> (if x \<noteq> [] then x else firstNonEmpty ss))"

definition app_label :: "image_summary \<Rightarrow> string" where
  "app_label im = (case map_of (im_Labels im) ''prexel.app_id'' of None \<Rightarrow> [] | Some a \<Rightarrow> a)"

definition image_entry :: "image_summary \<Rightarrow> imgEntry" where
  "image_entry im =
     \<lparr>ie_Created = im_Created im, ie_Ref = firstNonEmpty [im_RepoTags im, im_RepoDigests im, [im_ID im]]\<rparr>"

text \<open>The group of an app, in the order listed, and the keys of the map of groups.\<close>

definition app_group :: "string \<Rightarrow> image_summary list \<Rightarrow> imgEntry list" where
  "app_group a imgs = map image_entry (filter (\<lambda>im. app_label im = a) imgs)"

definition group_keys :: "image_summary list \<Rightarrow> string list" where
  "group_keys imgs = remdups (filter (\<lambda>a. a \<noteq> []) (map app_label imgs))"

text \<open>
  Newest first; images created at the same time stay in the order listed. (\<open>sort.Slice\<close> may order those in
  another way; the theorem on the sweep counts them as equally new, so it does not depend on that order.)
\<close>

definition victims :: "nat \<Rightarrow> imgEntry list \<Rightarrow> imgEntry list" where
  "victims n es = (if length es \<le> n then [] else drop n (sort_key (\<lambda>e. - ie_Created e) es))"

fun remove_refs :: "'d moby \<Rightarrow> provider \<Rightarrow> string list \<Rightarrow> ('d, 'c, 'x, nat) hostm" where
  "remove_refs mb p [] = ret 0"
| "remove_refs mb p (ref # refs) =
     bnd (attempt (RemoveImage mb p ref)) (\<lambda>r.
     bnd (remove_refs mb p refs) (\<lambda>k.
     ret (case r of Inl _ \<Rightarrow> k | Inr _ \<Rightarrow> Suc k)))"

definition RetainImagesPerApp ::
  "'d moby \<Rightarrow> 'd prune_api \<Rightarrow> (nat \<Rightarrow> string list \<Rightarrow> string list) \<Rightarrow> provider \<Rightarrow> int \<Rightarrow> ('d, 'c, 'x, nat) hostm" where
  "RetainImagesPerApp mb pa order p n0 =
     (let n = nat (if n0 < 1 then 1 else n0)
      in bnd (ListImages mb pa p [(''prexel.app_id'', [])]) (\<lambda>imgs.
         bnd (range_keys order (group_keys imgs)) (\<lambda>ks.
         remove_refs mb p (concat (map (\<lambda>a. map ie_Ref (victims n (app_group a imgs))) ks)))))"

section \<open>One round\<close>

definition retention_sweep ::
  "'d moby \<Rightarrow> 'd prune_api \<Rightarrow> (nat \<Rightarrow> string list \<Rightarrow> string list) \<Rightarrow> provider \<Rightarrow> CleanupConfig \<Rightarrow> ('d, 'c, 'x, unit) hostm" where
  "retention_sweep mb pa order p cfg =
     bnd (attempt (RetainImagesPerApp mb pa order p (cc_ImageRetention cfg))) (\<lambda>_. ret ())"

definition runCleanup ::
  "'d moby \<Rightarrow> 'd prune_api \<Rightarrow> (nat \<Rightarrow> string list \<Rightarrow> string list) \<Rightarrow> provider \<Rightarrow> CleanupConfig \<Rightarrow> (nat \<Rightarrow> err + int) \<Rightarrow>
   ('d, 'c, 'x, unit) hostm" where
  "runCleanup mb pa order p cfg du =
     bnd (if cc_DiskThreshold cfg > 0
          then bnd (attempt (draw du)) (\<lambda>r. ret (case r of Inl _ \<Rightarrow> True | Inr used \<Rightarrow> \<not> used < cc_DiskThreshold cfg))
          else ret True) (\<lambda>full.
     bnd (if full then bnd (attempt (PruneDangling mb pa p)) (\<lambda>_. ret ()) else ret ()) (\<lambda>_.
     retention_sweep mb pa order p cfg))"

text \<open>What \<open>CleanupLoop\<close> does on a tick of its timer.\<close>

definition cleanup_tick ::
  "'d moby \<Rightarrow> 'd prune_api \<Rightarrow> (nat \<Rightarrow> string list \<Rightarrow> string list) \<Rightarrow> provider \<Rightarrow> CleanupConfig \<Rightarrow> (nat \<Rightarrow> err + int) \<Rightarrow> clock_time \<Rightarrow>
   ('d, 'c, 'x, unit) hostm" where
  "cleanup_tick mb pa order p cfg du t =
     (if \<not> cc_Enabled cfg then ret ()
      else if \<not> scheduleMatches (cc_Schedule cfg) t then ret ()
      else runCleanup mb pa order p cfg du)"

section \<open>The release check\<close>

record VersionInfo =
  vi_Version :: string
  vi_URL :: string
  vi_PublishedAt :: int

record LatestVersionChecker =
  lv_cached :: VersionInfo
  lv_fetchedAt :: int

record ghRelease =
  gr_TagName :: string
  gr_HTMLURL :: string
  gr_PublishedAt :: int
  gr_Draft :: bool
  gr_Prerelease :: bool

definition version_ttl :: int where
  "version_ttl = 24 * 60 * 60 * second"

definition version_failTTL :: int where
  "version_failTTL = 5 * 60 * second"

text \<open>The request, its status and its decoded body are the parameter.\<close>

definition fetch_release :: "(nat \<Rightarrow> err + int \<times> (err + ghRelease)) \<Rightarrow> nat \<Rightarrow> err + VersionInfo" where
  "fetch_release http k =
     (case http k of
        Inl e \<Rightarrow> Inl e
      | Inr (status, body) \<Rightarrow>
          if status \<noteq> 200 then Inl (ErrNew ''github releases'')
          else case body of
              Inl e \<Rightarrow> Inl e
            | Inr rel \<Rightarrow>
                if gr_Draft rel \<or> gr_Prerelease rel then Inl (ErrNew ''latest release is draft or prerelease'')
                else Inr \<lparr>vi_Version = trim_prefix ''v'' (gr_TagName rel), vi_URL = gr_HTMLURL rel, vi_PublishedAt = gr_PublishedAt rel\<rparr>)"

text \<open>
  \<open>Get\<close> at time \<open>now\<close>; a fetch is the \<open>k\<close>-th request and ends at time \<open>after\<close>. The second component says whether
  a request was made.
\<close>

definition version_Get ::
  "(nat \<Rightarrow> err + int \<times> (err + ghRelease)) \<Rightarrow> nat \<Rightarrow> int \<Rightarrow> int \<Rightarrow> LatestVersionChecker \<Rightarrow> VersionInfo \<times> bool \<times> LatestVersionChecker" where
  "version_Get http k now after c =
     (if vi_Version (lv_cached c) \<noteq> [] \<and> now - lv_fetchedAt c < version_ttl then (lv_cached c, False, c)
      else case fetch_release http k of
          Inl _ \<Rightarrow> (lv_cached c, True, c\<lparr>lv_fetchedAt := after - (version_ttl - version_failTTL)\<rparr>)
        | Inr fresh \<Rightarrow> (fresh, True, c\<lparr>lv_cached := fresh, lv_fetchedAt := after\<rparr>))"

section \<open>Disk usage is a percentage\<close>

text \<open>
  C26. The usage is always between 0 and 100, whatever the file system reports; and when no more blocks are free
  than there are and a hundred times the blocks fit in 64 bits, it is the used share rounded down.
\<close>

theorem disk_percent_exact:
  "0 \<le> disk_percent blocks bfree \<and> disk_percent blocks bfree \<le> 100 \<and>
   (blocks \<noteq> 0 \<and> bfree \<le> blocks \<and> unat blocks * 100 < 2 ^ 64 \<longrightarrow>
    disk_percent blocks bfree = int ((unat blocks - unat bfree) * 100 div unat blocks))"
proof (intro conjI impI)
  show "0 \<le> disk_percent blocks bfree" "disk_percent blocks bfree \<le> 100"
    by (simp_all add: disk_percent_def Let_def)
  assume *: "blocks \<noteq> 0 \<and> bfree \<le> blocks \<and> unat blocks * 100 < 2 ^ 64"
  then have pos: "0 < unat blocks" by (simp add: unat_gt_0)
  have diff: "unat (blocks - bfree) = unat blocks - unat bfree" using * by (simp add: unat_sub)
  have "unat (blocks - bfree) * unat (100 :: 64 word) < 2 ^ LENGTH(64)" using * diff by (simp, linarith)
  then have "unat ((blocks - bfree) * 100) = unat (blocks - bfree) * unat (100 :: 64 word)" by (rule iffD1 [OF unat_mult_lem])
  then have mult: "unat ((blocks - bfree) * 100) = (unat blocks - unat bfree) * 100" unfolding diff by simp
  let ?q = "(unat blocks - unat bfree) * 100 div unat blocks"
  have q: "unat ((blocks - bfree) * 100 div blocks) = ?q" unfolding unat_div mult ..
  have le: "?q \<le> 100"
  proof -
    have "(unat blocks - unat bfree) * 100 \<le> 100 * unat blocks" by simp
    then have "?q \<le> 100 * unat blocks div unat blocks" by (rule div_le_mono)
    then show ?thesis using pos by simp
  qed
  let ?w = "(blocks - bfree) * 100 div blocks"
  have u: "uint ?w = int ?q" using q by (metis of_nat_unat)
  then have "- (2 ^ 63) \<le> uint ?w" "uint ?w < 2 ^ 63" using le by simp_all
  then have "sint ?w = uint ?w" by (simp add: sint_uint signed_take_bit_int_eq_self)
  then have "sint ?w = int ?q" unfolding u .
  then show "disk_percent blocks bfree = int ?q" using * le by (simp add: disk_percent_def Let_def)
qed

theorem disk_percent_exact_witness: "disk_percent 1000 250 = 75"
  using disk_percent_exact [of 1000 250] by simp

section \<open>When the schedule fires\<close>

lemma star_graph: "is_graph CHR ''*''"
  by (simp add: is_graph_def)

lemma atoiOrStar_numeral: "n < 2 ^ 63 \<Longrightarrow> atoiOrStar (nat_digits n) = Some (int n)"
  using nat_digits_digits [of n] by (auto simp: atoiOrStar_def Atoi_nat_digits is_digit_def)

text \<open>The text of one field: a number, or the star.\<close>

definition field_text :: "nat option \<Rightarrow> string" where
  "field_text v = (case v of None \<Rightarrow> ''*'' | Some n \<Rightarrow> nat_digits n)"

lemma field_text_word: "field_text v \<noteq> [] \<and> list_all is_graph (field_text v)"
  by (cases v) (simp_all add: field_text_def star_graph nat_digits_graph nat_digits_ne)

lemma field_text_value:
  "(case v of None \<Rightarrow> True | Some n \<Rightarrow> n < 2 ^ 63) \<Longrightarrow> atoiOrStar (field_text v) = Some (case v of None \<Rightarrow> - 1 | Some n \<Rightarrow> int n)"
  by (cases v) (simp_all add: field_text_def atoiOrStar_numeral, simp add: atoiOrStar_def)

text \<open>
  In general the day of the month and the month are not looked at, whatever their fields say. (The comment on the
  check of the settings says that the loop parses the whole expression as cron does.)
\<close>

lemma schedule_fields:
  assumes "\<forall>v \<in> {m, h, d}. case v of None \<Rightarrow> True | Some n \<Rightarrow> n < 2 ^ 63"
  shows "scheduleMatches (field_text m @ '' '' @ field_text h @ '' '' @ field_text y @ '' '' @ field_text z @ '' '' @ field_text d) now \<longleftrightarrow>
     (case m of None \<Rightarrow> True | Some n \<Rightarrow> tm_Minute now = int n) \<and>
     (case h of None \<Rightarrow> True | Some n \<Rightarrow> tm_Hour now = int n) \<and>
     (case d of None \<Rightarrow> True | Some n \<Rightarrow> tm_Weekday now = int n)"
proof -
  have fields: "Fields (field_text m @ '' '' @ field_text h @ '' '' @ field_text y @ '' '' @ field_text z @ '' '' @ field_text d) =
    [field_text m, field_text h, field_text y, field_text z, field_text d]"
    using field_text_word fields_from_word [of "field_text d" "[]" "[]"]
    by (simp add: Fields_def fields_from_word fields_from_blank flush_def)
  have "atoiOrStar (field_text v) = Some (case v of None \<Rightarrow> - 1 | Some n \<Rightarrow> int n)" if "v \<in> {m, h, d}" for v
    using assms that by (intro field_text_value) blast
  then have "atoiOrStar (field_text m) = Some (case m of None \<Rightarrow> - 1 | Some n \<Rightarrow> int n)"
    "atoiOrStar (field_text h) = Some (case h of None \<Rightarrow> - 1 | Some n \<Rightarrow> int n)"
    "atoiOrStar (field_text d) = Some (case d of None \<Rightarrow> - 1 | Some n \<Rightarrow> int n)" by simp_all
  then show ?thesis
    unfolding scheduleMatches_def fields by (auto simp: agrees_def split: option.splits)
qed

lemma schedule_ignores_date:
  "scheduleMatches ''0 3 24 12 *'' \<lparr>tm_Minute = 0, tm_Hour = 3, tm_Weekday = 1\<rparr>"
  by code_simp

text \<open>
  C25. A daily or weekly schedule, that is one with a minute, an hour and a day of the week which are each a number of
  their range or a star, and stars for the day of the month and the month, fires exactly at the minutes whose minute, hour
  and day of the week are the ones it names.
\<close>

theorem schedule_fires:
  assumes "case m of None \<Rightarrow> True | Some n \<Rightarrow> n < 60" and "case h of None \<Rightarrow> True | Some n \<Rightarrow> n < 24"
    and "case d of None \<Rightarrow> True | Some n \<Rightarrow> n < 7"
  shows "scheduleMatches (field_text m @ '' '' @ field_text h @ '' * * '' @ field_text d) now \<longleftrightarrow>
     (case m of None \<Rightarrow> True | Some n \<Rightarrow> tm_Minute now = int n) \<and>
     (case h of None \<Rightarrow> True | Some n \<Rightarrow> tm_Hour now = int n) \<and>
     (case d of None \<Rightarrow> True | Some n \<Rightarrow> tm_Weekday now = int n)"
proof -
  have small: "case v of None \<Rightarrow> True | Some n \<Rightarrow> n < 2 ^ 63" if "v \<in> {m, h, d}" for v
    using assms that by (auto split: option.splits)
  have "field_text None = ''*''" by (simp add: field_text_def)
  then show ?thesis using schedule_fields [of m h d None None now] small by simp
qed

theorem schedule_fires_witness:
  "\<forall>now. scheduleMatches ''0 3 * * 0'' now \<longleftrightarrow> tm_Minute now = 0 \<and> tm_Hour now = 3 \<and> tm_Weekday now = 0"
proof -
  have "field_text (Some 0) = ''0''" "field_text (Some 3) = ''3''" by code_simp+
  then show ?thesis using schedule_fires [of "Some 0" "Some 3" "Some 0"] by simp
qed

text \<open>A field of minus one is taken for the star.\<close>

lemma minus_one_fires_always: "scheduleMatches ''-1 -1 * * -1'' now"
proof -
  have "Fields ''-1 -1 * * -1'' = [''-1'', ''-1'', ''*'', ''*'', ''-1'']" by code_simp
  moreover have "atoiOrStar ''-1'' = Some (- 1)" by code_simp
  ultimately show ?thesis by (simp add: scheduleMatches_def agrees_def)
qed

section \<open>The newest images stay\<close>

text \<open>
  What is relied on of the container engine: connecting and listing leave the images as they are, and removing a
  reference takes away that reference at most.
\<close>

definition image_law :: "'d moby \<Rightarrow> 'd prune_api \<Rightarrow> ('d \<Rightarrow> provider \<Rightarrow> string set) \<Rightarrow> bool" where
  "image_law mb pa img \<longleftrightarrow>
     (\<forall>p n d. img (snd (mb_Client mb p n d)) p = img d p \<and>
        (\<forall>ls. img (snd (pa_ImageList pa p ls n d)) p = img d p) \<and>
        (\<forall>ref. img d p - {ref} \<subseteq> img (snd (mb_ImageRemove mb p ref n d)) p))"

definition spares_images :: "('d \<Rightarrow> provider \<Rightarrow> string set) \<Rightarrow> provider \<Rightarrow> string set \<Rightarrow>
    ('d, 'c, 'x) hostdb_scheme \<Rightarrow> ('d, 'c, 'x) hostdb_scheme \<Rightarrow> bool" where
  "spares_images img p A w w' \<longleftrightarrow> img (dockerd w) p - A \<subseteq> img (dockerd w') p"

interpretation spi: frame "spares_images img p A" for img p A
  by unfold_locales (auto simp: spares_images_def)

lemma on_docker_spares:
  "(\<And>n d. img d p - A \<subseteq> img (snd (f n d)) p) \<Longrightarrow> moves (spares_images img p A) (on_docker f)"
  by (auto simp: moves_def spares_images_def on_docker_def tick_def split: prod.split) (metis DiffI snd_conv subsetD)

lemma RemoveImage_spares:
  assumes "image_law mb pa img" and "ref \<in> A"
  shows "moves (spares_images img p A) (RemoveImage mb p ref)"
proof -
  have "img d p - {ref} \<subseteq> img (snd (mb_ImageRemove mb p ref n d)) p" and client: "img (snd (mb_Client mb p n d)) p = img d p" for n d
    using assms(1) by (simp_all add: image_law_def)
  then have "img d p - A \<subseteq> img (snd (mb_ImageRemove mb p ref n d)) p" "img d p - A \<subseteq> img (snd (mb_Client mb p n d)) p" for n d
    using assms(2) by auto
  then show ?thesis unfolding RemoveImage_def classified_def by (intro spi.frame_rules moves_intro on_docker_spares)
qed

lemma remove_refs_spares:
  "image_law mb pa img \<Longrightarrow> set refs \<subseteq> A \<Longrightarrow> moves (spares_images img p A) (remove_refs mb p refs)"
  by (induction refs) (auto intro!: spi.frame_ret spi.frame_bnd spi.frame_attempt RemoveImage_spares)

lemma ListImages_spares: "image_law mb pa img \<Longrightarrow> moves (spares_images img p {}) (ListImages mb pa p ls)"
  unfolding ListImages_def
  by (intro spi.frame_rules moves_intro on_docker_spares) (auto simp: image_law_def)

text \<open>A victim has at least as many images before it as are kept.\<close>

lemma victim_old:
  assumes "e \<in> set (victims n es)"
  shows "n < length (filter (\<lambda>x. ie_Created e \<le> ie_Created x) es)"
proof -
  let ?s = "sort_key (\<lambda>e. - ie_Created e) es" and ?P = "\<lambda>x. ie_Created e \<le> ie_Created x"
  from assms obtain i where i: "n \<le> i" "i < length ?s" "e = ?s ! i"
    by (auto simp: victims_def in_set_conv_nth split: if_splits) (metis le_add1 less_diff_conv add.commute)
  have "sorted (map (\<lambda>e. - ie_Created e) ?s)" by simp
  then have "?P (?s ! j)" if "j \<le> i" for j
    using sorted_nth_mono [of "map (\<lambda>e. - ie_Created e) ?s" j i] that i by simp
  then have "list_all ?P (take (Suc i) ?s)" using i by (auto simp: list_all_length)
  then have "filter ?P (take (Suc i) ?s) = take (Suc i) ?s" by (simp add: list_all_iff filter_id_conv)
  then have "length (filter ?P (take (Suc i) ?s @ drop (Suc i) ?s)) = Suc i + length (filter ?P (drop (Suc i) ?s))"
    using i by (simp only: filter_append length_append) simp
  then have "Suc i \<le> length (filter ?P ?s)" unfolding append_take_drop_id by linarith
  also have "length (filter ?P ?s) = length (filter ?P es)" by (simp add: filter_sort)
  finally show ?thesis using i by simp
qed

lemma victim_of_group:
  assumes "e \<in> set (victims n (app_group a imgs))"
  shows "\<exists>im \<in> set imgs. app_label im = a \<and> e = image_entry im \<and>
    n < length (filter (\<lambda>x. app_label x = a \<and> im_Created im \<le> im_Created x) imgs)"
proof -
  have "e \<in> set (app_group a imgs)" using assms by (auto simp: victims_def dest: in_set_dropD split: if_splits)
  then obtain im where im: "im \<in> set imgs" "app_label im = a" "e = image_entry im" by (auto simp: app_group_def)
  from victim_old [OF assms] have "n < length (filter (\<lambda>x. app_label x = a \<and> im_Created im \<le> im_Created x) imgs)"
    by (simp add: im app_group_def filter_map comp_def image_entry_def conj_commute)
  with im show ?thesis by blast
qed

text \<open>The reference an image goes by in the sweep.\<close>

definition image_ref :: "image_summary \<Rightarrow> string" where
  "image_ref im = ie_Ref (image_entry im)"

text \<open>
  C24. The sweep never takes one of the newest images of an app: an image that at most as many images of its app
  as are to be kept, itself included, are as new as is still there afterwards, whatever fails and in whatever
  order the apps are visited.
\<close>

theorem retention_spares_newest:
  assumes "image_law mb pa img" and "ListImages mb pa p [(''prexel.app_id'', [])] w = (Inr imgs, v)"
    and "\<And>k xs. set (order k xs) = set xs"
    and "distinct (map image_ref (filter (\<lambda>x. app_label x \<noteq> []) imgs))"
    and "im \<in> set imgs" and "app_label im \<noteq> []" and "1 \<le> n"
    and "length (filter (\<lambda>x. app_label x = app_label im \<and> im_Created im \<le> im_Created x) imgs) \<le> nat n"
    and "image_ref im \<in> img (dockerd w) p"
  shows "image_ref im \<in> img (dockerd (snd (RetainImagesPerApp mb pa order p n w))) p"
proof -
  let ?refs = "concat (map (\<lambda>a. map ie_Ref (victims (nat n) (app_group a imgs))) (order (stp v) (group_keys imgs)))"
  have "image_ref im \<notin> set ?refs"
  proof
    assume "image_ref im \<in> set ?refs"
    then obtain a e where a: "a \<in> set (group_keys imgs)" and e: "e \<in> set (victims (nat n) (app_group a imgs))" "ie_Ref e = image_ref im"
      using assms(3) by auto
    from victim_of_group [OF e(1)] obtain im' where im': "im' \<in> set imgs" "app_label im' = a" "e = image_entry im'"
      and many: "nat n < length (filter (\<lambda>x. app_label x = a \<and> im_Created im' \<le> im_Created x) imgs)" by blast
    have "a \<noteq> []" using a by (auto simp: group_keys_def)
    then have "im' = im" using assms(4,5,6) im' e(2) by (auto simp: distinct_map inj_on_def image_ref_def)
    with many im' assms(8) show False by simp
  qed
  moreover have "image_ref im \<in> img (dockerd v) p"
    using movesD [OF ListImages_spares [OF assms(1)] assms(2)] assms(9) by (auto simp: spares_images_def)
  moreover have "spares_images img p (set ?refs) v (snd (remove_refs mb p ?refs v))"
    by (rule remove_refs_spares [OF assms(1) order_refl, unfolded moves_def, rule_format])
  ultimately have "image_ref im \<in> img (dockerd (snd (remove_refs mb p ?refs v))) p"
    unfolding spares_images_def by blast
  moreover have "snd (RetainImagesPerApp mb pa order p n w) = snd (remove_refs mb p ?refs v)"
    using assms(2,7) by (simp add: RetainImagesPerApp_def bnd_def Let_def range_keys_def access_def)
  ultimately show ?thesis by (simp only:)
qed

text \<open>Three images of one app and one of another; the engine keeps the set of references.\<close>

definition fx_image :: "string \<Rightarrow> string \<Rightarrow> int \<Rightarrow> image_summary" where
  "fx_image a ref t =
     \<lparr>im_ID = ''sha'' @ ref, im_RepoTags = [ref], im_RepoDigests = [], im_Labels = [(''prexel.app_id'', a)], im_Created = t\<rparr>"

definition fx_images :: "image_summary list" where
  "fx_images = [fx_image ''a1'' ''web:1'' 10, fx_image ''a1'' ''web:3'' 30, fx_image ''a2'' ''api:1'' 5, fx_image ''a1'' ''web:2'' 20]"

definition fx_prune :: "string set prune_api" where
  "fx_prune =
     \<lparr>pa_ImageList = (\<lambda>p ls n d. (Inr (filter (\<lambda>im. image_ref im \<in> d) fx_images), d)),
      pa_ImagesPrune = (\<lambda>p n d. (Inr 0, d)), pa_ContainersPrune = (\<lambda>p n d. (Inr 0, d))\<rparr>"

definition fx_dockerd :: "string set moby" where
  "fx_dockerd =
     \<lparr>mb_Client = (\<lambda>p n d. (Inr (), d)), mb_IsErrNotFound = (\<lambda>e. False), mb_NewPort = (\<lambda>a b. Inr a),
      mb_ContainerCreate = (\<lambda>p c n d. (Inr [], d)), mb_ContainerStart = (\<lambda>p k n d. (Inr (), d)),
      mb_ContainerStop = (\<lambda>p k t n d. (Inr (), d)), mb_ContainerRestart = (\<lambda>p k t n d. (Inr (), d)),
      mb_ContainerRemove = (\<lambda>p k f n d. (Inr (), d)), mb_ContainerRename = (\<lambda>p a b n d. (Inr (), d)),
      mb_ContainerInspect = (\<lambda>p k n d. (Inr True, d)), mb_ContainerList = (\<lambda>p fs n d. (Inr [], d)),
      mb_ExecCreate = (\<lambda>p k c n d. (Inr [], d)), mb_ExecAttach = (\<lambda>p k n d. (Inr (), d)), mb_ExecRead = (\<lambda>p k n d. (Inr [], d)),
      mb_ExecInspect = (\<lambda>p k n d. (Inr 0, d)), mb_ImageInspect = (\<lambda>p k n d. (Inr (), d)), mb_ImageList = (\<lambda>p n d. (Inr [], d)),
      mb_ImageRemove = (\<lambda>p ref n d. (Inr (), d - {ref})), mb_VolumeCreate = (\<lambda>p k ls n d. (Inr (), d)),
      mb_NetworkInspect = (\<lambda>p k n d. (Inr (), d)), mb_NetworkCreate = (\<lambda>p k n d. (Inr (), d))\<rparr>"

definition fx_imaged :: "(string set, unit) hostdb" where
  "fx_imaged = db.extend fx_apps (hostdb.fields (set (map image_ref fx_images)) () [] None [])"

lemma fx_image_law: "image_law fx_dockerd fx_prune (\<lambda>d p. d)"
  by (simp add: image_law_def fx_dockerd_def fx_prune_def)

lemma fx_listing:
  "ListImages fx_dockerd fx_prune p [(''prexel.app_id'', [])] fx_imaged = (Inr fx_images, tick (tick fx_imaged))"
proof -
  have "dockerd fx_imaged = image_ref ` set fx_images" by (simp add: fx_imaged_def db.defs hostdb.defs)
  then have "filter (\<lambda>im. image_ref im \<in> dockerd fx_imaged) fx_images = fx_images" by (simp add: filter_id_conv)
  then show ?thesis by (simp add: ListImages_def bnd_def on_docker_def fx_dockerd_def fx_prune_def tick_def)
qed

theorem retention_spares_newest_witness:
  "''web:2'' \<in> dockerd (snd (RetainImagesPerApp fx_dockerd fx_prune (\<lambda>_ xs. rev xs) (LocalProvider []) 2 fx_imaged)) \<and>
   ''web:1'' \<notin> dockerd (snd (RetainImagesPerApp fx_dockerd fx_prune (\<lambda>_ xs. rev xs) (LocalProvider []) 2 fx_imaged))"
proof
  let ?im = "fx_image ''a1'' ''web:2'' 20"
  have ref: "image_ref ?im = ''web:2''" by (simp add: image_ref_def image_entry_def fx_image_def)
  have "image_ref ?im \<in> dockerd (snd (RetainImagesPerApp fx_dockerd fx_prune (\<lambda>_ xs. rev xs) (LocalProvider []) 2 fx_imaged))"
  proof (rule retention_spares_newest [OF fx_image_law fx_listing])
    show "distinct (map image_ref (filter (\<lambda>x. app_label x \<noteq> []) fx_images))" by code_simp
    show "length (filter (\<lambda>x. app_label x = app_label ?im \<and> im_Created ?im \<le> im_Created x) fx_images) \<le> nat 2" by code_simp
    show "?im \<in> set fx_images" "app_label ?im \<noteq> []" by (simp_all add: fx_images_def app_label_def fx_image_def)
    show "image_ref ?im \<in> dockerd fx_imaged" by (simp add: fx_imaged_def db.defs hostdb.defs fx_images_def)
  qed simp_all
  then show "''web:2'' \<in> dockerd (snd (RetainImagesPerApp fx_dockerd fx_prune (\<lambda>_ xs. rev xs) (LocalProvider []) 2 fx_imaged))" unfolding ref .
  show "''web:1'' \<notin> dockerd (snd (RetainImagesPerApp fx_dockerd fx_prune (\<lambda>_ xs. rev xs) (LocalProvider []) 2 fx_imaged))"
    by code_simp
qed

section \<open>The release check backs off\<close>

text \<open>
  With a version in the cache a failed request holds back the next one for five minutes. Before the first success
  nothing does: the cache is also required to hold a version, so every call makes a request.
\<close>

lemma failed_fetch_backs_off:
  assumes "fetch_release http k = Inl e" and "vi_Version (lv_cached c) \<noteq> []" and "version_ttl \<le> now - lv_fetchedAt c"
    and "later < after + version_failTTL"
  shows "fst (snd (version_Get http k' later later' (snd (snd (version_Get http k now after c))))) = False"
  using assms by (simp add: version_Get_def)

lemma cold_start_never_backs_off:
  assumes "fetch_release http k = Inl e" and "vi_Version (lv_cached c) = []"
  shows "fst (snd (version_Get http k' later later' (snd (snd (version_Get http k now after c))))) = True"
  using assms by (simp add: version_Get_def split: sum.split)

end
