(* ===== verification/Compose.thy ===== *)
theory Compose
  imports Strconv "HOL-Library.AList" "HOL-Library.Multiset"
begin

text \<open>
  The reading of compose files (\<open>internal/composespec/parse.go\<close>): what is taken of a document once the YAML
  library has parsed it. The library is the record \<open>yaml\<close>: the attributes of a node and the conversions
  \<open>Decode\<close> makes, one field per type the code asks for. Where the code ranges over a map, \<open>order\<close> gives the
  order of its keys. A map from strings is an association list with distinct keys.
\<close>

section \<open>Documents\<close>

datatype ykind = DocumentNode | SequenceNode | MappingNode | ScalarNode | AliasNode

record 'n rawBuild =
  rb_Context :: string
  rb_Dockerfile :: string
  rb_Args :: 'n

record 'n rawService =
  rs_Image :: string
  rs_Build :: 'n
  rs_Ports :: "'n list"
  rs_Expose :: "'n list"
  rs_Healthcheck :: 'n
  rs_Environment :: 'n
  rs_Command :: 'n
  rs_Restart :: string
  rs_DependsOn :: 'n

record 'n yaml =
  y_Unmarshal :: "string \<Rightarrow> err + (string \<times> 'n rawService) list"
  y_IsZero :: "'n \<Rightarrow> bool"
  y_Kind :: "'n \<Rightarrow> ykind"
  y_Value :: "'n \<Rightarrow> string"
  y_Strings :: "'n \<Rightarrow> err + string list"
  y_Map :: "'n \<Rightarrow> err + (string \<times> string) list"
  y_Keys :: "'n \<Rightarrow> err + string list"
  y_Build :: "'n \<Rightarrow> err + 'n rawBuild"
  y_Target :: "'n \<Rightarrow> err + int"

record BuildSpec =
  bs_Context :: string
  bs_Dockerfile :: string
  bs_Args :: "(string \<times> string) list option"

record ComposeService =
  sp_Name :: string
  sp_Image :: string
  sp_HasBuild :: bool
  sp_Build :: "BuildSpec option"
  sp_Ports :: "int list"
  sp_HasHealthcheck :: bool
  sp_Env :: "(string \<times> string) list option"
  sp_Command :: "string list"
  sp_Restart :: string
  sp_DependsOn :: "string list"

section \<open>Ports\<close>

definition extractContainerPort :: "string \<Rightarrow> int" where
  "extractContainerPort s0 =
     (let s = trim_space s0
      in if s = [] then 0
         else let s = takeWhile (\<lambda>c. c \<noteq> CHR ''/'') s;
                  final = last (split_on (CHR '':'') s);
                  first = takeWhile (\<lambda>c. c \<noteq> CHR ''-'') final
              in case Atoi (trim_space first) of None \<Rightarrow> 0 | Some n \<Rightarrow> n)"

definition add_port :: "int \<Rightarrow> int list \<Rightarrow> int list" where
  "add_port p out = (if p \<le> 0 \<or> p > 65535 \<or> p \<in> set out then out else out @ [p])"

definition port_entry :: "'n yaml \<Rightarrow> 'n \<Rightarrow> int list \<Rightarrow> int list" where
  "port_entry y n out =
     (case y_Kind y n of
        ScalarNode \<Rightarrow> add_port (extractContainerPort (y_Value y n)) out
      | MappingNode \<Rightarrow> (case y_Target y n of Inl _ \<Rightarrow> out | Inr t \<Rightarrow> add_port t out)
      | _ \<Rightarrow> out)"

definition expose_entry :: "'n yaml \<Rightarrow> 'n \<Rightarrow> int list \<Rightarrow> int list" where
  "expose_entry y n out =
     (if y_Kind y n = ScalarNode then add_port (extractContainerPort (y_Value y n)) out else out)"

definition collectPorts :: "'n yaml \<Rightarrow> 'n list \<Rightarrow> 'n list \<Rightarrow> int list" where
  "collectPorts y ports expose = fold (expose_entry y) expose (fold (port_entry y) ports [])"

section \<open>Environment, command, dependencies, build\<close>

definition env_item :: "string \<Rightarrow> (string \<times> string) list \<Rightarrow> (string \<times> string) list" where
  "env_item item out =
     (case cut_at (CHR ''='') item of (k, v, found) \<Rightarrow>
        AList.update (trim_space k) (if found then v else []) out)"

definition decodeEnv :: "'n yaml \<Rightarrow> 'n \<Rightarrow> (string \<times> string) list option" where
  "decodeEnv y n =
     (if y_IsZero y n then None
      else let out = (case y_Kind y n of
                        MappingNode \<Rightarrow> (case y_Map y n of Inl _ \<Rightarrow> [] | Inr m \<Rightarrow> fold (\<lambda>(k, v). AList.update k v) m [])
                      | SequenceNode \<Rightarrow> (case y_Strings y n of Inl _ \<Rightarrow> [] | Inr items \<Rightarrow> fold env_item items [])
                      | _ \<Rightarrow> [])
           in if out = [] then None else Some out)"

definition decodeCommand :: "'n yaml \<Rightarrow> 'n \<Rightarrow> string list" where
  "decodeCommand y n =
     (if y_IsZero y n then []
      else case y_Kind y n of
          ScalarNode \<Rightarrow> (let s = trim_space (y_Value y n) in if s = [] then [] else Fields s)
        | SequenceNode \<Rightarrow> (case y_Strings y n of Inl _ \<Rightarrow> [] | Inr out \<Rightarrow> out)
        | _ \<Rightarrow> [])"

definition decodeDependsOn :: "'n yaml \<Rightarrow> (string list \<Rightarrow> string list) \<Rightarrow> 'n \<Rightarrow> string list" where
  "decodeDependsOn y order n =
     (if y_IsZero y n then []
      else case y_Kind y n of
          SequenceNode \<Rightarrow> (case y_Strings y n of Inl _ \<Rightarrow> [] | Inr out \<Rightarrow> out)
        | MappingNode \<Rightarrow> (case y_Keys y n of Inl _ \<Rightarrow> [] | Inr ks \<Rightarrow> order ks)
        | _ \<Rightarrow> [])"

definition decodeBuild :: "'n yaml \<Rightarrow> 'n \<Rightarrow> BuildSpec option" where
  "decodeBuild y n =
     (if y_IsZero y n then None
      else case y_Kind y n of
          ScalarNode \<Rightarrow>
            (let v = trim_space (y_Value y n)
             in if v = [] then None else Some \<lparr>bs_Context = v, bs_Dockerfile = [], bs_Args = None\<rparr>)
        | MappingNode \<Rightarrow>
            (case y_Build y n of
               Inl _ \<Rightarrow> None
             | Inr raw \<Rightarrow>
                 Some \<lparr>bs_Context = trim_space (rb_Context raw), bs_Dockerfile = trim_space (rb_Dockerfile raw),
                       bs_Args = decodeEnv y (rb_Args raw)\<rparr>)
        | _ \<Rightarrow> None)"

section \<open>Services\<close>

definition compose_service :: "'n yaml \<Rightarrow> (string list \<Rightarrow> string list) \<Rightarrow> string \<Rightarrow> 'n rawService \<Rightarrow> ComposeService" where
  "compose_service y order name rs =
     \<lparr>sp_Name = name, sp_Image = trim_space (rs_Image rs), sp_HasBuild = (\<not> y_IsZero y (rs_Build rs)),
      sp_Build = decodeBuild y (rs_Build rs), sp_Ports = collectPorts y (rs_Ports rs) (rs_Expose rs),
      sp_HasHealthcheck = (\<not> y_IsZero y (rs_Healthcheck rs)), sp_Env = decodeEnv y (rs_Environment rs),
      sp_Command = decodeCommand y (rs_Command rs), sp_Restart = trim_space (rs_Restart rs),
      sp_DependsOn = decodeDependsOn y order (rs_DependsOn rs)\<rparr>"

definition compose_Parse :: "'n yaml \<Rightarrow> (string list \<Rightarrow> string list) \<Rightarrow> string \<Rightarrow> err + ComposeService list" where
  "compose_Parse y order data =
     (if data = [] then Inl (ErrNew ''compose: empty document'')
      else case y_Unmarshal y data of
          Inl e \<Rightarrow> Inl (ErrWrap ''compose: parse yaml'' e)
        | Inr raw \<Rightarrow>
            if raw = [] then Inl (ErrNew ''compose: no services declared'')
            else Inr (map (\<lambda>name. compose_service y order name (the (map_of raw name))) (order (map fst raw))))"

section \<open>Ports are ports\<close>

definition ports_ok :: "int list \<Rightarrow> bool" where
  "ports_ok ps \<longleftrightarrow> distinct ps \<and> list_all (\<lambda>p. 1 \<le> p \<and> p \<le> 65535) ps"

lemma add_port_ok: "ports_ok out \<Longrightarrow> ports_ok (add_port p out)"
  by (auto simp: add_port_def ports_ok_def)

lemma fold_ports_ok:
  "(\<And>n out. ports_ok out \<Longrightarrow> ports_ok (f n out)) \<Longrightarrow> ports_ok out \<Longrightarrow> ports_ok (fold f ns out)"
  by (induction ns arbitrary: out) auto

lemma collectPorts_ok: "ports_ok (collectPorts y ports expose)"
  unfolding collectPorts_def
  by (intro fold_ports_ok)
    (auto simp: expose_entry_def port_entry_def add_port_ok split: ykind.split sum.split, simp add: ports_ok_def)

text \<open>
  C28. Whatever document is read and whatever the YAML library makes of it, every service that is returned has
  distinct ports between 1 and 65535; the services are those of the document, each once, when the map is walked
  through once.
\<close>

theorem compose_ports_legal:
  assumes "compose_Parse y order data = Inr svcs" and "\<And>ks. mset (order ks) = mset ks"
  shows "(\<forall>s \<in> set svcs. distinct (sp_Ports s) \<and> (\<forall>p \<in> set (sp_Ports s). 1 \<le> p \<and> p \<le> 65535)) \<and>
    (\<exists>raw. y_Unmarshal y data = Inr raw \<and> raw \<noteq> [] \<and> mset (map sp_Name svcs) = mset (map fst raw))"
proof -
  from assms(1) obtain raw where raw: "y_Unmarshal y data = Inr raw" "raw \<noteq> []"
    and svcs: "svcs = map (\<lambda>name. compose_service y order name (the (map_of raw name))) (order (map fst raw))"
    by (auto simp: compose_Parse_def split: if_splits sum.splits)
  have "\<forall>s \<in> set svcs. ports_ok (sp_Ports s)"
    by (auto simp: svcs compose_service_def collectPorts_ok)
  moreover have "map sp_Name svcs = order (map fst raw)"
    by (simp add: svcs comp_def compose_service_def)
  ultimately show ?thesis using raw assms(2) [of "map fst raw"] by (auto simp: ports_ok_def list_all_iff)
qed

section \<open>Short port syntax\<close>

lemma space_bytes: "p \<in> set space_encodings \<Longrightarrow> p \<noteq> [] \<and> list_all (\<lambda>c. \<not> is_graph c) p"
proof -
  have "list_all (\<lambda>p. p \<noteq> [] \<and> list_all (\<lambda>c. \<not> is_graph c) p) space_encodings"
    by (simp add: space_encodings_def is_graph_def)
  then show "p \<in> set space_encodings \<Longrightarrow> p \<noteq> [] \<and> list_all (\<lambda>c. \<not> is_graph c) p" by (simp add: list_all_iff)
qed

lemma trim_space_graph: "list_all is_graph s \<Longrightarrow> trim_space s = s"
proof (rule trim_space_stop)
  fix p assume s: "list_all is_graph s" and "p \<in> set space_encodings"
  then have p: "p \<noteq> []" "list_all (\<lambda>c. \<not> is_graph c) p" using space_bytes by blast+
  have "\<not> set p \<subseteq> set s" using s p by (cases p) (auto simp: list_all_iff)
  then show "\<not> prefix p s" "\<not> suffix p s" by (auto dest: set_mono_prefix set_mono_suffix)
qed

lemma split_on_foldr:
  "\<exists>as. as \<noteq> [] \<and> foldr (\<lambda>d acc. if d = c then [] # acc else (d # hd acc) # tl acc) xs (a # rest) = as @ rest"
proof (induction xs)
  case Nil
  show ?case by (rule exI [of _ "[a]"]) simp
next
  case (Cons d xs)
  then obtain b bs where
    "foldr (\<lambda>d acc. if d = c then [] # acc else (d # hd acc) # tl acc) xs (a # rest) = (b # bs) @ rest"
    by (metis neq_Nil_conv)
  then show ?case
    by (intro exI [of _ "if d = c then [] # b # bs else (d # b) # bs"]) simp
qed

lemma split_on_plain: "c \<notin> set ys \<Longrightarrow> split_on c ys = [ys]"
  by (induction ys) (auto simp: split_on_def)

lemma split_on_last: "c \<notin> set ys \<Longrightarrow> last (split_on c (xs @ c # ys)) = ys"
proof -
  assume "c \<notin> set ys"
  then have "split_on c (xs @ c # ys) = foldr (\<lambda>d acc. if d = c then [] # acc else (d # hd acc) # tl acc) xs ([] # [ys])"
    using split_on_plain [of c ys] by (simp add: split_on_def)
  then show ?thesis using split_on_foldr [of c xs "[]" "[ys]"] by auto
qed

lemma digits_avoid: "list_all is_digit s \<Longrightarrow> CHR ''/'' \<notin> set s \<and> CHR '':'' \<notin> set s \<and> CHR ''-'' \<notin> set s"
  by (auto simp: list_all_iff is_digit_def)

text \<open>
  C29. In the short forms of a port, with or without an address or host port before the last colon and with or
  without a protocol after a slash, the container port is what is read.
\<close>

theorem short_port_roundtrip:
  assumes "n < 2 ^ 63" and "list_all is_graph host" and "CHR ''/'' \<notin> set host" and "list_all is_graph proto"
    and "pre = [] \<or> pre = host @ '':''" and "post = [] \<or> post = ''/'' @ proto"
  shows "extractContainerPort (pre @ nat_digits n @ post) = int n"
proof -
  let ?d = "nat_digits n"
  have d: "list_all is_digit ?d" "?d \<noteq> []" "list_all is_graph ?d"
    by (simp_all add: nat_digits_digits nat_digits_ne nat_digits_graph)
  have "list_all is_graph (pre @ ?d @ post)" using assms(2,4-6) d by (auto simp: is_graph_def)
  then have trim: "trim_space (pre @ ?d @ post) = pre @ ?d @ post" by (rule trim_space_graph)
  have "CHR ''/'' \<notin> set (pre @ ?d)" using assms(3,5) digits_avoid [OF d(1)] by auto
  then have "takeWhile (\<lambda>c. c \<noteq> CHR ''/'') ((pre @ ?d) @ post) = (pre @ ?d) @ takeWhile (\<lambda>c. c \<noteq> CHR ''/'') post"
    by (intro takeWhile_append2) metis
  moreover have "takeWhile (\<lambda>c. c \<noteq> CHR ''/'') post = []" using assms(6) by (elim disjE) simp_all
  ultimately have no_proto: "takeWhile (\<lambda>c. c \<noteq> CHR ''/'') (pre @ ?d @ post) = pre @ ?d" by (simp only: append_assoc append_Nil2)
  have final: "last (split_on (CHR '':'') (pre @ ?d)) = ?d"
  proof -
    have "CHR '':'' \<notin> set ?d" using digits_avoid [OF d(1)] by blast
    then have "last (split_on (CHR '':'') (host @ CHR '':'' # ?d)) = ?d" "split_on (CHR '':'') ?d = [?d]"
      by (simp_all only: split_on_last split_on_plain not_False_eq_True)
    then show ?thesis using assms(5) by (elim disjE) (simp_all only: append.simps append_assoc last.simps if_True simp_thms)
  qed
  have first: "takeWhile (\<lambda>c. c \<noteq> CHR ''-'') ?d = ?d" using digits_avoid [OF d(1)] by (auto simp: takeWhile_eq_all_conv)
  show ?thesis
    unfolding extractContainerPort_def Let_def trim no_proto final first trim_space_graph [OF d(3)] Atoi_nat_digits [OF assms(1)]
    using d(2) by simp
qed

theorem short_port_roundtrip_witness: "extractContainerPort ''127.0.0.1:8080:80/udp'' = 80"
proof -
  have "nat_digits 80 = ''80''" by code_simp
  moreover have "list_all is_graph ''127.0.0.1:8080''" "list_all is_graph ''udp''" by code_simp+
  ultimately show ?thesis
    using short_port_roundtrip [of 80 "''127.0.0.1:8080''" "''udp''" "''127.0.0.1:8080:''" "''/udp''"] by simp
qed

section \<open>Environment entries\<close>

lemma env_item_pair:
  "CHR ''='' \<notin> set k \<Longrightarrow> trim_space k = k \<Longrightarrow> env_item (k @ CHR ''='' # v) out = AList.update k v out"
  by (simp add: env_item_def cut_at_def takeWhile_append takeWhile_eq_all_conv dropWhile_append)

text \<open>
  A list of entries of the form key, equals sign, value is read as the map of these keys and values, where the
  last entry of a key counts and the value may itself contain equals signs.
\<close>

theorem env_list_roundtrip:
  assumes "y_Strings y n = Inr (map (\<lambda>(k, v). k @ ''='' @ v) kvs)" and "y_Kind y n = SequenceNode" and "\<not> y_IsZero y n"
    and "kvs \<noteq> []" and "\<And>k v. (k, v) \<in> set kvs \<Longrightarrow> CHR ''='' \<notin> set k \<and> trim_space k = k"
  shows "\<exists>env. decodeEnv y n = Some env \<and> distinct (map fst env) \<and> map_of env = map_of (rev kvs)"
proof -
  have run: "fold env_item (map (\<lambda>(k, v). k @ ''='' @ v) kvs) out = fold (\<lambda>(k, v). AList.update k v) kvs out" for out
    using assms(5)
  proof (induction kvs arbitrary: out)
    case (Cons kv kvs)
    obtain k v where kv: "kv = (k, v)" by (cases kv)
    then have "env_item (k @ CHR ''='' # v) out = AList.update k v out" using Cons.prems by (intro env_item_pair) auto
    moreover have "fold env_item (map (\<lambda>(k, v). k @ ''='' @ v) kvs) out' = fold (\<lambda>(k, v). AList.update k v) kvs out'" for out'
      by (rule Cons.IH) (use Cons.prems in auto)
    ultimately show ?case using kv by simp
  qed simp
  have "map_of (fold (\<lambda>(k, v). AList.update k v) kvs out) = map_of (rev kvs @ out)" for out
    by (induction kvs arbitrary: out) (auto simp: update_conv' fun_eq_iff map_add_def split: option.split)
  moreover have "distinct (map fst out) \<Longrightarrow> distinct (map fst (fold (\<lambda>(k, v). AList.update k v) kvs out))" for out
    by (induction kvs arbitrary: out) (auto simp: distinct_update)
  moreover have "map_of (rev kvs) \<noteq> Map.empty" using assms(4) by simp
  ultimately have "fold (\<lambda>(k, v). AList.update k v) kvs [] \<noteq> []" "map_of (fold (\<lambda>(k, v). AList.update k v) kvs []) = map_of (rev kvs)"
    "distinct (map fst (fold (\<lambda>(k, v). AList.update k v) kvs []))"
    by (metis append_Nil2 map_of.simps(1), metis append_Nil2, simp)
  then show ?thesis using assms(1-3) run [of "[]"] by (simp add: decodeEnv_def Let_def)
qed

section \<open>A document\<close>

text \<open>Nodes are lists of lines: none for an absent node, one for a scalar, more for a sequence.\<close>

definition fx_service :: "string list rawService" where
  "fx_service =
     \<lparr>rs_Image = '' nginx '', rs_Build = [], rs_Ports = [[''8080:80''], [''443/tcp''], [''0'']], rs_Expose = [[''80'']],
      rs_Healthcheck = [], rs_Environment = [''A=1'', ''B=x=y'', ''A=2''], rs_Command = [], rs_Restart = [], rs_DependsOn = []\<rparr>"

definition fx_yaml :: "string list yaml" where
  "fx_yaml =
     \<lparr>y_Unmarshal = (\<lambda>_. Inr [(''web'', fx_service), (''db'', fx_service)]), y_IsZero = (\<lambda>n. n = []),
      y_Kind = (\<lambda>n. if length n = 1 then ScalarNode else SequenceNode), y_Value = concat, y_Strings = Inr,
      y_Map = (\<lambda>_. Inr []), y_Keys = (\<lambda>_. Inr []),
      y_Build = (\<lambda>_. Inr \<lparr>rb_Context = [], rb_Dockerfile = [], rb_Args = []\<rparr>), y_Target = (\<lambda>_. Inr 0)\<rparr>"

theorem compose_ports_legal_witness:
  "\<exists>svcs. compose_Parse fx_yaml rev ''services:'' = Inr svcs \<and> map sp_Ports svcs = [[80, 443], [80, 443]] \<and>
     (\<forall>s \<in> set svcs. distinct (sp_Ports s))"
proof -
  have "extractContainerPort ''8080:80'' = 80" "extractContainerPort ''443/tcp'' = 443" "extractContainerPort ''0'' = 0"
    "extractContainerPort ''80'' = 80" by code_simp+
  then have ports: "collectPorts fx_yaml (rs_Ports fx_service) (rs_Expose fx_service) = [80, 443]"
    by (simp add: collectPorts_def fx_service_def fx_yaml_def port_entry_def expose_entry_def add_port_def)
  have "y_Unmarshal fx_yaml d = Inr [(''web'', fx_service), (''db'', fx_service)]" for d by (simp add: fx_yaml_def)
  then have parse: "compose_Parse fx_yaml rev ''services:'' =
      Inr [compose_service fx_yaml rev ''db'' fx_service, compose_service fx_yaml rev ''web'' fx_service]"
    by (simp add: compose_Parse_def)
  from compose_ports_legal [OF parse] parse show ?thesis by (simp add: compose_service_def ports)
qed

theorem env_list_roundtrip_witness:
  "\<exists>env. decodeEnv fx_yaml [''A=1'', ''B=x=y'', ''A=2''] = Some env \<and> map_of env ''A'' = Some ''2'' \<and> map_of env ''B'' = Some ''x=y''"
proof -
  have "\<forall>(k, v) \<in> set [(''A'', ''1''), (''B'', ''x=y''), (''A'', ''2'')]. CHR ''='' \<notin> set k \<and> trim_space k = k" by code_simp
  with env_list_roundtrip [of fx_yaml "[''A=1'', ''B=x=y'', ''A=2'']" "[(''A'', ''1''), (''B'', ''x=y''), (''A'', ''2'')]"]
  show ?thesis by (fastforce simp: fx_yaml_def)
qed

end
