(* ===== verification/Spec2Isabelle.thy ===== *)
theory Spec2Isabelle
  imports Rbac_Effects Tokens_Props TwoFactor_Props RateLimit_Props EventBus Setup ApiToken Deploy_Witness Domain_Props GitUrl AppVolume Tag Server_Props AppCleanup Instance_Props Instance_Cleanup Compose
begin

text \<open>
  Verification of Prexel, a self-hosted deployment platform written in Go (\<open>src/\<close>).

  \<^bold>\<open>The program.\<close> One server process holds a SQLite database
  (\<open>src/migrations\<close>) and answers an HTTP API (\<open>internal/api\<close>). A request
  passes the middlewares (rate limits, set-up and maintenance gates, authentication:
  \<open>internal/api/apimiddleware\<close>), then a handler calls one of the services: access control
  (\<open>internal/rbac\<close>), sessions and two-factor authentication (\<open>internal/auth\<close>),
  personal tokens (\<open>internal/apitoken\<close>), set-up (\<open>internal/setup\<close>), apps,
  volumes, tags, secrets (\<open>internal/app\<close>, \<open>internal/appvolume\<close>,
  \<open>internal/tag\<close>, \<open>internal/secret\<close>), git sources
  (\<open>internal/gitsrc\<close>), domains and DNS zones (\<open>internal/domains\<close>,
  \<open>internal/dnszone\<close>), machines (\<open>internal/server\<close> over
  \<open>internal/ssh\<close>), and the deploy engine (\<open>internal/deploy\<close>), which builds an
  image (of every service of a compose file, \<open>internal/composespec\<close>), swaps the container
  of an app through the container engine (\<open>internal/dockersvc\<close>) and moves the routes of the
  reverse proxy (\<open>internal/caddy\<close>). Background loops check DNS records, certificates and
  machines, and a worker cleans up after deleted apps (\<open>internal/appcleanup\<close>). The settings
  of the instance (\<open>internal/instance\<close>) are read by most of them. Events of all of them go
  through an in-memory bus (\<open>internal/eventbus\<close>).

  \<^bold>\<open>How it is modelled.\<close> A Go function is a definition of the same name (with the
  package as prefix where two packages use a name) in the computation type \<open>go\<close> of
  \<open>Prelude\<close>: a function from the state to an error or a value, and the state after it. The
  state is a record: \<open>db\<close> (theory \<open>Database\<close>) holds the tables, one list of
  rows per table, with the constraints, cascades and defaults of the migrations in its statements, and
  an oracle for the clock, random bytes, identifiers and the failure of every single statement;
  \<open>hostdb\<close> (theory \<open>Docker\<close>) extends it by the state of the container engine,
  of the proxy and of the locks of the deploy engine. Each call of the driver moves the step counter, so
  two calls may fail or read the clock differently. Transactions put back the tables on an error. Errors
  are values (\<open>err\<close>) with \<open>errors.Is\<close> and \<open>fmt.Errorf\<close> as
  functions on them; where a message is only formatted for a human, the model keeps its constant part.
  Strings are lists of bytes; integers are \<open>int\<close> with the bounds of \<open>int64\<close>
  written out where the code depends on them. Code that is not part of the repository is an argument:
  bcrypt, the JWT and TOTP libraries, AES-GCM, the Moby SDK, HTTP, SSH and name resolution, each a
  record of functions, with what is relied on as a hypothesis of the theorems that need it and a
  concrete instance in their witnesses. What the code leaves to chance (the order of ranging over a map,
  the interleaving of goroutines) is an argument or a step relation.

  \<^bold>\<open>Theories.\<close>
  \<^item> \<open>Prelude\<close>: strings, errors, the computation type, and the reasoning about it:
    the locale \<open>frame\<close> (a relation between states that is reflexive, transitive and kept by
    moving the step counter is respected by every composition of computations that respect it),
    \<open>keeps\<close>, \<open>yields\<close>, \<open>brings\<close> and \<open>raises\<close>.
    \<open>Database\<close>: the schema. \<open>Fixtures\<close>: states for the witnesses.
  \<^item> \<open>Rbac_Core\<close>, \<open>Rbac_Service\<close>: catalogue, normalisation, and every
    request on roles, teams, members, avatars and the access decisions. \<open>Rbac_Props\<close>:
    system roles and the catalogue survive every sequence of requests (locales
    \<open>request_frame\<close>, \<open>roles_frame\<close>). \<open>Rbac_Access\<close>: the decisions
    equal a policy stated over the rows and never fail open. \<open>Rbac_Effects\<close>: what
    deletions, membership changes and seeding do.
  \<^item> \<open>Password\<close>, \<open>Crypto\<close>: the password policy and sealed values.
    \<open>Tokens\<close>, \<open>Tokens_Props\<close>: access and refresh tokens; rotation refines an
    abstract machine on token families, which gives single use, reuse detection and the end of sessions.
    \<open>TwoFactor\<close>, \<open>TwoFactor_Props\<close>: challenges, one-time codes, recovery
    codes, enrolment.
  \<^item> \<open>RateLimit\<close>, \<open>RateLimit_Props\<close>: both limiters, bounded by their
    burst and rate through the locale \<open>token_bucket\<close>. \<open>EventBus\<close>: the bus
    under all interleavings. \<open>Setup\<close>: the wizard and the two gates.
    \<open>ApiToken\<close>: personal tokens and the authentication middleware.
  \<^item> \<open>Docker\<close>, \<open>Caddy\<close>, \<open>Secrets\<close>, \<open>Services\<close>:
    what the deploy engine calls. \<open>Deploy_Engine\<close>: the deployments table and admission.
    \<open>Deploy_Swap\<close>: the swap, for one container and for compose apps, rollback, restart,
    stop and reconciliation. \<open>Deploy_Frames\<close>: what all of it leaves alone (locales
    \<open>host_frame\<close>, \<open>own_frame\<close>, \<open>pipeline_frame\<close>).
    \<open>Deploy_Admission\<close>: locks and semaphore refine an abstract admission under a
    limit that does not change (it is read once).
    \<open>Deploy_Outcome\<close>: the deployment row of a call. \<open>Deploy_Containers\<close>:
    containers under a failed and a successful swap. \<open>Deploy_Props\<close>: rollback target,
    reconciliation, termination of the health check, names. \<open>Deploy_Witness\<close>: a concrete
    engine.
  \<^item> \<open>DnsZone\<close>, \<open>Domain_Service\<close>, \<open>Domain_Props\<close>: zones and
    domains with one pass of the two loops; the invariant of the domains table (locale
    \<open>domain_frame\<close>) and the distinctness of routes.
  \<^item> \<open>GitSource\<close>, \<open>GitUrl\<close>: git sources and the address filter in front
    of a clone.
  \<^item> \<open>App_Service\<close>, \<open>App_Props\<close>: the app service and the validity of the
    rows it writes. \<open>AppVolume\<close>, \<open>Tag\<close>: volumes and tags of apps.
    \<open>AppCleanup\<close>: the queue of the clean-up worker and what a task may touch.
  \<^item> \<open>Server_Service\<close>, \<open>Server_Props\<close>: machines, connection tests, host
    key pinning, the status pass.
  \<^item> \<open>Strconv\<close>: splitting into fields and reading numbers. \<open>Instance\<close>,
    \<open>Instance_Props\<close>: the settings of the server and the snapshot other components read;
    updates are exact and keep the settings legal. \<open>Instance_Cleanup\<close>: the scheduled
    clean-up (schedule, disk usage in 64-bit words, retention of the newest images) and the release
    check.
  \<^item> \<open>Compose\<close>: what is read of a compose file; ports are legal and short forms round
    trip.

  \<^bold>\<open>Bounds and fuel.\<close> Only the loop of the health check takes a number of rounds
  (\<open>en_fuel\<close>); a theorem of \<open>Deploy_Props\<close> shows that some number is enough
  for every answer of the app as long as the clock goes on, so that more rounds change nothing. Every
  other function is total: a loop goes over a list, or has a termination proof (port scan, slug search,
  rune decoding, prefix stripping). The rates of the limiters and the parsed limits of containers are exact
  rationals where the code uses \<open>float64\<close>; changing the case of letters is exact for ASCII.

  \<^bold>\<open>Not modelled.\<close> The handlers and the router (decoding requests and encoding
  responses), the command line client and the web interface (presentation); the build engine (git, tar
  and image build streams), the GitHub API client, backup archives, configuration, certificates and the
  opening of the database (files, processes and libraries); the timers around the background passes; log
  streaming of the container engine.
\<close>

end
